(* ===== verification/Prelude.thy ===== *)
theory Prelude
  imports Main "HOL-Library.Word" "HOL-Library.Char_ord" "HOL-Library.Sublist" "HOL-Library.AList"
begin

text \<open>
  Shared vocabulary of the development: Go's strings and byte slices, the parts of Go's
  \<open>strings\<close> package the sources call, fallible results, and the generic lemmas on
  lists, maps and characters the components use.

  A Go \<open>string\<close> or \<open>[]byte\<close> is a sequence of bytes. HOL's \<^typ>\<open>char\<close> is
  exactly a byte, so both are \<^typ>\<open>string\<close> here and \<open>len(s)\<close> is
  \<^term>\<open>length s\<close>. Machine integers keep their width (\<open>uint32\<close> and \<open>uint64\<close>);
  \<open>time.Time\<close> and \<open>time.Duration\<close> are nanosecond counts in \<^typ>\<open>int\<close>.
  A function that returns \<open>(T, error)\<close> returns \<^typ>\<open>'e + 'a\<close>, \<open>Inl\<close> the error.
\<close>

named_theorems go_defs "definitions that evaluation and case analysis unfold"
named_theorems inv_intros "preservation of invariants, one fact per operation"

type_synonym byte = char
type_synonym bytes = string
type_synonym uint32 = "32 word"
type_synonym uint64 = "64 word"
type_synonym nanos = int

abbreviation ESC :: byte where "ESC \<equiv> CHR 0x1B"
abbreviation BEL :: byte where "BEL \<equiv> CHR 0x07"
abbreviation BACKSLASH :: byte where "BACKSLASH \<equiv> CHR 0x5C"

abbreviation seconds :: "int \<Rightarrow> nanos" where "seconds n \<equiv> n * 1000000000"

section \<open>White space\<close>

text \<open>
  \<open>strings.TrimSpace\<close> and \<open>strings.Fields\<close> cut at the runes for which
  \<open>unicode.IsSpace\<close> holds. The list holds their UTF-8 encodings. No encoding starts in
  the middle of another rune, so matching encodings byte by byte is matching runes.
\<close>

definition space_encodings :: "string list" where
  "space_encodings =
     [[CHR 0x09], [CHR 0x0A], [CHR 0x0B], [CHR 0x0C], [CHR 0x0D], [CHR 0x20],
      [CHR 0xC2, CHR 0x85], [CHR 0xC2, CHR 0xA0], [CHR 0xE1, CHR 0x9A, CHR 0x80],
      [CHR 0xE2, CHR 0x80, CHR 0x80], [CHR 0xE2, CHR 0x80, CHR 0x81],
      [CHR 0xE2, CHR 0x80, CHR 0x82], [CHR 0xE2, CHR 0x80, CHR 0x83],
      [CHR 0xE2, CHR 0x80, CHR 0x84], [CHR 0xE2, CHR 0x80, CHR 0x85],
      [CHR 0xE2, CHR 0x80, CHR 0x86], [CHR 0xE2, CHR 0x80, CHR 0x87],
      [CHR 0xE2, CHR 0x80, CHR 0x88], [CHR 0xE2, CHR 0x80, CHR 0x89],
      [CHR 0xE2, CHR 0x80, CHR 0x8A], [CHR 0xE2, CHR 0x80, CHR 0xA8],
      [CHR 0xE2, CHR 0x80, CHR 0xA9], [CHR 0xE2, CHR 0x80, CHR 0xAF],
      [CHR 0xE2, CHR 0x81, CHR 0x9F], [CHR 0xE3, CHR 0x80, CHR 0x80]]"

text \<open>
  The length of the first encoding in the list that \<open>s\<close> starts with, 0 for none.
\<close>

fun match_len :: "string list \<Rightarrow> string \<Rightarrow> nat" where
  "match_len [] s = 0"
| "match_len (e # es) s = (if prefix e s then length e else match_len es s)"

definition space_len :: "string \<Rightarrow> nat" where
  "space_len s = match_len space_encodings s"

definition rspace_len :: "string \<Rightarrow> nat" where
  "rspace_len s = match_len (map rev space_encodings) s"

lemma match_len_le: "match_len es s \<le> length s"
  by (induction es) (auto dest: prefix_length_le)

lemma space_len_le [simp]: "space_len s \<le> length s"
  by (simp add: space_len_def match_len_le)

lemma rspace_len_le [simp]: "rspace_len s \<le> length s"
  by (simp add: rspace_len_def match_len_le)

text \<open>\<open>drop_space len s\<close> removes leading white space as recognised by \<open>len\<close>.\<close>

function drop_space :: "(string \<Rightarrow> nat) \<Rightarrow> string \<Rightarrow> string" where
  "drop_space len s =
     (if 0 < len s \<and> s \<noteq> [] then drop_space len (drop (len s) s) else s)"
  by pat_completeness auto
termination
  by (relation "measure (\<lambda>(len, s). length s)") auto

declare drop_space.simps [simp del]

definition trim_space :: "string \<Rightarrow> string" where
  "trim_space s = rev (drop_space rspace_len (rev (drop_space space_len s)))"

lemma drop_space_suffix: "\<exists>p. s = p @ drop_space len s"
proof (induction len s rule: drop_space.induct)
  case (1 len s)
  show ?case
  proof (cases "0 < len s \<and> s \<noteq> []")
    case True
    with 1 obtain p where p: "drop (len s) s = p @ drop_space len (drop (len s) s)" by blast
    have "s = take (len s) s @ drop (len s) s" by simp
    also have "\<dots> = (take (len s) s @ p) @ drop_space len (drop (len s) s)"
      by (subst p) simp
    also have "drop_space len (drop (len s) s) = drop_space len s"
      using True by (simp add: drop_space.simps [of len s])
    finally show ?thesis by blast
  next
    case False
    then show ?thesis by (subst drop_space.simps) auto
  qed
qed

lemma length_drop_space: "length (drop_space len s) \<le> length s"
proof -
  obtain p where "s = p @ drop_space len s" using drop_space_suffix by blast
  then have "length s = length p + length (drop_space len s)"
    by (metis length_append)
  then show ?thesis by simp
qed

lemma length_trim_space: "length (trim_space s) \<le> length s"
proof -
  have "length (trim_space s) \<le> length (drop_space space_len s)"
    by (simp add: trim_space_def) (metis length_drop_space length_rev)
  also have "\<dots> \<le> length s" by (rule length_drop_space)
  finally show ?thesis .
qed

lemma drop_space_Nil [simp]: "drop_space len [] = []"
  by (subst drop_space.simps) simp

lemma trim_space_Nil [simp]: "trim_space [] = []"
  by (simp add: trim_space_def)

lemma drop_space_idem: "drop_space len (drop_space len s) = drop_space len s"
proof (induction len s rule: drop_space.induct)
  case (1 len s)
  show ?case
  proof (cases "0 < len s \<and> s \<noteq> []")
    case True
    then have eq: "drop_space len s = drop_space len (drop (len s) s)"
      by (subst drop_space.simps) simp
    from 1 True show ?thesis by (simp add: eq)
  next
    case False
    then have eq: "drop_space len s = s" by (subst drop_space.simps) auto
    then show ?thesis by (simp only: eq)
  qed
qed

lemma match_len_prefix: "match_len es s = 0 \<Longrightarrow> prefix u s \<Longrightarrow> match_len es u = 0"
  by (induction es) (auto split: if_splits dest: prefix_order.trans)

lemma drop_space_done: "drop_space len s \<noteq> [] \<Longrightarrow> len (drop_space len s) = 0"
proof (induction len s rule: drop_space.induct)
  case (1 len s)
  then show ?case by (cases "0 < len s \<and> s \<noteq> []") (auto simp: drop_space.simps [of len s])
qed

lemma drop_space_stop: "s = [] \<or> len s = 0 \<Longrightarrow> drop_space len s = s"
  by (subst drop_space.simps) auto

lemma trim_space_idem: "trim_space (trim_space s) = trim_space s"
proof -
  let ?u = "drop_space space_len s"
  have p: "prefix (trim_space s) ?u"
    using drop_space_suffix [of "rev ?u" rspace_len] unfolding trim_space_def prefix_def
    by (metis rev_append rev_rev_ident)
  have "space_len (trim_space s) = 0 \<or> trim_space s = []"
  proof (cases "?u = []")
    case False
    then have "space_len ?u = 0" by (rule drop_space_done)
    with p show ?thesis by (simp add: space_len_def match_len_prefix)
  qed (use p in simp)
  then have "drop_space space_len (trim_space s) = trim_space s"
    by (intro drop_space_stop) auto
  moreover have "drop_space rspace_len (rev (trim_space s)) = rev (trim_space s)"
    unfolding trim_space_def by (simp add: drop_space_idem)
  ultimately show ?thesis by (simp add: trim_space_def [of "trim_space s"])
qed

section \<open>Prefixes, splitting, joining, case\<close>

definition has_prefix :: "string \<Rightarrow> string \<Rightarrow> bool" where
  "has_prefix s p = prefix p s"

definition has_suffix :: "string \<Rightarrow> string \<Rightarrow> bool" where
  "has_suffix s p = suffix p s"

definition trim_prefix :: "string \<Rightarrow> string \<Rightarrow> string" where
  "trim_prefix s p = (if prefix p s then drop (length p) s else s)"

text \<open>\<open>strings.Contains\<close>.\<close>

definition str_contains :: "string \<Rightarrow> string \<Rightarrow> bool" where
  "str_contains s p = sublist p s"

text \<open>\<open>strings.Split(s, sep)\<close> for a one-byte separator: never empty.\<close>

fun split_on :: "byte \<Rightarrow> string \<Rightarrow> string list" where
  "split_on c [] = [[]]"
| "split_on c (x # xs) =
     (if x = c then [] # split_on c xs
      else (case split_on c xs of [] \<Rightarrow> [[x]] | p # ps \<Rightarrow> (x # p) # ps))"

lemma split_on_not_Nil [simp]: "split_on c s \<noteq> []"
  by (induction s) (auto split: list.splits)

text \<open>\<open>strings.SplitN(s, sep, n)\<close>: at most \<open>n\<close> parts, the last one the rest.\<close>

fun split_n :: "nat \<Rightarrow> byte \<Rightarrow> string \<Rightarrow> string list" where
  "split_n 0 c s = []"
| "split_n (Suc 0) c s = [s]"
| "split_n (Suc (Suc n)) c s =
     (if c \<in> set s
      then takeWhile (\<lambda>x. x \<noteq> c) s # split_n (Suc n) c (tl (dropWhile (\<lambda>x. x \<noteq> c) s))
      else [s])"

text \<open>\<open>strings.Join\<close>.\<close>

fun join_with :: "string \<Rightarrow> string list \<Rightarrow> string" where
  "join_with sep [] = []"
| "join_with sep [p] = p"
| "join_with sep (p # q # ps) = p @ sep @ join_with sep (q # ps)"

lemma split_on_no_sep: "c \<notin> set s \<Longrightarrow> split_on c s = [s]"
  by (induction s) auto

lemma split_on_append: "c \<notin> set p \<Longrightarrow> split_on c (p @ c # s) = p # split_on c s"
  by (induction p) auto

text \<open>Joining parts that do not hold the separator and splitting gives the parts back.\<close>

lemma split_on_join:
  "ps \<noteq> [] \<Longrightarrow> (\<And>p. p \<in> set ps \<Longrightarrow> c \<notin> set p) \<Longrightarrow> split_on c (join_with [c] ps) = ps"
  by (induction "[c]" ps rule: join_with.induct) (auto simp: split_on_no_sep split_on_append)

lemma join_split_on: "join_with [c] (split_on c s) = s"
proof (induction s)
  case (Cons x s)
  then show ?case
    by (cases "split_on c s") (auto split: list.splits, (metis append_Cons join_with.simps(2,3) neq_Nil_conv)+)
qed simp

text \<open>
  \<open>strings.ToLower\<close>: ASCII letters, and the two other runes whose lower case is an ASCII
  letter (U+212A, the Kelvin sign, and U+0130). The remaining runes have a non-ASCII lower
  case; they are kept here, which no caller can observe, since every caller only compares
  the result with ASCII constants.
\<close>

definition lower_byte :: "byte \<Rightarrow> byte" where
  "lower_byte c = (if CHR ''A'' \<le> c \<and> c \<le> CHR ''Z'' then char_of (of_char c + 32 :: nat) else c)"

fun to_lower :: "string \<Rightarrow> string" where
  "to_lower [] = []"
| "to_lower (c # cs) =
     (case cs of
        d # e # ds \<Rightarrow>
          if c = CHR 0xE2 \<and> d = CHR 0x84 \<and> e = CHR 0xAA then CHR ''k'' # to_lower ds
          else if c = CHR 0xC4 \<and> d = CHR 0xB0 then CHR ''i'' # to_lower (e # ds)
          else lower_byte c # to_lower cs
      | [d] \<Rightarrow>
          if c = CHR 0xC4 \<and> d = CHR 0xB0 then [CHR ''i''] else lower_byte c # to_lower cs
      | [] \<Rightarrow> [lower_byte c])"

text \<open>\<open>strings.Fields\<close>: maximal runs of bytes outside white space.\<close>

function fields_from :: "string \<Rightarrow> string \<Rightarrow> string list" where
  "fields_from acc s =
     (if s = [] then (if acc = [] then [] else [acc])
      else if 0 < space_len s then
        (if acc = [] then [] else [acc]) @ fields_from [] (drop (space_len s) s)
      else fields_from (acc @ [hd s]) (tl s))"
  by pat_completeness auto
termination
  by (relation "measure (\<lambda>(acc, s). length s)") auto

declare fields_from.simps [simp del]

definition str_fields :: "string \<Rightarrow> string list" where
  "str_fields s = fields_from [] s"

section \<open>Numbers\<close>

definition is_digit :: "byte \<Rightarrow> bool" where
  "is_digit c \<longleftrightarrow> CHR ''0'' \<le> c \<and> c \<le> CHR ''9''"

definition digit_val :: "byte \<Rightarrow> nat" where
  "digit_val c = of_char c - 48"

fun digits_val :: "nat \<Rightarrow> string \<Rightarrow> nat" where
  "digits_val n [] = n"
| "digits_val n (c # cs) = digits_val (10 * n + digit_val c) cs"

text \<open>
  \<open>strconv.ParseUint(s, 10, 32)\<close>: \<open>None\<close> is the error (empty, a byte that is not a
  digit, or a value out of range). Base 10 admits no sign and no underscore.
\<close>

definition parse_uint32 :: "string \<Rightarrow> nat option" where
  "parse_uint32 s =
     (if s = [] \<or> \<not> list_all is_digit s then None
      else (let n = digits_val 0 s in if n < 2 ^ 32 then Some n else None))"

text \<open>\<open>fmt.Sprintf("%d", n)\<close> for a non-negative number.\<close>

fun show_nat :: "nat \<Rightarrow> string" where
  "show_nat n =
     (if n < 10 then [char_of (48 + n)] else show_nat (n div 10) @ [char_of (48 + n mod 10)])"

declare show_nat.simps [simp del]

definition show_int :: "int \<Rightarrow> string" where
  "show_int i = (if i < 0 then CHR ''-'' # show_nat (nat (- i)) else show_nat (nat i))"

section \<open>Lists and maps\<close>

text \<open>\<open>s[len(s)-n:]\<close>, the last \<open>n\<close> elements of a list that has at least \<open>n\<close>.\<close>

definition last_n :: "nat \<Rightarrow> 'a list \<Rightarrow> 'a list" where
  "last_n n xs = drop (length xs - n) xs"

lemma length_last_n [simp]: "length (last_n n xs) = min n (length xs)"
  by (simp add: last_n_def)

lemma set_last_n: "set (last_n n xs) \<subseteq> set xs"
  by (simp add: last_n_def set_drop_subset)

lemma last_n_all: "length xs \<le> n \<Longrightarrow> last_n n xs = xs"
  by (simp add: last_n_def)

lemma last_n_append_new: "0 < n \<Longrightarrow> last_n n (xs @ [x]) = last_n (n - 1) xs @ [x]"
  by (auto simp: last_n_def Suc_diff_le)

text \<open>
  Go maps that are iterated over are association lists with distinct keys: the order of
  the list is the order of one iteration, which Go leaves open.
\<close>

type_synonym ('k, 'v) gomap = "('k \<times> 'v) list"

definition mget :: "('k, 'v) gomap \<Rightarrow> 'k \<Rightarrow> 'v option" where
  "mget m k = map_of m k"

definition mput :: "'k \<Rightarrow> 'v \<Rightarrow> ('k, 'v) gomap \<Rightarrow> ('k, 'v) gomap" where
  "mput k v m = AList.update k v m"

definition mdel :: "'k \<Rightarrow> ('k, 'v) gomap \<Rightarrow> ('k, 'v) gomap" where
  "mdel k m = AList.delete k m"

definition mkeys :: "('k, 'v) gomap \<Rightarrow> 'k list" where
  "mkeys m = map fst m"

definition map_ok :: "('k, 'v) gomap \<Rightarrow> bool" where
  "map_ok m \<longleftrightarrow> distinct (map fst m)"

lemma mget_Nil [simp]: "mget [] k = None"
  by (simp add: mget_def)

lemma mget_mput [simp]: "mget (mput k v m) = (mget m)(k \<mapsto> v)"
  by (rule ext) (simp add: mget_def mput_def update_conv')

lemma mget_mdel [simp]: "mget (mdel k m) = (mget m)(k := None)"
  by (rule ext) (simp add: mget_def mdel_def delete_conv')

lemma map_ok_Nil [simp]: "map_ok []"
  by (simp add: map_ok_def)

lemma map_ok_mput [simp]: "map_ok m \<Longrightarrow> map_ok (mput k v m)"
  by (simp add: map_ok_def mput_def distinct_update)

lemma map_ok_mdel [simp]: "map_ok m \<Longrightarrow> map_ok (mdel k m)"
  by (simp add: map_ok_def mdel_def delete_keys distinct_removeAll)

lemma mget_Some_iff: "map_ok m \<Longrightarrow> mget m k = Some v \<longleftrightarrow> (k, v) \<in> set m"
  by (simp add: map_ok_def mget_def)

lemma mget_None_iff: "mget m k = None \<longleftrightarrow> k \<notin> set (mkeys m)"
  by (simp add: mget_def mkeys_def map_of_eq_None_iff)

lemma mkeys_mput [simp]: "set (mkeys (mput k v m)) = insert k (set (mkeys m))"
  by (auto simp: mkeys_def mput_def update_keys)

lemma mput_not_Nil [simp]: "mput k v m \<noteq> []"
  by (simp add: mput_def)

lemma mget_eq_empty_iff: "(\<forall>k. mget m k = None) \<longleftrightarrow> m = []"
  by (cases m) (auto simp: mget_def split: if_splits)

lemma mkeys_mdel: "set (mkeys (mdel k m)) = set (mkeys m) - {k}"
  by (auto simp: mkeys_def mdel_def delete_keys)

lemma set_mput_subset: "set (mput k v m) \<subseteq> insert (k, v) (set m)"
proof (induction m)
  case (Cons a m)
  then show ?case by (cases a) (auto simp: mput_def)
qed (simp add: mput_def)

lemma set_mdel_subset: "set (mdel k m) \<subseteq> set m"
  by (auto simp: mdel_def AList.delete_eq)

lemma mget_map_value: "mget (map (\<lambda>(k, v). (k, f v)) m) i = map_option f (mget m i)"
  by (induction m) (auto simp: mget_def)

lemma mkeys_map_value [simp]: "mkeys (map (\<lambda>(k, v). (k, f v)) m) = mkeys m"
  by (induction m) (auto simp: mkeys_def)

lemma map_ok_map_value [simp]: "map_ok (map (\<lambda>(k, v). (k, f v)) m) = map_ok m"
  by (simp only: map_ok_def mkeys_def [symmetric] mkeys_map_value)

lemma mget_map_entry: "mget (map (\<lambda>(k, v). (k, f k v)) m) i = map_option (f i) (mget m i)"
  by (induction m) (auto simp: mget_def)

lemma map_ok_map_entry: "map_ok (map (\<lambda>(k, v). (k, f k v)) m) = map_ok m"
proof -
  have "map fst (map (\<lambda>(k, v). (k, f k v)) m) = map fst m" by (induction m) auto
  then show ?thesis by (simp only: map_ok_def)
qed

text \<open>Counters that allocate identities do not wrap below the largest word.\<close>

lemma word_less_succ:
  fixes n :: "'a::len word"
  assumes "n \<noteq> - 1"
  shows "i < n + 1 \<longleftrightarrow> i \<le> n"
proof -
  have "1 + n \<noteq> 0" using assms by (metis add_eq_0_iff)
  then have "unat (n + 1) = Suc (unat n)" using unatSuc [of n] by (simp add: add.commute)
  then show ?thesis by (simp add: word_less_nat_alt word_le_nat_alt less_Suc_eq_le)
qed

section \<open>Incremental byte machines\<close>

text \<open>
  Terminal output and input arrive in chunks whose borders are accidents of \<open>read\<close>.
  A component that is fed chunk by chunk is correct only if the borders do not matter; the
  contract says so for two chunks, and the lemma for any way to cut a stream.
\<close>

fun run_chunks :: "('s \<Rightarrow> bytes \<Rightarrow> 's \<times> bytes) \<Rightarrow> 's \<Rightarrow> bytes list \<Rightarrow> 's \<times> bytes" where
  "run_chunks feed s [] = (s, [])"
| "run_chunks feed s (c # cs) =
     (let (s1, o1) = feed s c; (s2, o2) = run_chunks feed s1 cs in (s2, o1 @ o2))"

locale byte_machine =
  fixes feed :: "'s \<Rightarrow> bytes \<Rightarrow> 's \<times> bytes"
    and inv :: "'s \<Rightarrow> bool"
  assumes feed_nil: "inv s \<Longrightarrow> feed s [] = (s, [])"
    and inv_feed: "inv s \<Longrightarrow> feed s a = (s1, out) \<Longrightarrow> inv s1"
    and feed_append: "inv s \<Longrightarrow> feed s a = (s1, o1) \<Longrightarrow> feed s1 b = (s2, o2) \<Longrightarrow>
           feed s (a @ b) = (s2, o1 @ o2)"
begin

lemma run_chunks_concat: "inv s \<Longrightarrow> run_chunks feed s cs = feed s (concat cs)"
proof (induction cs arbitrary: s)
  case (Cons c cs)
  obtain s1 o1 where c: "feed s c = (s1, o1)" by fastforce
  with Cons have "run_chunks feed s1 cs = feed s1 (concat cs)" by (blast intro: inv_feed)
  moreover obtain s2 o2 where "feed s1 (concat cs) = (s2, o2)" by fastforce
  ultimately show ?case using Cons.prems c by (simp add: feed_append)
qed (simp add: feed_nil)

lemma chunk_borders_irrelevant:
  "inv s \<Longrightarrow> concat cs = concat ds \<Longrightarrow> run_chunks feed s cs = run_chunks feed s ds"
  by (simp add: run_chunks_concat)

end

end
