(* ===== verification/Frames.thy ===== *)
theory Frames
  imports Prelude
begin

text \<open>
  The wire formats: the client/node frame of \<open>internal/protocol/protocol.go\<close>
  (type byte, big-endian length, payload) and the length-prefixed message of
  \<open>internal/guestagent/protocol.go\<close>. Readers and writers are explicit: a reader is the
  bytes still to come and how the stream ends, a writer is what was written and how much
  more it accepts before it fails.
\<close>

section \<open>Readers and writers\<close>

datatype read_error = EOF | UnexpectedEOF | IOError

record stream =
  pending_bytes :: bytes
  ends_with_error :: bool

text \<open>
  \<open>io.ReadFull\<close>: all \<open>n\<close> bytes, or \<open>io.EOF\<close> when none was there,
  \<open>io.ErrUnexpectedEOF\<close> when some were, or the reader's own error.
\<close>

definition read_full :: "nat \<Rightarrow> stream \<Rightarrow> (read_error + bytes) \<times> stream" where
  "read_full n r =
     (let bs = pending_bytes r in
      if n \<le> length bs then (Inr (take n bs), r\<lparr>pending_bytes := drop n bs\<rparr>)
      else (Inl (if ends_with_error r then IOError else if bs = [] then EOF else UnexpectedEOF),
            r\<lparr>pending_bytes := []\<rparr>))"

record sink =
  sink_written :: bytes
  sink_room :: "nat option"

definition write_bytes :: "sink \<Rightarrow> bytes \<Rightarrow> bool \<times> sink" where
  "write_bytes w bs =
     (case sink_room w of
        None \<Rightarrow> (True, w\<lparr>sink_written := sink_written w @ bs\<rparr>)
      | Some n \<Rightarrow> (length bs \<le> n,
                   w\<lparr>sink_written := sink_written w @ take n bs, sink_room := Some (n - length bs)\<rparr>))"

definition stream_of :: "bytes \<Rightarrow> stream" where
  "stream_of bs = \<lparr>pending_bytes = bs, ends_with_error = False\<rparr>"

definition open_sink :: sink where
  "open_sink = \<lparr>sink_written = [], sink_room = None\<rparr>"

section \<open>Big-endian lengths\<close>

definition put_uint32 :: "uint32 \<Rightarrow> bytes" where
  "put_uint32 w =
     [char_of (unat w div 2 ^ 24), char_of (unat w div 2 ^ 16),
      char_of (unat w div 2 ^ 8), char_of (unat w)]"

definition be_value :: "bytes \<Rightarrow> nat" where
  "be_value bs = foldl (\<lambda>n b. 256 * n + of_char b) 0 bs"

definition get_uint32 :: "bytes \<Rightarrow> uint32" where
  "get_uint32 bs = of_nat (be_value (take 4 bs))"

lemma length_put_uint32 [simp]: "length (put_uint32 w) = 4"
  by (simp add: put_uint32_def)

lemma be_bytes_value:
  fixes n :: nat
  assumes "n < 2 ^ 32"
  shows "256 * (256 * (256 * (n div 2 ^ 24 mod 256) + n div 2 ^ 16 mod 256)
           + n div 2 ^ 8 mod 256) + n mod 256 = n"
proof -
  have "n div 2 ^ 24 < 256" using assms by simp
  moreover have "n div 2 ^ 16 = n div 2 ^ 8 div 2 ^ 8" and "n div 2 ^ 24 = n div 2 ^ 8 div 2 ^ 8 div 2 ^ 8"
    by (simp_all add: div_mult2_eq [symmetric])
  ultimately show ?thesis by simp
qed

lemma be_value_put_uint32: "be_value (put_uint32 w) = unat w"
proof -
  have "unat w < 2 ^ 32" using unsigned_less [of w] by simp
  from be_bytes_value [OF this] show ?thesis
    by (simp add: be_value_def put_uint32_def of_char_of algebra_simps del: mod_less)
qed

lemma get_put_uint32 [simp]: "get_uint32 (put_uint32 w @ rest) = w"
  by (simp add: get_uint32_def be_value_put_uint32)

section \<open>Client/node frames (protocol.go)\<close>

abbreviation FrameControl :: byte where "FrameControl \<equiv> CHR 0x00"
abbreviation FrameData :: byte where "FrameData \<equiv> CHR 0x01"

definition MaxPayload :: uint32 where "MaxPayload = 16 * 1024 * 1024"

record frame =
  frame_type :: byte
  frame_payload :: bytes

datatype frame_error =
    HeaderRead read_error
  | PayloadTooLarge uint32
  | PayloadRead read_error
  | UnknownType byte

text \<open>\<open>ReadFrame\<close>: \<open>Inr None\<close> is the source's \<open>(nil, nil)\<close>.\<close>

definition read_frame :: "stream \<Rightarrow> (frame_error + frame option) \<times> stream" where
  "read_frame r =
     (case read_full 5 r of
        (Inl e, r1) \<Rightarrow>
          if e = EOF \<or> e = UnexpectedEOF then (Inr None, r1) else (Inl (HeaderRead e), r1)
      | (Inr header, r1) \<Rightarrow>
          let frameType = header ! 0; len = get_uint32 (drop 1 header) in
          if MaxPayload < len then (Inl (PayloadTooLarge len), r1)
          else
            (case (if 0 < len then read_full (unat len) r1 else (Inr [], r1)) of
               (Inl e, r2) \<Rightarrow> (Inl (PayloadRead e), r2)
             | (Inr body, r2) \<Rightarrow>
                 if frameType = FrameControl \<or> frameType = FrameData
                 then (Inr (Some \<lparr>frame_type = frameType, frame_payload = body\<rparr>), r2)
                 else (Inl (UnknownType frameType), r2)))"

datatype write_error = HeaderWrite | PayloadWrite

definition write_frame :: "sink \<Rightarrow> frame \<Rightarrow> (write_error + unit) \<times> sink" where
  "write_frame w f =
     (let header = frame_type f # put_uint32 (of_nat (length (frame_payload f))) in
      case write_bytes w header of
        (False, w1) \<Rightarrow> (Inl HeaderWrite, w1)
      | (True, w1) \<Rightarrow>
          if 0 < length (frame_payload f) then
            (case write_bytes w1 (frame_payload f) of
               (False, w2) \<Rightarrow> (Inl PayloadWrite, w2)
             | (True, w2) \<Rightarrow> (Inr (), w2))
          else (Inr (), w1))"

text \<open>What \<^const>\<open>write_frame\<close> puts on an unbounded writer.\<close>

definition frame_bytes :: "frame \<Rightarrow> bytes" where
  "frame_bytes f = frame_type f # put_uint32 (of_nat (length (frame_payload f))) @ frame_payload f"

lemma write_frame_bytes:
  "sink_room w = None \<Longrightarrow> write_frame w f = (Inr (), w\<lparr>sink_written := sink_written w @ frame_bytes f\<rparr>)"
  by (simp add: write_frame_def write_bytes_def frame_bytes_def Let_def)

text \<open>The frames that the reader accepts.\<close>

definition frame_ok :: "frame \<Rightarrow> bool" where
  "frame_ok f \<longleftrightarrow> frame_type f \<in> {FrameControl, FrameData} \<and> length (frame_payload f) \<le> unat MaxPayload"

lemma unat_MaxPayload: "unat MaxPayload = 16777216"
  by (simp add: MaxPayload_def)

lemma read_full_append:
  "n = length bs \<Longrightarrow> read_full n (r\<lparr>pending_bytes := bs @ rest\<rparr>) = (Inr bs, r\<lparr>pending_bytes := rest\<rparr>)"
  by (simp add: read_full_def)

lemma read_full_header:
  "read_full 5 (r\<lparr>pending_bytes := t # put_uint32 len @ rest\<rparr>) =
     (Inr (t # put_uint32 len), r\<lparr>pending_bytes := rest\<rparr>)"
  using read_full_append [where n = 5 and bs = "t # put_uint32 len" and r = r and rest = rest] by simp

lemma read_frame_header:
  "read_frame (r\<lparr>pending_bytes := t # put_uint32 len @ rest\<rparr>) =
     (if MaxPayload < len then (Inl (PayloadTooLarge len), r\<lparr>pending_bytes := rest\<rparr>)
      else (case (if 0 < len then read_full (unat len) (r\<lparr>pending_bytes := rest\<rparr>)
                  else (Inr [], r\<lparr>pending_bytes := rest\<rparr>)) of
               (Inl e, r2) \<Rightarrow> (Inl (PayloadRead e), r2)
             | (Inr body, r2) \<Rightarrow>
                 if t = FrameControl \<or> t = FrameData
                 then (Inr (Some \<lparr>frame_type = t, frame_payload = body\<rparr>), r2)
                 else (Inl (UnknownType t), r2)))"
  using get_put_uint32 [of len "[]"] by (simp add: read_frame_def read_full_header Let_def)

text \<open>\<^const>\<open>read_frame\<close> on what \<^const>\<open>write_frame\<close> wrote, whatever follows.\<close>

lemma read_frame_bytes:
  assumes ok: "frame_ok f"
  shows "read_frame (r\<lparr>pending_bytes := frame_bytes f @ rest\<rparr>) =
           (Inr (Some f), r\<lparr>pending_bytes := rest\<rparr>)"
proof -
  let ?len = "of_nat (length (frame_payload f)) :: uint32"
  have small: "length (frame_payload f) \<le> 16777216" using ok by (simp add: frame_ok_def unat_MaxPayload)
  have u: "unat ?len = length (frame_payload f)"
    using small by (simp add: unat_of_nat)
  have le: "\<not> MaxPayload < ?len"
    using small u by (simp add: word_less_nat_alt unat_MaxPayload)
  have zero: "\<not> 0 < ?len \<Longrightarrow> frame_payload f = []"
    using u by (simp add: word_gt_0)
  have t: "frame_type f = FrameControl \<or> frame_type f = FrameData"
    using ok by (simp add: frame_ok_def)
  show ?thesis
  proof (cases "0 < ?len")
    case True
    have "read_full (unat ?len) (r\<lparr>pending_bytes := frame_payload f @ rest\<rparr>)
            = (Inr (frame_payload f), r\<lparr>pending_bytes := rest\<rparr>)"
      using u by (simp add: read_full_append)
    with True le t show ?thesis
      by (simp add: frame_bytes_def read_frame_header)
  next
    case False
    with zero have "frame_payload f = []" by simp
    with False le t show ?thesis
      by (simp add: frame_bytes_def read_frame_header)
  qed
qed

section \<open>Guest agent messages (guestagent/protocol.go)\<close>

definition maxMessageSize :: uint32 where "maxMessageSize = 4 * 1024 * 1024"

datatype message_error = MarshalFailed | MessageWrite | MessageRead read_error
  | MessageTooLarge uint32 | UnmarshalFailed

text \<open>\<open>json.Marshal\<close> and \<open>json.Unmarshal\<close> are the parameters \<open>marshal\<close> and \<open>unmarshal\<close>.\<close>

definition write_message ::
  "('m \<Rightarrow> bytes option) \<Rightarrow> sink \<Rightarrow> 'm \<Rightarrow> (message_error + unit) \<times> sink" where
  "write_message marshal w msg =
     (case marshal msg of
        None \<Rightarrow> (Inl MarshalFailed, w)
      | Some data \<Rightarrow>
          (case write_bytes w (put_uint32 (of_nat (length data))) of
             (False, w1) \<Rightarrow> (Inl MessageWrite, w1)
           | (True, w1) \<Rightarrow>
               (case write_bytes w1 data of
                  (False, w2) \<Rightarrow> (Inl MessageWrite, w2)
                | (True, w2) \<Rightarrow> (Inr (), w2))))"

definition read_message ::
  "(bytes \<Rightarrow> 'm option) \<Rightarrow> stream \<Rightarrow> (message_error + 'm) \<times> stream" where
  "read_message unmarshal r =
     (case read_full 4 r of
        (Inl e, r1) \<Rightarrow> (Inl (MessageRead e), r1)
      | (Inr lenBuf, r1) \<Rightarrow>
          let size = get_uint32 lenBuf in
          if maxMessageSize < size then (Inl (MessageTooLarge size), r1)
          else
            (case read_full (unat size) r1 of
               (Inl e, r2) \<Rightarrow> (Inl (MessageRead e), r2)
             | (Inr data, r2) \<Rightarrow>
                 (case unmarshal data of
                    None \<Rightarrow> (Inl UnmarshalFailed, r2)
                  | Some m \<Rightarrow> (Inr m, r2))))"

definition message_bytes :: "bytes \<Rightarrow> bytes" where
  "message_bytes data = put_uint32 (of_nat (length data)) @ data"

lemma write_message_bytes:
  "sink_room w = None \<Longrightarrow> marshal msg = Some data \<Longrightarrow>
   write_message marshal w msg = (Inr (), w\<lparr>sink_written := sink_written w @ message_bytes data\<rparr>)"
  by (simp add: write_message_def write_bytes_def message_bytes_def)

lemma read_message_bytes:
  assumes len: "length data \<le> unat maxMessageSize" and dec: "unmarshal data = Some m"
  shows "read_message unmarshal (r\<lparr>pending_bytes := message_bytes data @ rest\<rparr>) =
           (Inr m, r\<lparr>pending_bytes := rest\<rparr>)"
proof -
  let ?len = "of_nat (length data) :: uint32"
  have small: "length data \<le> 4194304" using len by (simp add: maxMessageSize_def)
  have u: "unat ?len = length data" using small by (simp add: unat_of_nat)
  have le: "\<not> maxMessageSize < ?len"
    using small u by (simp add: word_less_nat_alt maxMessageSize_def)
  have hdr: "read_full 4 (r\<lparr>pending_bytes := put_uint32 ?len @ data @ rest\<rparr>) =
      (Inr (put_uint32 ?len), r\<lparr>pending_bytes := data @ rest\<rparr>)"
    using read_full_append [where n = 4 and bs = "put_uint32 ?len" and r = r and rest = "data @ rest"] by simp
  have body: "read_full (unat ?len) (r\<lparr>pending_bytes := data @ rest\<rparr>) = (Inr data, r\<lparr>pending_bytes := rest\<rparr>)"
    using u by (simp add: read_full_append)
  show ?thesis
    using get_put_uint32 [of ?len "[]"] le body dec
    by (simp add: read_message_def message_bytes_def hdr)
qed

section \<open>The framing contract\<close>

text \<open>
  Receiving loops (\<open>ServeConn\<close>, \<open>handleClient\<close>, the guest agent) read one item after
  another from one stream. \<open>read_items n\<close> is \<open>n\<close> rounds of such a loop that stops at
  the first failure.
\<close>

fun read_items :: "(stream \<Rightarrow> ('e + 'f) \<times> stream) \<Rightarrow> nat \<Rightarrow> stream \<Rightarrow> ('e + 'f list) \<times> stream" where
  "read_items rd 0 r = (Inr [], r)"
| "read_items rd (Suc n) r =
     (case rd r of
        (Inl e, r1) \<Rightarrow> (Inl e, r1)
      | (Inr f, r1) \<Rightarrow>
          (case read_items rd n r1 of
             (Inl e, r2) \<Rightarrow> (Inl e, r2)
           | (Inr fs, r2) \<Rightarrow> (Inr (f # fs), r2)))"

locale framing =
  fixes rd :: "stream \<Rightarrow> ('e + 'g) \<times> stream"
    and enc :: "'f \<Rightarrow> bytes"
    and view :: "'f \<Rightarrow> 'g"
    and ok :: "'f \<Rightarrow> bool"
  assumes rd_enc: "ok f \<Longrightarrow> rd (r\<lparr>pending_bytes := enc f @ rest\<rparr>) = (Inr (view f), r\<lparr>pending_bytes := rest\<rparr>)"
begin

lemma read_items_enc:
  "list_all ok fs \<Longrightarrow>
   read_items rd (length fs) (r\<lparr>pending_bytes := concat (map enc fs) @ rest\<rparr>) =
     (Inr (map view fs), r\<lparr>pending_bytes := rest\<rparr>)"
proof (induction fs)
  case (Cons f fs)
  then have "rd (r\<lparr>pending_bytes := enc f @ concat (map enc fs) @ rest\<rparr>) =
      (Inr (view f), r\<lparr>pending_bytes := concat (map enc fs) @ rest\<rparr>)"
    by (simp add: rd_enc)
  with Cons show ?case by simp
qed simp

lemma read_items_stream_of:
  "list_all ok fs \<Longrightarrow>
   read_items rd (length fs) (stream_of (concat (map enc fs))) = (Inr (map view fs), stream_of [])"
  using read_items_enc [where fs = fs and r = "stream_of []" and rest = "[]"] by (simp add: stream_of_def)

end

interpretation node_frames: framing read_frame frame_bytes Some frame_ok
  by unfold_locales (rule read_frame_bytes)

interpretation guest_messages: framing "read_message Some" message_bytes id
  "\<lambda>data. length data \<le> unat maxMessageSize"
  by unfold_locales (simp add: read_message_bytes)

text \<open>A writer that is handed several frames, and the guest agent's writer.\<close>

definition write_frames :: "sink \<Rightarrow> frame list \<Rightarrow> sink" where
  "write_frames w fs = foldl (\<lambda>w f. snd (write_frame w f)) w fs"

lemma write_frames_bytes:
  "sink_room w = None \<Longrightarrow> sink_written (write_frames w fs) = sink_written w @ concat (map frame_bytes fs)"
  unfolding write_frames_def by (induction fs arbitrary: w) (simp_all add: write_frame_bytes)

end
