(* ===== verification/Ansi.thy ===== *)
theory Ansi
  imports Prelude
begin

text \<open>
  Escape sequences of the terminal, \<open>internal/terminal/ansi.go\<close>: stripping them,
  removing only terminal queries, and answering queries for a child process that has no
  terminal emulator behind its PTY. The source walks an index \<open>i\<close> over a string \<open>s\<close>; the
  model passes the remaining input \<open>s[i:]\<close>, so \<open>consume_escape\<close> returns the length
  \<open>next - start\<close> where the source returns \<open>next\<close>.
\<close>

section \<open>One escape sequence\<close>

text \<open>The CSI loop after \<open>ESC [\<close>: bytes up to and with a final byte in 0x40..0x7E.\<close>

fun csi_scan :: "string \<Rightarrow> nat \<times> bool" where
  "csi_scan [] = (0, False)"
| "csi_scan (c # cs) =
     (if c < CHR 0x40 \<or> CHR 0x7E < c then (let (n, k) = csi_scan cs in (Suc n, k))
      else (1, True))"

text \<open>The OSC loop after \<open>ESC ]\<close>: bytes up to and with BEL or \<open>ESC \\<close>.\<close>

fun osc_scan :: "string \<Rightarrow> nat \<times> bool" where
  "osc_scan [] = (0, False)"
| "osc_scan (c # cs) =
     (if c = BEL then (1, True)
      else if c = ESC \<and> cs \<noteq> [] \<and> hd cs = BACKSLASH then (2, True)
      else (let (n, k) = osc_scan cs in (Suc n, k)))"

fun consume_escape :: "string \<Rightarrow> nat \<times> bool" where
  "consume_escape (_ # c # cs) =
     (if c = CHR ''['' then (let (n, k) = csi_scan cs in (n + 2, k))
      else if c = CHR '']'' then (let (n, k) = osc_scan cs in (n + 2, k))
      else (2, False))"
| "consume_escape _ = (1, False)"

lemma csi_scan_le: "csi_scan cs = (n, k) \<Longrightarrow> n \<le> length cs"
  by (induction cs arbitrary: n k) (auto split: if_splits prod.splits)

lemma csi_scan_complete:
  "csi_scan cs = (n, True) \<Longrightarrow> 0 < n \<and> csi_scan (take n cs @ rest) = (n, True)"
  by (induction cs arbitrary: n) (auto split: if_splits prod.splits)

lemma osc_scan_le: "osc_scan cs = (n, k) \<Longrightarrow> n \<le> length cs"
  by (induction cs arbitrary: n k) (auto split: if_splits prod.splits simp: neq_Nil_conv)

lemma osc_scan_complete:
  "osc_scan cs = (n, True) \<Longrightarrow> 0 < n \<and> osc_scan (take n cs @ rest) = (n, True)"
proof (induction cs arbitrary: n)
  case (Cons c cs)
  show ?case
  proof (cases "c = BEL \<or> (c = ESC \<and> cs \<noteq> [] \<and> hd cs = BACKSLASH)")
    case True
    with Cons.prems show ?thesis by (cases cs) (auto simp: numeral_2_eq_2 split: if_splits)
  next
    case False
    with Cons.prems obtain m where m: "osc_scan cs = (m, True)" "n = Suc m"
      by (auto split: prod.splits if_splits)
    with Cons.IH have IH: "0 < m" "osc_scan (take m cs @ rest) = (m, True)" by auto
    obtain x xs where cs: "cs = x # xs"
      using m(1) by (cases cs) auto
    obtain k where k: "m = Suc k" using IH(1) by (cases m) auto
    show ?thesis using False IH m(2) by (auto simp: cs k)
  qed
qed simp

lemma consume_escape_bounds:
  "t \<noteq> [] \<Longrightarrow> consume_escape t = (n, k) \<Longrightarrow> 0 < n \<and> n \<le> length t"
  by (induction t rule: consume_escape.induct)
    (auto split: if_splits prod.splits dest: csi_scan_le osc_scan_le)

lemma consume_escape_complete:
  assumes "consume_escape t = (n, True)"
  shows "2 < n" and "n \<le> length t" and "consume_escape (take n t @ rest) = (n, True)"
proof -
  from assms obtain e c cs where t: "t = e # c # cs"
    by (cases t rule: consume_escape.cases) auto
  have b: "n \<le> length t"
    using assms t consume_escape_bounds [of t n True] by simp
  have "2 < n \<and> consume_escape (take n t @ rest) = (n, True)"
  proof (cases "c = CHR ''[''")
    case True
    with assms t obtain m where "csi_scan cs = (m, True)" "n = m + 2"
      by (auto split: prod.splits)
    with csi_scan_complete [of cs m rest] True t show ?thesis by simp
  next
    case False
    with assms t obtain m where "c = CHR '']''" "osc_scan cs = (m, True)" "n = m + 2"
      by (auto split: prod.splits if_splits)
    with osc_scan_complete [of cs m rest] False t show ?thesis by simp
  qed
  with b show "2 < n" "n \<le> length t" "consume_escape (take n t @ rest) = (n, True)" by auto
qed

text \<open>A complete sequence stays the same sequence whatever follows it.\<close>

lemma consume_escape_append:
  assumes "consume_escape t = (n, True)"
  shows "consume_escape (t @ rest) = (n, True)"
  using consume_escape_complete(3) [OF assms, of "drop n t @ rest"]
  by (metis append.assoc append_take_drop_id)

text \<open>The bytes of a complete sequence, on their own, are that sequence.\<close>

lemma consume_escape_whole:
  assumes "consume_escape t = (n, True)"
  shows "\<exists>us. take n t = hd t # us \<and> consume_escape (hd t # us) = (length (hd t # us), True)"
proof -
  have n: "2 < n" "n \<le> length t" "consume_escape (take n t) = (n, True)"
    using consume_escape_complete(1,2) [OF assms] consume_escape_complete(3) [OF assms, of "[]"] by auto
  obtain us where us: "take n t = hd t # us"
    using n(1,2) by (cases t; cases n) auto
  then have "length (hd t # us) = n" using n(2) by (metis length_take min.absorb2)
  with n(3) us show ?thesis by auto
qed

section \<open>Stripping\<close>

function StripANSI :: "string \<Rightarrow> string" where
  "StripANSI [] = []"
| "StripANSI (c # cs) =
     (if c \<noteq> ESC then c # StripANSI cs
      else
        let nx = fst (consume_escape (c # cs)) in
        if nx \<le> 0 then StripANSI cs else StripANSI (drop nx (c # cs)))"
  by pat_completeness auto
termination
  by (relation "measure length") (auto simp: Let_def)

fun contains :: "string \<Rightarrow> string \<Rightarrow> bool" where
  "contains [] sub = (sub = [])"
| "contains (c # cs) sub = (prefix sub (c # cs) \<or> contains cs sub)"

definition oscBody :: "string \<Rightarrow> string" where
  "oscBody seq =
     (if length seq < 3 \<or> seq ! 0 \<noteq> ESC \<or> seq ! 1 \<noteq> CHR '']'' then []
      else
        let body = drop 2 seq in
        if has_suffix body [BEL] then take (length body - 1) body
        else if has_suffix body [ESC, BACKSLASH] then take (length body - 2) body
        else body)"

definition isTerminalQuery :: "string \<Rightarrow> bool" where
  "isTerminalQuery seq =
     (if length seq < 2 \<or> seq ! 0 \<noteq> ESC then False
      else if seq ! 1 = CHR ''['' then seq ! (length seq - 1) = CHR ''n''
      else if seq ! 1 = CHR '']'' then
        (let body = oscBody seq in contains body '';?'' \<or> has_suffix body ''?'')
      else False)"

function StripTerminalQueries :: "string \<Rightarrow> string" where
  "StripTerminalQueries [] = []"
| "StripTerminalQueries (c # cs) =
     (if c \<noteq> ESC then c # StripTerminalQueries cs
      else
        let nx = fst (consume_escape (c # cs)); keep = snd (consume_escape (c # cs)) in
        if nx \<le> 0 then StripTerminalQueries cs
        else
          (if keep \<and> \<not> isTerminalQuery (take nx (c # cs)) then take nx (c # cs) else [])
            @ StripTerminalQueries (drop nx (c # cs)))"
  by pat_completeness auto
termination
  by (relation "measure length") (auto simp: Let_def)

text \<open>The \<open>next <= i\<close> branch of both loops is dead: every sequence consumes at least ESC.\<close>

lemma consume_escape_pos: "0 < fst (consume_escape (c # cs))"
  using consume_escape_bounds [of "c # cs"] by (metis list.distinct(1) prod.collapse)

lemma StripANSI_escape:
  "StripANSI (ESC # cs) = StripANSI (drop (fst (consume_escape (ESC # cs))) (ESC # cs))"
  using consume_escape_pos [of ESC cs] by (simp add: Let_def)

lemma StripANSI_no_ESC: "ESC \<notin> set (StripANSI s)"
  by (induction s rule: StripANSI.induct) (auto simp: Let_def)

lemma StripANSI_plain: "ESC \<notin> set s \<Longrightarrow> StripANSI s = s"
  by (induction s) auto

lemma StripANSI_idem: "StripANSI (StripANSI s) = StripANSI s"
  by (simp add: StripANSI_plain StripANSI_no_ESC)

lemma StripANSI_plain_append: "ESC \<notin> set p \<Longrightarrow> StripANSI (p @ s) = p @ StripANSI s"
  by (induction p) auto

lemma StripANSI_sequence:
  assumes "consume_escape (ESC # us) = (length (ESC # us), True)"
  shows "StripANSI ((ESC # us) @ s) = StripANSI s"
  using consume_escape_append [OF assms, of s] StripANSI_escape [of "us @ s"] by simp

text \<open>Stripping only deletes: what is left is a subsequence, in the order of the input.\<close>

lemma StripANSI_subseq: "subseq (StripANSI s) s"
proof (induction s rule: StripANSI.induct)
  case (2 c cs)
  show ?case
  proof (cases "c = ESC")
    case True
    let ?n = "fst (consume_escape (c # cs))"
    have "\<not> ?n \<le> 0" using consume_escape_pos [of c cs] by simp
    with 2 True have "subseq (StripANSI (drop ?n (c # cs))) (drop ?n (c # cs))" by simp
    moreover have "subseq (drop ?n (c # cs)) (c # cs)" by (rule suffix_imp_subseq) (rule suffix_drop)
    ultimately show ?thesis
      using True StripANSI_escape [of cs] by (metis subseq_order.trans)
  qed (use 2 in simp)
qed simp

section \<open>Queries removed, everything else kept\<close>

lemma StripTerminalQueries_escape:
  "StripTerminalQueries (ESC # cs) =
     (let (nx, keep) = consume_escape (ESC # cs) in
      (if keep \<and> \<not> isTerminalQuery (take nx (ESC # cs)) then take nx (ESC # cs) else [])
        @ StripTerminalQueries (drop nx (ESC # cs)))"
  using consume_escape_pos [of ESC cs] by (simp add: Let_def split: prod.splits)

lemma StripTerminalQueries_sequence:
  assumes "consume_escape (ESC # us) = (length (ESC # us), True)"
  shows "StripTerminalQueries ((ESC # us) @ s) =
           (if isTerminalQuery (ESC # us) then [] else ESC # us) @ StripTerminalQueries s"
  using consume_escape_append [OF assms, of s] StripTerminalQueries_escape [of "us @ s"] by simp

lemma StripTerminalQueries_idem:
  "StripTerminalQueries (StripTerminalQueries s) = StripTerminalQueries s"
proof (induction s rule: StripTerminalQueries.induct)
  case (2 c cs)
  show ?case
  proof (cases "c = ESC")
    case True
    obtain n k where nk: "consume_escape (c # cs) = (n, k)" by fastforce
    then have pos: "0 < n" using consume_escape_pos [of c cs] by simp
    have IH: "StripTerminalQueries (StripTerminalQueries (drop n (c # cs))) =
        StripTerminalQueries (drop n (c # cs))"
      using 2(3) [OF _ refl refl] True nk pos by simp
    show ?thesis
    proof (cases k)
      case True
      with nk obtain us where us: "take n (c # cs) = c # us" "consume_escape (c # us) = (length (c # us), True)"
        using consume_escape_whole [of "c # cs" n] by auto
      then show ?thesis
        using IH \<open>c = ESC\<close> nk StripTerminalQueries_escape [of cs]
          StripTerminalQueries_sequence [of us "StripTerminalQueries (drop n (c # cs))"]
        by auto
    next
      case False
      then show ?thesis using IH \<open>c = ESC\<close> nk StripTerminalQueries_escape [of cs] by simp
    qed
  qed (use 2 in simp)
qed simp

text \<open>
  The specification of the filter: the complete sequences of a string, in order. What
  \<^const>\<open>StripTerminalQueries\<close> leaves are exactly the complete sequences that are not queries.
\<close>

function sequences :: "string \<Rightarrow> string list" where
  "sequences [] = []"
| "sequences (c # cs) =
     (if c \<noteq> ESC then sequences cs
      else
        let (n, keep) = consume_escape (c # cs) in
        if n \<le> 0 then sequences cs
        else (if keep then [take n (c # cs)] else []) @ sequences (drop n (c # cs)))"
  by pat_completeness auto
termination
  by (relation "measure length") auto

lemma sequences_escape:
  "sequences (ESC # cs) =
     (let (n, keep) = consume_escape (ESC # cs) in
      (if keep then [take n (ESC # cs)] else []) @ sequences (drop n (ESC # cs)))"
  using consume_escape_pos [of ESC cs] by (cases "consume_escape (ESC # cs)") simp

lemma sequences_sequence:
  assumes "consume_escape (ESC # us) = (length (ESC # us), True)"
  shows "sequences ((ESC # us) @ s) = (ESC # us) # sequences s"
  using consume_escape_append [OF assms, of s] sequences_escape [of "us @ s"] by simp

lemma sequences_StripTerminalQueries:
  "sequences (StripTerminalQueries s) = filter (\<lambda>q. \<not> isTerminalQuery q) (sequences s)"
proof (induction s rule: StripTerminalQueries.induct)
  case (2 c cs)
  show ?case
  proof (cases "c = ESC")
    case True
    obtain n k where nk: "consume_escape (c # cs) = (n, k)" by fastforce
    then have pos: "0 < n" using consume_escape_pos [of c cs] by simp
    have IH: "sequences (StripTerminalQueries (drop n (c # cs))) =
        filter (\<lambda>q. \<not> isTerminalQuery q) (sequences (drop n (c # cs)))"
      using 2(3) [OF _ refl refl] True nk pos by simp
    show ?thesis
    proof (cases k)
      case True
      with nk obtain us where us: "take n (c # cs) = c # us" "consume_escape (c # us) = (length (c # us), True)"
        using consume_escape_whole [of "c # cs" n] by auto
      then show ?thesis
        using IH \<open>c = ESC\<close> nk StripTerminalQueries_escape [of cs] sequences_escape [of cs]
          sequences_sequence [of us "StripTerminalQueries (drop n (c # cs))"]
        by auto
    next
      case False
      then show ?thesis
        using IH \<open>c = ESC\<close> nk StripTerminalQueries_escape [of cs] sequences_escape [of cs] by simp
    qed
  qed (use 2 in simp)
qed simp

section \<open>The query auto-responder\<close>

definition queryResponse :: "string \<Rightarrow> bytes" where
  "queryResponse seq =
     (if length seq < 2 \<or> seq ! 0 \<noteq> ESC then []
      else if seq ! 1 = CHR ''['' then
        (if seq = ESC # ''[6n'' then ESC # ''[1;1R''
         else if seq = ESC # ''[c'' \<or> seq = ESC # ''[0c'' then ESC # ''[?6c''
         else if seq = ESC # ''[>c'' \<or> seq = ESC # ''[>0c'' then ESC # ''[>0;0;0c''
         else if seq = ESC # ''[>q'' then ESC # ''P>|cw'' @ [ESC, BACKSLASH]
         else if seq = ESC # ''[?u'' then ESC # ''[?0u''
         else [])
      else if seq ! 1 = CHR '']'' then
        (let body = oscBody seq in
         if has_prefix body ''10;?'' then ESC # '']10;rgb:c0c0/c0c0/c0c0'' @ [BEL]
         else if has_prefix body ''11;?'' then ESC # '']11;rgb:0000/0000/0000'' @ [BEL]
         else if has_prefix body ''12;?'' then ESC # '']12;rgb:c0c0/c0c0/c0c0'' @ [BEL]
         else [])
      else [])"

text \<open>
  The loop of \<open>Feed\<close>: responses so far and, when the scan stops at a sequence that is not
  complete, the tail that is retained. The source reads the second result of
  \<open>consumeEscapeSequence\<close> as \<open>complete\<close>.
\<close>

function scan_queries :: "string \<Rightarrow> bytes \<times> bytes" where
  "scan_queries [] = ([], [])"
| "scan_queries (c # cs) =
     (if c \<noteq> ESC then scan_queries cs
      else
        let nx = fst (consume_escape (c # cs)); complete = snd (consume_escape (c # cs)) in
        if \<not> complete then ([], c # cs)
        else (let (out, tl) = scan_queries (drop nx (c # cs))
              in (queryResponse (take nx (c # cs)) @ out, tl)))"
  by pat_completeness auto
termination
  by (relation "measure length")
    (auto simp: Let_def consume_escape_pos)

record QueryAutoResponder =
  resp_tail :: bytes

definition NewQueryAutoResponder :: QueryAutoResponder where
  "NewQueryAutoResponder = \<lparr>resp_tail = []\<rparr>"

definition Responder_Feed :: "QueryAutoResponder \<Rightarrow> bytes \<Rightarrow> QueryAutoResponder \<times> bytes" where
  "Responder_Feed r data =
     (if data = [] \<and> resp_tail r = [] then (r, [])
      else let (out, tl) = scan_queries (resp_tail r @ data) in (r\<lparr>resp_tail := tl\<rparr>, out))"

lemma scan_queries_append:
  "scan_queries a = (o1, t1) \<Longrightarrow> scan_queries (t1 @ b) = (o2, t2) \<Longrightarrow>
   scan_queries (a @ b) = (o1 @ o2, t2)"
proof (induction a arbitrary: o1 rule: scan_queries.induct)
  case (2 c cs)
  show ?case
  proof (cases "c = ESC")
    case True
    obtain n k where nk: "consume_escape (c # cs) = (n, k)" by fastforce
    show ?thesis
    proof (cases k)
      case False
      with 2 True nk show ?thesis by simp
    next
      case complete: True
      with 2 True nk obtain o1' where
        rest: "scan_queries (drop n (c # cs)) = (o1', t1)" "o1 = queryResponse (take n (c # cs)) @ o1'"
        by (auto simp: Let_def split: prod.splits)
      have n: "n \<le> length (c # cs)" "consume_escape ((c # cs) @ b) = (n, True)"
        using consume_escape_complete(2) [of "c # cs" n] consume_escape_append [of "c # cs" n b]
          nk complete by auto
      have "scan_queries (drop n (c # cs) @ b) = (o1' @ o2, t2)"
        using 2(2) [OF _ refl refl] True nk complete rest(1) 2(4) by simp
      moreover have "drop n ((c # cs) @ b) = drop n (c # cs) @ b" "take n ((c # cs) @ b) = take n (c # cs)"
        using n(1) by (simp_all only: drop_append take_append) simp_all
      ultimately show ?thesis
        using n(2) True rest(2) by (simp add: Let_def)
    qed
  qed (use 2 in simp)
qed simp

text \<open>
  The tail a responder holds between calls is empty or starts with an escape sequence that
  is not complete; scanning such a tail again changes nothing.
\<close>

definition responder_ok :: "QueryAutoResponder \<Rightarrow> bool" where
  "responder_ok r \<longleftrightarrow>
     resp_tail r = [] \<or> (hd (resp_tail r) = ESC \<and> \<not> snd (consume_escape (resp_tail r)))"

lemma scan_queries_tail:
  "scan_queries s = (out, t) \<Longrightarrow> t = [] \<or> (hd t = ESC \<and> \<not> snd (consume_escape t))"
proof (induction s arbitrary: out rule: scan_queries.induct)
  case (2 c cs)
  show ?case
  proof (cases "c = ESC \<and> snd (consume_escape (c # cs))")
    case True
    then obtain out' where "scan_queries (drop (fst (consume_escape (c # cs))) (c # cs)) = (out', t)"
      using 2(3) by (auto simp: Let_def split: prod.splits)
    with 2(2) [OF _ refl refl, of out'] True show ?thesis by auto
  next
    case False
    with 2 show ?thesis by (cases "c = ESC") (auto simp: Let_def)
  qed
qed simp

lemma scan_queries_ok: "responder_ok r \<Longrightarrow> scan_queries (resp_tail r) = ([], resp_tail r)"
  by (cases "resp_tail r") (auto simp: responder_ok_def)

lemma Feed_eq: "responder_ok r \<Longrightarrow> Responder_Feed r data = (r\<lparr>resp_tail := snd (scan_queries (resp_tail r @ data))\<rparr>, fst (scan_queries (resp_tail r @ data)))"
  by (auto simp: Responder_Feed_def split: prod.splits)

interpretation responder: byte_machine Responder_Feed responder_ok
proof unfold_locales
  fix r assume "responder_ok r"
  then show "Responder_Feed r [] = (r, [])" by (simp add: Feed_eq scan_queries_ok)
next
  fix r a r1 out assume "responder_ok r" "Responder_Feed r a = (r1, out)"
  then show "responder_ok r1"
    using scan_queries_tail [of "resp_tail r @ a"]
    by (auto simp: Feed_eq responder_ok_def prod_eq_iff)
next
  fix r a r1 o1 b r2 o2
  assume r: "responder_ok r" and a: "Responder_Feed r a = (r1, o1)" and b: "Responder_Feed r1 b = (r2, o2)"
  have "responder_ok r1"
    using scan_queries_tail [of "resp_tail r @ a"] r a
    by (auto simp: Feed_eq responder_ok_def prod_eq_iff)
  with r a b have "scan_queries (resp_tail r @ a) = (o1, resp_tail r1)" "scan_queries (resp_tail r1 @ b) = (o2, resp_tail r2)"
    "r2 = r\<lparr>resp_tail := resp_tail r2\<rparr>"
    by (auto simp: Feed_eq prod_eq_iff)
  with scan_queries_append [of "resp_tail r @ a" o1 "resp_tail r1" b o2 "resp_tail r2"] r
  show "Responder_Feed r (a @ b) = (r2, o1 @ o2)" by (simp add: Feed_eq)
qed

end
