(* ===== verification/Detach.thy ===== *)
theory Detach
  imports Prelude "HOL-Library.Multiset"
begin

text \<open>
  The detach detector of \<open>internal/terminal/detach.go\<close>: a byte-driven state machine
  that recognises Ctrl+B followed by \<open>d\<close>, each in the legacy or the Kitty encoding, and
  forwards every other byte to the session.
\<close>

section \<open>State\<close>

datatype detectState = stateNormal | stateSawPrefix | stateSawPrefixEsc | stateSawPrefixCsi
  | stateEsc | stateCsi

record DetachDetector =
  det_state :: detectState
  det_buf :: bytes
  det_params :: bytes

definition NewDetachDetector :: DetachDetector where
  "NewDetachDetector = \<lparr>det_state = stateNormal, det_buf = [], det_params = []\<rparr>"

abbreviation CTRL_B :: byte where "CTRL_B \<equiv> CHR 0x02"

lemma det_update_order [simp]:
  "d\<lparr>det_buf := x, det_state := s\<rparr> = (d\<lparr>det_state := s, det_buf := x\<rparr> :: DetachDetector)"
  by (cases d) simp

section \<open>Kitty key events\<close>

text \<open>
  \<open>parseKitty\<close>: code point and modifier of the parameters of a \<open>CSI ... u\<close> sequence,
  \<open>None\<close> when \<open>ok\<close> is false.
\<close>

definition parseKitty :: "bytes \<Rightarrow> (nat \<times> nat) option" where
  "parseKitty params =
     (let parts = split_n 3 (CHR '';'') params;
          cpStr = split_n 2 (CHR '':'') (parts ! 0) ! 0 in
      case parse_uint32 cpStr of
        None \<Rightarrow> None
      | Some cp \<Rightarrow>
          if 2 \<le> length parts then
            (let modStr = split_n 2 (CHR '':'') (parts ! 1) ! 0 in
             case parse_uint32 modStr of
               None \<Rightarrow> None
             | Some m \<Rightarrow> Some (cp, m))
          else Some (cp, 1))"

definition isKittyCtrlB :: "DetachDetector \<Rightarrow> bool" where
  "isKittyCtrlB d = (parseKitty (det_params d) = Some (98, 5))"

text \<open>The slice \<open>d.buf[2:len(d.buf)-1]\<close> is in range because of the length check.\<close>

definition isKittyD :: "DetachDetector \<Rightarrow> bool" where
  "isKittyD d =
     (if length (det_buf d) < 4 then False
      else parseKitty (drop 2 (take (length (det_buf d) - 1) (det_buf d))) = Some (100, 1))"

section \<open>One byte\<close>

text \<open>
  \<open>Feed\<close>: the detector after the byte, whether a detach was recognised, and the bytes to
  forward. Each case copies the buffer before it is cleared, as the source does.
\<close>

definition Detector_Feed :: "DetachDetector \<Rightarrow> byte \<Rightarrow> DetachDetector \<times> bool \<times> bytes" where
  "Detector_Feed d b =
     (case det_state d of
        stateNormal \<Rightarrow>
          if b = CTRL_B then (d\<lparr>det_state := stateSawPrefix\<rparr>, False, [])
          else if b = ESC then (d\<lparr>det_state := stateEsc, det_buf := [b]\<rparr>, False, [])
          else (d, False, [b])
      | stateSawPrefix \<Rightarrow>
          if b = CHR ''d'' then (d\<lparr>det_state := stateNormal\<rparr>, True, [])
          else if b = ESC then (d\<lparr>det_state := stateSawPrefixEsc, det_buf := [b]\<rparr>, False, [])
          else (d\<lparr>det_state := stateNormal\<rparr>, False, [CTRL_B, b])
      | stateSawPrefixEsc \<Rightarrow>
          let d1 = d\<lparr>det_buf := det_buf d @ [b]\<rparr> in
          if b = CHR ''['' then (d1\<lparr>det_state := stateSawPrefixCsi\<rparr>, False, [])
          else (d1\<lparr>det_state := stateSawPrefix, det_buf := []\<rparr>, False, det_buf d1)
      | stateSawPrefixCsi \<Rightarrow>
          let d1 = d\<lparr>det_buf := det_buf d @ [b]\<rparr> in
          if CHR 0x20 \<le> b \<and> b \<le> CHR 0x3F then (d1, False, [])
          else if CHR 0x40 \<le> b \<and> b \<le> CHR 0x7E then
            if b = CHR ''u'' then
              if isKittyD d1 then (d1\<lparr>det_state := stateNormal, det_buf := []\<rparr>, True, [])
              else (d1\<lparr>det_state := stateNormal, det_buf := []\<rparr>, False, CTRL_B # det_buf d1)
            else (d1\<lparr>det_state := stateSawPrefix, det_buf := []\<rparr>, False, det_buf d1)
          else (d1\<lparr>det_state := stateNormal, det_buf := []\<rparr>, False, CTRL_B # det_buf d1)
      | stateEsc \<Rightarrow>
          let d1 = d\<lparr>det_buf := det_buf d @ [b]\<rparr> in
          if b = CHR ''['' then (d1\<lparr>det_state := stateCsi, det_params := []\<rparr>, False, [])
          else (d1\<lparr>det_state := stateNormal, det_buf := []\<rparr>, False, det_buf d1)
      | stateCsi \<Rightarrow>
          let d1 = d\<lparr>det_buf := det_buf d @ [b]\<rparr> in
          if CHR 0x30 \<le> b \<and> b \<le> CHR 0x3F then (d1\<lparr>det_params := det_params d @ [b]\<rparr>, False, [])
          else if CHR 0x20 \<le> b \<and> b \<le> CHR 0x2F then (d1, False, [])
          else if CHR 0x40 \<le> b \<and> b \<le> CHR 0x7E then
            if b = CHR ''u'' \<and> isKittyCtrlB d1 then
              (d1\<lparr>det_state := stateSawPrefix, det_buf := [], det_params := []\<rparr>, False, [])
            else (d1\<lparr>det_state := stateNormal, det_buf := [], det_params := []\<rparr>, False, det_buf d1)
          else (d1\<lparr>det_state := stateNormal, det_buf := [], det_params := []\<rparr>, False, det_buf d1))"

text \<open>\<open>FeedBuf\<close> stops at a detach: the rest of the buffer is neither examined nor forwarded.\<close>

fun FeedBuf :: "DetachDetector \<Rightarrow> bytes \<Rightarrow> DetachDetector \<times> bool \<times> bytes" where
  "FeedBuf d [] = (d, False, [])"
| "FeedBuf d (b # bs) =
     (case Detector_Feed d b of
        (d1, True, _) \<Rightarrow> (d1, True, [])
      | (d1, False, out) \<Rightarrow>
          (case FeedBuf d1 bs of (d2, detach, fwd) \<Rightarrow> (d2, detach, out @ fwd)))"

section \<open>The invariant between state and buffers\<close>

text \<open>
  Outside an escape sequence nothing is buffered; inside, the buffer holds exactly the
  bytes of the sequence so far, and the Kitty parameters are its parameter bytes.
\<close>

definition csi_body :: "byte \<Rightarrow> bool" where
  "csi_body b \<longleftrightarrow> CHR 0x20 \<le> b \<and> b \<le> CHR 0x3F"

definition param_byte :: "byte \<Rightarrow> bool" where
  "param_byte b \<longleftrightarrow> CHR 0x30 \<le> b \<and> b \<le> CHR 0x3F"

definition detector_ok :: "DetachDetector \<Rightarrow> bool" where
  "detector_ok d \<longleftrightarrow>
     (case det_state d of
        stateNormal \<Rightarrow> det_buf d = []
      | stateSawPrefix \<Rightarrow> det_buf d = []
      | stateSawPrefixEsc \<Rightarrow> det_buf d = [ESC]
      | stateEsc \<Rightarrow> det_buf d = [ESC]
      | stateSawPrefixCsi \<Rightarrow>
          take 2 (det_buf d) = [ESC, CHR ''[''] \<and> list_all csi_body (drop 2 (det_buf d))
      | stateCsi \<Rightarrow>
          take 2 (det_buf d) = [ESC, CHR ''[''] \<and> list_all csi_body (drop 2 (det_buf d)) \<and>
          det_params d = filter param_byte (drop 2 (det_buf d)))"

text \<open>The bytes the detector has taken in and not yet forwarded.\<close>

definition held :: "DetachDetector \<Rightarrow> bytes" where
  "held d =
     (case det_state d of
        stateNormal \<Rightarrow> []
      | stateSawPrefix \<Rightarrow> [CTRL_B]
      | stateSawPrefixEsc \<Rightarrow> CTRL_B # det_buf d
      | stateSawPrefixCsi \<Rightarrow> CTRL_B # det_buf d
      | stateEsc \<Rightarrow> det_buf d
      | stateCsi \<Rightarrow> det_buf d)"

lemmas detector_cases = Detector_Feed_def detector_ok_def held_def Let_def

lemma take_2_snoc: "take 2 xs = [a, b] \<Longrightarrow> take 2 (xs @ [x]) = [a, b] \<and> drop 2 (xs @ [x]) = drop 2 xs @ [x]"
  by (cases xs; cases "List.tl xs") auto

lemma detector_ok_New: "detector_ok NewDetachDetector"
  by (simp add: detector_ok_def NewDetachDetector_def)

lemma param_csi_body:
  "CHR 0x30 \<le> b \<and> b \<le> CHR 0x3F \<Longrightarrow> csi_body b"
  "CHR 0x20 \<le> b \<and> b \<le> CHR 0x2F \<Longrightarrow> csi_body b \<and> \<not> param_byte b"
  by (auto simp: csi_body_def param_byte_def less_eq_char_def)

lemma detector_ok_Feed [inv_intros]:
  assumes "detector_ok d" and "Detector_Feed d b = (d', detach, out)"
  shows "detector_ok d'"
proof (cases "det_state d")
  case stateSawPrefixCsi
  with assms take_2_snoc [of "det_buf d" ESC "CHR ''[''" b] show ?thesis
    by (auto simp: detector_cases csi_body_def split: if_splits)
next
  case stateCsi
  with assms take_2_snoc [of "det_buf d" ESC "CHR ''[''" b] show ?thesis
    by (auto simp: detector_cases param_csi_body param_byte_def split: if_splits)
qed (use assms in \<open>auto simp: detector_cases split: if_splits\<close>)

lemma detector_ok_FeedBuf [inv_intros]:
  "detector_ok d \<Longrightarrow> FeedBuf d bs = (d', detach, out) \<Longrightarrow> detector_ok d'"
  by (induction d bs arbitrary: detach out rule: FeedBuf.induct)
    (auto split: prod.splits bool.splits intro: inv_intros)

section \<open>Nothing is lost\<close>

text \<open>The steps that recognise a Kitty Ctrl+B: its bytes are replaced by the prefix state.\<close>

definition kitty_prefix :: "DetachDetector \<Rightarrow> byte \<Rightarrow> bool" where
  "kitty_prefix d b \<longleftrightarrow> det_state d = stateCsi \<and> b = CHR ''u'' \<and> isKittyCtrlB d"

lemma isKittyCtrlB_buf [simp]: "isKittyCtrlB (d\<lparr>det_buf := x\<rparr>) = isKittyCtrlB d"
  by (simp add: isKittyCtrlB_def)

lemma Feed_conserves:
  assumes "Detector_Feed d b = (d', False, out)" and "\<not> kitty_prefix d b"
  shows "mset out + mset (held d') = mset (held d) + {#b#}"
  using assms
  by (cases "det_state d") (auto simp: detector_cases kitty_prefix_def split: if_splits)

fun kitty_free :: "DetachDetector \<Rightarrow> bytes \<Rightarrow> bool" where
  "kitty_free d [] = True"
| "kitty_free d (b # bs) = (\<not> kitty_prefix d b \<and> kitty_free (fst (Detector_Feed d b)) bs)"

lemma FeedBuf_conserves:
  "FeedBuf d bs = (d', False, out) \<Longrightarrow> kitty_free d bs \<Longrightarrow>
   mset out + mset (held d') = mset (held d) + mset bs"
proof (induction d bs arbitrary: out rule: FeedBuf.induct)
  case (2 d b bs)
  obtain d1 o1 where f: "Detector_Feed d b = (d1, False, o1)"
    using "2.prems"(1) by (auto split: prod.splits bool.splits)
  with "2.prems"(1) obtain o2 where r: "FeedBuf d1 bs = (d', False, o2)" "out = o1 @ o2"
    by (auto split: prod.splits)
  have "mset o2 + mset (held d') = mset (held d1) + mset bs"
    using "2.IH" [OF f [symmetric] refl refl] r(1) "2.prems"(2) f by simp
  moreover have "mset o1 + mset (held d1) = mset (held d) + {#b#}"
    using Feed_conserves [OF f] "2.prems"(2) by simp
  ultimately show ?case using r(2) by (simp add: union_ac)
qed simp

section \<open>Legacy input\<close>

text \<open>
  Input without ESC never enters the escape states. There the machine is this two-state
  scanner: Ctrl+B pairs with the next byte, and the pair is a detach when that byte is \<open>d\<close>.
\<close>

fun legacy_scan :: "bytes \<Rightarrow> bool \<times> bytes" where
  "legacy_scan [] = (False, [])"
| "legacy_scan [b] = (False, if b = CTRL_B then [] else [b])"
| "legacy_scan (b # c # bs) =
     (if b = CTRL_B then
        (if c = CHR ''d'' then (True, [])
         else (let (det, out) = legacy_scan bs in (det, [CTRL_B, c] @ out)))
      else (let (det, out) = legacy_scan (c # bs) in (det, b # out)))"

lemma Feed_normal [simp]:
  "det_state d = stateNormal \<Longrightarrow> b \<noteq> CTRL_B \<Longrightarrow> b \<noteq> ESC \<Longrightarrow> Detector_Feed d b = (d, False, [b])"
  "det_state d = stateNormal \<Longrightarrow> Detector_Feed d CTRL_B = (d\<lparr>det_state := stateSawPrefix\<rparr>, False, [])"
  by (simp_all add: Detector_Feed_def)

lemma Feed_prefix [simp]:
  "det_state d = stateSawPrefix \<Longrightarrow> Detector_Feed d (CHR ''d'') = (d\<lparr>det_state := stateNormal\<rparr>, True, [])"
  "det_state d = stateSawPrefix \<Longrightarrow> b \<noteq> CHR ''d'' \<Longrightarrow> b \<noteq> ESC \<Longrightarrow>
     Detector_Feed d b = (d\<lparr>det_state := stateNormal\<rparr>, False, [CTRL_B, b])"
  by (simp_all add: Detector_Feed_def)

lemma snd_FeedBuf_Cons:
  "Detector_Feed d b = (d1, False, out) \<Longrightarrow>
     snd (FeedBuf d (b # bs)) = (fst (snd (FeedBuf d1 bs)), out @ snd (snd (FeedBuf d1 bs)))"
  "Detector_Feed d b = (d1, True, out) \<Longrightarrow> snd (FeedBuf d (b # bs)) = (True, [])"
  by (simp_all split: prod.splits)

lemma FeedBuf_legacy:
  "det_state d = stateNormal \<Longrightarrow> ESC \<notin> set bs \<Longrightarrow> snd (FeedBuf d bs) = legacy_scan bs"
proof (induction bs arbitrary: d rule: legacy_scan.induct)
  case (2 b)
  then show ?case by (cases "b = CTRL_B") simp_all
next
  case (3 b c bs)
  let ?n = "d\<lparr>det_state := stateNormal\<rparr>" and ?p = "d\<lparr>det_state := stateSawPrefix\<rparr>"
  show ?case
  proof (cases "b = CTRL_B")
    case True
    then have b: "Detector_Feed d b = (?p, False, [])" using 3 by simp
    show ?thesis
    proof (cases "c = CHR ''d''")
      case True
      then have "snd (FeedBuf ?p (c # bs)) = (True, [])"
        by (simp add: snd_FeedBuf_Cons(2))
      with True \<open>b = CTRL_B\<close> snd_FeedBuf_Cons(1) [OF b, of "c # bs"] show ?thesis
        by (simp del: FeedBuf.simps)
    next
      case False
      have "c \<noteq> ESC" using 3 by auto
      then have c: "Detector_Feed ?p c = (?p\<lparr>det_state := stateNormal\<rparr>, False, [CTRL_B, c])"
        by (intro Feed_prefix(2)) (simp_all add: False)
      moreover have "snd (FeedBuf (?p\<lparr>det_state := stateNormal\<rparr>) bs) = legacy_scan bs"
        using 3(1) True False 3 by simp
      ultimately show ?thesis
        using True False snd_FeedBuf_Cons(1) [OF b, of "c # bs"] snd_FeedBuf_Cons(1) [OF c, of bs]
        by (simp del: FeedBuf.simps split: prod.splits)
    qed
  next
    case False
    moreover have "b \<noteq> ESC" using 3 by auto
    ultimately have b: "Detector_Feed d b = (d, False, [b])" using 3 by (intro Feed_normal(1))
    moreover have "snd (FeedBuf d (c # bs)) = legacy_scan (c # bs)"
      using 3(2) False 3 by simp
    ultimately show ?thesis
      using False snd_FeedBuf_Cons(1) [OF b, of "c # bs"]
      by (simp del: FeedBuf.simps split: prod.splits)
  qed
qed simp

lemma legacy_scan_plain: "CTRL_B \<notin> set bs \<Longrightarrow> legacy_scan bs = (False, bs)"
  by (induction bs rule: legacy_scan.induct) auto

section \<open>Escape sequences between the prefix and d\<close>

text \<open>A complete control sequence that is not a Kitty key event.\<close>

definition terminal_csi :: "bytes \<Rightarrow> bool" where
  "terminal_csi s \<longleftrightarrow>
     (\<exists>body f. s = [ESC, CHR ''[''] @ body @ [f] \<and> list_all csi_body body \<and>
        CHR 0x40 \<le> f \<and> f \<le> CHR 0x7E \<and> f \<noteq> CHR ''u'')"

lemma FeedBuf_prefix_body:
  "det_state d = stateSawPrefixCsi \<Longrightarrow> list_all csi_body body \<Longrightarrow>
   FeedBuf d (body @ bs) = FeedBuf (d\<lparr>det_buf := det_buf d @ body\<rparr>) bs"
proof (induction body arbitrary: d)
  case (Cons b body)
  have "Detector_Feed d b = (d\<lparr>det_buf := det_buf d @ [b]\<rparr>, False, [])"
    using Cons.prems by (simp add: Detector_Feed_def csi_body_def Let_def)
  with Cons show ?case by (simp split: prod.splits)
qed simp

lemma FeedBuf_terminal_csi:
  assumes d: "det_state d = stateSawPrefix" and s: "terminal_csi s"
  shows "FeedBuf d (s @ bs) =
           (case FeedBuf (d\<lparr>det_buf := []\<rparr>) bs of (d2, detach, out) \<Rightarrow> (d2, detach, s @ out))"
proof -
  from s obtain body f where s: "s = [ESC, CHR ''[''] @ body @ [f]" and body: "list_all csi_body body"
    and f: "CHR 0x40 \<le> f" "f \<le> CHR 0x7E" "f \<noteq> CHR ''u''"
    by (auto simp: terminal_csi_def)
  have nb: "\<not> f \<le> CHR 0x3F" using f(1) by (auto simp: less_eq_char_def)
  let ?d = "d\<lparr>det_buf := [ESC, CHR ''[''] @ body, det_state := stateSawPrefixCsi\<rparr>"
  let ?d1 = "d\<lparr>det_buf := [ESC, CHR ''[''], det_state := stateSawPrefixCsi\<rparr>"
  have "Detector_Feed ?d f =
      (d\<lparr>det_state := stateSawPrefix, det_buf := []\<rparr>, False, [ESC, CHR ''[''] @ body @ [f])"
    using f nb by (simp add: Detector_Feed_def Let_def)
  moreover have "d\<lparr>det_state := stateSawPrefix, det_buf := []\<rparr> = d\<lparr>det_buf := []\<rparr>"
    using d by simp
  ultimately have "FeedBuf ?d (f # bs) =
      (case FeedBuf (d\<lparr>det_buf := []\<rparr>) bs of (d2, detach, out) \<Rightarrow> (d2, detach, s @ out))"
    by (simp add: s split: prod.splits)
  moreover have "?d1\<lparr>det_buf := [ESC, CHR ''[''] @ body\<rparr> = ?d" by (cases d) simp
  then have "FeedBuf ?d1 (body @ f # bs) = FeedBuf ?d (f # bs)"
    using FeedBuf_prefix_body [of ?d1 body "f # bs"] body by simp
  moreover have "FeedBuf d (s @ bs) = FeedBuf ?d1 (body @ f # bs)"
    using d by (simp add: s Detector_Feed_def Let_def split: prod.splits)
  ultimately show ?thesis by simp
qed

lemma FeedBuf_chord:
  "det_state d = stateSawPrefix \<Longrightarrow> det_buf d = [] \<Longrightarrow> list_all terminal_csi ss \<Longrightarrow>
   snd (FeedBuf d (concat ss @ CHR ''d'' # bs)) = (True, concat ss)"
proof (induction ss)
  case (Cons s ss)
  have d: "d\<lparr>det_buf := []\<rparr> = d" using Cons.prems(2) by (cases d) simp
  have "FeedBuf d (s @ concat ss @ CHR ''d'' # bs) =
      (case FeedBuf d (concat ss @ CHR ''d'' # bs) of (d2, detach, out) \<Rightarrow> (d2, detach, s @ out))"
    using FeedBuf_terminal_csi [of d s "concat ss @ CHR ''d'' # bs"] Cons.prems
    by (metis d list.pred_inject(2))
  with Cons show ?case by (auto split: prod.splits)
qed simp

section \<open>Chunk borders\<close>

lemma FeedBuf_append:
  "FeedBuf d (a @ b) =
     (case FeedBuf d a of
        (d1, True, out) \<Rightarrow> (d1, True, out)
      | (d1, False, out) \<Rightarrow> (case FeedBuf d1 b of (d2, detach, out2) \<Rightarrow> (d2, detach, out @ out2)))"
  by (induction d a rule: FeedBuf.induct) (auto split: prod.splits bool.splits)

text \<open>
  An attach client: it feeds what it reads until the detector reports a detach, and reads
  nothing afterwards.
\<close>

fun attached_feed :: "bool \<times> DetachDetector \<Rightarrow> bytes \<Rightarrow> (bool \<times> DetachDetector) \<times> bytes" where
  "attached_feed (True, d) bs = ((True, d), [])"
| "attached_feed (False, d) bs =
     (case FeedBuf d bs of (d1, detach, out) \<Rightarrow> ((detach, d1), out))"

interpretation attached: byte_machine attached_feed "\<lambda>(_, d). detector_ok d"
proof unfold_locales
  fix s :: "bool \<times> DetachDetector" assume "case s of (_, d) \<Rightarrow> detector_ok d"
  then show "attached_feed s [] = (s, [])" by (cases s rule: prod.exhaust; cases "fst s") auto
next
  fix s s1 :: "bool \<times> DetachDetector" and a out
  assume "case s of (_, d) \<Rightarrow> detector_ok d" "attached_feed s a = (s1, out)"
  then show "case s1 of (_, d) \<Rightarrow> detector_ok d"
    by (cases "(s, a)" rule: attached_feed.cases) (auto split: prod.splits intro: inv_intros)
next
  fix s s1 s2 :: "bool \<times> DetachDetector" and a b o1 o2
  assume "attached_feed s a = (s1, o1)" "attached_feed s1 b = (s2, o2)"
  then show "attached_feed s (a @ b) = (s2, o1 @ o2)"
    by (cases "(s, a)" rule: attached_feed.cases)
      (auto simp: FeedBuf_append split: prod.splits bool.splits)
qed

end
