(* ===== verification/OutputState.thy ===== *)
theory OutputState
  imports Prelude
begin

text \<open>
  The output tracker of \<open>internal/terminal/output_state.go\<close>: enough of the VT state to
  know when the client may inject its own status-bar sequences, and whether the program is
  on the alternate screen.
\<close>

datatype outputParserState = outputStateGround | outputStateEsc | outputStateCSI
  | outputStateOSC | outputStateOSCEsc

record OutputState =
  os_state :: outputParserState
  csiParams :: bytes
  altScreen :: bool

definition NewOutputState :: OutputState where
  "NewOutputState = \<lparr>os_state = outputStateGround, csiParams = [], altScreen = False\<rparr>"

definition SafeToInject :: "OutputState \<Rightarrow> bool" where
  "SafeToInject s = (os_state s = outputStateGround)"

definition applyCSI :: "OutputState \<Rightarrow> byte \<Rightarrow> OutputState" where
  "applyCSI s final =
     (if final \<noteq> CHR ''h'' \<and> final \<noteq> CHR ''l'' then s
      else
        let enable = (final = CHR ''h'') in
        if csiParams s = ''?1049'' then s\<lparr>altScreen := enable\<rparr>
        else if csiParams s = ''?1047'' then s\<lparr>altScreen := enable\<rparr>
        else if csiParams s = ''?47'' then s\<lparr>altScreen := enable\<rparr>
        else s)"

definition output_step :: "OutputState \<Rightarrow> byte \<Rightarrow> OutputState" where
  "output_step s b =
     (case os_state s of
        outputStateGround \<Rightarrow> if b = ESC then s\<lparr>os_state := outputStateEsc\<rparr> else s
      | outputStateEsc \<Rightarrow>
          if b = CHR ''['' then s\<lparr>os_state := outputStateCSI, csiParams := []\<rparr>
          else if b = CHR '']'' then s\<lparr>os_state := outputStateOSC\<rparr>
          else s\<lparr>os_state := outputStateGround\<rparr>
      | outputStateCSI \<Rightarrow>
          if CHR 0x30 \<le> b \<and> b \<le> CHR 0x3F then s\<lparr>csiParams := csiParams s @ [b]\<rparr>
          else if CHR 0x20 \<le> b \<and> b \<le> CHR 0x2F then s
          else if CHR 0x40 \<le> b \<and> b \<le> CHR 0x7E then
            (applyCSI s b)\<lparr>os_state := outputStateGround, csiParams := []\<rparr>
          else s\<lparr>os_state := outputStateGround, csiParams := []\<rparr>
      | outputStateOSC \<Rightarrow>
          if b = BEL then s\<lparr>os_state := outputStateGround\<rparr>
          else if b = ESC then s\<lparr>os_state := outputStateOSCEsc\<rparr>
          else s
      | outputStateOSCEsc \<Rightarrow>
          if b = BACKSLASH then s\<lparr>os_state := outputStateGround\<rparr>
          else s\<lparr>os_state := outputStateOSC\<rparr>)"

fun OutputState_Feed :: "OutputState \<Rightarrow> bytes \<Rightarrow> OutputState" where
  "OutputState_Feed s [] = s"
| "OutputState_Feed s (b # bs) = OutputState_Feed (output_step s b) bs"

lemma OutputState_Feed_append:
  "OutputState_Feed s (a @ b) = OutputState_Feed (OutputState_Feed s a) b"
  by (induction s a rule: OutputState_Feed.induct) auto

text \<open>The tracker writes nothing, so as a byte machine its output is empty.\<close>

interpretation tracker: byte_machine "\<lambda>s bs. (OutputState_Feed s bs, [])" "\<lambda>_. True"
  by unfold_locales (auto simp: OutputState_Feed_append)

section \<open>Text and control sequences\<close>

lemma Feed_ground_text:
  "os_state s = outputStateGround \<Longrightarrow> ESC \<notin> set bs \<Longrightarrow> OutputState_Feed s bs = s"
  by (induction bs) (auto simp: output_step_def)

definition out_param :: "byte \<Rightarrow> bool" where
  "out_param b \<longleftrightarrow> CHR 0x30 \<le> b \<and> b \<le> CHR 0x3F"

lemma Feed_csi_params:
  "os_state s = outputStateCSI \<Longrightarrow> list_all out_param ps \<Longrightarrow>
   OutputState_Feed s ps = s\<lparr>csiParams := csiParams s @ ps\<rparr>"
proof (induction ps arbitrary: s)
  case (Cons b ps)
  then have "output_step s b = s\<lparr>csiParams := csiParams s @ [b]\<rparr>"
    by (simp add: output_step_def out_param_def)
  with Cons show ?case by simp
qed simp

text \<open>What a complete control sequence does to the tracker.\<close>

definition toggles_alt :: "bytes \<Rightarrow> byte \<Rightarrow> bool" where
  "toggles_alt params final \<longleftrightarrow>
     final \<in> {CHR ''h'', CHR ''l''} \<and> params \<in> {''?1049'', ''?1047'', ''?47''}"

lemma Feed_csi:
  assumes g: "os_state s = outputStateGround" and ps: "list_all out_param ps"
    and f: "CHR 0x40 \<le> f" "f \<le> CHR 0x7E"
  shows "OutputState_Feed s (ESC # CHR ''['' # ps @ [f]) =
           s\<lparr>csiParams := [],
             altScreen := (if toggles_alt ps f then f = CHR ''h'' else altScreen s)\<rparr>"
proof -
  let ?c = "s\<lparr>os_state := outputStateCSI, csiParams := []\<rparr>"
  have "OutputState_Feed s (ESC # CHR ''['' # ps @ [f]) = output_step (OutputState_Feed ?c ps) f"
    using g by (simp add: output_step_def OutputState_Feed_append)
  also have "OutputState_Feed ?c ps = ?c\<lparr>csiParams := ps\<rparr>"
    using ps Feed_csi_params [of ?c ps] by simp
  also have "output_step (?c\<lparr>csiParams := ps\<rparr>) f =
      (applyCSI (?c\<lparr>csiParams := ps\<rparr>) f)\<lparr>os_state := outputStateGround, csiParams := []\<rparr>"
  proof -
    have "\<not> f \<le> CHR 0x3F" "\<not> f \<le> CHR 0x2F" using f by (auto simp: less_eq_char_def)
    with f show ?thesis by (simp add: output_step_def)
  qed
  also have "\<dots> = s\<lparr>csiParams := [],
      altScreen := (if toggles_alt ps f then f = CHR ''h'' else altScreen s)\<rparr>"
    using g by (cases s) (auto simp: applyCSI_def toggles_alt_def Let_def)
  finally show ?thesis .
qed

text \<open>Only a control sequence changes the screen flag; operating system commands do not.\<close>

lemma output_step_alt:
  "os_state s \<noteq> outputStateCSI \<Longrightarrow> altScreen (output_step s b) = altScreen s"
  by (cases "os_state s") (auto simp: output_step_def)

end
