(* ===== verification/KVStore.thy ===== *)
theory KVStore
  imports Prelude
begin

text \<open>
  The node's in-memory key-value store, \<open>internal/session/kvstore.go\<close>: namespaces, and
  entries with a time to live that a \<open>time.AfterFunc\<close> timer removes.

  Every method holds the store's lock, so it is one atomic step. A timer is armed, or has
  fired: its callback then runs in a goroutine of its own and waits for the lock before it
  deletes the key. \<open>Timer.Stop\<close> disarms an armed timer and does nothing to a fired one.
\<close>

section \<open>State\<close>

record kvEntry =
  kv_value :: "bytes option"   \<comment> \<open>\<open>None\<close> is the nil slice\<close>
  kv_expiresAt :: "nanos option"
  kv_timer :: "nat option"

record KVStore =
  kv_data :: "(string, (string, kvEntry) gomap) gomap"
  kv_armed :: "(nat, string \<times> string \<times> nanos) gomap"   \<comment> \<open>timers that have not fired\<close>
  kv_waiting :: "(string \<times> string) list"   \<comment> \<open>callbacks waiting for the lock\<close>
  kv_nextTimer :: nat

definition NewKVStore :: KVStore where
  "NewKVStore = \<lparr>kv_data = [], kv_armed = [], kv_waiting = [], kv_nextTimer = 0\<rparr>"

text \<open>The entry of a key, if there is one.\<close>

definition kv_entry :: "KVStore \<Rightarrow> string \<Rightarrow> string \<Rightarrow> kvEntry option" where
  "kv_entry kv namespace key = Option.bind (mget (kv_data kv) namespace) (\<lambda>ns. mget ns key)"

definition timer_stop :: "kvEntry option \<Rightarrow> KVStore \<Rightarrow> KVStore" where
  "timer_stop existing kv =
     (case Option.bind existing kv_timer of
        None \<Rightarrow> kv
      | Some t \<Rightarrow> kv\<lparr>kv_armed := mdel t (kv_armed kv)\<rparr>)"

section \<open>Operations\<close>

definition KV_Set :: "string \<Rightarrow> string \<Rightarrow> bytes option \<Rightarrow> nanos \<Rightarrow> nanos \<Rightarrow> KVStore \<Rightarrow> KVStore" where
  "KV_Set namespace key val ttl now kv =
     (let ns = (case mget (kv_data kv) namespace of None \<Rightarrow> [] | Some ns \<Rightarrow> ns);
          kv1 = timer_stop (mget ns key) kv;
          t = kv_nextTimer kv1;
          entry = (if 0 < ttl
                   then \<lparr>kv_value = val, kv_expiresAt = Some (now + ttl), kv_timer = Some t\<rparr>
                   else \<lparr>kv_value = val, kv_expiresAt = None, kv_timer = None\<rparr>);
          kv2 = (if 0 < ttl
                 then kv1\<lparr>kv_armed := mput t (namespace, key, now + ttl) (kv_armed kv1),
                          kv_nextTimer := Suc t\<rparr>
                 else kv1)
      in kv2\<lparr>kv_data := mput namespace (mput key entry ns) (kv_data kv2)\<rparr>)"

definition KV_Get :: "string \<Rightarrow> string \<Rightarrow> KVStore \<Rightarrow> bytes option" where
  "KV_Get namespace key kv =
     (case mget (kv_data kv) namespace of
        None \<Rightarrow> None
      | Some ns \<Rightarrow> (case mget ns key of None \<Rightarrow> None | Some e \<Rightarrow> kv_value e))"

definition KV_Delete :: "string \<Rightarrow> string \<Rightarrow> KVStore \<Rightarrow> KVStore" where
  "KV_Delete namespace key kv =
     (case mget (kv_data kv) namespace of
        None \<Rightarrow> kv
      | Some ns \<Rightarrow>
          let kv1 = timer_stop (mget ns key) kv; ns1 = mdel key ns in
          if ns1 = [] then kv1\<lparr>kv_data := mdel namespace (kv_data kv1)\<rparr>
          else kv1\<lparr>kv_data := mput namespace ns1 (kv_data kv1)\<rparr>)"

definition KV_List :: "string \<Rightarrow> string \<Rightarrow> KVStore \<Rightarrow> (string \<times> bytes option \<times> nanos option) list" where
  "KV_List namespace pre kv =
     (case mget (kv_data kv) namespace of
        None \<Rightarrow> []
      | Some ns \<Rightarrow>
          map (\<lambda>(k, e). (k, kv_value e, kv_expiresAt e))
            (filter (\<lambda>(k, e). pre = [] \<or> has_prefix k pre) ns))"

text \<open>Steps of the runtime: a due timer fires; a waiting callback gets the lock.\<close>

definition KV_Fire :: "nat \<Rightarrow> nanos \<Rightarrow> KVStore \<Rightarrow> KVStore" where
  "KV_Fire t now kv =
     (case mget (kv_armed kv) t of
        Some (namespace, key, due) \<Rightarrow>
          if due \<le> now
          then kv\<lparr>kv_armed := mdel t (kv_armed kv), kv_waiting := kv_waiting kv @ [(namespace, key)]\<rparr>
          else kv
      | None \<Rightarrow> kv)"

definition KV_Callback :: "nat \<Rightarrow> KVStore \<Rightarrow> KVStore" where
  "KV_Callback i kv =
     (if i < length (kv_waiting kv)
      then (case kv_waiting kv ! i of (namespace, key) \<Rightarrow>
        KV_Delete namespace key
          (kv\<lparr>kv_waiting := take i (kv_waiting kv) @ drop (Suc i) (kv_waiting kv)\<rparr>))
      else kv)"

section \<open>Reading back\<close>

lemma kv_data_timer_stop [simp]: "kv_data (timer_stop e kv) = kv_data kv"
  by (simp add: timer_stop_def split: option.splits)

lemma kv_waiting_timer_stop [simp]: "kv_waiting (timer_stop e kv) = kv_waiting kv"
  by (simp add: timer_stop_def split: option.splits)

lemma kv_nextTimer_timer_stop [simp]: "kv_nextTimer (timer_stop e kv) = kv_nextTimer kv"
  by (simp add: timer_stop_def split: option.splits)

lemma KV_Get_entry: "KV_Get namespace key kv = Option.bind (kv_entry kv namespace key) kv_value"
  by (auto simp: KV_Get_def kv_entry_def split: option.splits)

lemma kv_entry_Set:
  "kv_entry (KV_Set n k v ttl now kv) n' k' =
     (if n' = n \<and> k' = k
      then Some (if 0 < ttl
             then \<lparr>kv_value = v, kv_expiresAt = Some (now + ttl), kv_timer = Some (kv_nextTimer kv)\<rparr>
             else \<lparr>kv_value = v, kv_expiresAt = None, kv_timer = None\<rparr>)
      else kv_entry kv n' k')"
  by (auto simp: kv_entry_def KV_Set_def Let_def split: option.splits)

lemma kv_entry_Delete:
  "kv_entry (KV_Delete n k kv) n' k' = (if n' = n \<and> k' = k then None else kv_entry kv n' k')"
proof (cases "mget (kv_data kv) n")
  case (Some ns)
  have "mdel k ns = [] \<Longrightarrow> k' \<noteq> k \<Longrightarrow> mget ns k' = None"
    using mget_mdel [of k ns] by (metis fun_upd_other mget_Nil)
  with Some show ?thesis
    by (auto simp: kv_entry_def KV_Delete_def Let_def split: option.splits)
qed (auto simp: kv_entry_def KV_Delete_def)

lemma kv_waiting_Set [simp]: "kv_waiting (KV_Set n k v ttl now kv) = kv_waiting kv"
  by (simp add: KV_Set_def Let_def)

lemma kv_waiting_Delete [simp]: "kv_waiting (KV_Delete n k kv) = kv_waiting kv"
  by (simp add: KV_Delete_def Let_def split: option.splits)

lemma kv_entry_Fire [simp]: "kv_entry (KV_Fire t now kv) = kv_entry kv"
  by (auto simp: kv_entry_def KV_Fire_def fun_eq_iff split: option.splits prod.splits)

lemma kv_entry_Callback:
  "kv_entry (KV_Callback i kv) n k =
     (if i < length (kv_waiting kv) \<and> kv_waiting kv ! i = (n, k) then None else kv_entry kv n k)"
  by (auto simp: KV_Callback_def kv_entry_Delete split: prod.splits)
    (auto simp: kv_entry_def)

section \<open>Well-formedness\<close>

text \<open>
  No namespace is empty. Every armed timer belongs to the entry that names it, with the
  entry's own deadline (no timer is leaked), and an entry's timer is armed with that
  deadline or is no longer armed. Timer identities are not reused.
\<close>

definition kv_ok :: "KVStore \<Rightarrow> bool" where
  "kv_ok kv \<longleftrightarrow>
     map_ok (kv_data kv) \<and> map_ok (kv_armed kv) \<and>
     (\<forall>n ns. mget (kv_data kv) n = Some ns \<longrightarrow> ns \<noteq> [] \<and> map_ok ns) \<and>
     (\<forall>t n k d. mget (kv_armed kv) t = Some (n, k, d) \<longrightarrow>
        t < kv_nextTimer kv \<and>
        (\<exists>e. kv_entry kv n k = Some e \<and> kv_timer e = Some t \<and> kv_expiresAt e = Some d)) \<and>
     (\<forall>n k e t. kv_entry kv n k = Some e \<longrightarrow> kv_timer e = Some t \<longrightarrow> t < kv_nextTimer kv)"

lemma kv_ok_New: "kv_ok NewKVStore"
  by (simp add: kv_ok_def NewKVStore_def kv_entry_def)

lemma kv_armed_timer_stop:
  "kv_armed (timer_stop e kv) =
     (case Option.bind e kv_timer of None \<Rightarrow> kv_armed kv | Some t \<Rightarrow> mdel t (kv_armed kv))"
  by (simp add: timer_stop_def split: option.splits)

lemma kv_armed_Set:
  "kv_armed (KV_Set n k v ttl now kv) =
     (let a = kv_armed (timer_stop (kv_entry kv n k) kv) in
      if 0 < ttl then mput (kv_nextTimer kv) (n, k, now + ttl) a else a)"
  by (auto simp: KV_Set_def kv_entry_def Let_def split: option.splits)

lemma kv_armed_Delete:
  "kv_armed (KV_Delete n k kv) = kv_armed (timer_stop (kv_entry kv n k) kv)"
  by (auto simp: KV_Delete_def kv_entry_def Let_def timer_stop_def split: option.splits)

lemma kv_nextTimer_Set:
  "kv_nextTimer (KV_Set n k v ttl now kv) = (if 0 < ttl then Suc (kv_nextTimer kv) else kv_nextTimer kv)"
  by (simp add: KV_Set_def Let_def)

lemma kv_nextTimer_Delete [simp]: "kv_nextTimer (KV_Delete n k kv) = kv_nextTimer kv"
  by (simp add: KV_Delete_def Let_def split: option.splits)

text \<open>After the stop, no armed timer is left for the key.\<close>

lemma armed_after_stop:
  assumes ok: "kv_ok kv" and a: "mget (kv_armed (timer_stop (kv_entry kv n k) kv)) t = Some (n', k', d)"
  shows "(n', k') \<noteq> (n, k) \<and> mget (kv_armed kv) t = Some (n', k', d)"
proof -
  from a have g: "mget (kv_armed kv) t = Some (n', k', d)"
    by (auto simp: kv_armed_timer_stop split: option.splits if_splits)
  with ok obtain e where "kv_entry kv n' k' = Some e" "kv_timer e = Some t"
    unfolding kv_ok_def by blast
  with a g show ?thesis by (auto simp: kv_armed_timer_stop)
qed

lemma map_ok_armed_stop: "kv_ok kv \<Longrightarrow> map_ok (kv_armed (timer_stop e kv))"
  by (auto simp: kv_ok_def kv_armed_timer_stop split: option.splits)

lemma kv_ok_Set [inv_intros]:
  assumes ok: "kv_ok kv"
  shows "kv_ok (KV_Set n k v ttl now kv)"
proof -
  let ?kv = "KV_Set n k v ttl now kv"
  have data: "map_ok (kv_data ?kv)"
    "\<forall>n' ns. mget (kv_data ?kv) n' = Some ns \<longrightarrow> ns \<noteq> [] \<and> map_ok ns"
    using ok by (auto simp: kv_ok_def KV_Set_def Let_def split: option.splits)
  have am: "map_ok (kv_armed ?kv)"
    using map_ok_armed_stop [OF ok] by (simp add: kv_armed_Set Let_def)
  have armed: "t < kv_nextTimer ?kv \<and>
      (\<exists>e. kv_entry ?kv n' k' = Some e \<and> kv_timer e = Some t \<and> kv_expiresAt e = Some d)"
    if a: "mget (kv_armed ?kv) t = Some (n', k', d)" for t n' k' d
  proof (cases "0 < ttl \<and> t = kv_nextTimer kv")
    case True
    with a show ?thesis by (auto simp: kv_armed_Set kv_entry_Set kv_nextTimer_Set)
  next
    case False
    with a have "mget (kv_armed (timer_stop (kv_entry kv n k) kv)) t = Some (n', k', d)"
      by (auto simp: kv_armed_Set Let_def split: if_splits)
    from armed_after_stop [OF ok this] ok
    have "(n', k') \<noteq> (n, k)" "t < kv_nextTimer kv"
      "\<exists>e. kv_entry kv n' k' = Some e \<and> kv_timer e = Some t \<and> kv_expiresAt e = Some d"
      unfolding kv_ok_def by blast+
    then show ?thesis by (auto simp: kv_entry_Set kv_nextTimer_Set)
  qed
  have "t < kv_nextTimer ?kv"
    if "kv_entry ?kv n' k' = Some e" "kv_timer e = Some t" for n' k' e t
  proof -
    have "\<forall>n k e t. kv_entry kv n k = Some e \<longrightarrow> kv_timer e = Some t \<longrightarrow> t < kv_nextTimer kv"
      using ok by (simp add: kv_ok_def)
    then show ?thesis using that by (auto simp: kv_entry_Set kv_nextTimer_Set less_Suc_eq split: if_splits)
  qed
  with data am armed show ?thesis unfolding kv_ok_def by blast
qed

lemma kv_ok_Delete [inv_intros]:
  assumes ok: "kv_ok kv"
  shows "kv_ok (KV_Delete n k kv)"
proof -
  let ?kv = "KV_Delete n k kv"
  have data: "map_ok (kv_data ?kv)"
    "\<forall>n' ns. mget (kv_data ?kv) n' = Some ns \<longrightarrow> ns \<noteq> [] \<and> map_ok ns"
    using ok by (auto simp: kv_ok_def KV_Delete_def Let_def split: option.splits if_splits)
  have am: "map_ok (kv_armed ?kv)"
    using map_ok_armed_stop [OF ok] by (simp add: kv_armed_Delete)
  have "t < kv_nextTimer ?kv \<and>
      (\<exists>e. kv_entry ?kv n' k' = Some e \<and> kv_timer e = Some t \<and> kv_expiresAt e = Some d)"
    if "mget (kv_armed ?kv) t = Some (n', k', d)" for t n' k' d
  proof -
    from that armed_after_stop [OF ok, of n k t n' k' d]
    have "(n', k') \<noteq> (n, k)" "mget (kv_armed kv) t = Some (n', k', d)"
      by (auto simp: kv_armed_Delete)
    with ok show ?thesis unfolding kv_ok_def by (auto simp: kv_entry_Delete)
  qed
  moreover have "t < kv_nextTimer ?kv"
    if "kv_entry ?kv n' k' = Some e" "kv_timer e = Some t" for n' k' e t
    using that ok unfolding kv_ok_def by (auto simp: kv_entry_Delete split: if_splits)
  ultimately show ?thesis using data am unfolding kv_ok_def by blast
qed

lemma kv_ok_Fire [inv_intros]:
  assumes ok: "kv_ok kv"
  shows "kv_ok (KV_Fire t now kv)"
proof -
  have d: "kv_data (KV_Fire t now kv) = kv_data kv" "kv_nextTimer (KV_Fire t now kv) = kv_nextTimer kv"
    by (auto simp: KV_Fire_def split: option.splits prod.splits)
  have a: "kv_armed (KV_Fire t now kv) = kv_armed kv \<or> kv_armed (KV_Fire t now kv) = mdel t (kv_armed kv)"
    by (auto simp: KV_Fire_def split: option.splits prod.splits)
  have m: "mget (kv_armed (KV_Fire t now kv)) x = Some y \<Longrightarrow> mget (kv_armed kv) x = Some y" for x y
    using a by (auto split: if_splits)
  have "map_ok (kv_armed (KV_Fire t now kv))" using ok a by (auto simp: kv_ok_def)
  then show ?thesis using ok m unfolding kv_ok_def d kv_entry_Fire by blast
qed

lemma kv_ok_waiting: "kv_ok (kv\<lparr>kv_waiting := w\<rparr>) = kv_ok kv"
  by (simp add: kv_ok_def kv_entry_def)

lemma kv_ok_Callback [inv_intros]: "kv_ok kv \<Longrightarrow> kv_ok (KV_Callback i kv)"
  by (simp add: KV_Callback_def kv_ok_Delete kv_ok_waiting split: prod.splits)

section \<open>The contract of a namespaced store\<close>

text \<open>
  What users of a namespaced store rely on: reads see the last write or delete of the same
  key, and other keys are untouched. The clients' facts are proved from this contract.
\<close>

datatype ('n, 'k, 'w) store_op = StorePut 'n 'k 'w | StoreDel 'n 'k

fun apply_op :: "('n \<Rightarrow> 'k \<Rightarrow> 'w \<Rightarrow> 's \<Rightarrow> 's) \<Rightarrow> ('n \<Rightarrow> 'k \<Rightarrow> 's \<Rightarrow> 's) \<Rightarrow> 's \<Rightarrow> ('n, 'k, 'w) store_op \<Rightarrow> 's" where
  "apply_op put del s (StorePut n k w) = put n k w s"
| "apply_op put del s (StoreDel n k) = del n k s"

fun last_write :: "('w \<Rightarrow> 'v) \<Rightarrow> 'n \<Rightarrow> 'k \<Rightarrow> 'v option \<Rightarrow> ('n, 'k, 'w) store_op list \<Rightarrow> 'v option" where
  "last_write val n k v [] = v"
| "last_write val n k v (StorePut n' k' w # ops) =
     last_write val n k (if n' = n \<and> k' = k then Some (val w) else v) ops"
| "last_write val n k v (StoreDel n' k' # ops) =
     last_write val n k (if n' = n \<and> k' = k then None else v) ops"

locale namespaced_store =
  fixes put :: "'n \<Rightarrow> 'k \<Rightarrow> 'w \<Rightarrow> 's \<Rightarrow> 's"
    and get :: "'n \<Rightarrow> 'k \<Rightarrow> 's \<Rightarrow> 'v option"
    and del :: "'n \<Rightarrow> 'k \<Rightarrow> 's \<Rightarrow> 's"
    and val :: "'w \<Rightarrow> 'v"
    and inv :: "'s \<Rightarrow> bool"
  assumes get_put: "inv s \<Longrightarrow> get n' k' (put n k w s) = (if n' = n \<and> k' = k then Some (val w) else get n' k' s)"
    and get_del: "inv s \<Longrightarrow> get n' k' (del n k s) = (if n' = n \<and> k' = k then None else get n' k' s)"
    and inv_put: "inv s \<Longrightarrow> inv (put n k w s)"
    and inv_del: "inv s \<Longrightarrow> inv (del n k s)"
begin

lemma inv_apply_op: "inv s \<Longrightarrow> inv (apply_op put del s x)"
  by (cases x) (simp_all add: inv_put inv_del)

lemma inv_ops: "inv s \<Longrightarrow> inv (foldl (apply_op put del) s ops)"
  by (induction ops arbitrary: s) (simp_all add: inv_apply_op)

lemma get_after_ops:
  "inv s \<Longrightarrow> get n k (foldl (apply_op put del) s ops) = last_write val n k (get n k s) ops"
proof (induction ops arbitrary: s)
  case (Cons x ops)
  then have "get n k (foldl (apply_op put del) s (x # ops)) =
      last_write val n k (get n k (apply_op put del s x)) ops"
    by (simp add: inv_apply_op)
  with Cons.prems show ?case by (cases x) (auto simp: get_put get_del)
qed simp

lemma unwritten_unchanged:
  assumes "inv s" and "\<forall>w. StorePut n k w \<notin> set ops" and "StoreDel n k \<notin> set ops"
  shows "get n k (foldl (apply_op put del) s ops) = get n k s"
proof -
  have "last_write val n k v ops = v" for v
    using assms(2,3) by (induction val n k v ops rule: last_write.induct) auto
  with assms(1) show ?thesis by (simp add: get_after_ops)
qed

end

text \<open>The node's store provides the contract; a write carries its value, TTL and time.\<close>

interpretation kv: namespaced_store
  "\<lambda>n k (v, ttl, now). KV_Set n k v ttl now"
  "\<lambda>n k s. map_option kv_value (kv_entry s n k)"
  KV_Delete fst kv_ok
  by unfold_locales (auto simp: kv_entry_Set kv_entry_Delete intro: inv_intros)

section \<open>Runs with timers\<close>

text \<open>
  A run interleaves the callers' operations with the runtime's steps. The relation has one
  rule per atomic step; time is an argument of the steps that read the clock.
\<close>

datatype kv_step =
    DoSet string string "bytes option" nanos nanos
  | DoDelete string string
  | TimerFires nat nanos
  | CallbackRuns nat

fun kv_do :: "KVStore \<Rightarrow> kv_step \<Rightarrow> KVStore" where
  "kv_do kv (DoSet n k v ttl now) = KV_Set n k v ttl now kv"
| "kv_do kv (DoDelete n k) = KV_Delete n k kv"
| "kv_do kv (TimerFires t now) = KV_Fire t now kv"
| "kv_do kv (CallbackRuns i) = KV_Callback i kv"

inductive kv_reachable :: "KVStore \<Rightarrow> bool" where
  kv_start: "kv_reachable NewKVStore"
| kv_step: "kv_reachable kv \<Longrightarrow> kv_reachable (kv_do kv x)"

lemma kv_ok_do: "kv_ok kv \<Longrightarrow> kv_ok (kv_do kv x)"
  by (cases x) (auto intro: inv_intros)

lemma kv_reachable_ok: "kv_reachable kv \<Longrightarrow> kv_ok kv"
  by (induction rule: kv_reachable.induct) (auto intro: kv_ok_New kv_ok_do)

text \<open>
  A key without a deadline that no caller touches is safe when no callback for it is
  waiting: no timer can then be armed for it, so no callback for it can appear.
\<close>

fun touches :: "string \<Rightarrow> string \<Rightarrow> kv_step \<Rightarrow> bool" where
  "touches n k (DoSet n' k' v ttl now) = (n' = n \<and> k' = k)"
| "touches n k (DoDelete n' k') = (n' = n \<and> k' = k)"
| "touches n k _ = False"

definition kv_settled :: "string \<Rightarrow> string \<Rightarrow> kvEntry \<Rightarrow> KVStore \<Rightarrow> bool" where
  "kv_settled n k e kv \<longleftrightarrow>
     kv_ok kv \<and> kv_entry kv n k = Some e \<and> kv_timer e = None \<and> (n, k) \<notin> set (kv_waiting kv)"

lemma kv_settled_unarmed:
  "kv_settled n k e kv \<Longrightarrow> mget (kv_armed kv) t \<noteq> Some (n, k, d)"
  unfolding kv_settled_def kv_ok_def by (metis option.distinct(1) option.inject)

lemma kv_settled_do:
  assumes s: "kv_settled n k e kv" and x: "\<not> touches n k x"
  shows "kv_settled n k e (kv_do kv x)"
proof -
  have ok: "kv_ok (kv_do kv x)" using s by (simp add: kv_settled_def kv_ok_do)
  have w: "(n, k) \<notin> set (kv_waiting (kv_do kv x))"
  proof (cases x)
    case (TimerFires t now)
    then show ?thesis
      using s kv_settled_unarmed [OF s, of t]
      by (auto simp: KV_Fire_def kv_settled_def split: option.splits prod.splits)
  next
    case (CallbackRuns i)
    then show ?thesis using s
      by (auto simp: KV_Callback_def kv_settled_def split: prod.splits dest: in_set_takeD in_set_dropD)
  qed (use s in \<open>simp_all add: kv_settled_def\<close>)
  have "kv_entry (kv_do kv x) n k = Some e"
  proof (cases x)
    case (CallbackRuns i)
    then show ?thesis using s
      by (auto simp: kv_entry_Callback kv_settled_def dest: nth_mem)
  qed (use s x in \<open>auto simp: kv_settled_def kv_entry_Set kv_entry_Delete\<close>)
  with s ok w show ?thesis by (simp add: kv_settled_def)
qed

lemma kv_settled_run:
  "kv_settled n k e kv \<Longrightarrow> list_all (\<lambda>x. \<not> touches n k x) xs \<Longrightarrow> kv_settled n k e (foldl kv_do kv xs)"
  by (induction xs arbitrary: kv) (simp_all add: kv_settled_do)

end
