(* ===== verification/Events.thy ===== *)
theory Events
  imports Prelude
begin

text \<open>
  Session events, their append-only log and the two fan-outs: \<open>SubscriptionManager\<close> and
  \<open>EventLog\<close> of \<open>internal/session/events.go\<close>, \<open>Broadcaster\<close> and \<open>StatusWatcher\<close> of
  \<open>internal/session/session.go\<close>. Every method holds its lock, so it is one atomic step.
\<close>

section \<open>Channels\<close>

record 'a chan =
  ch_items :: "'a list"
  ch_cap :: nat
  ch_closed :: bool

definition make_chan :: "nat \<Rightarrow> 'a chan" where
  "make_chan n = \<lparr>ch_items = [], ch_cap = n, ch_closed = False\<rparr>"

text \<open>
  \<open>select { case ch <- x: default: }\<close>: appended when there is room, dropped otherwise.
  A send on a closed channel panics, \<open>None\<close>.
\<close>

definition try_send :: "'a \<Rightarrow> 'a chan \<Rightarrow> 'a chan option" where
  "try_send x c =
     (if ch_closed c then None
      else if length (ch_items c) < ch_cap c then Some (c\<lparr>ch_items := ch_items c @ [x]\<rparr>)
      else Some c)"

definition close_chan :: "'a chan \<Rightarrow> 'a chan" where
  "close_chan c = c\<lparr>ch_closed := True\<rparr>"

text \<open>A receive takes the first buffered value; without one the reader waits.\<close>

definition chan_head :: "'a chan \<Rightarrow> 'a option" where
  "chan_head c = (case ch_items c of [] \<Rightarrow> None | x # xs \<Rightarrow> Some x)"

definition chan_rest :: "'a chan \<Rightarrow> 'a chan" where
  "chan_rest c = c\<lparr>ch_items := tl (ch_items c)\<rparr>"

lemma chan_rest_simps [simp]:
  "ch_cap (chan_rest c) = ch_cap c" "ch_closed (chan_rest c) = ch_closed c"
  "ch_items (chan_rest c) = tl (ch_items c)"
  by (simp_all add: chan_rest_def)

text \<open>The channel after a send on an open channel.\<close>

definition offer :: "'a \<Rightarrow> 'a chan \<Rightarrow> 'a chan" where
  "offer x c = (if length (ch_items c) < ch_cap c then c\<lparr>ch_items := ch_items c @ [x]\<rparr> else c)"

lemma try_send_open: "\<not> ch_closed c \<Longrightarrow> try_send x c = Some (offer x c)"
  by (simp add: try_send_def offer_def)

lemma offer_simps [simp]:
  "ch_cap (offer x c) = ch_cap c" "ch_closed (offer x c) = ch_closed c"
  by (simp_all add: offer_def)

lemma offer_bound: "length (ch_items c) \<le> ch_cap c \<Longrightarrow> length (ch_items (offer x c)) \<le> ch_cap c"
  by (simp add: offer_def)

text \<open>A run of non-blocking sends keeps the first messages that fit and drops the others.\<close>

lemma offer_all:
  "length (ch_items c) \<le> ch_cap c \<Longrightarrow>
   ch_items (fold offer xs c) = ch_items c @ take (ch_cap c - length (ch_items c)) xs"
proof (induction xs arbitrary: c)
  case (Cons x xs)
  show ?case
  proof (cases "length (ch_items c) < ch_cap c")
    case True
    then have "ch_cap c - length (ch_items c) = Suc (ch_cap c - Suc (length (ch_items c)))" by simp
    with True Cons.IH [of "c\<lparr>ch_items := ch_items c @ [x]\<rparr>"] show ?thesis
      by (simp add: offer_def)
  qed (use Cons in \<open>simp add: offer_def\<close>)
qed simp

section \<open>The fan-out contract\<close>

text \<open>
  Publishing a message offers it to every subscriber that accepts it and changes nothing
  else. What a slow subscriber finds in its channel follows for any sequence of messages.
\<close>

locale fanout =
  fixes chan_of :: "'s \<Rightarrow> uint64 \<Rightarrow> 'e chan option"
    and accepts :: "'s \<Rightarrow> uint64 \<Rightarrow> 'm \<Rightarrow> bool"
    and item :: "'m \<Rightarrow> 'e"
    and publish :: "'m \<Rightarrow> 's \<Rightarrow> 's"
    and inv :: "'s \<Rightarrow> bool"
  assumes chan_publish: "inv s \<Longrightarrow> chan_of (publish m s) i =
      map_option (\<lambda>c. if accepts s i m then offer (item m) c else c) (chan_of s i)"
    and accepts_publish: "inv s \<Longrightarrow> accepts (publish m s) = accepts s"
    and inv_publish: "inv s \<Longrightarrow> inv (publish m s)"
    and bounded: "inv s \<Longrightarrow> chan_of s i = Some c \<Longrightarrow> length (ch_items c) \<le> ch_cap c"
begin

lemma inv_publish_all: "inv s \<Longrightarrow> inv (fold publish ms s)"
  by (induction ms arbitrary: s) (simp_all add: inv_publish)

lemma chan_publish_all:
  "inv s \<Longrightarrow> chan_of s i = Some c \<Longrightarrow>
   chan_of (fold publish ms s) i = Some (fold offer (map item (filter (accepts s i) ms)) c)"
proof (induction ms arbitrary: s c)
  case (Cons m ms)
  show ?case
    using Cons.prems
      Cons.IH [OF inv_publish [OF Cons.prems(1)], of m "if accepts s i m then offer (item m) c else c"]
    by (simp add: chan_publish accepts_publish)
qed simp

text \<open>First in, first out, nothing lost before the buffer is full, and the rest dropped.\<close>

lemma received:
  assumes "inv s" "chan_of s i = Some c"
  shows "\<exists>c'. chan_of (fold publish ms s) i = Some c' \<and>
    ch_items c' = ch_items c @ take (ch_cap c - length (ch_items c)) (map item (filter (accepts s i) ms))"
  using chan_publish_all [OF assms] offer_all [OF bounded [OF assms]] by simp

end

section \<open>Broadcaster (session.go)\<close>

record Broadcaster =
  bc_listeners :: "(uint64, bytes chan) gomap"
  bc_nextID :: uint64

definition NewBroadcaster :: Broadcaster where
  "NewBroadcaster = \<lparr>bc_listeners = [], bc_nextID = 0\<rparr>"

definition Broadcaster_Subscribe :: "nat \<Rightarrow> Broadcaster \<Rightarrow> uint64 \<times> Broadcaster" where
  "Broadcaster_Subscribe bufSize b =
     (let i = bc_nextID b in
      (i, b\<lparr>bc_nextID := i + 1, bc_listeners := mput i (make_chan bufSize) (bc_listeners b)\<rparr>))"

text \<open>The removed channel is returned closed, as its reader sees it.\<close>

definition Broadcaster_Unsubscribe :: "uint64 \<Rightarrow> Broadcaster \<Rightarrow> bytes chan option \<times> Broadcaster" where
  "Broadcaster_Unsubscribe i b =
     (case mget (bc_listeners b) i of
        None \<Rightarrow> (None, b)
      | Some c \<Rightarrow> (Some (close_chan c), b\<lparr>bc_listeners := mdel i (bc_listeners b)\<rparr>))"

text \<open>Sends to all listeners; \<open>None\<close> would be a panic on a closed channel.\<close>

fun send_all :: "'a \<Rightarrow> ('k \<times> 'a chan) list \<Rightarrow> ('k \<times> 'a chan) list option" where
  "send_all x [] = Some []"
| "send_all x ((k, c) # m) =
     (case try_send x c of
        None \<Rightarrow> None
      | Some c1 \<Rightarrow> (case send_all x m of None \<Rightarrow> None | Some m1 \<Rightarrow> Some ((k, c1) # m1)))"

definition Broadcaster_Send :: "bytes \<Rightarrow> Broadcaster \<Rightarrow> Broadcaster option" where
  "Broadcaster_Send data b =
     map_option (\<lambda>m. b\<lparr>bc_listeners := m\<rparr>) (send_all data (bc_listeners b))"

text \<open>A listener's receive, and what it receives.\<close>

definition Broadcaster_recv :: "uint64 \<Rightarrow> Broadcaster \<Rightarrow> Broadcaster" where
  "Broadcaster_recv k b =
     b\<lparr>bc_listeners := map (\<lambda>(i, c). (i, if i = k then chan_rest c else c)) (bc_listeners b)\<rparr>"

definition Broadcaster_next :: "uint64 \<Rightarrow> Broadcaster \<Rightarrow> bytes option" where
  "Broadcaster_next k b = Option.bind (mget (bc_listeners b) k) chan_head"

definition chans_ok :: "('k \<times> 'a chan) list \<Rightarrow> bool" where
  "chans_ok m \<longleftrightarrow> (\<forall>(k, c) \<in> set m. \<not> ch_closed c \<and> length (ch_items c) \<le> ch_cap c)"

definition broadcaster_ok :: "Broadcaster \<Rightarrow> bool" where
  "broadcaster_ok b \<longleftrightarrow>
     map_ok (bc_listeners b) \<and> chans_ok (bc_listeners b) \<and>
     (\<forall>i \<in> set (mkeys (bc_listeners b)). i < bc_nextID b)"

lemma send_all_open: "chans_ok m \<Longrightarrow> send_all x m = Some (map (\<lambda>(k, c). (k, offer x c)) m)"
  by (induction m) (auto simp: chans_ok_def try_send_open)

lemma chans_ok_offer: "chans_ok m \<Longrightarrow> chans_ok (map (\<lambda>(k, c). (k, offer x c)) m)"
  by (force simp: chans_ok_def offer_bound)

lemma chans_ok_mput_new: "chans_ok m \<Longrightarrow> chans_ok (mput k (make_chan n) m)"
  using set_mput_subset [of k "make_chan n" m] by (fastforce simp: chans_ok_def make_chan_def)

lemma chans_ok_mdel: "chans_ok m \<Longrightarrow> chans_ok (mdel k m)"
  using set_mdel_subset [of k m] by (fastforce simp: chans_ok_def)

lemma chan_rest_bound: "length (ch_items c) \<le> n \<Longrightarrow> length (tl (ch_items c)) \<le> n"
  by simp

lemma broadcaster_ok_recv [inv_intros]: "broadcaster_ok b \<Longrightarrow> broadcaster_ok (Broadcaster_recv k b)"
  by (auto simp: broadcaster_ok_def Broadcaster_recv_def chans_ok_def map_ok_def mkeys_def comp_def case_prod_unfold
      chan_rest_bound image_iff)

lemma broadcaster_ok_New: "broadcaster_ok NewBroadcaster"
  by (simp add: broadcaster_ok_def NewBroadcaster_def chans_ok_def mkeys_def)

lemma broadcaster_ok_Subscribe [inv_intros]:
  assumes "broadcaster_ok b" "bc_nextID b \<noteq> - 1"
  shows "broadcaster_ok (snd (Broadcaster_Subscribe n b))"
  using assms
  by (auto simp: broadcaster_ok_def Broadcaster_Subscribe_def Let_def word_less_succ
      intro: chans_ok_mput_new less_imp_le)

lemma broadcaster_ok_Unsubscribe [inv_intros]:
  "broadcaster_ok b \<Longrightarrow> broadcaster_ok (snd (Broadcaster_Unsubscribe i b))"
  by (auto simp: broadcaster_ok_def Broadcaster_Unsubscribe_def mkeys_mdel chans_ok_mdel
      split: option.splits)

lemma Broadcaster_Send_ok:
  "broadcaster_ok b \<Longrightarrow>
   Broadcaster_Send data b =
     Some (b\<lparr>bc_listeners := map (\<lambda>(k, c). (k, offer data c)) (bc_listeners b)\<rparr>)"
  by (simp add: Broadcaster_Send_def broadcaster_ok_def send_all_open)

lemma broadcaster_ok_Send [inv_intros]:
  "broadcaster_ok b \<Longrightarrow> Broadcaster_Send data b = Some b' \<Longrightarrow> broadcaster_ok b'"
  by (auto simp: Broadcaster_Send_ok) (auto simp: broadcaster_ok_def chans_ok_offer)

interpretation broadcaster: fanout
  "\<lambda>b i. mget (bc_listeners b) i" "\<lambda>b i data. True" "\<lambda>data. data"
  "\<lambda>data b. the (Broadcaster_Send data b)" broadcaster_ok
proof unfold_locales
  fix s i m assume "broadcaster_ok s"
  then show "mget (bc_listeners (the (Broadcaster_Send m s))) i =
      map_option (\<lambda>c. if True then offer m c else c) (mget (bc_listeners s) i)"
    by (simp add: Broadcaster_Send_ok mget_map_value)
next
  fix s m assume "broadcaster_ok s"
  then show "broadcaster_ok (the (Broadcaster_Send m s))"
    by (metis broadcaster_ok_Send Broadcaster_Send_ok option.sel)
next
  fix s i c assume "broadcaster_ok s" "mget (bc_listeners s) i = Some c"
  then show "length (ch_items c) \<le> ch_cap c"
    by (auto simp: broadcaster_ok_def chans_ok_def mget_Some_iff)
qed simp

section \<open>Status watcher (session.go)\<close>

datatype SessionStatus = Running | Completed int | Killed

definition SessionStatus_String :: "SessionStatus \<Rightarrow> string" where
  "SessionStatus_String s =
     (case s of
        Completed code \<Rightarrow> ''completed ('' @ show_int code @ '')''
      | Killed \<Rightarrow> ''killed''
      | Running \<Rightarrow> ''running'')"

text \<open>
  The wait channel is replaced on every \<open>Set\<close>, so it is identified by the number of sets
  before it was made; a channel is closed when a later one has replaced it.
\<close>

record StatusWatcher =
  sw_status :: SessionStatus
  sw_waitCh :: nat

definition NewStatusWatcher :: "SessionStatus \<Rightarrow> StatusWatcher" where
  "NewStatusWatcher initial = \<lparr>sw_status = initial, sw_waitCh = 0\<rparr>"

definition StatusWatcher_Set :: "SessionStatus \<Rightarrow> StatusWatcher \<Rightarrow> StatusWatcher" where
  "StatusWatcher_Set s w = w\<lparr>sw_status := s, sw_waitCh := Suc (sw_waitCh w)\<rparr>"

definition StatusWatcher_Get :: "StatusWatcher \<Rightarrow> SessionStatus" where
  "StatusWatcher_Get w = sw_status w"

definition StatusWatcher_Changed :: "StatusWatcher \<Rightarrow> nat" where
  "StatusWatcher_Changed w = sw_waitCh w"

definition wait_closed :: "nat \<Rightarrow> StatusWatcher \<Rightarrow> bool" where
  "wait_closed ch w \<longleftrightarrow> ch < sw_waitCh w"

lemma watcher_wakes:
  "\<not> wait_closed (StatusWatcher_Changed w) w"
  "ss \<noteq> [] \<Longrightarrow> wait_closed (StatusWatcher_Changed w) (fold StatusWatcher_Set ss w)"
proof -
  have "sw_waitCh (fold StatusWatcher_Set ss w) = sw_waitCh w + length ss" for w
    by (induction ss arbitrary: w) (simp_all add: StatusWatcher_Set_def)
  then show "ss \<noteq> [] \<Longrightarrow> wait_closed (StatusWatcher_Changed w) (fold StatusWatcher_Set ss w)"
    by (simp add: wait_closed_def StatusWatcher_Changed_def)
qed (simp add: wait_closed_def StatusWatcher_Changed_def)

section \<open>Events (events.go)\<close>

type_synonym EventType = string

abbreviation EventSessionCreated :: EventType where "EventSessionCreated \<equiv> ''session.created''"
abbreviation EventSessionStatus :: EventType where "EventSessionStatus \<equiv> ''session.status''"
abbreviation EventOutputSummary :: EventType where "EventOutputSummary \<equiv> ''session.output_summary''"
abbreviation EventInput :: EventType where "EventInput \<equiv> ''session.input''"
abbreviation EventAttached :: EventType where "EventAttached \<equiv> ''session.attached''"
abbreviation EventDetached :: EventType where "EventDetached \<equiv> ''session.detached''"
abbreviation EventTaskReport :: EventType where "EventTaskReport \<equiv> ''task.report''"
abbreviation EventDirectMessage :: EventType where "EventDirectMessage \<equiv> ''direct.message''"
abbreviation EventRequest :: EventType where "EventRequest \<equiv> ''message.request''"
abbreviation EventReply :: EventType where "EventReply \<equiv> ''message.reply''"

record DirectMessageData =
  dm_MessageID :: string
  dm_From :: uint32
  dm_FromName :: string
  dm_To :: uint32
  dm_ToName :: string
  dm_Body :: string

record RequestData =
  rq_RequestID :: string
  rq_ReplyToken :: string
  rq_From :: uint32
  rq_FromName :: string
  rq_To :: uint32
  rq_ToName :: string
  rq_Body :: string

record ReplyData =
  rp_RequestID :: string
  rp_From :: uint32
  rp_FromName :: string
  rp_Body :: string

text \<open>
  \<open>Event.Data\<close> is the JSON of one of the event structs; the model keeps the struct.
\<close>

datatype event_data =
    SessionCreatedData "string list" string "string list"
  | SessionStatusData string string "int option" "int option"
  | OutputSummaryData uint64 uint64 uint64 uint64
  | InputData string int
  | AttachDetachData string
  | TaskReportData string string string
  | DirectMessage DirectMessageData
  | Request RequestData
  | Reply ReplyData

record Event =
  ev_Timestamp :: nanos
  ev_Type :: EventType
  ev_Data :: event_data

definition NewSessionCreatedEvent :: "nanos \<Rightarrow> string list \<Rightarrow> string \<Rightarrow> string list \<Rightarrow> Event" where
  "NewSessionCreatedEvent now command workingDir tags =
     \<lparr>ev_Timestamp = now, ev_Type = EventSessionCreated, ev_Data = SessionCreatedData command workingDir tags\<rparr>"

definition NewSessionStatusEvent :: "nanos \<Rightarrow> string \<Rightarrow> string \<Rightarrow> int option \<Rightarrow> int option \<Rightarrow> Event" where
  "NewSessionStatusEvent now from to exitCode durationMs =
     \<lparr>ev_Timestamp = now, ev_Type = EventSessionStatus, ev_Data = SessionStatusData from to exitCode durationMs\<rparr>"

definition NewOutputSummaryEvent :: "nanos \<Rightarrow> uint64 \<Rightarrow> uint64 \<Rightarrow> uint64 \<Rightarrow> uint64 \<Rightarrow> Event" where
  "NewOutputSummaryEvent now bytesDelta linesDelta totalBytes totalLines =
     \<lparr>ev_Timestamp = now, ev_Type = EventOutputSummary,
      ev_Data = OutputSummaryData bytesDelta linesDelta totalBytes totalLines\<rparr>"

definition NewInputEvent :: "nanos \<Rightarrow> string \<Rightarrow> int \<Rightarrow> Event" where
  "NewInputEvent now source bytesCount =
     \<lparr>ev_Timestamp = now, ev_Type = EventInput, ev_Data = InputData source bytesCount\<rparr>"

definition NewAttachedEvent :: "nanos \<Rightarrow> string \<Rightarrow> Event" where
  "NewAttachedEvent now clientID =
     \<lparr>ev_Timestamp = now, ev_Type = EventAttached, ev_Data = AttachDetachData clientID\<rparr>"

definition NewDetachedEvent :: "nanos \<Rightarrow> string \<Rightarrow> Event" where
  "NewDetachedEvent now clientID =
     \<lparr>ev_Timestamp = now, ev_Type = EventDetached, ev_Data = AttachDetachData clientID\<rparr>"

definition NewTaskReportEvent :: "nanos \<Rightarrow> string \<Rightarrow> string \<Rightarrow> string \<Rightarrow> Event" where
  "NewTaskReportEvent now eventID summary state =
     \<lparr>ev_Timestamp = now, ev_Type = EventTaskReport, ev_Data = TaskReportData eventID summary state\<rparr>"

definition NewDirectMessageEvent :: "nanos \<Rightarrow> DirectMessageData \<Rightarrow> Event" where
  "NewDirectMessageEvent now msg =
     \<lparr>ev_Timestamp = now, ev_Type = EventDirectMessage, ev_Data = DirectMessage msg\<rparr>"

definition NewRequestEvent :: "nanos \<Rightarrow> RequestData \<Rightarrow> Event" where
  "NewRequestEvent now req =
     \<lparr>ev_Timestamp = now, ev_Type = EventRequest, ev_Data = Request req\<rparr>"

definition NewReplyEvent :: "nanos \<Rightarrow> ReplyData \<Rightarrow> Event" where
  "NewReplyEvent now reply =
     \<lparr>ev_Timestamp = now, ev_Type = EventReply, ev_Data = Reply reply\<rparr>"

end
