(* ===== verification/Subscriptions.thy ===== *)
theory Subscriptions
  imports Events
begin

text \<open>
  The subscription manager of \<open>internal/session/events.go\<close>: filtered fan-out of session
  events. It provides the same fan-out contract as the broadcaster.
\<close>

section \<open>State and operations\<close>

record SessionEvent =
  se_SessionID :: uint32
  se_Event :: Event

record Subscription =
  sub_ID :: uint64
  sub_SessionID :: "uint32 option"
  sub_Tags :: "string list"
  sub_EventTypes :: "EventType list"
  sub_Ch :: "SessionEvent chan"

record SubscriptionManager =
  sm_subs :: "(uint64, Subscription) gomap"
  sm_nextID :: uint64

definition NewSubscriptionManager :: SubscriptionManager where
  "NewSubscriptionManager = \<lparr>sm_subs = [], sm_nextID = 0\<rparr>"

definition Subscribe ::
  "uint32 option \<Rightarrow> string list \<Rightarrow> EventType list \<Rightarrow> SubscriptionManager \<Rightarrow>
   Subscription \<times> SubscriptionManager" where
  "Subscribe sessionID tags eventTypes m =
     (let i = sm_nextID m;
          sub = \<lparr>sub_ID = i, sub_SessionID = sessionID, sub_Tags = tags,
                 sub_EventTypes = eventTypes, sub_Ch = make_chan 256\<rparr>
      in (sub, m\<lparr>sm_nextID := i + 1, sm_subs := mput i sub (sm_subs m)\<rparr>))"

definition Unsubscribe :: "uint64 \<Rightarrow> SubscriptionManager \<Rightarrow> SessionEvent chan option \<times> SubscriptionManager" where
  "Unsubscribe i m =
     (case mget (sm_subs m) i of
        None \<Rightarrow> (None, m)
      | Some sub \<Rightarrow> (Some (close_chan (sub_Ch sub)), m\<lparr>sm_subs := mdel i (sm_subs m)\<rparr>))"

text \<open>The two nested search loops of \<open>matches\<close>, with their \<open>break\<close>s.\<close>

fun any_tag :: "string list \<Rightarrow> string list \<Rightarrow> bool" where
  "any_tag [] tags = False"
| "any_tag (ft # fts) tags = (if ft \<in> set tags then True else any_tag fts tags)"

fun any_type :: "EventType list \<Rightarrow> EventType \<Rightarrow> bool" where
  "any_type [] eventType = False"
| "any_type (et # ets) eventType = (if et = eventType then True else any_type ets eventType)"

definition sub_matches :: "Subscription \<Rightarrow> uint32 \<Rightarrow> string list \<Rightarrow> EventType \<Rightarrow> bool" where
  "sub_matches s sessionID tags eventType =
     (if (case sub_SessionID s of Some i \<Rightarrow> i \<noteq> sessionID | None \<Rightarrow> False) then False
      else if 0 < length (sub_Tags s) \<and> \<not> any_tag (sub_Tags s) tags then False
      else if 0 < length (sub_EventTypes s) \<and> \<not> any_type (sub_EventTypes s) eventType then False
      else True)"

text \<open>\<open>None\<close> would be a panic on a closed channel.\<close>

fun publish_all :: "uint32 \<Rightarrow> string list \<Rightarrow> Event \<Rightarrow> (uint64 \<times> Subscription) list \<Rightarrow> (uint64 \<times> Subscription) list option" where
  "publish_all sessionID tags event [] = Some []"
| "publish_all sessionID tags event ((k, sub) # m) =
     (case (if sub_matches sub sessionID tags (ev_Type event)
            then map_option (\<lambda>c. sub\<lparr>sub_Ch := c\<rparr>)
                   (try_send \<lparr>se_SessionID = sessionID, se_Event = event\<rparr> (sub_Ch sub))
            else Some sub) of
        None \<Rightarrow> None
      | Some sub1 \<Rightarrow>
          (case publish_all sessionID tags event m of None \<Rightarrow> None | Some m1 \<Rightarrow> Some ((k, sub1) # m1)))"

definition Publish :: "uint32 \<Rightarrow> string list \<Rightarrow> Event \<Rightarrow> SubscriptionManager \<Rightarrow> SubscriptionManager option" where
  "Publish sessionID tags event m =
     map_option (\<lambda>s. m\<lparr>sm_subs := s\<rparr>) (publish_all sessionID tags event (sm_subs m))"

section \<open>What a filter accepts\<close>

lemma any_tag_iff: "any_tag fts tags \<longleftrightarrow> (\<exists>t. t \<in> set fts \<and> t \<in> set tags)"
  by (induction fts) auto

lemma any_type_iff: "any_type ets t \<longleftrightarrow> t \<in> set ets"
  by (induction ets) auto

lemma sub_matches_iff:
  "sub_matches s sid tags ty \<longleftrightarrow>
     sub_SessionID s \<in> {None, Some sid} \<and>
     (sub_Tags s = [] \<or> set (sub_Tags s) \<inter> set tags \<noteq> {}) \<and>
     (sub_EventTypes s = [] \<or> ty \<in> set (sub_EventTypes s))"
  by (cases "sub_SessionID s") (auto simp: sub_matches_def any_tag_iff any_type_iff)

section \<open>Well-formedness and the contract\<close>

text \<open>A subscriber's receive, and what it receives.\<close>

definition recv_sub :: "uint64 \<Rightarrow> SubscriptionManager \<Rightarrow> SubscriptionManager" where
  "recv_sub k m =
     m\<lparr>sm_subs := map (\<lambda>(i, s). (i, if i = k then s\<lparr>sub_Ch := chan_rest (sub_Ch s)\<rparr> else s)) (sm_subs m)\<rparr>"

definition next_event :: "uint64 \<Rightarrow> SubscriptionManager \<Rightarrow> SessionEvent option" where
  "next_event k m = Option.bind (mget (sm_subs m) k) (\<lambda>s. chan_head (sub_Ch s))"

definition sub_ok :: "uint64 \<times> Subscription \<Rightarrow> bool" where
  "sub_ok = (\<lambda>(k, sub). sub_ID sub = k \<and> \<not> ch_closed (sub_Ch sub) \<and> ch_cap (sub_Ch sub) = 256 \<and>
     length (ch_items (sub_Ch sub)) \<le> 256)"

definition manager_ok :: "SubscriptionManager \<Rightarrow> bool" where
  "manager_ok m \<longleftrightarrow>
     map_ok (sm_subs m) \<and> list_all sub_ok (sm_subs m) \<and>
     (\<forall>i \<in> set (mkeys (sm_subs m)). i < sm_nextID m)"

definition notify :: "uint32 \<Rightarrow> string list \<Rightarrow> Event \<Rightarrow> Subscription \<Rightarrow> Subscription" where
  "notify sessionID tags event sub =
     (if sub_matches sub sessionID tags (ev_Type event)
      then sub\<lparr>sub_Ch := offer \<lparr>se_SessionID = sessionID, se_Event = event\<rparr> (sub_Ch sub)\<rparr> else sub)"

lemma publish_all_ok:
  "list_all sub_ok m \<Longrightarrow> publish_all sid tags ev m = Some (map (\<lambda>(k, s). (k, notify sid tags ev s)) m)"
  by (induction m) (auto simp: sub_ok_def try_send_open notify_def)

lemma Publish_ok:
  "manager_ok m \<Longrightarrow>
   Publish sid tags ev m = Some (m\<lparr>sm_subs := map (\<lambda>(k, s). (k, notify sid tags ev s)) (sm_subs m)\<rparr>)"
  by (simp add: Publish_def manager_ok_def publish_all_ok)

lemma sub_ok_notify: "sub_ok (k, s) \<Longrightarrow> sub_ok (k, notify sid tags ev s)"
  by (auto simp: sub_ok_def notify_def offer_bound offer_def)

lemma manager_ok_New: "manager_ok NewSubscriptionManager"
  by (simp add: manager_ok_def NewSubscriptionManager_def mkeys_def)

lemma manager_ok_Subscribe [inv_intros]:
  assumes "manager_ok m" "sm_nextID m \<noteq> - 1"
  shows "manager_ok (snd (Subscribe sid tags types m))"
proof -
  let ?s = "\<lparr>sub_ID = sm_nextID m, sub_SessionID = sid, sub_Tags = tags, sub_EventTypes = types,
      sub_Ch = make_chan 256\<rparr>"
  have "sub_ok (sm_nextID m, ?s)" by (simp add: sub_ok_def make_chan_def)
  moreover have "set (mput (sm_nextID m) ?s (sm_subs m)) \<subseteq> insert (sm_nextID m, ?s) (set (sm_subs m))"
    by (rule set_mput_subset)
  ultimately have "list_all sub_ok (mput (sm_nextID m) ?s (sm_subs m))"
    using assms(1) unfolding manager_ok_def list_all_iff by blast
  with assms show ?thesis
    by (auto simp: manager_ok_def Subscribe_def Let_def word_less_succ intro: less_imp_le)
qed

lemma manager_ok_Unsubscribe [inv_intros]:
  "manager_ok m \<Longrightarrow> manager_ok (snd (Unsubscribe i m))"
  using set_mdel_subset [of i "sm_subs m"]
  by (auto simp: manager_ok_def Unsubscribe_def mkeys_mdel list_all_iff split: option.splits)

lemma sub_ok_recv: "sub_ok (i, s) \<Longrightarrow> sub_ok (i, s\<lparr>sub_Ch := chan_rest (sub_Ch s)\<rparr>)"
  by (auto simp: sub_ok_def)

lemma manager_ok_recv [inv_intros]: "manager_ok m \<Longrightarrow> manager_ok (recv_sub k m)"
  by (auto simp: manager_ok_def recv_sub_def map_ok_def mkeys_def list_all_iff comp_def case_prod_unfold sub_ok_recv image_iff
      split: prod.splits)

lemma manager_ok_Publish [inv_intros]:
  "manager_ok m \<Longrightarrow> Publish sid tags ev m = Some m' \<Longrightarrow> manager_ok m'"
  by (auto simp: Publish_ok) (auto simp: manager_ok_def list_all_iff sub_ok_notify)

interpretation subscriptions: fanout
  "\<lambda>m i. map_option sub_Ch (mget (sm_subs m) i)"
  "\<lambda>m i (sid, tags, ev). case mget (sm_subs m) i of
      None \<Rightarrow> False | Some s \<Rightarrow> sub_matches s sid tags (ev_Type ev)"
  "\<lambda>(sid, tags, ev). \<lparr>se_SessionID = sid, se_Event = ev\<rparr>"
  "\<lambda>(sid, tags, ev) m. the (Publish sid tags ev m)"
  manager_ok
proof (unfold_locales, goal_cases)
  case (1 s m i)
  then show ?case
    by (cases m; cases "mget (sm_subs s) i") (simp_all add: Publish_ok mget_map_value notify_def)
next
  case (2 s m)
  have "sub_matches (notify sid tags ev s) a b c = sub_matches s a b c" for sid tags ev s a b c
    by (simp add: notify_def sub_matches_def)
  with 2 show ?case
    by (cases m) (auto simp: Publish_ok mget_map_value fun_eq_iff split: option.splits)
next
  case (3 s m)
  then show ?case by (cases m) (auto simp: Publish_ok intro: manager_ok_Publish)
next
  case (4 s i c)
  then show ?case by (auto simp: manager_ok_def list_all_iff sub_ok_def mget_Some_iff)
qed

end
