(* ===== verification/EventLog.thy ===== *)
theory EventLog
  imports Events
begin

text \<open>
  The append-only JSONL log of \<open>internal/session/events.go\<close>. The log is the content of its
  file; \<open>json.Marshal\<close> and \<open>json.Unmarshal\<close> of an event are the parameters
  \<open>marshal\<close> and \<open>unmarshal\<close>. \<open>bufio.Scanner\<close> with the buffer limits of the source is
  written out: it cuts at newlines, drops one trailing carriage return, and stops with
  \<open>ErrTooLong\<close> at a line that does not fit the buffer.
\<close>

section \<open>The file and the scanner\<close>

definition NEWLINE :: byte where "NEWLINE = CHR 0x0A"
definition CARRIAGE_RETURN :: byte where "CARRIAGE_RETURN = CHR 0x0D"

text \<open>\<open>scanner.Buffer(make([]byte, 0, 64*1024), 1024*1024)\<close>: the buffer holds a line and its newline.\<close>

definition maxTokenSize :: nat where "maxTokenSize = 1024 * 1024"

record EventLog =
  el_file :: "bytes option"   \<comment> \<open>\<open>None\<close>: the file does not exist\<close>

definition EventLog_Append :: "(Event \<Rightarrow> bytes option) \<Rightarrow> Event \<Rightarrow> EventLog \<Rightarrow> bool \<times> EventLog" where
  "EventLog_Append marshal e l =
     (case marshal e of
        None \<Rightarrow> (False, l)
      | Some data \<Rightarrow>
          (True, l\<lparr>el_file := Some ((case el_file l of None \<Rightarrow> [] | Some bs \<Rightarrow> bs) @ data @ [NEWLINE])\<rparr>))"

definition drop_cr :: "bytes \<Rightarrow> bytes" where
  "drop_cr line = (if line \<noteq> [] \<and> last line = CARRIAGE_RETURN then butlast line else line)"

text \<open>Tokens in order, and whether the scan ended with \<open>ErrTooLong\<close>.\<close>

function scan_tokens :: "bytes \<Rightarrow> bytes list \<times> bool" where
  "scan_tokens s =
     (if s = [] then ([], False)
      else
        let line = takeWhile (\<lambda>b. b \<noteq> NEWLINE) s in
        if maxTokenSize \<le> length line then ([], True)
        else (let (ts, err) = scan_tokens (drop (Suc (length line)) s) in (drop_cr line # ts, err)))"
  by pat_completeness auto
termination
  by (relation "measure length") (auto simp: Let_def)

declare scan_tokens.simps [simp del]

text \<open>\<open>ReadEventLog\<close>: the events of the lines that decode, and the scanner's error.\<close>

definition ReadEventLog :: "(bytes \<Rightarrow> Event option) \<Rightarrow> bytes option \<Rightarrow> Event list \<times> bool" where
  "ReadEventLog unmarshal file =
     (case file of
        None \<Rightarrow> ([], False)
      | Some bs \<Rightarrow> (let (ts, err) = scan_tokens bs in (List.map_filter unmarshal ts, err)))"

text \<open>\<open>ReadTail\<close>: \<open>None\<close> is the error return.\<close>

definition ReadTail :: "(bytes \<Rightarrow> Event option) \<Rightarrow> int \<Rightarrow> EventLog \<Rightarrow> Event list option" where
  "ReadTail unmarshal n l =
     (case ReadEventLog unmarshal (el_file l) of
        (events, True) \<Rightarrow> None
      | (events, False) \<Rightarrow>
          if 0 < n \<and> n < int (length events) then Some (last_n (nat n) events) else Some events)"

section \<open>Reading back what was appended\<close>

text \<open>The lines that the scanner hands back as they were written.\<close>

definition line_ok :: "bytes \<Rightarrow> bool" where
  "line_ok d \<longleftrightarrow> NEWLINE \<notin> set d \<and> length d < maxTokenSize \<and> drop_cr d = d"

lemma takeWhile_line: "NEWLINE \<notin> set d \<Longrightarrow> takeWhile (\<lambda>b. b \<noteq> NEWLINE) (d @ NEWLINE # rest) = d"
  by (induction d) auto

lemma scan_tokens_line:
  "NEWLINE \<notin> set d \<Longrightarrow> length d < maxTokenSize \<Longrightarrow>
   scan_tokens (d @ NEWLINE # rest) = (drop_cr d # fst (scan_tokens rest), snd (scan_tokens rest))"
  by (subst scan_tokens.simps) (simp add: takeWhile_line Let_def split: prod.splits)

lemma scan_tokens_too_long:
  "NEWLINE \<notin> set d \<Longrightarrow> maxTokenSize \<le> length d \<Longrightarrow> scan_tokens (d @ NEWLINE # rest) = ([], True)"
  by (subst scan_tokens.simps) (auto simp: takeWhile_line Let_def)

definition lines_bytes :: "bytes list \<Rightarrow> bytes" where
  "lines_bytes ds = concat (map (\<lambda>d. d @ [NEWLINE]) ds)"

lemma scan_tokens_lines:
  "list_all line_ok ds \<Longrightarrow>
   scan_tokens (lines_bytes ds @ rest) = (ds @ fst (scan_tokens rest), snd (scan_tokens rest))"
proof (induction ds)
  case (Cons d ds)
  then show ?case
    using scan_tokens_line [of d "lines_bytes ds @ rest"] by (simp add: lines_bytes_def line_ok_def)
qed (simp add: lines_bytes_def)

lemma scan_tokens_Nil [simp]: "scan_tokens [] = ([], False)"
  by (subst scan_tokens.simps) simp

fun append_all :: "(Event \<Rightarrow> bytes option) \<Rightarrow> Event list \<Rightarrow> EventLog \<Rightarrow> EventLog" where
  "append_all marshal [] l = l"
| "append_all marshal (e # es) l = append_all marshal es (snd (EventLog_Append marshal e l))"

lemma append_all_file:
  "list_all (\<lambda>e. marshal e \<noteq> None) es \<Longrightarrow>
   el_file l = Some bs \<Longrightarrow>
   el_file (append_all marshal es l) = Some (bs @ lines_bytes (map (\<lambda>e. the (marshal e)) es))"
  by (induction es arbitrary: l bs) (auto simp: EventLog_Append_def lines_bytes_def)

lemma map_filter_inverse:
  "list_all (\<lambda>e. g (f e) = Some e) es \<Longrightarrow> List.map_filter g (map f es) = es"
  by (induction es) (auto simp: List.map_filter_simps)

lemma ReadEventLog_lines:
  assumes "list_all (\<lambda>e. \<exists>d. marshal e = Some d \<and> line_ok d \<and> unmarshal d = Some e) es"
    and "el_file l = Some []"
  shows "ReadEventLog unmarshal (el_file (append_all marshal es l)) = (es, False)"
proof -
  let ?ds = "map (\<lambda>e. the (marshal e)) es"
  have m: "list_all (\<lambda>e. marshal e \<noteq> None) es" "list_all line_ok ?ds"
    "list_all (\<lambda>e. unmarshal (the (marshal e)) = Some e) es"
    using assms(1) by (auto simp: list_all_iff)
  then have "el_file (append_all marshal es l) = Some (lines_bytes ?ds)"
    using append_all_file [of marshal es l "[]"] assms(2) by simp
  moreover have "scan_tokens (lines_bytes ?ds) = (?ds, False)"
    using scan_tokens_lines [OF m(2), of "[]"] by simp
  ultimately show ?thesis
    using map_filter_inverse [of unmarshal "\<lambda>e. the (marshal e)" es] m(3) by (simp add: ReadEventLog_def)
qed

text \<open>
  One line that does not fit the buffer ends every later read with an error: the scan stops
  there whatever was appended before or after it.
\<close>

lemma ReadTail_poisoned:
  assumes pre: "list_all line_ok ds" and d: "NEWLINE \<notin> set d" "maxTokenSize \<le> length d"
    and f: "el_file l = Some (lines_bytes ds @ d @ NEWLINE # rest)"
  shows "ReadTail unmarshal n l = None"
  using scan_tokens_lines [OF pre, of "d @ NEWLINE # rest"] scan_tokens_too_long [OF d, of rest]
  by (simp add: ReadTail_def ReadEventLog_def f)

end
