(* ===== verification/SessionEnv.thy ===== *)
theory SessionEnv
  imports Prelude "HOL-Library.List_Lexorder"
begin

text \<open>
  The environment of a session's process, \<open>buildEnv\<close> and its helpers at the end of
  \<open>internal/session/session.go\<close>. An environment is a list of \<open>KEY=VALUE\<close> strings;
  \<open>os.Environ()\<close> and the parsed content of \<open>~/.codewire/environment.json\<close> are arguments.
\<close>

section \<open>Entries\<close>

text \<open>The key of an entry: the bytes before the first \<open>=\<close>, if there is one.\<close>

definition env_key :: "string \<Rightarrow> string option" where
  "env_key e = (if CHR ''='' \<in> set e then Some (takeWhile (\<lambda>c. c \<noteq> CHR ''='') e) else None)"

fun envValue :: "string list \<Rightarrow> string \<Rightarrow> string option" where
  "envValue [] key = None"
| "envValue (entry # env) key =
     (let pre = key @ ''='' in
      if has_prefix entry pre then Some (drop (length pre) entry) else envValue env key)"

section \<open>Overrides\<close>

text \<open>The loop that indexes the base: a later entry with the same key wins.\<close>

fun key_index :: "nat \<Rightarrow> string list \<Rightarrow> (string \<rightharpoonup> nat) \<Rightarrow> (string \<rightharpoonup> nat)" where
  "key_index i [] m = m"
| "key_index i (e # es) m =
     key_index (Suc i) es (case env_key e of None \<Rightarrow> m | Some k \<Rightarrow> m(k \<mapsto> i))"

fun override_loop :: "string list \<Rightarrow> string list \<times> (string \<rightharpoonup> nat) \<Rightarrow> string list \<times> (string \<rightharpoonup> nat)" where
  "override_loop [] (result, keyIdx) = (result, keyIdx)"
| "override_loop (ov # ovs) (result, keyIdx) =
     (case env_key ov of
        None \<Rightarrow> override_loop ovs (result, keyIdx)
      | Some key \<Rightarrow>
          (case keyIdx key of
             Some idx \<Rightarrow> override_loop ovs (result[idx := ov], keyIdx)
           | None \<Rightarrow> override_loop ovs (result @ [ov], keyIdx(key \<mapsto> length result))))"

definition applyEnvOverrides :: "string list \<Rightarrow> string list \<Rightarrow> string list" where
  "applyEnvOverrides base overrides =
     (if length overrides = 0 then base
      else fst (override_loop overrides (base, key_index 0 base Map.empty)))"

definition applyDefaultTerminalEnv :: "string list \<Rightarrow> string list" where
  "applyDefaultTerminalEnv base =
     (let term = envValue base ''TERM'';
          colorTerm = envValue base ''COLORTERM'';
          ovTerm = (case term of
              None \<Rightarrow> [''TERM=xterm-256color'']
            | Some t \<Rightarrow> if trim_space t = [] \<or> t = ''dumb'' then [''TERM=xterm-256color''] else []);
          ovColor = (case colorTerm of
              None \<Rightarrow> [''COLORTERM=truecolor'']
            | Some t \<Rightarrow> if trim_space t = [] then [''COLORTERM=truecolor''] else [])
      in applyEnvOverrides base (ovTerm @ ovColor))"

text \<open>
  \<open>loadCodewireEnvOverrides\<close>: \<open>None\<close> is a file that is missing, empty or not a JSON
  object of strings; the entries come in the order of the sorted keys.
\<close>

definition loadCodewireEnvOverrides :: "(string, string) gomap option \<Rightarrow> string list" where
  "loadCodewireEnvOverrides file =
     (case file of
        None \<Rightarrow> []
      | Some envVars \<Rightarrow>
          if length envVars = 0 then []
          else map (\<lambda>(k, v). k @ ''='' @ v)
                 (sort_key fst envVars))"

definition buildEnv :: "string list \<Rightarrow> (string, string) gomap option \<Rightarrow> string list \<Rightarrow> string list" where
  "buildEnv environ file overrides =
     (let filtered = filter (\<lambda>e. \<not> has_prefix e ''CLAUDECODE='' \<and>
              \<not> has_prefix e ''CLAUDE_CODE_ENTRYPOINT='') environ;
          withTerm = applyDefaultTerminalEnv filtered;
          withFile = applyEnvOverrides withTerm (loadCodewireEnvOverrides file)
      in applyEnvOverrides withFile overrides)"

section \<open>The value a process sees\<close>

text \<open>
  \<open>os/exec\<close> hands the last entry of each key to the process: the specification of an
  environment is its last entry per key.
\<close>

definition env_last :: "string list \<Rightarrow> string \<Rightarrow> string option" where
  "env_last env k = find (\<lambda>e. env_key e = Some k) (rev env)"

text \<open>Entry \<open>i\<close> is the last one with key \<open>k\<close>; no entry has key \<open>k\<close>.\<close>

definition last_at :: "string list \<Rightarrow> string \<Rightarrow> nat \<Rightarrow> bool" where
  "last_at env k i \<longleftrightarrow>
     i < length env \<and> env_key (env ! i) = Some k \<and> list_all (\<lambda>e. env_key e \<noteq> Some k) (drop (Suc i) env)"

definition no_key :: "string list \<Rightarrow> string \<Rightarrow> bool" where
  "no_key env k \<longleftrightarrow> list_all (\<lambda>e. env_key e \<noteq> Some k) env"

definition index_ok :: "string list \<Rightarrow> (string \<rightharpoonup> nat) \<Rightarrow> bool" where
  "index_ok env m \<longleftrightarrow> (\<forall>k. case m k of None \<Rightarrow> no_key env k | Some i \<Rightarrow> last_at env k i)"

lemma index_okD:
  "index_ok env m \<Longrightarrow> m k = None \<Longrightarrow> no_key env k"
  "index_ok env m \<Longrightarrow> m k = Some i \<Longrightarrow> last_at env k i"
  unfolding index_ok_def by (metis option.simps(4)) (metis option.simps(5))

lemma index_okI:
  "(\<And>k. m k = None \<Longrightarrow> no_key env k) \<Longrightarrow> (\<And>k i. m k = Some i \<Longrightarrow> last_at env k i) \<Longrightarrow> index_ok env m"
  by (simp add: index_ok_def split: option.splits)

lemma find_append:
  "find P (xs @ ys) = (case find P xs of None \<Rightarrow> find P ys | Some x \<Rightarrow> Some x)"
  by (induction xs) auto

lemma find_none: "list_all (\<lambda>x. \<not> P x) xs \<Longrightarrow> find P xs = None"
  by (simp add: find_None_iff list_all_iff)

lemma env_last_at: "last_at env k i \<Longrightarrow> env_last env k = Some (env ! i)"
proof -
  assume l: "last_at env k i"
  then have "rev env = rev (drop (Suc i) env) @ env ! i # rev (take i env)"
    using id_take_nth_drop [of i env] by (simp add: last_at_def) (metis append.assoc append_Cons append_Nil rev_append rev_eq_Cons_iff rev_rev_ident)
  moreover have "find (\<lambda>e. env_key e = Some k) (rev (drop (Suc i) env)) = None"
    using l by (intro find_none) (simp add: last_at_def)
  ultimately show ?thesis using l by (simp add: env_last_def find_append last_at_def)
qed

lemma env_last_none: "no_key env k \<Longrightarrow> env_last env k = None"
  by (simp add: env_last_def no_key_def find_none)

lemma env_last_index: "index_ok env m \<Longrightarrow> env_last env k = map_option (\<lambda>i. env ! i) (m k)"
  by (cases "m k") (auto dest: index_okD simp: env_last_at env_last_none)

lemma last_at_snoc:
  "last_at env k i \<Longrightarrow> env_key e \<noteq> Some k \<Longrightarrow> last_at (env @ [e]) k i"
  by (simp add: last_at_def nth_append)

lemma last_at_snoc_new: "env_key e = Some k \<Longrightarrow> last_at (env @ [e]) k (length env)"
  by (simp add: last_at_def)

lemma no_key_snoc: "no_key env k \<Longrightarrow> env_key e \<noteq> Some k \<Longrightarrow> no_key (env @ [e]) k"
  by (simp add: no_key_def)

lemma index_ok_snoc:
  assumes ok: "index_ok env m"
  shows "index_ok (env @ [e]) (case env_key e of None \<Rightarrow> m | Some k \<Rightarrow> m(k \<mapsto> length env))"
proof (cases "env_key e")
  case None
  then show ?thesis
    by (auto intro!: index_okI last_at_snoc no_key_snoc dest: index_okD [OF ok])
next
  case (Some k)
  show ?thesis
  proof (rule index_okI)
    fix k' assume "(case env_key e of None \<Rightarrow> m | Some k \<Rightarrow> m(k \<mapsto> length env)) k' = None"
    with Some show "no_key (env @ [e]) k'"
      by (auto intro!: no_key_snoc dest: index_okD [OF ok] split: if_splits)
  next
    fix k' i assume "(case env_key e of None \<Rightarrow> m | Some k \<Rightarrow> m(k \<mapsto> length env)) k' = Some i"
    with Some show "last_at (env @ [e]) k' i"
      by (cases "k' = k") (auto intro: last_at_snoc last_at_snoc_new dest: index_okD [OF ok])
  qed
qed

lemma key_index_ok:
  "index_ok pre m \<Longrightarrow> index_ok (pre @ es) (key_index (length pre) es m)"
proof (induction es arbitrary: pre m)
  case (Cons e es)
  from Cons.IH [OF index_ok_snoc [OF Cons.prems, of e]] show ?case by simp
qed simp

lemma index_ok_base: "index_ok base (key_index 0 base Map.empty)"
  using key_index_ok [of "[]" Map.empty base] by (simp add: index_ok_def no_key_def)

lemma map_env_key_update:
  assumes "env_key ov = env_key (env ! i)"
  shows "map env_key (env[i := ov]) = map env_key env"
  using assms by (metis list_update_id map_update)

lemma last_at_keys:
  "last_at env k i \<longleftrightarrow> i < length (map env_key env) \<and> map env_key env ! i = Some k \<and>
     Some k \<notin> set (drop (Suc i) (map env_key env))"
  by (auto simp: last_at_def drop_map list_all_iff image_iff)

lemma no_key_keys: "no_key env k \<longleftrightarrow> Some k \<notin> set (map env_key env)"
  by (auto simp: no_key_def list_all_iff image_iff)

lemma index_ok_update:
  assumes ok: "index_ok env m" and k: "env_key ov = Some key" "m key = Some i"
  shows "index_ok (env[i := ov]) m"
proof -
  have "env_key ov = env_key (env ! i)"
    using index_okD(2) [OF ok k(2)] k(1) by (simp add: last_at_def)
  then have "map env_key (env[i := ov]) = map env_key env" by (rule map_env_key_update)
  with ok show ?thesis
    unfolding index_ok_def last_at_keys no_key_keys by (simp only: split: option.splits) simp
qed

lemma env_last_Cons:
  "env_last (ov # ovs) k =
     (case env_last ovs k of None \<Rightarrow> if env_key ov = Some k then Some ov else None | Some x \<Rightarrow> Some x)"
  by (simp add: env_last_def find_append split: option.split)

lemma env_last_snoc: "env_last (env @ [e]) k = (if env_key e = Some k then Some e else env_last env k)"
  by (simp add: env_last_def)

lemma env_last_update:
  assumes ok: "index_ok env m" and ov: "env_key ov = Some key" "m key = Some i"
  shows "env_last (env[i := ov]) k = (if env_key ov = Some k then Some ov else env_last env k)"
proof -
  have i: "i < length env" "env_key (env ! i) = Some key"
    using index_okD(2) [OF ok ov(2)] by (simp_all add: last_at_def)
  have "m k = Some i \<Longrightarrow> k = key"
    using index_okD(2) [OF ok, of k i] i by (simp add: last_at_def)
  then show ?thesis
    using ov i(1) env_last_index [OF index_ok_update [OF assms], of k] env_last_index [OF ok, of k]
    by (cases "m k") (auto simp: nth_list_update)
qed

lemma override_loop_last:
  "index_ok result keyIdx \<Longrightarrow>
   env_last (fst (override_loop ovs (result, keyIdx))) k =
     (case env_last ovs k of None \<Rightarrow> env_last result k | Some ov \<Rightarrow> Some ov)"
proof (induction ovs arbitrary: result keyIdx)
  case (Cons ov ovs)
  show ?case
  proof (cases "env_key ov")
    case None
    with Cons show ?thesis by (simp add: env_last_Cons split: option.splits)
  next
    case (Some key)
    show ?thesis
    proof (cases "keyIdx key")
      case None
      have ok: "index_ok (result @ [ov]) (keyIdx(key \<mapsto> length result))"
        using index_ok_snoc [OF Cons.prems, of ov] Some by simp
      have step: "override_loop (ov # ovs) (result, keyIdx) =
          override_loop ovs (result @ [ov], keyIdx(key \<mapsto> length result))"
        using None Some by simp
      show ?thesis unfolding step Cons.IH [OF ok]
        using Some by (simp add: env_last_Cons env_last_snoc split: option.splits)
    next
      case idx: (Some i)
      with Some Cons.IH [OF index_ok_update [OF Cons.prems Some idx]]
        env_last_update [OF Cons.prems Some idx]
      show ?thesis by (simp add: env_last_Cons split: option.splits)
    qed
  qed
qed (simp add: env_last_def)

lemma env_last_overrides:
  "env_last (applyEnvOverrides base ovs) k =
     (case env_last ovs k of None \<Rightarrow> env_last base k | Some ov \<Rightarrow> Some ov)"
  using override_loop_last [OF index_ok_base [of base], where ovs = ovs and k = k]
  by (cases "ovs = []") (simp_all add: applyEnvOverrides_def env_last_none no_key_def)

end
