(* ===== verification/SessionText.thy ===== *)
theory SessionText
  imports Ansi
begin

text \<open>
  The pure string functions of \<open>internal/session/session.go\<close>: session names, task reports,
  tags, prompts injected into a PTY, and the previews taken from a session's output log.
\<close>

section \<open>Names, tags and prompts\<close>

definition is_alnum :: "byte \<Rightarrow> bool" where
  "is_alnum c \<longleftrightarrow> (CHR ''a'' \<le> c \<and> c \<le> CHR ''z'') \<or> (CHR ''A'' \<le> c \<and> c \<le> CHR ''Z'') \<or>
     (CHR ''0'' \<le> c \<and> c \<le> CHR ''9'')"

text \<open>\<open>namePattern\<close>: \<open>^[a-zA-Z0-9][a-zA-Z0-9-]{0,31}$\<close>.\<close>

definition namePattern :: "string \<Rightarrow> bool" where
  "namePattern name =
     (case name of
        [] \<Rightarrow> False
      | c # cs \<Rightarrow> is_alnum c \<and> length cs \<le> 31 \<and> list_all (\<lambda>x. is_alnum x \<or> x = CHR ''-'') cs)"

definition matchesTags :: "string list \<Rightarrow> string list \<Rightarrow> bool" where
  "matchesTags sessionTags filterTags =
     list_ex (\<lambda>ft. list_ex (\<lambda>st. ft = st) sessionTags) filterTags"

text \<open>The loop of \<open>GroupNames\<close>: tags \<open>group:<name>\<close>, trimmed, empty names skipped.\<close>

fun group_names :: "string list \<Rightarrow> string list" where
  "group_names [] = []"
| "group_names (t # tags) =
     (let tag = trim_space t in
      if \<not> has_prefix tag ''group:'' then group_names tags
      else
        let groupName = trim_space (trim_prefix tag ''group:'') in
        if groupName = [] then group_names tags else groupName # group_names tags)"

definition FormatDirectMessagePrompt :: "string \<Rightarrow> uint32 \<Rightarrow> string \<Rightarrow> string" where
  "FormatDirectMessagePrompt fromName fromID body =
     ESC # ''[200~'' @ body @ ESC # ''[201~'' @ [CHR 0x0D]"

definition FormatRequestPrompt :: "string \<Rightarrow> string \<Rightarrow> uint32 \<Rightarrow> string \<Rightarrow> string" where
  "FormatRequestPrompt requestID fromName fromID body =
     (let footer = [CHR 0x0A, CHR 0x0A] @ ''Reply with: cw reply '' @ requestID @ '' <response>''
      in ESC # ''[200~'' @ body @ footer @ ESC # ''[201~'' @ [CHR 0x0D])"

section \<open>Task reports\<close>

definition maxTaskSummaryLen :: nat where "maxTaskSummaryLen = 280"

datatype task_error = SummaryRequired | SummaryTooLong | InvalidTaskState string

definition normalizeTaskSummary :: "string \<Rightarrow> task_error + string" where
  "normalizeTaskSummary s =
     (let summary = join_with '' '' (str_fields (trim_space s)) in
      if summary = [] then Inl SummaryRequired
      else if maxTaskSummaryLen < length summary then Inl SummaryTooLong
      else Inr summary)"

definition normalizeTaskState :: "string \<Rightarrow> task_error + string" where
  "normalizeTaskState s =
     (let state = trim_space (to_lower s) in
      if state \<in> {''working'', ''complete'', ''blocked'', ''failed''} then Inr state
      else Inl (InvalidTaskState state))"

lemma normalizeTaskSummary_ok:
  "normalizeTaskSummary s = Inr r \<Longrightarrow> r \<noteq> [] \<and> length r \<le> 280"
  by (auto simp: normalizeTaskSummary_def maxTaskSummaryLen_def Let_def split: if_splits)

lemma normalizeTaskState_ok:
  "normalizeTaskState s = Inr r \<Longrightarrow> r \<in> {''working'', ''complete'', ''blocked'', ''failed''}"
  unfolding normalizeTaskState_def Let_def by (auto split: if_splits)

section \<open>Runes\<close>

definition in_range :: "byte \<Rightarrow> byte \<Rightarrow> byte \<Rightarrow> bool" where
  "in_range lo hi c \<longleftrightarrow> lo \<le> c \<and> c \<le> hi"

abbreviation cont_byte :: "byte \<Rightarrow> bool" where "cont_byte \<equiv> in_range (CHR 0x80) (CHR 0xBF)"

text \<open>
  The width of the valid UTF-8 encoding at the start of a string, \<open>None\<close> where Go's decoder
  reports an error; it then consumes one byte.
\<close>

definition second_ok :: "byte \<Rightarrow> byte \<Rightarrow> bool" where
  "second_ok a b =
     (if a = CHR 0xE0 then in_range (CHR 0xA0) (CHR 0xBF) b
      else if a = CHR 0xED then in_range (CHR 0x80) (CHR 0x9F) b
      else if a = CHR 0xF0 then in_range (CHR 0x90) (CHR 0xBF) b
      else if a = CHR 0xF4 then in_range (CHR 0x80) (CHR 0x8F) b
      else cont_byte b)"

fun rune_width :: "string \<Rightarrow> nat option" where
  "rune_width [] = None"
| "rune_width (a # s) =
     (if a \<le> CHR 0x7F then Some 1
      else if in_range (CHR 0xC2) (CHR 0xDF) a then
        (case s of b # _ \<Rightarrow> if cont_byte b then Some 2 else None | [] \<Rightarrow> None)
      else if in_range (CHR 0xE0) (CHR 0xEF) a then
        (case s of b # c # _ \<Rightarrow> if second_ok a b \<and> cont_byte c then Some 3 else None
         | _ \<Rightarrow> None)
      else if in_range (CHR 0xF0) (CHR 0xF4) a then
        (case s of
           b # c # d # _ \<Rightarrow> if second_ok a b \<and> cont_byte c \<and> cont_byte d then Some 4 else None
         | _ \<Rightarrow> None)
      else None)"

lemma rune_width_pos: "rune_width s = Some n \<Longrightarrow> 0 < n"
  by (cases s) (auto split: if_splits list.splits)

text \<open>\<open>[]rune(s)\<close>, each rune as the bytes \<open>string(runes)\<close> writes: U+FFFD for an invalid byte.\<close>

function runes_of :: "string \<Rightarrow> string list" where
  "runes_of [] = []"
| "runes_of (a # s) =
     (case rune_width (a # s) of
        None \<Rightarrow> [CHR 0xEF, CHR 0xBF, CHR 0xBD] # runes_of s
      | Some n \<Rightarrow> take n (a # s) # runes_of (drop n (a # s)))"
  by pat_completeness auto
termination
  by (relation "measure length") (auto simp del: rune_width.simps dest: rune_width_pos)

section \<open>Previews\<close>

definition statusPreviewLimit :: nat where "statusPreviewLimit = 200"

definition statusPreview :: "string \<Rightarrow> string" where
  "statusPreview blob =
     (let normalized = join_with '' '' (str_fields (trim_space blob)) in
      if normalized = [] then []
      else if length (runes_of normalized) \<le> statusPreviewLimit then normalized
      else concat (take statusPreviewLimit (runes_of normalized)) @ ''...'')"

text \<open>The lines of the log file's tail, newest last; \<open>None\<close> is a nil result.\<close>

fun trim_blank :: "string list \<Rightarrow> string list" where
  "trim_blank [] = []"
| "trim_blank (l # ls) = (if trim_space l = [] then trim_blank ls else l # ls)"

definition captureResult :: "bytes option \<Rightarrow> nat \<Rightarrow> string option" where
  "captureResult logFile maxLines =
     (case logFile of
        None \<Rightarrow> None
      | Some content \<Rightarrow>
          if length content = 0 then None
          else
            let clean = StripANSI (last_n (64 * 1024) content);
                lines0 = split_on (CHR 0x0A) clean;
                lines1 = (if maxLines < length lines0 then last_n maxLines lines0 else lines0);
                lines2 = rev (trim_blank (rev lines1))
            in if lines2 = [] then None else Some (join_with [CHR 0x0A] lines2))"

text \<open>
  \<open>statusLastEventBlob\<close>: the captured result if it is not blank, else the last five lines
  of the log; \<open>None\<close> is the read error.
\<close>

definition statusLastEventBlob :: "string option \<Rightarrow> bytes option \<Rightarrow> string option" where
  "statusLastEventBlob result logFile =
     (case result of
        Some r \<Rightarrow> if trim_space r \<noteq> [] then Some (StripANSI r) else
          map_option (\<lambda>c. StripANSI (join_with [CHR 0x0A] (last_n 5 (split_on (CHR 0x0A) c)))) logFile
      | None \<Rightarrow>
          map_option (\<lambda>c. StripANSI (join_with [CHR 0x0A] (last_n 5 (split_on (CHR 0x0A) c)))) logFile)"

section \<open>What the previews guarantee\<close>

lemma set_join_with: "set (join_with sep ps) \<subseteq> set sep \<union> (\<Union>p \<in> set ps. set p)"
  by (induction sep ps rule: join_with.induct) auto

lemma set_split_on: "(\<Union>p \<in> set (split_on c s). set p) \<subseteq> set s"
proof (induction s)
  case (Cons x s)
  then show ?case by (cases "split_on c s") auto
qed simp

lemma set_trim_blank: "set (trim_blank ls) \<subseteq> set ls"
  by (induction ls) auto

lemma trim_blank_hd: "trim_blank ls \<noteq> [] \<Longrightarrow> trim_space (hd (trim_blank ls)) \<noteq> []"
  by (induction ls) auto

lemma length_trim_blank: "length (trim_blank ls) \<le> length ls"
  by (induction ls) auto

text \<open>A captured result: no escape byte, at most the asked lines, the last one not blank.\<close>

lemma captureResult_lines:
  assumes "captureResult f n = Some r"
  shows "\<exists>ls. ls \<noteq> [] \<and> r = join_with [CHR 0x0A] ls \<and> (0 < n \<longrightarrow> length ls \<le> n) \<and>
           trim_space (last ls) \<noteq> [] \<and> (\<forall>l \<in> set ls. ESC \<notin> set l)"
proof -
  from assms obtain content where c: "f = Some content" "length content \<noteq> 0"
    by (auto simp: captureResult_def split: option.splits if_splits)
  let ?l0 = "split_on (CHR 0x0A) (StripANSI (last_n (64 * 1024) content))"
  let ?l1 = "if n < length ?l0 then last_n n ?l0 else ?l0"
  let ?ls = "rev (trim_blank (rev ?l1))"
  have ls: "?ls \<noteq> []" "r = join_with [CHR 0x0A] ?ls"
    using assms c unfolding captureResult_def Let_def by (auto split: if_splits)
  have len: "length ?ls \<le> n"
  proof -
    have "length ?l1 \<le> n" by simp
    then show ?thesis using length_trim_blank [of "rev ?l1"] by (simp only: length_rev)
  qed
  have ne: "trim_blank (rev ?l1) \<noteq> []" using ls(1) by (metis rev.simps(1))
  then have "trim_space (hd (trim_blank (rev ?l1))) \<noteq> []" by (rule trim_blank_hd)
  moreover have "last ?ls = hd (trim_blank (rev ?l1))"
    using ne by (metis last_rev)
  ultimately have last: "trim_space (last ?ls) \<noteq> []" by metis
  have "set ?ls \<subseteq> set ?l1" using set_trim_blank [of "rev ?l1"] by simp
  moreover have "set ?l1 \<subseteq> set ?l0" using set_last_n [of n ?l0] by auto
  moreover have "ESC \<notin> set l" if "l \<in> set ?l0" for l
    using that set_split_on [of "CHR 0x0A" "StripANSI (last_n (64 * 1024) content)"]
      StripANSI_no_ESC [of "last_n (64 * 1024) content"] by blast
  ultimately have "\<forall>l \<in> set ?ls. ESC \<notin> set l" by blast
  with ls len last show ?thesis by blast
qed


end
