(* ===== verification/Session.thy ===== *)
theory Session
  imports Subscriptions EventLog SessionEnv SessionText
begin

text \<open>
  The session manager of \<open>internal/session/session.go\<close>: the table of sessions, the name
  index, launching, the goroutines of a session, and the requests of the node's handlers.
  A method that only reads or writes under its locks is one step; each goroutine of a session
  is a set of steps of its own (\<open>reader_chunk\<close>, \<open>reader_end\<close>, \<open>writer_step\<close>,
  \<open>stdin_inject\<close>, \<open>process_exit\<close>), so that their interleavings with the requests are the
  interleavings of these steps. The clock is the argument \<open>now\<close>; what the operating system
  answers to a launch is the argument \<open>os\<close>. \<open>js\<close> stands for \<open>json.Marshal\<close> of an event.
\<close>

section \<open>State\<close>

record SessionMeta =
  meta_ID :: uint32
  meta_Name :: string
  meta_Prompt :: string
  meta_WorkingDir :: string
  meta_CreatedAt :: nanos
  meta_Status :: string
  meta_PID :: "uint32 option"
  meta_Tags :: "string list"
  meta_ExitCode :: "int option"
  meta_CompletedAt :: "nanos option"
  meta_Result :: "string option"

text \<open>
  \<open>sess_log\<close> is the content of the output log file (\<open>None\<close>: no such file), \<open>sess_logOpen\<close>
  whether the reader holds it open; \<open>sess_ptyWrites\<close> lists the buffers handed to
  \<open>ptmx.Write\<close>; \<open>sess_reader\<close> and \<open>sess_writer\<close> say which goroutine loops still run.
\<close>

record Session =
  sess_Meta :: SessionMeta
  sess_attachedCount :: "32 word"
  sess_broadcaster :: Broadcaster
  sess_inputCh :: "bytes chan"
  sess_statusWatcher :: StatusWatcher
  sess_log :: "bytes option"
  sess_logOpen :: bool
  sess_outputBytes :: uint64
  sess_outputLines :: uint64
  sess_lastOutputAt :: nanos
  sess_eventLog :: "EventLog option"
  sess_eventLogClosed :: bool
  sess_messageLog :: "EventLog option"
  sess_exitHookSent :: bool
  sess_responder :: "QueryAutoResponder option"
  sess_ptyWrites :: "bytes list"
  sess_reader :: bool
  sess_writer :: bool

text \<open>Reply channels are shared between a pending request and its waiter: \<open>pr_replyCh\<close> is an address.\<close>

record pendingRequest =
  pr_replyCh :: nat
  pr_replyToken :: string
  pr_allowedReplierSessionID :: uint32
  pr_allowedReplierSessionName :: string

text \<open>
  What leaves the manager: a process started with its command, directory and environment,
  the exit hook, \<open>SIGTERM\<close> to a process, a forwarded task report.
\<close>

datatype effect =
    Spawn uint32 "string list" string "string list"
  | ExitHook uint32 string "string list"
  | Terminate uint32
  | Forward uint32 string string string string nanos

record SessionManager =
  mgr_sessions :: "(uint32, Session) gomap"
  mgr_nameIndex :: "(string, uint32) gomap"
  mgr_nextID :: uint32
  mgr_PersistCh :: bool   \<comment> \<open>the one-place signal channel holds a signal\<close>
  mgr_Subscriptions :: SubscriptionManager
  mgr_pendingRequests :: "(string, pendingRequest) gomap"
  mgr_replyChs :: "ReplyData chan list"
  mgr_nameChangeHook :: "(uint32 \<Rightarrow> string \<Rightarrow> string \<Rightarrow> string list \<Rightarrow> string option) option"
  mgr_sessionExitHook :: bool
  mgr_taskReportForward :: bool
  mgr_effects :: "effect list"
  mgr_panicked :: bool   \<comment> \<open>a send on a closed channel\<close>

datatype session_error =
    SessionNotFound uint32
  | InvalidName string
  | NameInUse string uint32
  | HookFailed string
  | NoSessionNamed string
  | EmptyCommand
  | CommandMissing string
  | WorkingDirMissing string
  | WorkingDirNotDirectory string
  | LogDirFailed
  | PtyFailed
  | NotRunning uint32
  | InputChannelFull uint32
  | TaskReportError task_error
  | AppendFailed

section \<open>Restoring and persisting\<close>

text \<open>\<open>max_id\<close> is the loop over the restored metadata; \<open>None\<close> is a missing or corrupt file.\<close>

fun max_id :: "uint32 \<Rightarrow> SessionMeta list \<Rightarrow> uint32" where
  "max_id maxID [] = maxID"
| "max_id maxID (m # ms) = max_id (if maxID < meta_ID m then meta_ID m else maxID) ms"

definition NewSessionManager :: "SessionMeta list option \<Rightarrow> SessionManager" where
  "NewSessionManager file =
     (let startID = (case file of None \<Rightarrow> 1 | Some metas \<Rightarrow> max_id 0 metas + 1) in
      \<lparr>mgr_sessions = [], mgr_nameIndex = [], mgr_nextID = startID, mgr_PersistCh = False,
       mgr_Subscriptions = NewSubscriptionManager, mgr_pendingRequests = [], mgr_replyChs = [],
       mgr_nameChangeHook = None, mgr_sessionExitHook = False, mgr_taskReportForward = False,
       mgr_effects = [], mgr_panicked = False\<rparr>)"

definition PersistMeta :: "SessionManager \<Rightarrow> SessionMeta list" where
  "PersistMeta m = map (\<lambda>(k, s). sess_Meta s) (mgr_sessions m)"

definition triggerPersist :: "SessionManager \<Rightarrow> SessionManager" where
  "triggerPersist m = m\<lparr>mgr_PersistCh := True\<rparr>"

section \<open>Access to one session\<close>

definition session_of :: "SessionManager \<Rightarrow> uint32 \<Rightarrow> Session option" where
  "session_of m i = mget (mgr_sessions m) i"

text \<open>A write through the session pointer \<open>m.sessions[id]\<close>.\<close>

definition upd_session :: "uint32 \<Rightarrow> (Session \<Rightarrow> Session) \<Rightarrow> SessionManager \<Rightarrow> SessionManager" where
  "upd_session i f m =
     m\<lparr>mgr_sessions := map (\<lambda>(k, s). (k, if k = i then f s else s)) (mgr_sessions m)\<rparr>"

definition publish :: "uint32 \<Rightarrow> string list \<Rightarrow> Event \<Rightarrow> SessionManager \<Rightarrow> SessionManager" where
  "publish i tags e m =
     (case Publish i tags e (mgr_Subscriptions m) of
        None \<Rightarrow> m\<lparr>mgr_panicked := True\<rparr>
      | Some s \<Rightarrow> m\<lparr>mgr_Subscriptions := s\<rparr>)"

definition emit :: "effect \<Rightarrow> SessionManager \<Rightarrow> SessionManager" where
  "emit e m = m\<lparr>mgr_effects := mgr_effects m @ [e]\<rparr>"

text \<open>\<open>Append\<close> to a log that may be nil or closed; the flag is whether it succeeded.\<close>

definition append_event :: "(Event \<Rightarrow> bytes option) \<Rightarrow> Event \<Rightarrow> Session \<Rightarrow> bool \<times> Session" where
  "append_event js e s =
     (case sess_eventLog s of
        None \<Rightarrow> (True, s)
      | Some l \<Rightarrow>
          if sess_eventLogClosed s then (False, s)
          else (fst (EventLog_Append js e l), s\<lparr>sess_eventLog := Some (snd (EventLog_Append js e l))\<rparr>))"

definition append_message :: "(Event \<Rightarrow> bytes option) \<Rightarrow> Event \<Rightarrow> Session \<Rightarrow> Session" where
  "append_message js e s =
     (case sess_messageLog s of
        None \<Rightarrow> s
      | Some l \<Rightarrow> s\<lparr>sess_messageLog := Some (snd (EventLog_Append js e l))\<rparr>)"

section \<open>Names\<close>

text \<open>The end of \<open>SetName\<close>: the new name in the metadata and the index, the old one out of the index.\<close>

definition rename_session :: "uint32 \<Rightarrow> string \<Rightarrow> string \<Rightarrow> SessionManager \<Rightarrow> SessionManager" where
  "rename_session i name oldName m =
     (let m1 = upd_session i (\<lambda>s. s\<lparr>sess_Meta := (sess_Meta s)\<lparr>meta_Name := name\<rparr>\<rparr>) m;
          idx = (if oldName \<noteq> [] \<and> oldName \<noteq> name
                 then mdel oldName (mgr_nameIndex m1) else mgr_nameIndex m1)
      in triggerPersist (m1\<lparr>mgr_nameIndex := mput name i idx\<rparr>))"

definition taken_by_other :: "uint32 \<Rightarrow> string \<Rightarrow> SessionManager \<Rightarrow> uint32 option" where
  "taken_by_other i name m =
     (case mget (mgr_nameIndex m) name of
        Some existing \<Rightarrow> if existing \<noteq> i then Some existing else None
      | None \<Rightarrow> None)"

definition run_name_hook :: "uint32 \<Rightarrow> string \<Rightarrow> string \<Rightarrow> string list \<Rightarrow> SessionManager \<Rightarrow> string option" where
  "run_name_hook i oldName name tags m =
     (if oldName \<noteq> name then
        (case mgr_nameChangeHook m of None \<Rightarrow> None | Some hook \<Rightarrow> hook i oldName name tags)
      else None)"

definition SetName :: "uint32 \<Rightarrow> string \<Rightarrow> SessionManager \<Rightarrow> (session_error + unit) \<times> SessionManager" where
  "SetName i name m =
     (if \<not> namePattern name then (Inl (InvalidName name), m)
      else case session_of m i of
        None \<Rightarrow> (Inl (SessionNotFound i), m)
      | Some s \<Rightarrow>
          (case taken_by_other i name m of
             Some existing \<Rightarrow> (Inl (NameInUse name existing), m)
           | None \<Rightarrow>
               let oldName = meta_Name (sess_Meta s);
                   tags = meta_Tags (sess_Meta s)
               in (case run_name_hook i oldName name tags m of
                     Some err \<Rightarrow> (Inl (HookFailed err), m)
                   | None \<Rightarrow> (Inr (), rename_session i name oldName m))))"

definition releaseName :: "uint32 \<Rightarrow> SessionManager \<Rightarrow> SessionManager" where
  "releaseName i m =
     (case session_of m i of
        None \<Rightarrow> m
      | Some s \<Rightarrow>
          let name = meta_Name (sess_Meta s) in
          if name \<noteq> [] then
            (case mget (mgr_nameIndex m) name of
               Some existing \<Rightarrow>
                 if existing = i then m\<lparr>mgr_nameIndex := mdel name (mgr_nameIndex m)\<rparr> else m
             | None \<Rightarrow> m)
          else m)"

definition ResolveByName :: "string \<Rightarrow> SessionManager \<Rightarrow> session_error + uint32" where
  "ResolveByName name m =
     (case mget (mgr_nameIndex m) name of None \<Rightarrow> Inl (NoSessionNamed name) | Some i \<Rightarrow> Inr i)"

definition GetName :: "uint32 \<Rightarrow> SessionManager \<Rightarrow> string" where
  "GetName i m = (case session_of m i of None \<Rightarrow> [] | Some s \<Rightarrow> meta_Name (sess_Meta s))"

definition GroupNames :: "uint32 \<Rightarrow> SessionManager \<Rightarrow> string list" where
  "GroupNames i m = (case session_of m i of None \<Rightarrow> [] | Some s \<Rightarrow> group_names (meta_Tags (sess_Meta s)))"

definition GetSessionTags :: "uint32 \<Rightarrow> SessionManager \<Rightarrow> string list" where
  "GetSessionTags i m = (case session_of m i of None \<Rightarrow> [] | Some s \<Rightarrow> meta_Tags (sess_Meta s))"

section \<open>Launching\<close>

text \<open>
  What the operating system answers: \<open>los_command\<close> the command is found, \<open>los_dir\<close> the
  working directory exists and is a directory, the log files' present contents (\<open>None\<close>: the
  file cannot be opened), \<open>los_pid\<close> the started process (\<open>None\<close>: \<open>pty.Start\<close> failed),
  \<open>los_environ\<close> and \<open>los_envFile\<close> the inputs of \<open>buildEnv\<close>.
\<close>

record launch_os =
  los_command :: bool
  los_dir :: "bool option"
  los_logDir :: bool
  los_pid :: "uint32 option option"
  los_events :: "bytes option"
  los_messages :: "bytes option"
  los_output :: "bytes option"
  los_noQueries :: bool
  los_environ :: "string list"
  los_envFile :: "(string, string) gomap option"

definition launch_env :: "launch_os \<Rightarrow> uint32 \<Rightarrow> string list \<Rightarrow> string \<Rightarrow> string list \<Rightarrow> string list" where
  "launch_env os i env name tags =
     (let e0 = [''CW_SESSION_ID='' @ show_nat (unat i)];
          e1 = (if name \<noteq> [] then e0 @ [''CW_SESSION_NAME='' @ name] else e0);
          e2 = (if 0 < length tags then e1 @ [''CW_COHORT_TAG='' @ hd tags] else e1)
      in buildEnv (los_environ os) (los_envFile os) (env @ e2))"

definition new_session ::
  "launch_os \<Rightarrow> uint32 \<Rightarrow> string list \<Rightarrow> string \<Rightarrow> string list \<Rightarrow> uint32 option \<Rightarrow> nanos \<Rightarrow> Session" where
  "new_session os i command workingDir tags pid now =
     \<lparr>sess_Meta = \<lparr>meta_ID = i, meta_Name = [], meta_Prompt = join_with '' '' command,
        meta_WorkingDir = workingDir, meta_CreatedAt = now, meta_Status = SessionStatus_String Running,
        meta_PID = pid, meta_Tags = tags, meta_ExitCode = None, meta_CompletedAt = None,
        meta_Result = None\<rparr>,
      sess_attachedCount = 0, sess_broadcaster = NewBroadcaster, sess_inputCh = make_chan 256,
      sess_statusWatcher = NewStatusWatcher Running, sess_log = los_output os,
      sess_logOpen = (los_output os \<noteq> None), sess_outputBytes = 0, sess_outputLines = 0,
      sess_lastOutputAt = 0, sess_eventLog = map_option (\<lambda>c. \<lparr>el_file = Some c\<rparr>) (los_events os),
      sess_eventLogClosed = False,
      sess_messageLog = map_option (\<lambda>c. \<lparr>el_file = Some c\<rparr>) (los_messages os),
      sess_exitHookSent = False,
      sess_responder = (if los_noQueries os then None else Some NewQueryAutoResponder),
      sess_ptyWrites = [], sess_reader = True, sess_writer = True\<rparr>"

definition Launch ::
  "(Event \<Rightarrow> bytes option) \<Rightarrow> launch_os \<Rightarrow> string list \<Rightarrow> string \<Rightarrow> string list \<Rightarrow> string \<Rightarrow>
   string list \<Rightarrow> nanos \<Rightarrow> SessionManager \<Rightarrow> (session_error + uint32) \<times> SessionManager" where
  "Launch js os command workingDir env name tags now m =
     (if length command = 0 then (Inl EmptyCommand, m)
      else if \<not> los_command os then (Inl (CommandMissing (hd command)), m)
      else case los_dir os of
        None \<Rightarrow> (Inl (WorkingDirMissing workingDir), m)
      | Some isDir \<Rightarrow>
          if \<not> isDir then (Inl (WorkingDirNotDirectory workingDir), m)
          else
            let i = mgr_nextID m;
                m1 = m\<lparr>mgr_nextID := i + 1\<rparr>
            in if \<not> los_logDir os then (Inl LogDirFailed, m1)
               else case los_pid os of
                 None \<Rightarrow> (Inl PtyFailed, m1)
               | Some pid \<Rightarrow>
                   let e = NewSessionCreatedEvent now command workingDir tags;
                       sess = new_session os i command workingDir tags pid now;
                       m1' = emit (Spawn i command workingDir (launch_env os i env name tags)) m1;
                       m2 = m1'\<lparr>mgr_sessions := mput i sess (mgr_sessions m1')\<rparr>;
                       m3 = upd_session i (\<lambda>s. snd (append_event js e s)) m2;
                       m4 = publish i tags e m3
                   in (Inr i, triggerPersist m4))"

section \<open>The goroutines of a session\<close>

text \<open>
  Goroutine 1, one read of \<open>data\<close> (at most 4096 bytes). \<open>written\<close> is how many bytes
  \<open>logFile.Write\<close> wrote.
\<close>

definition track_output :: "bytes \<Rightarrow> nanos \<Rightarrow> Session \<Rightarrow> Session" where
  "track_output data now s =
     s\<lparr>sess_outputBytes := sess_outputBytes s + of_nat (length data),
       sess_outputLines := sess_outputLines s + of_nat (length (filter (\<lambda>b. b = CHR 0x0A) data)),
       sess_lastOutputAt := now\<rparr>"

definition respond_queries :: "bytes \<Rightarrow> Session \<Rightarrow> Session" where
  "respond_queries data s =
     (case sess_responder s of
        None \<Rightarrow> s
      | Some r \<Rightarrow>
          (case Responder_Feed r data of
             (r1, resp) \<Rightarrow>
               s\<lparr>sess_responder := Some r1,
                 sess_ptyWrites := (if 0 < length resp then sess_ptyWrites s @ [resp] else sess_ptyWrites s)\<rparr>))"

definition log_output :: "nat \<Rightarrow> bytes \<Rightarrow> Session \<Rightarrow> Session" where
  "log_output written data s =
     (if sess_logOpen s
      then s\<lparr>sess_log := map_option (\<lambda>c. c @ take written data) (sess_log s)\<rparr> else s)"

definition read_chunk :: "bytes \<Rightarrow> nat \<Rightarrow> nanos \<Rightarrow> Session \<Rightarrow> Session" where
  "read_chunk data written now s =
     (if 0 < length data then
        let s1 = log_output written data (respond_queries data s) in
        track_output data now (s1\<lparr>sess_broadcaster :=
          (case Broadcaster_Send data (sess_broadcaster s1) of
             None \<Rightarrow> sess_broadcaster s1 | Some b \<Rightarrow> b)\<rparr>)
      else s)"

definition send_panics :: "bytes \<Rightarrow> Session \<Rightarrow> bool" where
  "send_panics data s \<longleftrightarrow> 0 < length data \<and> Broadcaster_Send data (sess_broadcaster s) = None"

definition reader_chunk :: "uint32 \<Rightarrow> bytes \<Rightarrow> nat \<Rightarrow> nanos \<Rightarrow> SessionManager \<Rightarrow> SessionManager" where
  "reader_chunk i data written now m =
     (case session_of m i of
        None \<Rightarrow> m
      | Some s \<Rightarrow>
          if \<not> sess_reader s then m
          else if send_panics data s then m\<lparr>mgr_panicked := True\<rparr>
          else upd_session i (read_chunk data written now) m)"

text \<open>The end of goroutine 1: a read error, then both files are closed.\<close>

definition reader_end :: "uint32 \<Rightarrow> SessionManager \<Rightarrow> SessionManager" where
  "reader_end i m =
     upd_session i (\<lambda>s. s\<lparr>sess_reader := False, sess_logOpen := False,
       sess_eventLogClosed := (sess_eventLogClosed s \<or> sess_eventLog s \<noteq> None)\<rparr>) m"

text \<open>Goroutine 2: one buffer from the input channel; a failed write ends the loop.\<close>

definition write_input :: "bool \<Rightarrow> Session \<Rightarrow> Session" where
  "write_input ok s =
     (case ch_items (sess_inputCh s) of
        [] \<Rightarrow> s
      | data # rest \<Rightarrow>
          if sess_writer s then
            s\<lparr>sess_inputCh := (sess_inputCh s)\<lparr>ch_items := rest\<rparr>,
              sess_ptyWrites := sess_ptyWrites s @ [data], sess_writer := ok\<rparr>
          else s)"

definition writer_step :: "uint32 \<Rightarrow> bool \<Rightarrow> SessionManager \<Rightarrow> SessionManager" where
  "writer_step i ok m = upd_session i (write_input ok) m"

text \<open>The delayed injection of \<open>stdinData\<close>: dropped when the channel is full.\<close>

definition stdin_inject :: "uint32 \<Rightarrow> bytes \<Rightarrow> SessionManager \<Rightarrow> SessionManager" where
  "stdin_inject i stdinData m =
     (if 0 < length stdinData
      then upd_session i (\<lambda>s. s\<lparr>sess_inputCh := offer stdinData (sess_inputCh s)\<rparr>) m else m)"

text \<open>Whole milliseconds of a duration, truncated towards zero as Go's division.\<close>

definition milliseconds :: "nanos \<Rightarrow> int" where
  "milliseconds d = (if d < 0 then - ((- d) div 1000000) else d div 1000000)"

text \<open>Goroutine 3, after \<open>cmd.Wait\<close>; \<open>exitCode\<close> is 0, the exit status or -1.\<close>

definition record_exit :: "int \<Rightarrow> nanos \<Rightarrow> Session \<Rightarrow> Session" where
  "record_exit exitCode now s =
     (let s1 = s\<lparr>sess_Meta := (sess_Meta s)\<lparr>meta_ExitCode := Some exitCode, meta_CompletedAt := Some now\<rparr>\<rparr>;
          s2 = s1\<lparr>sess_Meta := (sess_Meta s1)\<lparr>meta_Result := captureResult (sess_log s1) 200\<rparr>\<rparr>
      in s2\<lparr>sess_statusWatcher := StatusWatcher_Set (Completed exitCode) (sess_statusWatcher s2)\<rparr>)"

definition run_exit_hook :: "uint32 \<Rightarrow> SessionManager \<Rightarrow> bool \<Rightarrow> string \<Rightarrow> string list \<Rightarrow> SessionManager" where
  "run_exit_hook i m sendExitHook name tags =
     (if sendExitHook \<and> mgr_sessionExitHook m then emit (ExitHook i name tags) m else m)"

definition process_exit :: "(Event \<Rightarrow> bytes option) \<Rightarrow> uint32 \<Rightarrow> int \<Rightarrow> nanos \<Rightarrow> SessionManager \<Rightarrow> SessionManager" where
  "process_exit js i exitCode now m =
     (case session_of m i of
        None \<Rightarrow> m
      | Some s \<Rightarrow>
          let durationMs = milliseconds (now - meta_CreatedAt (sess_Meta s));
              tags = meta_Tags (sess_Meta s);
              e = NewSessionStatusEvent now ''running'' ''completed'' (Some exitCode) (Some durationMs);
              m1 = upd_session i (record_exit exitCode now) m;
              m2 = upd_session i (\<lambda>s. snd (append_event js e s)) m1;
              m3 = publish i tags e m2;
              m4 = upd_session i (\<lambda>s. s\<lparr>sess_exitHookSent := True\<rparr>) m3;
              m5 = triggerPersist (releaseName i m4)
          in run_exit_hook i m5 (\<not> sess_exitHookSent s) (meta_Name (sess_Meta s)) tags)"

section \<open>Requests\<close>

definition is_running :: "Session \<Rightarrow> bool" where
  "is_running s = (StatusWatcher_Get (sess_statusWatcher s) = Running)"

text \<open>The returned pair is the output channel's subscription and its buffer.\<close>

definition Attach :: "uint32 \<Rightarrow> SessionManager \<Rightarrow> (session_error + uint64) \<times> SessionManager" where
  "Attach i m =
     (case session_of m i of
        None \<Rightarrow> (Inl (SessionNotFound i), m)
      | Some s \<Rightarrow>
          if \<not> is_running s then (Inl (NotRunning i), m)
          else
            (Inr (fst (Broadcaster_Subscribe 4096 (sess_broadcaster s))),
             upd_session i (\<lambda>s. s\<lparr>sess_attachedCount := sess_attachedCount s + 1,
               sess_broadcaster := snd (Broadcaster_Subscribe 4096 (sess_broadcaster s))\<rparr>) m))"

definition Detach :: "uint32 \<Rightarrow> SessionManager \<Rightarrow> (session_error + unit) \<times> SessionManager" where
  "Detach i m =
     (case session_of m i of
        None \<Rightarrow> (Inl (SessionNotFound i), m)
      | Some s \<Rightarrow> (Inr (), upd_session i (\<lambda>s. s\<lparr>sess_attachedCount := sess_attachedCount s - 1\<rparr>) m))"

definition Kill :: "uint32 \<Rightarrow> SessionManager \<Rightarrow> (session_error + unit) \<times> SessionManager" where
  "Kill i m =
     (case session_of m i of
        None \<Rightarrow> (Inl (SessionNotFound i), m)
      | Some s \<Rightarrow>
          let m1 = upd_session i (\<lambda>s. s\<lparr>sess_statusWatcher := StatusWatcher_Set Killed (sess_statusWatcher s)\<rparr>) m;
              m2 = (case meta_PID (sess_Meta s) of Some pid \<Rightarrow> emit (Terminate pid) m1 | None \<Rightarrow> m1);
              name = meta_Name (sess_Meta s);
              tags = meta_Tags (sess_Meta s);
              m3 = upd_session i (\<lambda>s. s\<lparr>sess_Meta := (sess_Meta s)\<lparr>meta_Status := SessionStatus_String Killed\<rparr>,
                     sess_exitHookSent := True\<rparr>) m2;
              m4 = releaseName i (triggerPersist m3)
          in (Inr (), run_exit_hook i m4 (\<not> sess_exitHookSent s) name tags))"

definition kill_all :: "uint32 list \<Rightarrow> SessionManager \<Rightarrow> SessionManager" where
  "kill_all ids m = fold (\<lambda>i m. snd (Kill i m)) ids m"

definition running_ids :: "(Session \<Rightarrow> bool) \<Rightarrow> SessionManager \<Rightarrow> uint32 list" where
  "running_ids p m = map fst (filter (\<lambda>(k, s). is_running s \<and> p s) (mgr_sessions m))"

definition KillAll :: "SessionManager \<Rightarrow> nat \<times> SessionManager" where
  "KillAll m = (let ids = running_ids (\<lambda>s. True) m in (length ids, kill_all ids m))"

definition KillByTags :: "string list \<Rightarrow> SessionManager \<Rightarrow> nat \<times> SessionManager" where
  "KillByTags tags m =
     (let ids = running_ids (\<lambda>s. matchesTags (meta_Tags (sess_Meta s)) tags) m
      in (length ids, kill_all ids m))"

definition SendInput :: "uint32 \<Rightarrow> bytes \<Rightarrow> SessionManager \<Rightarrow> (session_error + nat) \<times> SessionManager" where
  "SendInput i data m =
     (case session_of m i of
        None \<Rightarrow> (Inl (SessionNotFound i), m)
      | Some s \<Rightarrow>
          if length (ch_items (sess_inputCh s)) < ch_cap (sess_inputCh s) then
            (Inr (length data), upd_session i (\<lambda>s. s\<lparr>sess_inputCh := offer data (sess_inputCh s)\<rparr>) m)
          else (Inl (InputChannelFull i), m))"

definition SubscribeOutput :: "uint32 \<Rightarrow> SessionManager \<Rightarrow> (session_error + uint64) \<times> SessionManager" where
  "SubscribeOutput i m =
     (case session_of m i of
        None \<Rightarrow> (Inl (SessionNotFound i), m)
      | Some s \<Rightarrow>
          (Inr (fst (Broadcaster_Subscribe 4096 (sess_broadcaster s))),
           upd_session i (\<lambda>s. s\<lparr>sess_broadcaster := snd (Broadcaster_Subscribe 4096 (sess_broadcaster s))\<rparr>) m))"

definition UnsubscribeOutput :: "uint32 \<Rightarrow> uint64 \<Rightarrow> SessionManager \<Rightarrow> SessionManager" where
  "UnsubscribeOutput i subID m =
     upd_session i (\<lambda>s. s\<lparr>sess_broadcaster := snd (Broadcaster_Unsubscribe subID (sess_broadcaster s))\<rparr>) m"

text \<open>A client's goroutine takes a chunk of output, a subscriber's takes an event.\<close>

definition recv_output :: "uint32 \<Rightarrow> uint64 \<Rightarrow> SessionManager \<Rightarrow> SessionManager" where
  "recv_output i k m = upd_session i (\<lambda>s. s\<lparr>sess_broadcaster := Broadcaster_recv k (sess_broadcaster s)\<rparr>) m"

definition recv_event :: "uint64 \<Rightarrow> SessionManager \<Rightarrow> SessionManager" where
  "recv_event k m = m\<lparr>mgr_Subscriptions := recv_sub k (mgr_Subscriptions m)\<rparr>"

definition refresh :: "Session \<Rightarrow> Session" where
  "refresh s =
     (let current = SessionStatus_String (StatusWatcher_Get (sess_statusWatcher s)) in
      if meta_Status (sess_Meta s) \<noteq> current
      then s\<lparr>sess_Meta := (sess_Meta s)\<lparr>meta_Status := current\<rparr>\<rparr> else s)"

definition RefreshStatuses :: "SessionManager \<Rightarrow> SessionManager" where
  "RefreshStatuses m =
     (let changed = list_ex (\<lambda>(k, s). meta_Status (sess_Meta s) \<noteq>
            SessionStatus_String (StatusWatcher_Get (sess_statusWatcher s))) (mgr_sessions m);
          m1 = m\<lparr>mgr_sessions := map (\<lambda>(k, s). (k, refresh s)) (mgr_sessions m)\<rparr>
      in if changed then triggerPersist m1 else m1)"

definition ReportTask ::
  "(Event \<Rightarrow> bytes option) \<Rightarrow> string \<Rightarrow> nanos \<Rightarrow> uint32 \<Rightarrow> string \<Rightarrow> string \<Rightarrow> SessionManager \<Rightarrow>
   (session_error + unit) \<times> SessionManager" where
  "ReportTask js eventID now i summary state m =
     (case session_of m i of
        None \<Rightarrow> (Inl (SessionNotFound i), m)
      | Some s \<Rightarrow>
          (case normalizeTaskSummary summary of
             Inl err \<Rightarrow> (Inl (TaskReportError err), m)
           | Inr normalizedSummary \<Rightarrow>
               (case normalizeTaskState state of
                  Inl err \<Rightarrow> (Inl (TaskReportError err), m)
                | Inr normalizedState \<Rightarrow>
                    let name = meta_Name (sess_Meta s);
                        tags = meta_Tags (sess_Meta s);
                        e = NewTaskReportEvent now eventID normalizedSummary normalizedState
                    in if \<not> fst (append_event js e s) then (Inl AppendFailed, m)
                       else
                         let m1 = upd_session i (\<lambda>s. snd (append_event js e s)) m;
                             m2 = publish i tags e m1
                         in (Inr (), if mgr_taskReportForward m2
                                     then emit (Forward i name eventID normalizedSummary normalizedState now) m2
                                     else m2))))"

end
