(* ===== verification/Messaging.thy ===== *)
theory Messaging
  imports Session
begin

text \<open>
  Messages, requests and replies between sessions: \<open>sendMessageWithMetadata\<close>,
  \<open>sendRequestWithMetadata\<close>, \<open>sendReplyWithMetadata\<close> and their callers in
  \<open>internal/session/session.go\<close>. The random identifiers are arguments. A reply takes the
  lock of the pending requests twice, so it is two steps: \<open>reply_check\<close> and \<open>reply_commit\<close>.
\<close>

section \<open>Errors and shared parts\<close>

datatype message_failure =
    SenderNotFound uint32
  | RecipientNotFound uint32
  | NoPendingRequest string
  | InvalidReplyToken string
  | ReplierNotAllowed string uint32
  | MessagesUnreadable
  | MessageSessionNotFound uint32

text \<open>The sender's name: the override, else the name of the sending session.\<close>

definition sender_name :: "string \<Rightarrow> Session option \<Rightarrow> string" where
  "sender_name fromNameOverride fromSess =
     (if fromNameOverride \<noteq> [] then fromNameOverride
      else case fromSess of Some s \<Rightarrow> meta_Name (sess_Meta s) | None \<Rightarrow> [])"

definition log_message :: "(Event \<Rightarrow> bytes option) \<Rightarrow> Event \<Rightarrow> uint32 \<Rightarrow> SessionManager \<Rightarrow> SessionManager" where
  "log_message js e i m = upd_session i (append_message js e) m"

definition session_tags :: "Session option \<Rightarrow> string list" where
  "session_tags so = (case so of Some s \<Rightarrow> meta_Tags (sess_Meta s) | None \<Rightarrow> [])"

section \<open>Direct messages\<close>

definition sendMessageWithMetadata ::
  "(Event \<Rightarrow> bytes option) \<Rightarrow> string \<Rightarrow> nanos \<Rightarrow> uint32 \<Rightarrow> string \<Rightarrow> uint32 \<Rightarrow> string \<Rightarrow> bool \<Rightarrow>
   SessionManager \<Rightarrow> (message_failure + string) \<times> SessionManager" where
  "sendMessageWithMetadata js msgID now fromID fromNameOverride toID body mirrorSender m =
     (let fromSess = session_of m fromID;
          fromOK = (fromSess \<noteq> None)
      in if \<not> fromOK \<and> fromID \<noteq> 0 then (Inl (SenderNotFound fromID), m)
         else case session_of m toID of
           None \<Rightarrow> (Inl (RecipientNotFound toID), m)
         | Some toSess \<Rightarrow>
             let e = NewDirectMessageEvent now
                   \<lparr>dm_MessageID = msgID, dm_From = fromID, dm_FromName = sender_name fromNameOverride fromSess,
                    dm_To = toID, dm_ToName = meta_Name (sess_Meta toSess), dm_Body = body\<rparr>;
                 m1 = (if mirrorSender \<and> fromOK then log_message js e fromID m else m);
                 m2 = log_message js e toID m1;
                 m3 = publish toID (meta_Tags (sess_Meta toSess)) e m2;
                 m4 = (if mirrorSender \<and> fromOK \<and> fromID \<noteq> toID
                       then publish fromID (session_tags fromSess) e m3 else m3)
             in (Inr msgID, m4))"

definition SendMessage ::
  "(Event \<Rightarrow> bytes option) \<Rightarrow> string \<Rightarrow> nanos \<Rightarrow> uint32 \<Rightarrow> uint32 \<Rightarrow> string \<Rightarrow>
   SessionManager \<Rightarrow> (message_failure + string) \<times> SessionManager" where
  "SendMessage js msgID now fromID toID body m =
     sendMessageWithMetadata js msgID now fromID [] toID body True m"

definition SendRemoteMessage ::
  "(Event \<Rightarrow> bytes option) \<Rightarrow> string \<Rightarrow> nanos \<Rightarrow> string \<Rightarrow> uint32 \<Rightarrow> string \<Rightarrow>
   SessionManager \<Rightarrow> (message_failure + string) \<times> SessionManager" where
  "SendRemoteMessage js msgID now fromName toID body m =
     sendMessageWithMetadata js msgID now 0 fromName toID body False m"

definition ReadMessages ::
  "(bytes \<Rightarrow> Event option) \<Rightarrow> uint32 \<Rightarrow> int \<Rightarrow> SessionManager \<Rightarrow> message_failure + Event list" where
  "ReadMessages un sessionID tl_n m =
     (case session_of m sessionID of
        None \<Rightarrow> Inl (MessageSessionNotFound sessionID)
      | Some s \<Rightarrow>
          (case sess_messageLog s of
             None \<Rightarrow> Inr []
           | Some l \<Rightarrow> (case ReadTail un tl_n l of None \<Rightarrow> Inl MessagesUnreadable | Some es \<Rightarrow> Inr es)))"

section \<open>Requests\<close>

text \<open>The success value is the request id and the address of the reply channel.\<close>

definition register_request :: "string \<Rightarrow> string \<Rightarrow> uint32 \<Rightarrow> string \<Rightarrow> SessionManager \<Rightarrow> nat \<times> SessionManager" where
  "register_request requestID replyToken toID toName m =
     (let a = length (mgr_replyChs m) in
      (a, m\<lparr>mgr_replyChs := mgr_replyChs m @ [make_chan 1],
            mgr_pendingRequests := mput requestID
              \<lparr>pr_replyCh = a, pr_replyToken = replyToken, pr_allowedReplierSessionID = toID,
               pr_allowedReplierSessionName = toName\<rparr> (mgr_pendingRequests m)\<rparr>))"

definition sendRequestWithMetadata ::
  "(Event \<Rightarrow> bytes option) \<Rightarrow> string \<Rightarrow> string \<Rightarrow> nanos \<Rightarrow> uint32 \<Rightarrow> string \<Rightarrow> uint32 \<Rightarrow> string \<Rightarrow> bool \<Rightarrow>
   SessionManager \<Rightarrow> (message_failure + string \<times> nat) \<times> SessionManager" where
  "sendRequestWithMetadata js requestID replyToken now fromID fromNameOverride toID body mirrorSender m =
     (let fromSess = session_of m fromID;
          fromOK = (fromSess \<noteq> None)
      in if \<not> fromOK \<and> fromID \<noteq> 0 then (Inl (SenderNotFound fromID), m)
         else case session_of m toID of
           None \<Rightarrow> (Inl (RecipientNotFound toID), m)
         | Some toSess \<Rightarrow>
             let toName = meta_Name (sess_Meta toSess);
                 e = NewRequestEvent now
                   \<lparr>rq_RequestID = requestID, rq_ReplyToken = replyToken, rq_From = fromID,
                    rq_FromName = sender_name fromNameOverride fromSess, rq_To = toID,
                    rq_ToName = toName, rq_Body = body\<rparr>;
                 m1 = log_message js e toID m;
                 m2 = publish toID (meta_Tags (sess_Meta toSess)) e m1;
                 m3 = (if mirrorSender \<and> fromOK \<and> fromID \<noteq> toID
                       then publish fromID (session_tags fromSess) e (log_message js e fromID m2) else m2)
             in case register_request requestID replyToken toID toName m3 of
                  (a, m4) \<Rightarrow> (Inr (requestID, a), m4))"

definition SendRequest ::
  "(Event \<Rightarrow> bytes option) \<Rightarrow> string \<Rightarrow> string \<Rightarrow> nanos \<Rightarrow> uint32 \<Rightarrow> uint32 \<Rightarrow> string \<Rightarrow>
   SessionManager \<Rightarrow> (message_failure + string \<times> nat) \<times> SessionManager" where
  "SendRequest js requestID replyToken now fromID toID body m =
     sendRequestWithMetadata js requestID replyToken now fromID [] toID body True m"

definition SendRemoteRequest ::
  "(Event \<Rightarrow> bytes option) \<Rightarrow> string \<Rightarrow> string \<Rightarrow> nanos \<Rightarrow> string \<Rightarrow> uint32 \<Rightarrow> string \<Rightarrow>
   SessionManager \<Rightarrow> (message_failure + string \<times> nat) \<times> SessionManager" where
  "SendRemoteRequest js requestID replyToken now fromName toID body m =
     sendRequestWithMetadata js requestID replyToken now 0 fromName toID body False m"

definition CleanupRequest :: "string \<Rightarrow> SessionManager \<Rightarrow> SessionManager" where
  "CleanupRequest requestID m = m\<lparr>mgr_pendingRequests := mdel requestID (mgr_pendingRequests m)\<rparr>"

section \<open>Replies\<close>

text \<open>The first critical section and the checks: the session the reply will come from.\<close>

definition reply_check ::
  "uint32 \<Rightarrow> string \<Rightarrow> uint32 option \<Rightarrow> string \<Rightarrow> string \<Rightarrow> SessionManager \<Rightarrow> message_failure + uint32" where
  "reply_check fromID fromNameOverride fromSessionIDOverride requestID replyToken m =
     (case mget (mgr_pendingRequests m) requestID of
        None \<Rightarrow> Inl (NoPendingRequest requestID)
      | Some pending \<Rightarrow>
          let eff0 = (case fromSessionIDOverride of Some i \<Rightarrow> i | None \<Rightarrow> fromID) in
          if replyToken \<noteq> [] \<and> replyToken \<noteq> pr_replyToken pending then Inl (InvalidReplyToken requestID)
          else
            let eff = (if eff0 = 0 \<and> fromNameOverride = [] \<and> fromSessionIDOverride = None \<and> replyToken \<noteq> []
                       then pr_allowedReplierSessionID pending else eff0)
            in if eff = 0 \<or> eff \<noteq> pr_allowedReplierSessionID pending
               then Inl (ReplierNotAllowed requestID (pr_allowedReplierSessionID pending))
               else Inr eff)"

text \<open>The second critical section takes the entry away; the reply is then logged, published and sent.\<close>

definition send_on :: "nat \<Rightarrow> ReplyData \<Rightarrow> SessionManager \<Rightarrow> SessionManager" where
  "send_on a reply m =
     (if a < length (mgr_replyChs m)
      then m\<lparr>mgr_replyChs := (mgr_replyChs m)[a := offer reply (mgr_replyChs m ! a)]\<rparr> else m)"

definition reply_commit ::
  "(Event \<Rightarrow> bytes option) \<Rightarrow> nanos \<Rightarrow> uint32 \<Rightarrow> string \<Rightarrow> string \<Rightarrow> string \<Rightarrow> bool \<Rightarrow>
   SessionManager \<Rightarrow> (message_failure + unit) \<times> SessionManager" where
  "reply_commit js now eff fromNameOverride requestID body logSender m =
     (case mget (mgr_pendingRequests m) requestID of
        None \<Rightarrow> (Inl (NoPendingRequest requestID), m)
      | Some current \<Rightarrow>
          let m1 = m\<lparr>mgr_pendingRequests := mdel requestID (mgr_pendingRequests m)\<rparr>;
              fromSess = session_of m1 eff;
              reply = \<lparr>rp_RequestID = requestID, rp_From = eff,
                       rp_FromName = sender_name fromNameOverride fromSess, rp_Body = body\<rparr>;
              e = NewReplyEvent now reply;
              m2 = (if logSender \<and> fromSess \<noteq> None then log_message js e eff m1 else m1);
              m3 = (if logSender \<and> eff \<noteq> 0 then publish eff [] e m2 else m2)
          in (Inr (), send_on (pr_replyCh current) reply m3))"

definition sendReplyWithMetadata ::
  "(Event \<Rightarrow> bytes option) \<Rightarrow> nanos \<Rightarrow> uint32 \<Rightarrow> string \<Rightarrow> uint32 option \<Rightarrow> string \<Rightarrow> string \<Rightarrow> string \<Rightarrow> bool \<Rightarrow>
   SessionManager \<Rightarrow> (message_failure + unit) \<times> SessionManager" where
  "sendReplyWithMetadata js now fromID fromNameOverride fromSessionIDOverride requestID replyToken body logSender m =
     (case reply_check fromID fromNameOverride fromSessionIDOverride requestID replyToken m of
        Inl err \<Rightarrow> (Inl err, m)
      | Inr eff \<Rightarrow> reply_commit js now eff fromNameOverride requestID body logSender m)"

definition SendReply ::
  "(Event \<Rightarrow> bytes option) \<Rightarrow> nanos \<Rightarrow> uint32 \<Rightarrow> string \<Rightarrow> string \<Rightarrow>
   SessionManager \<Rightarrow> (message_failure + unit) \<times> SessionManager" where
  "SendReply js now fromID requestID body m =
     sendReplyWithMetadata js now fromID [] None requestID [] body True m"

definition SendRemoteReply ::
  "(Event \<Rightarrow> bytes option) \<Rightarrow> nanos \<Rightarrow> string \<Rightarrow> uint32 option \<Rightarrow> string \<Rightarrow> string \<Rightarrow>
   SessionManager \<Rightarrow> (message_failure + unit) \<times> SessionManager" where
  "SendRemoteReply js now fromName fromSessionID requestID body m =
     sendReplyWithMetadata js now 0 fromName fromSessionID requestID [] body False m"

definition SendReplyWithToken ::
  "(Event \<Rightarrow> bytes option) \<Rightarrow> nanos \<Rightarrow> string \<Rightarrow> string \<Rightarrow> string \<Rightarrow>
   SessionManager \<Rightarrow> (message_failure + unit) \<times> SessionManager" where
  "SendReplyWithToken js now requestID replyToken body m =
     sendReplyWithMetadata js now 0 [] None requestID replyToken body True m"

section \<open>Prompts\<close>

definition DeliverDirectMessagePrompt ::
  "uint32 \<Rightarrow> string \<Rightarrow> uint32 \<Rightarrow> string \<Rightarrow> SessionManager \<Rightarrow> (session_error + nat) \<times> SessionManager" where
  "DeliverDirectMessagePrompt toID fromName fromID body m =
     SendInput toID (FormatDirectMessagePrompt fromName fromID body) m"

definition DeliverRequestPrompt ::
  "uint32 \<Rightarrow> string \<Rightarrow> string \<Rightarrow> uint32 \<Rightarrow> string \<Rightarrow> SessionManager \<Rightarrow> (session_error + nat) \<times> SessionManager" where
  "DeliverRequestPrompt toID requestID fromName fromID body m =
     SendInput toID (FormatRequestPrompt requestID fromName fromID body) m"

end
