(* ===== verification/SessionInv.thy ===== *)
theory SessionInv
  imports Messaging
begin

text \<open>
  The invariants of the session manager, each over the part of the state it reads: the table
  of sessions, the name index, the exit hooks, the pending requests. First how the shared
  steps (\<open>upd_session\<close>, \<open>publish\<close>, \<open>emit\<close>, \<open>triggerPersist\<close>, \<open>releaseName\<close>) act on each part,
  then one preservation lemma per operation.
\<close>

section \<open>What the shared steps change\<close>

lemma upd_session_frame [simp]:
  "mgr_nameIndex (upd_session i f m) = mgr_nameIndex m"
  "mgr_nextID (upd_session i f m) = mgr_nextID m"
  "mgr_Subscriptions (upd_session i f m) = mgr_Subscriptions m"
  "mgr_pendingRequests (upd_session i f m) = mgr_pendingRequests m"
  "mgr_replyChs (upd_session i f m) = mgr_replyChs m"
  "mgr_effects (upd_session i f m) = mgr_effects m"
  "mgr_panicked (upd_session i f m) = mgr_panicked m"
  "mgr_sessionExitHook (upd_session i f m) = mgr_sessionExitHook m"
  "mgr_nameChangeHook (upd_session i f m) = mgr_nameChangeHook m"
  by (simp_all add: upd_session_def)

lemma publish_frame [simp]:
  "mgr_sessions (publish i t e m) = mgr_sessions m"
  "mgr_nameIndex (publish i t e m) = mgr_nameIndex m"
  "mgr_nextID (publish i t e m) = mgr_nextID m"
  "mgr_pendingRequests (publish i t e m) = mgr_pendingRequests m"
  "mgr_replyChs (publish i t e m) = mgr_replyChs m"
  "mgr_effects (publish i t e m) = mgr_effects m"
  "mgr_sessionExitHook (publish i t e m) = mgr_sessionExitHook m"
  by (simp_all add: publish_def split: option.splits)

lemma emit_frame [simp]:
  "mgr_sessions (emit e m) = mgr_sessions m"
  "mgr_nameIndex (emit e m) = mgr_nameIndex m"
  "mgr_nextID (emit e m) = mgr_nextID m"
  "mgr_Subscriptions (emit e m) = mgr_Subscriptions m"
  "mgr_pendingRequests (emit e m) = mgr_pendingRequests m"
  "mgr_replyChs (emit e m) = mgr_replyChs m"
  "mgr_effects (emit e m) = mgr_effects m @ [e]"
  "mgr_panicked (emit e m) = mgr_panicked m"
  "mgr_sessionExitHook (emit e m) = mgr_sessionExitHook m"
  by (simp_all add: emit_def)

lemma triggerPersist_frame [simp]:
  "mgr_sessions (triggerPersist m) = mgr_sessions m"
  "mgr_nameIndex (triggerPersist m) = mgr_nameIndex m"
  "mgr_nextID (triggerPersist m) = mgr_nextID m"
  "mgr_Subscriptions (triggerPersist m) = mgr_Subscriptions m"
  "mgr_pendingRequests (triggerPersist m) = mgr_pendingRequests m"
  "mgr_replyChs (triggerPersist m) = mgr_replyChs m"
  "mgr_effects (triggerPersist m) = mgr_effects m"
  "mgr_panicked (triggerPersist m) = mgr_panicked m"
  "mgr_sessionExitHook (triggerPersist m) = mgr_sessionExitHook m"
  by (simp_all add: triggerPersist_def)

lemma releaseName_frame [simp]:
  "mgr_sessions (releaseName i m) = mgr_sessions m"
  "mgr_nextID (releaseName i m) = mgr_nextID m"
  "mgr_Subscriptions (releaseName i m) = mgr_Subscriptions m"
  "mgr_pendingRequests (releaseName i m) = mgr_pendingRequests m"
  "mgr_replyChs (releaseName i m) = mgr_replyChs m"
  "mgr_effects (releaseName i m) = mgr_effects m"
  "mgr_panicked (releaseName i m) = mgr_panicked m"
  "mgr_sessionExitHook (releaseName i m) = mgr_sessionExitHook m"
  by (simp_all add: releaseName_def Let_def split: option.splits)

lemma session_of_upd [simp]:
  "session_of (upd_session i f m) j =
     (if j = i then map_option f (session_of m j) else session_of m j)"
  using mget_map_entry [of "\<lambda>k s. if k = i then f s else s" "mgr_sessions m" j]
  by (simp add: session_of_def upd_session_def option.map_ident cong: map_option_cong)

lemma session_of_frame [simp]:
  "session_of (publish i t e m) j = session_of m j"
  "session_of (emit x m) j = session_of m j"
  "session_of (triggerPersist m) j = session_of m j"
  "session_of (releaseName i m) j = session_of m j"
  by (simp_all add: session_of_def)

section \<open>The table of sessions\<close>

definition inbox_ok :: "bytes chan \<Rightarrow> bool" where
  "inbox_ok c \<longleftrightarrow> \<not> ch_closed c \<and> ch_cap c = 256 \<and> length (ch_items c) \<le> 256"

definition sess_ok :: "uint32 \<Rightarrow> Session \<Rightarrow> bool" where
  "sess_ok k s \<longleftrightarrow> meta_ID (sess_Meta s) = k \<and> broadcaster_ok (sess_broadcaster s) \<and> inbox_ok (sess_inputCh s)"

definition sessions_ok :: "SessionManager \<Rightarrow> bool" where
  "sessions_ok m \<longleftrightarrow>
     map_ok (mgr_sessions m) \<and>
     (\<forall>i s. session_of m i = Some s \<longrightarrow> sess_ok i s \<and> i < mgr_nextID m) \<and>
     manager_ok (mgr_Subscriptions m) \<and> \<not> mgr_panicked m"

lemma sessions_ok_of: "sessions_ok m \<Longrightarrow> session_of m i = Some s \<Longrightarrow> sess_ok i s \<and> i < mgr_nextID m"
  by (simp add: sessions_ok_def)

lemma map_ok_upd: "map_ok (mgr_sessions (upd_session i f m)) = map_ok (mgr_sessions m)"
  using map_ok_map_entry [of "\<lambda>k s. if k = i then f s else s" "mgr_sessions m"]
  by (simp add: upd_session_def)

lemma sessions_ok_upd [inv_intros]:
  assumes "sessions_ok m" "\<And>s. session_of m i = Some s \<Longrightarrow> sess_ok i s \<Longrightarrow> sess_ok i (f s)"
  shows "sessions_ok (upd_session i f m)"
  using assms by (auto simp: sessions_ok_def map_ok_upd)

lemma sessions_ok_publish [inv_intros]: "sessions_ok m \<Longrightarrow> sessions_ok (publish i t e m)"
  unfolding publish_def
  by (auto simp: sessions_ok_def Publish_ok session_of_def dest: manager_ok_Publish [OF _ Publish_ok])

lemma sessions_ok_emit [inv_intros]: "sessions_ok m \<Longrightarrow> sessions_ok (emit e m)"
  by (simp add: sessions_ok_def)

lemma sessions_ok_trigger [inv_intros]: "sessions_ok m \<Longrightarrow> sessions_ok (triggerPersist m)"
  by (simp add: sessions_ok_def)

lemma sessions_ok_release [inv_intros]: "sessions_ok m \<Longrightarrow> sessions_ok (releaseName i m)"
  by (simp add: sessions_ok_def)

lemma sessions_ok_exit_hook [inv_intros]: "sessions_ok m \<Longrightarrow> sessions_ok (run_exit_hook i m b n t)"
  by (simp add: run_exit_hook_def sessions_ok_emit)

text \<open>Sending input or output keeps a session's channels.\<close>

lemma inbox_ok_offer: "inbox_ok c \<Longrightarrow> inbox_ok (offer x c)"
  using offer_bound [of c x] by (simp add: inbox_ok_def)

lemma append_event_frame [simp]:
  "sess_Meta (snd (append_event js e s)) = sess_Meta s"
  "sess_broadcaster (snd (append_event js e s)) = sess_broadcaster s"
  "sess_inputCh (snd (append_event js e s)) = sess_inputCh s"
  "sess_exitHookSent (snd (append_event js e s)) = sess_exitHookSent s"
  "sess_statusWatcher (snd (append_event js e s)) = sess_statusWatcher s"
  "sess_messageLog (snd (append_event js e s)) = sess_messageLog s"
  by (simp_all add: append_event_def split: option.splits)

lemma append_message_frame [simp]:
  "sess_Meta (append_message js e s) = sess_Meta s"
  "sess_broadcaster (append_message js e s) = sess_broadcaster s"
  "sess_inputCh (append_message js e s) = sess_inputCh s"
  "sess_exitHookSent (append_message js e s) = sess_exitHookSent s"
  "sess_statusWatcher (append_message js e s) = sess_statusWatcher s"
  by (simp_all add: append_message_def split: option.splits)

lemma record_exit_frame [simp]:
  "meta_ID (sess_Meta (record_exit c now s)) = meta_ID (sess_Meta s)"
  "meta_Name (sess_Meta (record_exit c now s)) = meta_Name (sess_Meta s)"
  "sess_broadcaster (record_exit c now s) = sess_broadcaster s"
  "sess_inputCh (record_exit c now s) = sess_inputCh s"
  "sess_exitHookSent (record_exit c now s) = sess_exitHookSent s"
  by (simp_all add: record_exit_def Let_def)

lemma refresh_frame [simp]:
  "meta_ID (sess_Meta (refresh s)) = meta_ID (sess_Meta s)"
  "meta_Name (sess_Meta (refresh s)) = meta_Name (sess_Meta s)"
  "sess_broadcaster (refresh s) = sess_broadcaster s"
  "sess_inputCh (refresh s) = sess_inputCh s"
  "sess_exitHookSent (refresh s) = sess_exitHookSent s"
  by (simp_all add: refresh_def Let_def)

lemma respond_queries_frame [simp]:
  "sess_Meta (respond_queries d s) = sess_Meta s"
  "sess_broadcaster (respond_queries d s) = sess_broadcaster s"
  "sess_inputCh (respond_queries d s) = sess_inputCh s"
  "sess_exitHookSent (respond_queries d s) = sess_exitHookSent s"
  "sess_log (respond_queries d s) = sess_log s"
  "sess_logOpen (respond_queries d s) = sess_logOpen s"
  "sess_outputBytes (respond_queries d s) = sess_outputBytes s"
  "sess_outputLines (respond_queries d s) = sess_outputLines s"
  by (simp_all add: respond_queries_def split: option.splits prod.splits)

lemma log_output_frame [simp]:
  "sess_Meta (log_output w d s) = sess_Meta s"
  "sess_broadcaster (log_output w d s) = sess_broadcaster s"
  "sess_inputCh (log_output w d s) = sess_inputCh s"
  "sess_exitHookSent (log_output w d s) = sess_exitHookSent s"
  by (simp_all add: log_output_def)

lemma read_chunk_frame [simp]:
  "sess_Meta (read_chunk d w now s) = sess_Meta s"
  "sess_inputCh (read_chunk d w now s) = sess_inputCh s"
  "sess_exitHookSent (read_chunk d w now s) = sess_exitHookSent s"
  by (simp_all add: read_chunk_def track_output_def Let_def)

lemma write_input_frame [simp]:
  "sess_Meta (write_input ok s) = sess_Meta s"
  "sess_broadcaster (write_input ok s) = sess_broadcaster s"
  "sess_exitHookSent (write_input ok s) = sess_exitHookSent s"
  by (simp_all add: write_input_def split: list.splits)

lemma inbox_ok_write: "inbox_ok (sess_inputCh s) \<Longrightarrow> inbox_ok (sess_inputCh (write_input ok s))"
  by (auto simp: write_input_def inbox_ok_def split: list.splits)

lemma broadcaster_ok_read:
  "broadcaster_ok (sess_broadcaster s) \<Longrightarrow> broadcaster_ok (sess_broadcaster (read_chunk d w now s))"
  by (auto simp: read_chunk_def track_output_def Let_def Broadcaster_Send_ok
      dest: broadcaster_ok_Send [OF _ Broadcaster_Send_ok])

lemma not_send_panics: "broadcaster_ok (sess_broadcaster s) \<Longrightarrow> \<not> send_panics d s"
  by (simp add: send_panics_def Broadcaster_Send_ok)

section \<open>Steps of the manager\<close>

text \<open>
  Every operation as a step. \<open>OpPersisted\<close> is the persistence loop taking the signal;
  \<open>OpReplyCommit\<close> is the second half of a reply whose first half ran at any earlier time.
\<close>

datatype mgr_op =
    OpLaunch launch_os "string list" string "string list" string "string list" nanos
  | OpSetName uint32 string
  | OpAttach uint32
  | OpDetach uint32
  | OpKill uint32
  | OpKillAll
  | OpKillByTags "string list"
  | OpSendInput uint32 bytes
  | OpSubscribeOutput uint32
  | OpUnsubscribeOutput uint32 uint64
  | OpRecvOutput uint32 uint64
  | OpRecvEvent uint64
  | OpRefreshStatuses
  | OpPersisted
  | OpReportTask string nanos uint32 string string
  | OpReaderChunk uint32 bytes nat nanos
  | OpReaderEnd uint32
  | OpWriterStep uint32 bool
  | OpStdinInject uint32 bytes
  | OpProcessExit uint32 int nanos
  | OpSubscribe "uint32 option" "string list" "string list"
  | OpUnsubscribe uint64
  | OpSendMessage string nanos uint32 string uint32 string bool
  | OpSendRequest string string nanos uint32 string uint32 string bool
  | OpSendReply nanos uint32 string "uint32 option" string string string bool
  | OpReplyCommit nanos uint32 string string string bool
  | OpCleanupRequest string

fun mgr_do :: "(Event \<Rightarrow> bytes option) \<Rightarrow> mgr_op \<Rightarrow> SessionManager \<Rightarrow> SessionManager" where
  "mgr_do js (OpLaunch os cmd dir env name tags now) m = snd (Launch js os cmd dir env name tags now m)"
| "mgr_do js (OpSetName i name) m = snd (SetName i name m)"
| "mgr_do js (OpAttach i) m = snd (Attach i m)"
| "mgr_do js (OpDetach i) m = snd (Detach i m)"
| "mgr_do js (OpKill i) m = snd (Kill i m)"
| "mgr_do js OpKillAll m = snd (KillAll m)"
| "mgr_do js (OpKillByTags tags) m = snd (KillByTags tags m)"
| "mgr_do js (OpSendInput i data) m = snd (SendInput i data m)"
| "mgr_do js (OpSubscribeOutput i) m = snd (SubscribeOutput i m)"
| "mgr_do js (OpUnsubscribeOutput i k) m = UnsubscribeOutput i k m"
| "mgr_do js (OpRecvOutput i k) m = recv_output i k m"
| "mgr_do js (OpRecvEvent k) m = recv_event k m"
| "mgr_do js OpRefreshStatuses m = RefreshStatuses m"
| "mgr_do js OpPersisted m = m\<lparr>mgr_PersistCh := False\<rparr>"
| "mgr_do js (OpReportTask ev now i summary state) m = snd (ReportTask js ev now i summary state m)"
| "mgr_do js (OpReaderChunk i data written now) m = reader_chunk i data written now m"
| "mgr_do js (OpReaderEnd i) m = reader_end i m"
| "mgr_do js (OpWriterStep i ok) m = writer_step i ok m"
| "mgr_do js (OpStdinInject i data) m = stdin_inject i data m"
| "mgr_do js (OpProcessExit i code now) m = process_exit js i code now m"
| "mgr_do js (OpSubscribe sid tags types) m =
     m\<lparr>mgr_Subscriptions := snd (Subscribe sid tags types (mgr_Subscriptions m))\<rparr>"
| "mgr_do js (OpUnsubscribe k) m =
     m\<lparr>mgr_Subscriptions := snd (Unsubscribe k (mgr_Subscriptions m))\<rparr>"
| "mgr_do js (OpSendMessage msgID now from fname to body mirror) m =
     snd (sendMessageWithMetadata js msgID now from fname to body mirror m)"
| "mgr_do js (OpSendRequest req tok now from fname to body mirror) m =
     snd (sendRequestWithMetadata js req tok now from fname to body mirror m)"
| "mgr_do js (OpSendReply now from fname fsid req tok body logs) m =
     snd (sendReplyWithMetadata js now from fname fsid req tok body logs m)"
| "mgr_do js (OpReplyCommit now eff fname req body logs) m =
     snd (reply_commit js now eff fname req body logs m)"
| "mgr_do js (OpCleanupRequest req) m = CleanupRequest req m"

text \<open>
  A step is enabled while its counter is not exhausted: session identifiers are 32 bits wide,
  subscription identifiers 64 bits, and the source does not check for their wrap-around.
\<close>

fun op_enabled :: "mgr_op \<Rightarrow> SessionManager \<Rightarrow> bool" where
  "op_enabled (OpLaunch os cmd dir env name tags now) m = (mgr_nextID m \<noteq> - 1)"
| "op_enabled (OpAttach i) m =
     (case session_of m i of None \<Rightarrow> True | Some s \<Rightarrow> bc_nextID (sess_broadcaster s) \<noteq> - 1)"
| "op_enabled (OpSubscribeOutput i) m =
     (case session_of m i of None \<Rightarrow> True | Some s \<Rightarrow> bc_nextID (sess_broadcaster s) \<noteq> - 1)"
| "op_enabled (OpSubscribe sid tags types) m = (sm_nextID (mgr_Subscriptions m) \<noteq> - 1)"
| "op_enabled _ m = True"

inductive mgr_reachable :: "(Event \<Rightarrow> bytes option) \<Rightarrow> SessionManager \<Rightarrow> SessionManager \<Rightarrow> bool"
  for js :: "Event \<Rightarrow> bytes option" and m0 :: SessionManager where
  start: "mgr_reachable js m0 m0"
| step: "mgr_reachable js m0 m \<Longrightarrow> op_enabled op m \<Longrightarrow> mgr_reachable js m0 (mgr_do js op m)"

lemma kill_all_induct:
  "P m \<Longrightarrow> (\<And>i m. P m \<Longrightarrow> P (snd (Kill i m))) \<Longrightarrow> P (kill_all ids m)"
  unfolding kill_all_def by (induction ids arbitrary: m) simp_all

section \<open>The table stays well formed\<close>

lemma sess_ok_new:
  "sess_ok i (new_session os i cmd dir tags pid now)"
  by (simp add: sess_ok_def new_session_def broadcaster_ok_New inbox_ok_def make_chan_def)

lemma sess_ok_frame:
  "meta_ID (sess_Meta s') = meta_ID (sess_Meta s) \<Longrightarrow> sess_broadcaster s' = sess_broadcaster s \<Longrightarrow>
   sess_inputCh s' = sess_inputCh s \<Longrightarrow> sess_ok i s \<Longrightarrow> sess_ok i s'"
  by (simp add: sess_ok_def)

lemma sessions_ok_upd_frame [inv_intros]:
  assumes "sessions_ok m"
    and "\<And>s. meta_ID (sess_Meta (f s)) = meta_ID (sess_Meta s)"
    and "\<And>s. sess_broadcaster (f s) = sess_broadcaster s" "\<And>s. sess_inputCh (f s) = sess_inputCh s"
  shows "sessions_ok (upd_session i f m)"
  by (rule sessions_ok_upd [OF assms(1)]) (rule sess_ok_frame, simp_all add: assms)

lemma sessions_ok_insert:
  assumes "sessions_ok m" "mgr_nextID m \<noteq> - 1"
  shows "sessions_ok (m\<lparr>mgr_nextID := mgr_nextID m + 1\<rparr>)"
    and "sess_ok (mgr_nextID m) s \<Longrightarrow>
      sessions_ok (emit x (m\<lparr>mgr_nextID := mgr_nextID m + 1\<rparr>)
        \<lparr>mgr_sessions := mput (mgr_nextID m) s (mgr_sessions m)\<rparr>)"
  using assms word_less_succ [of "mgr_nextID m"]
  by (auto simp: sessions_ok_def session_of_def mget_mput emit_def less_imp_le split: if_splits
      intro: less_imp_le)

lemma sessions_ok_Launch [inv_intros]:
  assumes "sessions_ok m" "mgr_nextID m \<noteq> - 1"
  shows "sessions_ok (snd (Launch js os cmd dir env name tags now m))"
  using assms sessions_ok_insert [OF assms] sess_ok_new
  by (auto simp: Launch_def Let_def split: option.splits
      intro!: sessions_ok_trigger sessions_ok_publish sessions_ok_upd_frame)

lemma SetName_result:
  obtains (unchanged) err where "SetName i name m = (Inl err, m)"
  | (renamed) s where "session_of m i = Some s" "namePattern name"
      "mget (mgr_nameIndex m) name \<in> {None, Some i}"
      "SetName i name m = (Inr (), rename_session i name (meta_Name (sess_Meta s)) m)"
proof (cases "\<exists>err. SetName i name m = (Inl err, m)")
  case False
  then obtain s where "session_of m i = Some s" "namePattern name" "taken_by_other i name m = None"
      "SetName i name m = (Inr (), rename_session i name (meta_Name (sess_Meta s)) m)"
    by (auto simp: SetName_def Let_def split: if_splits option.splits)
  then show thesis
    by (intro renamed [of s]) (auto simp: taken_by_other_def split: option.splits if_splits)
qed (use unchanged in blast)

lemma sessions_ok_SetName [inv_intros]:
  assumes "sessions_ok m" shows "sessions_ok (snd (SetName i name m))"
proof (cases rule: SetName_result [of i name m])
  case (renamed s)
  have idx: "sessions_ok (m'\<lparr>mgr_nameIndex := x\<rparr>)" if "sessions_ok m'" for m' x
    using that by (simp add: sessions_ok_def session_of_def)
  show ?thesis
    unfolding renamed(4) rename_session_def Let_def snd_conv
    by (intro sessions_ok_trigger idx sessions_ok_upd_frame assms) simp_all
qed (simp add: assms)

lemma sessions_ok_subscribe_output:
  assumes "sessions_ok m"
    and "case session_of m i of None \<Rightarrow> True | Some s \<Rightarrow> bc_nextID (sess_broadcaster s) \<noteq> - 1"
    and "\<And>s. meta_ID (sess_Meta (f s)) = meta_ID (sess_Meta s)" "\<And>s. sess_inputCh (f s) = sess_inputCh s"
    and "\<And>s. sess_broadcaster (f s) = snd (Broadcaster_Subscribe 4096 (sess_broadcaster s))"
  shows "sessions_ok (upd_session i f m)"
  using assms(2)
  by (intro sessions_ok_upd [OF assms(1)]) (simp add: sess_ok_def assms(3-5) broadcaster_ok_Subscribe)

lemma sessions_ok_Attach [inv_intros]:
  assumes "sessions_ok m" "op_enabled (OpAttach i) m"
  shows "sessions_ok (snd (Attach i m))"
  using assms by (auto simp: Attach_def split: option.splits intro!: sessions_ok_subscribe_output)

lemma sessions_ok_SubscribeOutput [inv_intros]:
  assumes "sessions_ok m" "op_enabled (OpSubscribeOutput i) m"
  shows "sessions_ok (snd (SubscribeOutput i m))"
  using assms by (auto simp: SubscribeOutput_def split: option.splits intro!: sessions_ok_subscribe_output)

lemma sessions_ok_UnsubscribeOutput [inv_intros]:
  "sessions_ok m \<Longrightarrow> sessions_ok (UnsubscribeOutput i k m)"
  unfolding UnsubscribeOutput_def
  by (rule sessions_ok_upd) (auto simp: sess_ok_def intro: broadcaster_ok_Unsubscribe)

lemma sessions_ok_recv_output [inv_intros]: "sessions_ok m \<Longrightarrow> sessions_ok (recv_output i k m)"
  unfolding recv_output_def
  by (rule sessions_ok_upd) (auto simp: sess_ok_def intro: broadcaster_ok_recv)

lemma sessions_ok_recv_event [inv_intros]: "sessions_ok m \<Longrightarrow> sessions_ok (recv_event k m)"
  by (simp add: recv_event_def sessions_ok_def session_of_def manager_ok_recv)

lemma sessions_ok_Detach [inv_intros]: "sessions_ok m \<Longrightarrow> sessions_ok (snd (Detach i m))"
  by (auto simp: Detach_def split: option.splits intro!: sessions_ok_upd_frame)

lemma sessions_ok_Kill [inv_intros]: "sessions_ok m \<Longrightarrow> sessions_ok (snd (Kill i m))"
  by (auto simp: Kill_def Let_def split: option.splits
      intro!: sessions_ok_exit_hook sessions_ok_release sessions_ok_trigger sessions_ok_upd_frame
        sessions_ok_emit)

lemma sessions_ok_kill_all [inv_intros]: "sessions_ok m \<Longrightarrow> sessions_ok (kill_all ids m)"
  by (rule kill_all_induct) (simp_all add: sessions_ok_Kill)

lemma sessions_ok_SendInput [inv_intros]: "sessions_ok m \<Longrightarrow> sessions_ok (snd (SendInput i d m))"
  by (auto simp: SendInput_def sess_ok_def split: option.splits
      intro!: sessions_ok_upd inbox_ok_offer)

lemma sessions_ok_stdin_inject [inv_intros]: "sessions_ok m \<Longrightarrow> sessions_ok (stdin_inject i d m)"
  by (auto simp: stdin_inject_def sess_ok_def intro!: sessions_ok_upd inbox_ok_offer)

lemma sessions_ok_RefreshStatuses [inv_intros]:
  assumes "sessions_ok m" shows "sessions_ok (RefreshStatuses m)"
proof -
  have "sessions_ok (m\<lparr>mgr_sessions := map (\<lambda>(k, s). (k, refresh s)) (mgr_sessions m)\<rparr>)"
    using assms
    by (auto simp: sessions_ok_def session_of_def mget_map_value) (auto simp: sess_ok_def)
  then show ?thesis by (simp add: RefreshStatuses_def Let_def sessions_ok_trigger)
qed

lemma sessions_ok_ReportTask [inv_intros]:
  "sessions_ok m \<Longrightarrow> sessions_ok (snd (ReportTask js ev now i su st m))"
  by (auto simp: ReportTask_def Let_def split: option.splits sum.splits
      intro!: sessions_ok_publish sessions_ok_emit sessions_ok_upd_frame)

lemma sessions_ok_reader_chunk [inv_intros]:
  assumes "sessions_ok m" shows "sessions_ok (reader_chunk i d w now m)"
proof (cases "session_of m i")
  case (Some s)
  then have "\<not> send_panics d s"
    using sessions_ok_of [OF assms, of i s] by (simp add: sess_ok_def not_send_panics)
  moreover have "sessions_ok (upd_session i (read_chunk d w now) m)"
    by (rule sessions_ok_upd [OF assms]) (simp add: sess_ok_def broadcaster_ok_read)
  ultimately show ?thesis using assms Some by (simp add: reader_chunk_def)
qed (simp add: reader_chunk_def assms)

lemma sessions_ok_reader_end [inv_intros]: "sessions_ok m \<Longrightarrow> sessions_ok (reader_end i m)"
  by (auto simp: reader_end_def intro!: sessions_ok_upd_frame)

lemma sessions_ok_writer_step [inv_intros]: "sessions_ok m \<Longrightarrow> sessions_ok (writer_step i ok m)"
  by (auto simp: writer_step_def sess_ok_def intro!: sessions_ok_upd inbox_ok_write)

lemma sessions_ok_process_exit [inv_intros]: "sessions_ok m \<Longrightarrow> sessions_ok (process_exit js i c now m)"
  by (auto simp: process_exit_def Let_def split: option.splits
      intro!: sessions_ok_exit_hook sessions_ok_release sessions_ok_trigger sessions_ok_upd_frame
        sessions_ok_publish)

lemma sessions_ok_log_message [inv_intros]: "sessions_ok m \<Longrightarrow> sessions_ok (log_message js e i m)"
  by (auto simp: log_message_def intro!: sessions_ok_upd_frame)

lemma sessions_ok_replies [inv_intros]:
  "sessions_ok m \<Longrightarrow> sessions_ok (send_on a r m)"
  "sessions_ok m \<Longrightarrow> sessions_ok (snd (register_request q t i n m))"
  "sessions_ok m \<Longrightarrow> sessions_ok (m\<lparr>mgr_pendingRequests := x\<rparr>)"
  by (simp_all add: sessions_ok_def send_on_def register_request_def session_of_def Let_def)

lemma sessions_ok_sendMessage [inv_intros]:
  "sessions_ok m \<Longrightarrow> sessions_ok (snd (sendMessageWithMetadata js q now f n t b mi m))"
  by (auto simp: sendMessageWithMetadata_def Let_def split: option.splits
      intro!: sessions_ok_publish sessions_ok_log_message)

lemma sessions_ok_sendRequest [inv_intros]:
  "sessions_ok m \<Longrightarrow> sessions_ok (snd (sendRequestWithMetadata js q tk now f n t b mi m))"
  by (auto simp: sendRequestWithMetadata_def Let_def case_prod_beta split: option.splits
      intro!: sessions_ok_publish sessions_ok_log_message sessions_ok_replies)

lemma sessions_ok_reply_commit [inv_intros]:
  "sessions_ok m \<Longrightarrow> sessions_ok (snd (reply_commit js now eff n q b l m))"
  by (auto simp: reply_commit_def Let_def split: option.splits
      intro!: sessions_ok_publish sessions_ok_log_message sessions_ok_replies)

lemma sessions_ok_do:
  assumes "sessions_ok m" "op_enabled op m"
  shows "sessions_ok (mgr_do js op m)"
proof (cases op)
  case (OpSubscribe a b c)
  with assms show ?thesis by (simp add: sessions_ok_def session_of_def manager_ok_Subscribe)
next
  case (OpUnsubscribe k)
  with assms show ?thesis by (simp add: sessions_ok_def session_of_def manager_ok_Unsubscribe)
next
  case (OpPersisted)
  with assms show ?thesis by (simp add: sessions_ok_def session_of_def)
qed (use assms in \<open>auto simp: KillAll_def KillByTags_def Let_def sendReplyWithMetadata_def
    CleanupRequest_def split: sum.splits intro: inv_intros\<close>)

section \<open>The name index\<close>

text \<open>
  Every indexed name is valid and is the name of the session it points to. The index is
  therefore injective: no session is found under two names.
\<close>

definition names_ok :: "SessionManager \<Rightarrow> bool" where
  "names_ok m \<longleftrightarrow>
     map_ok (mgr_nameIndex m) \<and>
     (\<forall>n i. mget (mgr_nameIndex m) n = Some i \<longrightarrow>
        namePattern n \<and> (\<exists>s. session_of m i = Some s \<and> meta_Name (sess_Meta s) = n))"

lemma names_okD:
  assumes "names_ok m" "mget (mgr_nameIndex m) n = Some i"
  shows "namePattern n" "\<exists>s. session_of m i = Some s \<and> meta_Name (sess_Meta s) = n"
  using assms by (simp_all add: names_ok_def)

lemma names_ok_name:
  assumes "names_ok m" "mget (mgr_nameIndex m) n = Some i" "session_of m i = Some s"
  shows "n = meta_Name (sess_Meta s)"
  using names_okD(2) [OF assms(1,2)] assms(3) by simp

lemma names_ok_upd [simp]:
  assumes "\<And>s. meta_Name (sess_Meta (f s)) = meta_Name (sess_Meta s)"
  shows "names_ok (upd_session i f m) = names_ok m"
proof -
  have "(\<exists>s. session_of (upd_session i f m) j = Some s \<and> meta_Name (sess_Meta s) = n) \<longleftrightarrow>
        (\<exists>s. session_of m j = Some s \<and> meta_Name (sess_Meta s) = n)" for j n
    using assms by auto
  then show ?thesis by (simp only: names_ok_def upd_session_frame)
qed

lemma names_ok_frame [simp]:
  "names_ok (publish i t e m) = names_ok m"
  "names_ok (emit x m) = names_ok m"
  "names_ok (triggerPersist m) = names_ok m"
  "names_ok (run_exit_hook i m b n t) = names_ok m"
  "names_ok (send_on a r m) = names_ok m"
  "names_ok (snd (register_request q tk i n m)) = names_ok m"
  "names_ok (m\<lparr>mgr_pendingRequests := pr\<rparr>) = names_ok m"
  "names_ok (m\<lparr>mgr_Subscriptions := sm\<rparr>) = names_ok m"
  "names_ok (m\<lparr>mgr_PersistCh := b\<rparr>) = names_ok m"
  "names_ok (m\<lparr>mgr_panicked := b\<rparr>) = names_ok m"
  "names_ok (m\<lparr>mgr_nextID := k\<rparr>) = names_ok m"
  by (simp_all add: names_ok_def run_exit_hook_def send_on_def register_request_def session_of_def Let_def)

lemma names_ok_log_message [simp]: "names_ok (log_message js e i m) = names_ok m"
  by (simp add: log_message_def)

lemma names_ok_releaseName [inv_intros]: "names_ok m \<Longrightarrow> names_ok (releaseName i m)"
  by (auto simp: releaseName_def Let_def names_ok_def session_of_def mget_mdel
      split: option.splits if_splits)

lemma names_ok_rename [inv_intros]:
  assumes m: "names_ok m" and s: "session_of m i = Some s" and name: "namePattern name"
  shows "names_ok (rename_session i name (meta_Name (sess_Meta s)) m)"
proof -
  let ?old = "meta_Name (sess_Meta s)"
  let ?ren = "\<lambda>s. s\<lparr>sess_Meta := (sess_Meta s)\<lparr>meta_Name := name\<rparr>\<rparr>"
  let ?m1 = "upd_session i ?ren m"
  let ?drop = "?old \<noteq> [] \<and> ?old \<noteq> name"
  define idx where "idx = mput name i (if ?drop then mdel ?old (mgr_nameIndex m) else mgr_nameIndex m)"
  have get: "namePattern n \<and> (\<exists>s. session_of ?m1 j = Some s \<and> meta_Name (sess_Meta s) = n)"
    if j: "mget idx n = Some j" for n j
  proof (cases "n = name")
    case True
    then have "j = i" using j by (simp add: idx_def mget_mput)
    with s name True show ?thesis by simp
  next
    case False
    then have old: "mget (mgr_nameIndex m) n = Some j" and "?drop \<Longrightarrow> n \<noteq> ?old"
      using j by (auto simp: idx_def mget_mput mget_mdel split: if_splits)
    moreover have "n \<noteq> []" using names_okD(1) [OF m old] by (auto simp: namePattern_def)
    ultimately have "j \<noteq> i" using names_ok_name [OF m, of n i s] s False by auto
    with names_okD [OF m old] show ?thesis by simp
  qed
  moreover have "map_ok idx" using m by (simp add: idx_def names_ok_def)
  moreover have "rename_session i name ?old m = triggerPersist (?m1\<lparr>mgr_nameIndex := idx\<rparr>)"
    by (simp add: rename_session_def Let_def idx_def)
  ultimately show ?thesis
    by (simp add: names_ok_def session_of_def del: session_of_upd)
qed

lemma names_ok_SetName [inv_intros]: "names_ok m \<Longrightarrow> names_ok (snd (SetName i name m))"
  by (cases rule: SetName_result [of i name m]) (simp_all add: names_ok_rename)

lemma names_ok_insert [inv_intros]:
  assumes "names_ok m" "mget (mgr_sessions m) i = None"
  shows "names_ok (m\<lparr>mgr_sessions := mput i s (mgr_sessions m)\<rparr>)"
  using assms by (fastforce simp: names_ok_def session_of_def mget_mput)

lemma fresh_id: "sessions_ok m \<Longrightarrow> mget (mgr_sessions m) (mgr_nextID m) = None"
  using sessions_ok_of [of m "mgr_nextID m"] by (cases "mget (mgr_sessions m) (mgr_nextID m)") (auto simp: session_of_def)

lemma names_ok_Launch [inv_intros]:
  assumes "names_ok m" "sessions_ok m"
  shows "names_ok (snd (Launch js os cmd dir env name tags now m))"
proof -
  have "names_ok ((emit x (m\<lparr>mgr_nextID := mgr_nextID m + 1\<rparr>))
          \<lparr>mgr_sessions := mput (mgr_nextID m) s (mgr_sessions m)\<rparr>)" for x s
    using names_ok_insert [of "emit x (m\<lparr>mgr_nextID := mgr_nextID m + 1\<rparr>)" "mgr_nextID m" s]
      assms fresh_id [OF assms(2)] by simp
  with assms show ?thesis by (auto simp: Launch_def Let_def split: option.splits)
qed

lemma names_ok_Kill [inv_intros]: "names_ok m \<Longrightarrow> names_ok (snd (Kill i m))"
  by (auto simp: Kill_def Let_def split: option.splits intro!: names_ok_releaseName)

lemma names_ok_kill_all [inv_intros]: "names_ok m \<Longrightarrow> names_ok (kill_all ids m)"
  by (rule kill_all_induct) (simp_all add: names_ok_Kill)

lemma names_ok_process_exit [inv_intros]: "names_ok m \<Longrightarrow> names_ok (process_exit js i c now m)"
  by (auto simp: process_exit_def Let_def split: option.splits intro!: names_ok_releaseName)

lemma names_ok_RefreshStatuses [inv_intros]:
  assumes "names_ok m" shows "names_ok (RefreshStatuses m)"
proof -
  have "names_ok (m\<lparr>mgr_sessions := map (\<lambda>(k, s). (k, refresh s)) (mgr_sessions m)\<rparr>)"
    using assms by (fastforce simp: names_ok_def session_of_def mget_map_value)
  then show ?thesis by (simp add: RefreshStatuses_def Let_def)
qed

lemma names_ok_do:
  assumes "names_ok m" "sessions_ok m"
  shows "names_ok (mgr_do js op m)"
  using assms
  by (cases op) (auto simp: KillAll_def KillByTags_def Let_def sendReplyWithMetadata_def
      CleanupRequest_def Attach_def Detach_def SendInput_def SubscribeOutput_def UnsubscribeOutput_def recv_output_def recv_event_def
      ReportTask_def reader_chunk_def reader_end_def writer_step_def stdin_inject_def
      sendMessageWithMetadata_def sendRequestWithMetadata_def reply_commit_def case_prod_beta
      split: sum.splits option.splits intro!: inv_intros)

section \<open>Exit hooks\<close>

fun is_exit_hook :: "uint32 \<Rightarrow> effect \<Rightarrow> bool" where
  "is_exit_hook i (ExitHook j name tags) = (i = j)"
| "is_exit_hook i _ = False"

definition hook_count :: "uint32 \<Rightarrow> SessionManager \<Rightarrow> nat" where
  "hook_count i m = length (filter (is_exit_hook i) (mgr_effects m))"

definition hook_sent :: "uint32 \<Rightarrow> SessionManager \<Rightarrow> bool" where
  "hook_sent i m = (case session_of m i of None \<Rightarrow> False | Some s \<Rightarrow> sess_exitHookSent s)"

text \<open>Once per session that ended, if a hook is registered; never otherwise.\<close>

definition hooks_ok :: "SessionManager \<Rightarrow> bool" where
  "hooks_ok m \<longleftrightarrow> (\<forall>i. hook_count i m = (if mgr_sessionExitHook m \<and> hook_sent i m then 1 else 0))"

lemma hook_sent_upd [simp]:
  "hook_sent j (upd_session i f m) =
     (if j = i then (case session_of m i of None \<Rightarrow> False | Some s \<Rightarrow> sess_exitHookSent (f s)) else hook_sent j m)"
  by (simp add: hook_sent_def split: option.splits)

lemma hook_sent_upd_frame [simp]:
  "(\<And>s. sess_exitHookSent (f s) = sess_exitHookSent s) \<Longrightarrow>
   hook_sent j (upd_session i f m) = hook_sent j m"
  by (simp add: hook_sent_def split: option.splits)

lemma hooks_ok_upd [simp]:
  assumes "\<And>s. sess_exitHookSent (f s) = sess_exitHookSent s"
  shows "hooks_ok (upd_session i f m) = hooks_ok m"
  using hook_sent_upd_frame [of f _ i m, OF assms]
  by (simp add: hooks_ok_def hook_count_def del: hook_sent_upd)

lemma hooks_ok_frame [simp]:
  "hooks_ok (publish i t e m) = hooks_ok m"
  "hooks_ok (triggerPersist m) = hooks_ok m"
  "hooks_ok (releaseName i m) = hooks_ok m"
  "hooks_ok (send_on a r m) = hooks_ok m"
  "hooks_ok (snd (register_request q tk i n m)) = hooks_ok m"
  "hooks_ok (m\<lparr>mgr_pendingRequests := pr\<rparr>) = hooks_ok m"
  "hooks_ok (m\<lparr>mgr_Subscriptions := sm\<rparr>) = hooks_ok m"
  "hooks_ok (m\<lparr>mgr_PersistCh := b\<rparr>) = hooks_ok m"
  "hooks_ok (m\<lparr>mgr_panicked := b\<rparr>) = hooks_ok m"
  "hooks_ok (m\<lparr>mgr_nextID := k\<rparr>) = hooks_ok m"
  "hooks_ok (m\<lparr>mgr_nameIndex := x\<rparr>) = hooks_ok m"
  by (simp_all add: hooks_ok_def hook_count_def hook_sent_def send_on_def register_request_def session_of_def
      Let_def)

lemma hooks_ok_emit [simp]: "\<forall>i. \<not> is_exit_hook i e \<Longrightarrow> hooks_ok (emit e m) = hooks_ok m"
  by (simp add: hooks_ok_def hook_count_def hook_sent_def)

lemma hooks_ok_log_message [simp]: "hooks_ok (log_message js e i m) = hooks_ok m"
  by (simp add: log_message_def)

text \<open>The shared end of \<open>Kill\<close> and of the exit goroutine: mark the session, then call the hook.\<close>

lemma hooks_ok_finish:
  assumes "hooks_ok m" "session_of m i = Some s"
    and "mgr_effects m' = mgr_effects m" "mgr_sessionExitHook m' = mgr_sessionExitHook m"
    and "\<And>j. hook_sent j m' = (if j = i then True else hook_sent j m)"
  shows "hooks_ok (run_exit_hook i m' (\<not> sess_exitHookSent s) name tags)"
  using assms
  by (auto simp: hooks_ok_def hook_count_def hook_sent_def run_exit_hook_def split: option.splits)

lemma hooks_ok_Kill [inv_intros]:
  assumes "hooks_ok m" shows "hooks_ok (snd (Kill i m))"
proof (cases "session_of m i")
  case (Some s)
  define m0 where "m0 = (case meta_PID (sess_Meta s) of
      Some pid \<Rightarrow> emit (Terminate pid) m | None \<Rightarrow> m)"
  have "hooks_ok m0" "session_of m0 i = Some s"
    using assms Some by (simp_all add: m0_def split: option.split)
  moreover have sent: "hook_sent j (releaseName k (triggerPersist m')) = hook_sent j m'"
      "hook_sent j (emit x m') = hook_sent j m'" for j k m' x
    by (simp_all add: hook_sent_def)
  ultimately show ?thesis
    using Some unfolding Kill_def Let_def
    by (auto simp: m0_def sent hook_sent_def split: option.splits if_splits intro!: hooks_ok_finish [of m0 i s])
qed (simp add: Kill_def assms)

lemma hooks_ok_kill_all [inv_intros]: "hooks_ok m \<Longrightarrow> hooks_ok (kill_all ids m)"
  by (rule kill_all_induct) (simp_all add: hooks_ok_Kill)

lemma hooks_ok_process_exit [inv_intros]:
  assumes "hooks_ok m" shows "hooks_ok (process_exit js i c now m)"
proof (cases "session_of m i")
  case (Some s)
  then show ?thesis
    using assms unfolding process_exit_def Let_def
    by (auto simp: hook_sent_def split: option.splits if_splits intro!: hooks_ok_finish [of m i s])
qed (simp add: process_exit_def assms)

lemma hooks_ok_Launch [inv_intros]:
  assumes "hooks_ok m" "sessions_ok m"
  shows "hooks_ok (snd (Launch js os cmd dir env name tags now m))"
proof -
  let ?i = "mgr_nextID m"
  let ?m1 = "emit (Spawn ?i cmd dir (launch_env os ?i env name tags)) (m\<lparr>mgr_nextID := ?i + 1\<rparr>)"
  have "hook_sent j (?m1\<lparr>mgr_sessions := mput ?i (new_session os ?i cmd dir tags pid now) (mgr_sessions m)\<rparr>)
      = hook_sent j m" for j pid
    using fresh_id [OF assms(2)]
    by (simp add: hook_sent_def session_of_def mget_mput new_session_def)
  then have "hooks_ok (?m1\<lparr>mgr_sessions := mput ?i (new_session os ?i cmd dir tags pid now) (mgr_sessions m)\<rparr>)"
    for pid
    using assms(1) by (simp add: hooks_ok_def hook_count_def emit_def)
  with assms(1) show ?thesis
    by (auto simp: Launch_def Let_def split: option.splits)
qed

lemma hooks_ok_SetName [inv_intros]: "hooks_ok m \<Longrightarrow> hooks_ok (snd (SetName i name m))"
  by (cases rule: SetName_result [of i name m]) (simp_all add: rename_session_def Let_def)

lemma hooks_ok_RefreshStatuses [inv_intros]:
  assumes "hooks_ok m" shows "hooks_ok (RefreshStatuses m)"
proof -
  have "hook_sent j (m\<lparr>mgr_sessions := map (\<lambda>(k, s). (k, refresh s)) (mgr_sessions m)\<rparr>) = hook_sent j m" for j
    by (simp add: hook_sent_def session_of_def mget_map_value split: option.splits)
  then have "hooks_ok (m\<lparr>mgr_sessions := map (\<lambda>(k, s). (k, refresh s)) (mgr_sessions m)\<rparr>)"
    using assms by (simp add: hooks_ok_def hook_count_def)
  then show ?thesis by (simp add: RefreshStatuses_def Let_def)
qed

lemma hooks_ok_do:
  assumes "hooks_ok m" "sessions_ok m"
  shows "hooks_ok (mgr_do js op m)"
  using assms
  by (cases op) (auto simp: KillAll_def KillByTags_def Let_def sendReplyWithMetadata_def
      CleanupRequest_def Attach_def Detach_def SendInput_def SubscribeOutput_def UnsubscribeOutput_def recv_output_def recv_event_def
      ReportTask_def reader_chunk_def reader_end_def writer_step_def stdin_inject_def
      sendMessageWithMetadata_def sendRequestWithMetadata_def reply_commit_def case_prod_beta
      split: sum.splits option.splits intro!: inv_intros)

section \<open>Pending requests and reply channels\<close>

definition replies_ok :: "SessionManager \<Rightarrow> bool" where
  "replies_ok m \<longleftrightarrow>
     map_ok (mgr_pendingRequests m) \<and>
     (\<forall>c \<in> set (mgr_replyChs m). \<not> ch_closed c \<and> ch_cap c = 1) \<and>
     (\<forall>r p. mget (mgr_pendingRequests m) r = Some p \<longrightarrow>
        pr_replyCh p < length (mgr_replyChs m) \<and> ch_items (mgr_replyChs m ! pr_replyCh p) = []) \<and>
     (\<forall>r p r' p'. mget (mgr_pendingRequests m) r = Some p \<longrightarrow> mget (mgr_pendingRequests m) r' = Some p' \<longrightarrow>
        pr_replyCh p = pr_replyCh p' \<longrightarrow> r = r')"

lemma replies_okD:
  assumes "replies_ok m" "mget (mgr_pendingRequests m) r = Some p"
  shows "pr_replyCh p < length (mgr_replyChs m)" "ch_items (mgr_replyChs m ! pr_replyCh p) = []"
    and "mget (mgr_pendingRequests m) r' = Some p' \<Longrightarrow> pr_replyCh p = pr_replyCh p' \<Longrightarrow> r = r'"
    and "\<not> ch_closed (mgr_replyChs m ! pr_replyCh p)" "ch_cap (mgr_replyChs m ! pr_replyCh p) = 1"
proof -
  show a: "pr_replyCh p < length (mgr_replyChs m)" and "ch_items (mgr_replyChs m ! pr_replyCh p) = []"
    and "mget (mgr_pendingRequests m) r' = Some p' \<Longrightarrow> pr_replyCh p = pr_replyCh p' \<Longrightarrow> r = r'"
    using assms unfolding replies_ok_def by blast+
  have "mgr_replyChs m ! pr_replyCh p \<in> set (mgr_replyChs m)" by (rule nth_mem [OF a])
  then show "\<not> ch_closed (mgr_replyChs m ! pr_replyCh p)" "ch_cap (mgr_replyChs m ! pr_replyCh p) = 1"
    using assms(1) unfolding replies_ok_def by blast+
qed

text \<open>The pair of fields the invariant reads.\<close>

definition reply_view :: "SessionManager \<Rightarrow> (string, pendingRequest) gomap \<times> ReplyData chan list" where
  "reply_view m = (mgr_pendingRequests m, mgr_replyChs m)"

lemma replies_ok_view: "reply_view m' = reply_view m \<Longrightarrow> replies_ok m' = replies_ok m"
  by (simp add: reply_view_def replies_ok_def)

lemma reply_view_frame [simp]:
  "reply_view (upd_session i f m) = reply_view m"
  "reply_view (publish i t e m) = reply_view m"
  "reply_view (emit x m) = reply_view m"
  "reply_view (triggerPersist m) = reply_view m"
  "reply_view (releaseName i m) = reply_view m"
  "reply_view (run_exit_hook i m b n t) = reply_view m"
  "reply_view (log_message js e i m) = reply_view m"
  "reply_view (m\<lparr>mgr_sessions := s\<rparr>) = reply_view m"
  "reply_view (m\<lparr>mgr_Subscriptions := sm\<rparr>) = reply_view m"
  "reply_view (m\<lparr>mgr_PersistCh := b\<rparr>) = reply_view m"
  "reply_view (m\<lparr>mgr_panicked := b\<rparr>) = reply_view m"
  "reply_view (m\<lparr>mgr_nextID := k\<rparr>) = reply_view m"
  "reply_view (m\<lparr>mgr_nameIndex := ix\<rparr>) = reply_view m"
  by (simp_all add: reply_view_def run_exit_hook_def log_message_def)

fun touches_replies :: "mgr_op \<Rightarrow> bool" where
  "touches_replies (OpSendRequest req tok now from fname to body mirror) = True"
| "touches_replies (OpSendReply now from fname fsid req tok body logs) = True"
| "touches_replies (OpReplyCommit now eff fname req body logs) = True"
| "touches_replies (OpCleanupRequest req) = True"
| "touches_replies _ = False"

lemma reply_view_Kill [simp]: "reply_view (snd (Kill i m)) = reply_view m"
  by (simp add: Kill_def Let_def split: option.splits)

lemma reply_view_kill_all [simp]: "reply_view (kill_all ids m) = reply_view m"
  by (rule kill_all_induct [of "\<lambda>m'. reply_view m' = reply_view m"]) simp_all

lemma reply_view_do:
  assumes "\<not> touches_replies op"
  shows "reply_view (mgr_do js op m) = reply_view m"
proof (cases op)
  case (OpSetName i name)
  then show ?thesis
    by (cases rule: SetName_result [of i name m]) (simp_all add: rename_session_def Let_def)
next
  case (OpLaunch os cmd dir env name tags now)
  then show ?thesis by (simp add: Launch_def Let_def split: option.splits)
qed (use assms in \<open>simp_all add: KillAll_def KillByTags_def Let_def
      Attach_def Detach_def SendInput_def SubscribeOutput_def UnsubscribeOutput_def recv_output_def recv_event_def
      ReportTask_def reader_chunk_def reader_end_def writer_step_def stdin_inject_def
      sendMessageWithMetadata_def process_exit_def RefreshStatuses_def
      split: option.splits sum.splits\<close>)

text \<open>How the four operations on pending requests act on that pair.\<close>

definition register_view where
  "register_view r p v = (mput r p (fst v), snd v @ [make_chan 1])"

definition reply_view_step where
  "reply_view_step r reply v =
     (case mget (fst v) r of
        None \<Rightarrow> v
      | Some p \<Rightarrow> (mdel r (fst v), (snd v)[pr_replyCh p := offer reply (snd v ! pr_replyCh p)]))"

lemma reply_view_commit:
  "\<exists>reply. rp_From reply = eff \<and> rp_Body reply = body \<and> rp_RequestID reply = req \<and>
     reply_view (snd (reply_commit js now eff fname req body logs m)) = reply_view_step req reply (reply_view m)"
proof -
  let ?m1 = "m\<lparr>mgr_pendingRequests := mdel req (mgr_pendingRequests m)\<rparr>"
  let ?reply = "\<lparr>rp_RequestID = req, rp_From = eff, rp_FromName = sender_name fname (session_of ?m1 eff),
      rp_Body = body\<rparr>"
  have send: "reply_view (send_on a x m') = (fst (reply_view m'),
      (snd (reply_view m'))[a := offer x (snd (reply_view m') ! a)])" for a x m'
    by (simp add: send_on_def reply_view_def list_update_beyond)
  have "reply_view (snd (reply_commit js now eff fname req body logs m)) = reply_view_step req ?reply (reply_view m)"
  proof (cases "mget (mgr_pendingRequests m) req")
    case (Some p)
    have "reply_view ?m1 = (mdel req (fst (reply_view m)), snd (reply_view m))"
      by (simp add: reply_view_def)
    then show ?thesis
      using Some by (simp add: reply_commit_def Let_def send reply_view_step_def) (simp add: reply_view_def)
  qed (simp add: reply_commit_def reply_view_step_def reply_view_def)
  then show ?thesis by (intro exI [of _ ?reply]) simp
qed

lemma reply_view_request:
  "\<exists>tok' to' name'. reply_view (snd (sendRequestWithMetadata js req tok now f n t b mi m)) \<in>
     {reply_view m, register_view req \<lparr>pr_replyCh = length (mgr_replyChs m), pr_replyToken = tok',
        pr_allowedReplierSessionID = to', pr_allowedReplierSessionName = name'\<rparr> (reply_view m)}"
proof -
  have reg: "reply_view (snd (register_request req tok t nm m')) =
      register_view req \<lparr>pr_replyCh = length (snd (reply_view m')), pr_replyToken = tok,
        pr_allowedReplierSessionID = t, pr_allowedReplierSessionName = nm\<rparr> (reply_view m')" for m' nm
    by (simp add: register_request_def reply_view_def register_view_def Let_def)
  have "length (mgr_replyChs m) = length (snd (reply_view m))" by (simp add: reply_view_def)
  then show ?thesis
    unfolding sendRequestWithMetadata_def Let_def case_prod_beta
    by (auto simp: reg split: option.splits)
qed

definition view_ok where
  "view_ok v \<longleftrightarrow> replies_ok (undefined\<lparr>mgr_pendingRequests := fst v, mgr_replyChs := snd v\<rparr>)"

lemma replies_ok_view_ok: "replies_ok m = view_ok (reply_view m)"
  by (simp add: view_ok_def replies_ok_def reply_view_def)

lemma view_ok_iff:
  "view_ok (ps, cs) \<longleftrightarrow>
     map_ok ps \<and> (\<forall>c \<in> set cs. \<not> ch_closed c \<and> ch_cap c = 1) \<and>
     (\<forall>r p. mget ps r = Some p \<longrightarrow> pr_replyCh p < length cs \<and> ch_items (cs ! pr_replyCh p) = []) \<and>
     (\<forall>r p r' p'. mget ps r = Some p \<longrightarrow> mget ps r' = Some p' \<longrightarrow> pr_replyCh p = pr_replyCh p' \<longrightarrow> r = r')"
  by (simp add: view_ok_def replies_ok_def)

lemma view_ok_register:
  assumes "view_ok (ps, cs)" "pr_replyCh p = length cs"
  shows "view_ok (register_view r p (ps, cs))"
proof -
  have lt: "pr_replyCh q < length cs" if "mget ps r' = Some q" for r' q
    using assms(1) that by (auto simp: view_ok_iff)
  have "map_ok (mput r p ps)" "\<forall>c \<in> set (cs @ [make_chan 1]). \<not> ch_closed c \<and> ch_cap c = 1"
    using assms(1) by (auto simp: view_ok_iff make_chan_def)
  moreover have "pr_replyCh q < length (cs @ [make_chan 1]) \<and> ch_items ((cs @ [make_chan 1]) ! pr_replyCh q) = []"
    if "mget (mput r p ps) r' = Some q" for r' q
    using that assms lt [of r' q] by (auto simp: view_ok_iff mget_mput nth_append make_chan_def split: if_splits)
  moreover have "r1 = r2"
    if "mget (mput r p ps) r1 = Some q1" "mget (mput r p ps) r2 = Some q2" "pr_replyCh q1 = pr_replyCh q2"
    for r1 r2 q1 q2
  proof (cases "r1 = r"; cases "r2 = r")
    assume "r1 = r" "r2 \<noteq> r"
    then show ?thesis using that lt [of r2 q2] assms(2) by (simp add: mget_mput)
  next
    assume "r1 \<noteq> r" "r2 = r"
    then show ?thesis using that lt [of r1 q1] assms(2) by (simp add: mget_mput)
  next
    assume "r1 \<noteq> r" "r2 \<noteq> r"
    then have "mget ps r1 = Some q1" "mget ps r2 = Some q2" using that by (simp_all add: mget_mput)
    with that(3) assms(1) show ?thesis unfolding view_ok_iff by blast
  qed simp
  ultimately show ?thesis unfolding register_view_def fst_conv snd_conv view_ok_iff by blast
qed

lemma view_ok_delete: "view_ok (ps, cs) \<Longrightarrow> view_ok (mdel r ps, cs)"
  by (auto simp: view_ok_iff mget_mdel)

lemma view_ok_reply:
  assumes "view_ok (ps, cs)"
  shows "view_ok (reply_view_step r reply (ps, cs))"
proof (cases "mget ps r")
  case (Some p)
  let ?cs = "cs[pr_replyCh p := offer reply (cs ! pr_replyCh p)]"
  have p: "pr_replyCh p < length cs" using assms Some by (auto simp: view_ok_iff)
  have other: "q \<noteq> p \<and> pr_replyCh q \<noteq> pr_replyCh p" if "mget ps r' = Some q" "r' \<noteq> r" for r' q
    using that assms Some by (auto simp: view_ok_iff)
  have "\<forall>c \<in> set ?cs. \<not> ch_closed c \<and> ch_cap c = 1"
    using assms p set_update_subset_insert [of cs "pr_replyCh p"] by (fastforce simp: view_ok_iff)
  moreover have "pr_replyCh q < length ?cs \<and> ch_items (?cs ! pr_replyCh q) = []"
    if "mget (mdel r ps) r' = Some q" for r' q
    using that assms other [of r' q] by (auto simp: view_ok_iff mget_mdel split: if_splits)
  moreover have "r1 = r2" if "mget (mdel r ps) r1 = Some q1" "mget (mdel r ps) r2 = Some q2"
    "pr_replyCh q1 = pr_replyCh q2" for r1 r2 q1 q2
    using that assms by (auto simp: view_ok_iff mget_mdel split: if_splits)
  moreover have "map_ok (mdel r ps)" using assms by (simp add: view_ok_iff)
  ultimately have "view_ok (mdel r ps, ?cs)" unfolding view_ok_iff by blast
  with Some show ?thesis by (simp add: reply_view_step_def)
qed (simp add: reply_view_step_def assms)

text \<open>A step on the pending requests is a registration, a removal, a reply, or nothing.\<close>

lemma reply_view_cases:
  assumes "touches_replies op"
  obtains (same) "reply_view (mgr_do js op m) = reply_view m"
  | (register) r p where "pr_replyCh p = length (snd (reply_view m))"
      "reply_view (mgr_do js op m) = register_view r p (reply_view m)"
  | (delete) r where "reply_view (mgr_do js op m) = (mdel r (fst (reply_view m)), snd (reply_view m))"
  | (reply) r x where "reply_view (mgr_do js op m) = reply_view_step r x (reply_view m)"
proof (cases op)
  case (OpSendRequest req tok now f n t b mi)
  define p where "p tok' to' name' = \<lparr>pr_replyCh = length (mgr_replyChs m), pr_replyToken = tok',
        pr_allowedReplierSessionID = to', pr_allowedReplierSessionName = name'\<rparr>" for tok' to' name'
  have "pr_replyCh (p x y z) = length (snd (reply_view m))" for x y z
    by (simp add: p_def reply_view_def)
  moreover obtain x y z where "reply_view (mgr_do js op m) \<in>
      {reply_view m, register_view req (p x y z) (reply_view m)}"
    using reply_view_request [of js req tok now f n t b mi m] OpSendRequest by (auto simp: p_def)
  ultimately show thesis using same register by blast
next
  case (OpSendReply now f n si r tk b l)
  show thesis
  proof (cases "reply_check f n si r tk m")
    case (Inr eff)
    then show thesis
      using reply_view_commit [of eff b r js now n l m] OpSendReply reply
      by (auto simp: sendReplyWithMetadata_def)
  qed (use same OpSendReply in \<open>simp add: sendReplyWithMetadata_def\<close>)
next
  case (OpReplyCommit now eff n r b l)
  then show thesis using reply_view_commit [of eff b r js now n l m] reply by auto
next
  case (OpCleanupRequest r)
  then show thesis using delete [of r] by (simp add: CleanupRequest_def reply_view_def)
qed (use assms in simp_all)

lemma replies_ok_do:
  assumes "replies_ok m" shows "replies_ok (mgr_do js op m)"
proof (cases "touches_replies op")
  case True
  obtain ps cs where v: "reply_view m = (ps, cs)" by (cases "reply_view m")
  then have ok: "view_ok (ps, cs)" using assms by (simp add: replies_ok_view_ok)
  from True show ?thesis
    by (cases rule: reply_view_cases [of op js m])
      (simp_all add: replies_ok_view_ok v ok view_ok_register view_ok_delete view_ok_reply)
qed (use assms reply_view_do replies_ok_view in blast)

text \<open>A reply channel no pending request points to is never written again.\<close>

definition channel_settled :: "nat \<Rightarrow> SessionManager \<Rightarrow> bool" where
  "channel_settled a m \<longleftrightarrow>
     a < length (mgr_replyChs m) \<and> (\<forall>r p. mget (mgr_pendingRequests m) r = Some p \<longrightarrow> pr_replyCh p \<noteq> a)"

lemma channel_settled_do:
  assumes "channel_settled a m"
  shows "channel_settled a (mgr_do js op m)" "mgr_replyChs (mgr_do js op m) ! a = mgr_replyChs m ! a"
proof -
  define v where "v = reply_view m"
  define v' where "v' = reply_view (mgr_do js op m)"
  have chs: "mgr_replyChs m = snd v" "mgr_pendingRequests m = fst v"
    "mgr_replyChs (mgr_do js op m) = snd v'" "mgr_pendingRequests (mgr_do js op m) = fst v'"
    by (simp_all add: v_def v'_def reply_view_def)
  have "a < length (snd v') \<and> (\<forall>r p. mget (fst v') r = Some p \<longrightarrow> pr_replyCh p \<noteq> a) \<and> snd v' ! a = snd v ! a"
  proof (cases "touches_replies op")
    case True
    from True show ?thesis
    proof (cases rule: reply_view_cases [of op js m])
      case (register r p)
      with assms show ?thesis
        by (auto simp: channel_settled_def chs v_def [symmetric] v'_def [symmetric] register_view_def mget_mput nth_append)
    next
      case (reply r x)
      with assms show ?thesis
        by (cases "mget (fst v) r")
          (auto simp: channel_settled_def chs v_def [symmetric] v'_def [symmetric] reply_view_step_def mget_mdel)
    qed (use assms in \<open>auto simp: channel_settled_def chs v_def [symmetric] v'_def [symmetric] mget_mdel\<close>)
  next
    case False
    then have "v' = v" by (simp add: v_def v'_def reply_view_do)
    with assms show ?thesis by (simp add: channel_settled_def chs)
  qed
  then show "channel_settled a (mgr_do js op m)" "mgr_replyChs (mgr_do js op m) ! a = mgr_replyChs m ! a"
    by (simp_all add: channel_settled_def chs)
qed

section \<open>All reachable states\<close>

definition mgr_ok :: "SessionManager \<Rightarrow> bool" where
  "mgr_ok m \<longleftrightarrow> sessions_ok m \<and> names_ok m \<and> hooks_ok m \<and> replies_ok m"

text \<open>A manager as the node sets it up: restored, with its hooks registered.\<close>

definition start_manager ::
  "SessionMeta list option \<Rightarrow> (uint32 \<Rightarrow> string \<Rightarrow> string \<Rightarrow> string list \<Rightarrow> string option) option \<Rightarrow>
   bool \<Rightarrow> bool \<Rightarrow> SessionManager" where
  "start_manager file nameHook exitHook forward =
     (NewSessionManager file)\<lparr>mgr_nameChangeHook := nameHook, mgr_sessionExitHook := exitHook,
       mgr_taskReportForward := forward\<rparr>"

lemma mgr_ok_start: "mgr_ok (start_manager file nameHook exitHook forward)"
  by (simp add: mgr_ok_def start_manager_def NewSessionManager_def Let_def sessions_ok_def names_ok_def
      hooks_ok_def replies_ok_def session_of_def manager_ok_New hook_count_def hook_sent_def mget_def)

lemma mgr_ok_do: "mgr_ok m \<Longrightarrow> op_enabled op m \<Longrightarrow> mgr_ok (mgr_do js op m)"
  by (simp add: mgr_ok_def sessions_ok_do names_ok_do hooks_ok_do replies_ok_do)

lemma mgr_reachable_ok: "mgr_reachable js m0 m \<Longrightarrow> mgr_ok m0 \<Longrightarrow> mgr_ok m"
  by (induction rule: mgr_reachable.induct) (simp_all add: mgr_ok_do)

lemma channel_settled_reachable:
  "mgr_reachable js m0 m \<Longrightarrow> channel_settled a m0 \<Longrightarrow>
   channel_settled a m \<and> mgr_replyChs m ! a = mgr_replyChs m0 ! a"
  by (induction rule: mgr_reachable.induct) (simp_all add: channel_settled_do)

end
