(* ===== verification/SessionFacts.thy ===== *)
theory SessionFacts
  imports SessionInv
begin

text \<open>
  What single operations of the session manager do, beyond the invariants: restarting,
  launching, output accounting, ends of sessions, messages and replies.
\<close>

section \<open>Restart\<close>

lemma max_id_ge: "a \<le> max_id a ms"
  by (induction ms arbitrary: a) (auto intro: order_trans less_imp_le)

lemma max_id_all: "m \<in> set ms \<Longrightarrow> meta_ID m \<le> max_id a ms"
proof (induction ms arbitrary: a)
  case (Cons x ms)
  have "meta_ID x \<le> (if a < meta_ID x then meta_ID x else a)" by (simp add: not_less)
  also have "\<dots> \<le> max_id (if a < meta_ID x then meta_ID x else a) ms" by (rule max_id_ge)
  finally have "meta_ID x \<le> max_id (if a < meta_ID x then meta_ID x else a) ms" .
  with Cons show ?case by auto
qed simp

lemma max_id_in: "max_id a ms = a \<or> max_id a ms \<in> meta_ID ` set ms"
proof (induction ms arbitrary: a)
  case (Cons m ms)
  show ?case
    using Cons.IH [of "meta_ID m"] Cons.IH [of a] by auto
qed simp

lemma persisted_ids: "sessions_ok m \<Longrightarrow> meta_ID ` set (PersistMeta m) = set (mkeys (mgr_sessions m))"
proof -
  assume ok: "sessions_ok m"
  have "meta_ID (sess_Meta s) = k" if "(k, s) \<in> set (mgr_sessions m)" for k s
  proof -
    have "session_of m k = Some s"
      using that ok by (simp add: session_of_def sessions_ok_def mget_Some_iff)
    with ok show ?thesis using sessions_ok_of [of m k s] by (simp add: sess_ok_def)
  qed
  then show ?thesis by (force simp: PersistMeta_def mkeys_def)
qed

lemma restart_next_id:
  assumes "sessions_ok m" "session_of m i = Some s"
  shows "i < mgr_nextID (NewSessionManager (Some (PersistMeta m)))"
    and "mgr_nextID (NewSessionManager (Some (PersistMeta m))) \<le> mgr_nextID m"
proof -
  let ?x = "max_id 0 (PersistMeta m)"
  have keys: "k < mgr_nextID m" if "k \<in> set (mkeys (mgr_sessions m))" for k
    using assms(1) that mget_None_iff [of "mgr_sessions m" k]
    by (cases "mget (mgr_sessions m) k") (auto simp: sessions_ok_def session_of_def)
  have i: "i \<in> set (mkeys (mgr_sessions m))"
    using assms(2) mget_None_iff [of "mgr_sessions m" i] by (auto simp: session_of_def)
  then have "i \<in> meta_ID ` set (PersistMeta m)" by (simp add: persisted_ids assms(1))
  then have le: "i \<le> ?x" using max_id_all by auto
  have "?x < mgr_nextID m"
  proof (cases "?x = 0")
    case True
    then show ?thesis using keys [OF i] by (simp add: word_neq_0_conv [symmetric]) auto
  next
    case False
    then have "?x \<in> set (mkeys (mgr_sessions m))"
      using max_id_in [of 0 "PersistMeta m"] persisted_ids [OF assms(1)] by auto
    then show ?thesis by (rule keys)
  qed
  then have "?x \<noteq> - 1" by (auto dest: leD)
  with le \<open>?x < mgr_nextID m\<close>
  show "i < mgr_nextID (NewSessionManager (Some (PersistMeta m)))"
    and "mgr_nextID (NewSessionManager (Some (PersistMeta m))) \<le> mgr_nextID m"
    by (simp_all add: NewSessionManager_def Let_def word_less_succ inc_le)
qed

section \<open>Launching\<close>

lemma Launch_result:
  assumes "length command \<noteq> 0" "los_command os" "los_dir os = Some True" "los_logDir os" "los_pid os = Some pid"
  shows "fst (Launch js os command dir env name tags now m) = Inr (mgr_nextID m)"
    and "mgr_nextID (snd (Launch js os command dir env name tags now m)) = mgr_nextID m + 1"
    and "mgr_effects (snd (Launch js os command dir env name tags now m)) = mgr_effects m @
          [Spawn (mgr_nextID m) command dir (launch_env os (mgr_nextID m) env name tags)]"
    and "session_of (snd (Launch js os command dir env name tags now m)) j =
          (if j = mgr_nextID m
           then Some (snd (append_event js (NewSessionCreatedEvent now command dir tags)
                  (new_session os (mgr_nextID m) command dir tags pid now)))
           else session_of m j)"
  using assms by (simp_all add: Launch_def Let_def) (simp add: session_of_def mget_mput)

lemma env_key_cons: "\<forall>c \<in> set k. c \<noteq> CHR ''='' \<Longrightarrow> env_key (k @ ''='' @ v) = Some k"
  by (induction k) (auto simp: env_key_def)

lemma env_last_append:
  "env_last (xs @ ys) k = (case env_last ys k of None \<Rightarrow> env_last xs k | Some e \<Rightarrow> Some e)"
  by (simp add: env_last_def find_append split: option.splits)

definition cw_keys :: "string list" where
  "cw_keys = [''CW_SESSION_ID'', ''CW_SESSION_NAME'', ''CW_COHORT_TAG'']"

lemma launch_env_last:
  shows "env_last (launch_env os i env name tags) ''CW_SESSION_ID'' = Some (''CW_SESSION_ID='' @ show_nat (unat i))"
    and "name \<noteq> [] \<Longrightarrow> env_last (launch_env os i env name tags) ''CW_SESSION_NAME'' = Some (''CW_SESSION_NAME='' @ name)"
    and "tags \<noteq> [] \<Longrightarrow> env_last (launch_env os i env name tags) ''CW_COHORT_TAG'' = Some (''CW_COHORT_TAG='' @ hd tags)"
    and "k \<notin> set cw_keys \<Longrightarrow> env_last env k = Some e \<Longrightarrow> env_last (launch_env os i env name tags) k = Some e"
proof -
  note keys = env_key_def env_last_def
  define e2 where "e2 = (let e0 = [''CW_SESSION_ID='' @ show_nat (unat i)];
          e1 = (if name \<noteq> [] then e0 @ [''CW_SESSION_NAME='' @ name] else e0)
      in if 0 < length tags then e1 @ [''CW_COHORT_TAG='' @ hd tags] else e1)"
  have last: "env_last (launch_env os i env name tags) k =
      (case env_last e2 k of Some e \<Rightarrow> Some e
       | None \<Rightarrow> (case env_last env k of Some e \<Rightarrow> Some e
           | None \<Rightarrow> env_last (buildEnv (los_environ os) (los_envFile os) []) k))" for k
    by (simp add: launch_env_def buildEnv_def Let_def env_last_overrides env_last_append e2_def
        split: option.splits) (simp add: env_last_def)
  show "env_last (launch_env os i env name tags) ''CW_SESSION_ID'' = Some (''CW_SESSION_ID='' @ show_nat (unat i))"
    unfolding last by (simp add: e2_def Let_def keys)
  show "name \<noteq> [] \<Longrightarrow> env_last (launch_env os i env name tags) ''CW_SESSION_NAME'' = Some (''CW_SESSION_NAME='' @ name)"
    unfolding last by (simp add: e2_def Let_def keys)
  show "tags \<noteq> [] \<Longrightarrow> env_last (launch_env os i env name tags) ''CW_COHORT_TAG'' = Some (''CW_COHORT_TAG='' @ hd tags)"
    unfolding last by (simp add: e2_def Let_def keys)
  assume "k \<notin> set cw_keys" "env_last env k = Some e"
  moreover from this have "env_last e2 k = None" by (auto simp: e2_def Let_def keys cw_keys_def)
  ultimately show "env_last (launch_env os i env name tags) k = Some e" unfolding last by simp
qed

section \<open>Output\<close>

definition read_chunks :: "(bytes \<times> nanos) list \<Rightarrow> Session \<Rightarrow> Session" where
  "read_chunks cs s = fold (\<lambda>(d, now) s. read_chunk d (length d) now s) cs s"

definition newlines :: "bytes \<Rightarrow> nat" where
  "newlines bs = length (filter (\<lambda>b. b = CHR 0x0A) bs)"

lemma read_chunk_step:
  assumes "broadcaster_ok (sess_broadcaster s)" "sess_logOpen s" "sess_log s = Some c"
  shows "sess_log (read_chunk d (length d) now s) = Some (c @ d)"
    and "sess_logOpen (read_chunk d (length d) now s)"
    and "sess_outputBytes (read_chunk d (length d) now s) = sess_outputBytes s + of_nat (length d)"
    and "sess_outputLines (read_chunk d (length d) now s) = sess_outputLines s + of_nat (newlines d)"
    and "sess_broadcaster (read_chunk d (length d) now s) =
          (if d = [] then sess_broadcaster s else the (Broadcaster_Send d (sess_broadcaster s)))"
  using assms
  by (auto simp: read_chunk_def track_output_def log_output_def Let_def newlines_def Broadcaster_Send_ok)

lemma read_chunks_output:
  assumes "broadcaster_ok (sess_broadcaster s)" "sess_logOpen s" "sess_log s = Some c"
  shows "sess_log (read_chunks cs s) = Some (c @ concat (map fst cs))"
    and "sess_outputBytes (read_chunks cs s) = sess_outputBytes s + of_nat (length (concat (map fst cs)))"
    and "sess_outputLines (read_chunks cs s) = sess_outputLines s + of_nat (newlines (concat (map fst cs)))"
    and "sess_broadcaster (read_chunks cs s) =
      fold (\<lambda>d b. the (Broadcaster_Send d b)) (filter (\<lambda>d. d \<noteq> []) (map fst cs)) (sess_broadcaster s)"
proof -
  have "sess_log (read_chunks cs s) = Some (c @ concat (map fst cs)) \<and>
    sess_outputBytes (read_chunks cs s) = sess_outputBytes s + of_nat (length (concat (map fst cs))) \<and>
    sess_outputLines (read_chunks cs s) = sess_outputLines s + of_nat (newlines (concat (map fst cs))) \<and>
    sess_broadcaster (read_chunks cs s) =
      fold (\<lambda>d b. the (Broadcaster_Send d b)) (filter (\<lambda>d. d \<noteq> []) (map fst cs)) (sess_broadcaster s)"
    using assms
  proof (induction cs arbitrary: s c)
    case (Cons x cs)
    obtain d now where x: "x = (d, now)" by fastforce
    let ?s = "read_chunk d (length d) now s"
    have step: "read_chunks (x # cs) s = read_chunks cs ?s" by (simp add: read_chunks_def x)
    have ok: "broadcaster_ok (sess_broadcaster ?s)" using Cons.prems(1) by (rule broadcaster_ok_read)
    show ?case
      unfolding step using Cons.IH [OF ok read_chunk_step(2,1) [OF Cons.prems]] read_chunk_step [OF Cons.prems, of d now]
      by (simp add: x newlines_def algebra_simps)
  qed (simp add: read_chunks_def newlines_def)
  then show "sess_log (read_chunks cs s) = Some (c @ concat (map fst cs))"
    and "sess_outputBytes (read_chunks cs s) = sess_outputBytes s + of_nat (length (concat (map fst cs)))"
    and "sess_outputLines (read_chunks cs s) = sess_outputLines s + of_nat (newlines (concat (map fst cs)))"
    and "sess_broadcaster (read_chunks cs s) =
      fold (\<lambda>d b. the (Broadcaster_Send d b)) (filter (\<lambda>d. d \<noteq> []) (map fst cs)) (sess_broadcaster s)"
    by blast+
qed

section \<open>Replies\<close>

lemma reply_check_allowed:
  assumes "reply_check fromID fname fsid req tok m = Inr eff"
  shows "\<exists>p. mget (mgr_pendingRequests m) req = Some p \<and> eff = pr_allowedReplierSessionID p \<and> eff \<noteq> 0 \<and>
    (tok \<noteq> [] \<longrightarrow> tok = pr_replyToken p) \<and>
    (case fsid of Some i \<Rightarrow> i = eff | None \<Rightarrow> fromID = eff \<or> fromID = 0 \<and> fname = [] \<and> tok = pr_replyToken p)"
  using assms
  by (auto simp: reply_check_def Let_def split: option.splits if_splits)

lemma reply_view_fst: "mgr_pendingRequests m = fst (reply_view m)" "mgr_replyChs m = snd (reply_view m)"
  by (simp_all add: reply_view_def)

lemma reply_commit_effect:
  assumes ok: "replies_ok m" and p: "mget (mgr_pendingRequests m) req = Some p"
    and m': "m' = snd (reply_commit js now eff fname req body logs m)"
  shows "fst (reply_commit js now eff fname req body logs m) = Inr ()"
    and "mget (mgr_pendingRequests m') req = None"
    and "\<exists>x. ch_items (mgr_replyChs m' ! pr_replyCh p) = [x] \<and> rp_From x = eff \<and> rp_Body x = body \<and>
           rp_RequestID x = req"
    and "channel_settled (pr_replyCh p) m'"
proof -
  note D = replies_okD [OF ok p]
  obtain x where x: "rp_From x = eff" "rp_Body x = body" "rp_RequestID x = req"
    and v: "reply_view m' = reply_view_step req x (reply_view m)"
    unfolding m' using reply_view_commit by blast
  have fst: "mgr_pendingRequests m' = mdel req (mgr_pendingRequests m)"
    and snd: "mgr_replyChs m' = (mgr_replyChs m)[pr_replyCh p := offer x (mgr_replyChs m ! pr_replyCh p)]"
    using v p by (simp_all add: reply_view_step_def reply_view_def)
  show "fst (reply_commit js now eff fname req body logs m) = Inr ()"
    using p by (simp add: reply_commit_def Let_def)
  show "mget (mgr_pendingRequests m') req = None" by (simp add: fst mget_mdel)
  show "\<exists>x. ch_items (mgr_replyChs m' ! pr_replyCh p) = [x] \<and> rp_From x = eff \<and> rp_Body x = body \<and>
           rp_RequestID x = req"
    using x D by (intro exI [of _ x]) (simp add: snd offer_def)
  show "channel_settled (pr_replyCh p) m'"
    using D by (auto simp: channel_settled_def fst snd mget_mdel split: if_splits)
qed

section \<open>The reader goroutine over the manager\<close>

definition reader_run :: "uint32 \<Rightarrow> (bytes \<times> nanos) list \<Rightarrow> SessionManager \<Rightarrow> SessionManager" where
  "reader_run i cs m = fold (\<lambda>(d, now) m. reader_chunk i d (length d) now m) cs m"

lemma read_chunk_reader [simp]: "sess_reader (read_chunk d w now s) = sess_reader s"
  by (simp add: read_chunk_def track_output_def log_output_def respond_queries_def Let_def
      split: option.splits prod.splits)

lemma reader_run_session:
  assumes "sessions_ok m" "session_of m i = Some s" "sess_reader s"
  shows "session_of (reader_run i cs m) i = Some (read_chunks cs s)"
  using assms
proof (induction cs arbitrary: m s)
  case (Cons x cs)
  obtain d now where x: "x = (d, now)" by fastforce
  let ?m = "reader_chunk i d (length d) now m"
  have "\<not> send_panics d s"
    using sessions_ok_of [OF Cons.prems(1,2)] by (simp add: sess_ok_def not_send_panics)
  then have "session_of ?m i = Some (read_chunk d (length d) now s)"
    using Cons.prems by (simp add: reader_chunk_def)
  moreover have "sessions_ok ?m" by (rule sessions_ok_reader_chunk [OF Cons.prems(1)])
  ultimately have "session_of (reader_run i cs ?m) i = Some (read_chunks cs (read_chunk d (length d) now s))"
    using Cons.IH Cons.prems(3) by simp
  then show ?case by (simp add: reader_run_def read_chunks_def x)
qed (simp add: reader_run_def read_chunks_def)

section \<open>A concrete manager\<close>

text \<open>One launched session, and an operating system that grants everything.\<close>

definition demo_os :: launch_os where
  "demo_os = \<lparr>los_command = True, los_dir = Some True, los_logDir = True, los_pid = Some (Some 42),
     los_events = Some [], los_messages = Some [], los_output = Some [], los_noQueries = False,
     los_environ = [''HOME=/root'', ''TERM=dumb''], los_envFile = None\<rparr>"

definition demo_start :: SessionManager where
  "demo_start = start_manager None None True False"

definition demo_launch :: mgr_op where
  "demo_launch = OpLaunch demo_os [''sh''] ''/tmp'' [] ''web'' [''group:web''] 0"

definition demo_manager :: SessionManager where
  "demo_manager = mgr_do (\<lambda>e. Some ''{}'') demo_launch demo_start"

lemma demo_reachable: "mgr_reachable (\<lambda>e. Some ''{}'') demo_start demo_manager"
  unfolding demo_manager_def
  by (rule mgr_reachable.step [OF mgr_reachable.start])
    (simp add: demo_launch_def demo_start_def start_manager_def NewSessionManager_def)

lemma demo_ok: "mgr_ok demo_manager"
  by (rule mgr_reachable_ok [OF demo_reachable]) (simp add: demo_start_def mgr_ok_start)

lemma demo_session:
  "session_of demo_manager 1 = Some (snd (append_event (\<lambda>e. Some ''{}'') (NewSessionCreatedEvent 0 [''sh''] ''/tmp'' [''group:web''])
     (new_session demo_os 1 [''sh''] ''/tmp'' [''group:web''] (Some 42) 0)))"
  unfolding demo_manager_def demo_launch_def mgr_do.simps
  by (subst Launch_result(4)) (simp_all add: demo_os_def demo_start_def start_manager_def NewSessionManager_def)

lemma demo_fields:
  "mgr_sessionExitHook demo_manager" "mgr_nameIndex demo_manager = []" "mgr_pendingRequests demo_manager = []"
  "mgr_replyChs demo_manager = []" "mgr_nextID demo_manager = 2"
  unfolding demo_manager_def demo_launch_def
  by (simp_all add: Launch_def demo_os_def demo_start_def start_manager_def NewSessionManager_def Let_def)

lemma demo_rename:
  "SetName 1 ''web'' demo_manager = (Inr (), rename_session 1 ''web'' [] demo_manager)"
proof -
  have "namePattern ''web''" by (simp add: namePattern_def is_alnum_def)
  moreover have "mgr_nameChangeHook demo_manager = None"
    by (simp add: demo_manager_def demo_launch_def Launch_def demo_os_def demo_start_def start_manager_def
        NewSessionManager_def Let_def publish_def Publish_def NewSubscriptionManager_def emit_def triggerPersist_def)
  ultimately show ?thesis
    using demo_session
    by (simp add: SetName_def taken_by_other_def run_name_hook_def demo_fields new_session_def Let_def mget_def)
qed

text \<open>A request to that session, from a caller without a session.\<close>

definition demo_request :: mgr_op where
  "demo_request = OpSendRequest ''req_1'' ''rpl_1'' 1 0 ''cli'' 1 ''ping'' False"

definition demo_requested :: SessionManager where
  "demo_requested = mgr_do (\<lambda>e. Some ''{}'') demo_request demo_manager"

lemma demo_requested_reachable: "mgr_reachable (\<lambda>e. Some ''{}'') demo_start demo_requested"
  unfolding demo_requested_def
  by (rule mgr_reachable.step [OF demo_reachable]) (simp add: demo_request_def)

lemma demo_requested_ok: "mgr_ok demo_requested"
  by (rule mgr_reachable_ok [OF demo_requested_reachable]) (simp add: demo_start_def mgr_ok_start)

lemma demo_pending:
  "mget (mgr_pendingRequests demo_requested) ''req_1'' =
     Some \<lparr>pr_replyCh = 0, pr_replyToken = ''rpl_1'', pr_allowedReplierSessionID = 1,
       pr_allowedReplierSessionName = []\<rparr>"
proof -
  have name: "meta_Name (sess_Meta s) = []" if "session_of demo_manager 1 = Some s" for s
    using that demo_session by (auto simp: new_session_def)
  show ?thesis
    unfolding demo_requested_def demo_request_def mgr_do.simps sendRequestWithMetadata_def Let_def
    using demo_session name
    by (simp add: register_request_def log_message_def Let_def mget_mput demo_fields)
qed

end
