(* ===== verification/PeerProtocol.thy ===== *)
theory PeerProtocol
  imports Frames Messaging
begin

text \<open>
  The peer-to-peer protocol of \<open>internal/peer/protocol.go\<close>: its messages, their structural
  validation, and their exchange as control frames. The JSON coding of a message is the pair
  \<open>enc\<close>, \<open>dec\<close>; a nil pointer is \<open>None\<close>.
\<close>

section \<open>Messages\<close>

record SessionLocator =
  loc_Node :: string
  loc_ID :: "uint32 option"
  loc_Name :: string

record PeerRequest =
  pq_OpID :: string
  pq_Type :: string
  pq_SenderCap :: string
  pq_ObserverCap :: string
  pq_From :: "SessionLocator option"
  pq_To :: "SessionLocator option"
  pq_Session :: "SessionLocator option"
  pq_RequestID :: string
  pq_Body :: string
  pq_Tail :: "uint64 option"
  pq_Delivery :: string
  pq_TimeoutS :: "uint64 option"

record AuthHello =
  ah_Type :: string
  ah_RuntimeCredential :: string

text \<open>An error that the source sends as text is kept as the error value, of any type \<open>'e\<close>.\<close>

record 'e AuthAck =
  aa_Type :: string
  aa_NetworkID :: string
  aa_SubjectKind :: string
  aa_SubjectID :: string
  aa_Error :: "'e option"

text \<open>
  A message of an inbox (\<open>internal/protocol/messages.go\<close>). Time stamps are kept as times here
  and in the events of a stream; the source formats them.
\<close>

record MessageResponse =
  mr_MessageID :: string
  mr_Timestamp :: nanos
  mr_From :: uint32
  mr_FromName :: string
  mr_To :: uint32
  mr_ToName :: string
  mr_Body :: string
  mr_EventType :: string
  mr_RequestID :: string
  mr_ReplyToken :: string

record 'e PeerResponse =
  ps_OpID :: string
  ps_Type :: string
  ps_MessageID :: string
  ps_RequestID :: string
  ps_ReplyBody :: string
  ps_From :: "SessionLocator option"
  ps_Session :: "SessionLocator option"
  ps_Event :: "SessionEvent option"
  ps_Messages :: "MessageResponse list"
  ps_Error :: "'e option"

section \<open>Validation\<close>

datatype invalid =
    LocatorEmpty | LocatorBoth
  | MissingOpID | MissingField string
  | BadLocator string invalid
  | UnsupportedType string
  | UnexpectedType string
  | Incomplete
  | NilMessage

text \<open>\<open>None\<close> is a nil error.\<close>

definition Locator_Validate :: "SessionLocator \<Rightarrow> invalid option" where
  "Locator_Validate l =
     (if loc_ID l = None \<and> loc_Name l = [] then Some LocatorEmpty
      else if loc_ID l \<noteq> None \<and> loc_Name l \<noteq> [] then Some LocatorBoth
      else None)"

definition AuthHello_Validate :: "AuthHello \<Rightarrow> invalid option" where
  "AuthHello_Validate h =
     (if ah_Type h \<noteq> ''AuthHello'' then Some (UnexpectedType (ah_Type h))
      else if ah_RuntimeCredential h = [] then Some (MissingField ''runtime credential'')
      else None)"

definition AuthAck_Validate :: "'e AuthAck \<Rightarrow> invalid option" where
  "AuthAck_Validate a =
     (if aa_Type a = ''AuthAck'' then
        (if aa_NetworkID a = [] \<or> aa_SubjectKind a = [] \<or> aa_SubjectID a = [] then Some Incomplete else None)
      else if aa_Type a = ''Error'' then
        (if aa_Error a = None then Some (MissingField ''error'') else None)
      else Some (UnexpectedType (aa_Type a)))"

definition require_locator :: "string \<Rightarrow> SessionLocator option \<Rightarrow> invalid option" where
  "require_locator field lo =
     (case lo of
        None \<Rightarrow> Some (MissingField field)
      | Some l \<Rightarrow> map_option (BadLocator field) (Locator_Validate l))"

definition optional_locator :: "string \<Rightarrow> SessionLocator option \<Rightarrow> invalid option" where
  "optional_locator field lo =
     (case lo of None \<Rightarrow> None | Some l \<Rightarrow> map_option (BadLocator field) (Locator_Validate l))"

definition validate_kind :: "PeerRequest \<Rightarrow> invalid option" where
  "validate_kind r =
     (if pq_Type r = ''MsgSend'' then require_locator ''to'' (pq_To r)
      else if pq_Type r = ''MsgRequest'' then require_locator ''to'' (pq_To r)
      else if pq_Type r = ''MsgRead'' then require_locator ''session'' (pq_Session r)
      else if pq_Type r = ''MsgListen'' then optional_locator ''session'' (pq_Session r)
      else if pq_Type r = ''MsgReply'' then
        (if pq_RequestID r = [] then Some (MissingField ''request_id'') else None)
      else Some (UnsupportedType (pq_Type r)))"

definition PeerRequest_Validate :: "PeerRequest \<Rightarrow> invalid option" where
  "PeerRequest_Validate r =
     (if pq_OpID r = [] then Some MissingOpID
      else (case validate_kind r of
              Some err \<Rightarrow> Some err
            | None \<Rightarrow> optional_locator ''from'' (pq_From r)))"

definition PeerResponse_Validate :: "'e PeerResponse \<Rightarrow> invalid option" where
  "PeerResponse_Validate r =
     (if ps_OpID r = [] then Some MissingOpID
      else if ps_Type r \<in> {''MsgSent'', ''MsgReadResult'', ''MsgRequestResult'', ''MsgReplySent'',
                            ''MsgListenAck'', ''Event'', ''Error''} then None
      else Some (UnsupportedType (ps_Type r)))"

section \<open>Exchange\<close>

datatype peer_error =
    FrameFailed frame_error
  | WriteFailed write_error
  | NotControl byte
  | ParseFailed
  | EncodeFailed
  | InvalidMessage invalid

definition readJSONFrame :: "(bytes \<Rightarrow> 'v option) \<Rightarrow> stream \<Rightarrow> (peer_error + 'v option) \<times> stream" where
  "readJSONFrame dec r =
     (case read_frame r of
        (Inl e, r1) \<Rightarrow> (Inl (FrameFailed e), r1)
      | (Inr None, r1) \<Rightarrow> (Inr None, r1)
      | (Inr (Some f), r1) \<Rightarrow>
          if frame_type f \<noteq> FrameControl then (Inl (NotControl (frame_type f)), r1)
          else (case dec (frame_payload f) of
                  None \<Rightarrow> (Inl ParseFailed, r1)
                | Some v \<Rightarrow> (Inr (Some v), r1)))"

definition writeJSONFrame :: "('v \<Rightarrow> bytes option) \<Rightarrow> sink \<Rightarrow> 'v \<Rightarrow> (peer_error + unit) \<times> sink" where
  "writeJSONFrame enc w v =
     (case enc v of
        None \<Rightarrow> (Inl EncodeFailed, w)
      | Some payload \<Rightarrow>
          (case write_frame w \<lparr>frame_type = FrameControl, frame_payload = payload\<rparr> of
             (Inl e, w1) \<Rightarrow> (Inl (WriteFailed e), w1)
           | (Inr _, w1) \<Rightarrow> (Inr (), w1)))"

text \<open>The shape of the four readers and of the four writers, with the message's validation.\<close>

definition read_valid ::
  "('v \<Rightarrow> invalid option) \<Rightarrow> (bytes \<Rightarrow> 'v option) \<Rightarrow> stream \<Rightarrow> (peer_error + 'v option) \<times> stream" where
  "read_valid validate dec r =
     (case readJSONFrame dec r of
        (Inl e, r1) \<Rightarrow> (Inl e, r1)
      | (Inr None, r1) \<Rightarrow> (Inr None, r1)
      | (Inr (Some v), r1) \<Rightarrow>
          (case validate v of Some err \<Rightarrow> (Inl (InvalidMessage err), r1) | None \<Rightarrow> (Inr (Some v), r1)))"

definition write_valid ::
  "('v \<Rightarrow> invalid option) \<Rightarrow> ('v \<Rightarrow> bytes option) \<Rightarrow> sink \<Rightarrow> 'v option \<Rightarrow> (peer_error + unit) \<times> sink" where
  "write_valid validate enc w vo =
     (case vo of
        None \<Rightarrow> (Inl (InvalidMessage NilMessage), w)
      | Some v \<Rightarrow>
          (case validate v of
             Some err \<Rightarrow> (Inl (InvalidMessage err), w)
           | None \<Rightarrow> writeJSONFrame enc w v))"

definition ReadRequest where "ReadRequest = read_valid PeerRequest_Validate"
definition WriteRequest where "WriteRequest = write_valid PeerRequest_Validate"
definition ReadResponse where "ReadResponse = read_valid PeerResponse_Validate"
definition WriteResponse where "WriteResponse = write_valid PeerResponse_Validate"
definition ReadAuthHello where "ReadAuthHello = read_valid AuthHello_Validate"
definition WriteAuthHello where "WriteAuthHello = write_valid AuthHello_Validate"
definition ReadAuthAck where "ReadAuthAck = read_valid AuthAck_Validate"
definition WriteAuthAck where "WriteAuthAck = write_valid AuthAck_Validate"

section \<open>A valid message survives the connection\<close>

lemma Locator_Validate_None:
  "Locator_Validate l = None \<longleftrightarrow> (loc_ID l = None) \<noteq> (loc_Name l = [])"
  by (auto simp: Locator_Validate_def)

text \<open>What is on the wire after a valid message was written.\<close>

definition message_frame :: "bytes \<Rightarrow> bytes" where
  "message_frame payload = frame_bytes \<lparr>frame_type = FrameControl, frame_payload = payload\<rparr>"

lemma write_valid_bytes:
  assumes "validate v = None" "enc v = Some payload" "sink_room w = None"
  shows "write_valid validate enc w (Some v) = (Inr (), w\<lparr>sink_written := sink_written w @ message_frame payload\<rparr>)"
  using assms by (simp add: write_valid_def writeJSONFrame_def write_frame_bytes message_frame_def)

lemma read_valid_bytes:
  assumes "validate v = None" "dec payload = Some v" "length payload \<le> unat MaxPayload"
  shows "read_valid validate dec (r\<lparr>pending_bytes := message_frame payload @ rest\<rparr>) =
    (Inr (Some v), r\<lparr>pending_bytes := rest\<rparr>)"
proof -
  have "frame_ok \<lparr>frame_type = FrameControl, frame_payload = payload\<rparr>"
    using assms(3) by (simp add: frame_ok_def)
  from read_frame_bytes [OF this] assms(1,2) show ?thesis
    by (simp add: read_valid_def readJSONFrame_def message_frame_def)
qed

text \<open>Nothing invalid gets through either end.\<close>

lemma read_valid_sound:
  "read_valid validate dec r = (Inr (Some v), r1) \<Longrightarrow> validate v = None"
  by (auto simp: read_valid_def split: prod.splits sum.splits option.splits)

lemma write_invalid:
  "validate v = Some err \<Longrightarrow> write_valid validate enc w (Some v) = (Inl (InvalidMessage err), w)"
  by (simp add: write_valid_def)

text \<open>The peer protocol's messages, as the framing contract sees them.\<close>

definition sendable :: "('v \<Rightarrow> invalid option) \<Rightarrow> ('v \<Rightarrow> bytes option) \<Rightarrow> (bytes \<Rightarrow> 'v option) \<Rightarrow> 'v \<Rightarrow> bool" where
  "sendable validate enc dec v \<longleftrightarrow>
     validate v = None \<and>
     (case enc v of None \<Rightarrow> False | Some p \<Rightarrow> dec p = Some v \<and> length p \<le> unat MaxPayload)"

interpretation peer_messages: framing "read_valid validate dec" "\<lambda>v. message_frame (the (enc v))" Some
  "sendable validate enc dec" for validate enc dec
proof unfold_locales
  fix f r rest
  assume "sendable validate enc dec f"
  then show "read_valid validate dec (r\<lparr>pending_bytes := message_frame (the (enc f)) @ rest\<rparr>) =
      (Inr (Some f), r\<lparr>pending_bytes := rest\<rparr>)"
    by (auto simp: sendable_def read_valid_bytes split: option.splits)
qed

definition write_valids where
  "write_valids validate enc w vs = foldl (\<lambda>w v. snd (write_valid validate enc w (Some v))) w vs"

lemma write_valids_bytes:
  "list_all (sendable validate enc dec) vs \<Longrightarrow> sink_room w = None \<Longrightarrow>
   sink_written (write_valids validate enc w vs) = sink_written w @ concat (map (\<lambda>v. message_frame (the (enc v))) vs)"
  unfolding write_valids_def
proof (induction vs arbitrary: w)
  case (Cons v vs)
  then obtain p where "enc v = Some p" "validate v = None"
    by (auto simp: sendable_def split: option.splits)
  with Cons show ?case by (simp add: write_valid_bytes)
qed simp

end
