(* ===== verification/Base64.thy ===== *)
theory Base64
  imports Prelude
begin

text \<open>
  \<open>base64.RawURLEncoding\<close> of Go's standard library, which the credentials of
  \<open>internal/networkauth\<close> are written in: six bits per character of the URL alphabet, no
  padding. Decoding skips line breaks, rejects any other byte outside of the alphabet and a
  single left-over character, and ignores the unused low bits of the last character.
\<close>

section \<open>The alphabet\<close>

definition b64_alphabet :: string where
  "b64_alphabet = ''ABCDEFGHIJKLMNOPQRSTUVWXYZabcdefghijklmnopqrstuvwxyz0123456789-_''"

definition b64_char :: "nat \<Rightarrow> byte" where
  "b64_char n = b64_alphabet ! n"

fun index_from :: "nat \<Rightarrow> string \<Rightarrow> byte \<Rightarrow> nat option" where
  "index_from i [] c = None"
| "index_from i (x # xs) c = (if x = c then Some i else index_from (Suc i) xs c)"

definition b64_val :: "byte \<Rightarrow> nat option" where
  "b64_val c = index_from 0 b64_alphabet c"

section \<open>Encoding and decoding\<close>

fun b64_encode :: "bytes \<Rightarrow> string" where
  "b64_encode [] = []"
| "b64_encode [a] =
     (let n = of_char a * 16 in [b64_char (n div 64), b64_char (n mod 64)])"
| "b64_encode [a, b] =
     (let n = (of_char a * 256 + of_char b) * 4
      in [b64_char (n div 4096), b64_char (n div 64 mod 64), b64_char (n mod 64)])"
| "b64_encode (a # b # c # s) =
     (let n = of_char a * 65536 + of_char b * 256 + of_char c
      in [b64_char (n div 262144), b64_char (n div 4096 mod 64), b64_char (n div 64 mod 64),
          b64_char (n mod 64)] @ b64_encode s)"

fun b64_groups :: "nat list \<Rightarrow> bytes option" where
  "b64_groups [] = Some []"
| "b64_groups [p] = None"
| "b64_groups [p, q] = Some [char_of ((p * 64 + q) div 16)]"
| "b64_groups [p, q, r] =
     (let n = (p * 4096 + q * 64 + r) div 4 in Some [char_of (n div 256), char_of (n mod 256)])"
| "b64_groups (p # q # r # s # vs) =
     (let n = p * 262144 + q * 4096 + r * 64 + s in
      map_option (\<lambda>bs. [char_of (n div 65536), char_of (n div 256 mod 256), char_of (n mod 256)] @ bs)
        (b64_groups vs))"

fun all_some :: "'a option list \<Rightarrow> 'a list option" where
  "all_some [] = Some []"
| "all_some (None # xs) = None"
| "all_some (Some x # xs) = map_option (Cons x) (all_some xs)"

definition b64_decode :: "string \<Rightarrow> bytes option" where
  "b64_decode s =
     Option.bind (all_some (map b64_val (filter (\<lambda>c. c \<noteq> CHR 0x0A \<and> c \<noteq> CHR 0x0D) s))) b64_groups"

section \<open>Round trip\<close>

lemma b64_alphabet_facts:
  "length b64_alphabet = 64" "distinct b64_alphabet"
  "CHR 0x0A \<notin> set b64_alphabet" "CHR 0x0D \<notin> set b64_alphabet" "CHR ''.'' \<notin> set b64_alphabet"
  by (simp_all add: b64_alphabet_def)

lemma index_from_nth: "distinct xs \<Longrightarrow> n < length xs \<Longrightarrow> index_from i xs (xs ! n) = Some (i + n)"
proof (induction xs arbitrary: i n)
  case (Cons x xs)
  then show ?case by (cases n) auto
qed simp

lemma b64_val_char: "n < 64 \<Longrightarrow> b64_val (b64_char n) = Some n"
  using index_from_nth [of b64_alphabet n 0] b64_alphabet_facts by (simp add: b64_val_def b64_char_def)

lemma b64_char_in: "n < 64 \<Longrightarrow> b64_char n \<in> set b64_alphabet"
  using b64_alphabet_facts(1) by (simp add: b64_char_def)

lemma of_char_lt: "(of_char c :: nat) < 256"
  using nat_of_char_less_256 [of c] by simp

lemma all_some_vals:
  "list_all (\<lambda>n. n < 64) ns \<Longrightarrow> all_some (map b64_val (map b64_char ns)) = Some ns"
  by (induction ns) (simp_all add: b64_val_char)

text \<open>The six-bit values of the encoding, and the groups they make.\<close>

fun sextets :: "bytes \<Rightarrow> nat list" where
  "sextets [] = []"
| "sextets [a] = (let n = of_char a * 16 in [n div 64, n mod 64])"
| "sextets [a, b] = (let n = (of_char a * 256 + of_char b) * 4 in [n div 4096, n div 64 mod 64, n mod 64])"
| "sextets (a # b # c # s) =
     (let n = of_char a * 65536 + of_char b * 256 + of_char c
      in [n div 262144, n div 4096 mod 64, n div 64 mod 64, n mod 64] @ sextets s)"

lemma b64_encode_sextets: "b64_encode bs = map b64_char (sextets bs)"
  by (induction bs rule: sextets.induct) (simp_all add: Let_def)

lemma high_sextet2: "(a :: nat) < 256 \<Longrightarrow> b < 256 \<Longrightarrow> ((a * 256 + b) * 4) div 4096 < 64"
  by (intro less_mult_imp_div_less) simp

lemma sextets_small: "list_all (\<lambda>n. n < 64) (sextets bs)"
proof (induction bs rule: sextets.induct)
  case (2 a)
  have "(of_char a * 16) div 64 < (64 :: nat)"
    using of_char_lt [of a] by (intro less_mult_imp_div_less) linarith
  then show ?case by (simp only: sextets.simps Let_def list.pred_inject) simp
next
  case (3 a b)
  have "((of_char a * 256 + of_char b) * 4) div 4096 < (64 :: nat)"
    by (rule high_sextet2 [OF of_char_lt of_char_lt])
  then show ?case by (simp only: sextets.simps Let_def list.pred_inject) simp
next
  case (4 a b c s)
  have "(of_char a * 65536 + of_char b * 256 + of_char c) div 262144 < (64 :: nat)"
    using of_char_lt [of a] of_char_lt [of b] of_char_lt [of c] by (intro less_mult_imp_div_less) linarith
  with 4 show ?case by (simp only: sextets.simps Let_def list.pred_inject append_Cons append_Nil) simp
qed simp

lemma b64_encode_alphabet: "set (b64_encode bs) \<subseteq> set b64_alphabet"
  using sextets_small [of bs] by (auto simp: b64_encode_sextets list_all_iff b64_char_in)

lemma join_sextets:
  fixes n :: nat
  shows "n div 64 * 64 + n mod 64 = n"
    and "n div 4096 * 4096 + n div 64 mod 64 * 64 + n mod 64 = n"
    and "n div 262144 * 262144 + n div 4096 mod 64 * 4096 + n div 64 mod 64 * 64 + n mod 64 = n"
proof -
  have q: "m = m div 64 * 64 + m mod 64" for m :: nat by simp
  have d: "n div 4096 = n div 64 div 64" "n div 262144 = n div 4096 div 64"
    by (simp_all add: div_mult2_eq [symmetric])
  show one: "n div 64 * 64 + n mod 64 = n" by simp
  show two: "n div 4096 * 4096 + n div 64 mod 64 * 64 + n mod 64 = n"
    using q [of "n div 64"] one d(1) by linarith
  show "n div 262144 * 262144 + n div 4096 mod 64 * 4096 + n div 64 mod 64 * 64 + n mod 64 = n"
    using q [of "n div 4096"] two d(2) by linarith
qed

lemma split_bytes:
  fixes a b c :: nat
  assumes "a < 256" "b < 256" "c < 256"
  shows "(a * 65536 + b * 256 + c) div 65536 = a" "(a * 65536 + b * 256 + c) div 256 mod 256 = b"
    "(a * 65536 + b * 256 + c) mod 256 = c" "(a * 256 + b) div 256 = a" "(a * 256 + b) mod 256 = b"
proof -
  have n: "a * 65536 + b * 256 + c = (a * 256 + b) * 256 + c" by simp
  have q: "(a * 65536 + b * 256 + c) div 256 = a * 256 + b"
    unfolding n using assms(3) by simp
  show "(a * 65536 + b * 256 + c) mod 256 = c"
    unfolding n using assms(3) by (simp only: mod_mult_self3 mod_less)
  show ab: "(a * 256 + b) div 256 = a" "(a * 256 + b) mod 256 = b" using assms(2) by simp_all
  show "(a * 65536 + b * 256 + c) div 256 mod 256 = b" by (simp only: q ab)
  have "(a * 65536 + b * 256 + c) div 65536 = (a * 65536 + b * 256 + c) div 256 div 256"
    by (simp add: div_mult2_eq [symmetric])
  then show "(a * 65536 + b * 256 + c) div 65536 = a" by (simp only: q ab)
qed

lemma b64_groups_sextets: "b64_groups (sextets bs) = Some bs"
proof (induction bs rule: sextets.induct)
  case (2 a)
  show ?case by (simp only: sextets.simps Let_def b64_groups.simps join_sextets(1)) simp
next
  case (3 a b)
  show ?case
    using split_bytes [OF of_char_lt [of a] of_char_lt [of b] of_char_lt [of a]]
      join_sextets(2) [of "(of_char a * 256 + of_char b) * 4"]
    by (simp only: sextets.simps Let_def b64_groups.simps) simp
next
  case (4 a b c s)
  show ?case
    using split_bytes [OF of_char_lt [of a] of_char_lt [of b] of_char_lt [of c]] 4
      join_sextets(3) [of "of_char a * 65536 + of_char b * 256 + of_char c"]
    by (simp only: sextets.simps Let_def b64_groups.simps append_Cons append_Nil option.map) simp
qed simp

theorem b64_roundtrip: "b64_decode (b64_encode bs) = Some bs"
proof -
  have "filter (\<lambda>c. c \<noteq> CHR 0x0A \<and> c \<noteq> CHR 0x0D) (b64_encode bs) = b64_encode bs"
    using b64_encode_alphabet [of bs] b64_alphabet_facts(3,4) by (intro filter_True) auto
  then show ?thesis
    by (simp only: b64_decode_def b64_encode_sextets all_some_vals [OF sextets_small] bind.simps b64_groups_sextets)
qed

lemma b64_no_dot: "CHR ''.'' \<notin> set (b64_encode bs)"
  using b64_encode_alphabet [of bs] b64_alphabet_facts(5) by blast

end
