(* ===== verification/NetworkAuth.thy ===== *)
theory NetworkAuth
  imports Base64
begin

text \<open>
  The signed credentials of \<open>internal/networkauth\<close>: runtime credentials, sender delegations and
  observer delegations (\<open>types.go\<close>, \<open>runtime.go\<close>), and the verifier bundle cache (\<open>cache.go\<close>).

  Ed25519 is the parameter \<open>crypto\<close>; the JSON coding of a claims struct is the pair \<open>enc\<close>,
  \<open>dec\<close>. \<open>ed25519.Sign\<close> and \<open>ed25519.Verify\<close> panic on a key of the wrong length; that is the
  error \<open>BadKeyLength\<close>. A nil pointer is \<open>None\<close>, and the random identifier an argument.
\<close>

section \<open>Types\<close>

record ed25519 =
  ed_sign :: "bytes \<Rightarrow> bytes \<Rightarrow> bytes"
  ed_verify :: "bytes \<Rightarrow> bytes \<Rightarrow> bytes \<Rightarrow> bool"

record VerifierKey =
  vk_KeyID :: string
  vk_Algorithm :: string
  vk_PublicKey :: string

record VerifierBundle =
  vb_NetworkID :: string
  vb_Issuer :: string
  vb_Keys :: "VerifierKey list"
  vb_Version :: uint64
  vb_ExpiresAt :: nanos

record RuntimeClaims =
  rt_Kind :: string
  rt_NetworkID :: string
  rt_SubjectKind :: string
  rt_SubjectID :: string
  rt_Issuer :: string
  rt_KeyID :: string
  rt_IssuedAt :: nanos
  rt_ExpiresAt :: nanos
  rt_JTI :: string

record IssuerState =
  is_NetworkID :: string
  is_Issuer :: string
  is_KeyID :: string
  is_PrivateKey :: string
  is_PublicKey :: string
  is_CreatedAt :: nanos
  is_Version :: uint64

record SenderDelegationClaims =
  sd_Kind :: string
  sd_NetworkID :: string
  sd_SourceNode :: string
  sd_FromSessionID :: "uint32 option"
  sd_FromSessionName :: string
  sd_SourceGroups :: "string list"
  sd_Verbs :: "string list"
  sd_AudienceNode :: string
  sd_Issuer :: string
  sd_KeyID :: string
  sd_IssuedAt :: nanos
  sd_ExpiresAt :: nanos
  sd_JTI :: string

record ObserverDelegationClaims =
  og_Kind :: string
  og_NetworkID :: string
  og_TargetNode :: string
  og_SessionID :: "uint32 option"
  og_SessionName :: string
  og_Verbs :: "string list"
  og_AudienceSubjectKind :: string
  og_AudienceSubjectID :: string
  og_Issuer :: string
  og_KeyID :: string
  og_IssuedAt :: nanos
  og_ExpiresAt :: nanos
  og_JTI :: string

definition RuntimeTokenPrefix :: string where "RuntimeTokenPrefix = ''cwrt1''"
definition SenderTokenPrefix :: string where "SenderTokenPrefix = ''cwsd1''"
definition ObserverTokenPrefix :: string where "ObserverTokenPrefix = ''cwog1''"
definition AlgorithmEd25519 :: string where "AlgorithmEd25519 = ''Ed25519''"
definition SubjectKindClient :: string where "SubjectKindClient = ''client''"
definition SubjectKindNode :: string where "SubjectKindNode = ''node''"
definition RuntimeKind :: string where "RuntimeKind = ''runtime''"
definition SenderDelegationKind :: string where "SenderDelegationKind = ''sender''"
definition ObserverDelegationKind :: string where "ObserverDelegationKind = ''observer''"
definition DefaultBundleValidity :: nanos where "DefaultBundleValidity = 15 * seconds 60"
definition DefaultRuntimeTTL :: nanos where "DefaultRuntimeTTL = 5 * seconds 60"
definition DefaultSenderTTL :: nanos where "DefaultSenderTTL = 2 * seconds 60"
definition DefaultObserverTTL :: nanos where "DefaultObserverTTL = 10 * seconds 60"
definition maxClockSkew :: nanos where "maxClockSkew = seconds 30"

datatype auth_error =
    NilState | NilBundle | NilClaims
  | FieldRequired string
  | BadPrivateKey | BadPublicKey | BadKeyLength
  | MarshalError | BadFormat | BadBase64 | BadPayload
  | WrongKind string
  | WrongNetwork string
  | BundleExpired | IssuedInFuture | TokenExpired
  | UnsupportedAlgorithm string
  | NoVerifierKey string
  | BadSignature
  | ReplayKeyIncomplete
  | ReplayDetected string
  | FetchFailed

definition ResolveNetworkID :: "string \<Rightarrow> string" where
  "ResolveNetworkID raw = trim_space raw"

section \<open>Issuer state and bundle\<close>

definition NewIssuerState :: "string \<Rightarrow> bytes \<Rightarrow> bytes \<Rightarrow> string \<Rightarrow> nanos \<Rightarrow> IssuerState" where
  "NewIssuerState networkID publicKey privateKey keyID now =
     \<lparr>is_NetworkID = ResolveNetworkID networkID, is_Issuer = ''relay:'' @ ResolveNetworkID networkID,
      is_KeyID = keyID, is_PrivateKey = b64_encode privateKey, is_PublicKey = b64_encode publicKey,
      is_CreatedAt = now, is_Version = 1\<rparr>"

definition Bundle :: "IssuerState \<Rightarrow> nanos \<Rightarrow> nanos \<Rightarrow> VerifierBundle" where
  "Bundle s now validity =
     \<lparr>vb_NetworkID = ResolveNetworkID (is_NetworkID s), vb_Issuer = is_Issuer s,
      vb_Keys = [\<lparr>vk_KeyID = is_KeyID s, vk_Algorithm = AlgorithmEd25519, vk_PublicKey = is_PublicKey s\<rparr>],
      vb_Version = is_Version s,
      vb_ExpiresAt = now + (if validity \<le> 0 then DefaultBundleValidity else validity)\<rparr>"

section \<open>The parts every credential shares\<close>

text \<open>The end of the three signing functions: encode the claims, sign, join the three parts.\<close>

definition sign_claims ::
  "ed25519 \<Rightarrow> ('c \<Rightarrow> bytes option) \<Rightarrow> string \<Rightarrow> IssuerState \<Rightarrow> 'c \<Rightarrow> auth_error + string \<times> 'c" where
  "sign_claims crypto enc pre state claims =
     (case b64_decode (is_PrivateKey state) of
        None \<Rightarrow> Inl BadPrivateKey
      | Some privateKey \<Rightarrow>
          (case enc claims of
             None \<Rightarrow> Inl MarshalError
           | Some payload \<Rightarrow>
               if length privateKey \<noteq> 64 then Inl BadKeyLength
               else
                 let signature = ed_sign crypto privateKey payload in
                 Inr (join_with ''.'' [pre, b64_encode payload, b64_encode signature], claims)))"

text \<open>The start of the three verifying functions: split, decode, parse.\<close>

definition parse_token ::
  "(bytes \<Rightarrow> 'c option) \<Rightarrow> string \<Rightarrow> string \<Rightarrow> auth_error + 'c \<times> bytes \<times> bytes" where
  "parse_token dec pre token =
     (case split_on (CHR ''.'') token of
        [p0, p1, p2] \<Rightarrow>
          if p0 \<noteq> pre then Inl BadFormat
          else (case b64_decode p1 of
             None \<Rightarrow> Inl BadBase64
           | Some payload \<Rightarrow>
               (case b64_decode p2 of
                  None \<Rightarrow> Inl BadBase64
                | Some signature \<Rightarrow>
                    (case dec payload of
                       None \<Rightarrow> Inl BadPayload
                     | Some claims \<Rightarrow> Inr (claims, payload, signature))))
      | _ \<Rightarrow> Inl BadFormat)"

text \<open>The checks of kind, network and time, in the order of the source; \<open>None\<close> passes.\<close>

definition check_claims ::
  "string \<Rightarrow> VerifierBundle \<Rightarrow> nanos \<Rightarrow> string \<Rightarrow> string \<Rightarrow> nanos \<Rightarrow> nanos \<Rightarrow> auth_error option" where
  "check_claims wantKind bundle now kind networkID issuedAt expiresAt =
     (if kind \<noteq> wantKind then Some (WrongKind kind)
      else if networkID \<noteq> ResolveNetworkID (vb_NetworkID bundle) then Some (WrongNetwork networkID)
      else if vb_ExpiresAt bundle + maxClockSkew < now then Some BundleExpired
      else if now < issuedAt - maxClockSkew then Some IssuedInFuture
      else if expiresAt + maxClockSkew < now then Some TokenExpired
      else None)"

text \<open>The loop over the bundle's keys: the first key with the identifier decides.\<close>

fun find_key :: "VerifierKey list \<Rightarrow> string \<Rightarrow> auth_error + bytes" where
  "find_key [] kid = Inr []"
| "find_key (key # keys) kid =
     (if vk_KeyID key \<noteq> kid then find_key keys kid
      else if vk_Algorithm key \<noteq> AlgorithmEd25519 then Inl (UnsupportedAlgorithm (vk_Algorithm key))
      else (case b64_decode (vk_PublicKey key) of
              None \<Rightarrow> Inl BadPublicKey
            | Some keyBytes \<Rightarrow> Inr keyBytes))"

definition check_signature ::
  "ed25519 \<Rightarrow> VerifierBundle \<Rightarrow> string \<Rightarrow> bytes \<Rightarrow> bytes \<Rightarrow> auth_error option" where
  "check_signature crypto bundle kid payload signature =
     (case find_key (vb_Keys bundle) kid of
        Inl err \<Rightarrow> Some err
      | Inr publicKey \<Rightarrow>
          if length publicKey = 0 then Some (NoVerifierKey kid)
          else if length publicKey \<noteq> 32 then Some BadKeyLength
          else if \<not> ed_verify crypto publicKey payload signature then Some BadSignature
          else None)"

section \<open>Runtime credentials\<close>

definition SignRuntimeCredential ::
  "ed25519 \<Rightarrow> (RuntimeClaims \<Rightarrow> bytes option) \<Rightarrow> string \<Rightarrow> IssuerState option \<Rightarrow> string \<Rightarrow> string \<Rightarrow> nanos \<Rightarrow> nanos \<Rightarrow>
   auth_error + string \<times> RuntimeClaims" where
  "SignRuntimeCredential crypto enc jti st subjectKind subjectID now ttl0 =
     (case st of
        None \<Rightarrow> Inl NilState
      | Some state \<Rightarrow>
          if trim_space subjectKind = [] then Inl (FieldRequired ''subject kind'')
          else if trim_space subjectID = [] then Inl (FieldRequired ''subject id'')
          else
            let ttl = (if ttl0 \<le> 0 then DefaultRuntimeTTL else ttl0) in
            sign_claims crypto enc RuntimeTokenPrefix state
              \<lparr>rt_Kind = RuntimeKind, rt_NetworkID = ResolveNetworkID (is_NetworkID state),
               rt_SubjectKind = subjectKind, rt_SubjectID = subjectID, rt_Issuer = is_Issuer state,
               rt_KeyID = is_KeyID state, rt_IssuedAt = now, rt_ExpiresAt = now + ttl, rt_JTI = jti\<rparr>)"

definition VerifyRuntimeCredential ::
  "ed25519 \<Rightarrow> (bytes \<Rightarrow> RuntimeClaims option) \<Rightarrow> string \<Rightarrow> VerifierBundle option \<Rightarrow> nanos \<Rightarrow>
   auth_error + RuntimeClaims" where
  "VerifyRuntimeCredential crypto dec token bn now =
     (case bn of
        None \<Rightarrow> Inl NilBundle
      | Some bundle \<Rightarrow>
          (case parse_token dec RuntimeTokenPrefix token of
             Inl err \<Rightarrow> Inl err
           | Inr (claims, payload, signature) \<Rightarrow>
               (case check_claims RuntimeKind bundle now (rt_Kind claims) (rt_NetworkID claims)
                       (rt_IssuedAt claims) (rt_ExpiresAt claims) of
                  Some err \<Rightarrow> Inl err
                | None \<Rightarrow>
                    (case check_signature crypto bundle (rt_KeyID claims) payload signature of
                       Some err \<Rightarrow> Inl err
                     | None \<Rightarrow> Inr claims))))"

definition ParseRuntimeCredential :: "(bytes \<Rightarrow> RuntimeClaims option) \<Rightarrow> string \<Rightarrow> auth_error + RuntimeClaims" where
  "ParseRuntimeCredential dec token =
     (case parse_token dec RuntimeTokenPrefix token of
        Inl err \<Rightarrow> Inl err
      | Inr (claims, payload, signature) \<Rightarrow> Inr claims)"

section \<open>Sender delegations\<close>

definition SignSenderDelegation ::
  "ed25519 \<Rightarrow> (SenderDelegationClaims \<Rightarrow> bytes option) \<Rightarrow> string \<Rightarrow> IssuerState option \<Rightarrow> string \<Rightarrow> uint32 option \<Rightarrow>
   string \<Rightarrow> string list \<Rightarrow> string list \<Rightarrow> string \<Rightarrow> nanos \<Rightarrow> nanos \<Rightarrow> auth_error + string \<times> SenderDelegationClaims" where
  "SignSenderDelegation crypto enc jti st sourceNode fromSessionID fromSessionName sourceGroups verbs audienceNode now ttl0 =
     (case st of
        None \<Rightarrow> Inl NilState
      | Some state \<Rightarrow>
          if trim_space sourceNode = [] then Inl (FieldRequired ''source node'')
          else if fromSessionID = None \<and> trim_space fromSessionName = [] then Inl (FieldRequired ''session'')
          else if length verbs = 0 then Inl (FieldRequired ''verb'')
          else
            let ttl = (if ttl0 \<le> 0 then DefaultSenderTTL else ttl0) in
            sign_claims crypto enc SenderTokenPrefix state
              \<lparr>sd_Kind = SenderDelegationKind, sd_NetworkID = ResolveNetworkID (is_NetworkID state),
               sd_SourceNode = trim_space sourceNode, sd_FromSessionID = fromSessionID,
               sd_FromSessionName = trim_space fromSessionName, sd_SourceGroups = sourceGroups,
               sd_Verbs = verbs, sd_AudienceNode = trim_space audienceNode, sd_Issuer = is_Issuer state,
               sd_KeyID = is_KeyID state, sd_IssuedAt = now, sd_ExpiresAt = now + ttl, sd_JTI = jti\<rparr>)"

definition VerifySenderDelegation ::
  "ed25519 \<Rightarrow> (bytes \<Rightarrow> SenderDelegationClaims option) \<Rightarrow> string \<Rightarrow> VerifierBundle option \<Rightarrow> nanos \<Rightarrow>
   auth_error + SenderDelegationClaims" where
  "VerifySenderDelegation crypto dec token bn now =
     (case bn of
        None \<Rightarrow> Inl NilBundle
      | Some bundle \<Rightarrow>
          (case parse_token dec SenderTokenPrefix token of
             Inl err \<Rightarrow> Inl err
           | Inr (claims, payload, signature) \<Rightarrow>
               (case check_claims SenderDelegationKind bundle now (sd_Kind claims) (sd_NetworkID claims)
                       (sd_IssuedAt claims) (sd_ExpiresAt claims) of
                  Some err \<Rightarrow> Inl err
                | None \<Rightarrow>
                    (case check_signature crypto bundle (sd_KeyID claims) payload signature of
                       Some err \<Rightarrow> Inl err
                     | None \<Rightarrow> Inr claims))))"

section \<open>Observer delegations\<close>

definition SignObserverDelegation ::
  "ed25519 \<Rightarrow> (ObserverDelegationClaims \<Rightarrow> bytes option) \<Rightarrow> string \<Rightarrow> IssuerState option \<Rightarrow> string \<Rightarrow> uint32 option \<Rightarrow>
   string \<Rightarrow> string list \<Rightarrow> string \<Rightarrow> string \<Rightarrow> nanos \<Rightarrow> nanos \<Rightarrow> auth_error + string \<times> ObserverDelegationClaims" where
  "SignObserverDelegation crypto enc jti st targetNode sessionID sessionName verbs audienceSubjectKind audienceSubjectID now ttl0 =
     (case st of
        None \<Rightarrow> Inl NilState
      | Some state \<Rightarrow>
          if trim_space targetNode = [] then Inl (FieldRequired ''target node'')
          else if sessionID = None \<and> trim_space sessionName = [] then Inl (FieldRequired ''session'')
          else if length verbs = 0 then Inl (FieldRequired ''verb'')
          else if trim_space audienceSubjectKind = [] then Inl (FieldRequired ''audience subject kind'')
          else if trim_space audienceSubjectID = [] then Inl (FieldRequired ''audience subject id'')
          else
            let ttl = (if ttl0 \<le> 0 then DefaultObserverTTL else ttl0) in
            sign_claims crypto enc ObserverTokenPrefix state
              \<lparr>og_Kind = ObserverDelegationKind, og_NetworkID = ResolveNetworkID (is_NetworkID state),
               og_TargetNode = trim_space targetNode, og_SessionID = sessionID,
               og_SessionName = trim_space sessionName, og_Verbs = verbs,
               og_AudienceSubjectKind = trim_space audienceSubjectKind,
               og_AudienceSubjectID = trim_space audienceSubjectID, og_Issuer = is_Issuer state,
               og_KeyID = is_KeyID state, og_IssuedAt = now, og_ExpiresAt = now + ttl, og_JTI = jti\<rparr>)"

definition VerifyObserverDelegation ::
  "ed25519 \<Rightarrow> (bytes \<Rightarrow> ObserverDelegationClaims option) \<Rightarrow> string \<Rightarrow> VerifierBundle option \<Rightarrow> nanos \<Rightarrow>
   auth_error + ObserverDelegationClaims" where
  "VerifyObserverDelegation crypto dec token bn now =
     (case bn of
        None \<Rightarrow> Inl NilBundle
      | Some bundle \<Rightarrow>
          (case parse_token dec ObserverTokenPrefix token of
             Inl err \<Rightarrow> Inl err
           | Inr (claims, payload, signature) \<Rightarrow>
               (case check_claims ObserverDelegationKind bundle now (og_Kind claims) (og_NetworkID claims)
                       (og_IssuedAt claims) (og_ExpiresAt claims) of
                  Some err \<Rightarrow> Inl err
                | None \<Rightarrow>
                    (case check_signature crypto bundle (og_KeyID claims) payload signature of
                       Some err \<Rightarrow> Inl err
                     | None \<Rightarrow> Inr claims))))"

definition ParseObserverDelegation ::
  "(bytes \<Rightarrow> ObserverDelegationClaims option) \<Rightarrow> string \<Rightarrow> auth_error + ObserverDelegationClaims" where
  "ParseObserverDelegation dec token =
     (case parse_token dec ObserverTokenPrefix token of
        Inl err \<Rightarrow> Inl err
      | Inr (claims, payload, signature) \<Rightarrow> Inr claims)"

section \<open>The bundle cache\<close>

text \<open>\<open>fetched\<close> is what a fetch would answer: \<open>None\<close> an error, \<open>Some b\<close> the bundle pointer.\<close>

record BundleCache =
  cache_fetch :: bool
  cache_bundle :: "VerifierBundle option"

definition BundleCache_Get ::
  "VerifierBundle option option \<Rightarrow> nanos \<Rightarrow> BundleCache option \<Rightarrow>
   (auth_error + VerifierBundle option) \<times> BundleCache option" where
  "BundleCache_Get fetched now c =
     (case c of
        None \<Rightarrow> (Inl FetchFailed, c)
      | Some cache \<Rightarrow>
          if \<not> cache_fetch cache then (Inl FetchFailed, c)
          else
            (case cache_bundle cache of
               Some b \<Rightarrow>
                 if now < vb_ExpiresAt b - seconds 30 then (Inr (Some b), c)
                 else (case fetched of
                         None \<Rightarrow> (Inl FetchFailed, c)
                       | Some bn \<Rightarrow> (Inr bn, Some (cache\<lparr>cache_bundle := bn\<rparr>)))
             | None \<Rightarrow>
                 (case fetched of
                    None \<Rightarrow> (Inl FetchFailed, c)
                  | Some bn \<Rightarrow> (Inr bn, Some (cache\<lparr>cache_bundle := bn\<rparr>)))))"

section \<open>The contract of a verifier\<close>

lemma sign_claims_result:
  assumes "sign_claims crypto enc pre state claims = Inr (token, c)"
  shows "c = claims"
    and "\<exists>priv payload. b64_decode (is_PrivateKey state) = Some priv \<and> length priv = 64 \<and> enc claims = Some payload \<and>
      token = join_with ''.'' [pre, b64_encode payload, b64_encode (ed_sign crypto priv payload)]"
  using assms by (auto simp: sign_claims_def Let_def split: option.splits if_splits)

lemma sign_claims_same:
  "sign_claims crypto enc pre state claims = Inr (token, c) \<Longrightarrow> sign_claims crypto enc pre state c = Inr (token, c)"
  by (frule sign_claims_result(1)) simp

lemma parse_signed:
  assumes "CHR ''.'' \<notin> set pre"
  shows "parse_token dec pre (join_with ''.'' [pre, b64_encode payload, b64_encode signature]) =
    (case dec payload of None \<Rightarrow> Inl BadPayload | Some claims \<Rightarrow> Inr (claims, payload, signature))"
proof -
  have "split_on (CHR ''.'') (join_with ''.'' [pre, b64_encode payload, b64_encode signature]) =
      [pre, b64_encode payload, b64_encode signature]"
    by (rule split_on_join) (auto simp: assms b64_no_dot)
  then show ?thesis by (simp add: parse_token_def b64_roundtrip)
qed

lemma parse_token_prefix:
  "parse_token dec pre token = Inr x \<Longrightarrow> \<exists>p1 p2. split_on (CHR ''.'') token = [pre, p1, p2]"
  by (auto simp: parse_token_def split: list.splits if_splits)

lemma check_claims_None:
  "check_claims wantKind bundle now kind net issued expires = None \<longleftrightarrow>
     kind = wantKind \<and> net = ResolveNetworkID (vb_NetworkID bundle) \<and>
     now \<le> vb_ExpiresAt bundle + maxClockSkew \<and>
     issued - maxClockSkew \<le> now \<and> now \<le> expires + maxClockSkew"
  by (auto simp: check_claims_def)

lemma find_key_nonempty:
  "find_key keys kid = Inr pk \<Longrightarrow> pk \<noteq> [] \<Longrightarrow>
   \<exists>key. find (\<lambda>k. vk_KeyID k = kid) keys = Some key \<and> vk_Algorithm key = AlgorithmEd25519 \<and>
     b64_decode (vk_PublicKey key) = Some pk"
  by (induction keys) (auto split: if_splits option.splits)

lemma check_signature_None:
  "check_signature crypto bundle kid payload signature = None \<Longrightarrow>
   \<exists>key pk. find (\<lambda>k. vk_KeyID k = kid) (vb_Keys bundle) = Some key \<and> vk_Algorithm key = AlgorithmEd25519 \<and>
     b64_decode (vk_PublicKey key) = Some pk \<and> ed_verify crypto pk payload signature"
  using find_key_nonempty [of "vb_Keys bundle" kid]
  by (auto simp: check_signature_def split: sum.splits if_splits)

text \<open>
  What the three verifiers have in common. \<open>view\<close> reads kind, network, key identifier, issue
  and expiry time from a claims record. The law says that verification is parsing, the checks
  of the claims, and the check of the signature, in this order.
\<close>

locale verifier =
  fixes crypto :: ed25519
    and dec :: "bytes \<Rightarrow> 'c option"
    and pre :: string
    and wantKind :: string
    and view :: "'c \<Rightarrow> string \<times> string \<times> string \<times> nanos \<times> nanos"
    and verify :: "string \<Rightarrow> VerifierBundle option \<Rightarrow> nanos \<Rightarrow> auth_error + 'c"
  assumes no_dot: "CHR ''.'' \<notin> set pre"
    and verify_law: "verify token (Some b) now =
      (case parse_token dec pre token of
         Inl err \<Rightarrow> Inl err
       | Inr (claims, payload, signature) \<Rightarrow>
           (case view claims of (kind, net, kid, issued, expires) \<Rightarrow>
             (case check_claims wantKind b now kind net issued expires of
                Some err \<Rightarrow> Inl err
              | None \<Rightarrow> (case check_signature crypto b kid payload signature of
                           Some err \<Rightarrow> Inl err | None \<Rightarrow> Inr claims))))"
begin

text \<open>Nothing is accepted without a valid signature by a key of the bundle, in time, for its network.\<close>

lemma verify_sound:
  assumes "verify token (Some b) now = Inr claims" "view claims = (kind, net, kid, issued, expires)"
  shows "kind = wantKind \<and> net = ResolveNetworkID (vb_NetworkID b) \<and> now \<le> vb_ExpiresAt b + maxClockSkew \<and>
    issued - maxClockSkew \<le> now \<and> now \<le> expires + maxClockSkew"
    and "\<exists>key pk payload signature. find (\<lambda>k. vk_KeyID k = kid) (vb_Keys b) = Some key \<and>
      vk_Algorithm key = AlgorithmEd25519 \<and> b64_decode (vk_PublicKey key) = Some pk \<and>
      parse_token dec pre token = Inr (claims, payload, signature) \<and> ed_verify crypto pk payload signature"
proof -
  from assms obtain payload signature where p: "parse_token dec pre token = Inr (claims, payload, signature)"
    and c: "check_claims wantKind b now kind net issued expires = None"
    and s: "check_signature crypto b kid payload signature = None"
    by (auto simp: verify_law split: sum.splits prod.splits option.splits)
  from c show "kind = wantKind \<and> net = ResolveNetworkID (vb_NetworkID b) \<and> now \<le> vb_ExpiresAt b + maxClockSkew \<and>
    issued - maxClockSkew \<le> now \<and> now \<le> expires + maxClockSkew"
    by (simp add: check_claims_None)
  from check_signature_None [OF s] p
  show "\<exists>key pk payload signature. find (\<lambda>k. vk_KeyID k = kid) (vb_Keys b) = Some key \<and>
      vk_Algorithm key = AlgorithmEd25519 \<and> b64_decode (vk_PublicKey key) = Some pk \<and>
      parse_token dec pre token = Inr (claims, payload, signature) \<and> ed_verify crypto pk payload signature"
    by blast
qed

text \<open>What was signed verifies exactly while the clock is in its window.\<close>

lemma verify_signed:
  assumes signed: "sign_claims crypto enc pre state claims = Inr (token, c)"
    and codec: "\<And>payload. enc claims = Some payload \<Longrightarrow> dec payload = Some claims"
    and key: "find_key (vb_Keys b) kid = Inr pub" "length pub = 32"
    and keypair: "\<And>priv payload. b64_decode (is_PrivateKey state) = Some priv \<Longrightarrow>
        ed_verify crypto pub payload (ed_sign crypto priv payload)"
    and v: "view claims = (kind, net, kid, issued, expires)"
  shows "verify token (Some b) now =
    (case check_claims wantKind b now kind net issued expires of None \<Rightarrow> Inr claims | Some err \<Rightarrow> Inl err)"
proof -
  obtain priv payload where p: "b64_decode (is_PrivateKey state) = Some priv" "enc claims = Some payload"
    "token = join_with ''.'' [pre, b64_encode payload, b64_encode (ed_sign crypto priv payload)]"
    using sign_claims_result(2) [OF signed] by blast
  have "parse_token dec pre token = Inr (claims, payload, ed_sign crypto priv payload)"
    unfolding p(3) by (simp only: parse_signed [OF no_dot] codec [OF p(2)] option.case)
  moreover have "check_signature crypto b kid payload (ed_sign crypto priv payload) = None"
    using key keypair [OF p(1)] by (auto simp: check_signature_def)
  ultimately show ?thesis using v by (simp add: verify_law split: option.splits)
qed

text \<open>What is accepted has the prefix of its kind, so a token of another kind is refused.\<close>

lemma verify_prefix: "verify token (Some b) now = Inr c \<Longrightarrow> hd (split_on (CHR ''.'') token) = pre"
  by (auto simp: verify_law split: sum.splits dest: parse_token_prefix)

lemma other_prefix_refused:
  assumes "split_on (CHR ''.'') token = p0 # ps" "p0 \<noteq> pre"
  shows "\<exists>err. verify token (Some b) now = Inl err"
proof -
  have "parse_token dec pre token = Inl BadFormat"
    using assms by (simp add: parse_token_def split: list.splits)
  then show ?thesis by (simp add: verify_law)
qed

end

definition runtime_view :: "RuntimeClaims \<Rightarrow> string \<times> string \<times> string \<times> nanos \<times> nanos" where
  "runtime_view c = (rt_Kind c, rt_NetworkID c, rt_KeyID c, rt_IssuedAt c, rt_ExpiresAt c)"

definition sender_view :: "SenderDelegationClaims \<Rightarrow> string \<times> string \<times> string \<times> nanos \<times> nanos" where
  "sender_view c = (sd_Kind c, sd_NetworkID c, sd_KeyID c, sd_IssuedAt c, sd_ExpiresAt c)"

definition observer_view :: "ObserverDelegationClaims \<Rightarrow> string \<times> string \<times> string \<times> nanos \<times> nanos" where
  "observer_view c = (og_Kind c, og_NetworkID c, og_KeyID c, og_IssuedAt c, og_ExpiresAt c)"

interpretation runtime: verifier crypto dec RuntimeTokenPrefix RuntimeKind runtime_view
  "VerifyRuntimeCredential crypto dec" for crypto dec
  by unfold_locales (simp_all add: RuntimeTokenPrefix_def VerifyRuntimeCredential_def runtime_view_def split: sum.split prod.split)

interpretation sender: verifier crypto dec SenderTokenPrefix SenderDelegationKind sender_view
  "VerifySenderDelegation crypto dec" for crypto dec
  by unfold_locales (simp_all add: SenderTokenPrefix_def VerifySenderDelegation_def sender_view_def split: sum.split prod.split)

interpretation observer: verifier crypto dec ObserverTokenPrefix ObserverDelegationKind observer_view
  "VerifyObserverDelegation crypto dec" for crypto dec
  by unfold_locales (simp_all add: ObserverTokenPrefix_def VerifyObserverDelegation_def observer_view_def split: sum.split prod.split)

end
