(* ===== verification/Replay.thy ===== *)
theory Replay
  imports NetworkAuth
begin

text \<open>
  The replay cache of \<open>internal/networkauth/replay.go\<close>: credentials that have been used, each
  with the time until which it is remembered. \<open>consume\<close> holds the lock, so it is one step; a
  nil cache is \<open>None\<close> and accepts everything.
\<close>

section \<open>The cache\<close>

record ReplayCache =
  rc_seen :: "(string, nanos) gomap"

definition NewReplayCache :: ReplayCache where
  "NewReplayCache = \<lparr>rc_seen = []\<rparr>"

definition replay_key :: "string \<Rightarrow> string \<Rightarrow> string \<Rightarrow> string" where
  "replay_key kind networkID jti = kind @ [CHR 0x00] @ networkID @ [CHR 0x00] @ jti"

text \<open>The loop that forgets what has expired.\<close>

definition sweep :: "nanos \<Rightarrow> (string, nanos) gomap \<Rightarrow> (string, nanos) gomap" where
  "sweep now seen = filter (\<lambda>(key, exp). \<not> exp < now) seen"

definition consume ::
  "string \<Rightarrow> string \<Rightarrow> string \<Rightarrow> nanos \<Rightarrow> nanos \<Rightarrow> ReplayCache option \<Rightarrow>
   (auth_error + unit) \<times> ReplayCache option" where
  "consume kind0 networkID0 jti0 expiresAt now co =
     (case co of
        None \<Rightarrow> (Inr (), None)
      | Some c \<Rightarrow>
          let kind = trim_space kind0; networkID = ResolveNetworkID networkID0; jti = trim_space jti0 in
          if kind = [] \<or> jti = [] then (Inl ReplayKeyIncomplete, co)
          else
            let seen = sweep now (rc_seen c); key = replay_key kind networkID jti in
            if (case mget seen key of Some exp \<Rightarrow> now < exp | None \<Rightarrow> False)
            then (Inl (ReplayDetected kind), Some (c\<lparr>rc_seen := seen\<rparr>))
            else (Inr (), Some (c\<lparr>rc_seen := mput key (expiresAt + maxClockSkew) seen\<rparr>)))"

definition ConsumeRuntime ::
  "RuntimeClaims option \<Rightarrow> nanos \<Rightarrow> ReplayCache option \<Rightarrow> (auth_error + unit) \<times> ReplayCache option" where
  "ConsumeRuntime claims now c =
     (case claims of
        None \<Rightarrow> (Inl NilClaims, c)
      | Some cl \<Rightarrow> consume ''runtime'' (rt_NetworkID cl) (rt_JTI cl) (rt_ExpiresAt cl) now c)"

definition ConsumeSender ::
  "SenderDelegationClaims option \<Rightarrow> nanos \<Rightarrow> ReplayCache option \<Rightarrow> (auth_error + unit) \<times> ReplayCache option" where
  "ConsumeSender claims now c =
     (case claims of
        None \<Rightarrow> (Inl NilClaims, c)
      | Some cl \<Rightarrow> consume ''sender'' (sd_NetworkID cl) (sd_JTI cl) (sd_ExpiresAt cl) now c)"

definition ConsumeObserver ::
  "ObserverDelegationClaims option \<Rightarrow> nanos \<Rightarrow> ReplayCache option \<Rightarrow> (auth_error + unit) \<times> ReplayCache option" where
  "ConsumeObserver claims now c =
     (case claims of
        None \<Rightarrow> (Inl NilClaims, c)
      | Some cl \<Rightarrow> consume ''observer'' (og_NetworkID cl) (og_JTI cl) (og_ExpiresAt cl) now c)"

section \<open>Once means once\<close>

text \<open>Until when a key is remembered; the abstraction the lemmas reason about.\<close>

definition remembered :: "string \<Rightarrow> ReplayCache option \<Rightarrow> nanos option" where
  "remembered key co = (case co of None \<Rightarrow> None | Some c \<Rightarrow> mget (rc_seen c) key)"

definition cache_ok :: "ReplayCache option \<Rightarrow> bool" where
  "cache_ok co \<longleftrightarrow> (case co of None \<Rightarrow> True | Some c \<Rightarrow> map_ok (rc_seen c))"

lemma map_ok_sweep: "map_ok seen \<Longrightarrow> map_ok (sweep now seen)"
  unfolding sweep_def map_ok_def by (rule distinct_map_filter)

lemma mget_sweep:
  "map_ok seen \<Longrightarrow>
   mget (sweep now seen) key = (case mget seen key of None \<Rightarrow> None | Some e \<Rightarrow> if e < now then None else Some e)"
proof (induction seen)
  case (Cons x seen)
  obtain k e where x: "x = (k, e)" by fastforce
  have "mget seen k = None"
    using Cons.prems x by (simp add: map_ok_def mget_def map_of_eq_None_iff)
  with Cons x show ?case by (auto simp: sweep_def mget_def map_ok_def)
qed (simp add: sweep_def mget_def)

lemma cache_ok_consume [inv_intros]: "cache_ok c \<Longrightarrow> cache_ok (snd (consume k n j e now c))"
  by (auto simp: cache_ok_def consume_def Let_def map_ok_sweep split: option.splits)

definition consume_key :: "string \<Rightarrow> string \<Rightarrow> string \<Rightarrow> string" where
  "consume_key kind networkID jti = replay_key (trim_space kind) (ResolveNetworkID networkID) (trim_space jti)"

lemma consume_accepts:
  assumes "fst (consume k n j e now (Some c)) = Inr ()"
  shows "remembered (consume_key k n j) (snd (consume k n j e now (Some c))) = Some (e + maxClockSkew)"
  using assms by (auto simp: consume_def Let_def remembered_def consume_key_def mget_mput split: if_splits)

lemma consume_keeps:
  assumes "cache_ok co" "remembered key co = Some t" "now < t"
  shows "remembered key (snd (consume k n j e now co)) = Some t"
  using assms
  by (auto simp: consume_def Let_def remembered_def cache_ok_def mget_mput mget_sweep split: option.splits)

lemma consume_refuses:
  assumes "cache_ok co" "remembered (consume_key k n j) co = Some t" "now < t"
  shows "\<exists>err. fst (consume k n j e now co) = Inl err"
  using assms
  by (auto simp: consume_def Let_def remembered_def cache_ok_def consume_key_def mget_sweep split: option.splits)

text \<open>Other credentials used meanwhile, each at its time.\<close>

definition consume_all ::
  "(string \<times> string \<times> string \<times> nanos \<times> nanos) list \<Rightarrow> ReplayCache option \<Rightarrow> ReplayCache option" where
  "consume_all calls co = fold (\<lambda>(k, n, j, e, now) c. snd (consume k n j e now c)) calls co"

lemma consume_all_keeps:
  assumes "cache_ok co" "remembered key co = Some t" "list_all (\<lambda>(k, n, j, e, now). now < t) calls"
  shows "cache_ok (consume_all calls co)" "remembered key (consume_all calls co) = Some t"
proof -
  have "cache_ok (consume_all calls co) \<and> remembered key (consume_all calls co) = Some t"
    using assms
  proof (induction calls arbitrary: co)
    case (Cons x calls)
    obtain k n j e now where x: "x = (k, n, j, e, now)" by (cases x) auto
    have "cache_ok (snd (consume k n j e now co))" "remembered key (snd (consume k n j e now co)) = Some t"
      using Cons.prems x by (auto intro: cache_ok_consume consume_keeps)
    with Cons.IH Cons.prems(3) show ?case by (simp add: consume_all_def x)
  qed (simp add: consume_all_def)
  then show "cache_ok (consume_all calls co)" "remembered key (consume_all calls co) = Some t" by blast+
qed

lemma consumed_once:
  assumes ok: "cache_ok (Some c)" and first: "fst (consume k n j e now (Some c)) = Inr ()"
    and calls: "list_all (\<lambda>(k, n, j, e', now). now < e + maxClockSkew) calls" and t: "t < e + maxClockSkew"
  shows "\<exists>err. fst (consume k n j e2 t (consume_all calls (snd (consume k n j e now (Some c))))) = Inl err"
proof -
  let ?c1 = "snd (consume k n j e now (Some c))"
  have "cache_ok ?c1" by (rule cache_ok_consume [OF ok])
  from consume_all_keeps [OF this consume_accepts [OF first] calls] consume_refuses t
  show ?thesis by blast
qed

text \<open>
  At the last instant at which a credential still verifies, \<open>now = expiry + skew\<close>, the cache
  no longer refuses it: it compares with \<open>now < exp\<close>, the verifier with \<open>\<not> exp < now\<close>.
\<close>

lemma replay_at_last_instant:
  assumes "cache_ok (Some c)" "fst (consume k n j e now (Some c)) = Inr ()"
  shows "fst (consume k n j e (e + maxClockSkew) (snd (consume k n j e now (Some c)))) = Inr ()"
proof -
  obtain c1 where c1: "snd (consume k n j e now (Some c)) = Some c1"
    using consume_accepts [OF assms(2)] by (auto simp: remembered_def split: option.splits)
  have "mget (rc_seen c1) (consume_key k n j) = Some (e + maxClockSkew)"
    using consume_accepts [OF assms(2)] c1 by (simp add: remembered_def)
  moreover have "map_ok (rc_seen c1)"
    using cache_ok_consume [OF assms(1), of k n j e now] c1 by (simp add: cache_ok_def)
  moreover have "\<not> (trim_space k = [] \<or> trim_space j = [])"
    using assms(2) by (auto simp: consume_def Let_def)
  ultimately show ?thesis
    using c1 by (simp add: consume_def Let_def consume_key_def mget_sweep)
qed

end
