(* ===== verification/NodeAuth.thy ===== *)
theory NodeAuth
  imports PeerProtocol Replay
begin

text \<open>
  The node's authorization of remote peers and of deliveries, \<open>internal/node/node.go\<close>. A node
  comes from \<open>NewNode\<close>, which sets its configuration, bundle cache and replay caches, so the
  nil checks of those pointers have no branch here. The relay's answers are arguments:
  \<open>fetched\<close> to a bundle fetch, \<open>answer\<close> to a fetch of group bindings. A function that reads the
  clock several times gets each reading.
\<close>

section \<open>State\<close>

record NodeConfig =
  nc_NodeName :: string
  nc_RelayURL :: "string option"
  nc_RelayNodeToken :: "string option"
  nc_RelayNodeNetwork :: "string option"

record Node =
  nd_Manager :: SessionManager
  nd_config :: NodeConfig
  nd_bundleCache :: "BundleCache option"
  nd_runtimeSeen :: "ReplayCache option"
  nd_senderSeen :: "ReplayCache option"

record AuthenticatedPeer =
  ap_NetworkID :: string
  ap_SubjectKind :: string
  ap_SubjectID :: string

record AuthorizedSender =
  as_DisplayName :: string
  as_SessionID :: "uint32 option"
  as_SessionName :: string
  as_SourceGroups :: "string list"

record GroupBinding =
  gb_GroupName :: string
  gb_MessagesPolicy :: string
  gb_DebugPolicy :: string

definition GroupMessagesInternalOnly :: string where "GroupMessagesInternalOnly = ''internal-only''"
definition GroupMessagesOpen :: string where "GroupMessagesOpen = ''open''"
definition GroupDebugObserveOnly :: string where "GroupDebugObserveOnly = ''observe-only''"

datatype node_error =
    CredentialMissing
  | BundleUnavailable
  | AuthFailed auth_error
  | NetworkMismatch
  | SourceNodeMissing | SourceNodeMismatch | AudienceMismatch | TargetNodeMismatch
  | VerbNotAllowed string
  | SessionIDMismatch | SessionNameMismatch | NoSessionIdentity
  | PrincipalMissing | LocatorMissing
  | PolicyForbids string

definition relayNetworkID :: "Node \<Rightarrow> string" where
  "relayNetworkID n =
     (case nc_RelayNodeNetwork (nd_config n) of None \<Rightarrow> [] | Some net \<Rightarrow> ResolveNetworkID net)"

section \<open>Peers\<close>

definition load_bundle ::
  "VerifierBundle option option \<Rightarrow> nanos \<Rightarrow> Node \<Rightarrow> (node_error + VerifierBundle option) \<times> Node" where
  "load_bundle fetched t n =
     (case BundleCache_Get fetched t (nd_bundleCache n) of
        (Inl err, c) \<Rightarrow> (Inl BundleUnavailable, n\<lparr>nd_bundleCache := c\<rparr>)
      | (Inr b, c) \<Rightarrow> (Inr b, n\<lparr>nd_bundleCache := c\<rparr>))"

definition authorizePeerRuntime ::
  "ed25519 \<Rightarrow> (bytes \<Rightarrow> RuntimeClaims option) \<Rightarrow> VerifierBundle option option \<Rightarrow> nanos \<Rightarrow> nanos \<Rightarrow> nanos \<Rightarrow>
   string \<Rightarrow> Node \<Rightarrow> (node_error + AuthenticatedPeer) \<times> Node" where
  "authorizePeerRuntime crypto dec fetched t0 t1 t2 token0 n =
     (let token = trim_space token0 in
      if token = [] then (Inl CredentialMissing, n)
      else case load_bundle fetched t0 n of
        (Inl err, n1) \<Rightarrow> (Inl err, n1)
      | (Inr bundle, n1) \<Rightarrow>
          (case VerifyRuntimeCredential crypto dec token bundle t1 of
             Inl err \<Rightarrow> (Inl (AuthFailed err), n1)
           | Inr claims \<Rightarrow>
               if rt_NetworkID claims \<noteq> relayNetworkID n1 then (Inl NetworkMismatch, n1)
               else (case ConsumeRuntime (Some claims) t2 (nd_runtimeSeen n1) of
                  (Inl err, c) \<Rightarrow> (Inl (AuthFailed err), n1\<lparr>nd_runtimeSeen := c\<rparr>)
                | (Inr _, c) \<Rightarrow>
                    (Inr \<lparr>ap_NetworkID = rt_NetworkID claims, ap_SubjectKind = rt_SubjectKind claims,
                          ap_SubjectID = rt_SubjectID claims\<rparr>, n1\<lparr>nd_runtimeSeen := c\<rparr>))))"

fun delegationAllowsVerb :: "string list \<Rightarrow> string \<Rightarrow> bool" where
  "delegationAllowsVerb [] verb = False"
| "delegationAllowsVerb (candidate # verbs) verb =
     (if trim_space candidate = trim_space verb then True else delegationAllowsVerb verbs verb)"

text \<open>The checks of a sender's claims against the request, in order; \<open>None\<close> passes.\<close>

definition check_sender ::
  "SenderDelegationClaims \<Rightarrow> string \<Rightarrow> SessionLocator \<Rightarrow> Node \<Rightarrow> node_error option" where
  "check_sender claims verb from n =
     (if sd_NetworkID claims \<noteq> relayNetworkID n then Some NetworkMismatch
      else if sd_SourceNode claims \<noteq> trim_space (loc_Node from) then Some SourceNodeMismatch
      else if sd_AudienceNode claims \<noteq> [] \<and> sd_AudienceNode claims \<noteq> nc_NodeName (nd_config n)
        then Some AudienceMismatch
      else if \<not> delegationAllowsVerb (sd_Verbs claims) verb then Some (VerbNotAllowed verb)
      else if loc_ID from \<noteq> None \<and> sd_FromSessionID claims \<noteq> loc_ID from then Some SessionIDMismatch
      else if trim_space (loc_Name from) \<noteq> [] \<and> sd_FromSessionName claims \<noteq> trim_space (loc_Name from)
        then Some SessionNameMismatch
      else None)"

definition sender_label :: "SenderDelegationClaims \<Rightarrow> string option" where
  "sender_label claims =
     (if sd_FromSessionName claims \<noteq> [] then Some (sd_SourceNode claims @ '':'' @ sd_FromSessionName claims)
      else case sd_FromSessionID claims of
        Some i \<Rightarrow> Some (sd_SourceNode claims @ '':'' @ show_nat (unat i))
      | None \<Rightarrow> None)"

definition authorizePeerSender ::
  "ed25519 \<Rightarrow> (bytes \<Rightarrow> SenderDelegationClaims option) \<Rightarrow> VerifierBundle option option \<Rightarrow> nanos \<Rightarrow> nanos \<Rightarrow> nanos \<Rightarrow>
   string \<Rightarrow> SessionLocator option \<Rightarrow> string \<Rightarrow> Node \<Rightarrow> (node_error + AuthorizedSender option) \<times> Node" where
  "authorizePeerSender crypto dec fetched t0 t1 t2 verb fromo senderCap n =
     (case fromo of
        None \<Rightarrow> (Inr None, n)
      | Some from \<Rightarrow>
          if trim_space senderCap = [] then (Inl CredentialMissing, n)
          else if trim_space (loc_Node from) = [] then (Inl SourceNodeMissing, n)
          else case load_bundle fetched t0 n of
            (Inl err, n1) \<Rightarrow> (Inl err, n1)
          | (Inr bundle, n1) \<Rightarrow>
              (case VerifySenderDelegation crypto dec senderCap bundle t1 of
                 Inl err \<Rightarrow> (Inl (AuthFailed err), n1)
               | Inr claims \<Rightarrow>
                   (case check_sender claims verb from n1 of
                      Some err \<Rightarrow> (Inl err, n1)
                    | None \<Rightarrow>
                        (case sender_label claims of
                           None \<Rightarrow> (Inl NoSessionIdentity, n1)
                         | Some label \<Rightarrow>
                             (case ConsumeSender (Some claims) t2 (nd_senderSeen n1) of
                                (Inl err, c) \<Rightarrow> (Inl (AuthFailed err), n1\<lparr>nd_senderSeen := c\<rparr>)
                              | (Inr _, c) \<Rightarrow>
                                  (Inr (Some \<lparr>as_DisplayName = label, as_SessionID = sd_FromSessionID claims,
                                     as_SessionName = sd_FromSessionName claims,
                                     as_SourceGroups = sd_SourceGroups claims\<rparr>),
                                   n1\<lparr>nd_senderSeen := c\<rparr>))))))"

definition matchObserverSession ::
  "SessionLocator option \<Rightarrow> ObserverDelegationClaims \<Rightarrow> Node \<Rightarrow> node_error option" where
  "matchObserverSession lo claims n =
     (case lo of
        None \<Rightarrow> Some LocatorMissing
      | Some l \<Rightarrow>
          (case loc_ID l of
             Some i \<Rightarrow>
               if (case og_SessionID claims of Some k \<Rightarrow> k \<noteq> i | None \<Rightarrow> False) then Some SessionIDMismatch
               else if og_SessionName claims \<noteq> [] \<and> GetName i (nd_Manager n) \<noteq> og_SessionName claims
                 then Some SessionNameMismatch
               else None
           | None \<Rightarrow>
               if trim_space (loc_Name l) = [] then Some LocatorMissing
               else
                 let sessionName = trim_space (loc_Name l) in
                 if og_SessionName claims \<noteq> [] \<and> og_SessionName claims \<noteq> sessionName then Some SessionNameMismatch
                 else (case og_SessionID claims of
                         None \<Rightarrow> None
                       | Some k \<Rightarrow>
                           (case ResolveByName (trim_prefix sessionName ''@'') (nd_Manager n) of
                              Inl err \<Rightarrow> Some SessionIDMismatch
                            | Inr resolved \<Rightarrow> if resolved \<noteq> k then Some SessionIDMismatch else None))))"

definition authorizePeerObserver ::
  "ed25519 \<Rightarrow> (bytes \<Rightarrow> ObserverDelegationClaims option) \<Rightarrow> VerifierBundle option option \<Rightarrow> nanos \<Rightarrow> nanos \<Rightarrow>
   AuthenticatedPeer option \<Rightarrow> string \<Rightarrow> SessionLocator option \<Rightarrow> string \<Rightarrow> Node \<Rightarrow> node_error option \<times> Node" where
  "authorizePeerObserver crypto dec fetched t0 t1 po verb sess observerCap n =
     (case po of
        None \<Rightarrow> (Some PrincipalMissing, n)
      | Some pr \<Rightarrow>
          if sess = None then (Some LocatorMissing, n)
          else if trim_space observerCap = [] then (Some CredentialMissing, n)
          else case load_bundle fetched t0 n of
            (Inl err, n1) \<Rightarrow> (Some err, n1)
          | (Inr bundle, n1) \<Rightarrow>
              (case VerifyObserverDelegation crypto dec observerCap bundle t1 of
                 Inl err \<Rightarrow> (Some (AuthFailed err), n1)
               | Inr claims \<Rightarrow>
                   if og_NetworkID claims \<noteq> relayNetworkID n1 then (Some NetworkMismatch, n1)
                   else if og_TargetNode claims \<noteq> nc_NodeName (nd_config n1) then (Some TargetNodeMismatch, n1)
                   else if og_AudienceSubjectKind claims \<noteq> ap_SubjectKind pr \<or>
                           og_AudienceSubjectID claims \<noteq> ap_SubjectID pr
                     then (Some AudienceMismatch, n1)
                   else if \<not> delegationAllowsVerb (og_Verbs claims) verb then (Some (VerbNotAllowed verb), n1)
                   else (matchObserverSession sess claims n1, n1)))"

section \<open>Group policies\<close>

text \<open>\<open>groupNamesFromTags\<close>: as \<open>GroupNames\<close>, each name once.\<close>

fun unique_groups :: "string list \<Rightarrow> string list \<Rightarrow> string list" where
  "unique_groups seen [] = []"
| "unique_groups seen (t # tags) =
     (let tag = trim_space t in
      if \<not> has_prefix tag ''group:'' then unique_groups seen tags
      else
        let groupName = trim_space (trim_prefix tag ''group:'') in
        if groupName = [] then unique_groups seen tags
        else if groupName \<in> set seen then unique_groups seen tags
        else groupName # unique_groups (groupName # seen) tags)"

definition groupNamesFromTags :: "string list \<Rightarrow> string list" where
  "groupNamesFromTags tags = (if length tags = 0 then [] else unique_groups [] tags)"

definition resolveTargetSessionName :: "SessionLocator option \<Rightarrow> Node \<Rightarrow> node_error + string" where
  "resolveTargetSessionName lo n =
     (case lo of
        None \<Rightarrow> Inl LocatorMissing
      | Some l \<Rightarrow>
          (case loc_ID l of
             Some i \<Rightarrow> Inr (trim_space (GetName i (nd_Manager n)))
           | None \<Rightarrow> Inr (trim_space (trim_prefix (loc_Name l) ''@''))))"

definition localGroupBindings :: "string \<Rightarrow> Node \<Rightarrow> GroupBinding list" where
  "localGroupBindings sessionName0 n =
     (let sessionName = trim_space (trim_prefix sessionName0 ''@'') in
      if sessionName = [] then []
      else (case ResolveByName sessionName (nd_Manager n) of
         Inl err \<Rightarrow> []
       | Inr sessionID \<Rightarrow>
           map (\<lambda>groupName. \<lparr>gb_GroupName = groupName, gb_MessagesPolicy = GroupMessagesInternalOnly,
                  gb_DebugPolicy = GroupDebugObserveOnly\<rparr>)
             (GroupNames sessionID (nd_Manager n))))"

definition blank :: "string option \<Rightarrow> bool" where
  "blank so = (case so of None \<Rightarrow> True | Some s \<Rightarrow> trim_space s = [])"

text \<open>\<open>answer\<close>: the relay's bindings, or \<open>None\<close> when the request fails.\<close>

definition fetchGroupBindings :: "GroupBinding list option \<Rightarrow> string \<Rightarrow> Node \<Rightarrow> GroupBinding list" where
  "fetchGroupBindings answer sessionName n =
     (if trim_space sessionName = [] then []
      else if blank (nc_RelayURL (nd_config n)) then localGroupBindings sessionName n
      else if blank (nc_RelayNodeToken (nd_config n)) then localGroupBindings sessionName n
      else (case answer of
              None \<Rightarrow> localGroupBindings sessionName n
            | Some bindings \<Rightarrow> if length bindings = 0 then localGroupBindings sessionName n else bindings))"

definition enforceGroupBindings :: "GroupBinding list \<Rightarrow> string list \<Rightarrow> string \<Rightarrow> node_error option" where
  "enforceGroupBindings bindings sourceGroups verb =
     (if length bindings = 0 then None
      else if list_ex (\<lambda>b. gb_MessagesPolicy b = GroupMessagesOpen) bindings then None
      else
        let sourceSet = filter (\<lambda>g. g \<noteq> []) (map trim_space sourceGroups) in
        if list_ex (\<lambda>b. trim_space (gb_GroupName b) \<in> set sourceSet) bindings then None
        else Some (PolicyForbids verb))"

definition authorizePeerDelivery ::
  "GroupBinding list option \<Rightarrow> AuthorizedSender option \<Rightarrow> SessionLocator option \<Rightarrow> string \<Rightarrow> Node \<Rightarrow> node_error option" where
  "authorizePeerDelivery answer so to verb n =
     (case so of
        None \<Rightarrow> None
      | Some sender \<Rightarrow>
          if to = None then None
          else (case resolveTargetSessionName to n of
             Inl err \<Rightarrow> Some err
           | Inr targetName \<Rightarrow>
               if targetName = [] then None
               else enforceGroupBindings (fetchGroupBindings answer targetName n) (as_SourceGroups sender) verb))"

definition authorizeLocalDelivery ::
  "GroupBinding list option \<Rightarrow> uint32 \<Rightarrow> uint32 \<Rightarrow> string \<Rightarrow> Node \<Rightarrow> node_error option" where
  "authorizeLocalDelivery answer fromID toID verb n =
     (let targetName = trim_space (GetName toID (nd_Manager n)) in
      if targetName = [] then None
      else
        let sourceGroups = (if fromID \<noteq> 0 then GroupNames fromID (nd_Manager n) else []) in
        enforceGroupBindings (fetchGroupBindings answer targetName n) sourceGroups verb)"

section \<open>What an authorization means\<close>

lemma load_bundle_frame:
  "load_bundle fetched t n = (r, n1) \<Longrightarrow>
     nd_Manager n1 = nd_Manager n \<and> nd_config n1 = nd_config n \<and> nd_runtimeSeen n1 = nd_runtimeSeen n \<and>
     nd_senderSeen n1 = nd_senderSeen n"
  by (auto simp: load_bundle_def split: prod.splits sum.splits)

lemma relayNetworkID_config: "nd_config n1 = nd_config n \<Longrightarrow> relayNetworkID n1 = relayNetworkID n"
  by (simp add: relayNetworkID_def)

lemma runtime_needs_bundle: "VerifyRuntimeCredential crypto dec token bo now = Inr c \<Longrightarrow> \<exists>b. bo = Some b"
  by (cases bo) (simp_all add: VerifyRuntimeCredential_def)

lemma sender_needs_bundle: "VerifySenderDelegation crypto dec token bo now = Inr c \<Longrightarrow> \<exists>b. bo = Some b"
  by (cases bo) (simp_all add: VerifySenderDelegation_def)

lemma observer_needs_bundle: "VerifyObserverDelegation crypto dec token bo now = Inr c \<Longrightarrow> \<exists>b. bo = Some b"
  by (cases bo) (simp_all add: VerifyObserverDelegation_def)

lemmas needs_bundle = runtime_needs_bundle sender_needs_bundle observer_needs_bundle

lemma accepted_prefixes:
  "VerifyRuntimeCredential crypto dr token bo now = Inr cr \<Longrightarrow> hd (split_on (CHR ''.'') token) = RuntimeTokenPrefix"
  "VerifySenderDelegation crypto ds token bo now = Inr cs \<Longrightarrow> hd (split_on (CHR ''.'') token) = SenderTokenPrefix"
  "VerifyObserverDelegation crypto dob token bo now = Inr co \<Longrightarrow> hd (split_on (CHR ''.'') token) = ObserverTokenPrefix"
  by (frule needs_bundle, auto dest: runtime.verify_prefix sender.verify_prefix observer.verify_prefix)+

lemma authorizePeerRuntime_result:
  assumes "authorizePeerRuntime crypto dec fetched t0 t1 t2 token n = (Inr p, n')"
  obtains b claims where "VerifyRuntimeCredential crypto dec (trim_space token) (Some b) t1 = Inr claims"
    "rt_NetworkID claims = relayNetworkID n" "p = \<lparr>ap_NetworkID = rt_NetworkID claims,
       ap_SubjectKind = rt_SubjectKind claims, ap_SubjectID = rt_SubjectID claims\<rparr>"
    "ConsumeRuntime (Some claims) t2 (nd_runtimeSeen n) = (Inr (), nd_runtimeSeen n')"
    "nd_Manager n' = nd_Manager n" "nd_config n' = nd_config n"
proof -
  from assms obtain bo n1 claims c where 1: "load_bundle fetched t0 n = (Inr bo, n1)"
    and 2: "VerifyRuntimeCredential crypto dec (trim_space token) bo t1 = Inr claims"
    and 3: "rt_NetworkID claims = relayNetworkID n1"
    and 4: "ConsumeRuntime (Some claims) t2 (nd_runtimeSeen n1) = (Inr (), c)"
    and 5: "n' = n1\<lparr>nd_runtimeSeen := c\<rparr>" "p = \<lparr>ap_NetworkID = rt_NetworkID claims,
       ap_SubjectKind = rt_SubjectKind claims, ap_SubjectID = rt_SubjectID claims\<rparr>"
    by (auto simp: authorizePeerRuntime_def Let_def split: if_splits prod.splits sum.splits)
  note F = load_bundle_frame [OF 1]
  obtain b where b: "bo = Some b" using runtime_needs_bundle [OF 2] by blast
  show thesis
  proof (rule that [of b claims])
    show "VerifyRuntimeCredential crypto dec (trim_space token) (Some b) t1 = Inr claims" using 2 b by simp
    show "rt_NetworkID claims = relayNetworkID n" using 3 F relayNetworkID_config [of n1 n] by simp
    show "ConsumeRuntime (Some claims) t2 (nd_runtimeSeen n) = (Inr (), nd_runtimeSeen n')" using 4 5(1) F by simp
  qed (simp_all add: 5 F)
qed

lemma authorizePeerSender_result:
  assumes "authorizePeerSender crypto dec fetched t0 t1 t2 verb (Some from) cap n = (Inr (Some s), n')"
  obtains b claims where "VerifySenderDelegation crypto dec cap (Some b) t1 = Inr claims"
    "check_sender claims verb from n = None" "sender_label claims = Some (as_DisplayName s)"
    "as_SessionID s = sd_FromSessionID claims" "as_SourceGroups s = sd_SourceGroups claims"
    "ConsumeSender (Some claims) t2 (nd_senderSeen n) = (Inr (), nd_senderSeen n')"
    "nd_Manager n' = nd_Manager n" "nd_config n' = nd_config n"
proof -
  from assms obtain bo n1 claims c l where 1: "load_bundle fetched t0 n = (Inr bo, n1)"
    and 2: "VerifySenderDelegation crypto dec cap bo t1 = Inr claims"
    and 3: "check_sender claims verb from n1 = None" "sender_label claims = Some l"
    and 4: "ConsumeSender (Some claims) t2 (nd_senderSeen n1) = (Inr (), c)"
    and 5: "n' = n1\<lparr>nd_senderSeen := c\<rparr>" "s = \<lparr>as_DisplayName = l, as_SessionID = sd_FromSessionID claims,
       as_SessionName = sd_FromSessionName claims, as_SourceGroups = sd_SourceGroups claims\<rparr>"
    by (auto simp: authorizePeerSender_def split: if_splits prod.splits sum.splits option.splits)
  note F = load_bundle_frame [OF 1]
  obtain b where b: "bo = Some b" using sender_needs_bundle [OF 2] by blast
  have cs: "check_sender claims verb from n1 = check_sender claims verb from n"
    using F relayNetworkID_config [of n1 n] by (simp add: check_sender_def)
  show thesis
  proof (rule that [of b claims])
    show "VerifySenderDelegation crypto dec cap (Some b) t1 = Inr claims" using 2 b by simp
    show "check_sender claims verb from n = None" using 3(1) cs by simp
    show "ConsumeSender (Some claims) t2 (nd_senderSeen n) = (Inr (), nd_senderSeen n')" using 4 5(1) F by simp
  qed (simp_all add: 3(2) 5 F)
qed

lemma delegationAllowsVerb_iff:
  "delegationAllowsVerb verbs verb \<longleftrightarrow> (\<exists>v \<in> set verbs. trim_space v = trim_space verb)"
  by (induction verbs) auto

lemma check_sender_None:
  assumes "check_sender claims verb from n = None"
  shows "sd_NetworkID claims = relayNetworkID n" "sd_SourceNode claims = trim_space (loc_Node from)"
    "sd_AudienceNode claims \<in> {[], nc_NodeName (nd_config n)}"
    "\<exists>v \<in> set (sd_Verbs claims). trim_space v = trim_space verb"
    "loc_ID from \<noteq> None \<Longrightarrow> sd_FromSessionID claims = loc_ID from"
    "trim_space (loc_Name from) \<noteq> [] \<Longrightarrow> sd_FromSessionName claims = trim_space (loc_Name from)"
  using assms by (auto simp: check_sender_def delegationAllowsVerb_iff split: if_splits)

lemma enforceGroupBindings_None:
  "enforceGroupBindings bindings sourceGroups verb = None \<longleftrightarrow>
     bindings = [] \<or> (\<exists>b \<in> set bindings. gb_MessagesPolicy b = GroupMessagesOpen) \<or>
     (\<exists>b \<in> set bindings. \<exists>g \<in> set sourceGroups. trim_space g = trim_space (gb_GroupName b) \<and> trim_space g \<noteq> [])"
proof -
  have m: "trim_space (gb_GroupName b) \<in> set (filter (\<lambda>g. g \<noteq> []) (map trim_space sourceGroups)) \<longleftrightarrow>
      (\<exists>g \<in> set sourceGroups. trim_space g = trim_space (gb_GroupName b) \<and> trim_space g \<noteq> [])" for b
    by (auto simp: image_iff) metis+
  show ?thesis unfolding enforceGroupBindings_def Let_def list_ex_iff m by auto
qed

text \<open>The local bindings of a named session are its group tags, each internal-only.\<close>

lemma GroupMessages_neq: "GroupMessagesInternalOnly \<noteq> GroupMessagesOpen"
  by (simp add: GroupMessagesInternalOnly_def GroupMessagesOpen_def)

lemma unique_groups_set: "set (unique_groups seen tags) = set (group_names tags) - set seen"
  by (induction seen tags rule: unique_groups.induct) (auto simp: Let_def)

lemma unique_groups_distinct: "distinct (unique_groups seen tags)"
  by (induction seen tags rule: unique_groups.induct) (auto simp: Let_def unique_groups_set)

lemma groupNamesFromTags_spec:
  "set (groupNamesFromTags tags) = set (group_names tags)" "distinct (groupNamesFromTags tags)"
  by (auto simp: groupNamesFromTags_def unique_groups_set unique_groups_distinct)

section \<open>A credential admits one connection\<close>

text \<open>The claims of a token do not depend on when or with which bundle it is verified.\<close>

lemma runtime_claims_unique:
  assumes "VerifyRuntimeCredential crypto dec token (Some b) t = Inr c"
    and "VerifyRuntimeCredential crypto dec token (Some b2) t' = Inr c2"
  shows "c2 = c"
  using assms by (auto simp: VerifyRuntimeCredential_def split: sum.splits prod.splits option.splits)

lemma sender_claims_unique:
  assumes "VerifySenderDelegation crypto dec token (Some b) t = Inr c"
    and "VerifySenderDelegation crypto dec token (Some b2) t' = Inr c2"
  shows "c2 = c"
  using assms by (auto simp: VerifySenderDelegation_def split: sum.splits prod.splits option.splits)

lemma runtime_once:
  assumes first: "authorizePeerRuntime crypto dec fetched t0 t1 t2 token n = (Inr p, n1)"
    and cache: "nd_runtimeSeen n = Some c" "map_ok (rc_seen c)"
    and claims: "\<And>b claims. VerifyRuntimeCredential crypto dec (trim_space token) (Some b) t1 = Inr claims \<Longrightarrow>
        t2' < rt_ExpiresAt claims + maxClockSkew \<and>
        list_all (\<lambda>(k, n, j, e, now). now < rt_ExpiresAt claims + maxClockSkew) calls"
    and later: "nd_runtimeSeen n2 = consume_all calls (nd_runtimeSeen n1)"
  shows "\<exists>err. fst (authorizePeerRuntime crypto dec fetched' t0' t1' t2' token n2) = Inl err"
proof (rule ccontr)
  assume "\<nexists>err. fst (authorizePeerRuntime crypto dec fetched' t0' t1' t2' token n2) = Inl err"
  then obtain p2 n3 where second: "authorizePeerRuntime crypto dec fetched' t0' t1' t2' token n2 = (Inr p2, n3)"
    by (metis prod.collapse sum.exhaust)
  from first obtain b cl where v: "VerifyRuntimeCredential crypto dec (trim_space token) (Some b) t1 = Inr cl"
    and c1: "ConsumeRuntime (Some cl) t2 (nd_runtimeSeen n) = (Inr (), nd_runtimeSeen n1)"
    by (rule authorizePeerRuntime_result)
  from second obtain b2 cl2 where v2: "VerifyRuntimeCredential crypto dec (trim_space token) (Some b2) t1' = Inr cl2"
    and c2: "ConsumeRuntime (Some cl2) t2' (nd_runtimeSeen n2) = (Inr (), nd_runtimeSeen n3)"
    by (rule authorizePeerRuntime_result)
  have eq: "cl2 = cl" by (rule runtime_claims_unique [OF v v2])
  let ?con = "consume ''runtime'' (rt_NetworkID cl) (rt_JTI cl) (rt_ExpiresAt cl)"
  have f: "fst (?con t2 (Some c)) = Inr ()" "snd (?con t2 (Some c)) = nd_runtimeSeen n1"
    using c1 cache(1) by (simp_all add: ConsumeRuntime_def)
  have "\<exists>err. fst (?con t2' (consume_all calls (snd (?con t2 (Some c))))) = Inl err"
    using claims [OF v] by (intro consumed_once [OF _ f(1)]) (simp_all add: cache_ok_def cache(2))
  with c2 eq later f(2) show False by (simp add: ConsumeRuntime_def)
qed

end
