(* ===== verification/PeerServer.thy ===== *)
theory PeerServer
  imports NodeAuth
begin

text \<open>
  The peer server of \<open>internal/peer/server.go\<close>: it serves requests of remote peers against the
  node's session manager, through the authorization callbacks the node installs. A request that
  waits for its reply is two steps, \<open>handleMsgRequest\<close> and then \<open>request_replied\<close> or
  \<open>request_timed_out\<close>; a stream of events is \<open>listen_start\<close>, then \<open>listen_event\<close> per event.
\<close>

section \<open>State\<close>

text \<open>What the outside answers while one request is served: the relay, the clock, the random identifiers.\<close>

record peer_inputs =
  pi_fetched :: "VerifierBundle option option"
  pi_t0 :: nanos
  pi_t1 :: nanos
  pi_t2 :: nanos
  pi_bindings :: "GroupBinding list option"
  pi_now :: nanos
  pi_messageID :: string
  pi_requestID :: string
  pi_replyToken :: string

datatype server_error =
    AuthError node_error
  | SessionError session_error
  | MessageError message_failure
  | Refused string
  | WrongNode string string
  | NoLocator
  | NotConfigured string
  | Unsupported string
  | PTYInjectionFailed session_error
  | TimedOut string
  | NilSender

record Server =
  srv_NodeName :: string
  srv_AuthorizePeer :: "(peer_inputs \<Rightarrow> string \<Rightarrow> Node \<Rightarrow> (node_error + AuthenticatedPeer option) \<times> Node) option"
  srv_AuthorizeSender ::
    "(peer_inputs \<Rightarrow> string \<Rightarrow> SessionLocator option \<Rightarrow> string \<Rightarrow> Node \<Rightarrow>
      (node_error + AuthorizedSender option) \<times> Node) option"
  srv_AuthorizeDelivery ::
    "(peer_inputs \<Rightarrow> AuthorizedSender option \<Rightarrow> SessionLocator option \<Rightarrow> string \<Rightarrow> Node \<Rightarrow> node_error option) option"
  srv_AuthorizeObserver ::
    "(peer_inputs \<Rightarrow> AuthenticatedPeer option \<Rightarrow> string \<Rightarrow> SessionLocator option \<Rightarrow> string \<Rightarrow> Node \<Rightarrow>
      node_error option \<times> Node) option"
  srv_RequireRemoteSenderAuth :: bool

text \<open>The JSON decoders of the three kinds of claims.\<close>

record claims_codec =
  cc_runtime :: "bytes \<Rightarrow> RuntimeClaims option"
  cc_sender :: "bytes \<Rightarrow> SenderDelegationClaims option"
  cc_observer :: "bytes \<Rightarrow> ObserverDelegationClaims option"

text \<open>The server that \<open>Node.Run\<close> builds.\<close>

definition node_server :: "ed25519 \<Rightarrow> claims_codec \<Rightarrow> Node \<Rightarrow> Server" where
  "node_server crypto cc n =
     \<lparr>srv_NodeName = nc_NodeName (nd_config n),
      srv_AuthorizePeer = Some (\<lambda>i token n.
        case authorizePeerRuntime crypto (cc_runtime cc) (pi_fetched i) (pi_t0 i) (pi_t1 i) (pi_t2 i) token n of
          (Inl err, n1) \<Rightarrow> (Inl err, n1)
        | (Inr p, n1) \<Rightarrow> (Inr (Some p), n1)),
      srv_AuthorizeSender = Some (\<lambda>i verb from senderCap n.
        authorizePeerSender crypto (cc_sender cc) (pi_fetched i) (pi_t0 i) (pi_t1 i) (pi_t2 i) verb from senderCap n),
      srv_AuthorizeDelivery = Some (\<lambda>i sender to verb n. authorizePeerDelivery (pi_bindings i) sender to verb n),
      srv_AuthorizeObserver = Some (\<lambda>i p verb sess observerCap n.
        authorizePeerObserver crypto (cc_observer cc) (pi_fetched i) (pi_t0 i) (pi_t1 i) p verb sess observerCap n),
      srv_RequireRemoteSenderAuth = True\<rparr>"

section \<open>Shared parts of the handlers\<close>

definition empty_response :: "string \<Rightarrow> string \<Rightarrow> 'e PeerResponse" where
  "empty_response op ty =
     \<lparr>ps_OpID = op, ps_Type = ty, ps_MessageID = [], ps_RequestID = [], ps_ReplyBody = [], ps_From = None,
      ps_Session = None, ps_Event = None, ps_Messages = [], ps_Error = None\<rparr>"

definition error_response :: "string \<Rightarrow> 'e \<Rightarrow> 'e PeerResponse" where
  "error_response op err = (empty_response op ''Error'')\<lparr>ps_Error := Some err\<rparr>"

definition resolveLocal :: "Server \<Rightarrow> SessionLocator option \<Rightarrow> SessionManager \<Rightarrow> server_error + uint32" where
  "resolveLocal srv lo m =
     (case lo of
        None \<Rightarrow> Inl NoLocator
      | Some l \<Rightarrow>
          if loc_Node l \<noteq> [] \<and> srv_NodeName srv \<noteq> [] \<and> loc_Node l \<noteq> srv_NodeName srv
          then Inl (WrongNode (loc_Node l) (srv_NodeName srv))
          else (case loc_ID l of
                  Some i \<Rightarrow> Inr i
                | None \<Rightarrow>
                    (case ResolveByName (trim_prefix (loc_Name l) ''@'') m of
                       Inl err \<Rightarrow> Inl (SessionError err)
                     | Inr i \<Rightarrow> Inr i)))"

definition authorizeSender ::
  "Server \<Rightarrow> peer_inputs \<Rightarrow> string \<Rightarrow> PeerRequest \<Rightarrow> Node \<Rightarrow> (server_error + AuthorizedSender option) \<times> Node" where
  "authorizeSender srv i verb req n =
     (if pq_From req = None then (Inr None, n)
      else case srv_AuthorizeSender srv of
        None \<Rightarrow> (Inl (NotConfigured ''sender''), n)
      | Some f \<Rightarrow>
          (case f i verb (pq_From req) (pq_SenderCap req) n of
             (Inl err, n1) \<Rightarrow> (Inl (AuthError err), n1)
           | (Inr s, n1) \<Rightarrow> (Inr s, n1)))"

definition authorizeDelivery ::
  "Server \<Rightarrow> peer_inputs \<Rightarrow> AuthorizedSender option \<Rightarrow> SessionLocator option \<Rightarrow> string \<Rightarrow> Node \<Rightarrow> server_error option" where
  "authorizeDelivery srv i sender to verb n =
     (case srv_AuthorizeDelivery srv of
        None \<Rightarrow> None
      | Some f \<Rightarrow> map_option AuthError (f i sender to verb n))"

definition authorizeObserver ::
  "Server \<Rightarrow> peer_inputs \<Rightarrow> AuthenticatedPeer option \<Rightarrow> string \<Rightarrow> SessionLocator option \<Rightarrow> string \<Rightarrow> Node \<Rightarrow>
   server_error option \<times> Node" where
  "authorizeObserver srv i p verb sess observerCap n =
     (case srv_AuthorizeObserver srv of
        None \<Rightarrow> (Some (NotConfigured ''observer''), n)
      | Some f \<Rightarrow> (case f i p verb sess observerCap n of (err, n1) \<Rightarrow> (map_option AuthError err, n1)))"

text \<open>
  The common guard of the three writing handlers when the request names a sender: its
  delegation, then the delivery policy.
\<close>

definition admit_sender ::
  "Server \<Rightarrow> peer_inputs \<Rightarrow> string \<Rightarrow> PeerRequest \<Rightarrow> Node \<Rightarrow> (server_error + AuthorizedSender) \<times> Node" where
  "admit_sender srv i verb req n =
     (case authorizeSender srv i verb req n of
        (Inl err, n1) \<Rightarrow> (Inl err, n1)
      | (Inr so, n1) \<Rightarrow>
          (case authorizeDelivery srv i so (pq_To req) verb n1 of
             Some err \<Rightarrow> (Inl err, n1)
           | None \<Rightarrow> (case so of None \<Rightarrow> (Inl NilSender, n1) | Some s \<Rightarrow> (Inr s, n1))))"

definition deliveryIncludesPTY :: "string \<Rightarrow> bool" where
  "deliveryIncludesPTY mode = (to_lower (trim_space mode) \<in> {''pty'', ''both''})"

section \<open>Handlers\<close>

definition handleMsgSend ::
  "(Event \<Rightarrow> bytes option) \<Rightarrow> Server \<Rightarrow> peer_inputs \<Rightarrow> PeerRequest \<Rightarrow> Node \<Rightarrow> server_error PeerResponse \<times> Node" where
  "handleMsgSend js srv i req n =
     (case resolveLocal srv (pq_To req) (nd_Manager n) of
        Inl err \<Rightarrow> (error_response (pq_OpID req) err, n)
      | Inr toID \<Rightarrow>
          if srv_RequireRemoteSenderAuth srv \<and> pq_From req = None
          then (error_response (pq_OpID req) (Refused ''remote send requires verified sender delegation''), n)
          else
            (case (if pq_From req \<noteq> None then
                     (case admit_sender srv i ''msg'' req n of
                        (Inl err, n1) \<Rightarrow> (Inl err, n1)
                      | (Inr s, n1) \<Rightarrow>
                          (case SendRemoteMessage js (pi_messageID i) (pi_now i) (as_DisplayName s) toID
                                  (pq_Body req) (nd_Manager n1) of
                             (Inl err, m) \<Rightarrow> (Inl (MessageError err), n1\<lparr>nd_Manager := m\<rparr>)
                           | (Inr msgID, m) \<Rightarrow> (Inr msgID, n1\<lparr>nd_Manager := m\<rparr>)))
                   else
                     (case SendMessage js (pi_messageID i) (pi_now i) 0 toID (pq_Body req) (nd_Manager n) of
                        (Inl err, m) \<Rightarrow> (Inl (MessageError err), n\<lparr>nd_Manager := m\<rparr>)
                      | (Inr msgID, m) \<Rightarrow> (Inr msgID, n\<lparr>nd_Manager := m\<rparr>))) of
               (Inl err, n2) \<Rightarrow> (error_response (pq_OpID req) err, n2)
             | (Inr msgID, n2) \<Rightarrow> ((empty_response (pq_OpID req) ''MsgSent'')\<lparr>ps_MessageID := msgID\<rparr>, n2)))"

text \<open>
  The message of an event. The constructors of events set the type that belongs to their data,
  so an event whose data is another struct than its type names is not decoded.
\<close>

definition eventToMessageResponse :: "Event \<Rightarrow> MessageResponse option" where
  "eventToMessageResponse e =
     (if ev_Type e = EventDirectMessage then
        (case ev_Data e of
           DirectMessage d \<Rightarrow>
             Some \<lparr>mr_MessageID = dm_MessageID d, mr_Timestamp = ev_Timestamp e, mr_From = dm_From d,
                   mr_FromName = dm_FromName d, mr_To = dm_To d, mr_ToName = dm_ToName d, mr_Body = dm_Body d,
                   mr_EventType = ev_Type e, mr_RequestID = [], mr_ReplyToken = []\<rparr>
         | _ \<Rightarrow> None)
      else if ev_Type e = EventRequest then
        (case ev_Data e of
           Request d \<Rightarrow>
             Some \<lparr>mr_MessageID = rq_RequestID d, mr_Timestamp = ev_Timestamp e, mr_From = rq_From d,
                   mr_FromName = rq_FromName d, mr_To = rq_To d, mr_ToName = rq_ToName d, mr_Body = rq_Body d,
                   mr_EventType = ev_Type e, mr_RequestID = rq_RequestID d, mr_ReplyToken = []\<rparr>
         | _ \<Rightarrow> None)
      else if ev_Type e = EventReply then
        (case ev_Data e of
           Reply d \<Rightarrow>
             Some \<lparr>mr_MessageID = rp_RequestID d, mr_Timestamp = ev_Timestamp e, mr_From = rp_From d,
                   mr_FromName = rp_FromName d, mr_To = 0, mr_ToName = [], mr_Body = rp_Body d,
                   mr_EventType = ev_Type e, mr_RequestID = rp_RequestID d, mr_ReplyToken = []\<rparr>
         | _ \<Rightarrow> None)
      else None)"

text \<open>\<open>int(*req.Tail)\<close> reads the 64 bits as a signed number.\<close>

definition handleMsgRead ::
  "(bytes \<Rightarrow> Event option) \<Rightarrow> Server \<Rightarrow> peer_inputs \<Rightarrow> AuthenticatedPeer option \<Rightarrow> PeerRequest \<Rightarrow> Node \<Rightarrow>
   server_error PeerResponse \<times> Node" where
  "handleMsgRead un srv i po req n =
     (case (if srv_RequireRemoteSenderAuth srv then
              (if po = None then (Some (Refused ''peer authentication is required''), n)
               else if pq_Session req = None then (Some (Refused ''remote inbox reads require a session''), n)
               else authorizeObserver srv i po ''msg.read'' (pq_Session req) (pq_ObserverCap req) n)
            else (None, n)) of
        (Some err, n1) \<Rightarrow> (error_response (pq_OpID req) err, n1)
      | (None, n1) \<Rightarrow>
          (case resolveLocal srv (pq_Session req) (nd_Manager n1) of
             Inl err \<Rightarrow> (error_response (pq_OpID req) err, n1)
           | Inr sessionID \<Rightarrow>
               let tl_n = (case pq_Tail req of None \<Rightarrow> 50 | Some t \<Rightarrow> sint t) in
               (case ReadMessages un sessionID tl_n (nd_Manager n1) of
                  Inl err \<Rightarrow> (error_response (pq_OpID req) (MessageError err), n1)
                | Inr events \<Rightarrow>
                    ((empty_response (pq_OpID req) ''MsgReadResult'')
                       \<lparr>ps_Session := pq_Session req,
                        ps_Messages := List.map_filter eventToMessageResponse events\<rparr>,
                     n1))))"

text \<open>A request that was sent: its identifier, its reply channel and the seconds to wait.\<close>

record waiting =
  wt_OpID :: string
  wt_requestID :: string
  wt_replyCh :: nat
  wt_timeout :: uint64

definition handleMsgRequest ::
  "(Event \<Rightarrow> bytes option) \<Rightarrow> Server \<Rightarrow> peer_inputs \<Rightarrow> PeerRequest \<Rightarrow> Node \<Rightarrow>
   (server_error PeerResponse + waiting) \<times> Node" where
  "handleMsgRequest js srv i req n =
     (case resolveLocal srv (pq_To req) (nd_Manager n) of
        Inl err \<Rightarrow> (Inl (error_response (pq_OpID req) err), n)
      | Inr toID \<Rightarrow>
          if srv_RequireRemoteSenderAuth srv \<and> pq_From req = None
          then (Inl (error_response (pq_OpID req) (Refused ''remote request requires verified sender delegation'')), n)
          else
            (case (if pq_From req \<noteq> None then
                     (case admit_sender srv i ''request'' req n of
                        (Inl err, n1) \<Rightarrow> (Inl err, n1)
                      | (Inr s, n1) \<Rightarrow>
                          (case SendRemoteRequest js (pi_requestID i) (pi_replyToken i) (pi_now i) (as_DisplayName s)
                                  toID (pq_Body req) (nd_Manager n1) of
                             (Inl err, m) \<Rightarrow> (Inl (MessageError err), n1\<lparr>nd_Manager := m\<rparr>)
                           | (Inr (r, a), m) \<Rightarrow> (Inr (r, a, as_DisplayName s), n1\<lparr>nd_Manager := m\<rparr>)))
                   else
                     (case SendRequest js (pi_requestID i) (pi_replyToken i) (pi_now i) 0 toID (pq_Body req)
                             (nd_Manager n) of
                        (Inl err, m) \<Rightarrow> (Inl (MessageError err), n\<lparr>nd_Manager := m\<rparr>)
                      | (Inr (r, a), m) \<Rightarrow> (Inr (r, a, []), n\<lparr>nd_Manager := m\<rparr>))) of
               (Inl err, n2) \<Rightarrow> (Inl (error_response (pq_OpID req) err), n2)
             | (Inr (r, a, fromLabel), n2) \<Rightarrow>
                 let w = \<lparr>wt_OpID = pq_OpID req, wt_requestID = r, wt_replyCh = a,
                          wt_timeout = (case pq_TimeoutS req of Some t \<Rightarrow> if 0 < t then t else 60 | None \<Rightarrow> 60)\<rparr>
                 in if deliveryIncludesPTY (pq_Delivery req) then
                      (case DeliverRequestPrompt toID r fromLabel 0 (pq_Body req) (nd_Manager n2) of
                         (Inl err, m) \<Rightarrow>
                           (Inl (error_response (pq_OpID req) (PTYInjectionFailed err)),
                            n2\<lparr>nd_Manager := CleanupRequest r m\<rparr>)
                       | (Inr _, m) \<Rightarrow> (Inr w, n2\<lparr>nd_Manager := m\<rparr>))
                    else (Inr w, n2)))"

definition reply_locator :: "ReplyData \<Rightarrow> SessionLocator option" where
  "reply_locator reply =
     (if rp_From reply = 0 \<and> rp_FromName reply = [] then None
      else Some \<lparr>loc_Node = [], loc_ID = (if rp_From reply \<noteq> 0 then Some (rp_From reply) else None),
                 loc_Name = rp_FromName reply\<rparr>)"

definition request_replied :: "waiting \<Rightarrow> ReplyData \<Rightarrow> server_error PeerResponse" where
  "request_replied w reply =
     (empty_response (wt_OpID w) ''MsgRequestResult'')
       \<lparr>ps_RequestID := wt_requestID w, ps_ReplyBody := rp_Body reply, ps_From := reply_locator reply\<rparr>"

definition request_timed_out :: "waiting \<Rightarrow> Node \<Rightarrow> server_error PeerResponse \<times> Node" where
  "request_timed_out w n =
     (error_response (wt_OpID w) (TimedOut (wt_requestID w)),
      n\<lparr>nd_Manager := CleanupRequest (wt_requestID w) (nd_Manager n)\<rparr>)"

definition handleMsgReply ::
  "(Event \<Rightarrow> bytes option) \<Rightarrow> Server \<Rightarrow> peer_inputs \<Rightarrow> PeerRequest \<Rightarrow> Node \<Rightarrow> server_error PeerResponse \<times> Node" where
  "handleMsgReply js srv i req n =
     (if srv_RequireRemoteSenderAuth srv \<and> pq_From req = None
      then (error_response (pq_OpID req) (Refused ''remote reply requires verified sender delegation''), n)
      else
        (case (if pq_From req \<noteq> None then
                 (case authorizeSender srv i ''reply'' req n of
                    (Inl err, n1) \<Rightarrow> (Inl err, n1)
                  | (Inr None, n1) \<Rightarrow> (Inl NilSender, n1)
                  | (Inr (Some s), n1) \<Rightarrow>
                      (case SendRemoteReply js (pi_now i) (as_DisplayName s) (as_SessionID s) (pq_RequestID req)
                              (pq_Body req) (nd_Manager n1) of
                         (Inl err, m) \<Rightarrow> (Inl (MessageError err), n1\<lparr>nd_Manager := m\<rparr>)
                       | (Inr _, m) \<Rightarrow> (Inr (), n1\<lparr>nd_Manager := m\<rparr>)))
               else
                 (case SendReply js (pi_now i) 0 (pq_RequestID req) (pq_Body req) (nd_Manager n) of
                    (Inl err, m) \<Rightarrow> (Inl (MessageError err), n\<lparr>nd_Manager := m\<rparr>)
                  | (Inr _, m) \<Rightarrow> (Inr (), n\<lparr>nd_Manager := m\<rparr>))) of
           (Inl err, n2) \<Rightarrow> (error_response (pq_OpID req) err, n2)
         | (Inr _, n2) \<Rightarrow>
             ((empty_response (pq_OpID req) ''MsgReplySent'')\<lparr>ps_RequestID := pq_RequestID req\<rparr>, n2)))"

text \<open>A stream: the acknowledgement and the subscription, or the refusal.\<close>

definition listen_start ::
  "Server \<Rightarrow> peer_inputs \<Rightarrow> AuthenticatedPeer option \<Rightarrow> PeerRequest \<Rightarrow> Node \<Rightarrow>
   (server_error PeerResponse + server_error PeerResponse \<times> uint64) \<times> Node" where
  "listen_start srv i po req n =
     (case (if srv_RequireRemoteSenderAuth srv then
              (if po = None then (Some (Refused ''peer authentication is required''), n)
               else if pq_Session req = None then (Some (Refused ''remote message subscriptions require a session''), n)
               else authorizeObserver srv i po ''msg.listen'' (pq_Session req) (pq_ObserverCap req) n)
            else (None, n)) of
        (Some err, n1) \<Rightarrow> (Inl (error_response (pq_OpID req) err), n1)
      | (None, n1) \<Rightarrow>
          (case (if pq_Session req \<noteq> None then
                   (case resolveLocal srv (pq_Session req) (nd_Manager n1) of
                      Inl err \<Rightarrow> Inl err | Inr k \<Rightarrow> Inr (Some k))
                 else Inr None) of
             Inl err \<Rightarrow> (Inl (error_response (pq_OpID req) err), n1)
           | Inr sessionID \<Rightarrow>
               let m = nd_Manager n1;
                   sub = Subscribe sessionID [] [EventDirectMessage, EventRequest, EventReply] (mgr_Subscriptions m)
               in (Inr ((empty_response (pq_OpID req) ''MsgListenAck'')\<lparr>ps_Session := pq_Session req\<rparr>,
                        sub_ID (fst sub)),
                   n1\<lparr>nd_Manager := m\<lparr>mgr_Subscriptions := snd sub\<rparr>\<rparr>)))"

definition listen_event :: "Server \<Rightarrow> string \<Rightarrow> SessionEvent \<Rightarrow> server_error PeerResponse" where
  "listen_event srv op se =
     (empty_response op ''Event'')
       \<lparr>ps_Session := Some \<lparr>loc_Node = srv_NodeName srv, loc_ID = Some (se_SessionID se), loc_Name = []\<rparr>,
        ps_Event := Some se\<rparr>"

definition listen_end :: "uint64 \<Rightarrow> Node \<Rightarrow> Node" where
  "listen_end subID n =
     n\<lparr>nd_Manager := (nd_Manager n)\<lparr>mgr_Subscriptions := snd (Unsubscribe subID (mgr_Subscriptions (nd_Manager n)))\<rparr>\<rparr>"

section \<open>Connections\<close>

datatype handled =
    Respond "server_error PeerResponse"
  | Wait waiting

definition handle ::
  "(Event \<Rightarrow> bytes option) \<Rightarrow> (bytes \<Rightarrow> Event option) \<Rightarrow> Server \<Rightarrow> peer_inputs \<Rightarrow> AuthenticatedPeer option \<Rightarrow>
   PeerRequest \<Rightarrow> Node \<Rightarrow> handled \<times> Node" where
  "handle js un srv i po req n =
     (if pq_Type req = ''MsgSend'' then (case handleMsgSend js srv i req n of (r, n1) \<Rightarrow> (Respond r, n1))
      else if pq_Type req = ''MsgRequest'' then
        (case handleMsgRequest js srv i req n of (Inl r, n1) \<Rightarrow> (Respond r, n1) | (Inr w, n1) \<Rightarrow> (Wait w, n1))
      else if pq_Type req = ''MsgRead'' then (case handleMsgRead un srv i po req n of (r, n1) \<Rightarrow> (Respond r, n1))
      else if pq_Type req = ''MsgListen'' then
        (Respond (error_response (pq_OpID req) (Refused ''MsgListen must be served as a stream'')), n)
      else if pq_Type req = ''MsgReply'' then (case handleMsgReply js srv i req n of (r, n1) \<Rightarrow> (Respond r, n1))
      else (Respond (error_response (pq_OpID req) (Unsupported (pq_Type req))), n))"

text \<open>
  \<open>authenticateConn\<close> on what \<open>ReadAuthHello\<close> read: the acknowledgement to send and the
  principal, \<open>None\<close> when the connection is dropped. Without a callback there is no principal
  and nothing is sent.
\<close>

definition ack_error :: "server_error \<Rightarrow> server_error AuthAck" where
  "ack_error err = \<lparr>aa_Type = ''Error'', aa_NetworkID = [], aa_SubjectKind = [], aa_SubjectID = [], aa_Error = Some err\<rparr>"

definition authenticateConn ::
  "Server \<Rightarrow> peer_inputs \<Rightarrow> (peer_error + AuthHello option) \<Rightarrow> Node \<Rightarrow>
   (server_error AuthAck option \<times> AuthenticatedPeer option option) \<times> Node" where
  "authenticateConn srv i hello n =
     (case srv_AuthorizePeer srv of
        None \<Rightarrow> ((None, Some None), n)
      | Some authorizePeer \<Rightarrow>
          (case hello of
             Inl err \<Rightarrow> ((Some (ack_error (Refused ''peer authentication failed'')), None), n)
           | Inr None \<Rightarrow> ((Some (ack_error (Refused ''peer authentication failed'')), None), n)
           | Inr (Some h) \<Rightarrow>
               (case authorizePeer i (ah_RuntimeCredential h) n of
                  (Inl err, n1) \<Rightarrow> ((Some (ack_error (AuthError err)), None), n1)
                | (Inr None, n1) \<Rightarrow> ((Some (ack_error (Refused ''peer authentication failed'')), None), n1)
                | (Inr (Some p), n1) \<Rightarrow>
                    let ack = \<lparr>aa_Type = ''AuthAck'', aa_NetworkID = ap_NetworkID p,
                               aa_SubjectKind = ap_SubjectKind p, aa_SubjectID = ap_SubjectID p, aa_Error = None\<rparr>
                    in if AuthAck_Validate ack = None then ((Some ack, Some (Some p)), n1)
                       else ((None, None), n1))))"

end
