(* ===== verification/PeerFacts.thy ===== *)
theory PeerFacts
  imports PeerServer SessionFacts
begin

text \<open>
  What the peer server's handlers guarantee on the server that \<open>Node.Run\<close> builds: a request
  that is served had a verified credential for it, a request that is refused changes no session.
  At the end, a concrete network with one issuer, one node and one remote sender.
\<close>

section \<open>Names without white space\<close>

lemma match_len_None: "\<forall>e \<in> set es. e \<noteq> [] \<and> hd e \<noteq> hd s \<Longrightarrow> s \<noteq> [] \<Longrightarrow> match_len es s = 0"
  by (induction es) (auto simp: prefix_def neq_Nil_conv)

definition name_char :: "byte \<Rightarrow> bool" where
  "name_char c \<longleftrightarrow> is_alnum c \<or> c \<in> {CHR ''-'', CHR ''@'', CHR ''_''}"

lemma space_not_name:
  "e \<in> set space_encodings \<Longrightarrow> hd e = c \<Longrightarrow> \<not> name_char c"
  "e \<in> set space_encodings \<Longrightarrow> last e = c \<Longrightarrow> \<not> name_char c"
  by (auto simp: space_encodings_def name_char_def is_alnum_def less_eq_char_def)

lemma name_char_len: 
  assumes "name_char (hd s)" "s \<noteq> []"
  shows "space_len s = 0" "rspace_len s = 0"
proof -
  have ne: "e \<noteq> []" if "e \<in> set space_encodings" for e
    using that by (auto simp: space_encodings_def)
  show "space_len s = 0"
    unfolding space_len_def using ne assms by (intro match_len_None) (auto dest: space_not_name)
  show "rspace_len s = 0"
    unfolding rspace_len_def using ne assms by (intro match_len_None) (auto simp: hd_rev dest: space_not_name)
qed

lemma trim_space_name: "list_all name_char s \<Longrightarrow> trim_space s = s"
proof (cases "s = []")
  case False
  assume "list_all name_char s"
  then have h: "name_char (hd s)" "name_char (hd (rev s))" "rev s \<noteq> []"
    using False by (simp_all add: list_all_iff hd_rev)
  have "drop_space space_len s = s"
    by (subst drop_space.simps) (simp add: name_char_len(1) [OF h(1) False])
  moreover have "drop_space rspace_len (rev s) = rev s"
    by (subst drop_space.simps) (simp add: name_char_len(2) [OF h(2,3)])
  ultimately show ?thesis by (simp add: trim_space_def)
qed simp

lemma namePattern_chars: "namePattern s \<Longrightarrow> list_all name_char s \<and> s \<noteq> [] \<and> CHR ''@'' \<notin> set s"
  by (cases s) (auto simp: namePattern_def name_char_def list_all_iff is_alnum_def)

section \<open>What the callbacks leave alone\<close>

abbreviation same_sessions :: "Node \<Rightarrow> Node \<Rightarrow> bool" where
  "same_sessions n n' \<equiv> nd_Manager n' = nd_Manager n \<and> nd_config n' = nd_config n"

lemma authorizePeerRuntime_frame:
  "authorizePeerRuntime crypto dec fetched t0 t1 t2 token n = (r, n') \<Longrightarrow> same_sessions n n'"
  by (auto simp: authorizePeerRuntime_def Let_def dest!: load_bundle_frame split: if_splits prod.splits sum.splits)

lemma authorizePeerSender_frame:
  "authorizePeerSender crypto dec fetched t0 t1 t2 verb from cap n = (r, n') \<Longrightarrow> same_sessions n n'"
  by (auto simp: authorizePeerSender_def dest!: load_bundle_frame split: if_splits prod.splits sum.splits option.splits)

lemma authorizePeerObserver_frame:
  "authorizePeerObserver crypto dec fetched t0 t1 po verb sess cap n = (r, n') \<Longrightarrow> same_sessions n n'"
  by (auto simp: authorizePeerObserver_def dest!: load_bundle_frame split: if_splits prod.splits sum.splits option.splits)

lemma callbacks_frame:
  assumes "same_sessions n n'"
  shows "authorizePeerDelivery answer so to verb n' = authorizePeerDelivery answer so to verb n"
    "matchObserverSession sess claims n' = matchObserverSession sess claims n"
  unfolding authorizePeerDelivery_def resolveTargetSessionName_def fetchGroupBindings_def localGroupBindings_def
    matchObserverSession_def conjunct1 [OF assms] conjunct2 [OF assms] by (rule refl)+

text \<open>An observer grant that was accepted.\<close>

lemma authorizePeerObserver_result:
  assumes "authorizePeerObserver crypto dec fetched t0 t1 po verb sess cap n = (None, n')"
  obtains p l b claims where "po = Some p" "sess = Some l"
    "VerifyObserverDelegation crypto dec cap (Some b) t1 = Inr claims"
    "og_NetworkID claims = relayNetworkID n" "og_TargetNode claims = nc_NodeName (nd_config n)"
    "og_AudienceSubjectKind claims = ap_SubjectKind p" "og_AudienceSubjectID claims = ap_SubjectID p"
    "\<exists>v \<in> set (og_Verbs claims). trim_space v = trim_space verb"
    "matchObserverSession sess claims n = None" "same_sessions n n'"
proof -
  from assms obtain p l bo claims where 1: "po = Some p" "sess = Some l" "load_bundle fetched t0 n = (Inr bo, n')"
    and 2: "VerifyObserverDelegation crypto dec cap bo t1 = Inr claims"
    and 3: "og_NetworkID claims = relayNetworkID n'" "og_TargetNode claims = nc_NodeName (nd_config n')"
    "og_AudienceSubjectKind claims = ap_SubjectKind p" "og_AudienceSubjectID claims = ap_SubjectID p"
    "delegationAllowsVerb (og_Verbs claims) verb" "matchObserverSession sess claims n' = None"
    by (auto simp: authorizePeerObserver_def split: if_splits prod.splits sum.splits option.splits)
  note F = load_bundle_frame [OF 1(3)]
  obtain b where b: "bo = Some b" using observer_needs_bundle [OF 2] by blast
  have m: "matchObserverSession sess claims n' = matchObserverSession sess claims n"
    by (rule callbacks_frame(2)) (use F in simp)
  show thesis
    using that [of p l b claims] 1 2 3 F b m relayNetworkID_config [of n' n] by (simp add: delegationAllowsVerb_iff)
qed

section \<open>Writing requests\<close>

lemma sender_call:
  "authorizeSender (node_server crypto cc n0) i verb req n =
     (if pq_From req = None then (Inr None, n)
      else case authorizePeerSender crypto (cc_sender cc) (pi_fetched i) (pi_t0 i) (pi_t1 i) (pi_t2 i) verb
             (pq_From req) (pq_SenderCap req) n of
        (Inl err, n1) \<Rightarrow> (Inl (AuthError err), n1) | (Inr s, n1) \<Rightarrow> (Inr s, n1))"
  by (simp add: authorizeSender_def node_server_def)

lemma delivery_call:
  "authorizeDelivery (node_server crypto cc n0) i so to verb n =
     map_option AuthError (authorizePeerDelivery (pi_bindings i) so to verb n)"
  by (simp add: authorizeDelivery_def node_server_def)

text \<open>\<open>admitted\<close> names what an accepted sender has shown.\<close>

definition admitted ::
  "ed25519 \<Rightarrow> claims_codec \<Rightarrow> peer_inputs \<Rightarrow> string \<Rightarrow> PeerRequest \<Rightarrow> Node \<Rightarrow> SenderDelegationClaims \<Rightarrow> AuthorizedSender \<Rightarrow> bool" where
  "admitted crypto cc i verb req n claims s \<longleftrightarrow>
     (\<exists>b. VerifySenderDelegation crypto (cc_sender cc) (pq_SenderCap req) (Some b) (pi_t1 i) = Inr claims) \<and>
     (\<exists>from. pq_From req = Some from \<and> check_sender claims verb from n = None) \<and>
     sender_label claims = Some (as_DisplayName s) \<and> as_SessionID s = sd_FromSessionID claims \<and>
     as_SourceGroups s = sd_SourceGroups claims"

lemma authorizeSender_result:
  assumes "authorizeSender (node_server crypto cc n0) i verb req n = (Inr (Some s), n1)"
  shows "\<exists>claims. admitted crypto cc i verb req n claims s" "same_sessions n n1"
proof -
  from assms obtain lo where f: "pq_From req = Some lo"
    and a: "authorizePeerSender crypto (cc_sender cc) (pi_fetched i) (pi_t0 i) (pi_t1 i) (pi_t2 i) verb
             (Some lo) (pq_SenderCap req) n = (Inr (Some s), n1)"
    by (auto simp: sender_call split: if_splits prod.splits sum.splits)
  from a show "\<exists>claims. admitted crypto cc i verb req n claims s"
    by (rule authorizePeerSender_result) (auto simp: admitted_def f)
  from a show "same_sessions n n1" by (rule authorizePeerSender_frame)
qed

lemma authorizeSender_same:
  "authorizeSender (node_server crypto cc n0) i verb req n = (r, n1) \<Longrightarrow> same_sessions n n1"
  by (auto simp: sender_call dest!: authorizePeerSender_frame split: if_splits prod.splits sum.splits)

lemma admit_sender_same:
  "admit_sender (node_server crypto cc n0) i verb req n = (r, n1) \<Longrightarrow> same_sessions n n1"
  by (auto simp: admit_sender_def dest!: authorizeSender_same split: prod.splits sum.splits option.splits)

lemma admit_sender_result:
  assumes "admit_sender (node_server crypto cc n0) i verb req n = (Inr s, n1)"
  shows "\<exists>claims. admitted crypto cc i verb req n claims s"
    "authorizePeerDelivery (pi_bindings i) (Some s) (pq_To req) verb n = None" "same_sessions n n1"
proof -
  from assms have a: "authorizeSender (node_server crypto cc n0) i verb req n = (Inr (Some s), n1)"
    and d: "authorizePeerDelivery (pi_bindings i) (Some s) (pq_To req) verb n1 = None"
    by (auto simp: admit_sender_def delivery_call split: prod.splits sum.splits option.splits)
  show "\<exists>claims. admitted crypto cc i verb req n claims s" "same_sessions n n1"
    by (rule authorizeSender_result [OF a])+
  from callbacks_frame(1) [OF authorizeSender_result(2) [OF a]] d
  show "authorizePeerDelivery (pi_bindings i) (Some s) (pq_To req) verb n = None" by simp
qed

lemma responses [simp]:
  "ps_Type (error_response op err) = ''Error''" "ps_Type (empty_response op ty) = ty"
  by (simp_all add: error_response_def empty_response_def)

lemma send_failed: "fst (sendMessageWithMetadata js i now f nm to body mir m) = Inl err \<Longrightarrow>
    snd (sendMessageWithMetadata js i now f nm to body mir m) = m"
  by (auto simp: sendMessageWithMetadata_def Let_def split: option.splits if_splits)

lemma request_failed: "fst (sendRequestWithMetadata js r t now f nm to body mir m) = Inl err \<Longrightarrow>
    snd (sendRequestWithMetadata js r t now f nm to body mir m) = m"
  by (auto simp: sendRequestWithMetadata_def Let_def split: option.splits if_splits prod.splits)

text \<open>A served \<open>MsgSend\<close>, and a refused one.\<close>

lemma handleMsgSend_sent:
  assumes "handleMsgSend js (node_server crypto cc n0) i req n = (r, n')" "ps_Type r = ''MsgSent''"
  obtains toID s claims n1 where
    "resolveLocal (node_server crypto cc n0) (pq_To req) (nd_Manager n) = Inr toID"
    "admitted crypto cc i ''msg'' req n claims s"
    "authorizePeerDelivery (pi_bindings i) (Some s) (pq_To req) ''msg'' n = None"
    "SendRemoteMessage js (pi_messageID i) (pi_now i) (as_DisplayName s) toID (pq_Body req) (nd_Manager n) =
       (Inr (ps_MessageID r), nd_Manager n')"
proof -
  let ?srv = "node_server crypto cc n0"
  have req: "srv_RequireRemoteSenderAuth ?srv" by (simp add: node_server_def)
  from assms req obtain toID s n1 m where 1: "resolveLocal ?srv (pq_To req) (nd_Manager n) = Inr toID"
    and 2: "admit_sender ?srv i ''msg'' req n = (Inr s, n1)"
    and 3: "SendRemoteMessage js (pi_messageID i) (pi_now i) (as_DisplayName s) toID (pq_Body req) (nd_Manager n1) =
       (Inr (ps_MessageID r), m)" "n' = n1\<lparr>nd_Manager := m\<rparr>"
    by (auto simp: handleMsgSend_def split: sum.splits prod.splits if_splits)
  obtain claims where c: "admitted crypto cc i ''msg'' req n claims s"
    using admit_sender_result(1) [OF 2] by blast
  show thesis
    using that [OF 1 c admit_sender_result(2) [OF 2]] 3 admit_sender_result(3) [OF 2] by simp
qed

lemma handleMsgSend_refused:
  assumes "handleMsgSend js (node_server crypto cc n0) i req n = (r, n')" "ps_Type r \<noteq> ''MsgSent''"
  shows "ps_Type r = ''Error'' \<and> nd_Manager n' = nd_Manager n"
  using assms
  by (auto simp: handleMsgSend_def node_server_def SendRemoteMessage_def SendMessage_def
      dest!: admit_sender_same [unfolded node_server_def] split: sum.splits prod.splits if_splits)
    (metis fst_conv snd_conv send_failed)+

lemma handleMsgRequest_waiting:
  assumes "handleMsgRequest js (node_server crypto cc n0) i req n = (Inr w, n')"
  obtains toID s claims a m where
    "resolveLocal (node_server crypto cc n0) (pq_To req) (nd_Manager n) = Inr toID"
    "admitted crypto cc i ''request'' req n claims s"
    "authorizePeerDelivery (pi_bindings i) (Some s) (pq_To req) ''request'' n = None"
    "SendRemoteRequest js (pi_requestID i) (pi_replyToken i) (pi_now i) (as_DisplayName s) toID (pq_Body req)
       (nd_Manager n) = (Inr (wt_requestID w, wt_replyCh w), m)"
    "nd_Manager n' = m \<or> (\<exists>k. DeliverRequestPrompt toID (wt_requestID w) (as_DisplayName s) 0 (pq_Body req) m =
       (Inr k, nd_Manager n'))"
proof -
  let ?srv = "node_server crypto cc n0"
  have req: "srv_RequireRemoteSenderAuth ?srv" by (simp add: node_server_def)
  from assms req obtain toID s n1 m where 1: "resolveLocal ?srv (pq_To req) (nd_Manager n) = Inr toID"
    and 2: "admit_sender ?srv i ''request'' req n = (Inr s, n1)"
    and 3: "SendRemoteRequest js (pi_requestID i) (pi_replyToken i) (pi_now i) (as_DisplayName s) toID (pq_Body req)
       (nd_Manager n1) = (Inr (wt_requestID w, wt_replyCh w), m)"
    and 4: "nd_Manager n' = m \<or> (\<exists>k. DeliverRequestPrompt toID (wt_requestID w) (as_DisplayName s) 0 (pq_Body req) m =
       (Inr k, nd_Manager n'))"
    by (auto simp: handleMsgRequest_def Let_def split: sum.splits prod.splits if_splits)
  obtain claims where c: "admitted crypto cc i ''request'' req n claims s"
    using admit_sender_result(1) [OF 2] by blast
  show thesis
    using that [OF 1 c admit_sender_result(2) [OF 2] _ 4] 3 admit_sender_result(3) [OF 2] by simp
qed

section \<open>Reading requests\<close>

lemma observer_call:
  "authorizeObserver (node_server crypto cc n0) i po verb sess cap n =
     (case authorizePeerObserver crypto (cc_observer cc) (pi_fetched i) (pi_t0 i) (pi_t1 i) po verb sess cap n of
        (err, n1) \<Rightarrow> (map_option AuthError err, n1))"
  by (simp add: authorizeObserver_def node_server_def)

definition observes ::
  "ed25519 \<Rightarrow> claims_codec \<Rightarrow> peer_inputs \<Rightarrow> AuthenticatedPeer option \<Rightarrow> string \<Rightarrow> PeerRequest \<Rightarrow> Node \<Rightarrow>
   ObserverDelegationClaims \<Rightarrow> bool" where
  "observes crypto cc i po verb req n claims \<longleftrightarrow>
     (\<exists>b. VerifyObserverDelegation crypto (cc_observer cc) (pq_ObserverCap req) (Some b) (pi_t1 i) = Inr claims) \<and>
     og_NetworkID claims = relayNetworkID n \<and> og_TargetNode claims = nc_NodeName (nd_config n) \<and>
     (\<exists>p. po = Some p \<and> og_AudienceSubjectKind claims = ap_SubjectKind p \<and>
        og_AudienceSubjectID claims = ap_SubjectID p) \<and>
     (\<exists>v \<in> set (og_Verbs claims). trim_space v = verb) \<and>
     matchObserverSession (pq_Session req) claims n = None"

lemma authorizeObserver_result:
  assumes "authorizeObserver (node_server crypto cc n0) i po verb (pq_Session req) (pq_ObserverCap req) n = (None, n1)"
    "trim_space verb = verb"
  shows "\<exists>claims. observes crypto cc i po verb req n claims"
proof -
  from assms(1) have "authorizePeerObserver crypto (cc_observer cc) (pi_fetched i) (pi_t0 i) (pi_t1 i) po verb
      (pq_Session req) (pq_ObserverCap req) n = (None, n1)"
    by (auto simp: observer_call split: prod.splits)
  then show ?thesis by (rule authorizePeerObserver_result) (auto simp: observes_def assms(2))
qed

lemma authorizeObserver_same:
  "authorizeObserver (node_server crypto cc n0) i po verb sess cap n = (r, n1) \<Longrightarrow> same_sessions n n1"
  by (auto simp: observer_call dest!: authorizePeerObserver_frame split: prod.splits)

lemma verbs_trimmed: "trim_space ''msg.read'' = ''msg.read''" "trim_space ''msg.listen'' = ''msg.listen''"
  by code_simp+

lemma handleMsgRead_same:
  "handleMsgRead un (node_server crypto cc n0) i po req n = (r, n') \<Longrightarrow> same_sessions n n'"
  by (auto simp: handleMsgRead_def Let_def dest!: authorizeObserver_same split: sum.splits prod.splits if_splits option.splits)

lemma handleMsgRead_served:
  assumes "handleMsgRead un (node_server crypto cc n0) i po req n = (r, n')" "ps_Type r = ''MsgReadResult''"
  obtains claims sid events where "observes crypto cc i po ''msg.read'' req n claims"
    "resolveLocal (node_server crypto cc n0) (pq_Session req) (nd_Manager n) = Inr sid"
    "ReadMessages un sid (case pq_Tail req of None \<Rightarrow> 50 | Some t \<Rightarrow> sint t) (nd_Manager n) = Inr events"
    "ps_Messages r = List.map_filter eventToMessageResponse events"
proof -
  let ?srv = "node_server crypto cc n0"
  have req: "srv_RequireRemoteSenderAuth ?srv" by (simp add: node_server_def)
  from assms req obtain n1 sid events where
    1: "authorizeObserver ?srv i po ''msg.read'' (pq_Session req) (pq_ObserverCap req) n = (None, n1)"
    and 2: "resolveLocal ?srv (pq_Session req) (nd_Manager n1) = Inr sid"
      "ReadMessages un sid (case pq_Tail req of None \<Rightarrow> 50 | Some t \<Rightarrow> sint t) (nd_Manager n1) = Inr events"
      "ps_Messages r = List.map_filter eventToMessageResponse events"
    by (cases "pq_Tail req")
      (auto simp: handleMsgRead_def Let_def split: sum.splits prod.splits if_splits option.splits)
  obtain claims where "observes crypto cc i po ''msg.read'' req n claims"
    using authorizeObserver_result [OF 1 verbs_trimmed(1)] by blast
  from that [OF this] 2 authorizeObserver_same [OF 1] show thesis by simp
qed

lemma listen_start_served:
  assumes "listen_start (node_server crypto cc n0) i po req n = (Inr (r, k), n')"
  obtains claims sid where "observes crypto cc i po ''msg.listen'' req n claims"
    "resolveLocal (node_server crypto cc n0) (pq_Session req) (nd_Manager n) = Inr sid"
    "map_option sub_SessionID (mget (sm_subs (mgr_Subscriptions (nd_Manager n'))) k) = Some (Some sid)"
proof -
  let ?srv = "node_server crypto cc n0"
  have req: "srv_RequireRemoteSenderAuth ?srv" by (simp add: node_server_def)
  from assms req obtain n1 sid where
    1: "authorizeObserver ?srv i po ''msg.listen'' (pq_Session req) (pq_ObserverCap req) n = (None, n1)"
    and 2: "resolveLocal ?srv (pq_Session req) (nd_Manager n1) = Inr sid"
    and 3: "map_option sub_SessionID (mget (sm_subs (mgr_Subscriptions (nd_Manager n'))) k) = Some (Some sid)"
    by (auto simp: listen_start_def Let_def Subscribe_def mget_mput split: sum.splits prod.splits if_splits option.splits)
  obtain claims where "observes crypto cc i po ''msg.listen'' req n claims"
    using authorizeObserver_result [OF 1 verbs_trimmed(2)] by blast
  from that [OF this] 2 3 authorizeObserver_same [OF 1] show thesis by simp
qed

section \<open>The session a request is about\<close>

lemma ResolveByName_name:
  assumes "names_ok m" "ResolveByName name m = Inr k"
  shows "namePattern name" "GetName k m = name"
  using names_okD [OF assms(1), of name k] assms(2)
  by (auto simp: ResolveByName_def GetName_def split: option.splits)

text \<open>The policy that lets a message through is the policy of the session that receives it.\<close>

lemma delivery_target:
  assumes "names_ok (nd_Manager n)" "resolveLocal srv lo (nd_Manager n) = Inr k"
    and "authorizePeerDelivery answer (Some s) lo verb n = None"
  shows "trim_space (GetName k (nd_Manager n)) = [] \<or>
    enforceGroupBindings (fetchGroupBindings answer (trim_space (GetName k (nd_Manager n))) n) (as_SourceGroups s) verb = None"
proof -
  from assms(2) obtain l where l: "lo = Some l"
    and r: "loc_ID l = Some k \<or> loc_ID l = None \<and> ResolveByName (trim_prefix (loc_Name l) ''@'') (nd_Manager n) = Inr k"
    by (auto simp: resolveLocal_def split: option.splits if_splits sum.splits)
  have "resolveTargetSessionName lo n = Inr (trim_space (GetName k (nd_Manager n)))"
    using r ResolveByName_name(2) [OF assms(1)] by (auto simp: resolveTargetSessionName_def l)
  then show ?thesis
    using assms(3) by (auto simp: authorizePeerDelivery_def l split: if_splits)
qed

text \<open>The session that is read is the session the grant is about.\<close>

lemma granted_session:
  assumes "names_ok (nd_Manager n)" "resolveLocal srv lo (nd_Manager n) = Inr k"
    and "matchObserverSession lo claims n = None"
  shows "og_SessionID claims \<in> {None, Some k}"
    "og_SessionName claims \<noteq> [] \<Longrightarrow>
      GetName k (nd_Manager n) \<in> {og_SessionName claims, trim_prefix (og_SessionName claims) ''@''}"
proof -
  from assms(2) obtain l where l: "lo = Some l"
    and r: "loc_ID l = Some k \<or> loc_ID l = None \<and> ResolveByName (trim_prefix (loc_Name l) ''@'') (nd_Manager n) = Inr k"
    by (auto simp: resolveLocal_def split: option.splits if_splits sum.splits)
  have "og_SessionID claims \<in> {None, Some k} \<and> (og_SessionName claims \<noteq> [] \<longrightarrow>
      GetName k (nd_Manager n) \<in> {og_SessionName claims, trim_prefix (og_SessionName claims) ''@''})"
    using r
  proof
    assume "loc_ID l = Some k"
    with assms(3) show ?thesis
      by (auto simp: matchObserverSession_def l split: if_splits option.splits)
  next
    assume n: "loc_ID l = None \<and> ResolveByName (trim_prefix (loc_Name l) ''@'') (nd_Manager n) = Inr k"
    have p: "namePattern (trim_prefix (loc_Name l) ''@'')" "GetName k (nd_Manager n) = trim_prefix (loc_Name l) ''@''"
      using ResolveByName_name [OF assms(1)] n by blast+
    have "list_all name_char (loc_Name l)"
      using namePattern_chars [OF p(1)] by (auto simp: trim_prefix_def prefix_def name_char_def split: if_splits)
    then have "trim_space (loc_Name l) = loc_Name l" by (rule trim_space_name)
    with assms(3) n p(2) show ?thesis
      by (auto simp: matchObserverSession_def l Let_def split: if_splits option.splits)
  qed
  then show "og_SessionID claims \<in> {None, Some k}"
    "og_SessionName claims \<noteq> [] \<Longrightarrow>
      GetName k (nd_Manager n) \<in> {og_SessionName claims, trim_prefix (og_SessionName claims) ''@''}"
    by blast+
qed

section \<open>Connections and replies\<close>

lemma authenticateConn_served:
  assumes "authenticateConn (node_server crypto cc n0) i hello n = ((ack, Some po), n')"
  obtains h b claims p where "hello = Inr (Some h)"
    "VerifyRuntimeCredential crypto (cc_runtime cc) (trim_space (ah_RuntimeCredential h)) (Some b) (pi_t1 i) = Inr claims"
    "rt_NetworkID claims = relayNetworkID n" "po = Some p"
    "p = \<lparr>ap_NetworkID = rt_NetworkID claims, ap_SubjectKind = rt_SubjectKind claims, ap_SubjectID = rt_SubjectID claims\<rparr>"
    "ConsumeRuntime (Some claims) (pi_t2 i) (nd_runtimeSeen n) = (Inr (), nd_runtimeSeen n')"
    "same_sessions n n'"
proof -
  from assms obtain h p where 1: "hello = Inr (Some h)" "po = Some p"
    and 2: "authorizePeerRuntime crypto (cc_runtime cc) (pi_fetched i) (pi_t0 i) (pi_t1 i) (pi_t2 i)
      (ah_RuntimeCredential h) n = (Inr p, n')"
    by (auto simp: authenticateConn_def node_server_def Let_def split: sum.splits option.splits prod.splits if_splits)
  from 2 show thesis by (rule authorizePeerRuntime_result) (rule that [OF 1(1) _ _ 1(2)], auto)
qed

text \<open>
  A remote reply is accepted when the delegation's session number is the number of the session
  the request was sent to; the sender's node plays no part.
\<close>

lemma handleMsgReply_accepted:
  assumes "authorizeSender (node_server crypto cc n0) i ''reply'' req n = (Inr (Some s), n1)"
    and "as_SessionID s = Some k" "k \<noteq> 0"
    and "mget (mgr_pendingRequests (nd_Manager n)) (pq_RequestID req) = Some p" "pr_allowedReplierSessionID p = k"
  shows "handleMsgReply js (node_server crypto cc n0) i req n =
    ((empty_response (pq_OpID req) ''MsgReplySent'')\<lparr>ps_RequestID := pq_RequestID req\<rparr>,
     n1\<lparr>nd_Manager := snd (reply_commit js (pi_now i) k (as_DisplayName s) (pq_RequestID req) (pq_Body req) False
       (nd_Manager n))\<rparr>)"
proof -
  have f: "pq_From req \<noteq> None" using assms(1) by (auto simp: sender_call split: if_splits)
  have m: "nd_Manager n1 = nd_Manager n" using authorizeSender_same [OF assms(1)] by simp
  have c: "reply_check 0 (as_DisplayName s) (Some k) (pq_RequestID req) [] (nd_Manager n) = Inr k"
    using assms(3-5) by (simp add: reply_check_def Let_def)
  have "fst (reply_commit js (pi_now i) k (as_DisplayName s) (pq_RequestID req) (pq_Body req) False (nd_Manager n)) = Inr ()"
    using assms(4) by (simp add: reply_commit_def Let_def)
  then show ?thesis
    using f m c assms(1,2)
    by (auto simp: handleMsgReply_def SendRemoteReply_def sendReplyWithMetadata_def split: prod.splits sum.splits)
qed

section \<open>A concrete network\<close>

text \<open>
  A signature scheme whose signature is the message, an issuer, its bundle, and credentials of
  the node \<open>n2\<close> and of its session 1.
\<close>

definition demo_crypto :: ed25519 where
  "demo_crypto = \<lparr>ed_sign = \<lambda>priv p. p, ed_verify = \<lambda>pub p s. s = p\<rparr>"

definition demo_issuer :: IssuerState where
  "demo_issuer = NewIssuerState ''net'' (replicate 32 (CHR ''p'')) (replicate 64 (CHR ''s'')) ''key'' 0"

definition demo_bundle :: VerifierBundle where
  "demo_bundle = Bundle demo_issuer 0 0"

definition demo_runtime :: RuntimeClaims where
  "demo_runtime = \<lparr>rt_Kind = RuntimeKind, rt_NetworkID = ''net'', rt_SubjectKind = SubjectKindNode,
     rt_SubjectID = ''n2'', rt_Issuer = ''relay:net'', rt_KeyID = ''key'', rt_IssuedAt = 0,
     rt_ExpiresAt = DefaultRuntimeTTL, rt_JTI = ''rt_1''\<rparr>"

definition demo_sender :: SenderDelegationClaims where
  "demo_sender = \<lparr>sd_Kind = SenderDelegationKind, sd_NetworkID = ''net'', sd_SourceNode = ''n2'',
     sd_FromSessionID = Some 1, sd_FromSessionName = [], sd_SourceGroups = [''web''],
     sd_Verbs = [''msg'', ''reply''], sd_AudienceNode = ''n1'', sd_Issuer = ''relay:net'', sd_KeyID = ''key'',
     sd_IssuedAt = 0, sd_ExpiresAt = DefaultSenderTTL, sd_JTI = ''sd_1''\<rparr>"

definition demo_observer :: ObserverDelegationClaims where
  "demo_observer = \<lparr>og_Kind = ObserverDelegationKind, og_NetworkID = ''net'', og_TargetNode = ''n1'',
     og_SessionID = None, og_SessionName = ''web'', og_Verbs = [''msg.read''],
     og_AudienceSubjectKind = SubjectKindNode, og_AudienceSubjectID = ''n2'', og_Issuer = ''relay:net'',
     og_KeyID = ''key'', og_IssuedAt = 0, og_ExpiresAt = DefaultObserverTTL, og_JTI = ''og_1''\<rparr>"

definition demo_codec :: claims_codec where
  "demo_codec = \<lparr>cc_runtime = \<lambda>_. Some demo_runtime, cc_sender = \<lambda>_. Some demo_sender,
     cc_observer = \<lambda>_. Some demo_observer\<rparr>"

definition demo_token :: "string \<Rightarrow> string" where
  "demo_token pre = join_with ''.'' [pre, b64_encode ''r'', b64_encode ''r'']"

lemma demo_net: "ResolveNetworkID ''net'' = ''net''" "trim_space ''net'' = ''net''"
  unfolding ResolveNetworkID_def by code_simp+

lemma demo_bundle_fields:
  "vb_NetworkID demo_bundle = ''net''" "vb_ExpiresAt demo_bundle = DefaultBundleValidity"
  "find_key (vb_Keys demo_bundle) ''key'' = Inr (replicate 32 (CHR ''p''))"
  by (simp_all add: demo_bundle_def demo_issuer_def Bundle_def NewIssuerState_def demo_net b64_roundtrip)

lemma demo_checks:
  "0 \<le> e \<Longrightarrow> check_claims k demo_bundle 0 k ''net'' 0 e = None"
  "check_signature demo_crypto demo_bundle ''key'' p p = None"
  by (simp_all add: check_claims_def demo_bundle_fields demo_net DefaultBundleValidity_def maxClockSkew_def
      check_signature_def demo_crypto_def)

lemma demo_times: "0 \<le> DefaultRuntimeTTL" "0 \<le> DefaultSenderTTL" "0 \<le> DefaultObserverTTL"
  by (simp_all add: DefaultRuntimeTTL_def DefaultSenderTTL_def DefaultObserverTTL_def)

lemma demo_verified:
  "VerifyRuntimeCredential demo_crypto (\<lambda>_. Some demo_runtime) (demo_token RuntimeTokenPrefix) (Some demo_bundle) 0 = Inr demo_runtime"
  "VerifySenderDelegation demo_crypto (\<lambda>_. Some demo_sender) (demo_token SenderTokenPrefix) (Some demo_bundle) 0 = Inr demo_sender"
  "VerifyObserverDelegation demo_crypto (\<lambda>_. Some demo_observer) (demo_token ObserverTokenPrefix) (Some demo_bundle) 0 = Inr demo_observer"
  unfolding demo_token_def
  by (simp_all add: VerifyRuntimeCredential_def parse_signed [OF runtime.no_dot] demo_runtime_def
      VerifySenderDelegation_def parse_signed [OF sender.no_dot] demo_sender_def
      VerifyObserverDelegation_def parse_signed [OF observer.no_dot] demo_observer_def demo_checks demo_times
      del: join_with.simps b64_encode.simps)

lemma demo_token_trim:
  "trim_space (demo_token RuntimeTokenPrefix) = demo_token RuntimeTokenPrefix"
  "trim_space (demo_token SenderTokenPrefix) \<noteq> []" "trim_space (demo_token ObserverTokenPrefix) \<noteq> []"
  "demo_token RuntimeTokenPrefix \<noteq> []"
  unfolding demo_token_def RuntimeTokenPrefix_def SenderTokenPrefix_def ObserverTokenPrefix_def by code_simp+

text \<open>The manager of node \<open>n1\<close>: session 1, named \<open>web\<close>, in the group \<open>web\<close>.\<close>

definition demo_named :: SessionManager where
  "demo_named = mgr_do (\<lambda>e. Some ''{}'') (OpSetName 1 ''web'') demo_manager"

lemma demo_named_reachable: "mgr_reachable (\<lambda>e. Some ''{}'') demo_start demo_named"
  unfolding demo_named_def by (rule mgr_reachable.step [OF demo_reachable]) simp

definition demo_node :: "SessionManager \<Rightarrow> Node" where
  "demo_node m = \<lparr>nd_Manager = m,
     nd_config = \<lparr>nc_NodeName = ''n1'', nc_RelayURL = None, nc_RelayNodeToken = None, nc_RelayNodeNetwork = Some ''net''\<rparr>,
     nd_bundleCache = Some \<lparr>cache_fetch = True, cache_bundle = Some demo_bundle\<rparr>,
     nd_runtimeSeen = Some NewReplayCache, nd_senderSeen = Some NewReplayCache\<rparr>"

definition demo_inputs :: peer_inputs where
  "demo_inputs = \<lparr>pi_fetched = None, pi_t0 = 0, pi_t1 = 0, pi_t2 = 0, pi_bindings = None, pi_now = 0,
     pi_messageID = ''msg_1'', pi_requestID = ''req_9'', pi_replyToken = ''rpl_9''\<rparr>"

definition demo_server :: Server where
  "demo_server = node_server demo_crypto demo_codec (demo_node demo_manager)"

lemma demo_load: "load_bundle None 0 (demo_node m) = (Inr (Some demo_bundle), demo_node m)"
  by (simp add: load_bundle_def BundleCache_Get_def demo_node_def demo_bundle_fields DefaultBundleValidity_def)

lemma demo_relay: "relayNetworkID (demo_node m) = ''net''"
  by (simp add: relayNetworkID_def demo_node_def demo_net)

lemma demo_named_session:
  "\<exists>s. session_of demo_named 1 = Some s \<and> meta_Name (sess_Meta s) = ''web'' \<and> meta_Tags (sess_Meta s) = [''group:web'']"
proof -
  have "demo_named = rename_session 1 ''web'' [] demo_manager"
    by (simp add: demo_named_def demo_rename)
  moreover have "session_of (rename_session 1 ''web'' [] demo_manager) 1 =
      session_of (upd_session 1 (\<lambda>s. s\<lparr>sess_Meta := (sess_Meta s)\<lparr>meta_Name := ''web''\<rparr>\<rparr>) demo_manager) 1"
    by (simp add: rename_session_def Let_def session_of_def triggerPersist_def)
  ultimately show ?thesis using demo_session by (auto simp: new_session_def)
qed

lemma demo_named_facts:
  "ResolveByName ''web'' demo_named = Inr 1" "GetName 1 demo_named = ''web''" "GroupNames 1 demo_named = [''web'']"
proof -
  show "ResolveByName ''web'' demo_named = Inr 1"
    by (simp add: demo_named_def demo_rename rename_session_def Let_def ResolveByName_def triggerPersist_def mget_mput)
  show "GetName 1 demo_named = ''web''" using demo_named_session by (auto simp: GetName_def)
  have "group_names [''group:web''] = [''web'']" by code_simp
  then show "GroupNames 1 demo_named = [''web'']" using demo_named_session by (auto simp: GroupNames_def)
qed

lemma demo_named_names: "names_ok demo_named"
proof -
  have "mgr_ok demo_named"
    by (rule mgr_reachable_ok [OF demo_named_reachable]) (simp add: demo_start_def mgr_ok_start)
  then show ?thesis by (simp add: mgr_ok_def)
qed

definition demo_request_of :: "string \<Rightarrow> string \<Rightarrow> PeerRequest" where
  "demo_request_of ty rid =
     \<lparr>pq_OpID = ''op'', pq_Type = ty, pq_SenderCap = demo_token SenderTokenPrefix,
      pq_ObserverCap = demo_token ObserverTokenPrefix,
      pq_From = Some \<lparr>loc_Node = ''n2'', loc_ID = Some 1, loc_Name = []\<rparr>,
      pq_To = Some \<lparr>loc_Node = [], loc_ID = None, loc_Name = ''@web''\<rparr>,
      pq_Session = Some \<lparr>loc_Node = [], loc_ID = None, loc_Name = ''web''\<rparr>,
      pq_RequestID = rid, pq_Body = ''hi'', pq_Tail = None, pq_Delivery = [], pq_TimeoutS = None\<rparr>"

definition demo_authorized :: AuthorizedSender where
  "demo_authorized = \<lparr>as_DisplayName = ''n2:1'', as_SessionID = Some 1, as_SessionName = [], as_SourceGroups = [''web'']\<rparr>"

lemma demo_trims: "trim_space ''n2'' = ''n2''" "trim_space ''msg'' = ''msg''" "trim_space ''reply'' = ''reply''"
  "trim_space ''web'' = ''web''" "trim_space ''msg.read'' = ''msg.read''" "trim_space ''sender'' = ''sender''"
  "trim_space ''runtime'' = ''runtime''" "trim_space ''sd_1'' \<noteq> []" "trim_space ''rt_1'' \<noteq> []"
  by code_simp+

lemma demo_sender_authorized:
  assumes "verb \<in> {''msg'', ''reply''}"
  shows "\<exists>n. authorizeSender demo_server demo_inputs verb (demo_request_of ty rid) (demo_node m) = (Inr (Some demo_authorized), n)"
proof -
  have one: "show_nat (Suc 0) = ''1''"
    by (simp add: show_nat.simps char_of_def bit_0)
  have c: "check_sender demo_sender verb \<lparr>loc_Node = ''n2'', loc_ID = Some 1, loc_Name = []\<rparr> (demo_node m) = None"
    using assms by (auto simp: check_sender_def demo_relay demo_trims) (auto simp: demo_sender_def demo_node_def demo_trims)
  have l: "sender_label demo_sender = Some ''n2:1''"
    by (simp add: sender_label_def demo_sender_def one)
  have k: "\<exists>c. ConsumeSender (Some demo_sender) 0 (nd_senderSeen (demo_node m)) = (Inr (), c)"
    by (simp add: ConsumeSender_def demo_sender_def demo_node_def consume_def Let_def NewReplayCache_def sweep_def
        demo_trims mget_def)
  then show ?thesis
    unfolding demo_server_def sender_call
    by (auto simp: authorizePeerSender_def demo_request_of_def demo_token_trim demo_trims demo_inputs_def demo_load
        demo_codec_def demo_verified c l demo_authorized_def)
      (auto simp: demo_sender_def)
qed

lemma demo_delivery:
  "authorizePeerDelivery None (Some demo_authorized) (pq_To (demo_request_of ty rid)) verb (demo_node demo_named) = None"
  by (simp add: authorizePeerDelivery_def demo_request_of_def resolveTargetSessionName_def trim_prefix_def demo_trims
      fetchGroupBindings_def demo_node_def blank_def localGroupBindings_def Let_def demo_named_facts
      demo_authorized_def enforceGroupBindings_None GroupMessages_neq)

text \<open>A replay cache is built from the empty one by the credentials used so far.\<close>

lemma consume_all_ok: "cache_ok co \<Longrightarrow> cache_ok (consume_all calls co)"
  unfolding consume_all_def by (induction calls arbitrary: co) (auto intro: cache_ok_consume)

lemma used_cache:
  obtains c where "consume_all calls (Some NewReplayCache) = Some c" "map_ok (rc_seen c)"
proof -
  have "consume_all calls (Some c0) \<noteq> None" for c0
    unfolding consume_all_def
    by (induction calls arbitrary: c0) (auto simp: consume_def Let_def split: option.split)
  then obtain c where c: "consume_all calls (Some NewReplayCache) = Some c" by blast
  moreover have "map_ok (rc_seen c)"
    using consume_all_ok [of "Some NewReplayCache" calls] c
    by (simp add: cache_ok_def NewReplayCache_def map_ok_def)
  ultimately show thesis by (rule that)
qed

lemma map_ok_seen: "consume_all calls (Some NewReplayCache) = Some c \<Longrightarrow> map_ok (rc_seen c)"
  using used_cache [of calls] by auto

lemma demo_signed:
  "SignRuntimeCredential demo_crypto (\<lambda>_. Some ''r'') ''rt_1'' (Some demo_issuer) SubjectKindNode ''n2'' 0 0 =
     Inr (demo_token RuntimeTokenPrefix, demo_runtime)"
proof -
  have t: "trim_space SubjectKindNode \<noteq> []" "trim_space ''n2'' \<noteq> []"
    unfolding SubjectKindNode_def by code_simp+
  show ?thesis
    by (simp add: SignRuntimeCredential_def t Let_def sign_claims_def demo_issuer_def NewIssuerState_def b64_roundtrip
        demo_crypto_def demo_token_def demo_runtime_def demo_net del: join_with.simps b64_encode.simps)
qed

lemma demo_expiry_verified:
  "VerifyRuntimeCredential demo_crypto (\<lambda>_. Some demo_runtime) (demo_token RuntimeTokenPrefix) (Some demo_bundle)
     (DefaultRuntimeTTL + maxClockSkew) = Inr demo_runtime"
proof -
  have "check_claims RuntimeKind demo_bundle (DefaultRuntimeTTL + maxClockSkew) RuntimeKind ''net'' 0 DefaultRuntimeTTL = None"
    by (simp add: check_claims_def demo_bundle_fields demo_net DefaultBundleValidity_def DefaultRuntimeTTL_def maxClockSkew_def)
  then show ?thesis
    unfolding demo_token_def
    by (simp add: VerifyRuntimeCredential_def parse_signed [OF runtime.no_dot] demo_runtime_def demo_checks
        del: join_with.simps b64_encode.simps)
qed

definition demo_admitted_node :: "Node" where
  "demo_admitted_node = (demo_node demo_named)\<lparr>nd_runtimeSeen := snd (ConsumeRuntime (Some demo_runtime) 0 (Some NewReplayCache))\<rparr>"

lemma demo_runtime_admitted:
  "authorizePeerRuntime demo_crypto (\<lambda>_. Some demo_runtime) None 0 0 0 (demo_token RuntimeTokenPrefix) (demo_node demo_named) =
     (Inr \<lparr>ap_NetworkID = ''net'', ap_SubjectKind = SubjectKindNode, ap_SubjectID = ''n2''\<rparr>, demo_admitted_node)"
proof -
  have "\<exists>c. ConsumeRuntime (Some demo_runtime) 0 (Some NewReplayCache) = (Inr (), c)"
    by (simp add: ConsumeRuntime_def demo_runtime_def consume_def Let_def NewReplayCache_def sweep_def demo_trims mget_def)
  moreover have "nd_runtimeSeen (demo_node demo_named) = Some NewReplayCache" by (simp add: demo_node_def)
  ultimately show ?thesis
    by (auto simp: authorizePeerRuntime_def Let_def demo_token_trim demo_load demo_verified demo_relay demo_admitted_node_def)
      (auto simp: demo_runtime_def)
qed

lemma demo_expires: "rt_ExpiresAt demo_runtime = DefaultRuntimeTTL"
  by (simp add: demo_runtime_def)

lemma demo_load_admitted: "load_bundle None 0 demo_admitted_node = (Inr (Some demo_bundle), demo_admitted_node)"
  by (simp add: load_bundle_def BundleCache_Get_def demo_admitted_node_def demo_node_def demo_bundle_fields
      DefaultBundleValidity_def)

lemma demo_send:
  "ps_Type (fst (handleMsgSend (\<lambda>e. Some ''{}'') demo_server demo_inputs (demo_request_of ''MsgSend'' []) (demo_node demo_named))) \<noteq> ''Error''"
proof -
  have r: "resolveLocal demo_server (pq_To (demo_request_of ''MsgSend'' [])) demo_named = Inr 1"
    by (simp add: resolveLocal_def demo_request_of_def trim_prefix_def demo_named_facts)
  obtain n1 where a: "authorizeSender demo_server demo_inputs ''msg'' (demo_request_of ''MsgSend'' []) (demo_node demo_named) =
      (Inr (Some demo_authorized), n1)"
    using demo_sender_authorized [of "''msg''"] by blast
  have same: "same_sessions (demo_node demo_named) n1"
    using authorizeSender_same a unfolding demo_server_def by blast
  have "authorizeDelivery demo_server demo_inputs (Some demo_authorized) (pq_To (demo_request_of ''MsgSend'' [])) ''msg'' n1 = None"
    using demo_delivery callbacks_frame(1) [OF same]
    unfolding demo_server_def delivery_call by (simp add: demo_inputs_def)
  with a have ad: "admit_sender demo_server demo_inputs ''msg'' (demo_request_of ''MsgSend'' []) (demo_node demo_named) =
      (Inr demo_authorized, n1)"
    by (simp add: admit_sender_def)
  obtain s where s: "session_of demo_named 1 = Some s" using demo_named_session by blast
  have m: "nd_Manager (demo_node demo_named) = demo_named" "nd_Manager n1 = demo_named"
    using same by (simp_all add: demo_node_def)
  have f: "pq_From (demo_request_of ''MsgSend'' []) \<noteq> None" by (simp add: demo_request_of_def)
  show ?thesis
    using f by (simp add: handleMsgSend_def m r ad SendRemoteMessage_def sendMessageWithMetadata_def s Let_def split: prod.splits sum.splits)
qed

lemma authenticateConn_same:
  "authenticateConn (node_server crypto cc n0) i hello n = (r, n') \<Longrightarrow> same_sessions n n'"
  by (auto simp: authenticateConn_def node_server_def Let_def dest!: authorizePeerRuntime_frame
      split: sum.splits option.splits prod.splits if_splits)

section \<open>Reading and replying on the concrete node\<close>

lemma message_hides_token: "eventToMessageResponse e = Some msg \<Longrightarrow> mr_ReplyToken msg = []"
  by (auto simp: eventToMessageResponse_def split: if_splits event_data.splits)

lemma handleMsgRead_type:
  "handleMsgRead un srv i po req n = (r, n') \<Longrightarrow> ps_Type r \<in> {''Error'', ''MsgReadResult''}"
  by (auto simp: handleMsgRead_def Let_def split: sum.splits prod.splits if_splits option.splits)

lemma demo_message_log: "\<exists>s. session_of demo_named 1 = Some s \<and> sess_messageLog s = Some \<lparr>el_file = Some []\<rparr>"
proof -
  have "demo_named = rename_session 1 ''web'' [] demo_manager"
    by (simp add: demo_named_def demo_rename)
  moreover have "session_of (rename_session 1 ''web'' [] demo_manager) 1 =
      session_of (upd_session 1 (\<lambda>s. s\<lparr>sess_Meta := (sess_Meta s)\<lparr>meta_Name := ''web''\<rparr>\<rparr>) demo_manager) 1"
    by (simp add: rename_session_def Let_def session_of_def triggerPersist_def)
  ultimately show ?thesis using demo_session by (auto simp: new_session_def append_event_def demo_os_def)
qed

definition demo_peer :: AuthenticatedPeer where
  "demo_peer = \<lparr>ap_NetworkID = ''net'', ap_SubjectKind = SubjectKindNode, ap_SubjectID = ''n2''\<rparr>"

lemma demo_read:
  "ps_Type (fst (handleMsgRead (\<lambda>_. None) demo_server demo_inputs (Some demo_peer) (demo_request_of ''MsgRead'' []) (demo_node demo_named)))
     \<noteq> ''Error''"
proof -
  let ?q = "demo_request_of ''MsgRead'' []" and ?n = "demo_node demo_named"
  have m: "nd_Manager ?n = demo_named" by (simp add: demo_node_def)
  have "matchObserverSession (pq_Session ?q) demo_observer ?n = None"
    by (simp add: matchObserverSession_def demo_request_of_def demo_observer_def Let_def demo_trims)
  then have "authorizePeerObserver demo_crypto (\<lambda>_. Some demo_observer) None 0 0 (Some demo_peer) ''msg.read''
      (pq_Session ?q) (pq_ObserverCap ?q) ?n = (None, ?n)"
    by (simp add: authorizePeerObserver_def demo_request_of_def demo_token_trim demo_load demo_verified demo_relay)
      (simp add: demo_observer_def demo_node_def demo_peer_def demo_trims)
  then have a: "authorizeObserver demo_server demo_inputs (Some demo_peer) ''msg.read'' (pq_Session ?q) (pq_ObserverCap ?q) ?n = (None, ?n)"
    unfolding demo_server_def observer_call by (simp add: demo_inputs_def demo_codec_def)
  have r: "resolveLocal demo_server (pq_Session ?q) demo_named = Inr 1"
    by (simp add: resolveLocal_def demo_request_of_def trim_prefix_def demo_named_facts)
  have s: "pq_Session ?q \<noteq> None" "pq_Tail ?q = None" by (simp_all add: demo_request_of_def)
  have "ReadMessages (\<lambda>_. None) 1 50 demo_named = Inr []"
    using demo_message_log by (auto simp: ReadMessages_def ReadTail_def ReadEventLog_def scan_tokens.simps)
  then show ?thesis
    using s by (auto simp: handleMsgRead_def a m r)
qed

definition demo_reply_request :: PeerRequest where
  "demo_reply_request = demo_request_of ''MsgReply'' ''req_1''"

lemma demo_reply_authorized:
  "\<exists>n. authorizeSender (node_server demo_crypto demo_codec (demo_node demo_manager)) demo_inputs ''reply'' demo_reply_request
     (demo_node demo_requested) = (Inr (Some demo_authorized), n)"
  using demo_sender_authorized [of "''reply''"] unfolding demo_server_def demo_reply_request_def by blast

lemma demo_claims:
  "VerifyObserverDelegation demo_crypto (cc_observer demo_codec) (demo_token ObserverTokenPrefix) (Some b) t = Inr c \<Longrightarrow>
   c = demo_observer"
  by (auto simp: VerifyObserverDelegation_def demo_codec_def demo_token_def parse_signed [OF observer.no_dot]
      simp del: join_with.simps b64_encode.simps split: option.splits)

end
