(* ===== verification/SessionInfo.thy ===== *)
theory SessionInfo
  imports SessionInv "HOL-Library.Multiset"
begin

text \<open>
  What the session manager shows of its sessions (\<open>buildSessionInfo\<close>, \<open>List\<close>, \<open>ListByTags\<close>,
  \<open>GetStatus\<close>, \<open>LogPath\<close> and \<open>SubscribeStatus\<close> of \<open>internal/session/session.go\<close>). Times are kept
  as times; the source formats them. A log file that exists can be read.
\<close>

section \<open>Operations\<close>

record SessionInfo =
  si_ID :: uint32
  si_Name :: string
  si_Prompt :: string
  si_WorkingDir :: string
  si_CreatedAt :: nanos
  si_Status :: string
  si_Attached :: bool
  si_PID :: "uint32 option"
  si_OutputSizeBytes :: "nat option"
  si_LastOutputSnippet :: "string option"
  si_Tags :: "string list"
  si_ExitCode :: "int option"
  si_CompletedAt :: "nanos option"
  si_DurationMs :: "int option"
  si_OutputLines :: uint64
  si_OutputBytes :: uint64
  si_LastOutputAt :: "nanos option"
  si_LastEventAt :: nanos
  si_IdleSeconds :: int
  si_LastEventPreview :: "string option"
  si_LastEvent :: "string option"
  si_AttachedCount :: "32 word"

definition sessionLastEventTime :: "Session \<Rightarrow> nanos \<Rightarrow> nanos" where
  "sessionLastEventTime s lastOutputNano =
     (if 0 < lastOutputNano then lastOutputNano
      else case meta_CompletedAt (sess_Meta s) of Some t \<Rightarrow> t | None \<Rightarrow> meta_CreatedAt (sess_Meta s))"

text \<open>
  \<open>attachedCount\<close> is a signed counter. Idle seconds are whole seconds; the source computes them
  in \<open>float64\<close>, which can round a last fraction of a nanosecond up when a session was idle for
  months.
\<close>

definition buildSessionInfo :: "nanos \<Rightarrow> Session \<Rightarrow> SessionInfo" where
  "buildSessionInfo now s =
     (let m = sess_Meta s; lastEvent = sessionLastEventTime s (sess_lastOutputAt s) in
      \<lparr>si_ID = meta_ID m, si_Name = meta_Name m, si_Prompt = meta_Prompt m, si_WorkingDir = meta_WorkingDir m,
       si_CreatedAt = meta_CreatedAt m,
       si_Status = SessionStatus_String (StatusWatcher_Get (sess_statusWatcher s)),
       si_Attached = (0 < sint (sess_attachedCount s)), si_PID = meta_PID m,
       si_OutputSizeBytes = map_option length (sess_log s), si_LastOutputSnippet = meta_Result m,
       si_Tags = meta_Tags m, si_ExitCode = meta_ExitCode m, si_CompletedAt = meta_CompletedAt m,
       si_DurationMs = map_option (\<lambda>t. milliseconds (t - meta_CreatedAt m)) (meta_CompletedAt m),
       si_OutputLines = sess_outputLines s, si_OutputBytes = sess_outputBytes s,
       si_LastOutputAt = (if 0 < sess_lastOutputAt s then Some (sess_lastOutputAt s) else None),
       si_LastEventAt = lastEvent,
       si_IdleSeconds = (if now < lastEvent then 0 else (now - lastEvent) div seconds 1),
       si_LastEventPreview = None, si_LastEvent = None, si_AttachedCount = sess_attachedCount s\<rparr>)"

definition ListSessions :: "nanos \<Rightarrow> SessionManager \<Rightarrow> SessionInfo list" where
  "ListSessions now m = sort_key si_ID (map (\<lambda>(k, s). buildSessionInfo now s) (mgr_sessions m))"

definition ListByTags :: "nanos \<Rightarrow> string list \<Rightarrow> SessionManager \<Rightarrow> SessionInfo list" where
  "ListByTags now tags m =
     sort_key si_ID (map (\<lambda>(k, s). buildSessionInfo now s)
       (filter (\<lambda>(k, s). matchesTags (meta_Tags (sess_Meta s)) tags) (mgr_sessions m)))"

definition GetStatus :: "nanos \<Rightarrow> uint32 \<Rightarrow> bool \<Rightarrow> SessionManager \<Rightarrow> session_error + SessionInfo \<times> uint64" where
  "GetStatus now i full m =
     (case session_of m i of
        None \<Rightarrow> Inl (SessionNotFound i)
      | Some s \<Rightarrow>
          let info = buildSessionInfo now s;
              info1 = (case statusLastEventBlob (meta_Result (sess_Meta s)) (sess_log s) of
                 None \<Rightarrow> info
               | Some lastEvent \<Rightarrow>
                   let pv = statusPreview lastEvent;
                       i1 = (if pv \<noteq> [] then info\<lparr>si_LastEventPreview := Some pv\<rparr> else info)
                   in if full \<and> lastEvent \<noteq> [] then i1\<lparr>si_LastEvent := Some lastEvent\<rparr> else i1)
          in Inr (info1, si_OutputBytes info1))"

text \<open>\<open>LogPath\<close> with the file it names: \<open>Inr None\<close> when there is no such file.\<close>

definition LogFile :: "uint32 \<Rightarrow> SessionManager \<Rightarrow> session_error + bytes option" where
  "LogFile i m = (case session_of m i of None \<Rightarrow> Inl (SessionNotFound i) | Some s \<Rightarrow> Inr (sess_log s))"

definition SubscribeStatus :: "uint32 \<Rightarrow> SessionManager \<Rightarrow> session_error + StatusWatcher" where
  "SubscribeStatus i m =
     (case session_of m i of None \<Rightarrow> Inl (SessionNotFound i) | Some s \<Rightarrow> Inr (sess_statusWatcher s))"

section \<open>What they show\<close>

lemma ListByTags_filter:
  "ListByTags now tags m = filter (\<lambda>info. matchesTags (si_Tags info) tags) (ListSessions now m)"
proof -
  have f: "map (\<lambda>(k, s). buildSessionInfo now s) (filter (\<lambda>(k, s). matchesTags (meta_Tags (sess_Meta s)) tags) xs) =
      filter (\<lambda>info. matchesTags (si_Tags info) tags) (map (\<lambda>(k, s). buildSessionInfo now s) xs)"
    for xs :: "(uint32, Session) gomap"
    by (induction xs) (auto simp: buildSessionInfo_def Let_def)
  show ?thesis
    unfolding ListByTags_def ListSessions_def f by (rule filter_sort [symmetric])
qed

text \<open>In a well-formed manager the list has each session once, by ascending identifier.\<close>

lemma ListSessions_ids:
  assumes "sessions_ok m"
  shows "map si_ID (ListSessions now m) = sort (mkeys (mgr_sessions m))"
    "distinct (map si_ID (ListSessions now m))"
proof -
  have ids: "map (\<lambda>(k, s). si_ID (buildSessionInfo now s)) (mgr_sessions m) = mkeys (mgr_sessions m)"
  proof -
    have "si_ID (buildSessionInfo now s) = k" if "(k, s) \<in> set (mgr_sessions m)" for k s
    proof -
      have "session_of m k = Some s"
        using that assms by (simp add: session_of_def sessions_ok_def mget_Some_iff)
      with sessions_ok_of [OF assms this] show ?thesis
        by (simp add: sess_ok_def buildSessionInfo_def Let_def)
    qed
    then show ?thesis by (auto simp: mkeys_def intro: map_cong)
  qed
  have s: "map si_ID (sort_key si_ID xs) = sort (map si_ID xs)" for xs :: "SessionInfo list"
    by (rule properties_for_sort [symmetric]) simp_all
  show e: "map si_ID (ListSessions now m) = sort (mkeys (mgr_sessions m))"
    unfolding ListSessions_def s using ids by (simp add: comp_def case_prod_unfold)
  have "distinct (mkeys (mgr_sessions m))"
    using assms by (simp add: sessions_ok_def map_ok_def mkeys_def)
  then show "distinct (map si_ID (ListSessions now m))" by (simp add: e)
qed

end
