(* ===== verification/NodeHandler.thy ===== *)
theory NodeHandler
  imports SessionInfo PeerServer KVStore
begin

text \<open>
  The node's request handler for local clients, \<open>internal/node/handler.go\<close>: what one connection
  does, from the first control frame on. A request that is answered at once is one step. The
  others go on: an attached or watching client, a stream of events, a wait, a request waiting for
  its reply. What such a connection does next is a value of \<open>session_loop\<close>, and each case of its
  \<open>select\<close> is a step of its own, so a run interleaves them with the other steps of the node.

  Times in responses are kept as times. \<open>time.ParseDuration\<close>, which computes fractions in
  floating point, is the parameter \<open>parse_duration\<close>; the JSON coding of events is \<open>js\<close> and \<open>un\<close>.
  Log files that exist can be read.
\<close>

section \<open>Messages\<close>

record Request =
  q_Type :: string
  q_Command :: "string list"
  q_WorkingDir :: string
  q_ID :: "uint32 option"
  q_IncludeHistory :: "bool option"
  q_HistoryLines :: "uint64 option"
  q_Follow :: "bool option"
  q_Tail :: "uint64 option"
  q_Data :: bytes
  q_Name :: string
  q_Env :: "string list"
  q_StripANSI :: "bool option"
  q_Tags :: "string list"
  q_EventTypes :: "string list"
  q_Condition :: string
  q_TimeoutSeconds :: "uint64 option"
  q_Full :: "bool option"
  q_Namespace :: string
  q_Key :: string
  q_Value :: "bytes option"
  q_TTL :: string
  q_ToID :: "uint32 option"
  q_ToName :: string
  q_Body :: string
  q_RequestID :: string
  q_ReplyToken :: string
  q_Delivery :: string
  q_Verb :: string
  q_AudienceNode :: string
  q_Summary :: string
  q_State :: string

text \<open>The texts of error responses are kept as the errors they come from.\<close>

datatype handler_error =
    SessionFailed session_error
  | MessageFailed message_failure
  | PolicyFailed node_error
  | PromptFailed session_error
  | Plain string
  | RequestTimedOut string
  | SessionEnded SessionStatus
  | InvalidTTL string
  | UnknownRequest string

record Response =
  rs_Type :: string
  rs_Sessions :: "SessionInfo list option"
  rs_ID :: "uint32 option"
  rs_Count :: "nat option"
  rs_Data :: string
  rs_Done :: "bool option"
  rs_Bytes :: "nat option"
  rs_Info :: "SessionInfo option"
  rs_OutputSize :: "uint64 option"
  rs_Status :: string
  rs_SentAt :: "nanos option"
  rs_Output :: "string option"
  rs_Message :: "handler_error option"
  rs_SubscriptionID :: "uint64 option"
  rs_SessionID :: "uint32 option"
  rs_Event :: "Event option"
  rs_Value :: "bytes option"
  rs_Entries :: "(string \<times> bytes option \<times> nanos option) list option"
  rs_MessageID :: string
  rs_Messages :: "MessageResponse list option"
  rs_RequestID :: string
  rs_ReplyBody :: string
  rs_FromID :: "uint32 option"
  rs_FromName :: string
  rs_SenderCap :: string

definition response :: "string \<Rightarrow> Response" where
  "response ty =
     \<lparr>rs_Type = ty, rs_Sessions = None, rs_ID = None, rs_Count = None, rs_Data = [], rs_Done = None,
      rs_Bytes = None, rs_Info = None, rs_OutputSize = None, rs_Status = [], rs_SentAt = None, rs_Output = None,
      rs_Message = None, rs_SubscriptionID = None, rs_SessionID = None, rs_Event = None, rs_Value = None,
      rs_Entries = None, rs_MessageID = [], rs_Messages = None, rs_RequestID = [], rs_ReplyBody = [],
      rs_FromID = None, rs_FromName = [], rs_SenderCap = []\<rparr>"

definition failed :: "handler_error \<Rightarrow> Response" where
  "failed err = (response ''Error'')\<lparr>rs_Message := Some err\<rparr>"

text \<open>What a connection writes: control frames and data frames.\<close>

datatype sent =
    SendResponse Response
  | SendData bytes

section \<open>State and inputs\<close>

record NodeState =
  ns_node :: Node
  ns_kv :: KVStore

abbreviation ns_mgr :: "NodeState \<Rightarrow> SessionManager" where "ns_mgr st \<equiv> nd_Manager (ns_node st)"

definition set_mgr :: "SessionManager \<Rightarrow> NodeState \<Rightarrow> NodeState" where
  "set_mgr m st = st\<lparr>ns_node := (ns_node st)\<lparr>nd_Manager := m\<rparr>\<rparr>"

text \<open>
  What the outside answers while a request is handled: the clock, random identifiers, the
  operating system at a launch, the relay's bindings and the delegation it issues.
\<close>

record handler_inputs =
  hi_now :: nanos
  hi_os :: launch_os
  hi_messageID :: string
  hi_eventID :: string
  hi_requestID :: string
  hi_replyToken :: string
  hi_bindings :: "GroupBinding list option"
  hi_issued :: "string option"

text \<open>
  What a connection still has to do: nothing; serve an attached or a watching client (session,
  subscription, and for the \<open>select\<close> the wait channel read at its start); stream events;
  wait for sessions or for a reply; follow a log from an offset.
\<close>

datatype session_loop =
    Closed
  | Attached uint32 uint64 nat
  | Watching uint32 uint64 nat
  | Streaming uint64
  | Listening uint64
  | Awaiting uint64 Request
  | AwaitingReply string nat
  | Following uint32 nat bool

section \<open>Helpers\<close>

definition resolveMessageSession :: "SessionManager \<Rightarrow> uint32 option \<Rightarrow> string \<Rightarrow> handler_error + uint32" where
  "resolveMessageSession m ido name0 =
     (case ido of
        Some i \<Rightarrow> Inr i
      | None \<Rightarrow>
          let name = trim_space (trim_prefix name0 ''@'') in
          if name = [] then Inl (Plain ''session id or name required'')
          else (case ResolveByName name m of Inl err \<Rightarrow> Inl (SessionFailed err) | Inr i \<Rightarrow> Inr i))"

definition resolveRecipient :: "SessionManager \<Rightarrow> uint32 option \<Rightarrow> string \<Rightarrow> handler_error + uint32" where
  "resolveRecipient m toID toName =
     (case toID of
        Some i \<Rightarrow> Inr i
      | None \<Rightarrow>
          if toName \<noteq> [] then
            (case ResolveByName (trim_prefix toName ''@'') m of Inl err \<Rightarrow> Inl (SessionFailed err) | Inr i \<Rightarrow> Inr i)
          else Inl (Plain ''either to_id or to_name required''))"

definition node_deliveryIncludesPTY :: "string \<Rightarrow> bool" where
  "node_deliveryIncludesPTY delivery \<longleftrightarrow> delivery = ''pty'' \<or> delivery = ''both''"

definition deliveryIncludesInbox :: "string \<Rightarrow> bool" where
  "deliveryIncludesInbox delivery \<longleftrightarrow> delivery = [] \<or> delivery = ''inbox'' \<or> delivery = ''both''"

text \<open>As the peer server's, but with the reply token of a request.\<close>

definition node_eventToMessageResponse :: "Event \<Rightarrow> MessageResponse option" where
  "node_eventToMessageResponse e =
     (if ev_Type e = EventRequest then
        (case ev_Data e of
           Request d \<Rightarrow>
             Some \<lparr>mr_MessageID = rq_RequestID d, mr_Timestamp = ev_Timestamp e, mr_From = rq_From d,
                   mr_FromName = rq_FromName d, mr_To = rq_To d, mr_ToName = rq_ToName d, mr_Body = rq_Body d,
                   mr_EventType = ev_Type e, mr_RequestID = rq_RequestID d, mr_ReplyToken = rq_ReplyToken d\<rparr>
         | _ \<Rightarrow> None)
      else eventToMessageResponse e)"

text \<open>
  The last lines of a text. \<open>int(n)\<close> reads the 64 bits as a signed number; when that is negative,
  the lower bound of the slice lies past the end and the node panics, \<open>None\<close>.
\<close>

definition tail_lines :: "uint64 option \<Rightarrow> string \<Rightarrow> string option" where
  "tail_lines wanted data =
     (case wanted of
        None \<Rightarrow> Some data
      | Some c \<Rightarrow>
          let ls = split_on (CHR 0x0A) data; n = sint c in
          if n < int (length ls)
          then if n < 0 then None else Some (join_with [CHR 0x0A] (drop (length ls - nat n) ls))
          else Some (join_with [CHR 0x0A] ls))"

definition CLEAR_SCREEN :: bytes where
  "CLEAR_SCREEN = ESC # ''[H'' @ ESC # ''[2J''"

text \<open>\<open>replayHistory\<close>: the data frame to send, if any.\<close>

definition replayHistory :: "bytes option \<Rightarrow> uint64 option \<Rightarrow> bool \<Rightarrow> sent list option" where
  "replayHistory logFile historyLines clearScreen =
     (case logFile of
        None \<Rightarrow> Some []
      | Some content \<Rightarrow>
          if length content = 0 then Some []
          else (case tail_lines historyLines content of
             None \<Rightarrow> None
           | Some data0 \<Rightarrow>
               let data1 = StripTerminalQueries data0;
                   data2 = (if clearScreen \<and> historyLines = None \<and> 0 < length data1 then CLEAR_SCREEN @ data1 else data1)
               in Some (if 0 < length data2 then [SendData data2] else [])))"

definition is_ended :: "string \<Rightarrow> bool" where
  "is_ended status \<longleftrightarrow> str_contains status ''completed'' \<or> str_contains status ''killed''"

section \<open>Launching and controlling sessions\<close>

text \<open>
  Each handler returns what it writes, what the connection does next, and the node's state.
  The write of \<open>stdin_data\<close> after a launch is the manager's step \<open>stdin_inject\<close>.
\<close>

type_synonym served = "sent list \<times> session_loop \<times> NodeState"

definition reply_now :: "Response \<Rightarrow> NodeState \<Rightarrow> served" where
  "reply_now r st = ([SendResponse r], Closed, st)"

definition reply_error :: "handler_error \<Rightarrow> NodeState \<Rightarrow> served" where
  "reply_error err st = reply_now (failed err) st"

abbreviation missing_id :: handler_error where
  "missing_id \<equiv> Plain ''missing session id''"

definition serve_launch :: "(Event \<Rightarrow> bytes option) \<Rightarrow> handler_inputs \<Rightarrow> Request \<Rightarrow> NodeState \<Rightarrow> served" where
  "serve_launch js h req st =
     (case Launch js (hi_os h) (q_Command req) (q_WorkingDir req) (q_Env req) (q_Name req) (q_Tags req) (hi_now h)
             (ns_mgr st) of
        (Inl err, m1) \<Rightarrow> reply_error (SessionFailed err) (set_mgr m1 st)
      | (Inr i, m1) \<Rightarrow>
          (case (if q_Name req \<noteq> [] then SetName i (q_Name req) m1 else (Inr (), m1)) of
             (Inl err, m2) \<Rightarrow> reply_error (SessionFailed err) (set_mgr (snd (Kill i m2)) st)
           | (Inr _, m2) \<Rightarrow> reply_now ((response ''Launched'')\<lparr>rs_ID := Some i\<rparr>) (set_mgr m2 st)))"

definition session_generation :: "uint32 \<Rightarrow> SessionManager \<Rightarrow> nat" where
  "session_generation i m =
     (case SubscribeStatus i m of Inl err \<Rightarrow> 0 | Inr w \<Rightarrow> StatusWatcher_Changed w)"

definition serve_attach :: "Request \<Rightarrow> NodeState \<Rightarrow> served option" where
  "serve_attach req st =
     (case q_ID req of
        None \<Rightarrow> Some (reply_error missing_id st)
      | Some i \<Rightarrow>
          (case Attach i (ns_mgr st) of
             (Inl err, m1) \<Rightarrow> Some (reply_error (SessionFailed err) (set_mgr m1 st))
           | (Inr k, m1) \<Rightarrow>
               let ack = SendResponse ((response ''Attached'')\<lparr>rs_ID := Some i\<rparr>);
                   includeHistory = (case q_IncludeHistory req of None \<Rightarrow> True | Some b \<Rightarrow> b);
                   history = (if includeHistory then
                       (case LogFile i m1 of Inl err \<Rightarrow> Some [] | Inr file \<Rightarrow> replayHistory file (q_HistoryLines req) True)
                     else Some [])
               in map_option (\<lambda>frames. (ack # frames, Attached i k (session_generation i m1), set_mgr m1 st)) history))"

definition serve_kill :: "Request \<Rightarrow> NodeState \<Rightarrow> served" where
  "serve_kill req st =
     (case q_ID req of
        None \<Rightarrow> reply_error missing_id st
      | Some i \<Rightarrow>
          (case Kill i (ns_mgr st) of
             (Inl err, m1) \<Rightarrow> reply_error (SessionFailed err) (set_mgr m1 st)
           | (Inr _, m1) \<Rightarrow> reply_now ((response ''Killed'')\<lparr>rs_ID := Some i\<rparr>) (set_mgr m1 st)))"

definition serve_killed :: "nat \<times> SessionManager \<Rightarrow> NodeState \<Rightarrow> served" where
  "serve_killed r st = reply_now ((response ''KilledAll'')\<lparr>rs_Count := Some (fst r)\<rparr>) (set_mgr (snd r) st)"

text \<open>\<open>handleLogs\<close>: the first response; a following client goes on from the size of the file it read.\<close>

definition handleLogs :: "uint32 \<Rightarrow> bytes option \<Rightarrow> bool \<Rightarrow> uint64 option \<Rightarrow> bool \<Rightarrow> NodeState \<Rightarrow> served option" where
  "handleLogs i logFile follow tl_n strip st =
     (let content = (case logFile of None \<Rightarrow> [] | Some c \<Rightarrow> c);
          data = (if strip then StripANSI content else content);
          tailed = (if tl_n \<noteq> None \<and> 0 < length content then tail_lines tl_n data else Some data)
      in map_option (\<lambda>d. ([SendResponse ((response ''LogData'')\<lparr>rs_Data := d, rs_Done := Some (\<not> follow)\<rparr>)],
             (if follow then Following i (length content) strip else Closed), st)) tailed)"

definition serve_logs :: "Request \<Rightarrow> NodeState \<Rightarrow> served option" where
  "serve_logs req st =
     (case q_ID req of
        None \<Rightarrow> Some (reply_error missing_id st)
      | Some i \<Rightarrow>
          (case LogFile i (ns_mgr st) of
             Inl err \<Rightarrow> Some (reply_error (SessionFailed err) st)
           | Inr file \<Rightarrow> handleLogs i file (q_Follow req = Some True) (q_Tail req)
               (case q_StripANSI req of None \<Rightarrow> True | Some b \<Rightarrow> b) st))"

definition serve_input :: "Request \<Rightarrow> NodeState \<Rightarrow> served" where
  "serve_input req st =
     (case q_ID req of
        None \<Rightarrow> reply_error missing_id st
      | Some i \<Rightarrow>
          (case SendInput i (q_Data req) (ns_mgr st) of
             (Inl err, m1) \<Rightarrow> reply_error (SessionFailed err) (set_mgr m1 st)
           | (Inr n, m1) \<Rightarrow> reply_now ((response ''InputSent'')\<lparr>rs_Bytes := Some n\<rparr>) (set_mgr m1 st)))"

definition serve_status :: "handler_inputs \<Rightarrow> Request \<Rightarrow> NodeState \<Rightarrow> served" where
  "serve_status h req st =
     (case q_ID req of
        None \<Rightarrow> reply_error missing_id st
      | Some i \<Rightarrow>
          (case GetStatus (hi_now h) i (q_Full req = Some True) (ns_mgr st) of
             Inl err \<Rightarrow> reply_error (SessionFailed err) st
           | Inr (info, outputSize) \<Rightarrow>
               reply_now ((response ''SessionStatus'')\<lparr>rs_Info := Some info, rs_OutputSize := Some outputSize\<rparr>) st))"

definition watch_update :: "string \<Rightarrow> string option \<Rightarrow> bool \<Rightarrow> Response" where
  "watch_update status output fin =
     (response ''WatchUpdate'')\<lparr>rs_Status := status, rs_Output := output, rs_Done := Some fin\<rparr>"

text \<open>The history of a watching client; an empty one is not sent.\<close>

definition watch_history :: "bytes option \<Rightarrow> uint64 option \<Rightarrow> sent list option" where
  "watch_history logFile historyLines =
     (case logFile of
        None \<Rightarrow> Some []
      | Some content \<Rightarrow>
          if length content = 0 then Some []
          else map_option (\<lambda>data0. let data = StripTerminalQueries data0 in
                 if 0 < length data then [SendResponse (watch_update ''running'' (Some data) False)] else [])
               (tail_lines historyLines content))"

definition handleWatchSession :: "Request \<Rightarrow> uint32 \<Rightarrow> NodeState \<Rightarrow> served option" where
  "handleWatchSession req i st =
     (case SubscribeOutput i (ns_mgr st) of
        (Inl err, m1) \<Rightarrow> Some (reply_error (SessionFailed err) (set_mgr m1 st))
      | (Inr k, m1) \<Rightarrow>
          let includeHistory = (case q_IncludeHistory req of None \<Rightarrow> True | Some b \<Rightarrow> b);
              history = (if includeHistory then
                  (case LogFile i m1 of Inl err \<Rightarrow> Some [] | Inr file \<Rightarrow> watch_history file (q_HistoryLines req))
                else Some [])
          in map_option (\<lambda>frames. (frames, Watching i k (session_generation i m1), set_mgr m1 st)) history)"

definition serve_watch :: "Request \<Rightarrow> NodeState \<Rightarrow> served option" where
  "serve_watch req st =
     (case q_ID req of None \<Rightarrow> Some (reply_error missing_id st) | Some i \<Rightarrow> handleWatchSession req i st)"

section \<open>Events and waits\<close>

definition subscribe_mgr ::
  "uint32 option \<Rightarrow> string list \<Rightarrow> EventType list \<Rightarrow> SessionManager \<Rightarrow> uint64 \<times> SessionManager" where
  "subscribe_mgr sid tags types m =
     (let r = Subscribe sid tags types (mgr_Subscriptions m)
      in (sub_ID (fst r), m\<lparr>mgr_Subscriptions := snd r\<rparr>))"

definition unsubscribe_mgr :: "uint64 \<Rightarrow> SessionManager \<Rightarrow> SessionManager" where
  "unsubscribe_mgr k m = m\<lparr>mgr_Subscriptions := snd (Unsubscribe k (mgr_Subscriptions m))\<rparr>"

definition serve_subscribe :: "Request \<Rightarrow> NodeState \<Rightarrow> served" where
  "serve_subscribe req st =
     (case subscribe_mgr (q_ID req) (q_Tags req) (q_EventTypes req) (ns_mgr st) of
        (k, m1) \<Rightarrow>
          ([SendResponse ((response ''SubscribeAck'')\<lparr>rs_SubscriptionID := Some k\<rparr>)], Streaming k, set_mgr m1 st))"

definition node_handleMsgListen :: "Request \<Rightarrow> NodeState \<Rightarrow> served" where
  "node_handleMsgListen req st =
     (case subscribe_mgr (q_ID req) [] [EventDirectMessage, EventRequest, EventReply] (ns_mgr st) of
        (k, m1) \<Rightarrow> ([SendResponse (response ''MsgListenAck'')], Listening k, set_mgr m1 st))"

text \<open>The check of a wait's condition, made before the loop and after each status event.\<close>

definition wait_check :: "nanos \<Rightarrow> Request \<Rightarrow> SessionManager \<Rightarrow> SessionInfo list option" where
  "wait_check now req m =
     (let condition = (if q_Condition req = [] then ''all'' else q_Condition req);
          by_id = (case q_ID req of
             None \<Rightarrow> None
           | Some i \<Rightarrow>
               (case GetStatus now i False m of
                  Inl err \<Rightarrow> None
                | Inr (info, outputSize) \<Rightarrow> if is_ended (si_Status info) then Some [info] else None))
      in case by_id of
           Some infos \<Rightarrow> Some infos
         | None \<Rightarrow>
             if 0 < length (q_Tags req) then
               let matching = ListByTags now (q_Tags req) m;
                   allDone = list_all (\<lambda>s. is_ended (si_Status s)) matching;
                   anyDone = list_ex (\<lambda>s. is_ended (si_Status s)) matching
               in if condition = ''all'' \<and> allDone \<and> 0 < length matching \<or> condition = ''any'' \<and> anyDone
                  then Some matching else None
             else None)"

definition wait_result :: "SessionInfo list \<Rightarrow> Response" where
  "wait_result infos = (response ''WaitResult'')\<lparr>rs_Sessions := Some infos\<rparr>"

text \<open>\<open>handleWait\<close> up to its loop; the deferred \<open>Unsubscribe\<close> runs on every return.\<close>

definition handleWait :: "handler_inputs \<Rightarrow> Request \<Rightarrow> NodeState \<Rightarrow> served" where
  "handleWait h req st =
     (case subscribe_mgr (q_ID req) (q_Tags req) [EventSessionStatus] (ns_mgr st) of
        (k, m1) \<Rightarrow>
          (case wait_check (hi_now h) req m1 of
             Some infos \<Rightarrow> reply_now (wait_result infos) (set_mgr (unsubscribe_mgr k m1) st)
           | None \<Rightarrow> ([], Awaiting k req, set_mgr m1 st)))"

section \<open>Messages\<close>

definition from_id :: "Request \<Rightarrow> uint32" where
  "from_id req = (case q_ID req of Some i \<Rightarrow> i | None \<Rightarrow> 0)"

definition policy ::
  "handler_inputs \<Rightarrow> uint32 \<Rightarrow> uint32 \<Rightarrow> string \<Rightarrow> NodeState \<Rightarrow> handler_error option" where
  "policy h fromID toID verb st =
     map_option PolicyFailed (authorizeLocalDelivery (hi_bindings h) fromID toID verb (ns_node st))"

definition node_handleMsgSend ::
  "(Event \<Rightarrow> bytes option) \<Rightarrow> handler_inputs \<Rightarrow> Request \<Rightarrow> NodeState \<Rightarrow> served" where
  "node_handleMsgSend js h req st =
     (case resolveRecipient (ns_mgr st) (q_ToID req) (q_ToName req) of
        Inl err \<Rightarrow> reply_error err st
      | Inr toID \<Rightarrow>
          let fromID = from_id req in
          case policy h fromID toID ''msg'' st of
            Some err \<Rightarrow> reply_error err st
          | None \<Rightarrow>
              (case (if deliveryIncludesInbox (q_Delivery req)
                     then SendMessage js (hi_messageID h) (hi_now h) fromID toID (q_Body req) (ns_mgr st)
                     else (Inr (''msg_'' @ show_nat (unat fromID) @ ''_'' @ show_nat (unat toID) @ ''_'' @ show_int (hi_now h)),
                           ns_mgr st)) of
                 (Inl err, m1) \<Rightarrow> reply_error (MessageFailed err) (set_mgr m1 st)
               | (Inr msgID, m1) \<Rightarrow>
                   let m2 = (if node_deliveryIncludesPTY (q_Delivery req)
                             then snd (DeliverDirectMessagePrompt toID (GetName fromID m1) fromID (q_Body req) m1)
                             else m1)
                   in reply_now ((response ''MsgSent'')\<lparr>rs_MessageID := msgID, rs_SentAt := Some (hi_now h)\<rparr>)
                        (set_mgr m2 st)))"

definition node_handleMsgRead :: "(bytes \<Rightarrow> Event option) \<Rightarrow> Request \<Rightarrow> NodeState \<Rightarrow> served" where
  "node_handleMsgRead un req st =
     (case (case q_ID req of
              Some i \<Rightarrow> Inr i
            | None \<Rightarrow>
                if q_ToName req \<noteq> [] then
                  (case ResolveByName (trim_prefix (q_ToName req) ''@'') (ns_mgr st) of
                     Inl err \<Rightarrow> Inl (SessionFailed err) | Inr i \<Rightarrow> Inr i)
                else Inl (Plain ''session id or name required'')) of
        Inl err \<Rightarrow> reply_error err st
      | Inr sessionID \<Rightarrow>
          (case ReadMessages un sessionID (case q_Tail req of None \<Rightarrow> 50 | Some t \<Rightarrow> sint t) (ns_mgr st) of
             Inl err \<Rightarrow> reply_error (MessageFailed err) st
           | Inr events \<Rightarrow>
               reply_now ((response ''MsgReadResult'')
                 \<lparr>rs_Messages := Some (List.map_filter node_eventToMessageResponse events)\<rparr>) st))"

text \<open>The time to wait is left to the step \<open>request_timeout\<close>.\<close>

definition node_handleMsgRequest ::
  "(Event \<Rightarrow> bytes option) \<Rightarrow> handler_inputs \<Rightarrow> Request \<Rightarrow> NodeState \<Rightarrow> served" where
  "node_handleMsgRequest js h req st =
     (case resolveRecipient (ns_mgr st) (q_ToID req) (q_ToName req) of
        Inl err \<Rightarrow> reply_error err st
      | Inr toID \<Rightarrow>
          let fromID = from_id req in
          case policy h fromID toID ''request'' st of
            Some err \<Rightarrow> reply_error err st
          | None \<Rightarrow>
              (case SendRequest js (hi_requestID h) (hi_replyToken h) (hi_now h) fromID toID (q_Body req) (ns_mgr st) of
                 (Inl err, m1) \<Rightarrow> reply_error (MessageFailed err) (set_mgr m1 st)
               | (Inr (requestID, a), m1) \<Rightarrow>
                   if node_deliveryIncludesPTY (q_Delivery req) then
                     (case DeliverRequestPrompt toID requestID (GetName fromID m1) fromID (q_Body req) m1 of
                        (Inl err, m2) \<Rightarrow> reply_error (PromptFailed err) (set_mgr (CleanupRequest requestID m2) st)
                      | (Inr _, m2) \<Rightarrow> ([], AwaitingReply requestID a, set_mgr m2 st))
                   else ([], AwaitingReply requestID a, set_mgr m1 st)))"

definition node_handleMsgReply ::
  "(Event \<Rightarrow> bytes option) \<Rightarrow> handler_inputs \<Rightarrow> Request \<Rightarrow> NodeState \<Rightarrow> served" where
  "node_handleMsgReply js h req st =
     (let fromID = from_id req; token = trim_space (q_ReplyToken req) in
      if q_RequestID req = [] then reply_error (Plain ''missing request_id'') st
      else if fromID = 0 \<and> token = [] then reply_error (Plain ''missing sender identity or reply_token'') st
      else
        (case (if token \<noteq> [] then SendReplyWithToken js (hi_now h) (q_RequestID req) token (q_Body req) (ns_mgr st)
               else SendReply js (hi_now h) fromID (q_RequestID req) (q_Body req) (ns_mgr st)) of
           (Inl err, m1) \<Rightarrow> reply_error (MessageFailed err) (set_mgr m1 st)
         | (Inr _, m1) \<Rightarrow>
             reply_now ((response ''MsgReplySent'')\<lparr>rs_RequestID := q_RequestID req\<rparr>) (set_mgr m1 st)))"

section \<open>The key-value store\<close>

definition kv_namespace :: "Request \<Rightarrow> string" where
  "kv_namespace req = (if q_Namespace req = [] then ''default'' else q_Namespace req)"

definition handleKVSet :: "(string \<Rightarrow> nanos option) \<Rightarrow> handler_inputs \<Rightarrow> Request \<Rightarrow> NodeState \<Rightarrow> served" where
  "handleKVSet parse_duration h req st =
     (case (if q_TTL req \<noteq> [] then parse_duration (q_TTL req) else Some 0) of
        None \<Rightarrow> reply_error (InvalidTTL (q_TTL req)) st
      | Some ttl \<Rightarrow>
          reply_now (response ''KVSetOK'')
            (st\<lparr>ns_kv := KV_Set (kv_namespace req) (q_Key req) (q_Value req) ttl (hi_now h) (ns_kv st)\<rparr>))"

definition handleKVGet :: "Request \<Rightarrow> NodeState \<Rightarrow> served" where
  "handleKVGet req st =
     reply_now ((response ''KVGetResult'')\<lparr>rs_Value := KV_Get (kv_namespace req) (q_Key req) (ns_kv st)\<rparr>) st"

definition handleKVDelete :: "Request \<Rightarrow> NodeState \<Rightarrow> served" where
  "handleKVDelete req st =
     reply_now (response ''KVDeleteOK'') (st\<lparr>ns_kv := KV_Delete (kv_namespace req) (q_Key req) (ns_kv st)\<rparr>)"

definition handleKVList :: "Request \<Rightarrow> NodeState \<Rightarrow> served" where
  "handleKVList req st =
     reply_now ((response ''KVListResult'')\<lparr>rs_Entries := Some (KV_List (kv_namespace req) (q_Key req) (ns_kv st))\<rparr>) st"

section \<open>The dispatcher\<close>

text \<open>\<open>handleClient\<close> on the decoded request; \<open>None\<close> is a panic of the node.\<close>

definition serve_delegation :: "handler_inputs \<Rightarrow> Request \<Rightarrow> NodeState \<Rightarrow> served" where
  "serve_delegation h req st =
     (case resolveMessageSession (ns_mgr st) (q_ID req) (q_Name req) of
        Inl err \<Rightarrow> reply_error err st
      | Inr sessionID \<Rightarrow>
          let c = nd_config (ns_node st) in
          if blank (nc_RelayURL c) then reply_error (Plain ''relay is not configured'') st
          else if blank (nc_RelayNodeToken c) then reply_error (Plain ''relay node token is not configured'') st
          else (case hi_issued h of
                  None \<Rightarrow> reply_error (Plain ''delegation not issued'') st
                | Some delegation \<Rightarrow>
                    reply_now ((response ''SenderDelegationIssued'')
                      \<lparr>rs_FromID := Some sessionID, rs_FromName := GetName sessionID (ns_mgr st),
                       rs_SenderCap := delegation\<rparr>) st))"

definition serve_task :: "(Event \<Rightarrow> bytes option) \<Rightarrow> handler_inputs \<Rightarrow> Request \<Rightarrow> NodeState \<Rightarrow> served" where
  "serve_task js h req st =
     (case resolveMessageSession (ns_mgr st) (q_ID req) (q_Name req) of
        Inl err \<Rightarrow> reply_error err st
      | Inr sessionID \<Rightarrow>
          (case ReportTask js (hi_eventID h) (hi_now h) sessionID (q_Summary req) (q_State req) (ns_mgr st) of
             (Inl err, m1) \<Rightarrow> reply_error (SessionFailed err) (set_mgr m1 st)
           | (Inr _, m1) \<Rightarrow> reply_now ((response ''TaskReported'')\<lparr>rs_ID := Some sessionID\<rparr>) (set_mgr m1 st)))"

definition handleClient ::
  "(Event \<Rightarrow> bytes option) \<Rightarrow> (bytes \<Rightarrow> Event option) \<Rightarrow> (string \<Rightarrow> nanos option) \<Rightarrow> handler_inputs \<Rightarrow>
   Request \<Rightarrow> NodeState \<Rightarrow> served option" where
  "handleClient js un parse_duration h req st =
     (let ty = q_Type req in
      if ty = ''ListSessions'' then
        Some (reply_now ((response ''SessionList'')\<lparr>rs_Sessions := Some (ListSessions (hi_now h) (ns_mgr st))\<rparr>) st)
      else if ty = ''Launch'' then Some (serve_launch js h req st)
      else if ty = ''Attach'' then serve_attach req st
      else if ty = ''Kill'' then Some (serve_kill req st)
      else if ty = ''KillAll'' then Some (serve_killed (KillAll (ns_mgr st)) st)
      else if ty = ''KillByTags'' then Some (serve_killed (KillByTags (q_Tags req) (ns_mgr st)) st)
      else if ty = ''Resize'' then Some (reply_now (response ''Resized'') st)
      else if ty = ''Detach'' then Some (reply_now (response ''Detached'') st)
      else if ty = ''Logs'' then serve_logs req st
      else if ty = ''SendInput'' then Some (serve_input req st)
      else if ty = ''GetStatus'' then Some (serve_status h req st)
      else if ty = ''WatchSession'' then serve_watch req st
      else if ty = ''Subscribe'' then Some (serve_subscribe req st)
      else if ty = ''Wait'' then Some (handleWait h req st)
      else if ty = ''MsgSend'' then Some (node_handleMsgSend js h req st)
      else if ty = ''MsgRead'' then Some (node_handleMsgRead un req st)
      else if ty = ''MsgRequest'' then Some (node_handleMsgRequest js h req st)
      else if ty = ''MsgReply'' then Some (node_handleMsgReply js h req st)
      else if ty = ''MsgListen'' then Some (node_handleMsgListen req st)
      else if ty = ''KVSet'' then Some (handleKVSet parse_duration h req st)
      else if ty = ''KVGet'' then Some (handleKVGet req st)
      else if ty = ''KVDelete'' then Some (handleKVDelete req st)
      else if ty = ''KVList'' then Some (handleKVList req st)
      else if ty = ''IssueSenderDelegation'' then Some (serve_delegation h req st)
      else if ty = ''ReportTask'' then Some (serve_task js h req st)
      else Some (reply_error (UnknownRequest ty) st))"

section \<open>The loops of the longer connections\<close>

text \<open>What a \<open>select\<close> can find ready. \<open>bool\<close> says whether the write of the step succeeds.\<close>

datatype client_frame =
    ReadFailed
  | Disconnected
  | DataFrame bytes
  | ControlFrame "Request option"   \<comment> \<open>\<open>None\<close>: not a request\<close>

datatype loop_event =
    OutputReady bool
  | FrameIn client_frame
  | StatusChanged
  | EventReady
  | TimerFired
  | ReplyReady
  | FollowTick bool

definition next_output :: "uint32 \<Rightarrow> uint64 \<Rightarrow> SessionManager \<Rightarrow> bytes option" where
  "next_output i k m =
     (case session_of m i of None \<Rightarrow> None | Some s \<Rightarrow> Broadcaster_next k (sess_broadcaster s))"

definition status_changed :: "uint32 \<Rightarrow> nat \<Rightarrow> SessionManager \<Rightarrow> SessionStatus option" where
  "status_changed i gen m =
     (case session_of m i of
        None \<Rightarrow> None
      | Some s \<Rightarrow> if wait_closed gen (sess_statusWatcher s) then Some (StatusWatcher_Get (sess_statusWatcher s)) else None)"

text \<open>The deferred calls of an attached client, in the order they run.\<close>

definition attach_end :: "uint32 \<Rightarrow> uint64 \<Rightarrow> NodeState \<Rightarrow> NodeState" where
  "attach_end i k st = set_mgr (snd (Detach i (UnsubscribeOutput i k (ns_mgr st)))) st"

definition attach_again :: "sent list \<Rightarrow> uint32 \<Rightarrow> uint64 \<Rightarrow> SessionManager \<Rightarrow> NodeState \<Rightarrow> served" where
  "attach_again out i k m st = (out, Attached i k (session_generation i m), set_mgr m st)"

text \<open>One round of \<open>handleAttachSession\<close>; \<open>None\<close>: the case is not ready.\<close>

definition handleAttachSession :: "uint32 \<Rightarrow> uint64 \<Rightarrow> nat \<Rightarrow> loop_event \<Rightarrow> NodeState \<Rightarrow> served option" where
  "handleAttachSession i k gen ev st =
     (case ev of
        OutputReady ok \<Rightarrow>
          map_option (\<lambda>data.
              let m1 = recv_output i k (ns_mgr st) in
              if ok then attach_again [SendData data] i k m1 st
              else ([], Closed, attach_end i k (set_mgr m1 st)))
            (next_output i k (ns_mgr st))
      | FrameIn ReadFailed \<Rightarrow> Some ([], Closed, attach_end i k st)
      | FrameIn Disconnected \<Rightarrow> Some ([], Closed, attach_end i k st)
      | FrameIn (DataFrame payload) \<Rightarrow> Some (attach_again [] i k (snd (SendInput i payload (ns_mgr st))) st)
      | FrameIn (ControlFrame None) \<Rightarrow> Some (attach_again [] i k (ns_mgr st) st)
      | FrameIn (ControlFrame (Some req)) \<Rightarrow>
          if q_Type req = ''Detach''
          then Some ([SendResponse ((response ''Detached'')\<lparr>rs_ID := Some i\<rparr>)], Closed, attach_end i k st)
          else Some (attach_again [] i k (ns_mgr st) st)
      | StatusChanged \<Rightarrow>
          map_option (\<lambda>status.
              if status \<noteq> Running then ([SendResponse (failed (SessionEnded status))], Closed, attach_end i k st)
              else attach_again [] i k (ns_mgr st) st)
            (status_changed i gen (ns_mgr st))
      | _ \<Rightarrow> None)"

definition watch_end :: "uint32 \<Rightarrow> uint64 \<Rightarrow> NodeState \<Rightarrow> NodeState" where
  "watch_end i k st = set_mgr (UnsubscribeOutput i k (ns_mgr st)) st"

definition watch_again :: "sent list \<Rightarrow> uint32 \<Rightarrow> uint64 \<Rightarrow> SessionManager \<Rightarrow> NodeState \<Rightarrow> served" where
  "watch_again out i k m st = (out, Watching i k (session_generation i m), set_mgr m st)"

text \<open>
  One round of \<open>handleWatchSession\<close>'s loop. The client's frames are read by a goroutine that
  ignores them until the connection ends, so they take no round.
\<close>

definition watch_step :: "uint32 \<Rightarrow> uint64 \<Rightarrow> nat \<Rightarrow> loop_event \<Rightarrow> NodeState \<Rightarrow> served option" where
  "watch_step i k gen ev st =
     (case ev of
        OutputReady ok \<Rightarrow>
          map_option (\<lambda>data.
              let m1 = recv_output i k (ns_mgr st) in
              if ok then watch_again [SendResponse (watch_update ''running'' (Some data) False)] i k m1 st
              else ([], Closed, watch_end i k (set_mgr m1 st)))
            (next_output i k (ns_mgr st))
      | StatusChanged \<Rightarrow>
          map_option (\<lambda>status.
              let fin = (status \<noteq> Running); upd = SendResponse (watch_update (SessionStatus_String status) None fin) in
              if fin then ([upd], Closed, watch_end i k st)
              else watch_again [upd] i k (ns_mgr st) st)
            (status_changed i gen (ns_mgr st))
      | FrameIn ReadFailed \<Rightarrow> Some ([], Closed, watch_end i k st)
      | FrameIn Disconnected \<Rightarrow> Some ([], Closed, watch_end i k st)
      | _ \<Rightarrow> None)"

definition event_response :: "uint64 option \<Rightarrow> SessionEvent \<Rightarrow> Response" where
  "event_response sub se =
     (response ''Event'')\<lparr>rs_SubscriptionID := sub, rs_SessionID := Some (se_SessionID se), rs_Event := Some (se_Event se)\<rparr>"

definition stream_end :: "uint64 \<Rightarrow> NodeState \<Rightarrow> served" where
  "stream_end k st = ([SendResponse (response ''Unsubscribed'')], Closed, set_mgr (unsubscribe_mgr k (ns_mgr st)) st)"

definition stream_step :: "uint64 \<Rightarrow> loop_event \<Rightarrow> NodeState \<Rightarrow> served option" where
  "stream_step k ev st =
     (case ev of
        EventReady \<Rightarrow>
          map_option (\<lambda>se. ([SendResponse (event_response (Some k) se)], Streaming k, set_mgr (recv_event k (ns_mgr st)) st))
            (next_event k (mgr_Subscriptions (ns_mgr st)))
      | FrameIn ReadFailed \<Rightarrow> Some (stream_end k st)
      | FrameIn Disconnected \<Rightarrow> Some (stream_end k st)
      | FrameIn (ControlFrame (Some req)) \<Rightarrow> if q_Type req = ''Unsubscribe'' then Some (stream_end k st) else None
      | _ \<Rightarrow> None)"

definition listen_step :: "uint64 \<Rightarrow> loop_event \<Rightarrow> NodeState \<Rightarrow> served option" where
  "listen_step k ev st =
     (case ev of
        EventReady \<Rightarrow>
          map_option (\<lambda>se. ([SendResponse (event_response None se)], Listening k, set_mgr (recv_event k (ns_mgr st)) st))
            (next_event k (mgr_Subscriptions (ns_mgr st)))
      | FrameIn ReadFailed \<Rightarrow> Some ([], Closed, set_mgr (unsubscribe_mgr k (ns_mgr st)) st)
      | FrameIn Disconnected \<Rightarrow> Some ([], Closed, set_mgr (unsubscribe_mgr k (ns_mgr st)) st)
      | _ \<Rightarrow> None)"

text \<open>A round of \<open>handleWait\<close>; it never looks at its client.\<close>

definition wait_step :: "nanos \<Rightarrow> uint64 \<Rightarrow> Request \<Rightarrow> loop_event \<Rightarrow> NodeState \<Rightarrow> served option" where
  "wait_step now k req ev st =
     (case ev of
        EventReady \<Rightarrow>
          map_option (\<lambda>se.
              let m1 = recv_event k (ns_mgr st) in
              case wait_check now req m1 of
                Some infos \<Rightarrow> reply_now (wait_result infos) (set_mgr (unsubscribe_mgr k m1) st)
              | None \<Rightarrow> ([], Awaiting k req, set_mgr m1 st))
            (next_event k (mgr_Subscriptions (ns_mgr st)))
      | TimerFired \<Rightarrow> Some (reply_error (Plain ''wait timed out'') (set_mgr (unsubscribe_mgr k (ns_mgr st)) st))
      | _ \<Rightarrow> None)"

text \<open>
  A request waiting for its reply. The receive is the channel's last use, so its value is left
  in place.
\<close>

definition request_step :: "string \<Rightarrow> nat \<Rightarrow> loop_event \<Rightarrow> NodeState \<Rightarrow> served option" where
  "request_step requestID a ev st =
     (case ev of
        ReplyReady \<Rightarrow>
          if a < length (mgr_replyChs (ns_mgr st)) then
            map_option (\<lambda>reply. reply_now ((response ''MsgRequestResult'')
                \<lparr>rs_RequestID := requestID, rs_ReplyBody := rp_Body reply, rs_FromID := Some (rp_From reply),
                 rs_FromName := rp_FromName reply\<rparr>) st)
              (chan_head (mgr_replyChs (ns_mgr st) ! a))
          else None
      | TimerFired \<Rightarrow>
          Some (reply_error (RequestTimedOut requestID) (set_mgr (CleanupRequest requestID (ns_mgr st)) st))
      | FrameIn ReadFailed \<Rightarrow> Some ([], Closed, set_mgr (CleanupRequest requestID (ns_mgr st)) st)
      | FrameIn Disconnected \<Rightarrow> Some ([], Closed, set_mgr (CleanupRequest requestID (ns_mgr st)) st)
      | _ \<Rightarrow> None)"

text \<open>A tick of a followed log: what the file has beyond the offset is sent.\<close>

definition follow_step :: "uint32 \<Rightarrow> nat \<Rightarrow> bool \<Rightarrow> loop_event \<Rightarrow> NodeState \<Rightarrow> served option" where
  "follow_step i off strip ev st =
     (case ev of
        FollowTick ok \<Rightarrow>
          (case LogFile i (ns_mgr st) of
             Inr (Some content) \<Rightarrow>
               if length content \<le> off then Some ([], Following i off strip, st)
               else
                 let chunk = drop off content;
                     d = (if strip then StripANSI chunk else chunk)
                 in if ok then Some ([SendResponse ((response ''LogData'')\<lparr>rs_Data := d, rs_Done := Some False\<rparr>)],
                                     Following i (length content) strip, st)
                    else Some ([], Closed, st)
           | _ \<Rightarrow> Some ([], Following i off strip, st))
      | _ \<Rightarrow> None)"

definition loop_step :: "nanos \<Rightarrow> session_loop \<Rightarrow> loop_event \<Rightarrow> NodeState \<Rightarrow> served option" where
  "loop_step now lp ev st =
     (case lp of
        Closed \<Rightarrow> None
      | Attached i k gen \<Rightarrow> handleAttachSession i k gen ev st
      | Watching i k gen \<Rightarrow> watch_step i k gen ev st
      | Streaming k \<Rightarrow> stream_step k ev st
      | Listening k \<Rightarrow> listen_step k ev st
      | Awaiting k req \<Rightarrow> wait_step now k req ev st
      | AwaitingReply requestID a \<Rightarrow> request_step requestID a ev st
      | Following i off strip \<Rightarrow> follow_step i off strip ev st)"

end
