(* ===== verification/NodeRun.thy ===== *)
theory NodeRun
  imports NodeHandler SessionFacts
begin

text \<open>
  The node as a whole: its connections, the goroutines of its sessions, its timers. Every step
  of a connection is a sequence of steps of the session manager and of the key-value store, so
  what holds in their reachable states holds in the node's; and the counter of attached clients
  agrees with the connections.
\<close>

section \<open>Sequences of manager steps\<close>

fun mgr_steps :: "(Event \<Rightarrow> bytes option) \<Rightarrow> mgr_op list \<Rightarrow> SessionManager \<Rightarrow> SessionManager option" where
  "mgr_steps js [] m = Some m"
| "mgr_steps js (op # ops) m = (if op_enabled op m then mgr_steps js ops (mgr_do js op m) else None)"

definition runs :: "(Event \<Rightarrow> bytes option) \<Rightarrow> (mgr_op \<Rightarrow> bool) \<Rightarrow> SessionManager \<Rightarrow> SessionManager \<Rightarrow> bool" where
  "runs js P m m' \<longleftrightarrow> (\<exists>ops. list_all P ops \<and> mgr_steps js ops m = Some m')"

named_theorems run_intros

lemma mgr_steps_append:
  "mgr_steps js (xs @ ys) m = Option.bind (mgr_steps js xs m) (mgr_steps js ys)"
  by (induction xs arbitrary: m) auto

lemma runs_refl [simp, run_intros]: "runs js P m m"
  by (auto simp: runs_def intro: exI [of _ "[]"])

lemma runs_trans: "runs js P m m1 \<Longrightarrow> runs js P m1 m2 \<Longrightarrow> runs js P m m2"
  unfolding runs_def by (metis list_all_append mgr_steps_append bind.bind_lunit)

lemma runs_op: "P op \<Longrightarrow> op_enabled op m \<Longrightarrow> runs js P m (mgr_do js op m)"
  unfolding runs_def by (rule exI [of _ "[op]"]) simp

lemma runs_mono: "runs js P m m' \<Longrightarrow> (\<And>op. P op \<Longrightarrow> Q op) \<Longrightarrow> runs js Q m m'"
  unfolding runs_def by (metis list.pred_mono_strong)

lemma runs_induct [consumes 1, case_names refl step]:
  assumes "runs js P m m'" "I m"
    and "\<And>op m. P op \<Longrightarrow> op_enabled op m \<Longrightarrow> I m \<Longrightarrow> I (mgr_do js op m)"
  shows "I m'"
proof -
  have "list_all P ops \<Longrightarrow> mgr_steps js ops m = Some m' \<Longrightarrow> I m \<Longrightarrow> I m'" for ops
    using assms(3) by (induction ops arbitrary: m) (auto split: if_splits)
  with assms(1,2) show ?thesis unfolding runs_def by blast
qed

lemma runs_reachable: "runs js P m m' \<Longrightarrow> mgr_reachable js m0 m \<Longrightarrow> mgr_reachable js m0 m'"
  by (erule runs_induct) (auto intro: mgr_reachable.step)

section \<open>What a step does to the counters of attached clients\<close>

text \<open>The steps that neither attach nor detach a client.\<close>

fun quiet :: "mgr_op \<Rightarrow> bool" where
  "quiet (OpAttach i) = False"
| "quiet (OpDetach i) = False"
| "quiet _ = True"

definition attached_count :: "uint32 \<Rightarrow> SessionManager \<Rightarrow> 32 word" where
  "attached_count i m = (case session_of m i of None \<Rightarrow> 0 | Some s \<Rightarrow> sess_attachedCount s)"

lemma attached_upd:
  assumes "\<And>s. sess_attachedCount (f s) = sess_attachedCount s"
  shows "attached_count j (upd_session i f m) = attached_count j m"
  using assms by (auto simp: attached_count_def split: option.splits)

lemma attached_frame [simp]:
  "attached_count j (publish i t e m) = attached_count j m"
  "attached_count j (emit ef m) = attached_count j m"
  "attached_count j (triggerPersist m) = attached_count j m"
  "attached_count j (releaseName i m) = attached_count j m"
  "attached_count j (run_exit_hook i m b n t) = attached_count j m"
  by (simp_all add: attached_count_def run_exit_hook_def)

lemma attached_records [simp]:
  "attached_count j (m\<lparr>mgr_Subscriptions := s\<rparr>) = attached_count j m"
  "attached_count j (m\<lparr>mgr_pendingRequests := p\<rparr>) = attached_count j m"
  "attached_count j (m\<lparr>mgr_replyChs := c\<rparr>) = attached_count j m"
  "attached_count j (m\<lparr>mgr_PersistCh := b\<rparr>) = attached_count j m"
  "attached_count j (m\<lparr>mgr_nameIndex := x\<rparr>) = attached_count j m"
  "attached_count j (m\<lparr>mgr_panicked := b\<rparr>) = attached_count j m"
  by (simp_all add: attached_count_def session_of_def)

lemma attachedCount_frame [simp]:
  "sess_attachedCount (snd (append_event js e s)) = sess_attachedCount s"
  "sess_attachedCount (append_message js e s) = sess_attachedCount s"
  "sess_attachedCount (record_exit c now s) = sess_attachedCount s"
  "sess_attachedCount (refresh s) = sess_attachedCount s"
  "sess_attachedCount (respond_queries d s) = sess_attachedCount s"
  "sess_attachedCount (log_output w d s) = sess_attachedCount s"
  "sess_attachedCount (write_input ok s) = sess_attachedCount s"
  by (simp_all add: append_event_def append_message_def record_exit_def refresh_def respond_queries_def log_output_def
      write_input_def Let_def split: option.splits prod.splits list.splits)

lemma attachedCount_read_chunk [simp]: "sess_attachedCount (read_chunk d w now s) = sess_attachedCount s"
  by (simp add: read_chunk_def track_output_def Let_def)

lemma attached_log_message [simp]: "attached_count j (log_message js e i m) = attached_count j m"
  unfolding log_message_def by (rule attached_upd) simp

lemma attached_rename: "attached_count j (snd (SetName i name m)) = attached_count j m"
  by (cases rule: SetName_result [of i name m]) (simp_all add: rename_session_def Let_def attached_upd)

lemma attached_Kill [simp]: "attached_count j (snd (Kill i m)) = attached_count j m"
  by (auto simp: Kill_def Let_def attached_upd split: option.splits)

lemma attached_kill_all [simp]: "attached_count j (kill_all ids m) = attached_count j m"
  by (rule kill_all_induct [of "\<lambda>m'. attached_count j m' = attached_count j m"]) simp_all

lemma attached_RefreshStatuses: "attached_count j (RefreshStatuses m) = attached_count j m"
proof -
  have "attached_count j (m\<lparr>mgr_sessions := map (\<lambda>(k, s). (k, refresh s)) (mgr_sessions m)\<rparr>) = attached_count j m"
    by (simp add: attached_count_def session_of_def mget_map_value split: option.splits)
  then show ?thesis by (simp add: RefreshStatuses_def Let_def)
qed

lemma attached_commit: "attached_count j (snd (reply_commit js now eff fname req body logs m)) = attached_count j m"
  by (simp add: reply_commit_def Let_def send_on_def split: option.splits)

lemma attached_Launch:
  assumes "sessions_ok m"
  shows "attached_count j (snd (Launch js os command dir env name tags now m)) = attached_count j m"
proof -
  have e: "sess_attachedCount (new_session os i command dir tags pid now) = 0" for i pid
    by (simp add: new_session_def)
  have "mget (mgr_sessions m) (mgr_nextID m) = None" by (rule fresh_id [OF assms])
  then have "attached_count j (snd (Launch js os command dir env name tags now m)) = attached_count j m"
    by (auto simp: Launch_def Let_def attached_upd split: option.splits)
      (auto simp: attached_count_def session_of_def mget_mput emit_def e)
  then show ?thesis .
qed

lemma attached_quiet:
  assumes "quiet op" "sessions_ok m"
  shows "attached_count j (mgr_do js op m) = attached_count j m"
  using assms
  by (cases op) (auto simp: attached_rename attached_Launch KillAll_def KillByTags_def Let_def SendInput_def SubscribeOutput_def
      UnsubscribeOutput_def recv_output_def recv_event_def attached_RefreshStatuses ReportTask_def reader_chunk_def
      reader_end_def writer_step_def stdin_inject_def process_exit_def sendMessageWithMetadata_def
      sendRequestWithMetadata_def register_request_def sendReplyWithMetadata_def attached_commit CleanupRequest_def
      attached_upd split: sum.splits option.splits prod.splits)

lemma attached_runs:
  assumes "runs js quiet m m'" "sessions_ok m"
  shows "attached_count j m' = attached_count j m"
proof -
  have "sessions_ok m' \<and> attached_count j m' = attached_count j m"
    using assms(1) by (induction rule: runs_induct) (simp_all add: assms(2) attached_quiet sessions_ok_do)
  then show ?thesis by simp
qed

lemma attached_Attach:
  assumes "fst (Attach i m) = Inr k"
  shows "attached_count j (snd (Attach i m)) = attached_count j m + (if j = i then 1 else 0)"
  using assms by (auto simp: Attach_def attached_count_def split: option.splits if_splits)

lemma attached_Detach:
  assumes "session_of m i \<noteq> None"
  shows "attached_count j (snd (Detach i m)) = attached_count j m - (if j = i then 1 else 0)"
  using assms by (auto simp: Detach_def attached_count_def split: option.splits)

section \<open>The handlers as sequences of manager steps\<close>

text \<open>The counters that the source lets wrap around are not exhausted.\<close>

definition counters_ok :: "SessionManager \<Rightarrow> bool" where
  "counters_ok m \<longleftrightarrow> mgr_nextID m \<noteq> - 1 \<and> sm_nextID (mgr_Subscriptions m) \<noteq> - 1 \<and>
     (\<forall>i s. session_of m i = Some s \<longrightarrow> bc_nextID (sess_broadcaster s) \<noteq> - 1)"

lemma quiet_runs [run_intros]:
  "runs js quiet m (snd (SetName i name m))"
  "runs js quiet m (snd (Kill i m))"
  "runs js quiet m (snd (KillAll m))"
  "runs js quiet m (snd (KillByTags tags m))"
  "runs js quiet m (snd (SendInput i d m))"
  "runs js quiet m (UnsubscribeOutput i k m)"
  "runs js quiet m (recv_output i k m)"
  "runs js quiet m (recv_event k m)"
  "runs js quiet m (unsubscribe_mgr k m)"
  "runs js quiet m (snd (ReportTask js eid now i summary state m))"
  "runs js quiet m (snd (SendMessage js msgID now f to body m))"
  "runs js quiet m (snd (SendRequest js r tok now f to body m))"
  "runs js quiet m (snd (SendReply js now f r body m))"
  "runs js quiet m (snd (SendReplyWithToken js now r tok body m))"
  "runs js quiet m (CleanupRequest r m)"
  using runs_op [where P = quiet and m = m and js = js and op = "OpSetName i name"]
    runs_op [where P = quiet and m = m and js = js and op = "OpKill i"]
    runs_op [where P = quiet and m = m and js = js and op = OpKillAll]
    runs_op [where P = quiet and m = m and js = js and op = "OpKillByTags tags"]
    runs_op [where P = quiet and m = m and js = js and op = "OpSendInput i d"]
    runs_op [where P = quiet and m = m and js = js and op = "OpUnsubscribeOutput i k"]
    runs_op [where P = quiet and m = m and js = js and op = "OpRecvOutput i k"]
    runs_op [where P = quiet and m = m and js = js and op = "OpRecvEvent k"]
    runs_op [where P = quiet and m = m and js = js and op = "OpUnsubscribe k"]
    runs_op [where P = quiet and m = m and js = js and op = "OpReportTask eid now i summary state"]
    runs_op [where P = quiet and m = m and js = js and op = "OpSendMessage msgID now f [] to body True"]
    runs_op [where P = quiet and m = m and js = js and op = "OpSendRequest r tok now f [] to body True"]
    runs_op [where P = quiet and m = m and js = js and op = "OpSendReply now f [] None r [] body True"]
    runs_op [where P = quiet and m = m and js = js and op = "OpSendReply now 0 [] None r tok body True"]
    runs_op [where P = quiet and m = m and js = js and op = "OpCleanupRequest r"]
  by (simp_all add: unsubscribe_mgr_def SendMessage_def SendRequest_def SendReply_def SendReplyWithToken_def)

lemma counted_runs [run_intros]:
  "mgr_nextID m \<noteq> - 1 \<Longrightarrow> runs js quiet m (snd (Launch js os command dir env name tags now m))"
  "sm_nextID (mgr_Subscriptions m) \<noteq> - 1 \<Longrightarrow> runs js quiet m (snd (subscribe_mgr sid tags types m))"
  "(\<And>s. session_of m i = Some s \<Longrightarrow> bc_nextID (sess_broadcaster s) \<noteq> - 1) \<Longrightarrow>
     runs js quiet m (snd (SubscribeOutput i m))"
  using runs_op [where P = quiet and m = m and js = js and op = "OpLaunch os command dir env name tags now"]
    runs_op [where P = quiet and m = m and js = js and op = "OpSubscribe sid tags types"]
    runs_op [where P = quiet and m = m and js = js and op = "OpSubscribeOutput i"]
  by (simp_all add: subscribe_mgr_def Let_def split: option.splits)

lemma prompt_runs [run_intros]:
  "runs js quiet m (snd (DeliverDirectMessagePrompt toID fn f body m))"
  "runs js quiet m (snd (DeliverRequestPrompt toID r fn f body m))"
  by (simp_all add: DeliverDirectMessagePrompt_def DeliverRequestPrompt_def quiet_runs)

lemma runs_result: "g = (r, m') \<Longrightarrow> runs js P m (snd g) \<Longrightarrow> runs js P m m'"
  by simp

section \<open>Sessions are never forgotten\<close>

definition known :: "uint32 \<Rightarrow> SessionManager \<Rightarrow> bool" where
  "known i m \<longleftrightarrow> session_of m i \<noteq> None"

lemma known_frame [simp]:
  "known j (upd_session i f m) = known j m"
  "known j (publish i t e m) = known j m"
  "known j (emit ef m) = known j m"
  "known j (triggerPersist m) = known j m"
  "known j (releaseName i m) = known j m"
  "known j (run_exit_hook i m b n t) = known j m"
  by (simp_all add: known_def run_exit_hook_def)

lemma known_records [simp]:
  "known j (m\<lparr>mgr_Subscriptions := s\<rparr>) = known j m"
  "known j (m\<lparr>mgr_pendingRequests := p\<rparr>) = known j m"
  "known j (m\<lparr>mgr_replyChs := c\<rparr>) = known j m"
  "known j (m\<lparr>mgr_PersistCh := b\<rparr>) = known j m"
  "known j (m\<lparr>mgr_nameIndex := x\<rparr>) = known j m"
  "known j (m\<lparr>mgr_panicked := b\<rparr>) = known j m"
  by (simp_all add: known_def session_of_def)

lemma known_log_message [simp]: "known j (log_message js e i m) = known j m"
  by (simp add: log_message_def)

lemma known_rename [simp]: "known j (snd (SetName i name m)) = known j m"
  by (cases rule: SetName_result [of i name m]) (simp_all add: rename_session_def Let_def)

lemma known_Kill [simp]: "known j (snd (Kill i m)) = known j m"
  by (auto simp: Kill_def Let_def split: option.splits)

lemma known_kill_all [simp]: "known j (kill_all ids m) = known j m"
  by (rule kill_all_induct [of "\<lambda>m'. known j m' = known j m"]) simp_all

lemma known_RefreshStatuses [simp]: "known j (RefreshStatuses m) = known j m"
proof -
  have "known j (m\<lparr>mgr_sessions := map (\<lambda>(k, s). (k, refresh s)) (mgr_sessions m)\<rparr>) = known j m"
    by (simp add: known_def session_of_def mget_map_value split: option.splits)
  then show ?thesis by (simp add: RefreshStatuses_def Let_def)
qed

lemma known_commit [simp]: "known j (snd (reply_commit js now eff fname req body logs m)) = known j m"
  by (simp add: reply_commit_def Let_def send_on_def split: option.splits)

lemma known_Launch: "known j m \<Longrightarrow> known j (snd (Launch js os command dir env name tags now m))"
  by (auto simp: Launch_def Let_def split: option.splits)
    (auto simp: known_def session_of_def mget_mput emit_def)

lemma known_do:
  assumes "known j m"
  shows "known j (mgr_do js op m)"
  using assms
  by (cases op) (auto simp: known_Launch KillAll_def KillByTags_def Let_def SendInput_def SubscribeOutput_def Attach_def
      Detach_def UnsubscribeOutput_def recv_output_def recv_event_def ReportTask_def reader_chunk_def
      reader_end_def writer_step_def stdin_inject_def process_exit_def sendMessageWithMetadata_def
      sendRequestWithMetadata_def register_request_def sendReplyWithMetadata_def CleanupRequest_def
      split: sum.splits option.splits prod.splits)

lemma known_runs: "runs js P m m' \<Longrightarrow> known j m \<Longrightarrow> known j m'"
  by (erule runs_induct) (auto intro: known_do)

section \<open>Each handler, as steps of the manager and of the store\<close>

definition kv_runs :: "KVStore \<Rightarrow> KVStore \<Rightarrow> bool" where
  "kv_runs kv kv' \<longleftrightarrow> (\<exists>xs. kv' = foldl kv_do kv xs)"

lemma kv_runs_refl [simp]: "kv_runs kv kv"
  unfolding kv_runs_def by (rule exI [of _ "[]"]) simp

lemma kv_runs_do: "kv_runs kv (kv_do kv x)"
  unfolding kv_runs_def by (rule exI [of _ "[x]"]) simp

lemma kv_runs_reachable: "kv_runs kv kv' \<Longrightarrow> kv_reachable kv \<Longrightarrow> kv_reachable kv'"
proof -
  have "kv_reachable kv \<Longrightarrow> kv_reachable (foldl kv_do kv xs)" for xs
    by (induction xs arbitrary: kv) (auto intro: kv_reachable.intros)
  then show "kv_runs kv kv' \<Longrightarrow> kv_reachable kv \<Longrightarrow> kv_reachable kv'" by (auto simp: kv_runs_def)
qed

text \<open>What a request or a round did: quiet steps, and the connection does not become attached.\<close>

fun is_attached :: "session_loop \<Rightarrow> bool" where
  "is_attached (Attached i k gen) = True"
| "is_attached _ = False"

definition steps :: "(Event \<Rightarrow> bytes option) \<Rightarrow> NodeState \<Rightarrow> NodeState \<Rightarrow> bool" where
  "steps js st st' \<longleftrightarrow> runs js quiet (ns_mgr st) (ns_mgr st') \<and> kv_runs (ns_kv st) (ns_kv st')"

definition quietly :: "(Event \<Rightarrow> bytes option) \<Rightarrow> NodeState \<Rightarrow> served \<Rightarrow> bool" where
  "quietly js st r \<longleftrightarrow> steps js st (snd (snd r)) \<and> \<not> is_attached (fst (snd r))"

named_theorems quiet_intros

lemma set_mgr_frame [simp]:
  "ns_mgr (set_mgr m st) = m"
  "ns_kv (set_mgr m st) = ns_kv st"
  "set_mgr m2 (set_mgr m1 st) = set_mgr m2 st"
  "set_mgr (ns_mgr st) st = st"
  by (simp_all add: set_mgr_def)

lemma quietly_set [quiet_intros]:
  "runs js quiet (ns_mgr st) m \<Longrightarrow> \<not> is_attached lp \<Longrightarrow> quietly js st (out, lp, set_mgr m st)"
  by (simp add: quietly_def steps_def)

lemma quietly_reply [quiet_intros]:
  "runs js quiet (ns_mgr st) m \<Longrightarrow> quietly js st (reply_now r (set_mgr m st))"
  "runs js quiet (ns_mgr st) m \<Longrightarrow> quietly js st (reply_error err (set_mgr m st))"
  by (simp_all add: reply_error_def reply_now_def quietly_set)

lemma quietly_same [quiet_intros]:
  "\<not> is_attached lp \<Longrightarrow> quietly js st (out, lp, st)"
  "quietly js st (reply_now r st)"
  "quietly js st (reply_error err st)"
  by (simp_all add: quietly_def steps_def reply_error_def reply_now_def)

text \<open>A step given by its result: \<open>run_of\<close> turns an equation of a handler's case into a run.\<close>

lemma run_of:
  "runs js quiet m0 m \<Longrightarrow> SetName i name m = (r1, m') \<Longrightarrow> runs js quiet m0 m'"
  "runs js quiet m0 m \<Longrightarrow> Kill i m = (r1, m') \<Longrightarrow> runs js quiet m0 m'"
  "runs js quiet m0 m \<Longrightarrow> SendInput i d m = (r2, m') \<Longrightarrow> runs js quiet m0 m'"
  "runs js quiet m0 m \<Longrightarrow> ReportTask js eid now i summary state m = (r1, m') \<Longrightarrow> runs js quiet m0 m'"
  "runs js quiet m0 m \<Longrightarrow> SendMessage js msgID now f to body m = (r4, m') \<Longrightarrow> runs js quiet m0 m'"
  "runs js quiet m0 m \<Longrightarrow> SendRequest js r tok now f to body m = (r5, m') \<Longrightarrow> runs js quiet m0 m'"
  "runs js quiet m0 m \<Longrightarrow> SendReply js now f r body m = (r6, m') \<Longrightarrow> runs js quiet m0 m'"
  "runs js quiet m0 m \<Longrightarrow> SendReplyWithToken js now r tok body m = (r6, m') \<Longrightarrow> runs js quiet m0 m'"
  "runs js quiet m0 m \<Longrightarrow> DeliverRequestPrompt to r fn f body m = (r2, m') \<Longrightarrow> runs js quiet m0 m'"
  by (rule runs_trans, assumption, erule runs_result, rule run_intros)+

lemma runs_then:
  "runs js quiet m0 m \<Longrightarrow> runs js quiet m0 (snd (Kill i m))"
  "runs js quiet m0 m \<Longrightarrow> runs js quiet m0 (unsubscribe_mgr k m)"
  "runs js quiet m0 m \<Longrightarrow> runs js quiet m0 (UnsubscribeOutput i k m)"
  "runs js quiet m0 m \<Longrightarrow> runs js quiet m0 (CleanupRequest r m)"
  "runs js quiet m0 m \<Longrightarrow> runs js quiet m0 (snd (DeliverDirectMessagePrompt to fn f body m))"
  by (rule runs_trans, assumption, rule run_intros)+

lemma counters_runs:
  assumes "counters_ok m"
  shows "Launch js os command dir env name tags now m = (r1, m') \<Longrightarrow> runs js quiet m m'"
    "subscribe_mgr sid tags types m = (k, m') \<Longrightarrow> runs js quiet m m'"
    "SubscribeOutput i m = (r3, m') \<Longrightarrow> runs js quiet m m'"
  using assms by (auto simp: counters_ok_def elim!: runs_result intro!: counted_runs)

lemma quietly_launch [quiet_intros]:
  assumes "counters_ok (ns_mgr st)"
  shows "quietly js st (serve_launch js h req st)"
  using assms unfolding serve_launch_def
  by (auto split: prod.splits sum.splits if_splits
      intro!: quiet_intros runs_then dest!: counters_runs(1) [OF assms] intro: run_of(1))

lemma quietly_kill [quiet_intros]:
  "quietly js st (serve_kill req st)"
  "quietly js st (serve_killed (KillAll (ns_mgr st)) st)"
  "quietly js st (serve_killed (KillByTags tags (ns_mgr st)) st)"
  unfolding serve_kill_def serve_killed_def
  by (auto split: option.splits prod.splits sum.splits intro!: quiet_intros run_intros intro: run_of(2) [OF runs_refl])

lemma quietly_session [quiet_intros]:
  "quietly js st (serve_input req st)"
  "quietly js st (serve_status h req st)"
  "quietly js st (serve_delegation h req st)"
  "quietly js st (serve_task js h req st)"
  unfolding serve_input_def serve_status_def serve_delegation_def serve_task_def Let_def
  by (auto split: option.splits prod.splits sum.splits intro!: quiet_intros intro: run_of(3,4) [OF runs_refl])

lemma quietly_logs:
  "serve_logs req st = Some r \<Longrightarrow> quietly js st r"
  unfolding serve_logs_def handleLogs_def Let_def
  by (auto split: option.splits sum.splits if_splits intro!: quiet_intros)

lemma quietly_watch:
  assumes "counters_ok (ns_mgr st)" "serve_watch req st = Some r"
  shows "quietly js st r"
  using assms(2) unfolding serve_watch_def handleWatchSession_def Let_def
  by (auto split: option.splits sum.splits prod.splits if_splits
      intro!: quiet_intros dest!: counters_runs(3) [OF assms(1), where js = js])

lemma quietly_events [quiet_intros]:
  assumes "counters_ok (ns_mgr st)"
  shows "quietly js st (serve_subscribe req st)"
    "quietly js st (node_handleMsgListen req st)"
    "quietly js st (handleWait h req st)"
  unfolding serve_subscribe_def node_handleMsgListen_def handleWait_def
  by (auto split: prod.splits option.splits
      intro!: quiet_intros runs_then dest!: counters_runs(2) [OF assms, where js = js])

lemma quietly_send [quiet_intros]:
  "quietly js st (node_handleMsgSend js h req st)"
  unfolding node_handleMsgSend_def Let_def
  by (auto split: option.splits sum.splits prod.splits if_splits intro!: quiet_intros runs_then
      intro: run_of(5) [OF runs_refl])

lemma quietly_read [quiet_intros]: "quietly js st (node_handleMsgRead un req st)"
  unfolding node_handleMsgRead_def Let_def
  by (auto split: option.splits sum.splits if_splits intro!: quiet_intros)

lemma quietly_request [quiet_intros]:
  "quietly js st (node_handleMsgRequest js h req st)"
  unfolding node_handleMsgRequest_def Let_def
  by (auto split: option.splits sum.splits prod.splits if_splits intro!: quiet_intros runs_then
      intro: run_of(6) [OF runs_refl] run_of(9) [OF run_of(6) [OF runs_refl]])

lemma quietly_reply_message [quiet_intros]:
  "quietly js st (node_handleMsgReply js h req st)"
  unfolding node_handleMsgReply_def Let_def
  by (auto split: sum.splits prod.splits if_splits intro!: quiet_intros
      intro: run_of(7,8) [OF runs_refl])

lemma quietly_kv [quiet_intros]:
  "quietly js st (handleKVSet parse_duration h req st)"
  "quietly js st (handleKVGet req st)"
  "quietly js st (handleKVDelete req st)"
  "quietly js st (handleKVList req st)"
proof -
  have put: "quietly js st (reply_now r (st\<lparr>ns_kv := KV_Set n k v ttl now (ns_kv st)\<rparr>))" for r n k v ttl now
    using kv_runs_do [of "ns_kv st" "DoSet n k v ttl now"] by (simp add: quietly_def steps_def reply_now_def)
  have del: "quietly js st (reply_now r (st\<lparr>ns_kv := KV_Delete n k (ns_kv st)\<rparr>))" for r n k
    using kv_runs_do [of "ns_kv st" "DoDelete n k"] by (simp add: quietly_def steps_def reply_now_def)
  show "quietly js st (handleKVSet parse_duration h req st)" "quietly js st (handleKVGet req st)"
    "quietly js st (handleKVDelete req st)" "quietly js st (handleKVList req st)"
    unfolding handleKVSet_def handleKVGet_def handleKVDelete_def handleKVList_def
    by (auto split: option.splits intro!: quiet_intros put del)
qed

text \<open>Every request but \<open>Attach\<close> is quiet.\<close>

lemma quietly_handleClient:
  assumes "counters_ok (ns_mgr st)" "handleClient js un parse_duration h req st = Some r" "q_Type req \<noteq> ''Attach''"
  shows "quietly js st r"
  using assms(2,3) unfolding handleClient_def Let_def
  by (simp split: if_splits)
    (auto intro!: quiet_intros assms(1) intro: quietly_logs quietly_watch [OF assms(1)])

text \<open>\<open>Attach\<close> either fails, or it attaches one client.\<close>

lemma serve_attach_cases:
  assumes "serve_attach req st = Some (out, lp, st')"
  obtains (failed) "quietly js st (out, lp, st')"
  | (attached) i k gen where "lp = Attached i k gen" "fst (Attach i (ns_mgr st)) = Inr k"
      "ns_mgr st' = snd (Attach i (ns_mgr st))" "ns_kv st' = ns_kv st"
proof -
  have same: "m1 = m" if "Attach i m = (Inl err, m1)" for i m m1 err
    using that by (auto simp: Attach_def split: option.splits if_splits)
  consider "q_ID req = None" | i err m1 where "q_ID req = Some i" "Attach i (ns_mgr st) = (Inl err, m1)"
    | i k m1 where "q_ID req = Some i" "Attach i (ns_mgr st) = (Inr k, m1)"
    by (cases "q_ID req") (simp, metis prod.exhaust sum.exhaust)
  then show thesis
  proof cases
    case 1
    then have "quietly js st (out, lp, st')"
      using assms quietly_same(3) [of js st missing_id] by (simp add: serve_attach_def)
    then show thesis by (rule failed)
  next
    case 2
    then have "quietly js st (out, lp, st')"
      using assms same [OF 2(2)] quietly_same(3) [of js st "SessionFailed err"] by (simp add: serve_attach_def)
    then show thesis by (rule failed)
  next
    case 3
    then show thesis using assms by (auto simp: serve_attach_def Let_def intro: attached)
  qed
qed

section \<open>Each round of a connection\<close>

lemma quietly_stream:
  "stream_step k ev st = Some r \<Longrightarrow> quietly js st r"
  "listen_step k ev st = Some r \<Longrightarrow> quietly js st r"
  "wait_step now k req ev st = Some r \<Longrightarrow> quietly js st r"
  "request_step requestID a ev st = Some r \<Longrightarrow> quietly js st r"
  "follow_step i off strip ev st = Some r \<Longrightarrow> quietly js st r"
  "watch_step i k gen ev st = Some r \<Longrightarrow> quietly js st r"
  unfolding stream_step_def stream_end_def listen_step_def wait_step_def request_step_def follow_step_def Let_def
    watch_step_def watch_again_def watch_end_def
  by (auto split: loop_event.splits client_frame.splits option.splits if_splits sum.splits
      intro!: quiet_intros runs_then run_intros)

text \<open>An attached client stays attached, or it ends with one \<open>Detach\<close> of its session.\<close>

lemma handleAttachSession_cases:
  assumes "handleAttachSession i k gen ev st = Some (out, lp, st')"
  obtains (again) gen' where "lp = Attached i k gen'" "steps js st st'"
  | (ended) m where "lp = Closed" "runs js quiet (ns_mgr st) m" "ns_mgr st' = snd (Detach i m)" "ns_kv st' = ns_kv st"
proof -
  have e: "\<exists>m. runs js quiet (ns_mgr st) m \<and> ns_mgr (attach_end i k (set_mgr m1 st)) = snd (Detach i m) \<and>
      ns_kv (attach_end i k (set_mgr m1 st)) = ns_kv st" if "runs js quiet (ns_mgr st) m1" for m1
    using runs_then(3) [OF that] by (auto simp: attach_end_def)
  have e0: "\<exists>m. runs js quiet (ns_mgr st) m \<and> ns_mgr (attach_end i k st) = snd (Detach i m) \<and>
      ns_kv (attach_end i k st) = ns_kv st"
    by (rule exI [of _ "UnsubscribeOutput i k (ns_mgr st)"]) (simp add: attach_end_def quiet_runs)
  have "(\<exists>gen'. lp = Attached i k gen' \<and> steps js st st') \<or>
      (lp = Closed \<and> (\<exists>m. runs js quiet (ns_mgr st) m \<and> ns_mgr st' = snd (Detach i m) \<and> ns_kv st' = ns_kv st))"
    using assms unfolding handleAttachSession_def attach_again_def Let_def
    by (auto split: loop_event.splits client_frame.splits option.splits if_splits
        simp: steps_def intro!: run_intros e e0)
  then show thesis using again ended by blast
qed

lemma quietly_loop:
  assumes "loop_step now lp ev st = Some r" "\<not> is_attached lp"
  shows "quietly js st r"
  using assms by (cases lp) (auto simp: loop_step_def intro: quietly_stream)

section \<open>Runs of the node\<close>

text \<open>
  A node with its open connections. A connection is accepted with its first request, or makes a
  round; a timer of the store fires; anything else (the goroutines of the sessions, the peer
  server, the persistence loop) is a step of the manager that attaches no client.
\<close>

type_synonym node_run_state = "NodeState \<times> session_loop list"

fun is_timer :: "kv_step \<Rightarrow> bool" where
  "is_timer (TimerFires t now) = True"
| "is_timer (CallbackRuns c) = True"
| "is_timer _ = False"

inductive node_run ::
  "(Event \<Rightarrow> bytes option) \<Rightarrow> (bytes \<Rightarrow> Event option) \<Rightarrow> (string \<Rightarrow> nanos option) \<Rightarrow> NodeState \<Rightarrow>
   node_run_state \<Rightarrow> bool"
  for js :: "Event \<Rightarrow> bytes option" and un :: "bytes \<Rightarrow> Event option" and pd :: "string \<Rightarrow> nanos option"
    and st0 :: NodeState where
  start: "node_run js un pd st0 (st0, [])"
| accepted: "node_run js un pd st0 (st, cs) \<Longrightarrow> counters_ok (ns_mgr st) \<Longrightarrow>
    handleClient js un pd h req st = Some (out, lp, st') \<Longrightarrow> node_run js un pd st0 (st', cs @ [lp])"
| round: "node_run js un pd st0 (st, cs) \<Longrightarrow> c < length cs \<Longrightarrow>
    loop_step now (cs ! c) ev st = Some (out, lp, st') \<Longrightarrow> node_run js un pd st0 (st', cs[c := lp])"
| timer: "node_run js un pd st0 (st, cs) \<Longrightarrow> is_timer x \<Longrightarrow>
    node_run js un pd st0 (st\<lparr>ns_kv := kv_do (ns_kv st) x\<rparr>, cs)"
| elsewhere: "node_run js un pd st0 (st, cs) \<Longrightarrow> quiet op \<Longrightarrow> op_enabled op (ns_mgr st) \<Longrightarrow>
    ns_mgr st' = mgr_do js op (ns_mgr st) \<Longrightarrow> ns_kv st' = ns_kv st \<Longrightarrow> node_run js un pd st0 (st', cs)"

inductive_cases node_run_noneE: "node_run js un pd st0 (st, [])"

text \<open>Every step, as quiet steps around at most one \<open>Attach\<close> or \<open>Detach\<close>.\<close>

lemma accepted_cases:
  assumes "counters_ok (ns_mgr st)" "handleClient js un pd h req st = Some (out, lp, st')"
  obtains (quietly) "steps js st st'" "\<not> is_attached lp"
  | (attached) i k gen where "lp = Attached i k gen" "fst (Attach i (ns_mgr st)) = Inr k"
      "ns_mgr st' = snd (Attach i (ns_mgr st))" "ns_kv st' = ns_kv st"
proof (cases "q_Type req = ''Attach''")
  case True
  then have "serve_attach req st = Some (out, lp, st')"
    using assms(2) by (simp add: handleClient_def)
  then show thesis
    by (rule serve_attach_cases [where js = js]) (auto simp: quietly_def intro: quietly attached)
next
  case False
  then have "quietly js st (out, lp, st')" by (rule quietly_handleClient [OF assms])
  then show thesis by (intro quietly) (simp_all add: quietly_def)
qed

lemma round_cases:
  assumes "loop_step now lp0 ev st = Some (out, lp, st')"
  obtains (quietly) "steps js st st'" "\<not> is_attached lp0" "\<not> is_attached lp"
  | (again) i k gen gen' where "lp0 = Attached i k gen" "lp = Attached i k gen'" "steps js st st'"
  | (ended) i k gen m where "lp0 = Attached i k gen" "lp = Closed" "runs js quiet (ns_mgr st) m"
      "ns_mgr st' = snd (Detach i m)" "ns_kv st' = ns_kv st"
proof (cases "is_attached lp0")
  case True
  then obtain i k gen where l: "lp0 = Attached i k gen" by (cases lp0) auto
  then have "handleAttachSession i k gen ev st = Some (out, lp, st')"
    using assms by (simp add: loop_step_def)
  then show thesis
    by (rule handleAttachSession_cases [where js = js]) (auto simp: l intro: again ended)
next
  case False
  then show thesis
    using quietly_loop [OF assms False, where js = js] by (intro quietly) (simp_all add: quietly_def)
qed

lemma op_runs: "quiet op \<Longrightarrow> op_enabled op m \<Longrightarrow> runs js quiet m (mgr_do js op m)"
  by (rule runs_op)

lemma reachable_op:
  "mgr_reachable js m0 m \<Longrightarrow> mgr_do js op m = m' \<Longrightarrow> op_enabled op m \<Longrightarrow> mgr_reachable js m0 m'"
  using mgr_reachable.step by metis

lemma op_enabled_Attach: "counters_ok m \<Longrightarrow> op_enabled (OpAttach i) m"
  by (auto simp: counters_ok_def split: option.splits)

text \<open>The node's state is a reachable state of its manager and of its store.\<close>

lemma node_run_reachable:
  assumes "node_run js un pd st0 x" "kv_reachable (ns_kv st0)"
  shows "mgr_reachable js (ns_mgr st0) (ns_mgr (fst x)) \<and> kv_reachable (ns_kv (fst x))"
  using assms(1)
proof induction
  case start
  then show ?case using assms(2) by (simp add: mgr_reachable.start)
next
  case (accepted st cs h req out lp st')
  from accepted(2,3) show ?case
  proof (cases rule: accepted_cases)
    case quietly
    then show ?thesis using accepted.IH by (auto simp: steps_def intro: runs_reachable kv_runs_reachable)
  next
    case (attached i k gen)
    then show ?thesis
      using accepted.IH reachable_op [of js "ns_mgr st0" "ns_mgr st" "OpAttach i" "ns_mgr st'"]
        op_enabled_Attach [OF accepted(2)] by simp
  qed
next
  case (round st cs c now ev out lp st')
  from round(3) show ?case
  proof (cases rule: round_cases [where js = js])
    case quietly
    then show ?thesis using round.IH by (auto simp: steps_def intro: runs_reachable kv_runs_reachable)
  next
    case again
    then show ?thesis using round.IH by (auto simp: steps_def intro: runs_reachable kv_runs_reachable)
  next
    case (ended i k gen m)
    then have "mgr_reachable js (ns_mgr st0) m" using round.IH by (auto intro: runs_reachable)
    then show ?thesis
      using ended round.IH reachable_op [of js "ns_mgr st0" m "OpDetach i" "ns_mgr st'"] by simp
  qed
next
  case (timer st cs x)
  then show ?case by (auto intro: kv_reachable.intros)
next
  case (elsewhere st cs op st')
  then show ?case by (auto intro: mgr_reachable.step)
qed

section \<open>The counter of attached clients\<close>

fun attached_to :: "uint32 \<Rightarrow> session_loop \<Rightarrow> bool" where
  "attached_to i (Attached j k gen) = (j = i)"
| "attached_to i _ = False"

definition clients_of :: "uint32 \<Rightarrow> session_loop list \<Rightarrow> nat" where
  "clients_of i cs = length (filter (attached_to i) cs)"

lemma clients_of_append: "clients_of i (cs @ [lp]) = clients_of i cs + (if attached_to i lp then 1 else 0)"
  by (simp add: clients_of_def)

lemma clients_of_update:
  assumes "c < length cs"
  shows "clients_of i (cs[c := lp]) + (if attached_to i (cs ! c) then 1 else 0) =
    clients_of i cs + (if attached_to i lp then 1 else 0)"
proof -
  have "cs = take c cs @ cs ! c # drop (Suc c) cs" using assms by (simp add: id_take_nth_drop)
  then have "clients_of i cs = clients_of i (take c cs @ cs ! c # drop (Suc c) cs)" by simp
  then show ?thesis using assms by (simp add: clients_of_def upd_conv_take_nth_drop)
qed

lemma not_attached_to: "\<not> is_attached lp \<Longrightarrow> \<not> attached_to i lp"
  by (cases lp) auto

definition counted :: "node_run_state \<Rightarrow> bool" where
  "counted x \<longleftrightarrow> sessions_ok (ns_mgr (fst x)) \<and>
     (\<forall>i. attached_count i (ns_mgr (fst x)) = of_nat (clients_of i (snd x)) \<and>
        (0 < clients_of i (snd x) \<longrightarrow> known i (ns_mgr (fst x))))"

lemma counted_runs_to:
  assumes "counted (st, cs)" "runs js quiet (ns_mgr st) (ns_mgr st')"
    "\<And>i. clients_of i cs' = clients_of i cs"
  shows "counted (st', cs')"
proof -
  have s: "sessions_ok (ns_mgr st)" using assms(1) by (simp add: counted_def)
  have "sessions_ok (ns_mgr st')"
    using assms(2) s by (rule runs_induct) (auto intro: sessions_ok_do)
  then show ?thesis
    using assms(1) attached_runs [OF assms(2) s] known_runs [OF assms(2)] by (simp add: counted_def assms(3))
qed

lemma counted_attach:
  assumes "counted (st, cs)" "counters_ok (ns_mgr st)" "fst (Attach i (ns_mgr st)) = Inr k"
    "ns_mgr st' = snd (Attach i (ns_mgr st))"
  shows "counted (st', cs @ [Attached i k gen])"
proof -
  have s: "sessions_ok (ns_mgr st)" using assms(1) by (simp add: counted_def)
  have "sessions_ok (mgr_do js0 (OpAttach i) (ns_mgr st))" for js0
    by (rule sessions_ok_do [OF s op_enabled_Attach [OF assms(2)]])
  moreover have "known j (snd (Attach i (ns_mgr st)))" if "known j (ns_mgr st)" for j
    using known_do [OF that, of js0 "OpAttach i"] by simp
  moreover have "known i (snd (Attach i (ns_mgr st)))"
    using assms(3) by (auto simp: Attach_def known_def split: option.splits if_splits)
  ultimately show ?thesis
    using assms(1,4) attached_Attach [OF assms(3)] by (auto simp: counted_def clients_of_append)
qed

lemma counted_detach:
  assumes "counted (st, cs)" "c < length cs" "cs ! c = Attached i k gen" "runs js quiet (ns_mgr st) m"
    "ns_mgr st' = snd (Detach i m)"
  shows "counted (st', cs[c := Closed])"
proof -
  let ?s = "set_mgr m st"
  have m: "counted (?s, cs)" using assms(4) by (intro counted_runs_to [OF assms(1), where js = js]) simp_all
  have less: "clients_of j (cs[c := Closed]) + (if j = i then 1 else 0) = clients_of j cs" for j
    using clients_of_update [OF assms(2), of j Closed] by (auto simp: assms(3))
  then have "0 < clients_of i cs" by (metis add_gr_0 zero_less_one)
  then have i: "known i m" using m by (simp add: counted_def)
  have "sessions_ok (snd (Detach i m))" using m by (auto simp: counted_def intro: sessions_ok_Detach)
  moreover have "known j (snd (Detach i m))" if "known j m" for j
    using known_do [OF that, of js0 "OpDetach i"] by simp
  moreover have "attached_count j (snd (Detach i m)) = of_nat (clients_of j (cs[c := Closed]))" for j
  proof -
    have "attached_count j m = of_nat (clients_of j (cs[c := Closed]) + (if j = i then 1 else 0))"
      using m by (simp add: counted_def less)
    then show ?thesis using attached_Detach [of m i j] i by (simp add: known_def)
  qed
  moreover have "known j m" if "0 < clients_of j (cs[c := Closed])" for j
    using m that less [of j] by (auto simp: counted_def)
  ultimately show ?thesis using assms(5) by (simp add: counted_def)
qed

lemma node_run_counted:
  assumes "node_run js un pd st0 x" "counted (st0, [])"
  shows "counted x"
  using assms(1)
proof induction
  case start
  then show ?case by (rule assms(2))
next
  case (accepted st cs h req out lp st')
  from accepted(2,3) show ?case
  proof (cases rule: accepted_cases)
    case quietly
    then show ?thesis
      using counted_runs_to [OF accepted.IH, of js st' "cs @ [lp]"]
      by (simp add: steps_def clients_of_append not_attached_to)
  next
    case attached
    then show ?thesis using counted_attach [OF accepted.IH accepted(2)] by simp
  qed
next
  case (round st cs c now ev out lp st')
  from round(3) show ?case
  proof (cases rule: round_cases [where js = js])
    case quietly
    then have "clients_of i (cs[c := lp]) = clients_of i cs" for i
      using clients_of_update [OF round(2), of i lp] by (simp add: not_attached_to)
    with quietly show ?thesis using counted_runs_to [OF round.IH, of js st' "cs[c := lp]"] by (simp add: steps_def)
  next
    case again
    then have "clients_of i (cs[c := lp]) = clients_of i cs" for i
      using clients_of_update [OF round(2), of i lp] by (simp split: if_splits)
    with again show ?thesis using counted_runs_to [OF round.IH, of js st' "cs[c := lp]"] by (simp add: steps_def)
  next
    case ended
    then show ?thesis using counted_detach [OF round.IH round(2)] by simp
  qed
next
  case (timer st cs x)
  then show ?case by (simp add: counted_def)
next
  case (elsewhere st cs op st')
  then show ?case using counted_runs_to [OF elsewhere.IH, of js st' cs] op_runs [of op "ns_mgr st" js] by simp
qed

lemma counted_start: "counted (\<lparr>ns_node = n\<lparr>nd_Manager := start_manager file nameHook exitHook forward\<rparr>, ns_kv = kv\<rparr>, [])"
proof -
  let ?m = "start_manager file nameHook exitHook forward"
  have "sessions_ok ?m" using mgr_ok_start by (simp add: mgr_ok_def)
  moreover have "attached_count i ?m = 0" for i
    by (simp add: attached_count_def session_of_def start_manager_def NewSessionManager_def Let_def)
  ultimately show ?thesis by (simp add: counted_def clients_of_def)
qed

text \<open>From a fresh start, with the invariants.\<close>

lemma node_run_parts:
  assumes "node_run js un pd st0 (st, cs)"
    "ns_mgr st0 = start_manager file nameHook exitHook forward" "ns_kv st0 = NewKVStore"
  shows "mgr_reachable js (ns_mgr st0) (ns_mgr st)" "kv_reachable (ns_kv st)" "mgr_ok (ns_mgr st)"
    "kv_ok (ns_kv st)" "sessions_ok (ns_mgr st)"
proof -
  show r: "mgr_reachable js (ns_mgr st0) (ns_mgr st)" and k: "kv_reachable (ns_kv st)"
    using node_run_reachable [OF assms(1)] by (simp_all add: assms(3) kv_reachable.kv_start)
  show m: "mgr_ok (ns_mgr st)" by (rule mgr_reachable_ok [OF r]) (simp only: assms(2) mgr_ok_start)
  show "kv_ok (ns_kv st)" by (rule kv_reachable_ok [OF k])
  show "sessions_ok (ns_mgr st)" using m by (simp add: mgr_ok_def)
qed

text \<open>The counter, read as the signed number it is in the source.\<close>

lemma sint_count: "n < 2 ^ 31 \<Longrightarrow> sint (of_nat n :: 32 word) = int n"
  by transfer (simp add: signed_take_bit_int_eq_self)

end
