(* ===== verification/NodeLive.thy ===== *)
theory NodeLive
  imports NodeRun
begin

text \<open>
  Who is told that a session has ended. A wait is a subscription: once it is made, the event of
  the end stays in its channel until the connection takes it. An attached or watching client has
  no such queue: it looks at the status watcher's channel of the moment, and an end that falls
  between two looks is never announced.
\<close>

section \<open>A subscription is kept, and nothing in it is lost\<close>

definition inbox ::
  "uint64 \<Rightarrow> SessionManager \<Rightarrow> (uint32 option \<times> string list \<times> EventType list \<times> SessionEvent list) option" where
  "inbox k m = map_option (\<lambda>s. (sub_SessionID s, sub_Tags s, sub_EventTypes s, ch_items (sub_Ch s)))
     (mget (sm_subs (mgr_Subscriptions m)) k)"

definition keeps :: "uint64 \<Rightarrow> SessionManager \<Rightarrow> SessionManager \<Rightarrow> bool" where
  "keeps k m m' \<longleftrightarrow> (\<forall>i tags types xs. inbox k m = Some (i, tags, types, xs) \<longrightarrow>
     (\<exists>ys. inbox k m' = Some (i, tags, types, xs @ ys)))"

named_theorems keeps_intros

lemma keeps_same: "mgr_Subscriptions m' = mgr_Subscriptions m \<Longrightarrow> keeps k m m'"
  by (auto simp: keeps_def inbox_def intro: exI [of _ "[]"])

lemma keeps_trans: "keeps k m m1 \<Longrightarrow> keeps k m1 m2 \<Longrightarrow> keeps k m m2"
  unfolding keeps_def by (metis append.assoc)

lemma keeps_publish:
  "manager_ok (mgr_Subscriptions m) \<Longrightarrow> keeps k m (publish i tags e m)"
  by (cases "mget (sm_subs (mgr_Subscriptions m)) k")
    (auto simp: keeps_def inbox_def publish_def Publish_ok mget_map_value notify_def offer_def split: if_splits)

lemma manager_ok_publish:
  "manager_ok (mgr_Subscriptions m) \<Longrightarrow> manager_ok (mgr_Subscriptions (publish i tags e m))"
  by (auto simp: publish_def intro: manager_ok_Publish split: option.splits)

lemma subs_frame [simp]:
  "mgr_Subscriptions (run_exit_hook i m b n t) = mgr_Subscriptions m"
  "mgr_Subscriptions (log_message js e i m) = mgr_Subscriptions m"
  "mgr_Subscriptions (snd (SetName i name m)) = mgr_Subscriptions m"
  by (simp_all add: run_exit_hook_def log_message_def SetName_def rename_session_def Let_def split: option.splits)

lemma subs_Kill [simp]: "mgr_Subscriptions (snd (Kill i m)) = mgr_Subscriptions m"
  by (auto simp: Kill_def Let_def split: option.splits)

lemma subs_kill_all [simp]: "mgr_Subscriptions (kill_all ids m) = mgr_Subscriptions m"
  by (rule kill_all_induct [of "\<lambda>m'. mgr_Subscriptions m' = mgr_Subscriptions m"]) simp_all

lemma subs_RefreshStatuses [simp]: "mgr_Subscriptions (RefreshStatuses m) = mgr_Subscriptions m"
  by (simp add: RefreshStatuses_def Let_def)

lemma publish_subs: "mgr_Subscriptions m1 = mgr_Subscriptions m \<Longrightarrow>
    mgr_Subscriptions (publish i tags e m1) = mgr_Subscriptions (publish i tags e m)"
  by (simp add: publish_def split: option.splits)

text \<open>An operation's effect on the subscriptions: a number of publications.\<close>

inductive publishes :: "SessionManager \<Rightarrow> SessionManager \<Rightarrow> bool" for m0 :: SessionManager where
  no_event: "mgr_Subscriptions m = mgr_Subscriptions m0 \<Longrightarrow> publishes m0 m"
| event: "publishes m0 m \<Longrightarrow> mgr_Subscriptions m' = mgr_Subscriptions (publish i tags e m) \<Longrightarrow> publishes m0 m'"

lemma keeps_publishes:
  assumes "publishes m0 m" "manager_ok (mgr_Subscriptions m0)"
  shows "keeps k m0 m \<and> manager_ok (mgr_Subscriptions m)"
  using assms(1)
proof induction
  case (no_event m)
  then show ?case by (simp add: keeps_same assms(2))
next
  case (event m m' i tags e)
  then have "keeps k m m'" using keeps_publish [of m k i tags e] by (simp add: keeps_def inbox_def)
  with event show ?case by (auto intro: keeps_trans manager_ok_publish)
qed

lemma publishes_cong:
  assumes "mgr_Subscriptions m = mgr_Subscriptions m'"
  shows "publishes m0 m = publishes m0 m'"
proof -
  have "publishes m0 m2" if "publishes m0 m1" "mgr_Subscriptions m1 = mgr_Subscriptions m2" for m1 m2
    using that by cases (metis no_event, metis event)
  then show ?thesis using assms by metis
qed

fun subscribing :: "mgr_op \<Rightarrow> bool" where
  "subscribing (OpSubscribe sid tags types) = True"
| "subscribing (OpUnsubscribe k) = True"
| "subscribing (OpRecvEvent k) = True"
| "subscribing _ = False"

lemma publishes_refl [simp]: "publishes m m"
  by (simp add: no_event)

lemma publishes_frames [simp]:
  "publishes m0 (upd_session i f m) = publishes m0 m"
  "publishes m0 (emit ef m) = publishes m0 m"
  "publishes m0 (triggerPersist m) = publishes m0 m"
  "publishes m0 (releaseName i m) = publishes m0 m"
  "publishes m0 (run_exit_hook i m b n t) = publishes m0 m"
  "publishes m0 (log_message js e i m) = publishes m0 m"
  "publishes m0 (snd (SetName i name m)) = publishes m0 m"
  "publishes m0 (kill_all ids m) = publishes m0 m"
  "publishes m0 (RefreshStatuses m) = publishes m0 m"
  "publishes m0 (m\<lparr>mgr_pendingRequests := p\<rparr>) = publishes m0 m"
  "publishes m0 (m\<lparr>mgr_replyChs := c\<rparr>) = publishes m0 m"
  "publishes m0 (m\<lparr>mgr_PersistCh := b\<rparr>) = publishes m0 m"
  "publishes m0 (m\<lparr>mgr_panicked := b\<rparr>) = publishes m0 m"
  "publishes m0 (m\<lparr>mgr_sessions := ss\<rparr>) = publishes m0 m"
  "publishes m0 (m\<lparr>mgr_nextID := n'\<rparr>) = publishes m0 m"
  by (rule publishes_cong; simp)+

lemma publishes_publish [simp]: "publishes m0 m \<Longrightarrow> publishes m0 (publish i tags e m)"
  by (rule event) simp_all

lemma publishes_do:
  assumes "\<not> subscribing op"
  shows "publishes m (mgr_do js op m)"
  using assms
  by (cases op) (auto simp: Launch_def KillAll_def KillByTags_def Let_def SendInput_def SubscribeOutput_def Attach_def
      Detach_def UnsubscribeOutput_def recv_output_def ReportTask_def reader_chunk_def Kill_def
      reader_end_def writer_step_def stdin_inject_def process_exit_def sendMessageWithMetadata_def
      sendRequestWithMetadata_def register_request_def sendReplyWithMetadata_def CleanupRequest_def
      reply_commit_def send_on_def
      split: sum.splits option.splits prod.splits)

lemma keeps_subscribing:
  assumes "manager_ok (mgr_Subscriptions m)" "subscribing op" "op \<noteq> OpUnsubscribe k" "op \<noteq> OpRecvEvent k"
  shows "keeps k m (mgr_do js op m)"
proof -
  have fresh: "k \<noteq> sm_nextID (mgr_Subscriptions m)" if "mget (sm_subs (mgr_Subscriptions m)) k \<noteq> None"
    using assms(1) that by (auto simp: manager_ok_def mkeys_def mget_Some_iff image_iff)
  show ?thesis
    using assms(2-4) fresh
    by (cases op) (auto simp: keeps_def inbox_def Subscribe_def Unsubscribe_def Let_def mget_mput mget_mdel recv_event_def
        recv_sub_def mget_map_value mget_map_entry option.map_comp comp_def split: option.splits)
qed

lemma keeps_do:
  assumes "sessions_ok m" "op \<noteq> OpUnsubscribe k" "op \<noteq> OpRecvEvent k"
  shows "keeps k m (mgr_do js op m)"
proof -
  have "manager_ok (mgr_Subscriptions m)" using assms(1) by (simp add: sessions_ok_def)
  then show ?thesis
    using keeps_publishes [OF publishes_do] keeps_subscribing assms(2,3) by (cases "subscribing op") auto
qed

text \<open>A wait on one session: its subscription, whatever is in its channel.\<close>

definition awaited :: "uint64 \<Rightarrow> uint32 \<Rightarrow> SessionManager \<Rightarrow> bool" where
  "awaited k i m \<longleftrightarrow> (\<exists>xs. inbox k m = Some (Some i, [], [EventSessionStatus], xs))"

definition notified :: "uint64 \<Rightarrow> uint32 \<Rightarrow> SessionManager \<Rightarrow> bool" where
  "notified k i m \<longleftrightarrow> (\<exists>x xs. inbox k m = Some (Some i, [], [EventSessionStatus], x # xs))"

lemma notified_next: "notified k i m \<Longrightarrow> \<exists>se. next_event k (mgr_Subscriptions m) = Some se"
  by (auto simp: notified_def inbox_def next_event_def chan_head_def)

lemma keeps_awaited: "keeps k m m' \<Longrightarrow> awaited k i m \<Longrightarrow> awaited k i m'"
  unfolding keeps_def awaited_def by blast

lemma keeps_notified: "keeps k m m' \<Longrightarrow> notified k i m \<Longrightarrow> notified k i m'"
  unfolding keeps_def notified_def by (metis append_Cons)

lemma awaited_recv: "awaited k i m \<Longrightarrow> awaited k i (recv_event k m)"
  by (auto simp: awaited_def inbox_def recv_event_def recv_sub_def mget_map_entry)

lemma awaited_runs:
  assumes "runs js (\<lambda>op. op \<noteq> OpUnsubscribe k) m m'" "sessions_ok m" "awaited k i m"
  shows "sessions_ok m' \<and> awaited k i m'"
  using assms(1)
proof (induction rule: runs_induct)
  case refl
  then show ?case using assms by simp
next
  case (step op m)
  then show ?case
    using keeps_awaited [OF keeps_do] awaited_recv
    by (cases "op = OpRecvEvent k") (auto intro: sessions_ok_do sessions_ok_recv_event)
qed

lemma notified_runs:
  assumes "runs js (\<lambda>op. op \<noteq> OpUnsubscribe k \<and> op \<noteq> OpRecvEvent k) m m'" "sessions_ok m" "notified k i m"
  shows "sessions_ok m' \<and> notified k i m'"
  using assms(1)
proof (induction rule: runs_induct)
  case refl
  then show ?case using assms by simp
next
  case (step op m)
  then show ?case using keeps_notified [OF keeps_do] by (auto intro: sessions_ok_do)
qed

section \<open>A session that has ended stays ended\<close>

definition watcher_of :: "uint32 \<Rightarrow> SessionManager \<Rightarrow> StatusWatcher option" where
  "watcher_of i m = map_option sess_statusWatcher (session_of m i)"

definition ended :: "uint32 \<Rightarrow> SessionManager \<Rightarrow> bool" where
  "ended i m \<longleftrightarrow> (case watcher_of i m of None \<Rightarrow> False | Some w \<Rightarrow> StatusWatcher_Get w \<noteq> Running)"

fun ending :: "mgr_op \<Rightarrow> bool" where
  "ending (OpKill i) = True"
| "ending OpKillAll = True"
| "ending (OpKillByTags tags) = True"
| "ending (OpProcessExit i code now) = True"
| "ending _ = False"

lemma watcher_upd:
  assumes "\<And>s. sess_statusWatcher (f s) = sess_statusWatcher s"
  shows "watcher_of j (upd_session i f m) = watcher_of j m"
  using assms by (simp add: watcher_of_def option.map_comp comp_def)

lemma watcher_frame [simp]:
  "watcher_of j (publish i t e m) = watcher_of j m"
  "watcher_of j (emit ef m) = watcher_of j m"
  "watcher_of j (triggerPersist m) = watcher_of j m"
  "watcher_of j (releaseName i m) = watcher_of j m"
  "watcher_of j (run_exit_hook i m b n t) = watcher_of j m"
  by (simp_all add: watcher_of_def run_exit_hook_def)

lemma watcher_records [simp]:
  "watcher_of j (m\<lparr>mgr_Subscriptions := s\<rparr>) = watcher_of j m"
  "watcher_of j (m\<lparr>mgr_pendingRequests := p\<rparr>) = watcher_of j m"
  "watcher_of j (m\<lparr>mgr_replyChs := c\<rparr>) = watcher_of j m"
  "watcher_of j (m\<lparr>mgr_PersistCh := b\<rparr>) = watcher_of j m"
  "watcher_of j (m\<lparr>mgr_nameIndex := x\<rparr>) = watcher_of j m"
  "watcher_of j (m\<lparr>mgr_panicked := b\<rparr>) = watcher_of j m"
  by (simp_all add: watcher_of_def session_of_def)

lemma statusWatcher_frame [simp]:
  "sess_statusWatcher (refresh s) = sess_statusWatcher s"
  "sess_statusWatcher (respond_queries d s) = sess_statusWatcher s"
  "sess_statusWatcher (log_output w d s) = sess_statusWatcher s"
  "sess_statusWatcher (write_input ok s) = sess_statusWatcher s"
  by (simp_all add: refresh_def respond_queries_def log_output_def write_input_def Let_def
      split: option.splits prod.splits list.splits)

lemma statusWatcher_read_chunk [simp]: "sess_statusWatcher (read_chunk d w now s) = sess_statusWatcher s"
  by (simp add: read_chunk_def track_output_def Let_def)

lemma watcher_log_message [simp]: "watcher_of j (log_message js e i m) = watcher_of j m"
  unfolding log_message_def by (rule watcher_upd) simp

lemma watcher_rename [simp]: "watcher_of j (snd (SetName i name m)) = watcher_of j m"
  by (cases rule: SetName_result [of i name m]) (simp_all add: rename_session_def Let_def watcher_upd)

lemma watcher_RefreshStatuses [simp]: "watcher_of j (RefreshStatuses m) = watcher_of j m"
proof -
  have "watcher_of j (m\<lparr>mgr_sessions := map (\<lambda>(k, s). (k, refresh s)) (mgr_sessions m)\<rparr>) = watcher_of j m"
    by (simp add: watcher_of_def session_of_def mget_map_value option.map_comp comp_def)
  then show ?thesis by (simp add: RefreshStatuses_def Let_def)
qed

lemma watcher_commit [simp]: "watcher_of j (snd (reply_commit js now eff fname req body logs m)) = watcher_of j m"
  by (simp add: reply_commit_def Let_def send_on_def split: option.splits)

lemma watcher_Launch:
  assumes "sessions_ok m" "known j m"
  shows "watcher_of j (snd (Launch js os command dir env name tags now m)) = watcher_of j m"
proof -
  have "j \<noteq> mgr_nextID m"
    using fresh_id [OF assms(1)] assms(2) by (auto simp: known_def session_of_def)
  then show ?thesis
    by (auto simp: Launch_def Let_def watcher_upd split: option.splits)
      (auto simp: watcher_of_def session_of_def mget_mput emit_def)
qed

lemma watcher_do:
  assumes "\<not> ending op" "sessions_ok m" "known j m"
  shows "watcher_of j (mgr_do js op m) = watcher_of j m"
  using assms
  by (cases op) (auto simp: watcher_Launch Let_def SendInput_def SubscribeOutput_def Attach_def
      Detach_def UnsubscribeOutput_def recv_output_def recv_event_def ReportTask_def reader_chunk_def
      reader_end_def writer_step_def stdin_inject_def sendMessageWithMetadata_def
      sendRequestWithMetadata_def register_request_def sendReplyWithMetadata_def CleanupRequest_def
      watcher_upd split: sum.splits option.splits prod.splits)

text \<open>And the steps that end sessions leave no ended session running.\<close>

lemma ended_upd_set:
  "st \<noteq> Running \<Longrightarrow> ended j m \<Longrightarrow>
   ended j (upd_session i (\<lambda>s. s\<lparr>sess_statusWatcher := StatusWatcher_Set st (sess_statusWatcher s)\<rparr>) m)"
  by (auto simp: ended_def watcher_of_def StatusWatcher_Get_def StatusWatcher_Set_def split: option.splits)

lemma ended_watcher: "watcher_of j m' = watcher_of j m \<Longrightarrow> ended j m' = ended j m"
  by (simp add: ended_def)

lemma ended_Kill: "ended j m \<Longrightarrow> ended j (snd (Kill i m))"
proof (cases "session_of m i")
  case (Some s)
  assume "ended j m"
  then have "ended j (upd_session i (\<lambda>s. s\<lparr>sess_statusWatcher := StatusWatcher_Set Killed (sess_statusWatcher s)\<rparr>) m)"
    by (intro ended_upd_set) simp_all
  then show ?thesis
    using Some by (auto simp: Kill_def Let_def ended_def watcher_upd split: option.splits)
qed (simp add: Kill_def)

lemma ended_kill_all: "ended j m \<Longrightarrow> ended j (kill_all ids m)"
  by (rule kill_all_induct [of "\<lambda>m'. ended j m'"]) (simp_all add: ended_Kill)

lemma statusWatcher_record_exit [simp]:
  "sess_statusWatcher (record_exit c now s) = StatusWatcher_Set (Completed c) (sess_statusWatcher s)"
  by (simp add: record_exit_def Let_def)

lemma watcher_exit:
  "watcher_of j (process_exit js i c now m) =
     (if j = i then map_option (StatusWatcher_Set (Completed c)) (watcher_of j m) else watcher_of j m)"
proof (cases "session_of m i")
  case (Some s)
  have "watcher_of j (upd_session i (record_exit c now) m) =
      (if j = i then map_option (StatusWatcher_Set (Completed c)) (watcher_of j m) else watcher_of j m)"
    by (simp add: watcher_of_def option.map_comp comp_def)
  then show ?thesis using Some by (simp add: process_exit_def Let_def watcher_upd)
qed (simp add: process_exit_def watcher_of_def)

lemma ended_exit: "known i m \<Longrightarrow> ended i (process_exit js i c now m)"
proof -
  assume "known i m"
  then obtain w where "watcher_of i m = Some w" by (auto simp: known_def watcher_of_def)
  then show ?thesis by (simp add: ended_def watcher_exit StatusWatcher_Get_def StatusWatcher_Set_def)
qed

lemma ended_known: "ended j m \<Longrightarrow> known j m"
  by (auto simp: ended_def known_def watcher_of_def split: option.splits)

lemma ended_do:
  assumes "ended j m" "sessions_ok m"
  shows "ended j (mgr_do js op m)"
proof (cases "ending op")
  case True
  have "ended j (process_exit js i c now m)" for i c now
    using assms(1) ended_exit [OF ended_known [OF assms(1)]] by (cases "j = i") (auto simp: ended_def watcher_exit)
  with True show ?thesis
    by (cases op) (auto simp: assms(1) ended_Kill ended_kill_all KillAll_def KillByTags_def Let_def)
next
  case False
  then show ?thesis
    using watcher_do [OF False assms(2) ended_known [OF assms(1)]] assms(1) by (simp add: ended_def)
qed

lemma ended_runs:
  assumes "runs js P m m'" "sessions_ok m" "ended j m"
  shows "ended j m'"
proof -
  have "sessions_ok m' \<and> ended j m'"
    using assms(1) by (induction rule: runs_induct) (auto simp: assms intro: sessions_ok_do ended_do)
  then show ?thesis by simp
qed

section \<open>The end of a process reaches every wait for its session\<close>

lemma publish_notifies:
  assumes "manager_ok (mgr_Subscriptions m)" "awaited k i m" "ev_Type e = EventSessionStatus"
  shows "notified k i (publish i tags e m)"
proof -
  obtain s where s: "mget (sm_subs (mgr_Subscriptions m)) k = Some s"
      "sub_SessionID s = Some i" "sub_Tags s = []" "sub_EventTypes s = [EventSessionStatus]"
    using assms(2) by (auto simp: awaited_def inbox_def)
  then have "(k, s) \<in> set (sm_subs (mgr_Subscriptions m))"
    using assms(1) by (simp add: manager_ok_def mget_Some_iff)
  then have "ch_cap (sub_Ch s) = 256" using assms(1) by (auto simp: manager_ok_def list_all_iff sub_ok_def)
  moreover have "sub_matches s i tags (ev_Type e)" by (simp add: sub_matches_iff s assms(3))
  ultimately have "ch_items (sub_Ch (notify i tags e s)) \<noteq> []"
    by (auto simp: notify_def offer_def)
  then obtain x xs where "ch_items (sub_Ch (notify i tags e s)) = x # xs" by (auto simp: neq_Nil_conv)
  moreover have "sub_SessionID (notify i tags e s) = Some i" "sub_Tags (notify i tags e s) = []"
      "sub_EventTypes (notify i tags e s) = [EventSessionStatus]"
    by (simp_all add: notify_def s)
  ultimately show ?thesis
    using s(1) by (simp add: notified_def inbox_def publish_def Publish_ok [OF assms(1)] mget_map_value)
qed

lemma inbox_subs: "mgr_Subscriptions m' = mgr_Subscriptions m \<Longrightarrow> inbox k m' = inbox k m"
  by (simp add: inbox_def)

lemma exit_notifies:
  assumes "sessions_ok m" "awaited k i m" "known i m"
  shows "notified k i (process_exit js i c now m)"
proof -
  obtain s where s: "session_of m i = Some s" using assms(3) by (auto simp: known_def)
  let ?e = "NewSessionStatusEvent now ''running'' ''completed'' (Some c)
      (Some (milliseconds (now - meta_CreatedAt (sess_Meta s))))"
  have "notified k i (publish i (meta_Tags (sess_Meta s)) ?e m)"
    using assms(1) by (intro publish_notifies assms(2)) (simp_all add: sessions_ok_def NewSessionStatusEvent_def)
  moreover have "mgr_Subscriptions (process_exit js i c now m) =
      mgr_Subscriptions (publish i (meta_Tags (sess_Meta s)) ?e m)"
    by (simp add: process_exit_def s Let_def) (rule publish_subs, simp)
  ultimately show ?thesis by (simp add: notified_def inbox_def)
qed

section \<open>What a woken wait answers\<close>

lemma is_ended_iff: "is_ended (SessionStatus_String st) \<longleftrightarrow> st \<noteq> Running"
proof (cases st)
  case Running
  have "\<not> sublist ''completed'' ''running''" "\<not> sublist ''killed'' ''running''" by code_simp+
  then show ?thesis by (simp add: Running is_ended_def SessionStatus_String_def str_contains_def)
next
  case (Completed c)
  have "sublist ''completed'' (''completed'' @ '' ('' @ show_int c @ '')'')" by (rule sublist_append_rightI)
  then show ?thesis by (simp add: Completed is_ended_def SessionStatus_String_def str_contains_def)
next
  case Killed
  then show ?thesis by (simp add: is_ended_def SessionStatus_String_def str_contains_def)
qed

lemma wait_check_ended:
  assumes "q_ID req = Some i" "ended i m" "sessions_ok m"
  obtains info where "wait_check now req m = Some [info]" "si_ID info = i" "is_ended (si_Status info)"
proof -
  obtain s where s: "session_of m i = Some s" "StatusWatcher_Get (sess_statusWatcher s) \<noteq> Running"
    using assms(2) by (auto simp: ended_def watcher_of_def split: option.splits)
  have "meta_ID (sess_Meta s) = i" using sessions_ok_of [OF assms(3) s(1)] by (simp add: sess_ok_def)
  then have "\<exists>info out. GetStatus now i False m = Inr (info, out) \<and> si_ID info = i \<and> is_ended (si_Status info)"
    using s by (auto simp: GetStatus_def Let_def buildSessionInfo_def is_ended_iff split: option.splits)
  then show thesis using assms(1) by (auto simp: wait_check_def Let_def intro: that)
qed

lemma wait_registered:
  assumes "handleWait h req st = (out, Awaiting k req', st1)" "q_ID req = Some i" "q_Tags req = []"
    "sessions_ok (ns_mgr st)" "counters_ok (ns_mgr st)"
  shows "out = [] \<and> req' = req \<and> ns_mgr st1 = mgr_do js (OpSubscribe (Some i) [] [EventSessionStatus]) (ns_mgr st) \<and>
    sessions_ok (ns_mgr st1) \<and> awaited k i (ns_mgr st1)"
proof -
  let ?m = "mgr_do js (OpSubscribe (Some i) [] [EventSessionStatus]) (ns_mgr st)"
  have r: "out = [] \<and> req' = req \<and> k = sm_nextID (mgr_Subscriptions (ns_mgr st)) \<and> ns_mgr st1 = ?m"
    using assms(1-3)
    by (auto simp: handleWait_def subscribe_mgr_def Let_def Subscribe_def reply_now_def split: option.splits)
  have "sessions_ok ?m"
    by (rule sessions_ok_do [OF assms(4)]) (use assms(5) in \<open>simp add: counters_ok_def\<close>)
  moreover have "awaited (sm_nextID (mgr_Subscriptions (ns_mgr st))) i ?m"
    by (simp add: awaited_def inbox_def Subscribe_def Let_def)
  ultimately show ?thesis using r by simp
qed

lemma ended_recv: "ended i (recv_event k m) = ended i m"
  by (simp add: ended_def recv_event_def)

lemma wait_woken:
  assumes "sessions_ok (ns_mgr st)" "notified k i (ns_mgr st)" "ended i (ns_mgr st)" "q_ID req = Some i"
  obtains info where
    "wait_step now k req EventReady st =
       Some (reply_now (wait_result [info]) (set_mgr (unsubscribe_mgr k (recv_event k (ns_mgr st))) st))"
    "si_ID info = i" "is_ended (si_Status info)"
proof -
  obtain se where e: "next_event k (mgr_Subscriptions (ns_mgr st)) = Some se"
    using notified_next [OF assms(2)] by blast
  obtain info where "wait_check now req (recv_event k (ns_mgr st)) = Some [info]" "si_ID info = i"
      "is_ended (si_Status info)"
    using wait_check_ended [of req i "recv_event k (ns_mgr st)" now] assms sessions_ok_recv_event
    by (auto simp: ended_recv)
  then show thesis using e by (intro that) (simp_all add: wait_step_def Let_def)
qed

section \<open>The end of a session, seen by its clients\<close>

lemma generation_now: "session_generation i m = (case watcher_of i m of None \<Rightarrow> 0 | Some w \<Rightarrow> StatusWatcher_Changed w)"
  by (simp add: session_generation_def SubscribeStatus_def watcher_of_def split: option.splits)

lemma status_changed_watcher:
  "status_changed i gen m = (case watcher_of i m of None \<Rightarrow> None
     | Some w \<Rightarrow> if wait_closed gen w then Some (StatusWatcher_Get w) else None)"
  by (simp add: status_changed_def watcher_of_def split: option.splits)

lemma watcher_runs:
  assumes "runs js (\<lambda>op. \<not> ending op) m m'" "sessions_ok m" "known i m"
  shows "watcher_of i m' = watcher_of i m"
proof -
  have "sessions_ok m' \<and> known i m' \<and> watcher_of i m' = watcher_of i m"
    using assms(1)
    by (induction rule: runs_induct) (auto simp: assms watcher_do intro: sessions_ok_do known_do)
  then show ?thesis by simp
qed

text \<open>What happened before the client looked at the watcher is not seen.\<close>

lemma past_change_unseen:
  assumes "runs js (\<lambda>op. \<not> ending op) m m'" "sessions_ok m" "known i m"
  shows "status_changed i (session_generation i m) m' = None"
  by (simp add: status_changed_watcher generation_now watcher_runs [OF assms] watcher_wakes(1) split: option.splits)

lemma output_round:
  assumes "loop_step now lp (OutputReady True) st = Some (out, lp', st')" "sessions_ok (ns_mgr st)"
  obtains i k where "lp' = Attached i k (session_generation i (ns_mgr st')) \<or>
      lp' = Watching i k (session_generation i (ns_mgr st'))"
    "known i (ns_mgr st')" "sessions_ok (ns_mgr st')" "watcher_of i (ns_mgr st') = watcher_of i (ns_mgr st)"
    "\<exists>gen. lp \<in> {Attached i k gen, Watching i k gen}"
proof -
  have known: "known i m" if "next_output i k m = Some d" for i k m d
    using that by (auto simp: next_output_def known_def split: option.splits)
  have w: "watcher_of i (recv_output j k m) = watcher_of i m" for i j k m
    by (simp add: recv_output_def watcher_upd)
  show thesis
    using assms
    by (cases lp) (auto simp: loop_step_def handleAttachSession_def watch_step_def attach_again_def watch_again_def Let_def
        stream_step_def listen_step_def wait_step_def request_step_def follow_step_def recv_output_def watcher_upd
        dest!: known intro!: that sessions_ok_recv_output [unfolded recv_output_def])
qed

text \<open>So an end that comes before the output is taken is never announced.\<close>

lemma end_unseen:
  assumes "loop_step now lp (OutputReady True) st = Some (out, lp', st')" "sessions_ok (ns_mgr st)"
    "runs js (\<lambda>op. \<not> ending op) (ns_mgr st') (ns_mgr st2)"
  shows "loop_step now2 lp' StatusChanged st2 = None"
proof -
  obtain i k where l: "lp' = Attached i k (session_generation i (ns_mgr st')) \<or>
      lp' = Watching i k (session_generation i (ns_mgr st'))" "known i (ns_mgr st')" "sessions_ok (ns_mgr st')"
    by (rule output_round [OF assms(1,2)])
  have "status_changed i (session_generation i (ns_mgr st')) (ns_mgr st2) = None"
    by (rule past_change_unseen [OF assms(3) l(3,2)])
  then show ?thesis using l(1) by (auto simp: loop_step_def handleAttachSession_def watch_step_def)
qed

section \<open>When a request panics the node\<close>

definition logged :: "uint32 \<Rightarrow> SessionManager \<Rightarrow> bool" where
  "logged i m \<longleftrightarrow> (\<exists>s c. session_of m i = Some s \<and> sess_log s = Some c \<and> c \<noteq> [])"

definition negative_lines :: "uint64 option \<Rightarrow> bool" where
  "negative_lines n \<longleftrightarrow> (\<exists>c. n = Some c \<and> sint c < 0)"

lemma tail_lines_None: "tail_lines n d = None \<longleftrightarrow> negative_lines n"
  by (auto simp: tail_lines_def negative_lines_def Let_def split: option.splits)

lemma replayHistory_None: "replayHistory f n b = None \<longleftrightarrow> (\<exists>c. f = Some c \<and> c \<noteq> []) \<and> negative_lines n"
  by (cases f) (auto simp: replayHistory_def tail_lines_None Let_def option.case_eq_if)

lemma watch_history_None: "watch_history f n = None \<longleftrightarrow> (\<exists>c. f = Some c \<and> c \<noteq> []) \<and> negative_lines n"
  by (cases f) (auto simp: watch_history_def tail_lines_None Let_def)

lemma LogFile_logged: "(\<exists>f c. LogFile i m = Inr f \<and> f = Some c \<and> c \<noteq> []) \<longleftrightarrow> logged i m"
  by (auto simp: LogFile_def logged_def split: option.splits)

lemma serve_logs_None:
  "serve_logs req st = None \<longleftrightarrow> (\<exists>i. q_ID req = Some i \<and> logged i (ns_mgr st)) \<and> negative_lines (q_Tail req)"
  by (auto simp: serve_logs_def handleLogs_def Let_def tail_lines_None LogFile_def logged_def negative_lines_def
      split: option.splits if_splits)

definition wants_history :: "Request \<Rightarrow> bool" where
  "wants_history req \<longleftrightarrow> q_IncludeHistory req \<noteq> Some False"

lemma logged_Attach: "logged i (snd (Attach j m)) = logged i m"
  by (auto simp: logged_def Attach_def split: option.splits)

lemma logged_SubscribeOutput: "logged i (snd (SubscribeOutput j m)) = logged i m"
  by (auto simp: logged_def SubscribeOutput_def split: option.splits)

lemma history_None:
  "(case LogFile i m of Inl err \<Rightarrow> Some [] | Inr file \<Rightarrow> replayHistory file n b) = None \<longleftrightarrow> logged i m \<and> negative_lines n"
  "(case LogFile i m of Inl err \<Rightarrow> Some [] | Inr file \<Rightarrow> watch_history file n) = None \<longleftrightarrow> logged i m \<and> negative_lines n"
  by (auto simp: LogFile_def logged_def replayHistory_None watch_history_None split: sum.splits option.splits)

lemma serve_attach_None:
  "serve_attach req st = None \<longleftrightarrow>
     (\<exists>i k. q_ID req = Some i \<and> fst (Attach i (ns_mgr st)) = Inr k \<and> logged i (ns_mgr st)) \<and>
     wants_history req \<and> negative_lines (q_HistoryLines req)"
proof (cases "q_ID req")
  case (Some i)
  obtain r m1 where a: "Attach i (ns_mgr st) = (r, m1)" by fastforce
  then have "logged i m1 = logged i (ns_mgr st)" using logged_Attach [of i i "ns_mgr st"] by simp
  then show ?thesis
    using a Some history_None(1) [where i = i and m = m1 and n = "q_HistoryLines req" and b = True]
    by (cases r) (auto simp: serve_attach_def wants_history_def Let_def split: option.splits)
qed (simp add: serve_attach_def)

lemma serve_watch_None:
  "serve_watch req st = None \<longleftrightarrow>
     (\<exists>i. q_ID req = Some i \<and> logged i (ns_mgr st)) \<and> wants_history req \<and> negative_lines (q_HistoryLines req)"
proof (cases "q_ID req")
  case (Some i)
  obtain r m1 where a: "SubscribeOutput i (ns_mgr st) = (r, m1)" by fastforce
  then have l: "logged i m1 = logged i (ns_mgr st)" using logged_SubscribeOutput [of i i "ns_mgr st"] by simp
  have "\<not> logged i (ns_mgr st)" if "r = Inl err" for err
    using a that by (auto simp: SubscribeOutput_def logged_def split: option.splits)
  then show ?thesis
    using a l Some history_None(2) [where i = i and m = m1 and n = "q_HistoryLines req"]
    by (cases r) (auto simp: serve_watch_def handleWatchSession_def wants_history_def Let_def split: option.splits)
qed (simp add: serve_watch_def)

lemma handleClient_None:
  "handleClient js un parse_duration h req st = None \<longleftrightarrow>
     (q_Type req = ''Logs'' \<and> serve_logs req st = None) \<or>
     (q_Type req = ''Attach'' \<and> serve_attach req st = None) \<or>
     (q_Type req = ''WatchSession'' \<and> serve_watch req st = None)"
proof -
  consider "q_Type req = ''Logs''" | "q_Type req = ''Attach''" | "q_Type req = ''WatchSession''"
    | "q_Type req \<notin> {''Logs'', ''Attach'', ''WatchSession''}" by blast
  then show ?thesis
  proof cases
    case 4
    then have "handleClient js un parse_duration h req st \<noteq> None"
      unfolding handleClient_def Let_def by (simp del: not_None_eq)
    with 4 show ?thesis by simp
  qed (simp_all add: handleClient_def)
qed

end
