(* ===== verification/NodeDemo.thy ===== *)
theory NodeDemo
  imports NodeLive PeerFacts
begin

text \<open>
  A concrete node: \<open>Launch\<close> starts session 1, one client attaches to it, another waits for it,
  the process writes a line and exits. The states of this run are the inputs at which the
  properties of the node are checked to apply.
\<close>

definition demo_js :: "Event \<Rightarrow> bytes option" where
  "demo_js = (\<lambda>e. Some ''{}'')"

definition demo_call :: "string \<Rightarrow> Request" where
  "demo_call ty =
     \<lparr>q_Type = ty, q_Command = [''sh''], q_WorkingDir = ''/tmp'', q_ID = Some 1, q_IncludeHistory = None,
      q_HistoryLines = None, q_Follow = None, q_Tail = None, q_Data = [], q_Name = ''web'', q_Env = [],
      q_StripANSI = None, q_Tags = [''group:web''], q_EventTypes = [], q_Condition = [], q_TimeoutSeconds = None,
      q_Full = None, q_Namespace = [], q_Key = [], q_Value = None, q_TTL = [], q_ToID = None, q_ToName = [],
      q_Body = [], q_RequestID = [], q_ReplyToken = [], q_Delivery = [], q_Verb = [], q_AudienceNode = [],
      q_Summary = [], q_State = []\<rparr>"

definition demo_hi :: handler_inputs where
  "demo_hi = \<lparr>hi_now = 0, hi_os = demo_os, hi_messageID = ''msg_1'', hi_eventID = ''evt_1'', hi_requestID = ''req_1'',
     hi_replyToken = ''rpl_1'', hi_bindings = None, hi_issued = None\<rparr>"

definition demo_ns :: "SessionManager \<Rightarrow> NodeState" where
  "demo_ns m = \<lparr>ns_node = demo_node m, ns_kv = NewKVStore\<rparr>"

lemma demo_ns_simps [simp]:
  "ns_mgr (demo_ns m) = m" "ns_kv (demo_ns m) = NewKVStore" "set_mgr m' (demo_ns m) = demo_ns m'"
  by (simp_all add: demo_ns_def set_mgr_def demo_node_def)

lemma demo_launched:
  "handleClient demo_js un pd demo_hi (demo_call ''Launch'') (demo_ns demo_start) =
     Some ([SendResponse ((response ''Launched'')\<lparr>rs_ID := Some 1\<rparr>)], Closed, demo_ns demo_named)"
proof -
  have l: "Launch demo_js demo_os [''sh''] ''/tmp'' [] ''web'' [''group:web''] 0 demo_start = (Inr 1, demo_manager)"
  proof -
    let ?l = "Launch demo_js demo_os [''sh''] ''/tmp'' [] ''web'' [''group:web''] 0 demo_start"
    have "fst ?l = Inr 1"
      by (subst Launch_result(1)) (simp_all add: demo_os_def demo_start_def start_manager_def NewSessionManager_def)
    moreover have "snd ?l = demo_manager"
      by (simp add: demo_manager_def demo_launch_def demo_js_def)
    ultimately show ?thesis by (metis prod.collapse)
  qed
  have "serve_launch demo_js demo_hi (demo_call ''Launch'') (demo_ns demo_start) =
      ([SendResponse ((response ''Launched'')\<lparr>rs_ID := Some 1\<rparr>)], Closed, demo_ns demo_named)"
    using l by (simp add: serve_launch_def demo_call_def demo_hi_def demo_rename demo_named_def reply_now_def)
  then show ?thesis by (simp add: handleClient_def demo_call_def)
qed

definition demo_sess :: Session where
  "demo_sess = (let s = snd (append_event demo_js (NewSessionCreatedEvent 0 [''sh''] ''/tmp'' [''group:web''])
     (new_session demo_os 1 [''sh''] ''/tmp'' [''group:web''] (Some 42) 0))
     in s\<lparr>sess_Meta := (sess_Meta s)\<lparr>meta_Name := ''web''\<rparr>\<rparr>)"

lemma demo_named_sessions: "session_of demo_named j = (if j = 1 then Some demo_sess else None)"
proof -
  have "session_of demo_manager j = None" if "j \<noteq> 1"
    unfolding demo_manager_def demo_launch_def mgr_do.simps using that
    by (subst Launch_result(4))
      (simp_all add: demo_os_def demo_start_def start_manager_def NewSessionManager_def session_of_def)
  moreover have "session_of (rename_session 1 ''web'' [] demo_manager) j =
      session_of (upd_session 1 (\<lambda>s. s\<lparr>sess_Meta := (sess_Meta s)\<lparr>meta_Name := ''web''\<rparr>\<rparr>) demo_manager) j"
    by (simp add: rename_session_def Let_def session_of_def triggerPersist_def)
  ultimately show ?thesis
    using demo_session by (simp add: demo_named_def demo_rename demo_sess_def demo_js_def Let_def)
qed

lemma demo_sess_fields [simp]:
  "sess_statusWatcher demo_sess = NewStatusWatcher Running" "sess_broadcaster demo_sess = NewBroadcaster"
  "sess_log demo_sess = Some []" "sess_attachedCount demo_sess = 0" "sess_reader demo_sess"
  by (simp_all add: demo_sess_def new_session_def demo_os_def Let_def append_event_def)

lemma demo_subscriptions: "mgr_Subscriptions demo_named = NewSubscriptionManager"
  by (simp add: demo_named_def demo_rename rename_session_def Let_def demo_manager_def demo_launch_def Launch_def demo_os_def
      demo_start_def start_manager_def NewSessionManager_def publish_def Publish_def NewSubscriptionManager_def)

lemma demo_counters: "counters_ok demo_start" "counters_ok demo_named"
proof -
  show "counters_ok demo_start"
    by (simp add: counters_ok_def demo_start_def start_manager_def NewSessionManager_def NewSubscriptionManager_def
        session_of_def)
  have "mgr_nextID demo_named = 2"
    by (simp add: demo_named_def demo_rename rename_session_def Let_def demo_fields)
  then show "counters_ok demo_named"
    by (simp add: counters_ok_def demo_subscriptions demo_named_sessions NewSubscriptionManager_def NewBroadcaster_def)
qed

lemma demo_run_launched: "node_run demo_js un pd (demo_ns demo_start) (demo_ns demo_named, [Closed])"
proof -
  have "counters_ok (ns_mgr (demo_ns demo_start))" by (simp add: demo_counters)
  from node_run.accepted [OF node_run.start this demo_launched] show ?thesis by simp
qed

text \<open>A client attaches.\<close>

definition demo_attached :: SessionManager where
  "demo_attached = snd (Attach 1 demo_named)"

lemma demo_running: "is_running demo_sess"
  by (simp add: is_running_def StatusWatcher_Get_def NewStatusWatcher_def)

lemma demo_Attach: "Attach 1 demo_named = (Inr 0, demo_attached)"
  by (simp add: demo_attached_def Attach_def demo_named_sessions demo_running Broadcaster_Subscribe_def NewBroadcaster_def
      Let_def)

lemma demo_attached_session:
  "session_of demo_attached 1 = Some (demo_sess\<lparr>sess_attachedCount := 1,
     sess_broadcaster := snd (Broadcaster_Subscribe 4096 NewBroadcaster)\<rparr>)"
  by (simp add: demo_attached_def Attach_def demo_named_sessions demo_running)

lemma demo_attach_served:
  "handleClient demo_js un pd demo_hi (demo_call ''Attach'') (demo_ns demo_named) =
     Some ([SendResponse ((response ''Attached'')\<lparr>rs_ID := Some 1\<rparr>)], Attached 1 0 0, demo_ns demo_attached)"
proof -
  have "LogFile 1 demo_attached = Inr (Some [])" "session_generation 1 demo_attached = 0"
    by (simp_all add: LogFile_def session_generation_def SubscribeStatus_def demo_attached_session
        StatusWatcher_Changed_def NewStatusWatcher_def)
  then have "serve_attach (demo_call ''Attach'') (demo_ns demo_named) =
      Some ([SendResponse ((response ''Attached'')\<lparr>rs_ID := Some 1\<rparr>)], Attached 1 0 0, demo_ns demo_attached)"
    by (simp add: serve_attach_def demo_call_def demo_Attach replayHistory_def)
  then show ?thesis by (simp add: handleClient_def demo_call_def)
qed

lemma demo_run_attached:
  "node_run demo_js un pd (demo_ns demo_start) (demo_ns demo_attached, [Closed, Attached 1 0 0])"
proof -
  have "counters_ok (ns_mgr (demo_ns demo_named))" by (simp add: demo_counters)
  from node_run.accepted [OF demo_run_launched this demo_attach_served] show ?thesis by simp
qed

text \<open>A line of output is waiting for it when the process exits.\<close>

definition demo_output :: SessionManager where
  "demo_output = reader_chunk 1 ''ok'' 2 5 demo_attached"

definition demo_exited :: SessionManager where
  "demo_exited = process_exit demo_js 1 0 9 demo_output"

lemma demo_run_exited:
  "node_run demo_js un pd (demo_ns demo_start) (demo_ns demo_exited, [Closed, Attached 1 0 0])"
proof -
  have "node_run demo_js un pd (demo_ns demo_start) (demo_ns demo_output, [Closed, Attached 1 0 0])"
    by (rule node_run.elsewhere [OF demo_run_attached, where op = "OpReaderChunk 1 ''ok'' 2 5"])
      (simp_all add: demo_output_def)
  then show ?thesis
    by (rule node_run.elsewhere [where op = "OpProcessExit 1 0 9"]) (simp_all add: demo_exited_def)
qed

lemma demo_output_session:
  "session_of demo_output 1 = Some (read_chunk ''ok'' 2 5 (demo_sess\<lparr>sess_attachedCount := 1,
     sess_broadcaster := snd (Broadcaster_Subscribe 4096 NewBroadcaster)\<rparr>))"
  by (simp add: demo_output_def reader_chunk_def demo_attached_session send_panics_def Broadcaster_Send_def
      Broadcaster_Subscribe_def NewBroadcaster_def Let_def try_send_def make_chan_def mput_def)

lemma demo_output_next: "next_output 1 0 demo_exited = Some ''ok''"
  using demo_output_session
  by (simp add: next_output_def demo_exited_def process_exit_def run_exit_hook_def Let_def read_chunk_def track_output_def
      Broadcaster_Send_def Broadcaster_Subscribe_def NewBroadcaster_def try_send_def make_chan_def mput_def
      Broadcaster_next_def mget_def chan_head_def)

lemma demo_exit_ready: "loop_step 9 (Attached 1 0 0) StatusChanged (demo_ns demo_exited) \<noteq> None"
proof -
  have "watcher_of 1 demo_output = Some (NewStatusWatcher Running)"
    by (simp add: demo_output_session watcher_of_def)
  then have "watcher_of 1 demo_exited = Some (StatusWatcher_Set (Completed 0) (NewStatusWatcher Running))"
    by (simp add: demo_exited_def watcher_exit)
  then show ?thesis
    by (simp add: loop_step_def handleAttachSession_def status_changed_watcher StatusWatcher_Set_def NewStatusWatcher_def
        wait_closed_def)
qed

end
