(* ===== verification/Tables.thy ===== *)
theory Tables
  imports Prelude
begin

text \<open>
  The SQL statements the relay's store uses, on tables as lists of rows in the order they were
  inserted: \<open>INSERT\<close>, \<open>INSERT OR IGNORE\<close>, \<open>INSERT ... ON CONFLICT DO UPDATE\<close>, \<open>UPDATE ... WHERE\<close>,
  \<open>DELETE ... WHERE\<close> and \<open>LIKE\<close>. A primary key or unique column is a function of the row.
\<close>

section \<open>Statements\<close>

definition has_key :: "('r \<Rightarrow> 'k) \<Rightarrow> 'k \<Rightarrow> 'r list \<Rightarrow> bool" where
  "has_key key k t = list_ex (\<lambda>r. key r = k) t"

definition insert_row :: "('r \<Rightarrow> 'k) \<Rightarrow> 'r \<Rightarrow> 'r list \<Rightarrow> 'r list option" where
  "insert_row key r t = (if has_key key (key r) t then None else Some (t @ [r]))"

definition insert_or_ignore :: "('r \<Rightarrow> 'k) \<Rightarrow> 'r \<Rightarrow> 'r list \<Rightarrow> 'r list" where
  "insert_or_ignore key r t = (if has_key key (key r) t then t else t @ [r])"

text \<open>\<open>f old\<close> is the row after \<open>DO UPDATE SET\<close>.\<close>

definition upsert :: "('r \<Rightarrow> 'k) \<Rightarrow> ('r \<Rightarrow> 'r) \<Rightarrow> 'r \<Rightarrow> 'r list \<Rightarrow> 'r list" where
  "upsert key f r t =
     (if has_key key (key r) t then map (\<lambda>x. if key x = key r then f x else x) t else t @ [r])"

definition update_where :: "('r \<Rightarrow> bool) \<Rightarrow> ('r \<Rightarrow> 'r) \<Rightarrow> 'r list \<Rightarrow> 'r list" where
  "update_where p f t = map (\<lambda>x. if p x then f x else x) t"

definition delete_where :: "('r \<Rightarrow> bool) \<Rightarrow> 'r list \<Rightarrow> 'r list" where
  "delete_where p t = filter (\<lambda>x. \<not> p x) t"

text \<open>
  \<open>LIKE\<close>: \<open>%\<close> stands for any bytes, \<open>_\<close> for one character, and ASCII letters match in either
  case. Keys are taken as ASCII here: a character is a byte.
\<close>

fun like :: "string \<Rightarrow> string \<Rightarrow> bool" where
  "like [] s = (s = [])"
| "like (p # ps) [] = (p = CHR ''%'' \<and> like ps [])"
| "like (p # ps) (c # s) =
     (if p = CHR ''%'' then like ps (c # s) \<or> like (p # ps) s
      else (p = CHR ''_'' \<or> lower_byte p = lower_byte c) \<and> like ps s)"

section \<open>Keys stay unique\<close>

definition keyed :: "('r \<Rightarrow> 'k) \<Rightarrow> 'r list \<Rightarrow> bool" where
  "keyed key t = distinct (map key t)"

named_theorems keyed_intros

lemma has_key_iff: "has_key key k t \<longleftrightarrow> k \<in> key ` set t"
  by (auto simp: has_key_def list_ex_iff)

lemma keyed_Nil [simp, keyed_intros]: "keyed key []"
  by (simp add: keyed_def)

lemma keyed_insert: "keyed key t \<Longrightarrow> insert_row key r t = Some t' \<Longrightarrow> keyed key t'"
  by (auto simp: keyed_def insert_row_def has_key_iff split: if_splits)

lemma keyed_insert_or_ignore [keyed_intros]: "keyed key t \<Longrightarrow> keyed key (insert_or_ignore key r t)"
  by (auto simp: keyed_def insert_or_ignore_def has_key_iff)

lemma keyed_update [keyed_intros]:
  assumes "keyed key t" "\<And>x. key (f x) = key x"
  shows "keyed key (update_where p f t)"
proof -
  have "map key (update_where p f t) = map key t" by (simp add: update_where_def assms(2))
  then show ?thesis using assms(1) by (simp add: keyed_def)
qed

lemma keyed_upsert [keyed_intros]:
  assumes "keyed key t" "\<And>x. key (f x) = key x"
  shows "keyed key (upsert key f r t)"
proof (cases "has_key key (key r) t")
  case True
  have "keyed key (update_where (\<lambda>x. key x = key r) f t)" by (rule keyed_update [OF assms])
  then show ?thesis by (simp add: upsert_def update_where_def True)
qed (use assms(1) in \<open>simp add: keyed_def upsert_def has_key_iff\<close>)

lemma keyed_delete [keyed_intros]: "keyed key t \<Longrightarrow> keyed key (delete_where p t)"
  by (auto simp: keyed_def delete_where_def distinct_map inj_on_def)

lemma find_keyed:
  "keyed key t \<Longrightarrow> List.find (\<lambda>r. key r = k) t = Some r \<longleftrightarrow> r \<in> set t \<and> key r = k"
  by (induction t) (auto simp: keyed_def)

lemma find_None_iff_key: "List.find (\<lambda>r. key r = k) t = None \<longleftrightarrow> \<not> has_key key k t"
  by (auto simp: has_key_iff find_None_iff)

section \<open>Rows of a result\<close>

lemma set_insert_row: "insert_row key r t = Some t' \<Longrightarrow> set t' = insert r (set t)"
  by (auto simp: insert_row_def split: if_splits)

lemma set_insert_or_ignore: "set (insert_or_ignore key r t) \<subseteq> insert r (set t)"
  by (auto simp: insert_or_ignore_def)

lemma has_key_insert_or_ignore [simp]:
  "has_key key k (insert_or_ignore key r t) \<longleftrightarrow> has_key key k t \<or> k = key r"
  by (auto simp: insert_or_ignore_def has_key_iff)

lemma set_upsert: "set (upsert key f r t) \<subseteq> insert r (f ` set t \<union> set t)"
  by (auto simp: upsert_def)

lemma set_delete_where [simp]: "set (delete_where p t) = {r \<in> set t. \<not> p r}"
  by (auto simp: delete_where_def)

lemma set_update_where: "set (update_where p f t) = {f r | r. r \<in> set t \<and> p r} \<union> {r \<in> set t. \<not> p r}"
  by (auto simp: update_where_def)

section \<open>A prefix as a pattern\<close>

lemma like_percent: "like ''%'' s"
  by (induction s) simp_all

text \<open>A key with the prefix is listed, whatever characters the prefix has.\<close>

lemma like_prefix: "prefix p s \<Longrightarrow> like (p @ ''%'') s"
proof (induction p arbitrary: s)
  case Nil
  then show ?case using like_percent [of s] by simp
next
  case (Cons c p)
  then obtain s' where s: "s = c # s'" "prefix p s'" by (auto simp: prefix_def)
  have ps: "like (p @ ''%'') s'" by (rule Cons.IH [OF s(2)])
  show ?case
  proof (cases "c = CHR ''%''")
    case True
    have "like (c # p @ ''%'') s'"
      using ps True by (cases s') (auto simp: True)
    then show ?thesis by (simp add: s True)
  qed (simp add: s ps)
qed

end
