(* ===== verification/RelayStore.thy ===== *)
theory RelayStore
  imports Tables NodeAuth "HOL-Library.List_Lexorder" "HOL-Library.Char_ord" "HOL-Library.Product_Lexorder"
begin

text \<open>
  The relay's store, \<open>internal/store/sqlite.go\<close> behind the interface of \<open>store.go\<close>: one table
  per kind of row, one definition per method. The methods run under the store's lock, so each is
  one step; what a method writes before it fails stays written unless it runs in a transaction.
  The database itself is taken to work: the only errors are the violated keys and the ones the
  methods return themselves. \<open>now\<close> is the clock the method reads. Foreign keys are not enforced,
  as SQLite's default is.
\<close>

section \<open>Rows\<close>

record NetworkRow =
  nw_ID :: string
  nw_CreatedAt :: nanos

record Network =
  net_ID :: string
  net_CreatedAt :: nanos
  net_NodeCount :: nat
  net_InviteCount :: nat

definition NetworkRoleOwner :: string where "NetworkRoleOwner = ''owner''"
definition NetworkRoleMember :: string where "NetworkRoleMember = ''member''"
definition GroupDebugNone :: string where "GroupDebugNone = ''none''"
definition GroupDebugFull :: string where "GroupDebugFull = ''full''"

record NetworkMember =
  nm_NetworkID :: string
  nm_Subject :: string
  nm_Role :: string
  nm_CreatedAt :: nanos
  nm_CreatedBy :: string

record Group =
  gr_NetworkID :: string
  gr_Name :: string
  gr_CreatedAt :: nanos
  gr_CreatedBy :: string

record GroupMember =
  gm_NetworkID :: string
  gm_GroupName :: string
  gm_NodeName :: string
  gm_SessionName :: string
  gm_CreatedAt :: nanos

record GroupPolicy =
  gp_NetworkID :: string
  gp_GroupName :: string
  gp_MessagesPolicy :: string
  gp_DebugPolicy :: string
  gp_UpdatedAt :: nanos

record NodeRecord =
  nr_NetworkID :: string
  nr_Name :: string
  nr_Token :: string
  nr_PeerURL :: string
  nr_GitHubID :: "int option"
  nr_OwnerSubject :: string
  nr_AuthorizedBy :: string
  nr_EnrollmentID :: string
  nr_AuthorizedAt :: nanos
  nr_LastSeenAt :: nanos

record NodeEnrollment =
  ne_ID :: string
  ne_NetworkID :: string
  ne_OwnerSubject :: string
  ne_IssuedBy :: string
  ne_NodeName :: string
  ne_TokenHash :: string
  ne_UsesRemaining :: int
  ne_ExpiresAt :: nanos
  ne_CreatedAt :: nanos
  ne_RedeemedAt :: "nanos option"

record KVRow =
  kr_NetworkID :: string
  kr_Namespace :: string
  kr_Key :: string
  kr_Value :: bytes
  kr_ExpiresAt :: "nanos option"

record Invite =
  iv_NetworkID :: string
  iv_Token :: string
  iv_CreatedBy :: "int option"
  iv_UsesRemaining :: int
  iv_ExpiresAt :: nanos
  iv_CreatedAt :: nanos

record AccessGrant =
  ag_ID :: string
  ag_NetworkID :: string
  ag_TargetNode :: string
  ag_SessionID :: "uint32 option"
  ag_SessionName :: string
  ag_Verbs :: "string list"
  ag_AudienceSubjectKind :: string
  ag_AudienceSubjectID :: string
  ag_AudienceDisplay :: string
  ag_IssuedBy :: string
  ag_CreatedAt :: nanos
  ag_ExpiresAt :: nanos
  ag_RevokedAt :: "nanos option"

record AccessGrantFilter =
  af_TargetNode :: string
  af_AudienceSubjectID :: string
  af_ActiveOnly :: bool

record User =
  us_GitHubID :: int
  us_Username :: string
  us_AvatarURL :: string
  us_CreatedAt :: nanos
  us_LastLoginAt :: nanos

record AuthSession =
  as_Token :: string
  as_GitHubID :: int
  as_CreatedAt :: nanos
  as_ExpiresAt :: nanos

record OAuthState =
  oa_State :: string
  oa_CreatedAt :: nanos
  oa_ExpiresAt :: nanos

record OIDCUser =
  ou_Sub :: string
  ou_Username :: string
  ou_AvatarURL :: string
  ou_CreatedAt :: nanos
  ou_LastLoginAt :: nanos

record OIDCSession =
  os_Token :: string
  os_Sub :: string
  os_CreatedAt :: nanos
  os_ExpiresAt :: nanos

record OIDCDeviceFlow =
  df_PollToken :: string
  df_DeviceCode :: string
  df_NetworkID :: string
  df_NodeName :: string
  df_NodeToken :: string
  df_ExpiresAt :: nanos

record DeviceCode =
  dc_Code :: string
  dc_PublicKey :: string
  dc_NodeName :: string
  dc_Status :: string
  dc_CreatedAt :: nanos
  dc_ExpiresAt :: nanos

record RevokedKey =
  rk_PublicKey :: string
  rk_RevokedAt :: nanos
  rk_Reason :: string

record GitHubApp =
  ga_AppID :: int
  ga_ClientID :: string
  ga_ClientSecret :: string
  ga_PEM :: string
  ga_WebhookSecret :: string
  ga_Owner :: string
  ga_CreatedAt :: nanos

record RelayStore =
  st_networks :: "NetworkRow list"
  st_members :: "NetworkMember list"
  st_groups :: "Group list"
  st_groupMembers :: "GroupMember list"
  st_policies :: "GroupPolicy list"
  st_nodes :: "NodeRecord list"
  st_enrollments :: "NodeEnrollment list"
  st_kv :: "KVRow list"
  st_invites :: "Invite list"
  st_grants :: "AccessGrant list"
  st_users :: "User list"
  st_sessions :: "AuthSession list"
  st_oauthStates :: "OAuthState list"
  st_oidcUsers :: "OIDCUser list"
  st_oidcSessions :: "OIDCSession list"
  st_deviceFlows :: "OIDCDeviceFlow list"
  st_deviceCodes :: "DeviceCode list"
  st_revokedKeys :: "RevokedKey list"
  st_githubApp :: "GitHubApp option"

text \<open>A fresh database, after \<open>migrate\<close>.\<close>

definition NewSQLiteStore :: RelayStore where
  "NewSQLiteStore =
     \<lparr>st_networks = [], st_members = [], st_groups = [], st_groupMembers = [], st_policies = [], st_nodes = [],
      st_enrollments = [], st_kv = [], st_invites = [], st_grants = [], st_users = [], st_sessions = [],
      st_oauthStates = [], st_oidcUsers = [], st_oidcSessions = [], st_deviceFlows = [], st_deviceCodes = [],
      st_revokedKeys = [], st_githubApp = None\<rparr>"

datatype store_error =
    Constraint
  | GroupExists | GroupNotFound | GroupMemberNotFound
  | InviteUnavailable | GrantNotFound | DeviceCodeUnavailable | OAuthStateUnavailable | DeviceFlowUnavailable

section \<open>Primary keys\<close>

definition member_key :: "NetworkMember \<Rightarrow> string \<times> string" where
  "member_key r = (nm_NetworkID r, nm_Subject r)"

definition group_key :: "Group \<Rightarrow> string \<times> string" where
  "group_key r = (gr_NetworkID r, gr_Name r)"

definition group_member_key :: "GroupMember \<Rightarrow> string \<times> string \<times> string \<times> string" where
  "group_member_key r = (gm_NetworkID r, gm_GroupName r, gm_NodeName r, gm_SessionName r)"

definition policy_key :: "GroupPolicy \<Rightarrow> string \<times> string" where
  "policy_key r = (gp_NetworkID r, gp_GroupName r)"

definition node_key :: "NodeRecord \<Rightarrow> string \<times> string" where
  "node_key r = (nr_NetworkID r, nr_Name r)"

definition kv_key :: "KVRow \<Rightarrow> string \<times> string \<times> string" where
  "kv_key r = (kr_NetworkID r, kr_Namespace r, kr_Key r)"

section \<open>Networks and members\<close>

definition NetworkEnsure :: "nanos \<Rightarrow> string \<Rightarrow> RelayStore \<Rightarrow> RelayStore" where
  "NetworkEnsure now networkID st =
     st\<lparr>st_networks := insert_or_ignore nw_ID \<lparr>nw_ID = networkID, nw_CreatedAt = now\<rparr> (st_networks st)\<rparr>"

definition network_counts :: "nanos \<Rightarrow> RelayStore \<Rightarrow> NetworkRow \<Rightarrow> Network" where
  "network_counts now st n =
     \<lparr>net_ID = nw_ID n, net_CreatedAt = nw_CreatedAt n,
      net_NodeCount = length (filter (\<lambda>r. nr_NetworkID r = nw_ID n) (st_nodes st)),
      net_InviteCount = length (filter (\<lambda>r. now < iv_ExpiresAt r \<and> iv_NetworkID r = nw_ID n) (st_invites st))\<rparr>"

definition NetworkList :: "nanos \<Rightarrow> RelayStore \<Rightarrow> Network list" where
  "NetworkList now st = map (network_counts now st) (sort_key nw_ID (st_networks st))"

definition NetworkListByMember :: "nanos \<Rightarrow> string \<Rightarrow> RelayStore \<Rightarrow> Network list" where
  "NetworkListByMember now subject st =
     map (network_counts now st)
       (sort_key nw_ID (filter (\<lambda>n. has_key member_key (nw_ID n, subject) (st_members st)) (st_networks st)))"

definition NetworkMemberGet :: "string \<Rightarrow> string \<Rightarrow> RelayStore \<Rightarrow> NetworkMember option" where
  "NetworkMemberGet networkID subject st = List.find (\<lambda>r. member_key r = (networkID, subject)) (st_members st)"

definition NetworkMemberUpsert :: "nanos \<Rightarrow> NetworkMember \<Rightarrow> RelayStore \<Rightarrow> RelayStore" where
  "NetworkMemberUpsert now member st =
     (let st1 = NetworkEnsure now (nm_NetworkID member) st
      in st1\<lparr>st_members := upsert member_key (\<lambda>old. old\<lparr>nm_Role := nm_Role member\<rparr>) member (st_members st1)\<rparr>)"

definition NetworkMemberCount :: "string \<Rightarrow> RelayStore \<Rightarrow> nat" where
  "NetworkMemberCount networkID st = length (filter (\<lambda>r. nm_NetworkID r = networkID) (st_members st))"

section \<open>Groups\<close>

text \<open>\<open>GroupCreate\<close> and \<open>GroupDelete\<close> run in a transaction: an error leaves nothing written.\<close>

definition GroupCreate :: "nanos \<Rightarrow> Group \<Rightarrow> RelayStore \<Rightarrow> (store_error + unit) \<times> RelayStore" where
  "GroupCreate now g st =
     (let st1 = NetworkEnsure now (gr_NetworkID g) st in
      case insert_row group_key g (st_groups st1) of
        None \<Rightarrow> (Inl GroupExists, st)
      | Some groups \<Rightarrow>
          (Inr (), st1\<lparr>st_groups := groups,
             st_policies := insert_or_ignore policy_key
               \<lparr>gp_NetworkID = gr_NetworkID g, gp_GroupName = gr_Name g, gp_MessagesPolicy = GroupMessagesInternalOnly,
                gp_DebugPolicy = GroupDebugObserveOnly, gp_UpdatedAt = gr_CreatedAt g\<rparr> (st_policies st1)\<rparr>))"

definition GroupList :: "string \<Rightarrow> RelayStore \<Rightarrow> Group list" where
  "GroupList networkID st = sort_key gr_Name (filter (\<lambda>r. gr_NetworkID r = networkID) (st_groups st))"

definition GroupGet :: "string \<Rightarrow> string \<Rightarrow> RelayStore \<Rightarrow> Group option" where
  "GroupGet networkID groupName st = List.find (\<lambda>r. group_key r = (networkID, groupName)) (st_groups st)"

definition GroupDelete :: "string \<Rightarrow> string \<Rightarrow> RelayStore \<Rightarrow> (store_error + unit) \<times> RelayStore" where
  "GroupDelete networkID groupName st =
     (if has_key group_key (networkID, groupName) (st_groups st) then
        (Inr (), st\<lparr>st_groupMembers := delete_where (\<lambda>r. gm_NetworkID r = networkID \<and> gm_GroupName r = groupName)
                      (st_groupMembers st),
                    st_policies := delete_where (\<lambda>r. policy_key r = (networkID, groupName)) (st_policies st),
                    st_groups := delete_where (\<lambda>r. group_key r = (networkID, groupName)) (st_groups st)\<rparr>)
      else (Inl GroupNotFound, st))"

definition GroupMemberAdd :: "GroupMember \<Rightarrow> RelayStore \<Rightarrow> (store_error + unit) \<times> RelayStore" where
  "GroupMemberAdd member st =
     (if has_key group_key (gm_NetworkID member, gm_GroupName member) (st_groups st)
      then (Inr (), st\<lparr>st_groupMembers := insert_or_ignore group_member_key member (st_groupMembers st)\<rparr>)
      else (Inl GroupNotFound, st))"

definition GroupMemberRemove ::
  "string \<Rightarrow> string \<Rightarrow> string \<Rightarrow> string \<Rightarrow> RelayStore \<Rightarrow> (store_error + unit) \<times> RelayStore" where
  "GroupMemberRemove networkID groupName nodeName sessionName st =
     (let k = (networkID, groupName, nodeName, sessionName) in
      if has_key group_member_key k (st_groupMembers st)
      then (Inr (), st\<lparr>st_groupMembers := delete_where (\<lambda>r. group_member_key r = k) (st_groupMembers st)\<rparr>)
      else (Inl GroupMemberNotFound, st))"

definition GroupMemberList :: "string \<Rightarrow> string \<Rightarrow> RelayStore \<Rightarrow> GroupMember list" where
  "GroupMemberList networkID groupName st =
     sort_key (\<lambda>r. (gm_NodeName r, gm_SessionName r))
       (filter (\<lambda>r. gm_NetworkID r = networkID \<and> gm_GroupName r = groupName) (st_groupMembers st))"

definition GroupPolicyGet :: "string \<Rightarrow> string \<Rightarrow> RelayStore \<Rightarrow> GroupPolicy option" where
  "GroupPolicyGet networkID groupName st = List.find (\<lambda>r. policy_key r = (networkID, groupName)) (st_policies st)"

definition GroupBindingsForSession :: "string \<Rightarrow> string \<Rightarrow> string \<Rightarrow> RelayStore \<Rightarrow> GroupBinding list" where
  "GroupBindingsForSession networkID nodeName sessionName st =
     map (\<lambda>r. case GroupPolicyGet (gm_NetworkID r) (gm_GroupName r) st of
                None \<Rightarrow> \<lparr>gb_GroupName = gm_GroupName r, gb_MessagesPolicy = GroupMessagesInternalOnly,
                         gb_DebugPolicy = GroupDebugObserveOnly\<rparr>
              | Some p \<Rightarrow> \<lparr>gb_GroupName = gm_GroupName r, gb_MessagesPolicy = gp_MessagesPolicy p,
                           gb_DebugPolicy = gp_DebugPolicy p\<rparr>)
       (sort_key gm_GroupName
          (filter (\<lambda>r. gm_NetworkID r = networkID \<and> gm_NodeName r = nodeName \<and> gm_SessionName r = sessionName)
             (st_groupMembers st)))"

definition GroupPolicySet :: "GroupPolicy \<Rightarrow> RelayStore \<Rightarrow> (store_error + unit) \<times> RelayStore" where
  "GroupPolicySet policy st =
     (if has_key group_key (gp_NetworkID policy, gp_GroupName policy) (st_groups st)
      then (Inr (), st\<lparr>st_policies := upsert policy_key
              (\<lambda>old. old\<lparr>gp_MessagesPolicy := gp_MessagesPolicy policy, gp_DebugPolicy := gp_DebugPolicy policy,
                         gp_UpdatedAt := gp_UpdatedAt policy\<rparr>) policy (st_policies st)\<rparr>)
      else (Inl GroupNotFound, st))"

section \<open>Nodes\<close>

text \<open>The token is a unique column: a token of another node violates it.\<close>

definition NodeRegister :: "nanos \<Rightarrow> NodeRecord \<Rightarrow> RelayStore \<Rightarrow> (store_error + unit) \<times> RelayStore" where
  "NodeRegister now node st =
     (let st1 = NetworkEnsure now (nr_NetworkID node) st in
      if list_ex (\<lambda>r. nr_Token r = nr_Token node \<and> node_key r \<noteq> node_key node) (st_nodes st1)
      then (Inl Constraint, st1)
      else (Inr (), st1\<lparr>st_nodes := upsert node_key
             (\<lambda>old. old\<lparr>nr_Token := nr_Token node, nr_PeerURL := nr_PeerURL node, nr_GitHubID := nr_GitHubID node,
                nr_OwnerSubject := nr_OwnerSubject node, nr_AuthorizedBy := nr_AuthorizedBy node,
                nr_EnrollmentID := nr_EnrollmentID node, nr_LastSeenAt := nr_LastSeenAt node\<rparr>)
             node (st_nodes st1)\<rparr>))"

definition NodeList :: "string \<Rightarrow> RelayStore \<Rightarrow> NodeRecord list" where
  "NodeList networkID st = sort_key nr_Name (filter (\<lambda>r. nr_NetworkID r = networkID) (st_nodes st))"

definition NodeListAll :: "RelayStore \<Rightarrow> NodeRecord list" where
  "NodeListAll st = sort_key node_key (st_nodes st)"

definition NodeGet :: "string \<Rightarrow> string \<Rightarrow> RelayStore \<Rightarrow> NodeRecord option" where
  "NodeGet networkID name st = List.find (\<lambda>r. node_key r = (networkID, name)) (st_nodes st)"

definition NodeGetByToken :: "string \<Rightarrow> RelayStore \<Rightarrow> NodeRecord option" where
  "NodeGetByToken token st = List.find (\<lambda>r. nr_Token r = token) (st_nodes st)"

definition NodeDelete :: "string \<Rightarrow> string \<Rightarrow> RelayStore \<Rightarrow> RelayStore" where
  "NodeDelete networkID name st = st\<lparr>st_nodes := delete_where (\<lambda>r. node_key r = (networkID, name)) (st_nodes st)\<rparr>"

definition NodeUpdateLastSeen :: "nanos \<Rightarrow> string \<Rightarrow> string \<Rightarrow> RelayStore \<Rightarrow> RelayStore" where
  "NodeUpdateLastSeen now networkID name st =
     st\<lparr>st_nodes := update_where (\<lambda>r. node_key r = (networkID, name)) (\<lambda>r. r\<lparr>nr_LastSeenAt := now\<rparr>) (st_nodes st)\<rparr>"

definition NodeEnrollmentCreate :: "nanos \<Rightarrow> NodeEnrollment \<Rightarrow> RelayStore \<Rightarrow> (store_error + unit) \<times> RelayStore" where
  "NodeEnrollmentCreate now e st =
     (let st1 = NetworkEnsure now (ne_NetworkID e) st in
      if list_ex (\<lambda>r. ne_ID r = ne_ID e \<or> ne_TokenHash r = ne_TokenHash e) (st_enrollments st1)
      then (Inl Constraint, st1)
      else (Inr (), st1\<lparr>st_enrollments := st_enrollments st1 @ [e]\<rparr>))"

definition NodeEnrollmentGetByTokenHash :: "string \<Rightarrow> RelayStore \<Rightarrow> NodeEnrollment option" where
  "NodeEnrollmentGetByTokenHash tokenHash st = List.find (\<lambda>r. ne_TokenHash r = tokenHash) (st_enrollments st)"

definition NodeEnrollmentConsume :: "string \<Rightarrow> nanos \<Rightarrow> RelayStore \<Rightarrow> NodeEnrollment option \<times> RelayStore" where
  "NodeEnrollmentConsume tokenHash redeemedAt st =
     (case NodeEnrollmentGetByTokenHash tokenHash st of
        None \<Rightarrow> (None, st)
      | Some e \<Rightarrow>
          if ne_UsesRemaining e \<le> 0 then (None, st)
          else
            let nextUses = ne_UsesRemaining e - 1;
                redeemed = (if nextUses = 0 then Some redeemedAt else ne_RedeemedAt e);
                e1 = e\<lparr>ne_RedeemedAt := redeemed, ne_UsesRemaining := nextUses\<rparr>
            in (Some e1, st\<lparr>st_enrollments := update_where (\<lambda>r. ne_TokenHash r = tokenHash)
                  (\<lambda>r. r\<lparr>ne_UsesRemaining := nextUses, ne_RedeemedAt := redeemed\<rparr>) (st_enrollments st)\<rparr>))"

section \<open>Keys and values\<close>

text \<open>
  \<open>KVList\<close> has no \<open>ORDER BY\<close>; the rows come in the order of the table here. How the driver
  returns an empty value is not modelled.
\<close>

definition live :: "nanos \<Rightarrow> KVRow \<Rightarrow> bool" where
  "live now r \<longleftrightarrow> (case kr_ExpiresAt r of None \<Rightarrow> True | Some t \<Rightarrow> now < t)"

definition KVSet :: "nanos \<Rightarrow> string \<Rightarrow> string \<Rightarrow> string \<Rightarrow> bytes \<Rightarrow> int option \<Rightarrow> RelayStore \<Rightarrow> RelayStore" where
  "KVSet now networkID namespace key v ttl st =
     (let row = \<lparr>kr_NetworkID = networkID, kr_Namespace = namespace, kr_Key = key, kr_Value = v,
                 kr_ExpiresAt = map_option (\<lambda>d. now + d) ttl\<rparr>
      in st\<lparr>st_kv := upsert kv_key (\<lambda>old. old\<lparr>kr_Value := kr_Value row, kr_ExpiresAt := kr_ExpiresAt row\<rparr>) row
             (st_kv st)\<rparr>)"

definition KVGet :: "nanos \<Rightarrow> string \<Rightarrow> string \<Rightarrow> string \<Rightarrow> RelayStore \<Rightarrow> bytes option" where
  "KVGet now networkID namespace key st =
     map_option kr_Value (List.find (\<lambda>r. kv_key r = (networkID, namespace, key) \<and> live now r) (st_kv st))"

definition KVDelete :: "string \<Rightarrow> string \<Rightarrow> string \<Rightarrow> RelayStore \<Rightarrow> RelayStore" where
  "KVDelete networkID namespace key st =
     st\<lparr>st_kv := delete_where (\<lambda>r. kv_key r = (networkID, namespace, key)) (st_kv st)\<rparr>"

definition KVList ::
  "nanos \<Rightarrow> string \<Rightarrow> string \<Rightarrow> string \<Rightarrow> RelayStore \<Rightarrow> (string \<times> bytes \<times> nanos option) list" where
  "KVList now networkID namespace pre st =
     map (\<lambda>r. (kr_Key r, kr_Value r, kr_ExpiresAt r))
       (filter (\<lambda>r. kr_NetworkID r = networkID \<and> kr_Namespace r = namespace \<and> like (pre @ ''%'') (kr_Key r) \<and> live now r)
          (st_kv st))"

section \<open>Invites and grants\<close>

definition InviteCreate :: "nanos \<Rightarrow> Invite \<Rightarrow> RelayStore \<Rightarrow> (store_error + unit) \<times> RelayStore" where
  "InviteCreate now invite st =
     (let st1 = NetworkEnsure now (iv_NetworkID invite) st in
      case insert_row iv_Token invite (st_invites st1) of
        None \<Rightarrow> (Inl Constraint, st1)
      | Some invites \<Rightarrow> (Inr (), st1\<lparr>st_invites := invites\<rparr>))"

definition InviteGet :: "nanos \<Rightarrow> string \<Rightarrow> RelayStore \<Rightarrow> Invite option" where
  "InviteGet now token st = List.find (\<lambda>r. iv_Token r = token \<and> now < iv_ExpiresAt r) (st_invites st)"

definition InviteConsume :: "nanos \<Rightarrow> string \<Rightarrow> RelayStore \<Rightarrow> (store_error + unit) \<times> RelayStore" where
  "InviteConsume now token st =
     (let usable = (\<lambda>r. iv_Token r = token \<and> 0 < iv_UsesRemaining r \<and> now < iv_ExpiresAt r) in
      if list_ex usable (st_invites st) then
        let t1 = update_where usable (\<lambda>r. r\<lparr>iv_UsesRemaining := iv_UsesRemaining r - 1\<rparr>) (st_invites st)
        in (Inr (), st\<lparr>st_invites := delete_where (\<lambda>r. iv_Token r = token \<and> iv_UsesRemaining r \<le> 0) t1\<rparr>)
      else (Inl InviteUnavailable, st))"

definition InviteList :: "nanos \<Rightarrow> string \<Rightarrow> RelayStore \<Rightarrow> Invite list" where
  "InviteList now networkID st =
     sort_key iv_CreatedAt (filter (\<lambda>r. iv_NetworkID r = networkID \<and> now < iv_ExpiresAt r) (st_invites st))"

definition InviteDelete :: "string \<Rightarrow> string \<Rightarrow> RelayStore \<Rightarrow> RelayStore" where
  "InviteDelete networkID token st =
     st\<lparr>st_invites := delete_where (\<lambda>r. iv_NetworkID r = networkID \<and> iv_Token r = token) (st_invites st)\<rparr>"

definition AccessGrantCreate :: "AccessGrant \<Rightarrow> RelayStore \<Rightarrow> (store_error + unit) \<times> RelayStore" where
  "AccessGrantCreate grant st =
     (case insert_row ag_ID grant (st_grants st) of
        None \<Rightarrow> (Inl Constraint, st)
      | Some grants \<Rightarrow> (Inr (), st\<lparr>st_grants := grants\<rparr>))"

definition AccessGrantGet :: "string \<Rightarrow> string \<Rightarrow> RelayStore \<Rightarrow> AccessGrant option" where
  "AccessGrantGet networkID grantID st =
     List.find (\<lambda>r. ag_NetworkID r = networkID \<and> ag_ID r = grantID) (st_grants st)"

definition AccessGrantList :: "nanos \<Rightarrow> string \<Rightarrow> AccessGrantFilter \<Rightarrow> RelayStore \<Rightarrow> AccessGrant list" where
  "AccessGrantList now networkID f st =
     sort_key (\<lambda>r. - ag_CreatedAt r)
       (filter (\<lambda>r. ag_NetworkID r = networkID \<and>
            (trim_space (af_TargetNode f) \<noteq> [] \<longrightarrow> ag_TargetNode r = trim_space (af_TargetNode f)) \<and>
            (trim_space (af_AudienceSubjectID f) \<noteq> [] \<longrightarrow>
               ag_AudienceSubjectID r = trim_space (af_AudienceSubjectID f)) \<and>
            (af_ActiveOnly f \<longrightarrow> now < ag_ExpiresAt r \<and> ag_RevokedAt r = None))
          (st_grants st))"

definition AccessGrantRevoke :: "string \<Rightarrow> string \<Rightarrow> nanos \<Rightarrow> RelayStore \<Rightarrow> (store_error + unit) \<times> RelayStore" where
  "AccessGrantRevoke networkID grantID revokedAt st =
     (let p = (\<lambda>r. ag_NetworkID r = networkID \<and> ag_ID r = grantID \<and> ag_RevokedAt r = None) in
      if list_ex p (st_grants st)
      then (Inr (), st\<lparr>st_grants := update_where p (\<lambda>r. r\<lparr>ag_RevokedAt := Some revokedAt\<rparr>) (st_grants st)\<rparr>)
      else (Inl GrantNotFound, st))"

section \<open>Users, sessions and device flows\<close>

definition UserUpsert :: "User \<Rightarrow> RelayStore \<Rightarrow> (store_error + unit) \<times> RelayStore" where
  "UserUpsert user st =
     (if list_ex (\<lambda>r. us_Username r = us_Username user \<and> us_GitHubID r \<noteq> us_GitHubID user) (st_users st)
      then (Inl Constraint, st)
      else (Inr (), st\<lparr>st_users := upsert us_GitHubID
             (\<lambda>old. old\<lparr>us_Username := us_Username user, us_AvatarURL := us_AvatarURL user,
                        us_LastLoginAt := us_LastLoginAt user\<rparr>) user (st_users st)\<rparr>))"

definition UserGetByID :: "int \<Rightarrow> RelayStore \<Rightarrow> User option" where
  "UserGetByID githubID st = List.find (\<lambda>r. us_GitHubID r = githubID) (st_users st)"

definition UserGetByUsername :: "string \<Rightarrow> RelayStore \<Rightarrow> User option" where
  "UserGetByUsername username st = List.find (\<lambda>r. us_Username r = username) (st_users st)"

definition SessionCreate :: "AuthSession \<Rightarrow> RelayStore \<Rightarrow> (store_error + unit) \<times> RelayStore" where
  "SessionCreate sess st =
     (case insert_row as_Token sess (st_sessions st) of
        None \<Rightarrow> (Inl Constraint, st)
      | Some t \<Rightarrow> (Inr (), st\<lparr>st_sessions := t\<rparr>))"

definition SessionGet :: "nanos \<Rightarrow> string \<Rightarrow> RelayStore \<Rightarrow> AuthSession option" where
  "SessionGet now token st = List.find (\<lambda>r. as_Token r = token \<and> now < as_ExpiresAt r) (st_sessions st)"

definition SessionDelete :: "string \<Rightarrow> RelayStore \<Rightarrow> RelayStore" where
  "SessionDelete token st = st\<lparr>st_sessions := delete_where (\<lambda>r. as_Token r = token) (st_sessions st)\<rparr>"

definition SessionDeleteByUser :: "int \<Rightarrow> RelayStore \<Rightarrow> RelayStore" where
  "SessionDeleteByUser githubID st = st\<lparr>st_sessions := delete_where (\<lambda>r. as_GitHubID r = githubID) (st_sessions st)\<rparr>"

definition OAuthStateCreate :: "OAuthState \<Rightarrow> RelayStore \<Rightarrow> (store_error + unit) \<times> RelayStore" where
  "OAuthStateCreate state st =
     (case insert_row oa_State state (st_oauthStates st) of
        None \<Rightarrow> (Inl Constraint, st)
      | Some t \<Rightarrow> (Inr (), st\<lparr>st_oauthStates := t\<rparr>))"

definition OAuthStateConsume :: "nanos \<Rightarrow> string \<Rightarrow> RelayStore \<Rightarrow> (store_error + unit) \<times> RelayStore" where
  "OAuthStateConsume now state st =
     (let p = (\<lambda>r. oa_State r = state \<and> now < oa_ExpiresAt r) in
      if list_ex p (st_oauthStates st)
      then (Inr (), st\<lparr>st_oauthStates := delete_where p (st_oauthStates st)\<rparr>)
      else (Inl OAuthStateUnavailable, st))"

definition OIDCUserUpsert :: "OIDCUser \<Rightarrow> RelayStore \<Rightarrow> RelayStore" where
  "OIDCUserUpsert user st =
     st\<lparr>st_oidcUsers := upsert ou_Sub
       (\<lambda>old. old\<lparr>ou_Username := ou_Username user, ou_AvatarURL := ou_AvatarURL user,
                  ou_LastLoginAt := ou_LastLoginAt user\<rparr>) user (st_oidcUsers st)\<rparr>"

definition OIDCUserGetBySub :: "string \<Rightarrow> RelayStore \<Rightarrow> OIDCUser option" where
  "OIDCUserGetBySub sub st = List.find (\<lambda>r. ou_Sub r = sub) (st_oidcUsers st)"

definition OIDCUserListByUsername :: "string \<Rightarrow> RelayStore \<Rightarrow> OIDCUser list" where
  "OIDCUserListByUsername username st = sort_key ou_Sub (filter (\<lambda>r. ou_Username r = username) (st_oidcUsers st))"

definition OIDCSessionCreate :: "OIDCSession \<Rightarrow> RelayStore \<Rightarrow> (store_error + unit) \<times> RelayStore" where
  "OIDCSessionCreate sess st =
     (case insert_row os_Token sess (st_oidcSessions st) of
        None \<Rightarrow> (Inl Constraint, st)
      | Some t \<Rightarrow> (Inr (), st\<lparr>st_oidcSessions := t\<rparr>))"

definition OIDCSessionGet :: "nanos \<Rightarrow> string \<Rightarrow> RelayStore \<Rightarrow> OIDCSession option" where
  "OIDCSessionGet now token st = List.find (\<lambda>r. os_Token r = token \<and> now < os_ExpiresAt r) (st_oidcSessions st)"

definition OIDCSessionDelete :: "string \<Rightarrow> RelayStore \<Rightarrow> RelayStore" where
  "OIDCSessionDelete token st = st\<lparr>st_oidcSessions := delete_where (\<lambda>r. os_Token r = token) (st_oidcSessions st)\<rparr>"

definition OIDCDeviceFlowCreate :: "OIDCDeviceFlow \<Rightarrow> RelayStore \<Rightarrow> (store_error + unit) \<times> RelayStore" where
  "OIDCDeviceFlowCreate flow st =
     (if list_ex (\<lambda>r. df_PollToken r = df_PollToken flow \<or> df_DeviceCode r = df_DeviceCode flow) (st_deviceFlows st)
      then (Inl Constraint, st)
      else (Inr (), st\<lparr>st_deviceFlows := st_deviceFlows st @ [flow]\<rparr>))"

definition OIDCDeviceFlowGet :: "nanos \<Rightarrow> string \<Rightarrow> RelayStore \<Rightarrow> OIDCDeviceFlow option" where
  "OIDCDeviceFlowGet now pollToken st =
     List.find (\<lambda>r. df_PollToken r = pollToken \<and> now < df_ExpiresAt r) (st_deviceFlows st)"

definition OIDCDeviceFlowComplete ::
  "nanos \<Rightarrow> string \<Rightarrow> string \<Rightarrow> RelayStore \<Rightarrow> (store_error + unit) \<times> RelayStore" where
  "OIDCDeviceFlowComplete now pollToken nodeToken st =
     (let p = (\<lambda>r. df_PollToken r = pollToken \<and> now < df_ExpiresAt r) in
      if list_ex p (st_deviceFlows st)
      then (Inr (), st\<lparr>st_deviceFlows := update_where p (\<lambda>r. r\<lparr>df_NodeToken := nodeToken\<rparr>) (st_deviceFlows st)\<rparr>)
      else (Inl DeviceFlowUnavailable, st))"

definition DeviceCodeCreate :: "DeviceCode \<Rightarrow> RelayStore \<Rightarrow> (store_error + unit) \<times> RelayStore" where
  "DeviceCodeCreate dc st =
     (case insert_row dc_Code dc (st_deviceCodes st) of
        None \<Rightarrow> (Inl Constraint, st)
      | Some t \<Rightarrow> (Inr (), st\<lparr>st_deviceCodes := t\<rparr>))"

definition DeviceCodeGet :: "nanos \<Rightarrow> string \<Rightarrow> RelayStore \<Rightarrow> DeviceCode option" where
  "DeviceCodeGet now code st = List.find (\<lambda>r. dc_Code r = code \<and> now < dc_ExpiresAt r) (st_deviceCodes st)"

definition DeviceCodeConfirm :: "nanos \<Rightarrow> string \<Rightarrow> RelayStore \<Rightarrow> (store_error + unit) \<times> RelayStore" where
  "DeviceCodeConfirm now code st =
     (let p = (\<lambda>r. dc_Code r = code \<and> dc_Status r = ''pending'' \<and> now < dc_ExpiresAt r) in
      if list_ex p (st_deviceCodes st)
      then (Inr (), st\<lparr>st_deviceCodes := update_where p (\<lambda>r. r\<lparr>dc_Status := ''authorized''\<rparr>) (st_deviceCodes st)\<rparr>)
      else (Inl DeviceCodeUnavailable, st))"

definition DeviceCodeCleanup :: "nanos \<Rightarrow> RelayStore \<Rightarrow> RelayStore" where
  "DeviceCodeCleanup now st = st\<lparr>st_deviceCodes := delete_where (\<lambda>r. dc_ExpiresAt r < now) (st_deviceCodes st)\<rparr>"

definition RevokedKeyAdd :: "RevokedKey \<Rightarrow> RelayStore \<Rightarrow> RelayStore" where
  "RevokedKeyAdd key st =
     st\<lparr>st_revokedKeys := upsert rk_PublicKey
       (\<lambda>old. old\<lparr>rk_RevokedAt := rk_RevokedAt key, rk_Reason := rk_Reason key\<rparr>) key (st_revokedKeys st)\<rparr>"

definition RevokedKeyCheck :: "string \<Rightarrow> RelayStore \<Rightarrow> bool" where
  "RevokedKeyCheck publicKey st = has_key rk_PublicKey publicKey (st_revokedKeys st)"

text \<open>The one row of \<open>github_app\<close>; an update keeps \<open>created_at\<close>.\<close>

definition GitHubAppGet :: "RelayStore \<Rightarrow> GitHubApp option" where
  "GitHubAppGet st = st_githubApp st"

definition GitHubAppSet :: "GitHubApp \<Rightarrow> RelayStore \<Rightarrow> RelayStore" where
  "GitHubAppSet app st =
     st\<lparr>st_githubApp := Some (case st_githubApp st of None \<Rightarrow> app | Some old \<Rightarrow> app\<lparr>ga_CreatedAt := ga_CreatedAt old\<rparr>)\<rparr>"

section \<open>The cleanup loop\<close>

definition cleanupLoop :: "nanos \<Rightarrow> RelayStore \<Rightarrow> RelayStore" where
  "cleanupLoop now st =
     st\<lparr>st_kv := delete_where (\<lambda>r. case kr_ExpiresAt r of None \<Rightarrow> False | Some t \<Rightarrow> t < now) (st_kv st),
        st_deviceCodes := delete_where (\<lambda>r. dc_ExpiresAt r < now) (st_deviceCodes st),
        st_sessions := delete_where (\<lambda>r. as_ExpiresAt r < now) (st_sessions st),
        st_oauthStates := delete_where (\<lambda>r. oa_ExpiresAt r < now) (st_oauthStates st),
        st_invites := delete_where (\<lambda>r. iv_ExpiresAt r < now) (st_invites st),
        st_grants := delete_where (\<lambda>r. ag_ExpiresAt r < now) (st_grants st),
        st_oidcSessions := delete_where (\<lambda>r. os_ExpiresAt r < now) (st_oidcSessions st),
        st_deviceFlows := delete_where (\<lambda>r. df_ExpiresAt r < now) (st_deviceFlows st)\<rparr>"

end
