(* ===== verification/RelayIdentity.thy ===== *)
theory RelayIdentity
  imports RelayStore
begin

text \<open>
  Who makes a request to the relay and what they may do: \<open>internal/oauth/session.go\<close> (session
  tokens, the admin token, the fallback to the platform), \<open>internal/relay/membership.go\<close>, and the
  node tokens of \<open>internal/relay/node_handler.go\<close>.
\<close>

section \<open>Identities\<close>

record AuthIdentity =
  ai_UserID :: int
  ai_Sub :: string
  ai_Username :: string
  ai_IsAdmin :: bool

definition sessionTokenPrefix :: string where "sessionTokenPrefix = ''sess_''"

text \<open>\<open>now\<close> is the clock of the store's reads, \<open>later\<close> that of the check that follows them.\<close>

definition resolveToken :: "nanos \<Rightarrow> nanos \<Rightarrow> string \<Rightarrow> string \<Rightarrow> RelayStore \<Rightarrow> AuthIdentity option" where
  "resolveToken now later adminToken token st =
     (if has_prefix token sessionTokenPrefix then
        (case OIDCSessionGet now token st of
           Some sess \<Rightarrow>
             let username = (case OIDCUserGetBySub (os_Sub sess) st of None \<Rightarrow> [] | Some u \<Rightarrow> ou_Username u)
             in Some \<lparr>ai_UserID = 0, ai_Sub = os_Sub sess, ai_Username = username, ai_IsAdmin = False\<rparr>
         | None \<Rightarrow>
             (case SessionGet now token st of
                None \<Rightarrow> None
              | Some sess \<Rightarrow>
                  if as_ExpiresAt sess < later then None
                  else (case UserGetByID (as_GitHubID sess) st of
                          None \<Rightarrow> None
                        | Some u \<Rightarrow> Some \<lparr>ai_UserID = us_GitHubID u, ai_Sub = [], ai_Username = us_Username u,
                                         ai_IsAdmin = False\<rparr>)))
      else if adminToken \<noteq> [] \<and> token = adminToken
      then Some \<lparr>ai_UserID = 0, ai_Sub = [], ai_Username = [], ai_IsAdmin = True\<rparr>
      else None)"

text \<open>The headers of a request that carry credentials: \<open>Authorization\<close>, and the session cookie.\<close>

record credentials =
  cr_Authorization :: string
  cr_Cookie :: "string option"

definition authenticate ::
  "(string \<Rightarrow> AuthIdentity option) option \<Rightarrow> nanos \<Rightarrow> nanos \<Rightarrow> string \<Rightarrow> credentials \<Rightarrow> RelayStore \<Rightarrow>
   AuthIdentity option" where
  "authenticate fallback now later adminToken cr st =
     (let auth = cr_Authorization cr;
          bearer = (if has_prefix auth ''Bearer '' then
              (let token = trim_prefix auth ''Bearer '' in
               case resolveToken now later adminToken token st of
                 Some i \<Rightarrow> Some i
               | None \<Rightarrow> (case fallback of None \<Rightarrow> None | Some f \<Rightarrow> f token))
            else None)
      in case bearer of
           Some i \<Rightarrow> Some i
         | None \<Rightarrow>
             (case cr_Cookie cr of
                None \<Rightarrow> None
              | Some v \<Rightarrow> if v \<noteq> [] then resolveToken now later adminToken v st else None))"

definition nodeAuthFromRequest :: "credentials \<Rightarrow> RelayStore \<Rightarrow> NodeRecord option" where
  "nodeAuthFromRequest cr st =
     (let token = trim_prefix (cr_Authorization cr) ''Bearer '' in
      if token = [] then None else NodeGetByToken token st)"

section \<open>Membership\<close>

definition normalizeIdentitySubject :: "string \<Rightarrow> string" where
  "normalizeIdentitySubject sub0 =
     (let sub = trim_space sub0 in
      if sub = [] then []
      else if has_prefix sub ''github:'' \<or> has_prefix sub ''oidc:'' \<or> has_prefix sub ''user:'' then sub
      else if has_prefix sub ''platform:'' then ''user:'' @ trim_prefix sub ''platform:''
      else ''oidc:'' @ sub)"

text \<open>\<open>None\<close> is an identity without a subject.\<close>

definition membershipSubject :: "AuthIdentity option \<Rightarrow> string option" where
  "membershipSubject identity =
     (case identity of
        None \<Rightarrow> None
      | Some i \<Rightarrow>
          if ai_IsAdmin i then Some ''admin''
          else if ai_Sub i \<noteq> [] then Some (normalizeIdentitySubject (ai_Sub i))
          else if ai_UserID i \<noteq> 0 then Some (''github:'' @ show_int (ai_UserID i))
          else None)"

text \<open>\<open>Inl ()\<close> is the error of a request without a subject.\<close>

definition membershipForRequest ::
  "nanos \<Rightarrow> string \<Rightarrow> AuthIdentity option \<Rightarrow> RelayStore \<Rightarrow> unit + NetworkMember option" where
  "membershipForRequest now networkID identity st =
     (case identity of
        None \<Rightarrow> Inl ()
      | Some i \<Rightarrow>
          if ai_IsAdmin i then
            Inr (Some \<lparr>nm_NetworkID = networkID, nm_Subject = ''admin'', nm_Role = NetworkRoleOwner, nm_CreatedAt = now,
                      nm_CreatedBy = []\<rparr>)
          else (case membershipSubject identity of
                  None \<Rightarrow> Inl ()
                | Some subject \<Rightarrow> Inr (NetworkMemberGet networkID subject st)))"

definition requireMembership ::
  "nanos \<Rightarrow> string \<Rightarrow> AuthIdentity option \<Rightarrow> RelayStore \<Rightarrow> unit + NetworkMember option" where
  "requireMembership now networkID identity st = membershipForRequest now networkID identity st"

definition is_owner_role :: "string \<Rightarrow> bool" where
  "is_owner_role role \<longleftrightarrow> map lower_byte role = NetworkRoleOwner"

definition requireOwner :: "nanos \<Rightarrow> string \<Rightarrow> AuthIdentity option \<Rightarrow> RelayStore \<Rightarrow> unit + bool" where
  "requireOwner now networkID identity st =
     (case requireMembership now networkID identity st of
        Inl u \<Rightarrow> Inl ()
      | Inr None \<Rightarrow> Inr False
      | Inr (Some member) \<Rightarrow> Inr (is_owner_role (nm_Role member)))"

definition clientSubjectID :: "AuthIdentity option \<Rightarrow> string" where
  "clientSubjectID identity =
     (case identity of
        None \<Rightarrow> []
      | Some i \<Rightarrow>
          if ai_IsAdmin i then ''admin''
          else if ai_Sub i \<noteq> [] then normalizeIdentitySubject (ai_Sub i)
          else if ai_UserID i \<noteq> 0 then ''github:'' @ show_int (ai_UserID i)
          else if trim_space (ai_Username i) \<noteq> [] then ''user:'' @ trim_space (ai_Username i)
          else ''client'')"

section \<open>Network and group identifiers\<close>

definition resolveNetworkID :: "string \<Rightarrow> string" where
  "resolveNetworkID raw = trim_space raw"

definition requiredNetworkID :: "string \<Rightarrow> string option" where
  "requiredNetworkID raw = (let networkID = resolveNetworkID raw in if networkID = [] then None else Some networkID)"

text \<open>
  The loop over the characters: a byte of a longer character is outside of every range, as the
  character is.
\<close>

definition id_char :: "byte \<Rightarrow> bool" where
  "id_char ch \<longleftrightarrow> CHR ''a'' \<le> ch \<and> ch \<le> CHR ''z'' \<or> CHR ''A'' \<le> ch \<and> ch \<le> CHR ''Z'' \<or>
     CHR ''0'' \<le> ch \<and> ch \<le> CHR ''9'' \<or> ch = CHR ''-'' \<or> ch = CHR ''_''"

definition validateNetworkID :: "string \<Rightarrow> bool" where
  "validateNetworkID raw \<longleftrightarrow> trim_space raw \<noteq> [] \<and> list_all id_char raw"

definition validateGroupName :: "string \<Rightarrow> bool" where
  "validateGroupName raw0 \<longleftrightarrow> (let raw = trim_space raw0 in raw \<noteq> [] \<and> list_all id_char raw)"

section \<open>Answers\<close>

datatype http_error =
    Unauthorized | BadRequest | InternalError | OwnerRequired | MembershipRequired
  | Forbidden | NotFound | Conflict | Gone | TooManyRequests | BadGateway

fun status_code :: "http_error \<Rightarrow> nat" where
  "status_code Unauthorized = 401"
| "status_code BadRequest = 400"
| "status_code InternalError = 500"
| "status_code OwnerRequired = 403"
| "status_code MembershipRequired = 403"
| "status_code Forbidden = 403"
| "status_code NotFound = 404"
| "status_code Conflict = 409"
| "status_code Gone = 410"
| "status_code TooManyRequests = 429"
| "status_code BadGateway = 502"

text \<open>The guards that the handlers share; \<open>failure\<close> answers a request without a subject.\<close>

definition guard_owner ::
  "http_error \<Rightarrow> nanos \<Rightarrow> string \<Rightarrow> AuthIdentity option \<Rightarrow> RelayStore \<Rightarrow> http_error option" where
  "guard_owner failure now networkID identity st =
     (case requireOwner now networkID identity st of
        Inl u \<Rightarrow> Some failure
      | Inr owner \<Rightarrow> if owner then None else Some OwnerRequired)"

definition guard_member ::
  "http_error \<Rightarrow> nanos \<Rightarrow> string \<Rightarrow> AuthIdentity option \<Rightarrow> RelayStore \<Rightarrow> http_error + NetworkMember" where
  "guard_member failure now networkID identity st =
     (case requireMembership now networkID identity st of
        Inl u \<Rightarrow> Inl failure
      | Inr None \<Rightarrow> Inl MembershipRequired
      | Inr (Some member) \<Rightarrow> Inr member)"

section \<open>What the guards let through\<close>

definition owns :: "string \<Rightarrow> AuthIdentity \<Rightarrow> RelayStore \<Rightarrow> bool" where
  "owns networkID i st \<longleftrightarrow> ai_IsAdmin i \<or>
     (\<exists>subject m. membershipSubject (Some i) = Some subject \<and> NetworkMemberGet networkID subject st = Some m \<and>
        is_owner_role (nm_Role m))"

definition belongs :: "string \<Rightarrow> AuthIdentity \<Rightarrow> RelayStore \<Rightarrow> bool" where
  "belongs networkID i st \<longleftrightarrow> ai_IsAdmin i \<or>
     (\<exists>subject m. membershipSubject (Some i) = Some subject \<and> NetworkMemberGet networkID subject st = Some m)"

lemma owner_role [simp]: "is_owner_role NetworkRoleOwner" "\<not> is_owner_role NetworkRoleMember"
  by code_simp+

lemma requireMembership_None [simp]: "requireMembership now networkID None st = Inl ()"
  by (simp add: requireMembership_def membershipForRequest_def)

lemma requireMembership_Some:
  "requireMembership now networkID (Some i) st =
     (if ai_IsAdmin i then Inr (Some \<lparr>nm_NetworkID = networkID, nm_Subject = ''admin'', nm_Role = NetworkRoleOwner,
        nm_CreatedAt = now, nm_CreatedBy = []\<rparr>)
      else case membershipSubject (Some i) of
        None \<Rightarrow> Inl () | Some subject \<Rightarrow> Inr (NetworkMemberGet networkID subject st))"
  by (simp add: requireMembership_def membershipForRequest_def)

lemma requireOwner_True:
  "requireOwner now networkID identity st = Inr True \<longleftrightarrow> (\<exists>i. identity = Some i \<and> owns networkID i st)"
proof (cases identity)
  case (Some i)
  show ?thesis
  proof (cases "ai_IsAdmin i")
    case True
    then show ?thesis by (simp add: requireOwner_def requireMembership_Some Some owns_def)
  next
    case False
    then show ?thesis
      by (cases "membershipSubject (Some i)"; cases "NetworkMemberGet networkID (the (membershipSubject (Some i))) st")
        (simp_all add: requireOwner_def requireMembership_Some Some owns_def)
  qed
qed (simp add: requireOwner_def)

lemma guard_owner_None:
  "guard_owner failure now networkID identity st = None \<longleftrightarrow> (\<exists>i. identity = Some i \<and> owns networkID i st)"
  using requireOwner_True [of now networkID identity st]
  by (cases "requireOwner now networkID identity st") (simp_all add: guard_owner_def)

lemma guard_member_Inr:
  assumes "guard_member failure now networkID identity st = Inr m"
  shows "\<exists>i. identity = Some i \<and> belongs networkID i st"
proof (cases identity)
  case None
  then show ?thesis using assms by (simp add: guard_member_def)
next
  case (Some i)
  show ?thesis
  proof (cases "ai_IsAdmin i")
    case False
    then show ?thesis
      using assms Some
      by (cases "membershipSubject (Some i)"; cases "NetworkMemberGet networkID (the (membershipSubject (Some i))) st")
        (simp_all add: guard_member_def requireMembership_Some belongs_def)
  qed (simp add: Some belongs_def)
qed

lemma owns_belongs: "owns networkID i st \<Longrightarrow> belongs networkID i st"
  by (auto simp: owns_def belongs_def)

text \<open>A subject that identifies a GitHub account can come from an OIDC provider too.\<close>

lemma subject_collision:
  "membershipSubject (Some \<lparr>ai_UserID = 0, ai_Sub = ''github:7'', ai_Username = u, ai_IsAdmin = False\<rparr>) =
   membershipSubject (Some \<lparr>ai_UserID = 7, ai_Sub = [], ai_Username = v, ai_IsAdmin = False\<rparr>)"
proof -
  have "normalizeIdentitySubject ''github:7'' = ''github:7''" "show_int 7 = ''7''" by code_simp+
  then show ?thesis by (simp add: membershipSubject_def)
qed

end
