(* ===== verification/RelayNetworks.thy ===== *)
theory RelayNetworks
  imports RelayIdentity
begin

text \<open>
  The relay's handlers for networks, node enrollments, nodes, invites and keys, \<open>internal/relay/relay.go\<close>
  and \<open>enrollment.go\<close>, and its rate limiter. A handler gets the decoded request (\<open>None\<close>: the body
  is not the expected JSON), the identity the middleware found, and the store; it answers with an
  error or a response. A handler is one step here; \<open>networkCreateHandler\<close> is also given as its two
  halves, the reads and the claim.

  Inputs from outside: the clock, random tokens, \<open>time.ParseDuration\<close> (\<open>parse_duration\<close>) and the
  hexadecimal SHA-256 sum (\<open>sha\<close>).
\<close>

section \<open>Inputs and responses\<close>

record relay_inputs =
  ri_now :: nanos
  ri_later :: nanos
  ri_enrollToken :: string
  ri_enrollID :: string
  ri_nodeToken :: string
  ri_inviteToken :: string

record NodeRedeemResult =
  rd_NodeToken :: string
  rd_NodeName :: string
  rd_NetworkID :: string
  rd_EnrollmentID :: string

record nodeResponse =
  np_NetworkID :: string
  np_Name :: string
  np_PeerURL :: string
  np_Connected :: bool

datatype relay_response =
    NetworksResponse "Network list"
  | NetworkCreated string
  | EnrollmentCreated NodeEnrollment string
  | NodeRegistered NodeRedeemResult
  | NodeRevoked string
  | NodesResponse "nodeResponse list"
  | InviteResponse Invite
  | InvitesResponse "Invite list"
  | NetworkJoined string
  | NoContent
  | KVValue bytes
  | KVEntries "(string \<times> bytes \<times> nanos option) list"

type_synonym answer = "(http_error + relay_response) \<times> RelayStore"

section \<open>Networks\<close>

definition networkListHandler :: "relay_inputs \<Rightarrow> AuthIdentity option \<Rightarrow> RelayStore \<Rightarrow> answer" where
  "networkListHandler r auth st =
     (case auth of
        Some i \<Rightarrow>
          if ai_IsAdmin i then (Inr (NetworksResponse (NetworkList (ri_now r) st)), st)
          else (case membershipSubject auth of
                  None \<Rightarrow> (Inl Unauthorized, st)
                | Some subject \<Rightarrow> (Inr (NetworksResponse (NetworkListByMember (ri_now r) subject st)), st))
      | None \<Rightarrow> (Inl Unauthorized, st))"

text \<open>
  The creation of a network by somebody who is not the admin: the network row and the two reads,
  then the claim, made from what was read.
\<close>

definition create_read ::
  "nanos \<Rightarrow> string \<Rightarrow> string \<Rightarrow> RelayStore \<Rightarrow> (nat \<times> NetworkMember option) \<times> RelayStore" where
  "create_read now networkID subject st =
     (let st1 = NetworkEnsure now networkID st
      in ((NetworkMemberCount networkID st1, NetworkMemberGet networkID subject st1), st1))"

definition create_claim ::
  "nanos \<Rightarrow> string \<Rightarrow> string \<Rightarrow> nat \<times> NetworkMember option \<Rightarrow> RelayStore \<Rightarrow> answer" where
  "create_claim now networkID subject seen st =
     (case seen of
        (count, member) \<Rightarrow>
          if 0 < count \<and> member = None then (Inl Conflict, st)
          else (Inr (NetworkCreated networkID),
                if member = None
                then NetworkMemberUpsert now \<lparr>nm_NetworkID = networkID, nm_Subject = subject,
                       nm_Role = NetworkRoleOwner, nm_CreatedAt = now, nm_CreatedBy = subject\<rparr> st
                else st))"

definition networkCreateHandler ::
  "relay_inputs \<Rightarrow> string option \<Rightarrow> AuthIdentity option \<Rightarrow> RelayStore \<Rightarrow> answer" where
  "networkCreateHandler r req auth st =
     (case req of
        None \<Rightarrow> (Inl BadRequest, st)
      | Some raw \<Rightarrow>
          let networkID = trim_space raw in
          if \<not> validateNetworkID networkID then (Inl BadRequest, st)
          else (case auth of
             None \<Rightarrow> (Inl Unauthorized, st)
           | Some i \<Rightarrow>
               if ai_IsAdmin i then (Inr (NetworkCreated networkID), NetworkEnsure (ri_now r) networkID st)
               else (case membershipSubject auth of
                  None \<Rightarrow> (Inl Unauthorized, st)
                | Some subject \<Rightarrow>
                    (case create_read (ri_now r) networkID subject st of
                       (seen, st1) \<Rightarrow> create_claim (ri_later r) networkID subject seen st1))))"

section \<open>Node enrollments\<close>

definition hashEnrollmentToken :: "(string \<Rightarrow> string) \<Rightarrow> string \<Rightarrow> string" where
  "hashEnrollmentToken sha token = sha (trim_space token)"

datatype enrollment_error =
    EnrollmentTokenRequired | EnrollmentInvalid | EnrollmentNodeNameMismatch | EnrollmentNodeNameRequired
  | EnrollmentStore store_error

definition createNodeEnrollment ::
  "(string \<Rightarrow> string) \<Rightarrow> relay_inputs \<Rightarrow> string \<Rightarrow> string \<Rightarrow> string \<Rightarrow> string \<Rightarrow> int \<Rightarrow> int \<Rightarrow> RelayStore \<Rightarrow>
   (store_error + NodeEnrollment \<times> string) \<times> RelayStore" where
  "createNodeEnrollment sha r networkID ownerSubject issuedBy nodeName uses0 ttl0 st =
     (let uses = (if uses0 \<le> 0 then 1 else uses0);
          ttl = (if ttl0 \<le> 0 then seconds 600 else ttl0);
          token = ''cw_enr_'' @ ri_enrollToken r;
          e = \<lparr>ne_ID = ri_enrollID r, ne_NetworkID = trim_space networkID, ne_OwnerSubject = trim_space ownerSubject,
               ne_IssuedBy = trim_space issuedBy, ne_NodeName = trim_space nodeName,
               ne_TokenHash = hashEnrollmentToken sha token, ne_UsesRemaining = uses,
               ne_ExpiresAt = ri_now r + ttl, ne_CreatedAt = ri_now r, ne_RedeemedAt = None\<rparr>
      in case NodeEnrollmentCreate (ri_now r) e st of
           (Inl err, st1) \<Rightarrow> (Inl err, st1)
         | (Inr u, st1) \<Rightarrow> (Inr (e, token), st1))"

text \<open>The node's name: the enrollment's, which a name in the request must equal.\<close>

definition enrolled_name :: "string \<Rightarrow> string \<Rightarrow> enrollment_error + string" where
  "enrolled_name enrolled nodeName0 =
     (let nodeName = trim_space nodeName0 in
      if enrolled \<noteq> [] \<and> nodeName = [] then Inr enrolled
      else if enrolled \<noteq> [] \<and> nodeName \<noteq> enrolled then Inl EnrollmentNodeNameMismatch
      else if nodeName = [] then Inl EnrollmentNodeNameRequired
      else Inr nodeName)"

definition redeemNodeEnrollment ::
  "(string \<Rightarrow> string) \<Rightarrow> relay_inputs \<Rightarrow> string \<Rightarrow> string \<Rightarrow> string \<Rightarrow> int option \<Rightarrow> RelayStore \<Rightarrow>
   (enrollment_error + NodeRedeemResult) \<times> RelayStore" where
  "redeemNodeEnrollment sha r token0 nodeName0 peerURL githubID st =
     (let token = trim_space token0 in
      if token = [] then (Inl EnrollmentTokenRequired, st)
      else
        let now = ri_now r; tokenHash = hashEnrollmentToken sha token in
        case NodeEnrollmentGetByTokenHash tokenHash st of
          None \<Rightarrow> (Inl EnrollmentInvalid, st)
        | Some e \<Rightarrow>
            if ne_ExpiresAt e < now \<or> ne_UsesRemaining e \<le> 0 then (Inl EnrollmentInvalid, st)
            else (case enrolled_name (ne_NodeName e) nodeName0 of
               Inl err \<Rightarrow> (Inl err, st)
             | Inr nodeName \<Rightarrow>
                 (case NodeEnrollmentConsume tokenHash now st of
                    (None, st1) \<Rightarrow> (Inl EnrollmentInvalid, st1)
                  | (Some consumed, st1) \<Rightarrow>
                      if ne_ExpiresAt consumed < now then (Inl EnrollmentInvalid, st1)
                      else
                        let node = \<lparr>nr_NetworkID = ne_NetworkID consumed, nr_Name = nodeName,
                                    nr_Token = ri_nodeToken r, nr_PeerURL = trim_space peerURL,
                                    nr_GitHubID = githubID, nr_OwnerSubject = ne_OwnerSubject consumed,
                                    nr_AuthorizedBy = ne_IssuedBy consumed, nr_EnrollmentID = ne_ID consumed,
                                    nr_AuthorizedAt = now, nr_LastSeenAt = now\<rparr>
                        in (case NodeRegister now node st1 of
                              (Inl err, st2) \<Rightarrow> (Inl (EnrollmentStore err), st2)
                            | (Inr u, st2) \<Rightarrow>
                                (Inr \<lparr>rd_NodeToken = ri_nodeToken r, rd_NodeName = nodeName,
                                      rd_NetworkID = ne_NetworkID consumed, rd_EnrollmentID = ne_ID consumed\<rparr>,
                                 st2)))))"

record nodeEnrollmentCreateRequest =
  ec_NetworkID :: string
  ec_NodeName :: string
  ec_Uses :: int
  ec_TTL :: string

definition nodeEnrollmentCreateHandler ::
  "(string \<Rightarrow> string) \<Rightarrow> (string \<Rightarrow> int option) \<Rightarrow> relay_inputs \<Rightarrow> nodeEnrollmentCreateRequest option \<Rightarrow>
   AuthIdentity option \<Rightarrow> RelayStore \<Rightarrow> answer" where
  "nodeEnrollmentCreateHandler sha parse_duration r req0 auth st =
     (case req0 of
        None \<Rightarrow> (Inl BadRequest, st)
      | Some req \<Rightarrow>
          (case requiredNetworkID (ec_NetworkID req) of
             None \<Rightarrow> (Inl BadRequest, st)
           | Some networkID \<Rightarrow>
               (case guard_member Unauthorized (ri_now r) networkID auth st of
                  Inl err \<Rightarrow> (Inl err, st)
                | Inr member \<Rightarrow>
                    let uses = (if ec_Uses req \<le> 0 then 1 else ec_Uses req);
                        ttl = (if trim_space (ec_TTL req) \<noteq> [] then parse_duration (ec_TTL req) else Some (seconds 600))
                    in (case ttl of
                          None \<Rightarrow> (Inl BadRequest, st)
                        | Some d \<Rightarrow>
                            (case createNodeEnrollment sha r networkID (nm_Subject member) (nm_Subject member)
                                    (ec_NodeName req) uses d st of
                               (Inl err, st1) \<Rightarrow> (Inl InternalError, st1)
                             | (Inr (e, token), st1) \<Rightarrow> (Inr (EnrollmentCreated e token), st1))))))"

record nodeEnrollmentRedeemRequest =
  er_NodeName :: string
  er_EnrollmentToken :: string
  er_PeerURL :: string

fun redeem_status :: "enrollment_error \<Rightarrow> http_error" where
  "redeem_status EnrollmentTokenRequired = BadRequest"
| "redeem_status EnrollmentNodeNameRequired = BadRequest"
| "redeem_status EnrollmentInvalid = Forbidden"
| "redeem_status EnrollmentNodeNameMismatch = Forbidden"
| "redeem_status (EnrollmentStore err) = InternalError"

definition nodeEnrollmentRedeemHandler ::
  "(string \<Rightarrow> string) \<Rightarrow> relay_inputs \<Rightarrow> nodeEnrollmentRedeemRequest option \<Rightarrow> RelayStore \<Rightarrow> answer" where
  "nodeEnrollmentRedeemHandler sha r req0 st =
     (case req0 of
        None \<Rightarrow> (Inl BadRequest, st)
      | Some req \<Rightarrow>
          (case redeemNodeEnrollment sha r (er_EnrollmentToken req) (er_NodeName req) (er_PeerURL req) None st of
             (Inl err, st1) \<Rightarrow> (Inl (redeem_status err), st1)
           | (Inr redeemed, st1) \<Rightarrow> (Inr (NodeRegistered redeemed), st1)))"

section \<open>Nodes\<close>

definition nodeRevokeHandler ::
  "relay_inputs \<Rightarrow> string \<Rightarrow> string \<Rightarrow> AuthIdentity option \<Rightarrow> RelayStore \<Rightarrow> answer" where
  "nodeRevokeHandler r name network auth st =
     (case requiredNetworkID network of
        None \<Rightarrow> (Inl BadRequest, st)
      | Some networkID \<Rightarrow>
          (case guard_owner Unauthorized (ri_now r) networkID auth st of
             Some err \<Rightarrow> (Inl err, st)
           | None \<Rightarrow>
               (case NodeGet networkID name st of
                  None \<Rightarrow> (Inl NotFound, st)
                | Some node \<Rightarrow> (Inr (NodeRevoked name), NodeDelete networkID name st))))"

definition node_response :: "nanos \<Rightarrow> NodeRecord \<Rightarrow> nodeResponse" where
  "node_response now n =
     \<lparr>np_NetworkID = nr_NetworkID n, np_Name = nr_Name n, np_PeerURL = nr_PeerURL n,
      np_Connected = (now - nr_LastSeenAt n < seconds 120)\<rparr>"

text \<open>\<open>all\<close> is the query parameter of that name, \<open>network\<close> the network identifier.\<close>

definition nodesListHandler ::
  "relay_inputs \<Rightarrow> string \<Rightarrow> string \<Rightarrow> AuthIdentity option \<Rightarrow> RelayStore \<Rightarrow> answer" where
  "nodesListHandler r allp network auth st =
     (let every = (map lower_byte (trim_space allp) = ''true'');
          respond = (\<lambda>nodes. (Inr (NodesResponse (map (node_response (ri_now r)) nodes)), st))
      in if (case auth of None \<Rightarrow> False | Some i \<Rightarrow> ai_IsAdmin i) \<and> every then respond (NodeListAll st)
         else if every then
           (case membershipSubject auth of
              None \<Rightarrow> (Inl Unauthorized, st)
            | Some subject \<Rightarrow>
                respond (concat (map (\<lambda>n. NodeList (net_ID n) st) (NetworkListByMember (ri_now r) subject st))))
         else
           (case requiredNetworkID network of
              None \<Rightarrow> (Inl BadRequest, st)
            | Some networkID \<Rightarrow>
                (case guard_member Unauthorized (ri_now r) networkID auth st of
                   Inl err \<Rightarrow> (Inl err, st)
                 | Inr member \<Rightarrow> respond (NodeList networkID st))))"

text \<open>A node lists the nodes of its own network; anybody else goes through \<open>nodesListHandler\<close>.\<close>

definition nodes_for_node :: "relay_inputs \<Rightarrow> NodeRecord \<Rightarrow> RelayStore \<Rightarrow> answer" where
  "nodes_for_node r node st =
     (Inr (NodesResponse (map (\<lambda>n. (node_response (ri_now r) n)\<lparr>np_NetworkID := []\<rparr>)
        (NodeList (nr_NetworkID node) st))), st)"

text \<open>The store's part of \<open>/node/connect\<close>: the node's record, read by its token, is written again.\<close>

definition node_connect :: "relay_inputs \<Rightarrow> credentials \<Rightarrow> string \<Rightarrow> RelayStore \<Rightarrow> (http_error + NodeRecord) \<times> RelayStore" where
  "node_connect r cr peerURL st =
     (case nodeAuthFromRequest cr st of
        None \<Rightarrow> (Inl Unauthorized, st)
      | Some node0 \<Rightarrow>
          let node = node0\<lparr>nr_PeerURL := trim_space peerURL, nr_LastSeenAt := ri_now r\<rparr> in
          case NodeRegister (ri_now r) node st of
            (Inl err, st1) \<Rightarrow> (Inl InternalError, st1)
          | (Inr u, st1) \<Rightarrow> (Inr node, st1))"

section \<open>Invites\<close>

text \<open>\<open>inviteCreateHandler\<close> ignores a decoding error: the request's fields are then empty.\<close>

record inviteCreateRequest =
  ic_NetworkID :: string
  ic_Uses :: int
  ic_TTL :: string

definition inviteCreateHandler ::
  "(string \<Rightarrow> int option) \<Rightarrow> relay_inputs \<Rightarrow> inviteCreateRequest \<Rightarrow> AuthIdentity option \<Rightarrow> RelayStore \<Rightarrow> answer" where
  "inviteCreateHandler parse_duration r req auth st =
     (let uses = (if ic_Uses req \<le> 0 then 1 else ic_Uses req) in
      case requiredNetworkID (ic_NetworkID req) of
        None \<Rightarrow> (Inl BadRequest, st)
      | Some networkID \<Rightarrow>
          (case guard_owner Unauthorized (ri_now r) networkID auth st of
             Some err \<Rightarrow> (Inl err, st)
           | None \<Rightarrow>
               (case (if ic_TTL req \<noteq> [] then parse_duration (ic_TTL req) else Some (seconds 3600)) of
                  None \<Rightarrow> (Inl BadRequest, st)
                | Some ttl \<Rightarrow>
                    let createdBy = (case auth of None \<Rightarrow> None
                          | Some i \<Rightarrow> if ai_UserID i \<noteq> 0 then Some (ai_UserID i) else None);
                        invite = \<lparr>iv_NetworkID = networkID, iv_Token = ri_inviteToken r, iv_CreatedBy = createdBy,
                                  iv_UsesRemaining = uses, iv_ExpiresAt = ri_now r + ttl, iv_CreatedAt = ri_now r\<rparr>
                    in (case InviteCreate (ri_now r) invite st of
                          (Inl err, st1) \<Rightarrow> (Inl InternalError, st1)
                        | (Inr u, st1) \<Rightarrow> (Inr (InviteResponse invite), st1)))))"

definition inviteListHandler :: "relay_inputs \<Rightarrow> string \<Rightarrow> AuthIdentity option \<Rightarrow> RelayStore \<Rightarrow> answer" where
  "inviteListHandler r network auth st =
     (case requiredNetworkID network of
        None \<Rightarrow> (Inl BadRequest, st)
      | Some networkID \<Rightarrow>
          (case guard_owner Unauthorized (ri_now r) networkID auth st of
             Some err \<Rightarrow> (Inl err, st)
           | None \<Rightarrow> (Inr (InvitesResponse (InviteList (ri_now r) networkID st)), st)))"

definition inviteDeleteHandler ::
  "relay_inputs \<Rightarrow> string \<Rightarrow> string \<Rightarrow> AuthIdentity option \<Rightarrow> RelayStore \<Rightarrow> answer" where
  "inviteDeleteHandler r token network auth st =
     (case requiredNetworkID network of
        None \<Rightarrow> (Inl BadRequest, st)
      | Some networkID \<Rightarrow>
          (case guard_owner Unauthorized (ri_now r) networkID auth st of
             Some err \<Rightarrow> (Inl err, st)
           | None \<Rightarrow> (Inr NoContent, InviteDelete networkID token st)))"

text \<open>Joining with an invite; an identity without a subject is refused after the invite was consumed.\<close>

definition networkJoinHandler ::
  "relay_inputs \<Rightarrow> string option \<Rightarrow> AuthIdentity option \<Rightarrow> RelayStore \<Rightarrow> answer" where
  "networkJoinHandler r req auth st =
     (case req of
        None \<Rightarrow> (Inl BadRequest, st)
      | Some token \<Rightarrow>
          if trim_space token = [] then (Inl BadRequest, st)
          else (case InviteGet (ri_now r) token st of
             None \<Rightarrow> (Inl Forbidden, st)
           | Some invite \<Rightarrow>
               (case InviteConsume (ri_later r) token st of
                  (Inl err, st1) \<Rightarrow> (Inl Forbidden, st1)
                | (Inr u, st1) \<Rightarrow>
                    (case membershipSubject auth of
                       None \<Rightarrow> (Inl Unauthorized, st1)
                     | Some subject \<Rightarrow>
                         let role = (case NetworkMemberGet (iv_NetworkID invite) subject st1 of
                               Some existing \<Rightarrow> nm_Role existing | None \<Rightarrow> NetworkRoleMember)
                         in (Inr (NetworkJoined (iv_NetworkID invite)),
                             NetworkMemberUpsert (ri_later r)
                               \<lparr>nm_NetworkID = iv_NetworkID invite, nm_Subject = subject, nm_Role = role,
                                nm_CreatedAt = ri_later r, nm_CreatedBy = iv_Token invite\<rparr> st1)))))"

record joinRequest =
  jr_NodeName :: string
  jr_InviteToken :: string

definition joinHandler :: "(string \<Rightarrow> string) \<Rightarrow> relay_inputs \<Rightarrow> joinRequest option \<Rightarrow> RelayStore \<Rightarrow> answer" where
  "joinHandler sha r req0 st =
     (case req0 of
        None \<Rightarrow> (Inl BadRequest, st)
      | Some req \<Rightarrow>
          if jr_NodeName req = [] \<or> jr_InviteToken req = [] then (Inl BadRequest, st)
          else
            let found = InviteGet (ri_now r) (jr_InviteToken req) st in
            case InviteConsume (ri_later r) (jr_InviteToken req) st of
              (Inl err, st1) \<Rightarrow> (Inl Forbidden, st1)
            | (Inr u, st1) \<Rightarrow>
                (case found of
                   None \<Rightarrow> (Inl Forbidden, st1)
                 | Some invite \<Rightarrow>
                     if trim_space (iv_NetworkID invite) = [] then (Inl Forbidden, st1)
                     else
                       let githubID = iv_CreatedBy invite;
                           ownerSubject = (case githubID of None \<Rightarrow> [] | Some g \<Rightarrow> ''github:'' @ show_int g)
                       in (case createNodeEnrollment sha r (iv_NetworkID invite) ownerSubject ownerSubject
                                 (jr_NodeName req) 1 (seconds 600) st1 of
                             (Inl err, st2) \<Rightarrow> (Inl InternalError, st2)
                           | (Inr (e, token), st2) \<Rightarrow>
                               (case redeemNodeEnrollment sha r token (jr_NodeName req) [] githubID st2 of
                                  (Inl err, st3) \<Rightarrow> (Inl InternalError, st3)
                                | (Inr redeemed, st3) \<Rightarrow> (Inr (NodeRegistered redeemed), st3)))))"

section \<open>Keys and values\<close>

text \<open>\<open>body\<close> is the request's body, of which at most a mebibyte is read.\<close>

definition kvSetHandler ::
  "(string \<Rightarrow> int option) \<Rightarrow> relay_inputs \<Rightarrow> string \<Rightarrow> string \<Rightarrow> string \<Rightarrow> string \<Rightarrow> bytes \<Rightarrow> AuthIdentity option \<Rightarrow>
   RelayStore \<Rightarrow> answer" where
  "kvSetHandler parse_duration r ns key network xttl body auth st =
     (case requiredNetworkID network of
        None \<Rightarrow> (Inl BadRequest, st)
      | Some networkID \<Rightarrow>
          (case guard_member Unauthorized (ri_now r) networkID auth st of
             Inl err \<Rightarrow> (Inl err, st)
           | Inr member \<Rightarrow>
               (case (if xttl \<noteq> [] then map_option Some (parse_duration xttl) else Some None) of
                  None \<Rightarrow> (Inl BadRequest, st)
                | Some ttl \<Rightarrow> (Inr NoContent, KVSet (ri_now r) networkID ns key (take (2 ^ 20) body) ttl st))))"

definition kvGetHandler ::
  "relay_inputs \<Rightarrow> string \<Rightarrow> string \<Rightarrow> string \<Rightarrow> AuthIdentity option \<Rightarrow> RelayStore \<Rightarrow> answer" where
  "kvGetHandler r ns key network auth st =
     (case requiredNetworkID network of
        None \<Rightarrow> (Inl BadRequest, st)
      | Some networkID \<Rightarrow>
          (case guard_member Unauthorized (ri_now r) networkID auth st of
             Inl err \<Rightarrow> (Inl err, st)
           | Inr member \<Rightarrow>
               (case KVGet (ri_now r) networkID ns key st of
                  None \<Rightarrow> (Inl NotFound, st)
                | Some v \<Rightarrow> (Inr (KVValue v), st))))"

definition kvDeleteHandler ::
  "relay_inputs \<Rightarrow> string \<Rightarrow> string \<Rightarrow> string \<Rightarrow> AuthIdentity option \<Rightarrow> RelayStore \<Rightarrow> answer" where
  "kvDeleteHandler r ns key network auth st =
     (case requiredNetworkID network of
        None \<Rightarrow> (Inl BadRequest, st)
      | Some networkID \<Rightarrow>
          (case guard_owner Unauthorized (ri_now r) networkID auth st of
             Some err \<Rightarrow> (Inl err, st)
           | None \<Rightarrow> (Inr NoContent, KVDelete networkID ns key st)))"

definition kvListHandler ::
  "relay_inputs \<Rightarrow> string \<Rightarrow> string \<Rightarrow> string \<Rightarrow> AuthIdentity option \<Rightarrow> RelayStore \<Rightarrow> answer" where
  "kvListHandler r ns pre network auth st =
     (case requiredNetworkID network of
        None \<Rightarrow> (Inl BadRequest, st)
      | Some networkID \<Rightarrow>
          (case guard_member Unauthorized (ri_now r) networkID auth st of
             Inl err \<Rightarrow> (Inl err, st)
           | Inr member \<Rightarrow> (Inr (KVEntries (KVList (ri_now r) networkID ns pre st)), st)))"

section \<open>The rate limiter\<close>

record rateLimiter =
  rl_entries :: "(string, nanos list) gomap"
  rl_limit :: nat
  rl_window :: int

definition newRateLimiter :: "nat \<Rightarrow> int \<Rightarrow> rateLimiter" where
  "newRateLimiter limit window = \<lparr>rl_entries = [], rl_limit = limit, rl_window = window\<rparr>"

definition rl_allow :: "nanos \<Rightarrow> string \<Rightarrow> rateLimiter \<Rightarrow> bool \<times> rateLimiter" where
  "rl_allow now ip rl =
     (let cutoff = now - rl_window rl;
          times = (case mget (rl_entries rl) ip of None \<Rightarrow> [] | Some ts \<Rightarrow> ts);
          valid = filter (\<lambda>t. cutoff < t) times
      in if rl_limit rl \<le> length valid then (False, rl\<lparr>rl_entries := mput ip valid (rl_entries rl)\<rparr>)
         else (True, rl\<lparr>rl_entries := mput ip (valid @ [now]) (rl_entries rl)\<rparr>))"

text \<open>
  The address a request is counted under: the first entry of \<open>X-Forwarded-For\<close>, else the peer's
  host, which \<open>net.SplitHostPort\<close> gives.
\<close>

definition remoteIP :: "string \<Rightarrow> string \<Rightarrow> string" where
  "remoteIP xff peerHost = (if xff \<noteq> [] then trim_space (hd (split_on (CHR '','') xff)) else peerHost)"

definition rateLimitMiddleware ::
  "nanos \<Rightarrow> string \<Rightarrow> string \<Rightarrow> (RelayStore \<Rightarrow> answer) \<Rightarrow> rateLimiter \<times> RelayStore \<Rightarrow>
   (http_error + relay_response) \<times> rateLimiter \<times> RelayStore" where
  "rateLimitMiddleware now xff peerHost next s =
     (case rl_allow now (remoteIP xff peerHost) (fst s) of
        (False, rl) \<Rightarrow> (Inl TooManyRequests, rl, snd s)
      | (True, rl) \<Rightarrow> (case next (snd s) of (a, st) \<Rightarrow> (a, rl, st)))"

end
