(* ===== verification/RelayGroups.thy ===== *)
theory RelayGroups
  imports RelayNetworks
begin

text \<open>
  The relay's handlers for groups, \<open>internal/relay/groups.go\<close>: an owner of the network creates,
  lists and deletes groups and sets their policy; a node, by its token, may add and remove its own
  sessions.
\<close>

section \<open>Responses\<close>

record groupResponse =
  gs_NetworkID :: string
  gs_Name :: string
  gs_CreatedAt :: nanos
  gs_CreatedBy :: string
  gs_Members :: "GroupMember list"
  gs_Policy :: "GroupPolicy option"

datatype group_answer =
    GroupResponse groupResponse
  | GroupsResponse "groupResponse list"
  | BindingsResponse "GroupBinding list"
  | GroupDeleted string string
  | MemberAdded GroupMember
  | MemberRemoved string string string string
  | PolicyResponse GroupPolicy

section \<open>Policies\<close>

definition normalizeGroupMessagesPolicy :: "string \<Rightarrow> string option" where
  "normalizeGroupMessagesPolicy raw =
     (let p = trim_space (to_lower raw) in
      if p = [] \<or> p = GroupMessagesInternalOnly then Some GroupMessagesInternalOnly
      else if p = GroupMessagesOpen then Some GroupMessagesOpen
      else None)"

definition normalizeGroupDebugPolicy :: "string \<Rightarrow> string option" where
  "normalizeGroupDebugPolicy raw =
     (let p = trim_space (to_lower raw) in
      if p = [] \<or> p = GroupDebugObserveOnly then Some GroupDebugObserveOnly
      else if p = GroupDebugNone then Some GroupDebugNone
      else if p = GroupDebugFull then Some GroupDebugFull
      else None)"

section \<open>Groups\<close>

record groupCreateRequest =
  gc_NetworkID :: string
  gc_Name :: string

definition groupsCreateHandler ::
  "relay_inputs \<Rightarrow> groupCreateRequest option \<Rightarrow> AuthIdentity option \<Rightarrow> RelayStore \<Rightarrow>
   (http_error + group_answer) \<times> RelayStore" where
  "groupsCreateHandler r req0 auth st =
     (case auth of
        None \<Rightarrow> (Inl Unauthorized, st)
      | Some i \<Rightarrow>
          (case req0 of
             None \<Rightarrow> (Inl BadRequest, st)
           | Some req \<Rightarrow>
               (case requiredNetworkID (gc_NetworkID req) of
                  None \<Rightarrow> (Inl BadRequest, st)
                | Some networkID \<Rightarrow>
                    if \<not> validateGroupName (gc_Name req) then (Inl BadRequest, st)
                    else (case guard_owner InternalError (ri_now r) networkID auth st of
                       Some err \<Rightarrow> (Inl err, st)
                     | None \<Rightarrow>
                         if membershipSubject auth = None \<and> \<not> ai_IsAdmin i then (Inl Unauthorized, st)
                         else
                           let createdBy = (case membershipSubject auth of None \<Rightarrow> [] | Some s \<Rightarrow> s);
                               g = \<lparr>gr_NetworkID = networkID, gr_Name = trim_space (gc_Name req),
                                    gr_CreatedAt = ri_later r, gr_CreatedBy = createdBy\<rparr>
                           in (case GroupCreate (ri_later r) g st of
                                 (Inl err, st1) \<Rightarrow>
                                   (Inl (if err = GroupExists then Conflict else InternalError), st1)
                               | (Inr u, st1) \<Rightarrow>
                                   (Inr (GroupResponse \<lparr>gs_NetworkID = networkID, gs_Name = gr_Name g,
                                      gs_CreatedAt = gr_CreatedAt g, gs_CreatedBy = createdBy, gs_Members = [],
                                      gs_Policy = GroupPolicyGet networkID (gr_Name g) st1\<rparr>), st1))))))"

definition groupsListHandler ::
  "relay_inputs \<Rightarrow> string \<Rightarrow> AuthIdentity option \<Rightarrow> RelayStore \<Rightarrow> (http_error + group_answer) \<times> RelayStore" where
  "groupsListHandler r network auth st =
     (case auth of
        None \<Rightarrow> (Inl Unauthorized, st)
      | Some i \<Rightarrow>
          (case requiredNetworkID network of
             None \<Rightarrow> (Inl BadRequest, st)
           | Some networkID \<Rightarrow>
               (case guard_owner InternalError (ri_now r) networkID auth st of
                  Some err \<Rightarrow> (Inl err, st)
                | None \<Rightarrow>
                    (Inr (GroupsResponse (map (\<lambda>g. \<lparr>gs_NetworkID = gr_NetworkID g, gs_Name = gr_Name g,
                        gs_CreatedAt = gr_CreatedAt g, gs_CreatedBy = gr_CreatedBy g, gs_Members = [],
                        gs_Policy = GroupPolicyGet networkID (gr_Name g) st\<rparr>) (GroupList networkID st))), st))))"

definition loadGroupResponse :: "string \<Rightarrow> string \<Rightarrow> RelayStore \<Rightarrow> groupResponse option" where
  "loadGroupResponse networkID groupName st =
     (case GroupGet networkID groupName st of
        None \<Rightarrow> None
      | Some g \<Rightarrow> Some \<lparr>gs_NetworkID = gr_NetworkID g, gs_Name = gr_Name g, gs_CreatedAt = gr_CreatedAt g,
          gs_CreatedBy = gr_CreatedBy g, gs_Members = GroupMemberList networkID groupName st,
          gs_Policy = GroupPolicyGet networkID groupName st\<rparr>)"

definition groupsGetHandler ::
  "relay_inputs \<Rightarrow> string \<Rightarrow> string \<Rightarrow> AuthIdentity option \<Rightarrow> RelayStore \<Rightarrow>
   (http_error + group_answer) \<times> RelayStore" where
  "groupsGetHandler r name network auth st =
     (case auth of
        None \<Rightarrow> (Inl Unauthorized, st)
      | Some i \<Rightarrow>
          (case requiredNetworkID network of
             None \<Rightarrow> (Inl BadRequest, st)
           | Some networkID \<Rightarrow>
               let groupName = trim_space name in
               if \<not> validateGroupName groupName then (Inl BadRequest, st)
               else (case guard_owner InternalError (ri_now r) networkID auth st of
                  Some err \<Rightarrow> (Inl err, st)
                | None \<Rightarrow>
                    (case loadGroupResponse networkID groupName st of
                       None \<Rightarrow> (Inl NotFound, st)
                     | Some g \<Rightarrow> (Inr (GroupResponse g), st)))))"

definition groupsDeleteHandler ::
  "relay_inputs \<Rightarrow> string \<Rightarrow> string \<Rightarrow> AuthIdentity option \<Rightarrow> RelayStore \<Rightarrow>
   (http_error + group_answer) \<times> RelayStore" where
  "groupsDeleteHandler r name network auth st =
     (case auth of
        None \<Rightarrow> (Inl Unauthorized, st)
      | Some i \<Rightarrow>
          (case requiredNetworkID network of
             None \<Rightarrow> (Inl BadRequest, st)
           | Some networkID \<Rightarrow>
               let groupName = trim_space name in
               if \<not> validateGroupName groupName then (Inl BadRequest, st)
               else (case guard_owner InternalError (ri_now r) networkID auth st of
                  Some err \<Rightarrow> (Inl err, st)
                | None \<Rightarrow>
                    (case GroupDelete networkID groupName st of
                       (Inl err, st1) \<Rightarrow> (Inl (if err = GroupNotFound then NotFound else InternalError), st1)
                     | (Inr u, st1) \<Rightarrow> (Inr (GroupDeleted networkID groupName), st1)))))"

section \<open>Members\<close>

text \<open>
  Whose sessions a request is about: a node may only name itself, anybody else must own the network.
\<close>

definition member_target ::
  "relay_inputs \<Rightarrow> credentials \<Rightarrow> AuthIdentity option \<Rightarrow> string \<Rightarrow> string \<Rightarrow> RelayStore \<Rightarrow>
   http_error + string \<times> string" where
  "member_target r cr auth network nodeName st =
     (case nodeAuthFromRequest cr st of
        Some node \<Rightarrow>
          let name = (if nodeName = [] then nr_Name node else nodeName) in
          if name \<noteq> nr_Name node then Inl Forbidden else Inr (nr_NetworkID node, name)
      | None \<Rightarrow>
          (case auth of
             None \<Rightarrow> Inl Unauthorized
           | Some i \<Rightarrow>
               (case requiredNetworkID network of
                  None \<Rightarrow> Inl BadRequest
                | Some networkID \<Rightarrow>
                    if nodeName = [] then Inl BadRequest
                    else (case guard_owner InternalError (ri_now r) networkID auth st of
                       Some err \<Rightarrow> Inl err
                     | None \<Rightarrow> Inr (networkID, nodeName)))))"

definition groupBindingsHandler ::
  "relay_inputs \<Rightarrow> credentials \<Rightarrow> string \<Rightarrow> string \<Rightarrow> string \<Rightarrow> AuthIdentity option \<Rightarrow> RelayStore \<Rightarrow>
   (http_error + group_answer) \<times> RelayStore" where
  "groupBindingsHandler r cr node_name session_name network auth st =
     (let nodeName = trim_space node_name; sessionName = trim_space session_name in
      if sessionName = [] then (Inl BadRequest, st)
      else (case member_target r cr auth network nodeName st of
         Inl err \<Rightarrow> (Inl err, st)
       | Inr (networkID, name) \<Rightarrow>
           (Inr (BindingsResponse (GroupBindingsForSession networkID name sessionName st)), st)))"

record groupMemberRequest =
  gq_NetworkID :: string
  gq_NodeName :: string
  gq_SessionName :: string

definition groupMembersAddHandler ::
  "relay_inputs \<Rightarrow> credentials \<Rightarrow> string \<Rightarrow> groupMemberRequest option \<Rightarrow> AuthIdentity option \<Rightarrow> RelayStore \<Rightarrow>
   (http_error + group_answer) \<times> RelayStore" where
  "groupMembersAddHandler r cr name req0 auth st =
     (let groupName = trim_space name in
      if \<not> validateGroupName groupName then (Inl BadRequest, st)
      else (case req0 of
         None \<Rightarrow> (Inl BadRequest, st)
       | Some req \<Rightarrow>
           let sessionName = trim_space (gq_SessionName req) in
           if sessionName = [] then (Inl BadRequest, st)
           else (case member_target r cr auth (gq_NetworkID req) (trim_space (gq_NodeName req)) st of
              Inl err \<Rightarrow> (Inl err, st)
            | Inr (networkID, nodeName) \<Rightarrow>
                let member = \<lparr>gm_NetworkID = networkID, gm_GroupName = groupName, gm_NodeName = nodeName,
                              gm_SessionName = sessionName, gm_CreatedAt = ri_later r\<rparr>
                in (case GroupMemberAdd member st of
                      (Inl err, st1) \<Rightarrow> (Inl (if err = GroupNotFound then NotFound else InternalError), st1)
                    | (Inr u, st1) \<Rightarrow> (Inr (MemberAdded member), st1)))))"

definition groupMembersRemoveHandler ::
  "relay_inputs \<Rightarrow> credentials \<Rightarrow> string \<Rightarrow> string \<Rightarrow> string \<Rightarrow> string \<Rightarrow> AuthIdentity option \<Rightarrow> RelayStore \<Rightarrow>
   (http_error + group_answer) \<times> RelayStore" where
  "groupMembersRemoveHandler r cr name node_name session_name network auth st =
     (let groupName = trim_space name in
      if \<not> validateGroupName groupName then (Inl BadRequest, st)
      else
        let sessionName = trim_space session_name in
        if sessionName = [] then (Inl BadRequest, st)
        else (case member_target r cr auth network (trim_space node_name) st of
           Inl err \<Rightarrow> (Inl err, st)
         | Inr (networkID, nodeName) \<Rightarrow>
             (case GroupMemberRemove networkID groupName nodeName sessionName st of
                (Inl err, st1) \<Rightarrow> (Inl (if err = GroupMemberNotFound then NotFound else InternalError), st1)
              | (Inr u, st1) \<Rightarrow> (Inr (MemberRemoved networkID groupName nodeName sessionName), st1))))"

section \<open>The policy of a group\<close>

record groupPolicyRequest =
  pq_NetworkID :: string
  pq_MessagesPolicy :: string
  pq_DebugPolicy :: string

definition groupPolicySetHandler ::
  "relay_inputs \<Rightarrow> string \<Rightarrow> groupPolicyRequest option \<Rightarrow> AuthIdentity option \<Rightarrow> RelayStore \<Rightarrow>
   (http_error + group_answer) \<times> RelayStore" where
  "groupPolicySetHandler r name req0 auth st =
     (case auth of
        None \<Rightarrow> (Inl Unauthorized, st)
      | Some i \<Rightarrow>
          let groupName = trim_space name in
          if \<not> validateGroupName groupName then (Inl BadRequest, st)
          else (case req0 of
             None \<Rightarrow> (Inl BadRequest, st)
           | Some req \<Rightarrow>
               (case requiredNetworkID (pq_NetworkID req) of
                  None \<Rightarrow> (Inl BadRequest, st)
                | Some networkID \<Rightarrow>
                    (case (normalizeGroupMessagesPolicy (pq_MessagesPolicy req),
                           normalizeGroupDebugPolicy (pq_DebugPolicy req)) of
                       (Some messages, Some debug) \<Rightarrow>
                         (case guard_owner InternalError (ri_now r) networkID auth st of
                            Some err \<Rightarrow> (Inl err, st)
                          | None \<Rightarrow>
                              let policy = \<lparr>gp_NetworkID = networkID, gp_GroupName = groupName,
                                    gp_MessagesPolicy = messages, gp_DebugPolicy = debug, gp_UpdatedAt = ri_later r\<rparr>
                              in (case GroupPolicySet policy st of
                                    (Inl err, st1) \<Rightarrow>
                                      (Inl (if err = GroupNotFound then NotFound else InternalError), st1)
                                  | (Inr u, st1) \<Rightarrow> (Inr (PolicyResponse policy), st1)))
                     | _ \<Rightarrow> (Inl BadRequest, st)))))"

end
