(* ===== verification/RelayAccess.thy ===== *)
theory RelayAccess
  imports RelayGroups
begin

text \<open>
  What the relay signs: \<open>internal/relay/network_auth.go\<close> (the issuer's state and the credentials
  of clients and nodes) and \<open>internal/relay/access.go\<close> (access grants). The signature scheme, the
  JSON coding of the claims and of the issuer's state, the fresh key pair and the random token
  identifier are inputs. An event the revocation publishes is part of its answer.
\<close>

section \<open>Inputs and responses\<close>

record signing_inputs =
  si_crypto :: ed25519
  si_decState :: "bytes \<Rightarrow> IssuerState option"
  si_encState :: "IssuerState \<Rightarrow> bytes option"
  si_encRuntime :: "RuntimeClaims \<Rightarrow> bytes option"
  si_encSender :: "SenderDelegationClaims \<Rightarrow> bytes option"
  si_encObserver :: "ObserverDelegationClaims \<Rightarrow> bytes option"
  si_publicKey :: bytes
  si_privateKey :: bytes
  si_keyID :: string
  si_jti :: string

record RuntimeCredentialResponse =
  rr_Credential :: string
  rr_NetworkID :: string
  rr_SubjectKind :: string
  rr_SubjectID :: string
  rr_ExpiresAt :: nanos

datatype access_answer =
    BundleResponse VerifierBundle
  | RuntimeResponse RuntimeCredentialResponse
  | SenderResponse string SenderDelegationClaims
  | GrantCreated string AccessGrant
  | GrantsResponse "AccessGrant list"
  | GrantResponse AccessGrant
  | GrantRevoked string string nanos

section \<open>The issuer's state\<close>

definition networkAuthNamespace :: string where "networkAuthNamespace = ''relay.networkauth''"
definition networkAuthIssuerKey :: string where "networkAuthIssuerKey = ''issuer.current''"

datatype issuer_error = IssuerStateNotFound | IssuerStateBad

definition loadIssuerState ::
  "signing_inputs \<Rightarrow> nanos \<Rightarrow> string \<Rightarrow> RelayStore \<Rightarrow> issuer_error + IssuerState" where
  "loadIssuerState si now networkID st =
     (case KVGet now (resolveNetworkID networkID) networkAuthNamespace networkAuthIssuerKey st of
        None \<Rightarrow> Inl IssuerStateNotFound
      | Some raw \<Rightarrow>
          if raw = [] then Inl IssuerStateNotFound
          else (case si_decState si raw of None \<Rightarrow> Inl IssuerStateBad | Some s \<Rightarrow> Inr s))"

text \<open>
  \<open>loadOrCreateIssuerState\<close> reads the key and, when there is none, writes a new one: two steps on
  the store. \<open>None\<close> stands for its errors.
\<close>

definition stored_issuer :: "nanos \<Rightarrow> string \<Rightarrow> RelayStore \<Rightarrow> bytes" where
  "stored_issuer now networkID st =
     (case KVGet now networkID networkAuthNamespace networkAuthIssuerKey st of None \<Rightarrow> [] | Some raw \<Rightarrow> raw)"

definition create_issuer ::
  "signing_inputs \<Rightarrow> nanos \<Rightarrow> string \<Rightarrow> RelayStore \<Rightarrow> IssuerState option \<times> RelayStore" where
  "create_issuer si now networkID st =
     (let st1 = NetworkEnsure now networkID st;
          state = NewIssuerState networkID (si_publicKey si) (si_privateKey si) (si_keyID si) now
      in case si_encState si state of
           None \<Rightarrow> (None, st1)
         | Some encoded \<Rightarrow>
             (Some state, KVSet now networkID networkAuthNamespace networkAuthIssuerKey encoded None st1))"

definition loadOrCreateIssuerState ::
  "signing_inputs \<Rightarrow> nanos \<Rightarrow> string \<Rightarrow> RelayStore \<Rightarrow> IssuerState option \<times> RelayStore" where
  "loadOrCreateIssuerState si now networkID0 st =
     (let networkID = resolveNetworkID networkID0 in
      if networkID = [] then (None, st)
      else
        let raw = stored_issuer now networkID st in
        if raw \<noteq> [] then (si_decState si raw, st)
        else create_issuer si now networkID st)"

section \<open>Credentials\<close>

text \<open>The member of the network, or the admin, behind a request; \<open>None\<close> lets it through.\<close>

definition credential_member :: "string \<Rightarrow> AuthIdentity \<Rightarrow> RelayStore \<Rightarrow> http_error option" where
  "credential_member networkID i st =
     (if ai_IsAdmin i then None
      else (case membershipSubject (Some i) of
         None \<Rightarrow> Some Unauthorized
       | Some subject \<Rightarrow>
           (case NetworkMemberGet networkID subject st of None \<Rightarrow> Some MembershipRequired | Some m \<Rightarrow> None)))"

text \<open>\<open>auth\<close> is what \<open>AuthenticateRequest\<close> finds.\<close>

definition verifierBundleHandler ::
  "signing_inputs \<Rightarrow> relay_inputs \<Rightarrow> credentials \<Rightarrow> string \<Rightarrow> AuthIdentity option \<Rightarrow> RelayStore \<Rightarrow>
   http_error + access_answer" where
  "verifierBundleHandler si r cr network auth st =
     (case requiredNetworkID network of
        None \<Rightarrow> Inl BadRequest
      | Some networkID \<Rightarrow>
          let refused = (case nodeAuthFromRequest cr st of
                Some node \<Rightarrow> if nr_NetworkID node \<noteq> networkID then Some Forbidden else None
              | None \<Rightarrow> (case auth of None \<Rightarrow> Some Unauthorized | Some i \<Rightarrow> credential_member networkID i st))
          in (case refused of
                Some err \<Rightarrow> Inl err
              | None \<Rightarrow>
                  (case loadIssuerState si (ri_now r) networkID st of
                     Inl err \<Rightarrow> Inl (if err = IssuerStateNotFound then NotFound else InternalError)
                   | Inr state \<Rightarrow> Inr (BundleResponse (Bundle state (ri_later r) DefaultBundleValidity)))))"

text \<open>The end of both handlers of runtime credentials.\<close>

definition issue_runtime ::
  "signing_inputs \<Rightarrow> relay_inputs \<Rightarrow> string \<Rightarrow> string \<Rightarrow> string \<Rightarrow> RelayStore \<Rightarrow>
   (http_error + access_answer) \<times> RelayStore" where
  "issue_runtime si r networkID kind subjectID st =
     (case loadOrCreateIssuerState si (ri_now r) networkID st of
        (None, st1) \<Rightarrow> (Inl InternalError, st1)
      | (Some state, st1) \<Rightarrow>
          (case SignRuntimeCredential (si_crypto si) (si_encRuntime si) (si_jti si) (Some state) kind subjectID
                  (ri_later r) DefaultRuntimeTTL of
             Inl err \<Rightarrow> (Inl InternalError, st1)
           | Inr (token, claims) \<Rightarrow>
               (Inr (RuntimeResponse \<lparr>rr_Credential = token, rr_NetworkID = rt_NetworkID claims,
                  rr_SubjectKind = rt_SubjectKind claims, rr_SubjectID = rt_SubjectID claims,
                  rr_ExpiresAt = rt_ExpiresAt claims\<rparr>), st1)))"

definition clientRuntimeCredentialHandler ::
  "signing_inputs \<Rightarrow> relay_inputs \<Rightarrow> string \<Rightarrow> AuthIdentity option \<Rightarrow> RelayStore \<Rightarrow>
   (http_error + access_answer) \<times> RelayStore" where
  "clientRuntimeCredentialHandler si r network auth st =
     (case auth of
        None \<Rightarrow> (Inl Unauthorized, st)
      | Some i \<Rightarrow>
          (case requiredNetworkID network of
             None \<Rightarrow> (Inl BadRequest, st)
           | Some networkID \<Rightarrow>
               (case credential_member networkID i st of
                  Some err \<Rightarrow> (Inl err, st)
                | None \<Rightarrow> issue_runtime si r networkID SubjectKindClient (clientSubjectID auth) st)))"

definition nodeRuntimeCredentialHandler ::
  "signing_inputs \<Rightarrow> relay_inputs \<Rightarrow> credentials \<Rightarrow> RelayStore \<Rightarrow> (http_error + access_answer) \<times> RelayStore" where
  "nodeRuntimeCredentialHandler si r cr st =
     (case nodeAuthFromRequest cr st of
        None \<Rightarrow> (Inl Unauthorized, st)
      | Some node \<Rightarrow> issue_runtime si r (nr_NetworkID node) SubjectKindNode (nr_Name node) st)"

record senderRequest =
  sq_SourceNode :: string
  sq_FromSessionID :: "uint32 option"
  sq_FromSessionName :: string
  sq_Verbs :: "string list"
  sq_AudienceNode :: string

definition nodeSenderDelegationHandler ::
  "signing_inputs \<Rightarrow> relay_inputs \<Rightarrow> credentials \<Rightarrow> senderRequest option \<Rightarrow> RelayStore \<Rightarrow>
   (http_error + access_answer) \<times> RelayStore" where
  "nodeSenderDelegationHandler si r cr body0 st =
     (case nodeAuthFromRequest cr st of
        None \<Rightarrow> (Inl Unauthorized, st)
      | Some node \<Rightarrow>
          (case body0 of
             None \<Rightarrow> (Inl BadRequest, st)
           | Some body \<Rightarrow>
               if trim_space (sq_SourceNode body) \<noteq> [] \<and> trim_space (sq_SourceNode body) \<noteq> nr_Name node
               then (Inl Forbidden, st)
               else (case loadOrCreateIssuerState si (ri_now r) (nr_NetworkID node) st of
                  (None, st1) \<Rightarrow> (Inl InternalError, st1)
                | (Some state, st1) \<Rightarrow>
                    let sessionName = trim_space (sq_FromSessionName body);
                        sourceGroups = (if sessionName = [] then []
                          else map gb_GroupName
                            (GroupBindingsForSession (nr_NetworkID node) (nr_Name node) sessionName st1))
                    in (case SignSenderDelegation (si_crypto si) (si_encSender si) (si_jti si) (Some state)
                              (nr_Name node) (sq_FromSessionID body) (sq_FromSessionName body) sourceGroups
                              (sq_Verbs body) (sq_AudienceNode body) (ri_later r) DefaultSenderTTL of
                          Inl err \<Rightarrow> (Inl BadRequest, st1)
                        | Inr (token, claims) \<Rightarrow> (Inr (SenderResponse token claims), st1)))))"

text \<open>
  The check of a runtime credential by the relay itself, \<open>verifyRelayRuntimeCredential\<close> of
  \<open>tailnet.go\<close>: the key is found by the network that the unverified claims name. \<open>decRuntime\<close> is
  the JSON decoding of the claims.
\<close>

datatype relay_auth_error = CredentialMissing | IssuerUnavailable issuer_error | CredentialBad auth_error

definition verifyRelayRuntimeCredential ::
  "signing_inputs \<Rightarrow> (bytes \<Rightarrow> RuntimeClaims option) \<Rightarrow> nanos \<Rightarrow> nanos \<Rightarrow> string \<Rightarrow> RelayStore \<Rightarrow> ReplayCache option \<Rightarrow>
   (relay_auth_error + RuntimeClaims) \<times> ReplayCache option" where
  "verifyRelayRuntimeCredential si decRuntime now later token0 st replay =
     (let token = trim_space token0 in
      if token = [] then (Inl CredentialMissing, replay)
      else (case ParseRuntimeCredential decRuntime token of
         Inl err \<Rightarrow> (Inl (CredentialBad err), replay)
       | Inr unverified \<Rightarrow>
           (case loadIssuerState si now (rt_NetworkID unverified) st of
              Inl err \<Rightarrow> (Inl (IssuerUnavailable err), replay)
            | Inr state \<Rightarrow>
                (case VerifyRuntimeCredential (si_crypto si) decRuntime token
                        (Some (Bundle state now DefaultBundleValidity)) now of
                   Inl err \<Rightarrow> (Inl (CredentialBad err), replay)
                 | Inr claims \<Rightarrow>
                     (case ConsumeRuntime (Some claims) later replay of
                        (Inl err, replay1) \<Rightarrow> (Inl (CredentialBad err), replay1)
                      | (Inr u, replay1) \<Rightarrow> (Inr claims, replay1))))))"

text \<open>
  Who may join the tailnet through \<open>/api/v1/tailnet/coordinate\<close>: the credential must still name a
  member of the network, or a node of it; the identifier \<open>admin\<close> of a client is not looked up.
\<close>

definition coordinate_subject :: "RuntimeClaims \<Rightarrow> RelayStore \<Rightarrow> http_error option" where
  "coordinate_subject claims st =
     (if rt_SubjectKind claims \<noteq> SubjectKindClient \<and> rt_SubjectKind claims \<noteq> SubjectKindNode then Some Unauthorized
      else if rt_SubjectKind claims = SubjectKindClient then
        (if rt_SubjectID claims \<noteq> ''admin'' \<and> NetworkMemberGet (rt_NetworkID claims) (rt_SubjectID claims) st = None
         then Some Unauthorized else None)
      else if NodeGet (rt_NetworkID claims) (rt_SubjectID claims) st = None then Some Unauthorized
      else None)"

definition coordinate_admit ::
  "signing_inputs \<Rightarrow> (bytes \<Rightarrow> RuntimeClaims option) \<Rightarrow> relay_inputs \<Rightarrow> credentials \<Rightarrow> RelayStore \<Rightarrow>
   ReplayCache option \<Rightarrow> (http_error + RuntimeClaims) \<times> ReplayCache option" where
  "coordinate_admit si decRuntime r cr st replay =
     (case verifyRelayRuntimeCredential si decRuntime (ri_now r) (ri_later r)
             (trim_prefix (cr_Authorization cr) ''Bearer '') st replay of
        (Inl err, replay1) \<Rightarrow> (Inl Unauthorized, replay1)
      | (Inr claims, replay1) \<Rightarrow>
          (case coordinate_subject claims st of
             Some err \<Rightarrow> (Inl err, replay1)
           | None \<Rightarrow> (Inr claims, replay1)))"

section \<open>Access grants\<close>

fun observer_verbs :: "string list \<Rightarrow> string list \<Rightarrow> string list option" where
  "observer_verbs verbs [] = Some verbs"
| "observer_verbs verbs (verb # rest) =
     (let normalized = trim_space (to_lower verb) in
      if normalized = ''read'' \<or> normalized = ''msg.read'' then
        observer_verbs (if ''msg.read'' \<in> set verbs then verbs else verbs @ [''msg.read'']) rest
      else if normalized = ''listen'' \<or> normalized = ''msg.listen'' then
        observer_verbs (if ''msg.listen'' \<in> set verbs then verbs else verbs @ [''msg.listen'']) rest
      else None)"

definition normalizeObserverVerbs :: "string list \<Rightarrow> string list option" where
  "normalizeObserverVerbs raw =
     (if raw = [] then Some [''msg.read'', ''msg.listen''] else observer_verbs [] raw)"

text \<open>The kind, identifier and display name of the subject a grant is for.\<close>

definition resolveAccessGrantAudience :: "string \<Rightarrow> RelayStore \<Rightarrow> (string \<times> string \<times> string) option" where
  "resolveAccessGrantAudience raw0 st =
     (let raw = trim_space raw0 in
      if raw = [] then None
      else if raw = ''admin'' then Some (SubjectKindClient, ''admin'', ''admin'')
      else if has_prefix raw ''github:'' \<or> has_prefix raw ''oidc:'' \<or> has_prefix raw ''user:''
      then Some (SubjectKindClient, raw, raw)
      else
        let matches = (case UserGetByUsername raw st of None \<Rightarrow> []
               | Some u \<Rightarrow> [(''github:'' @ show_int (us_GitHubID u), us_Username u)]) @
             map (\<lambda>u. (''oidc:'' @ ou_Sub u, ou_Username u)) (OIDCUserListByUsername raw st)
        in (case matches of
              [(i, display)] \<Rightarrow> Some (SubjectKindClient, i, display)
            | _ \<Rightarrow> None))"

record accessGrantCreateRequest =
  aq_NetworkID :: string
  aq_TargetNode :: string
  aq_SessionID :: "uint32 option"
  aq_SessionName :: string
  aq_Audience :: string
  aq_Verbs :: "string list"
  aq_TTL :: string

text \<open>The checks of the request before anything is signed: the verbs, the lifetime, the audience.\<close>

definition grant_request ::
  "(string \<Rightarrow> int option) \<Rightarrow> accessGrantCreateRequest \<Rightarrow> RelayStore \<Rightarrow>
   (string list \<times> int \<times> string \<times> string \<times> string) option" where
  "grant_request parse_duration req st =
     (let named = trim_space (aq_SessionName req) \<noteq> [] in
      if trim_space (aq_TargetNode req) = [] then None
      else if aq_SessionID req = None \<and> \<not> named then None
      else if aq_SessionID req \<noteq> None \<and> named then None
      else (case normalizeObserverVerbs (aq_Verbs req) of
         None \<Rightarrow> None
       | Some verbs \<Rightarrow>
           (case (if trim_space (aq_TTL req) \<noteq> [] then parse_duration (trim_space (aq_TTL req))
                  else Some DefaultObserverTTL) of
              None \<Rightarrow> None
            | Some ttl \<Rightarrow>
                if ttl \<le> 0 then None
                else (case resolveAccessGrantAudience (trim_space (aq_Audience req)) st of
                   None \<Rightarrow> None
                 | Some (kind, i, display) \<Rightarrow> Some (verbs, ttl, kind, i, display)))))"

definition accessGrantCreateHandler ::
  "signing_inputs \<Rightarrow> (string \<Rightarrow> int option) \<Rightarrow> relay_inputs \<Rightarrow> accessGrantCreateRequest option \<Rightarrow>
   AuthIdentity option \<Rightarrow> RelayStore \<Rightarrow> (http_error + access_answer) \<times> RelayStore" where
  "accessGrantCreateHandler si parse_duration r req0 auth st =
     (case auth of
        None \<Rightarrow> (Inl Unauthorized, st)
      | Some i \<Rightarrow>
          (case req0 of
             None \<Rightarrow> (Inl BadRequest, st)
           | Some req \<Rightarrow>
               (case requiredNetworkID (aq_NetworkID req) of
                  None \<Rightarrow> (Inl BadRequest, st)
                | Some networkID \<Rightarrow>
                    (case guard_owner InternalError (ri_now r) networkID auth st of
                       Some err \<Rightarrow> (Inl err, st)
                     | None \<Rightarrow>
                         (case grant_request parse_duration req st of
                            None \<Rightarrow> (Inl BadRequest, st)
                          | Some (verbs, ttl, kind, audienceID, display) \<Rightarrow>
                              (case loadOrCreateIssuerState si (ri_now r) networkID st of
                                 (None, st1) \<Rightarrow> (Inl InternalError, st1)
                               | (Some state, st1) \<Rightarrow>
                                   (case SignObserverDelegation (si_crypto si) (si_encObserver si) (si_jti si)
                                           (Some state) (trim_space (aq_TargetNode req)) (aq_SessionID req)
                                           (trim_space (aq_SessionName req)) verbs kind audienceID (ri_later r) ttl of
                                      Inl err \<Rightarrow> (Inl BadRequest, st1)
                                    | Inr (delegation, claims) \<Rightarrow>
                                        if membershipSubject auth = None \<and> \<not> ai_IsAdmin i
                                        then (Inl Unauthorized, st1)
                                        else
                                          let g = \<lparr>ag_ID = og_JTI claims, ag_NetworkID = og_NetworkID claims,
                                                ag_TargetNode = og_TargetNode claims,
                                                ag_SessionID = og_SessionID claims,
                                                ag_SessionName = og_SessionName claims, ag_Verbs = og_Verbs claims,
                                                ag_AudienceSubjectKind = og_AudienceSubjectKind claims,
                                                ag_AudienceSubjectID = og_AudienceSubjectID claims,
                                                ag_AudienceDisplay = display,
                                                ag_IssuedBy = (case membershipSubject auth of None \<Rightarrow> [] | Some s \<Rightarrow> s),
                                                ag_CreatedAt = ri_later r, ag_ExpiresAt = og_ExpiresAt claims,
                                                ag_RevokedAt = None\<rparr>
                                          in (case AccessGrantCreate g st1 of
                                                (Inl err, st2) \<Rightarrow> (Inl InternalError, st2)
                                              | (Inr u, st2) \<Rightarrow> (Inr (GrantCreated delegation g), st2)))))))))"

text \<open>\<open>strconv.ParseBool\<close>.\<close>

definition parse_bool :: "string \<Rightarrow> bool option" where
  "parse_bool s =
     (if s \<in> {''1'', ''t'', ''T'', ''TRUE'', ''true'', ''True''} then Some True
      else if s \<in> {''0'', ''f'', ''F'', ''FALSE'', ''false'', ''False''} then Some False
      else None)"

text \<open>A filter that is absent or blank is off; \<open>None\<close> is one that is not a boolean.\<close>

definition bool_filter :: "string \<Rightarrow> bool option" where
  "bool_filter raw = (if trim_space raw = [] then Some False else parse_bool (trim_space raw))"

text \<open>Whose grants are listed: with \<open>mine\<close> those of the caller, who must be a member, else an owner's choice.\<close>

definition list_audience ::
  "relay_inputs \<Rightarrow> string \<Rightarrow> bool \<Rightarrow> AuthIdentity option \<Rightarrow> RelayStore \<Rightarrow> http_error + string" where
  "list_audience r networkID mine auth st =
     (let mineID = (if \<not> mine then Inr []
            else (case membershipSubject auth of
               None \<Rightarrow> Inl Unauthorized
             | Some subject \<Rightarrow>
                 (case guard_member InternalError (ri_now r) networkID auth st of
                    Inl err \<Rightarrow> Inl err
                  | Inr m \<Rightarrow> Inr subject)))
      in case mineID of
           Inl err \<Rightarrow> Inl err
         | Inr subject \<Rightarrow>
             if subject \<noteq> [] then Inr subject
             else (case guard_owner InternalError (ri_now r) networkID auth st of
                Some err \<Rightarrow> Inl err
              | None \<Rightarrow> Inr []))"

definition accessGrantListHandler ::
  "relay_inputs \<Rightarrow> string \<Rightarrow> string \<Rightarrow> string \<Rightarrow> string \<Rightarrow> string \<Rightarrow> AuthIdentity option \<Rightarrow> RelayStore \<Rightarrow>
   http_error + access_answer" where
  "accessGrantListHandler r network target_node mine active audience auth st =
     (case auth of
        None \<Rightarrow> Inl Unauthorized
      | Some i \<Rightarrow>
          (case requiredNetworkID network of
             None \<Rightarrow> Inl BadRequest
           | Some networkID \<Rightarrow>
               (case bool_filter mine of
                  None \<Rightarrow> Inl BadRequest
                | Some own \<Rightarrow>
                    (case list_audience r networkID own auth st of
                       Inl err \<Rightarrow> Inl err
                     | Inr subject \<Rightarrow>
                         (case bool_filter active of
                            None \<Rightarrow> Inl BadRequest
                          | Some activeOnly \<Rightarrow>
                              (case (if trim_space audience \<noteq> [] \<and> subject = []
                                     then map_option (\<lambda>(kind, audienceID, display). audienceID)
                                            (resolveAccessGrantAudience (trim_space audience) st)
                                     else Some subject) of
                                 None \<Rightarrow> Inl BadRequest
                               | Some audienceID \<Rightarrow>
                                   Inr (GrantsResponse (AccessGrantList (ri_later r) networkID
                                     \<lparr>af_TargetNode = trim_space target_node, af_AudienceSubjectID = audienceID,
                                      af_ActiveOnly = activeOnly\<rparr> st))))))))"

definition accessGrantGetHandler ::
  "relay_inputs \<Rightarrow> string \<Rightarrow> string \<Rightarrow> AuthIdentity option \<Rightarrow> RelayStore \<Rightarrow> http_error + access_answer" where
  "accessGrantGetHandler r i network auth st =
     (case auth of
        None \<Rightarrow> Inl Unauthorized
      | Some ident \<Rightarrow>
          (case requiredNetworkID network of
             None \<Rightarrow> Inl BadRequest
           | Some networkID \<Rightarrow>
               let grantID = trim_space i in
               if grantID = [] then Inl BadRequest
               else (case AccessGrantGet networkID grantID st of
                  None \<Rightarrow> Inl NotFound
                | Some g \<Rightarrow>
                    let refused = (if membershipSubject auth = Some (ag_AudienceSubjectID g)
                          then (case guard_member InternalError (ri_now r) networkID auth st of
                                  Inl err \<Rightarrow> Some err | Inr m \<Rightarrow> None)
                          else guard_owner InternalError (ri_now r) networkID auth st)
                    in (case refused of Some err \<Rightarrow> Inl err | None \<Rightarrow> Inr (GrantResponse g)))))"

text \<open>A successful revocation is published: the answer carries the event's network, grant and time.\<close>

definition accessGrantRevokeHandler ::
  "relay_inputs \<Rightarrow> string \<Rightarrow> string \<Rightarrow> AuthIdentity option \<Rightarrow> RelayStore \<Rightarrow>
   (http_error + access_answer) \<times> RelayStore" where
  "accessGrantRevokeHandler r i network auth st =
     (case auth of
        None \<Rightarrow> (Inl Unauthorized, st)
      | Some ident \<Rightarrow>
          (case requiredNetworkID network of
             None \<Rightarrow> (Inl BadRequest, st)
           | Some networkID \<Rightarrow>
               (case guard_owner InternalError (ri_now r) networkID auth st of
                  Some err \<Rightarrow> (Inl err, st)
                | None \<Rightarrow>
                    let grantID = trim_space i in
                    if grantID = [] then (Inl BadRequest, st)
                    else (case AccessGrantGet networkID grantID st of
                       None \<Rightarrow> (Inl NotFound, st)
                     | Some g \<Rightarrow>
                         (case AccessGrantRevoke networkID grantID (ri_later r) st of
                            (Inl err, st1) \<Rightarrow> (Inl InternalError, st1)
                          | (Inr u, st1) \<Rightarrow> (Inr (GrantRevoked networkID grantID (ri_later r)), st1))))))"

end
