(* ===== verification/RelayLogin.thy ===== *)
theory RelayLogin
  imports RelayAccess
begin

text \<open>
  How identities come about: the GitHub login (\<open>internal/oauth/github.go\<close>), the setup of the GitHub
  app (\<open>manifest.go\<close>), the OIDC login (\<open>oidc.go\<close>), the device flow
  (\<open>internal/relay/device_handlers.go\<close>) and the sessions of the platform (\<open>platform_auth.go\<close>). What
  another server answers is an argument: \<open>None\<close> is a request that failed or an answer that does
  not decode.
\<close>

section \<open>Random tokens\<close>

definition alphanumeric :: string where
  "alphanumeric = ''abcdefghijklmnopqrstuvwxyzABCDEFGHIJKLMNOPQRSTUVWXYZ0123456789''"

text \<open>\<open>b\<close> holds the random bytes.\<close>

definition randomAlphanumeric :: "bytes \<Rightarrow> string" where
  "randomAlphanumeric b = map (\<lambda>x. alphanumeric ! (of_char x mod length alphanumeric)) b"

definition GenerateSessionToken :: "bytes \<Rightarrow> string" where
  "GenerateSessionToken b = sessionTokenPrefix @ randomAlphanumeric b"

definition inviteTokenPrefix :: string where "inviteTokenPrefix = ''CW-INV-''"

definition GenerateInviteToken :: "bytes \<Rightarrow> string" where
  "GenerateInviteToken b = inviteTokenPrefix @ randomAlphanumeric b"

section \<open>Login\<close>

datatype login_error =
    LoginBadRequest | LoginPreconditionFailed | LoginInternal | LoginBadGateway | LoginForbidden | LoginUnauthorized

record login_inputs =
  li_now :: nanos
  li_state :: string
  li_session :: bytes   \<comment> \<open>random bytes of the session's token\<close>

definition day :: int where "day = seconds 86400"

text \<open>
  The first half of both logins: a state, good for ten minutes. It is not tied to the browser that
  asks for it.
\<close>

definition login_state :: "login_inputs \<Rightarrow> RelayStore \<Rightarrow> (login_error + string) \<times> RelayStore" where
  "login_state li st =
     (case OAuthStateCreate \<lparr>oa_State = li_state li, oa_CreatedAt = li_now li, oa_ExpiresAt = li_now li + seconds 600\<rparr> st of
        (Inl err, st1) \<Rightarrow> (Inl LoginInternal, st1)
      | (Inr u, st1) \<Rightarrow> (Inr (li_state li), st1))"

definition github_LoginHandler :: "login_inputs \<Rightarrow> RelayStore \<Rightarrow> (login_error + string \<times> string) \<times> RelayStore" where
  "github_LoginHandler li st =
     (case GitHubAppGet st of
        None \<Rightarrow> (Inl LoginPreconditionFailed, st)
      | Some app \<Rightarrow>
          (case login_state li st of
             (Inl err, st1) \<Rightarrow> (Inl err, st1)
           | (Inr state, st1) \<Rightarrow> (Inr (ga_ClientID app, state), st1)))"

text \<open>The parameters of a callback, once its state was consumed: the code.\<close>

definition callback_code :: "nanos \<Rightarrow> string \<Rightarrow> string \<Rightarrow> RelayStore \<Rightarrow> (login_error + string) \<times> RelayStore" where
  "callback_code now state code st =
     (if state = [] then (Inl LoginBadRequest, st)
      else (case OAuthStateConsume now state st of
         (Inl err, st1) \<Rightarrow> (Inl LoginBadRequest, st1)
       | (Inr u, st1) \<Rightarrow> if code = [] then (Inl LoginBadRequest, st1) else (Inr code, st1)))"

record GitHubUser =
  gu_ID :: int
  gu_Login :: string
  gu_AvatarURL :: string

text \<open>
  \<open>exchange\<close> maps the app's identifier, its secret and a code to a token, \<open>fetch\<close> a token to the
  user. Logins are ASCII, so \<open>EqualFold\<close> compares the lowered bytes.
\<close>

definition github_CallbackHandler ::
  "(string \<Rightarrow> string \<Rightarrow> string \<Rightarrow> string option) \<Rightarrow> (string \<Rightarrow> GitHubUser option) \<Rightarrow> string list \<Rightarrow> login_inputs \<Rightarrow>
   string \<Rightarrow> string \<Rightarrow> RelayStore \<Rightarrow> (login_error + string) \<times> RelayStore" where
  "github_CallbackHandler exchange fetch allowedUsers li state code0 st =
     (case callback_code (li_now li) state code0 st of
        (Inl err, st1) \<Rightarrow> (Inl err, st1)
      | (Inr code, st1) \<Rightarrow>
          (case GitHubAppGet st1 of
             None \<Rightarrow> (Inl LoginInternal, st1)
           | Some app \<Rightarrow>
               (case exchange (ga_ClientID app) (ga_ClientSecret app) code of
                  None \<Rightarrow> (Inl LoginBadGateway, st1)
                | Some token \<Rightarrow>
                    if token = [] then (Inl LoginBadGateway, st1)
                    else (case fetch token of
                       None \<Rightarrow> (Inl LoginBadGateway, st1)
                     | Some ghUser \<Rightarrow>
                         if allowedUsers \<noteq> [] \<and>
                            \<not> list_ex (\<lambda>u. map lower_byte u = map lower_byte (gu_Login ghUser)) allowedUsers
                         then (Inl LoginForbidden, st1)
                         else (case UserUpsert \<lparr>us_GitHubID = gu_ID ghUser, us_Username = gu_Login ghUser,
                                 us_AvatarURL = gu_AvatarURL ghUser, us_CreatedAt = li_now li,
                                 us_LastLoginAt = li_now li\<rparr> st1 of
                            (Inl err, st2) \<Rightarrow> (Inl LoginInternal, st2)
                          | (Inr u, st2) \<Rightarrow>
                              let sessionToken = GenerateSessionToken (li_session li) in
                              (case SessionCreate \<lparr>as_Token = sessionToken, as_GitHubID = gu_ID ghUser,
                                      as_CreatedAt = li_now li, as_ExpiresAt = li_now li + 30 * day\<rparr> st2 of
                                 (Inl err, st3) \<Rightarrow> (Inl LoginInternal, st3)
                               | (Inr v, st3) \<Rightarrow> (Inr sessionToken, st3)))))))"

text \<open>The token of a request for its session: the bearer token, or else the cookie.\<close>

definition session_token :: "credentials \<Rightarrow> string" where
  "session_token cr =
     (let auth = cr_Authorization cr;
          bearer = (if has_prefix auth ''Bearer '' then trim_prefix auth ''Bearer '' else [])
      in if bearer \<noteq> [] then bearer else (case cr_Cookie cr of None \<Rightarrow> [] | Some v \<Rightarrow> v))"

definition SessionInfoHandler :: "nanos \<Rightarrow> nanos \<Rightarrow> credentials \<Rightarrow> RelayStore \<Rightarrow> login_error + User \<times> nanos" where
  "SessionInfoHandler now later cr st =
     (let token = session_token cr in
      if token = [] then Inl LoginUnauthorized
      else (case SessionGet now token st of
         None \<Rightarrow> Inl LoginUnauthorized
       | Some sess \<Rightarrow>
           if as_ExpiresAt sess < later then Inl LoginUnauthorized
           else (case UserGetByID (as_GitHubID sess) st of
              None \<Rightarrow> Inl LoginUnauthorized
            | Some user \<Rightarrow> Inr (user, as_ExpiresAt sess))))"

section \<open>The setup of the GitHub app\<close>

text \<open>\<open>convert\<close> is GitHub's answer to the temporary code; the caller is not authenticated.\<close>

definition ManifestCallbackHandler ::
  "(string \<Rightarrow> GitHubApp option) \<Rightarrow> nanos \<Rightarrow> string \<Rightarrow> RelayStore \<Rightarrow> (login_error + unit) \<times> RelayStore" where
  "ManifestCallbackHandler convert now code st =
     (if code = [] then (Inl LoginBadRequest, st)
      else (case convert code of
         None \<Rightarrow> (Inl LoginBadGateway, st)
       | Some app \<Rightarrow> (Inr (), GitHubAppSet (app\<lparr>ga_CreatedAt := now\<rparr>) st)))"

fun escape_byte :: "byte \<Rightarrow> string" where
  "escape_byte c =
     (if c = CHR ''&'' then ''&amp;'' else if c = CHR 0x27 then ''&#39;'' else if c = CHR 0x22 then ''&quot;''
      else if c = CHR ''<'' then ''&lt;'' else if c = CHR ''>'' then ''&gt;'' else [c])"

definition jsonHTMLEscape :: "string \<Rightarrow> string" where
  "jsonHTMLEscape s = concat (map escape_byte s)"

section \<open>OIDC\<close>

record OIDCProvider =
  op_AllowedGroups :: "string list"

record oidc_claims =
  oc_Sub :: string
  oc_PreferredUsername :: string
  oc_Name :: string
  oc_Groups :: "string list"
  oc_Picture :: string

definition CheckGroups :: "OIDCProvider \<Rightarrow> string list \<Rightarrow> bool" where
  "CheckGroups p userGroups \<longleftrightarrow>
     op_AllowedGroups p = [] \<or> list_ex (\<lambda>ag. list_ex (\<lambda>ug. ag = ug) userGroups) (op_AllowedGroups p)"

definition claims_username :: "oidc_claims \<Rightarrow> string" where
  "claims_username c = (if oc_PreferredUsername c = [] then oc_Name c else oc_PreferredUsername c)"

text \<open>The end of the login and of the device flow: the groups are checked and the user is recorded.\<close>

definition admit_user ::
  "OIDCProvider \<Rightarrow> nanos \<Rightarrow> oidc_claims \<Rightarrow> RelayStore \<Rightarrow> (login_error + string) \<times> RelayStore" where
  "admit_user p now c st =
     (if \<not> CheckGroups p (oc_Groups c) then (Inl LoginForbidden, st)
      else (Inr (oc_Sub c), OIDCUserUpsert \<lparr>ou_Sub = oc_Sub c, ou_Username = claims_username c,
              ou_AvatarURL = oc_Picture c, ou_CreatedAt = now, ou_LastLoginAt = now\<rparr> st))"

definition oidc_LoginHandler :: "login_inputs \<Rightarrow> RelayStore \<Rightarrow> (login_error + string) \<times> RelayStore" where
  "oidc_LoginHandler li st = login_state li st"

definition oidc_CallbackHandler ::
  "OIDCProvider \<Rightarrow> (string \<Rightarrow> string option) \<Rightarrow> (string \<Rightarrow> oidc_claims option) \<Rightarrow> login_inputs \<Rightarrow> string \<Rightarrow> string \<Rightarrow>
   RelayStore \<Rightarrow> (login_error + string) \<times> RelayStore" where
  "oidc_CallbackHandler p exchange userinfo li state code0 st =
     (case callback_code (li_now li) state code0 st of
        (Inl err, st1) \<Rightarrow> (Inl err, st1)
      | (Inr code, st1) \<Rightarrow>
          (case exchange code of
             None \<Rightarrow> (Inl LoginBadGateway, st1)
           | Some accessToken \<Rightarrow>
               if accessToken = [] then (Inl LoginBadGateway, st1)
               else (case userinfo accessToken of
                  None \<Rightarrow> (Inl LoginBadGateway, st1)
                | Some c \<Rightarrow>
                    (case admit_user p (li_now li) c st1 of
                       (Inl err, st2) \<Rightarrow> (Inl err, st2)
                     | (Inr sub, st2) \<Rightarrow>
                         let sessToken = GenerateSessionToken (li_session li) in
                         (case OIDCSessionCreate \<lparr>os_Token = sessToken, os_Sub = sub, os_CreatedAt = li_now li,
                                 os_ExpiresAt = li_now li + 30 * day\<rparr> st2 of
                            (Inl err, st3) \<Rightarrow> (Inl LoginInternal, st3)
                          | (Inr u, st3) \<Rightarrow> (Inr sessToken, st3))))))"

definition OIDCSessionInfoHandler ::
  "nanos \<Rightarrow> nanos \<Rightarrow> credentials \<Rightarrow> RelayStore \<Rightarrow> login_error + OIDCUser \<times> nanos" where
  "OIDCSessionInfoHandler now later cr st =
     (let token = session_token cr in
      if token = [] then Inl LoginUnauthorized
      else (case OIDCSessionGet now token st of
         None \<Rightarrow> Inl LoginUnauthorized
       | Some sess \<Rightarrow>
           if os_ExpiresAt sess < later then Inl LoginUnauthorized
           else (case OIDCUserGetBySub (os_Sub sess) st of
              None \<Rightarrow> Inl LoginUnauthorized
            | Some user \<Rightarrow> Inr (user, os_ExpiresAt sess))))"

section \<open>The device flow\<close>

record device_auth =
  da_DeviceCode :: string
  da_UserCode :: string
  da_VerificationURI :: string
  da_ExpiresIn :: int
  da_Interval :: int

text \<open>\<open>upstream\<close> is the provider's answer to the start of a flow; \<open>None\<close> stands for every failure.\<close>

definition deviceAuthorizeHandler ::
  "device_auth option \<Rightarrow> nanos \<Rightarrow> string \<Rightarrow> (string \<times> string) option \<Rightarrow> RelayStore \<Rightarrow>
   (http_error + string \<times> device_auth) \<times> RelayStore" where
  "deviceAuthorizeHandler upstream now pollToken req0 st =
     (case req0 of
        None \<Rightarrow> (Inl BadRequest, st)
      | Some (nodeName, network) \<Rightarrow>
          if nodeName = [] then (Inl BadRequest, st)
          else (case requiredNetworkID network of
             None \<Rightarrow> (Inl BadRequest, st)
           | Some networkID \<Rightarrow>
               (case upstream of
                  None \<Rightarrow> (Inl BadGateway, st)
                | Some d \<Rightarrow>
                    let expiresIn = (if 0 < da_ExpiresIn d then da_ExpiresIn d else 300);
                        interval = (if 0 < da_Interval d then da_Interval d else 5)
                    in (case OIDCDeviceFlowCreate
                              \<lparr>df_PollToken = pollToken, df_DeviceCode = da_DeviceCode d, df_NetworkID = networkID,
                               df_NodeName = nodeName, df_NodeToken = [], df_ExpiresAt = now + seconds expiresIn\<rparr> st of
                          (Inl err, st1) \<Rightarrow> (Inl InternalError, st1)
                        | (Inr u, st1) \<Rightarrow>
                            (Inr (pollToken, d\<lparr>da_ExpiresIn := expiresIn, da_Interval := interval\<rparr>), st1)))))"

datatype poll_answer =
    PollAuthorized string string string   \<comment> \<open>token, name and network of the node\<close>
  | PollPending
  | PollSlowDown

text \<open>\<open>token_error\<close> and \<open>access_token\<close> of the provider's answer, empty when it does not decode.\<close>

definition devicePollHandler ::
  "OIDCProvider \<Rightarrow> (string \<Rightarrow> string) \<Rightarrow> (string \<Rightarrow> oidc_claims option) \<Rightarrow> relay_inputs \<Rightarrow>
   (string \<Rightarrow> (string \<times> string) option) \<Rightarrow> string option \<Rightarrow> RelayStore \<Rightarrow> (http_error + poll_answer) \<times> RelayStore" where
  "devicePollHandler p sha userinfo r upstream req st =
     (case req of
        None \<Rightarrow> (Inl BadRequest, st)
      | Some pollToken \<Rightarrow>
          if pollToken = [] then (Inl BadRequest, st)
          else (case OIDCDeviceFlowGet (ri_now r) pollToken st of
             None \<Rightarrow> (Inl Gone, st)
           | Some flow \<Rightarrow>
               if df_NodeToken flow \<noteq> []
               then (Inr (PollAuthorized (df_NodeToken flow) (df_NodeName flow) []), st)
               else (case upstream (df_DeviceCode flow) of
                  None \<Rightarrow> (Inl BadGateway, st)
                | Some (token_error, access_token) \<Rightarrow>
                    if token_error = ''authorization_pending'' then (Inr PollPending, st)
                    else if token_error = ''slow_down'' then (Inr PollSlowDown, st)
                    else if token_error \<noteq> [] then (Inl Forbidden, st)
                    else if access_token = [] then (Inl BadGateway, st)
                    else (case userinfo access_token of
                       None \<Rightarrow> (Inl BadGateway, st)
                     | Some c \<Rightarrow>
                         (case admit_user p (ri_now r) c st of
                            (Inl err, st1) \<Rightarrow> (Inl Forbidden, st1)
                          | (Inr sub, st1) \<Rightarrow>
                              let subject = ''oidc:'' @ sub in
                              (case createNodeEnrollment sha r (df_NetworkID flow) subject subject (df_NodeName flow)
                                      1 (seconds 600) st1 of
                                 (Inl err, st2) \<Rightarrow> (Inl InternalError, st2)
                               | (Inr (e, token), st2) \<Rightarrow>
                                   (case redeemNodeEnrollment sha r token (df_NodeName flow) [] None st2 of
                                      (Inl err, st3) \<Rightarrow> (Inl InternalError, st3)
                                    | (Inr redeemed, st3) \<Rightarrow>
                                        (case OIDCDeviceFlowComplete (ri_later r) pollToken (rd_NodeToken redeemed) st3 of
                                           (Inl err, st4) \<Rightarrow> (Inl InternalError, st4)
                                         | (Inr u, st4) \<Rightarrow>
                                             (Inr (PollAuthorized (rd_NodeToken redeemed) (df_NodeName flow)
                                                (df_NetworkID flow)), st4)))))))))"

section \<open>Sessions of the platform\<close>

record platformUser =
  pu_ID :: string
  pu_Email :: string
  pu_Name :: string

text \<open>\<open>answer\<close> is what the platform says of a token; \<open>Some None\<close> is an answer without a user.\<close>

definition platformSessionAuthValidator ::
  "(string \<Rightarrow> platformUser option option) \<Rightarrow> string \<Rightarrow> AuthIdentity option" where
  "platformSessionAuthValidator answer token0 =
     (let token = trim_space token0 in
      if token = [] then None
      else (case answer token of
         None \<Rightarrow> None
       | Some None \<Rightarrow> None
       | Some (Some u) \<Rightarrow>
           let email = trim_space (pu_Email u);
               username = (if email = [] then trim_space (pu_Name u) else email);
               i = trim_space (pu_ID u);
               sub = (if i \<noteq> [] then ''user:'' @ i else [])
           in if sub = [] \<and> username = [] then None
              else Some \<lparr>ai_UserID = 0, ai_Sub = sub, ai_Username = username, ai_IsAdmin = False\<rparr>))"

end
