(* ===== verification/RelayEvents.thy ===== *)
theory RelayEvents
  imports RelayAccess Events Frames
begin

text \<open>
  What the relay keeps in memory: the hub of revocation events (\<open>internal/relay/access_events.go\<close>),
  the hub of connected nodes (\<open>hub.go\<close>), the back-connections that SSH sessions wait for
  (\<open>back_handler.go\<close>), and the parts of \<open>ssh.go\<close> before the bridge. A channel outlives its entry in
  a table, so channels are kept in a store of their own, by number.
\<close>

section \<open>The hub of revocation events\<close>

text \<open>Two's complement of 64 bits: the sequence number a client sends is compared after an addition.\<close>

definition int64 :: "int \<Rightarrow> int" where
  "int64 i = (i + 2 ^ 63) mod 2 ^ 64 - 2 ^ 63"

definition accessEventBufferSize :: nat where "accessEventBufferSize = 256"

record AccessCacheEvent =
  ae_Seq :: int
  ae_Type :: string
  ae_NetworkID :: string
  ae_GrantID :: string
  ae_RevokedAt :: "nanos option"

text \<open>A subscription's channel carries the number of the subscription.\<close>

record AccessEventHub =
  ah_nextSeq :: int
  ah_nextSubID :: int
  ah_events :: "AccessCacheEvent list"
  ah_subscribers :: "(int, string) gomap"
  ah_chans :: "(int, AccessCacheEvent chan) gomap"
  ah_panicked :: bool   \<comment> \<open>a send on a closed channel\<close>

definition NewAccessEventHub :: AccessEventHub where
  "NewAccessEventHub =
     \<lparr>ah_nextSeq = 0, ah_nextSubID = 0, ah_events = [], ah_subscribers = [], ah_chans = [], ah_panicked = False\<rparr>"

text \<open>
  \<open>publish\<close> under the lock: the event gets its number, the log keeps the last 256 events, and the
  subscribers of the network are collected. The sends follow after the lock was released.
\<close>

definition publish_locked :: "AccessCacheEvent \<Rightarrow> AccessEventHub \<Rightarrow> (AccessCacheEvent \<times> int list) \<times> AccessEventHub" where
  "publish_locked ev0 h =
     (let seq = int64 (ah_nextSeq h + 1);
          ev = ev0\<lparr>ae_Seq := seq\<rparr>;
          events = ah_events h @ [ev];
          kept = (if accessEventBufferSize < length events then last_n accessEventBufferSize events else events);
          subs = map fst (filter (\<lambda>(i, network). network = ae_NetworkID ev) (ah_subscribers h))
      in ((ev, subs), h\<lparr>ah_nextSeq := seq, ah_events := kept\<rparr>))"

definition publish_send :: "AccessCacheEvent \<Rightarrow> int \<Rightarrow> AccessEventHub \<Rightarrow> AccessEventHub" where
  "publish_send ev i h =
     (case mget (ah_chans h) i of
        None \<Rightarrow> h
      | Some c \<Rightarrow>
          (case try_send ev c of
             None \<Rightarrow> h\<lparr>ah_panicked := True\<rparr>
           | Some c' \<Rightarrow> h\<lparr>ah_chans := mput i c' (ah_chans h)\<rparr>))"

definition access_publish :: "AccessCacheEvent \<Rightarrow> AccessEventHub \<Rightarrow> AccessEventHub" where
  "access_publish ev0 h =
     (case publish_locked ev0 h of ((ev, subs), h1) \<Rightarrow> fold (publish_send ev) subs h1)"

definition revoked_event :: "string \<Rightarrow> string \<Rightarrow> nanos \<Rightarrow> AccessCacheEvent" where
  "revoked_event networkID grantID revokedAt =
     \<lparr>ae_Seq = 0, ae_Type = ''access.grant.revoked'', ae_NetworkID = trim_space networkID,
      ae_GrantID = trim_space grantID, ae_RevokedAt = Some revokedAt\<rparr>"

definition PublishGrantRevoked :: "string \<Rightarrow> string \<Rightarrow> nanos \<Rightarrow> AccessEventHub \<Rightarrow> AccessEventHub" where
  "PublishGrantRevoked networkID grantID revokedAt h = access_publish (revoked_event networkID grantID revokedAt) h"

definition access_reset :: "int \<Rightarrow> AccessEventHub \<Rightarrow> bool" where
  "access_reset lastSeq h =
     (case ah_events h of
        [] \<Rightarrow> False
      | ev # evs \<Rightarrow> 0 < lastSeq \<and> int64 (lastSeq + 1) < ae_Seq ev)"

definition AccessSubscribe ::
  "string \<Rightarrow> int \<Rightarrow> AccessEventHub \<Rightarrow> (AccessCacheEvent list \<times> int \<times> bool) \<times> AccessEventHub" where
  "AccessSubscribe networkID lastSeq h =
     (let replay = filter (\<lambda>ev. ae_NetworkID ev = networkID \<and> lastSeq < ae_Seq ev) (ah_events h);
          subID = int64 (ah_nextSubID h + 1)
      in ((replay, subID, access_reset lastSeq h),
          h\<lparr>ah_nextSubID := subID, ah_subscribers := mput subID networkID (ah_subscribers h),
             ah_chans := mput subID (make_chan 16) (ah_chans h)\<rparr>))"

text \<open>The removal under the lock; the close follows, and only when the entry was there.\<close>

definition access_cancel :: "int \<Rightarrow> AccessEventHub \<Rightarrow> AccessEventHub" where
  "access_cancel i h =
     (if mget (ah_subscribers h) i = None then h
      else (case mget (ah_chans h) i of
              None \<Rightarrow> h\<lparr>ah_subscribers := mdel i (ah_subscribers h)\<rparr>
            | Some c \<Rightarrow> h\<lparr>ah_subscribers := mdel i (ah_subscribers h), ah_chans := mput i (close_chan c) (ah_chans h)\<rparr>))"

text \<open>
  The start of a stream for a client: the header \<open>Last-Event-ID\<close>, given as \<open>ParseInt\<close> reads it
  (\<open>None\<close>: not a number), then the reset and the replay it is sent.
\<close>

definition last_event_id :: "int option \<Rightarrow> string \<Rightarrow> int option" where
  "last_event_id parsed raw =
     (if trim_space raw = [] then Some 0
      else (case parsed of None \<Rightarrow> None | Some n \<Rightarrow> if n < 0 then None else Some n))"

definition accessCacheEventsHandler ::
  "relay_inputs \<Rightarrow> string \<Rightarrow> int option \<Rightarrow> string \<Rightarrow> AuthIdentity option \<Rightarrow> RelayStore \<Rightarrow> AccessEventHub \<Rightarrow>
   (http_error + AccessCacheEvent list \<times> int) \<times> AccessEventHub" where
  "accessCacheEventsHandler r network parsed lastID auth st h =
     (case auth of
        None \<Rightarrow> (Inl Unauthorized, h)
      | Some i \<Rightarrow>
          (case requiredNetworkID network of
             None \<Rightarrow> (Inl BadRequest, h)
           | Some networkID \<Rightarrow>
               (case guard_member InternalError (ri_now r) networkID auth st of
                  Inl err \<Rightarrow> (Inl err, h)
                | Inr m \<Rightarrow>
                    (case last_event_id parsed lastID of
                       None \<Rightarrow> (Inl BadRequest, h)
                     | Some lastSeq \<Rightarrow>
                         (case AccessSubscribe networkID lastSeq h of
                            ((replay, subID, reset), h1) \<Rightarrow>
                              (Inr ((if reset then [\<lparr>ae_Seq = lastSeq, ae_Type = ''stream.reset'',
                                       ae_NetworkID = networkID, ae_GrantID = [], ae_RevokedAt = None\<rparr>] else []) @
                                    replay, subID), h1))))))"

section \<open>The hub of connected nodes\<close>

record HubMessage =
  hm_Type :: string
  hm_SessionID :: string
  hm_Cols :: int
  hm_Rows :: int

text \<open>A node's entry is the number of the channel of its connection.\<close>

record NodeHub =
  nb_nodes :: "(string, nat) gomap"
  nb_chans :: "(nat, HubMessage chan) gomap"

definition NewNodeHub :: NodeHub where "NewNodeHub = \<lparr>nb_nodes = [], nb_chans = []\<rparr>"

definition hubKey :: "string \<Rightarrow> string \<Rightarrow> string" where
  "hubKey networkID name = networkID @ '':'' @ name"

definition hub_Register :: "string \<Rightarrow> string \<Rightarrow> nat \<Rightarrow> NodeHub \<Rightarrow> NodeHub" where
  "hub_Register networkID name ch h = h\<lparr>nb_nodes := mput (hubKey networkID name) ch (nb_nodes h)\<rparr>"

definition hub_Unregister :: "string \<Rightarrow> string \<Rightarrow> NodeHub \<Rightarrow> NodeHub" where
  "hub_Unregister networkID name h = h\<lparr>nb_nodes := mdel (hubKey networkID name) (nb_nodes h)\<rparr>"

definition hub_Has :: "string \<Rightarrow> string \<Rightarrow> NodeHub \<Rightarrow> bool" where
  "hub_Has networkID name h \<longleftrightarrow> mget (nb_nodes h) (hubKey networkID name) \<noteq> None"

datatype hub_error = NodeNotConnected | NodeBufferFull

definition hub_Send :: "string \<Rightarrow> string \<Rightarrow> HubMessage \<Rightarrow> NodeHub \<Rightarrow> (hub_error + unit) \<times> NodeHub" where
  "hub_Send networkID name msg h =
     (case mget (nb_nodes h) (hubKey networkID name) of
        None \<Rightarrow> (Inl NodeNotConnected, h)
      | Some ch \<Rightarrow>
          (case mget (nb_chans h) ch of
             None \<Rightarrow> (Inl NodeBufferFull, h)
           | Some c \<Rightarrow>
               if length (ch_items c) < ch_cap c
               then (Inr (), h\<lparr>nb_chans := mput ch (c\<lparr>ch_items := ch_items c @ [msg]\<rparr>) (nb_chans h)\<rparr>)
               else (Inl NodeBufferFull, h)))"

text \<open>A connection of a node, by the number of its channel: it registers, and unregisters when it ends.\<close>

definition connection_open :: "string \<Rightarrow> string \<Rightarrow> nat \<Rightarrow> NodeHub \<Rightarrow> NodeHub" where
  "connection_open networkID name ch h =
     hub_Register networkID name ch (h\<lparr>nb_chans := mput ch (make_chan 16) (nb_chans h)\<rparr>)"

definition connection_close :: "string \<Rightarrow> string \<Rightarrow> NodeHub \<Rightarrow> NodeHub" where
  "connection_close networkID name h = hub_Unregister networkID name h"

section \<open>Back-connections\<close>

record 'conn PendingSessions =
  ps_waits :: "(string, nat) gomap"
  ps_chans :: "(nat, 'conn chan) gomap"
  ps_next :: nat

definition NewPendingSessions :: "'conn PendingSessions" where
  "NewPendingSessions = \<lparr>ps_waits = [], ps_chans = [], ps_next = 0\<rparr>"

definition Expect :: "string \<Rightarrow> 'conn PendingSessions \<Rightarrow> nat \<times> 'conn PendingSessions" where
  "Expect sessionID p =
     (ps_next p, p\<lparr>ps_waits := mput sessionID (ps_next p) (ps_waits p),
                   ps_chans := mput (ps_next p) (make_chan 1) (ps_chans p), ps_next := ps_next p + 1\<rparr>)"

text \<open>The entry is taken under the lock; the send to its channel, which has room for one, follows.\<close>

definition deliver_take :: "string \<Rightarrow> 'conn PendingSessions \<Rightarrow> nat option \<times> 'conn PendingSessions" where
  "deliver_take sessionID p = (mget (ps_waits p) sessionID, p\<lparr>ps_waits := mdel sessionID (ps_waits p)\<rparr>)"

definition deliver_send :: "'conn \<Rightarrow> nat \<Rightarrow> 'conn PendingSessions \<Rightarrow> 'conn PendingSessions option" where
  "deliver_send conn ch p =
     (case mget (ps_chans p) ch of
        None \<Rightarrow> None
      | Some c \<Rightarrow>
          if ch_closed c \<or> ch_cap c \<le> length (ch_items c) then None
          else Some (p\<lparr>ps_chans := mput ch (c\<lparr>ch_items := ch_items c @ [conn]\<rparr>) (ps_chans p)\<rparr>))"

definition deliver :: "string \<Rightarrow> 'conn \<Rightarrow> 'conn PendingSessions \<Rightarrow> bool \<times> 'conn PendingSessions option" where
  "deliver sessionID conn p =
     (case deliver_take sessionID p of
        (None, p1) \<Rightarrow> (False, Some p1)
      | (Some ch, p1) \<Rightarrow> (True, deliver_send conn ch p1))"

definition pending_Cancel :: "string \<Rightarrow> 'conn PendingSessions \<Rightarrow> 'conn PendingSessions" where
  "pending_Cancel sessionID p =
     (case mget (ps_waits p) sessionID of
        None \<Rightarrow> p
      | Some ch \<Rightarrow>
          p\<lparr>ps_waits := mdel sessionID (ps_waits p),
             ps_chans := (case mget (ps_chans p) ch of
                None \<Rightarrow> ps_chans p | Some c \<Rightarrow> mput ch (close_chan c) (ps_chans p))\<rparr>)"

section \<open>SSH sessions\<close>

definition parseSSHUser :: "string \<Rightarrow> string \<times> string" where
  "parseSSHUser user =
     (if CHR ''/'' \<in> set user
      then (takeWhile (\<lambda>c. c \<noteq> CHR ''/'') user, tl (dropWhile (\<lambda>c. c \<noteq> CHR ''/'') user))
      else ([], user))"

text \<open>The password is a node's token, the user the node, with its network before a slash or without.\<close>

definition ssh_password :: "string \<Rightarrow> string \<Rightarrow> RelayStore \<Rightarrow> (string \<times> string) option" where
  "ssh_password user pass st =
     (case NodeGetByToken pass st of
        None \<Rightarrow> None
      | Some node \<Rightarrow>
          (case parseSSHUser user of
             (requestedNetwork, requestedName) \<Rightarrow>
               if requestedName \<noteq> nr_Name node then None
               else if requestedNetwork \<noteq> [] \<and> requestedNetwork \<noteq> nr_NetworkID node then None
               else Some (nr_Name node, nr_NetworkID node)))"

text \<open>\<open>binary.BigEndian.Uint32(b[o:])\<close>; \<open>None\<close> is the panic of a slice or index out of range.\<close>

definition be_uint32 :: "bytes \<Rightarrow> nat \<Rightarrow> uint32 option" where
  "be_uint32 b off =
     (if off + 4 \<le> length b then Some (get_uint32 (drop off b))
      else None)"

text \<open>
  The size in the payload of \<open>pty-req\<close>: \<open>None\<close> is a panic, which nothing recovers. The offsets are
  of 32 bits and wrap.
\<close>

definition pty_size :: "bytes \<Rightarrow> uint32 \<times> uint32 \<Rightarrow> (uint32 \<times> uint32) option" where
  "pty_size payload sz =
     (if length payload < 4 then Some sz
      else (case be_uint32 payload 0 of
         None \<Rightarrow> None
       | Some termLen \<Rightarrow>
           let offset = 4 + termLen in
           if length payload < unat (offset + 8) then Some sz
           else (case be_uint32 payload (unat offset) of
              None \<Rightarrow> None
            | Some cols \<Rightarrow>
                (case be_uint32 payload (unat (offset + 4)) of
                   None \<Rightarrow> None
                 | Some rows \<Rightarrow> Some (cols, rows)))))"

datatype ssh_request = PtyReq bytes | WindowChange | Shell | Exec | OtherRequest string

text \<open>
  The requests of a channel up to the one that starts the bridge: the size it starts with and the
  replies, or \<open>None\<close> for a panic; without a shell the channel just ends.
\<close>

datatype ssh_outcome = Bridge uint32 uint32 | ChannelEnd

fun ssh_requests :: "uint32 \<times> uint32 \<Rightarrow> (ssh_request \<times> bool) list \<Rightarrow> (bool list \<times> ssh_outcome) option" where
  "ssh_requests sz [] = Some ([], ChannelEnd)"
| "ssh_requests sz ((PtyReq payload, want) # reqs) =
     (case pty_size payload sz of
        None \<Rightarrow> None
      | Some size1 \<Rightarrow> map_option (\<lambda>(rs, out). ((if want then [True] else []) @ rs, out)) (ssh_requests size1 reqs))"
| "ssh_requests sz ((WindowChange, want) # reqs) =
     map_option (\<lambda>(rs, out). ((if want then [True] else []) @ rs, out)) (ssh_requests sz reqs)"
| "ssh_requests sz ((Shell, want) # reqs) = Some (if want then [True] else [], Bridge (fst sz) (snd sz))"
| "ssh_requests sz ((Exec, want) # reqs) = Some (if want then [True] else [], Bridge (fst sz) (snd sz))"
| "ssh_requests sz ((OtherRequest t, want) # reqs) =
     map_option (\<lambda>(rs, out). ((if want then [False] else []) @ rs, out)) (ssh_requests sz reqs)"

text \<open>
  The bridge up to the answer of the node: it waits for the back-connection before it signals the
  node, and cancels the wait when it ends.
\<close>

datatype back_wait = BackConn nat | BackClosed | BackTimeout

datatype bridge_outcome = NodeUnavailable | BackConnClosed | BackTimedOut | Bridged nat

definition bridge_start ::
  "string \<Rightarrow> string \<Rightarrow> string \<Rightarrow> int \<Rightarrow> int \<Rightarrow> NodeHub \<Rightarrow> nat PendingSessions \<Rightarrow>
   (hub_error + unit) \<times> NodeHub \<times> nat PendingSessions" where
  "bridge_start network name sessionID cols rows h p =
     (case Expect sessionID p of
        (ch, p1) \<Rightarrow>
          (case hub_Send network name \<lparr>hm_Type = ''SSHRequest'', hm_SessionID = sessionID, hm_Cols = cols, hm_Rows = rows\<rparr> h of
             (Inl err, h1) \<Rightarrow> (Inl err, h1, pending_Cancel sessionID p1)
           | (Inr u, h1) \<Rightarrow> (Inr (), h1, p1)))"

definition bridge_wait :: "string \<Rightarrow> back_wait \<Rightarrow> nat PendingSessions \<Rightarrow> bridge_outcome \<times> nat PendingSessions" where
  "bridge_wait sessionID w p =
     (case w of
        BackConn c \<Rightarrow> (Bridged c, pending_Cancel sessionID p)
      | BackClosed \<Rightarrow> (BackConnClosed, pending_Cancel sessionID p)
      | BackTimeout \<Rightarrow> (BackTimedOut, pending_Cancel sessionID p))"

end
