(* ===== verification/RelayTasks.thy ===== *)
theory RelayTasks
  imports RelayEvents
begin

text \<open>
  Task reports on the relay: \<open>internal/relay/task_types.go\<close>, \<open>task_events.go\<close>, the interface of
  \<open>task_store.go\<close> and the store over NATS, \<open>nats_task_store.go\<close>. NATS itself is not in the
  repository: publishing on the stream (\<open>pub\<close>, by subject and message identifier, to the sequence
  number of the acknowledgement), the content of the bucket and the messages of a consumer are
  arguments. JSON is left out: an event is kept as its struct.
\<close>

section \<open>Messages\<close>

record TaskReportMessage =
  tm_EventID :: string
  tm_SessionID :: uint32
  tm_SessionName :: string
  tm_Summary :: string
  tm_State :: string
  tm_Timestamp :: string

record TaskEvent =
  te_EventID :: string
  te_NetworkID :: string
  te_NodeName :: string
  te_SessionID :: uint32
  te_SessionName :: string
  te_Summary :: string
  te_State :: string
  te_Timestamp :: string

record LatestTaskValue =
  lt_StreamSeq :: uint64
  lt_Event :: TaskEvent

record TaskFilter =
  tf_NetworkID :: string
  tf_NodeName :: string
  tf_SessionID :: "uint32 option"
  tf_State :: string

datatype relay_task_error =
    TaskNetworkInvalid | TaskNodeRequired | TaskEventIDRequired | TaskSessionRequired | TaskSummaryRequired
  | TaskStateInvalid string | TaskTimestampInvalid | TaskPublishFailed | TaskLatestFailed | TaskSessionInvalid

definition isValidTaskState :: "string \<Rightarrow> bool" where
  "isValidTaskState state \<longleftrightarrow> trim_space state \<in> {''working'', ''complete'', ''blocked'', ''failed''}"

section \<open>Subjects and keys\<close>

definition task_suffix :: "uint32 \<Rightarrow> string" where
  "task_suffix sessionID = ''.s'' @ show_nat (unat sessionID)"

definition subjectForTask :: "string \<Rightarrow> string \<Rightarrow> string \<Rightarrow> uint32 \<Rightarrow> string" where
  "subjectForTask root networkID nodeName sessionID =
     trim_space root @ ''.'' @ trim_space networkID @ ''.'' @ trim_space nodeName @ task_suffix sessionID"

definition kvKeyForTask :: "string \<Rightarrow> string \<Rightarrow> uint32 \<Rightarrow> string" where
  "kvKeyForTask networkID nodeName sessionID =
     trim_space networkID @ ''.'' @ trim_space nodeName @ task_suffix sessionID"

definition normalizeTaskFilter :: "TaskFilter \<Rightarrow> TaskFilter" where
  "normalizeTaskFilter f =
     f\<lparr>tf_NetworkID := trim_space (tf_NetworkID f), tf_NodeName := trim_space (tf_NodeName f),
        tf_State := trim_space (tf_State f)\<rparr>"

definition subjectFilter :: "string \<Rightarrow> TaskFilter \<Rightarrow> string" where
  "subjectFilter root0 f0 =
     (let root = trim_space root0; f = normalizeTaskFilter f0 in
      case tf_SessionID f of
        Some sessionID \<Rightarrow>
          subjectForTask root (tf_NetworkID f) (if tf_NodeName f = [] then ''*'' else tf_NodeName f) sessionID
      | None \<Rightarrow>
          if tf_NodeName f \<noteq> [] then root @ ''.'' @ tf_NetworkID f @ ''.'' @ tf_NodeName f @ ''.>''
          else root @ ''.'' @ tf_NetworkID f @ ''.>'')"

definition taskSubjectRoot :: "string \<Rightarrow> string" where
  "taskSubjectRoot configured = (if trim_space configured \<noteq> [] then trim_space configured else ''tasks'')"

definition taskEventsStreamName :: "string \<Rightarrow> string" where
  "taskEventsStreamName configured = (if trim_space configured \<noteq> [] then trim_space configured else ''TASK_EVENTS'')"

definition taskLatestBucketName :: "string \<Rightarrow> string" where
  "taskLatestBucketName configured = (if trim_space configured \<noteq> [] then trim_space configured else ''TASK_LATEST'')"

text \<open>What a filter lets through, of a latest value as of an event; empty fields are not compared.\<close>

definition matchesTaskEventFilter :: "TaskEvent \<Rightarrow> TaskFilter \<Rightarrow> bool" where
  "matchesTaskEventFilter ev f0 =
     (let f = normalizeTaskFilter f0 in
      if tf_NetworkID f \<noteq> [] \<and> te_NetworkID ev \<noteq> tf_NetworkID f then False
      else if tf_NodeName f \<noteq> [] \<and> te_NodeName ev \<noteq> tf_NodeName f then False
      else if (case tf_SessionID f of None \<Rightarrow> False | Some i \<Rightarrow> te_SessionID ev \<noteq> i) then False
      else if tf_State f \<noteq> [] \<and> te_State ev \<noteq> tf_State f then False
      else True)"

definition matchesLatestTaskFilter :: "LatestTaskValue \<Rightarrow> TaskFilter \<Rightarrow> bool" where
  "matchesLatestTaskFilter v f0 =
     (let f = normalizeTaskFilter f0; ev = lt_Event v in
      if tf_NetworkID f \<noteq> [] \<and> te_NetworkID ev \<noteq> tf_NetworkID f then False
      else if tf_NodeName f \<noteq> [] \<and> te_NodeName ev \<noteq> tf_NodeName f then False
      else if (case tf_SessionID f of None \<Rightarrow> False | Some i \<Rightarrow> te_SessionID ev \<noteq> i) then False
      else if tf_State f \<noteq> [] \<and> te_State ev \<noteq> tf_State f then False
      else True)"

section \<open>Publishing\<close>

text \<open>\<open>parse_time\<close> is the parsing of a time stamp of RFC 3339 and its rendering in UTC.\<close>

definition normalizeTaskTimestamp :: "(string \<Rightarrow> string option) \<Rightarrow> string \<Rightarrow> string option" where
  "normalizeTaskTimestamp parse_time raw =
     (let ts = trim_space raw in if ts = [] then None else parse_time ts)"

definition taskEventFromNodeReport ::
  "(string \<Rightarrow> string option) \<Rightarrow> NodeRecord \<Rightarrow> TaskReportMessage \<Rightarrow> relay_task_error + TaskEvent" where
  "taskEventFromNodeReport parse_time node msg =
     (let eventID = trim_space (tm_EventID msg); summary = trim_space (tm_Summary msg);
          state = trim_space (tm_State msg)
      in if eventID = [] then Inl TaskEventIDRequired
         else if tm_SessionID msg = 0 then Inl TaskSessionRequired
         else if summary = [] then Inl TaskSummaryRequired
         else if \<not> isValidTaskState state then Inl (TaskStateInvalid (tm_State msg))
         else (case normalizeTaskTimestamp parse_time (tm_Timestamp msg) of
            None \<Rightarrow> Inl TaskTimestampInvalid
          | Some timestamp \<Rightarrow>
              Inr \<lparr>te_EventID = eventID, te_NetworkID = trim_space (nr_NetworkID node),
                   te_NodeName = trim_space (nr_Name node), te_SessionID = tm_SessionID msg,
                   te_SessionName = trim_space (tm_SessionName msg), te_Summary = summary, te_State = state,
                   te_Timestamp = timestamp\<rparr>))"

text \<open>
  The bucket of latest values is written after the event was published, whatever number the stream
  answers. \<open>put\<close> says whether the write succeeds.
\<close>

type_synonym latest_bucket = "(string, LatestTaskValue) gomap"

definition PublishNodeTaskReport ::
  "(string \<Rightarrow> string option) \<Rightarrow> (string \<Rightarrow> string \<Rightarrow> TaskEvent \<Rightarrow> uint64 option) \<Rightarrow> bool \<Rightarrow> string \<Rightarrow> NodeRecord \<Rightarrow>
   TaskReportMessage \<Rightarrow> latest_bucket \<Rightarrow> (relay_task_error + LatestTaskValue) \<times> latest_bucket" where
  "PublishNodeTaskReport parse_time pub put root node msg kv =
     (if \<not> validateNetworkID (trim_space (nr_NetworkID node)) then (Inl TaskNetworkInvalid, kv)
      else if trim_space (nr_Name node) = [] then (Inl TaskNodeRequired, kv)
      else (case taskEventFromNodeReport parse_time node msg of
         Inl err \<Rightarrow> (Inl err, kv)
       | Inr ev \<Rightarrow>
           (case pub (subjectForTask root (te_NetworkID ev) (te_NodeName ev) (te_SessionID ev)) (te_EventID ev) ev of
              None \<Rightarrow> (Inl TaskPublishFailed, kv)
            | Some streamSeq \<Rightarrow>
                let latest = \<lparr>lt_StreamSeq = streamSeq, lt_Event = ev\<rparr> in
                if put then (Inr latest, mput (kvKeyForTask (te_NetworkID ev) (te_NodeName ev) (te_SessionID ev)) latest kv)
                else (Inl TaskLatestFailed, kv))))"

text \<open>A message of a node's connection: reports are published, others and malformed ones (\<open>None\<close>) ignored.\<close>

datatype agent_message = AgentTaskReport TaskReportMessage | AgentOther

definition dispatchNodeAgentMessage ::
  "(string \<Rightarrow> string option) \<Rightarrow> (string \<Rightarrow> string \<Rightarrow> TaskEvent \<Rightarrow> uint64 option) \<Rightarrow> bool \<Rightarrow> string \<Rightarrow> NodeRecord \<Rightarrow>
   agent_message option \<Rightarrow> latest_bucket \<Rightarrow> relay_task_error option \<times> latest_bucket" where
  "dispatchNodeAgentMessage parse_time pub put root node msg kv =
     (case msg of
        Some (AgentTaskReport report) \<Rightarrow>
          (case PublishNodeTaskReport parse_time pub put root node report kv of
             (Inl err, kv1) \<Rightarrow> (Some err, kv1)
           | (Inr v, kv1) \<Rightarrow> (None, kv1))
      | _ \<Rightarrow> (None, kv))"

section \<open>Listing and watching\<close>

definition latest_order :: "LatestTaskValue \<Rightarrow> string \<times> string \<times> nat" where
  "latest_order v = (te_NodeName (lt_Event v), te_SessionName (lt_Event v), unat (te_SessionID (lt_Event v)))"

text \<open>\<open>None\<close> is the error of a filter without a network.\<close>

definition ListLatestTasks :: "TaskFilter \<Rightarrow> latest_bucket \<Rightarrow> LatestTaskValue list option" where
  "ListLatestTasks f0 kv =
     (let f = normalizeTaskFilter f0 in
      if tf_NetworkID f = [] then None
      else Some (sort_key latest_order (filter (\<lambda>v. matchesLatestTaskFilter v f) (map snd kv))))"

text \<open>
  A watch reads the stream after a number, or from its start: \<open>stream\<close> holds the messages, in their
  order, of the subject the consumer filters, a message that is not an event being \<open>None\<close>.
\<close>

definition watch_start :: "uint64 \<Rightarrow> uint64 option" where
  "watch_start afterSeq = (if 0 < afterSeq then Some (afterSeq + 1) else None)"

definition WatchTasks ::
  "TaskFilter \<Rightarrow> uint64 \<Rightarrow> (uint64 \<times> TaskEvent option) list \<Rightarrow> (uint64 \<times> TaskEvent) list option" where
  "WatchTasks f0 afterSeq stream =
     (let f = normalizeTaskFilter f0 in
      if tf_NetworkID f = [] then None
      else
        let delivered = (case watch_start afterSeq of None \<Rightarrow> stream | Some s \<Rightarrow> filter (\<lambda>(i, ev). s \<le> i) stream)
        in Some (concat (map (\<lambda>(i, ev). case ev of None \<Rightarrow> []
                   | Some e \<Rightarrow> if matchesTaskEventFilter e f then [(i, e)] else []) delivered)))"

section \<open>Handlers\<close>

text \<open>\<open>strconv.ParseUint(s, 10, 64)\<close>.\<close>

definition parse_uint64 :: "string \<Rightarrow> uint64 option" where
  "parse_uint64 s =
     (if s = [] \<or> \<not> list_all is_digit s then None
      else (let n = digits_val 0 s in if n < 2 ^ 64 then Some (of_nat n) else None))"

definition taskFilterFromRequest :: "string \<Rightarrow> string \<Rightarrow> string \<Rightarrow> string \<Rightarrow> TaskFilter option" where
  "taskFilterFromRequest network node state session_id =
     (case requiredNetworkID network of
        None \<Rightarrow> None
      | Some networkID \<Rightarrow>
          let f = \<lparr>tf_NetworkID = networkID, tf_NodeName = trim_space node, tf_SessionID = None,
                   tf_State = trim_space state\<rparr>;
              raw = trim_space session_id
          in if tf_State f \<noteq> [] \<and> \<not> isValidTaskState (tf_State f) then None
             else if raw = [] then Some f
             else (case parse_uint32 raw of
                None \<Rightarrow> None
              | Some n \<Rightarrow> if n = 0 then None else Some (f\<lparr>tf_SessionID := Some (of_nat n)\<rparr>)))"

definition parseTaskLastEventID :: "string \<Rightarrow> uint64 option" where
  "parseTaskLastEventID raw0 = (let raw = trim_space raw0 in if raw = [] then Some 0 else parse_uint64 raw)"

definition taskListHandler ::
  "relay_inputs \<Rightarrow> string \<Rightarrow> string \<Rightarrow> string \<Rightarrow> string \<Rightarrow> AuthIdentity option \<Rightarrow> RelayStore \<Rightarrow> latest_bucket \<Rightarrow>
   http_error + LatestTaskValue list" where
  "taskListHandler r network node state session_id auth st kv =
     (case auth of
        None \<Rightarrow> Inl Unauthorized
      | Some i \<Rightarrow>
          (case taskFilterFromRequest network node state session_id of
             None \<Rightarrow> Inl BadRequest
           | Some f \<Rightarrow>
               (case guard_member InternalError (ri_now r) (tf_NetworkID f) auth st of
                  Inl err \<Rightarrow> Inl err
                | Inr m \<Rightarrow> (case ListLatestTasks f kv of None \<Rightarrow> Inl InternalError | Some vs \<Rightarrow> Inr vs))))"

text \<open>
  The start of a task stream: the number of the reset event, if one is sent, and what the watch
  delivers. \<open>earliest\<close> is the first number the stream still holds.
\<close>

definition watch_after :: "uint64 \<Rightarrow> uint64 \<Rightarrow> uint64 option \<times> uint64" where
  "watch_after lastSeq earliest =
     (if 0 < lastSeq \<and> lastSeq + 1 < earliest then (Some earliest, earliest - 1) else (None, lastSeq))"

definition taskEventsHandler ::
  "relay_inputs \<Rightarrow> string \<Rightarrow> string \<Rightarrow> string \<Rightarrow> string \<Rightarrow> string \<Rightarrow> AuthIdentity option \<Rightarrow> RelayStore \<Rightarrow> uint64 \<Rightarrow>
   (uint64 \<times> TaskEvent option) list \<Rightarrow> http_error + uint64 option \<times> (uint64 \<times> TaskEvent) list" where
  "taskEventsHandler r network node state session_id lastID auth st earliest stream =
     (case auth of
        None \<Rightarrow> Inl Unauthorized
      | Some i \<Rightarrow>
          (case taskFilterFromRequest network node state session_id of
             None \<Rightarrow> Inl BadRequest
           | Some f \<Rightarrow>
               (case guard_member InternalError (ri_now r) (tf_NetworkID f) auth st of
                  Inl err \<Rightarrow> Inl err
                | Inr m \<Rightarrow>
                    (case parseTaskLastEventID lastID of
                       None \<Rightarrow> Inl BadRequest
                     | Some lastSeq \<Rightarrow>
                         (case watch_after lastSeq earliest of
                            (reset, afterSeq) \<Rightarrow>
                              (case WatchTasks f afterSeq stream of
                                 None \<Rightarrow> Inl InternalError
                               | Some evs \<Rightarrow> Inr (reset, evs)))))))"

end
