(* ===== verification/RelayOps.thy ===== *)
theory RelayOps
  imports RelayLogin RelayTasks
begin

text \<open>
  The writes of the relay's store as data. A request, and any interleaving of requests, comes down
  to a sequence of these operations, so what every operation keeps is kept by the relay: the keys
  and unique columns of the tables, and the bounds on the uses of invites and enrollments.
\<close>

section \<open>Operations\<close>

datatype (discs_sels) relay_op =
    ONetworkEnsure nanos string
  | OMemberUpsert nanos NetworkMember
  | OGroupCreate nanos Group
  | OGroupDelete string string
  | OGroupMemberAdd GroupMember
  | OGroupMemberRemove string string string string
  | OGroupPolicySet GroupPolicy
  | ONodeRegister nanos NodeRecord
  | ONodeDelete string string
  | ONodeSeen nanos string string
  | OEnrollmentCreate nanos NodeEnrollment
  | OEnrollmentConsume string nanos
  | OKVSet nanos string string string bytes "int option"
  | OKVDelete string string string
  | OInviteCreate nanos Invite
  | OInviteConsume nanos string
  | OInviteDelete string string
  | OGrantCreate AccessGrant
  | OGrantRevoke string string nanos
  | OUserUpsert User
  | OSessionCreate AuthSession
  | OStateCreate OAuthState
  | OStateConsume nanos string
  | OOIDCUserUpsert OIDCUser
  | OOIDCSessionCreate OIDCSession
  | OFlowCreate OIDCDeviceFlow
  | OFlowComplete nanos string string
  | OGitHubAppSet GitHubApp
  | OCleanup nanos

fun store_do :: "relay_op \<Rightarrow> RelayStore \<Rightarrow> RelayStore" where
  "store_do (ONetworkEnsure now n) st = NetworkEnsure now n st"
| "store_do (OMemberUpsert now m) st = NetworkMemberUpsert now m st"
| "store_do (OGroupCreate now g) st = snd (GroupCreate now g st)"
| "store_do (OGroupDelete n g) st = snd (GroupDelete n g st)"
| "store_do (OGroupMemberAdd m) st = snd (GroupMemberAdd m st)"
| "store_do (OGroupMemberRemove n g nd s) st = snd (GroupMemberRemove n g nd s st)"
| "store_do (OGroupPolicySet p) st = snd (GroupPolicySet p st)"
| "store_do (ONodeRegister now node) st = snd (NodeRegister now node st)"
| "store_do (ONodeDelete n name) st = NodeDelete n name st"
| "store_do (ONodeSeen now n name) st = NodeUpdateLastSeen now n name st"
| "store_do (OEnrollmentCreate now e) st = snd (NodeEnrollmentCreate now e st)"
| "store_do (OEnrollmentConsume h now) st = snd (NodeEnrollmentConsume h now st)"
| "store_do (OKVSet now n ns k v ttl) st = KVSet now n ns k v ttl st"
| "store_do (OKVDelete n ns k) st = KVDelete n ns k st"
| "store_do (OInviteCreate now iv) st = snd (InviteCreate now iv st)"
| "store_do (OInviteConsume now t) st = snd (InviteConsume now t st)"
| "store_do (OInviteDelete n t) st = InviteDelete n t st"
| "store_do (OGrantCreate g) st = snd (AccessGrantCreate g st)"
| "store_do (OGrantRevoke n i t) st = snd (AccessGrantRevoke n i t st)"
| "store_do (OUserUpsert u) st = snd (UserUpsert u st)"
| "store_do (OSessionCreate s) st = snd (SessionCreate s st)"
| "store_do (OStateCreate s) st = snd (OAuthStateCreate s st)"
| "store_do (OStateConsume now s) st = snd (OAuthStateConsume now s st)"
| "store_do (OOIDCUserUpsert u) st = OIDCUserUpsert u st"
| "store_do (OOIDCSessionCreate s) st = snd (OIDCSessionCreate s st)"
| "store_do (OFlowCreate f) st = snd (OIDCDeviceFlowCreate f st)"
| "store_do (OFlowComplete now p t) st = snd (OIDCDeviceFlowComplete now p t st)"
| "store_do (OGitHubAppSet a) st = GitHubAppSet a st"
| "store_do (OCleanup now) st = cleanupLoop now st"

lemmas member_defs = NetworkEnsure_def NetworkMemberUpsert_def Let_def
lemmas group_defs = GroupCreate_def GroupDelete_def GroupMemberAdd_def GroupMemberRemove_def GroupPolicySet_def
  NetworkEnsure_def Let_def
lemmas node_defs = NodeRegister_def NodeDelete_def NodeUpdateLastSeen_def NodeEnrollmentCreate_def
  NodeEnrollmentConsume_def NetworkEnsure_def Let_def
lemmas kv_defs = KVSet_def KVDelete_def Let_def
lemmas grant_defs = InviteCreate_def InviteConsume_def InviteDelete_def AccessGrantCreate_def
  AccessGrantRevoke_def NetworkEnsure_def Let_def
lemmas login_defs = UserUpsert_def SessionCreate_def OAuthStateCreate_def OAuthStateConsume_def OIDCUserUpsert_def
  OIDCSessionCreate_def OIDCDeviceFlowCreate_def OIDCDeviceFlowComplete_def GitHubAppSet_def cleanupLoop_def Let_def
lemmas store_defs = member_defs group_defs node_defs kv_defs grant_defs login_defs

section \<open>Which table an operation writes\<close>

text \<open>
  For every table, the operations that leave it alone leave it equal: the other facts are about the
  few that do not.
\<close>

lemma members_frame: "\<not> is_OMemberUpsert op \<Longrightarrow> st_members (store_do op st) = st_members st"
  by (cases op) (simp_all add: store_defs split: option.splits prod.splits)

lemma invites_frame:
  "\<not> is_OInviteCreate op \<Longrightarrow> \<not> is_OInviteConsume op \<Longrightarrow> \<not> is_OInviteDelete op \<Longrightarrow> \<not> is_OCleanup op \<Longrightarrow>
   st_invites (store_do op st) = st_invites st"
  by (cases op) (simp_all add: store_defs split: option.splits prod.splits)

lemma enrollments_frame:
  "\<not> is_OEnrollmentCreate op \<Longrightarrow> \<not> is_OEnrollmentConsume op \<Longrightarrow>
   st_enrollments (store_do op st) = st_enrollments st"
  by (cases op) (simp_all add: store_defs split: option.splits prod.splits)

lemma nodes_frame:
  "\<not> is_ONodeRegister op \<Longrightarrow> \<not> is_ONodeDelete op \<Longrightarrow> \<not> is_ONodeSeen op \<Longrightarrow>
   st_nodes (store_do op st) = st_nodes st"
  by (cases op) (simp_all add: store_defs split: option.splits prod.splits)

lemma groups_frame:
  "\<not> is_OGroupCreate op \<Longrightarrow> \<not> is_OGroupDelete op \<Longrightarrow> st_groups (store_do op st) = st_groups st"
  by (cases op) (simp_all add: store_defs split: option.splits prod.splits)

lemma policies_frame:
  "\<not> is_OGroupCreate op \<Longrightarrow> \<not> is_OGroupDelete op \<Longrightarrow> \<not> is_OGroupPolicySet op \<Longrightarrow>
   st_policies (store_do op st) = st_policies st"
  by (cases op) (simp_all add: store_defs split: option.splits prod.splits)

lemma kv_frame:
  "\<not> is_OKVSet op \<Longrightarrow> \<not> is_OKVDelete op \<Longrightarrow> \<not> is_OCleanup op \<Longrightarrow> st_kv (store_do op st) = st_kv st"
  by (cases op) (simp_all add: store_defs split: option.splits prod.splits)

lemma grants_frame:
  "\<not> is_OGrantCreate op \<Longrightarrow> \<not> is_OGrantRevoke op \<Longrightarrow> \<not> is_OCleanup op \<Longrightarrow>
   st_grants (store_do op st) = st_grants st"
  by (cases op) (simp_all add: store_defs split: option.splits prod.splits)

lemma group_members_frame:
  "\<not> is_OGroupMemberAdd op \<Longrightarrow> \<not> is_OGroupMemberRemove op \<Longrightarrow> \<not> is_OGroupDelete op \<Longrightarrow>
   st_groupMembers (store_do op st) = st_groupMembers st"
  by (cases op) (simp_all add: store_defs split: option.splits prod.splits)

section \<open>Keys\<close>

text \<open>The primary keys and unique columns of the tables that requests write.\<close>

definition store_ok :: "RelayStore \<Rightarrow> bool" where
  "store_ok st \<longleftrightarrow>
     keyed nw_ID (st_networks st) \<and> keyed member_key (st_members st) \<and> keyed group_key (st_groups st) \<and>
     keyed group_member_key (st_groupMembers st) \<and> keyed policy_key (st_policies st) \<and>
     keyed node_key (st_nodes st) \<and> keyed nr_Token (st_nodes st) \<and>
     keyed ne_ID (st_enrollments st) \<and> keyed ne_TokenHash (st_enrollments st) \<and> keyed kv_key (st_kv st) \<and>
     keyed iv_Token (st_invites st) \<and> keyed ag_ID (st_grants st)"

lemma store_ok_start: "store_ok NewSQLiteStore"
  by (simp add: store_ok_def NewSQLiteStore_def)

lemma keyed_insert_sql [keyed_intros]:
  "keyed key t \<Longrightarrow> keyed key (case insert_row key r t of None \<Rightarrow> t | Some t' \<Rightarrow> t')"
  by (auto dest: keyed_insert split: option.splits)

text \<open>A row whose other unique column is taken by no other row may replace its key's row.\<close>

lemma keyed_upsert_unique:
  assumes "keyed key t" "keyed u t" "\<And>x. key (f x) = key x" "\<And>x. u (f x) = u r"
    and "\<And>x. x \<in> set t \<Longrightarrow> u x = u r \<Longrightarrow> key x = key r"
  shows "keyed u (upsert key f r t)"
proof (cases "has_key key (key r) t")
  case False
  then have "u r \<notin> u ` set t"
    using assms(5) by (metis has_key_iff imageE image_eqI)
  then show ?thesis using assms(2) False by (simp add: upsert_def keyed_def)
next
  case True
  have "distinct (map u (map (\<lambda>x. if key x = key r then f x else x) t))"
    using assms(1,2,5)
  proof (induction t)
    case (Cons x t)
    have ih: "distinct (map u (map (\<lambda>x. if key x = key r then f x else x) t))"
      using Cons.prems by (intro Cons.IH) (auto simp: keyed_def)
    have other: "u y \<noteq> u x" if "y \<in> set t" for y using Cons.prems(2) that by (auto simp: keyed_def image_iff)
    show ?case
    proof (cases "key x = key r")
      case True
      then have ne: "key y \<noteq> key r" if "y \<in> set t" for y
        using Cons.prems(1) that by (auto simp: keyed_def image_iff)
      then have "map (\<lambda>x. if key x = key r then f x else x) t = t" by (simp add: map_idI)
      moreover have "u r \<notin> u ` set t"
        using ne Cons.prems(3) by (metis imageE list.set_intros(2))
      ultimately show ?thesis using Cons.prems(2) True assms(4) by (simp add: keyed_def)
    next
      case False
      then have "u x \<noteq> u r" using Cons.prems(3) by auto
      then have "u (if key y = key r then f y else y) \<noteq> u x" if "y \<in> set t" for y
        using other [OF that] assms(4) [of y] by (cases "key y = key r") (metis, simp)
      then have "u x \<notin> (\<lambda>y. u (if key y = key r then f y else y)) ` set t"
        by (metis (no_types, lifting) imageE)
      with ih False show ?thesis by (simp add: o_def)
    qed
  qed simp
  then show ?thesis using True by (simp add: keyed_def upsert_def)
qed

lemma keyed_members: "keyed member_key (st_members st) \<Longrightarrow> keyed member_key (st_members (store_do op st))"
  by (cases "is_OMemberUpsert op")
    (auto simp: members_frame is_OMemberUpsert_def member_defs member_key_def intro!: keyed_intros)

lemma keyed_networks: "keyed nw_ID (st_networks st) \<Longrightarrow> keyed nw_ID (st_networks (store_do op st))"
  by (cases op) (auto simp: store_defs intro: keyed_intros split: option.splits prod.splits)

lemma keyed_groups: "keyed group_key (st_groups st) \<Longrightarrow> keyed group_key (st_groups (store_do op st))"
  by (cases "is_OGroupCreate op"; cases "is_OGroupDelete op")
    (auto simp: groups_frame is_OGroupCreate_def is_OGroupDelete_def group_defs intro: keyed_intros
      dest: keyed_insert split: option.splits)

lemma keyed_policies: "keyed policy_key (st_policies st) \<Longrightarrow> keyed policy_key (st_policies (store_do op st))"
  by (cases "is_OGroupCreate op"; cases "is_OGroupDelete op"; cases "is_OGroupPolicySet op")
    (auto simp: policies_frame is_OGroupCreate_def is_OGroupDelete_def is_OGroupPolicySet_def group_defs policy_key_def
      intro!: keyed_intros split: option.splits)

lemma keyed_group_members:
  "keyed group_member_key (st_groupMembers st) \<Longrightarrow> keyed group_member_key (st_groupMembers (store_do op st))"
  by (cases "is_OGroupMemberAdd op"; cases "is_OGroupMemberRemove op"; cases "is_OGroupDelete op")
    (auto simp: group_members_frame is_OGroupMemberAdd_def is_OGroupMemberRemove_def is_OGroupDelete_def group_defs
      intro: keyed_intros)

lemma keyed_kv: "keyed kv_key (st_kv st) \<Longrightarrow> keyed kv_key (st_kv (store_do op st))"
  by (cases "is_OKVSet op"; cases "is_OKVDelete op"; cases "is_OCleanup op")
    (auto simp: kv_frame is_OKVSet_def is_OKVDelete_def is_OCleanup_def kv_defs kv_key_def cleanupLoop_def
      intro!: keyed_intros)

lemma keyed_grants: "keyed ag_ID (st_grants st) \<Longrightarrow> keyed ag_ID (st_grants (store_do op st))"
  by (cases "is_OGrantCreate op"; cases "is_OGrantRevoke op"; cases "is_OCleanup op")
    (auto simp: grants_frame is_OGrantCreate_def is_OGrantRevoke_def is_OCleanup_def grant_defs cleanupLoop_def
      intro!: keyed_intros dest: keyed_insert split: option.splits)

lemma keyed_invites: "keyed iv_Token (st_invites st) \<Longrightarrow> keyed iv_Token (st_invites (store_do op st))"
  by (cases "is_OInviteCreate op"; cases "is_OInviteConsume op"; cases "is_OInviteDelete op"; cases "is_OCleanup op")
    (auto simp: invites_frame is_OInviteCreate_def is_OInviteConsume_def is_OInviteDelete_def is_OCleanup_def
      grant_defs cleanupLoop_def intro!: keyed_intros dest: keyed_insert split: option.splits)

lemma keyed_append: "keyed key t \<Longrightarrow> \<not> list_ex (\<lambda>x. key x = key r) t \<Longrightarrow> keyed key (t @ [r])"
  by (auto simp: keyed_def list_ex_iff)

lemma keyed_enrollments:
  "keyed ne_ID (st_enrollments st) \<Longrightarrow> keyed ne_ID (st_enrollments (store_do op st))"
  "keyed ne_TokenHash (st_enrollments st) \<Longrightarrow> keyed ne_TokenHash (st_enrollments (store_do op st))"
  by (cases "is_OEnrollmentCreate op"; cases "is_OEnrollmentConsume op";
      auto simp: enrollments_frame is_OEnrollmentCreate_def is_OEnrollmentConsume_def node_defs list_ex_iff
        intro!: keyed_intros keyed_append split: option.splits)+

lemma keyed_nodes:
  assumes "keyed node_key (st_nodes st)" "keyed nr_Token (st_nodes st)"
  shows "keyed node_key (st_nodes (store_do op st)) \<and> keyed nr_Token (st_nodes (store_do op st))"
proof (cases op)
  case (ONodeRegister now node)
  let ?f = "\<lambda>old. old\<lparr>nr_Token := nr_Token node, nr_PeerURL := nr_PeerURL node, nr_GitHubID := nr_GitHubID node,
              nr_OwnerSubject := nr_OwnerSubject node, nr_AuthorizedBy := nr_AuthorizedBy node,
              nr_EnrollmentID := nr_EnrollmentID node, nr_LastSeenAt := nr_LastSeenAt node\<rparr>"
  show ?thesis
  proof (cases "list_ex (\<lambda>r. nr_Token r = nr_Token node \<and> node_key r \<noteq> node_key node) (st_nodes st)")
    case False
    have "keyed node_key (upsert node_key ?f node (st_nodes st))"
      by (rule keyed_upsert [OF assms(1)]) (simp add: node_key_def)
    moreover have "keyed nr_Token (upsert node_key ?f node (st_nodes st))"
      by (rule keyed_upsert_unique [OF assms]) (use False in \<open>auto simp: node_key_def list_ex_iff\<close>)
    ultimately show ?thesis using False by (simp add: ONodeRegister NodeRegister_def NetworkEnsure_def)
  qed (simp add: ONodeRegister NodeRegister_def NetworkEnsure_def assms)
next
  case (ONodeDelete n name)
  then show ?thesis using assms by (simp add: NodeDelete_def keyed_delete)
next
  case (ONodeSeen now n name)
  then show ?thesis using assms by (auto simp: NodeUpdateLastSeen_def node_key_def intro!: keyed_update)
qed (use assms in \<open>simp_all add: nodes_frame del: store_do.simps\<close>)

lemma store_ok_do: "store_ok st \<Longrightarrow> store_ok (store_do op st)"
  using keyed_nodes [of st op]
  by (simp add: store_ok_def keyed_networks keyed_members keyed_groups keyed_group_members keyed_policies
      keyed_enrollments keyed_kv keyed_invites keyed_grants)

section \<open>Uses of invites and enrollments\<close>

definition invite_left :: "string \<Rightarrow> RelayStore \<Rightarrow> nat" where
  "invite_left t st = (\<Sum>r\<leftarrow>filter (\<lambda>r. iv_Token r = t) (st_invites st). nat (iv_UsesRemaining r))"

definition enrollment_left :: "string \<Rightarrow> RelayStore \<Rightarrow> nat" where
  "enrollment_left h st =
     (case NodeEnrollmentGetByTokenHash h st of None \<Rightarrow> 0 | Some e \<Rightarrow> nat (ne_UsesRemaining e))"

text \<open>How often a sequence of operations consumes the invite with a token, or the enrollment with a hash.\<close>

fun invite_consumed :: "string \<Rightarrow> relay_op \<Rightarrow> RelayStore \<Rightarrow> nat" where
  "invite_consumed t (OInviteConsume now t') st =
     (if t' = t then (case fst (InviteConsume now t' st) of Inl err \<Rightarrow> 0 | Inr u \<Rightarrow> 1) else 0)"
| "invite_consumed t op st = 0"

fun enrollment_consumed :: "string \<Rightarrow> relay_op \<Rightarrow> RelayStore \<Rightarrow> nat" where
  "enrollment_consumed h (OEnrollmentConsume h' now) st =
     (if h' = h then (case fst (NodeEnrollmentConsume h' now st) of None \<Rightarrow> 0 | Some e \<Rightarrow> 1) else 0)"
| "enrollment_consumed h op st = 0"

text \<open>The sum of \<open>used\<close> over the steps of a run.\<close>

fun tally :: "('op \<Rightarrow> 's \<Rightarrow> 's) \<Rightarrow> ('op \<Rightarrow> 's \<Rightarrow> nat) \<Rightarrow> 'op list \<Rightarrow> 's \<Rightarrow> nat" where
  "tally step used [] st = 0"
| "tally step used (op # ops) st = used op st + tally step used ops (step op st)"

text \<open>
  What a store of tokens with a number of uses promises: a step that creates no token takes away at
  least the uses it reports. Then no run reports more than there were.
\<close>

locale use_counter =
  fixes step :: "'op \<Rightarrow> 's \<Rightarrow> 's" and used :: "'op \<Rightarrow> 's \<Rightarrow> nat" and left :: "'s \<Rightarrow> nat" and harmless :: "'op \<Rightarrow> bool"
  assumes spent: "harmless op \<Longrightarrow> left (step op st) + used op st \<le> left st"
begin

lemma spent_run:
  "(\<And>op. op \<in> set ops \<Longrightarrow> harmless op) \<Longrightarrow> left (fold step ops st) + tally step used ops st \<le> left st"
proof (induction ops arbitrary: st)
  case (Cons op ops)
  show ?case using Cons.IH [of "step op st"] Cons.prems spent [of op st] by fastforce
qed simp

end

fun creates_invite :: "string \<Rightarrow> relay_op \<Rightarrow> bool" where
  "creates_invite t (OInviteCreate now iv) = (iv_Token iv = t)"
| "creates_invite t op = False"

fun creates_enrollment :: "string \<Rightarrow> relay_op \<Rightarrow> bool" where
  "creates_enrollment h (OEnrollmentCreate now e) = (ne_TokenHash e = h)"
| "creates_enrollment h op = False"

lemma sum_filter_delete: "(\<Sum>r\<leftarrow>filter q (delete_where p t). (f r :: nat)) \<le> (\<Sum>r\<leftarrow>filter q t. f r)"
  by (induction t) (auto simp: delete_where_def)

lemma sum_uses_consume:
  assumes "\<And>r. p r \<Longrightarrow> 0 < iv_UsesRemaining r"
  shows "(\<Sum>r\<leftarrow>filter (\<lambda>r. iv_Token r = t) (update_where p (\<lambda>r. r\<lparr>iv_UsesRemaining := iv_UsesRemaining r - 1\<rparr>) rs).
           nat (iv_UsesRemaining r)) + (if list_ex (\<lambda>r. p r \<and> iv_Token r = t) rs then 1 else 0)
         \<le> (\<Sum>r\<leftarrow>filter (\<lambda>r. iv_Token r = t) rs. nat (iv_UsesRemaining r))"
proof (induction rs)
  case (Cons a rs)
  have "p a \<Longrightarrow> nat (iv_UsesRemaining a) = Suc (nat (iv_UsesRemaining a - 1))" using assms [of a] by simp
  then show ?case using Cons.IH by (auto simp: update_where_def split: if_splits)
qed (simp add: update_where_def)

lemma invite_consume_left: "invite_left t (snd (InviteConsume now t' st)) +
   (if t' = t then (case fst (InviteConsume now t' st) of Inl err \<Rightarrow> 0 | Inr u \<Rightarrow> 1) else 0) \<le> invite_left t st"
proof -
  let ?p = "\<lambda>r. iv_Token r = t' \<and> 0 < iv_UsesRemaining r \<and> now < iv_ExpiresAt r"
  let ?t1 = "update_where ?p (\<lambda>r. r\<lparr>iv_UsesRemaining := iv_UsesRemaining r - 1\<rparr>) (st_invites st)"
  let ?used = "(if list_ex (\<lambda>r. ?p r \<and> iv_Token r = t) (st_invites st) then 1 else 0) :: nat"
  show ?thesis
  proof (cases "list_ex ?p (st_invites st)")
    case True
    have "(\<Sum>r\<leftarrow>filter (\<lambda>r. iv_Token r = t) ?t1. nat (iv_UsesRemaining r)) + ?used \<le> invite_left t st"
      unfolding invite_left_def by (rule sum_uses_consume) simp
    moreover have "invite_left t (snd (InviteConsume now t' st)) \<le>
        (\<Sum>r\<leftarrow>filter (\<lambda>r. iv_Token r = t) ?t1. nat (iv_UsesRemaining r))"
      using True by (simp add: InviteConsume_def invite_left_def sum_filter_delete)
    moreover have "(if t' = t then (case fst (InviteConsume now t' st) of Inl err \<Rightarrow> 0 | Inr u \<Rightarrow> 1) else 0) \<le> ?used"
      using True by (auto simp: InviteConsume_def list_ex_iff Let_def)
    ultimately show ?thesis by linarith
  qed (auto simp: InviteConsume_def Let_def)
qed

lemma invite_left_do:
  assumes "\<not> creates_invite t op"
  shows "invite_left t (store_do op st) + invite_consumed t op st \<le> invite_left t st"
proof (cases op)
  case (OInviteCreate now iv)
  then show ?thesis using assms
    by (simp add: invite_left_def InviteCreate_def insert_row_def NetworkEnsure_def Let_def split: option.splits if_splits)
next
  case (OInviteConsume now t')
  then show ?thesis using invite_consume_left [of t now t' st] by simp
next
  case (OInviteDelete n t')
  then show ?thesis by (simp add: invite_left_def InviteDelete_def sum_filter_delete)
next
  case (OCleanup now)
  then show ?thesis by (simp add: invite_left_def cleanupLoop_def sum_filter_delete)
qed (simp_all add: invite_left_def invites_frame del: store_do.simps)

interpretation invites: use_counter store_do "invite_consumed t" "invite_left t" "\<lambda>op. \<not> creates_invite t op" for t
  by unfold_locales (rule invite_left_do)

lemma find_update_key:
  "(\<And>x. key (f x) = key x) \<Longrightarrow>
   List.find (\<lambda>r. key r = h) (update_where (\<lambda>r. key r = k) f rs) =
     (if h = k then map_option f (List.find (\<lambda>r. key r = h) rs) else List.find (\<lambda>r. key r = h) rs)"
  by (induction rs) (auto simp: update_where_def)

lemma find_first_append: "List.find p (xs @ ys) = (case List.find p xs of None \<Rightarrow> List.find p ys | Some x \<Rightarrow> Some x)"
  by (induction xs) auto

lemma enrollment_left_do:
  assumes "\<not> creates_enrollment h op"
  shows "enrollment_left h (store_do op st) + enrollment_consumed h op st \<le> enrollment_left h st"
proof (cases op)
  case (OEnrollmentCreate now e)
  then show ?thesis using assms
    by (auto simp: enrollment_left_def NodeEnrollmentCreate_def NodeEnrollmentGetByTokenHash_def NetworkEnsure_def
        find_first_append Let_def split: option.splits)
next
  case (OEnrollmentConsume h' now)
  then show ?thesis
    by (auto simp: enrollment_left_def NodeEnrollmentConsume_def NodeEnrollmentGetByTokenHash_def Let_def
        find_update_key split: option.splits)
qed (simp_all add: enrollment_left_def NodeEnrollmentGetByTokenHash_def enrollments_frame del: store_do.simps)

interpretation enrollments:
  use_counter store_do "enrollment_consumed h" "enrollment_left h" "\<lambda>op. \<not> creates_enrollment h op" for h
  by unfold_locales (rule enrollment_left_do)

end
