(* ===== verification/RelayRequests.thy ===== *)
theory RelayRequests
  imports RelayOps
begin

text \<open>
  The requests of the relay that change its store, as \<open>buildMux\<close> of \<open>internal/relay/relay.go\<close> routes
  them, as data and as one step each, and what each of them may write: the operations it comes down
  to and the authority behind each operation.
\<close>

section \<open>Requests\<close>

text \<open>
  A request's environment: the clock and random tokens, the identity the middleware found, the
  headers, and everything other servers answer during the request.
\<close>

record relay_env =
  re_in :: relay_inputs
  re_auth :: "AuthIdentity option"
  re_cr :: credentials
  re_signing :: signing_inputs
  re_sha :: "string \<Rightarrow> string"
  re_duration :: "string \<Rightarrow> int option"
  re_provider :: OIDCProvider
  re_userinfo :: "string \<Rightarrow> oidc_claims option"
  re_code :: "string \<Rightarrow> string option"
  re_device :: "device_auth option"
  re_poll :: "string \<Rightarrow> (string \<times> string) option"
  re_login :: login_inputs
  re_exchange :: "string \<Rightarrow> string \<Rightarrow> string \<Rightarrow> string option"
  re_fetch :: "string \<Rightarrow> GitHubUser option"
  re_allowed :: "string list"
  re_convert :: "string \<Rightarrow> GitHubApp option"

datatype relay_request =
    NetworkCreateReq "string option"
  | EnrollmentCreateReq "nodeEnrollmentCreateRequest option"
  | EnrollmentRedeemReq "nodeEnrollmentRedeemRequest option"
  | NodeRevokeReq string string
  | NodeConnectReq string
  | InviteCreateReq inviteCreateRequest
  | InviteDeleteReq string string
  | NetworkJoinReq "string option"
  | JoinReq "joinRequest option"
  | KVSetReq string string string string bytes
  | KVDeleteReq string string string
  | GroupCreateReq "groupCreateRequest option"
  | GroupDeleteReq string string
  | MemberAddReq string "groupMemberRequest option"
  | MemberRemoveReq string string string string
  | PolicySetReq string "groupPolicyRequest option"
  | ClientCredentialReq string
  | NodeCredentialReq
  | SenderReq "senderRequest option"
  | GrantCreateReq "accessGrantCreateRequest option"
  | GrantRevokeReq string string
  | DeviceAuthorizeReq string "(string \<times> string) option"
  | DevicePollReq "string option"
  | GitHubLoginReq
  | GitHubCallbackReq string string
  | ManifestReq string
  | OIDCLoginReq
  | OIDCCallbackReq string string
  | CleanupReq

fun relay_do :: "relay_env \<Rightarrow> relay_request \<Rightarrow> RelayStore \<Rightarrow> RelayStore" where
  "relay_do e (NetworkCreateReq q) st = snd (networkCreateHandler (re_in e) q (re_auth e) st)"
| "relay_do e (EnrollmentCreateReq q) st =
     snd (nodeEnrollmentCreateHandler (re_sha e) (re_duration e) (re_in e) q (re_auth e) st)"
| "relay_do e (EnrollmentRedeemReq q) st = snd (nodeEnrollmentRedeemHandler (re_sha e) (re_in e) q st)"
| "relay_do e (NodeRevokeReq name network) st = snd (nodeRevokeHandler (re_in e) name network (re_auth e) st)"
| "relay_do e (NodeConnectReq url) st = snd (node_connect (re_in e) (re_cr e) url st)"
| "relay_do e (InviteCreateReq q) st = snd (inviteCreateHandler (re_duration e) (re_in e) q (re_auth e) st)"
| "relay_do e (InviteDeleteReq token network) st = snd (inviteDeleteHandler (re_in e) token network (re_auth e) st)"
| "relay_do e (NetworkJoinReq q) st = snd (networkJoinHandler (re_in e) q (re_auth e) st)"
| "relay_do e (JoinReq q) st = snd (joinHandler (re_sha e) (re_in e) q st)"
| "relay_do e (KVSetReq ns key network ttl body) st =
     snd (kvSetHandler (re_duration e) (re_in e) ns key network ttl body (re_auth e) st)"
| "relay_do e (KVDeleteReq ns key network) st = snd (kvDeleteHandler (re_in e) ns key network (re_auth e) st)"
| "relay_do e (GroupCreateReq q) st = snd (groupsCreateHandler (re_in e) q (re_auth e) st)"
| "relay_do e (GroupDeleteReq name network) st = snd (groupsDeleteHandler (re_in e) name network (re_auth e) st)"
| "relay_do e (MemberAddReq name q) st = snd (groupMembersAddHandler (re_in e) (re_cr e) name q (re_auth e) st)"
| "relay_do e (MemberRemoveReq name node session network) st =
     snd (groupMembersRemoveHandler (re_in e) (re_cr e) name node session network (re_auth e) st)"
| "relay_do e (PolicySetReq name q) st = snd (groupPolicySetHandler (re_in e) name q (re_auth e) st)"
| "relay_do e (ClientCredentialReq network) st =
     snd (clientRuntimeCredentialHandler (re_signing e) (re_in e) network (re_auth e) st)"
| "relay_do e NodeCredentialReq st = snd (nodeRuntimeCredentialHandler (re_signing e) (re_in e) (re_cr e) st)"
| "relay_do e (SenderReq q) st = snd (nodeSenderDelegationHandler (re_signing e) (re_in e) (re_cr e) q st)"
| "relay_do e (GrantCreateReq q) st =
     snd (accessGrantCreateHandler (re_signing e) (re_duration e) (re_in e) q (re_auth e) st)"
| "relay_do e (GrantRevokeReq i network) st = snd (accessGrantRevokeHandler (re_in e) i network (re_auth e) st)"
| "relay_do e (DeviceAuthorizeReq token q) st = snd (deviceAuthorizeHandler (re_device e) (ri_now (re_in e)) token q st)"
| "relay_do e (DevicePollReq q) st =
     snd (devicePollHandler (re_provider e) (re_sha e) (re_userinfo e) (re_in e) (re_poll e) q st)"
| "relay_do e GitHubLoginReq st = snd (github_LoginHandler (re_login e) st)"
| "relay_do e (GitHubCallbackReq state code) st =
     snd (github_CallbackHandler (re_exchange e) (re_fetch e) (re_allowed e) (re_login e) state code st)"
| "relay_do e (ManifestReq code) st = snd (ManifestCallbackHandler (re_convert e) (ri_now (re_in e)) code st)"
| "relay_do e OIDCLoginReq st = snd (oidc_LoginHandler (re_login e) st)"
| "relay_do e (OIDCCallbackReq state code) st =
     snd (oidc_CallbackHandler (re_provider e) (re_code e) (re_userinfo e) (re_login e) state code st)"
| "relay_do e CleanupReq st = cleanupLoop (ri_now (re_in e)) st"

inductive relay_reachable :: "RelayStore \<Rightarrow> bool" where
  start: "relay_reachable NewSQLiteStore"
| request: "relay_reachable st \<Longrightarrow> relay_reachable (relay_do e req st)"

section \<open>The authority behind a write\<close>

fun permitted :: "AuthIdentity option \<Rightarrow> credentials \<Rightarrow> RelayStore \<Rightarrow> relay_op \<Rightarrow> bool" where
  "permitted auth cr st (OMemberUpsert now m) =
     (membershipSubject auth = Some (nm_Subject m) \<and>
      (NetworkMemberCount (nm_NetworkID m) st = 0 \<or>
       (\<exists>old. NetworkMemberGet (nm_NetworkID m) (nm_Subject m) st = Some old \<and> nm_Role m = nm_Role old) \<or>
       nm_Role m = NetworkRoleMember \<and> NetworkMemberGet (nm_NetworkID m) (nm_Subject m) st = None \<and>
       (\<exists>iv \<in> set (st_invites st). iv_NetworkID iv = nm_NetworkID m \<and> iv_Token iv = nm_CreatedBy m)))"
| "permitted auth cr st (OGroupCreate now g) = (\<exists>i. auth = Some i \<and> owns (gr_NetworkID g) i st)"
| "permitted auth cr st (OGroupDelete n g) = (\<exists>i. auth = Some i \<and> owns n i st)"
| "permitted auth cr st (OGroupMemberAdd m) =
     ((\<exists>i. auth = Some i \<and> owns (gm_NetworkID m) i st) \<or>
      (\<exists>node. nodeAuthFromRequest cr st = Some node \<and> nr_NetworkID node = gm_NetworkID m \<and>
         nr_Name node = gm_NodeName m))"
| "permitted auth cr st (OGroupMemberRemove n g name s) =
     ((\<exists>i. auth = Some i \<and> owns n i st) \<or>
      (\<exists>node. nodeAuthFromRequest cr st = Some node \<and> nr_NetworkID node = n \<and> nr_Name node = name))"
| "permitted auth cr st (OGroupPolicySet p) = (\<exists>i. auth = Some i \<and> owns (gp_NetworkID p) i st)"
| "permitted auth cr st (ONodeDelete n name) = (\<exists>i. auth = Some i \<and> owns n i st)"
| "permitted auth cr st (OKVSet now n ns k v ttl) =
     ((\<exists>i. auth = Some i \<and> belongs n i st) \<or>
      ns = networkAuthNamespace \<and> k = networkAuthIssuerKey \<and> stored_issuer now n st = [])"
| "permitted auth cr st (OKVDelete n ns k) = (\<exists>i. auth = Some i \<and> owns n i st)"
| "permitted auth cr st (OInviteCreate now iv) = (\<exists>i. auth = Some i \<and> owns (iv_NetworkID iv) i st)"
| "permitted auth cr st (OInviteDelete n t) = (\<exists>i. auth = Some i \<and> owns n i st)"
| "permitted auth cr st (OGrantCreate g) = (\<exists>i n. auth = Some i \<and> owns n i st)"
| "permitted auth cr st (OGrantRevoke n g t) = (\<exists>i. auth = Some i \<and> owns n i st)"
| "permitted auth cr st op = True"

definition writes :: "(relay_op \<Rightarrow> bool) \<Rightarrow> RelayStore \<Rightarrow> RelayStore \<Rightarrow> bool" where
  "writes P st st' \<longleftrightarrow> (\<exists>ops. (\<forall>op \<in> set ops. P op) \<and> st' = fold store_do ops st)"

named_theorems writing

lemma writes_refl [simp, writing]: "writes P st st"
  unfolding writes_def by (rule exI [of _ "[]"]) simp

lemma writes_op: "P op \<Longrightarrow> writes P st (store_do op st)"
  unfolding writes_def by (rule exI [of _ "[op]"]) simp

lemma writes_trans:
  assumes "writes P st st1" "writes P st1 st2"
  shows "writes P st st2"
proof -
  obtain xs ys where "\<forall>op \<in> set xs. P op" "st1 = fold store_do xs st" "\<forall>op \<in> set ys. P op" "st2 = fold store_do ys st1"
    using assms unfolding writes_def by blast
  then show ?thesis unfolding writes_def by (intro exI [of _ "xs @ ys"]) auto
qed

lemma writes_keep:
  assumes "writes P st st'" "I st" "\<And>op s. P op \<Longrightarrow> I s \<Longrightarrow> I (store_do op s)"
  shows "I st'"
proof -
  obtain ops where ops: "\<forall>op \<in> set ops. P op" "st' = fold store_do ops st" using assms(1) unfolding writes_def by blast
  have "I (fold store_do ops s)" if "I s" for s
    using ops(1) that by (induction ops arbitrary: s) (simp_all add: assms(3))
  then show ?thesis using assms(2) ops(2) by simp
qed

lemma writes_step [writing]: "writes P st st1 \<Longrightarrow> P op \<Longrightarrow> writes P st (store_do op st1)"
  by (blast intro: writes_trans writes_op)

lemma writes_direct [writing]:
  "writes P st st1 \<Longrightarrow> P (ONetworkEnsure now n) \<Longrightarrow> writes P st (NetworkEnsure now n st1)"
  "writes P st st1 \<Longrightarrow> P (OMemberUpsert now m) \<Longrightarrow> writes P st (NetworkMemberUpsert now m st1)"
  "writes P st st1 \<Longrightarrow> P (ONodeDelete n name) \<Longrightarrow> writes P st (NodeDelete n name st1)"
  "writes P st st1 \<Longrightarrow> P (OKVSet now n ns k v ttl) \<Longrightarrow> writes P st (KVSet now n ns k v ttl st1)"
  "writes P st st1 \<Longrightarrow> P (OKVDelete n ns k) \<Longrightarrow> writes P st (KVDelete n ns k st1)"
  "writes P st st1 \<Longrightarrow> P (OInviteDelete n t) \<Longrightarrow> writes P st (InviteDelete n t st1)"
  "writes P st st1 \<Longrightarrow> P (OOIDCUserUpsert u) \<Longrightarrow> writes P st (OIDCUserUpsert u st1)"
  "writes P st st1 \<Longrightarrow> P (OGitHubAppSet a) \<Longrightarrow> writes P st (GitHubAppSet a st1)"
  "writes P st st1 \<Longrightarrow> P (OCleanup now) \<Longrightarrow> writes P st (cleanupLoop now st1)"
  by (metis writes_step store_do.simps)+

text \<open>The store after an operation that answers.\<close>

named_theorems answered

lemma answered_ops [answered]:
  "GroupCreate now g st = (x, st1) \<Longrightarrow> st1 = store_do (OGroupCreate now g) st"
  "GroupDelete n gn st = (x, st1) \<Longrightarrow> st1 = store_do (OGroupDelete n gn) st"
  "GroupMemberAdd gm st = (x, st1) \<Longrightarrow> st1 = store_do (OGroupMemberAdd gm) st"
  "GroupMemberRemove n gn nd s st = (x, st1) \<Longrightarrow> st1 = store_do (OGroupMemberRemove n gn nd s) st"
  "GroupPolicySet p st = (x, st1) \<Longrightarrow> st1 = store_do (OGroupPolicySet p) st"
  "NodeRegister now node st = (x, st1) \<Longrightarrow> st1 = store_do (ONodeRegister now node) st"
  "NodeEnrollmentCreate now e st = (x, st1) \<Longrightarrow> st1 = store_do (OEnrollmentCreate now e) st"
  "NodeEnrollmentConsume h now st = (y, st1) \<Longrightarrow> st1 = store_do (OEnrollmentConsume h now) st"
  "InviteCreate now iv st = (x, st1) \<Longrightarrow> st1 = store_do (OInviteCreate now iv) st"
  "InviteConsume now t st = (x, st1) \<Longrightarrow> st1 = store_do (OInviteConsume now t) st"
  "AccessGrantCreate ag st = (x, st1) \<Longrightarrow> st1 = store_do (OGrantCreate ag) st"
  "AccessGrantRevoke n i now st = (x, st1) \<Longrightarrow> st1 = store_do (OGrantRevoke n i now) st"
  "UserUpsert us st = (x, st1) \<Longrightarrow> st1 = store_do (OUserUpsert us) st"
  "SessionCreate se st = (x, st1) \<Longrightarrow> st1 = store_do (OSessionCreate se) st"
  "OAuthStateCreate os st = (x, st1) \<Longrightarrow> st1 = store_do (OStateCreate os) st"
  "OAuthStateConsume now t st = (x, st1) \<Longrightarrow> st1 = store_do (OStateConsume now t) st"
  "OIDCSessionCreate oi st = (x, st1) \<Longrightarrow> st1 = store_do (OOIDCSessionCreate oi) st"
  "OIDCDeviceFlowCreate fl st = (x, st1) \<Longrightarrow> st1 = store_do (OFlowCreate fl) st"
  "OIDCDeviceFlowComplete now t nt st = (x, st1) \<Longrightarrow> st1 = store_do (OFlowComplete now t nt) st"
  by simp_all

lemma create_answered [answered]:
  "createNodeEnrollment sha r n owner i name uses ttl st = (x, st1) \<Longrightarrow> \<exists>now e. st1 = store_do (OEnrollmentCreate now e) st"
  by (auto simp: createNodeEnrollment_def Let_def simp del: store_do.simps split: prod.splits sum.splits
      dest!: answered)

lemma redeem_answered [answered]:
  "redeemNodeEnrollment sha r token name url g st = (x, st1) \<Longrightarrow>
   st1 = st \<or> (\<exists>h t. st1 = store_do (OEnrollmentConsume h t) st) \<or>
   (\<exists>h t now node. st1 = store_do (ONodeRegister now node) (store_do (OEnrollmentConsume h t) st))"
  by (simp add: redeemNodeEnrollment_def Let_def del: store_do.simps split: prod.splits sum.splits option.splits if_splits)
    (blast dest!: answered)+

lemma issuer_answered [answered]:
  "loadOrCreateIssuerState si now n st = (x, st1) \<Longrightarrow>
   st1 = st \<or> (\<exists>n'. st1 = store_do (ONetworkEnsure now n') st) \<or>
   (\<exists>n' v. st1 = store_do (OKVSet now n' networkAuthNamespace networkAuthIssuerKey v None)
        (store_do (ONetworkEnsure now n') st) \<and> stored_issuer now n' st = [])"
  by (auto simp: loadOrCreateIssuerState_def create_issuer_def Let_def split: option.splits if_splits)

lemma admit_answered [answered]:
  "admit_user p now c st = (x, st1) \<Longrightarrow> st1 = st \<or> (\<exists>u. st1 = store_do (OOIDCUserUpsert u) st)"
  by (auto simp: admit_user_def split: if_splits)

lemma login_state_answered [answered]:
  "login_state li st = (x, st1) \<Longrightarrow> \<exists>s. st1 = store_do (OStateCreate s) st"
  by (auto simp: login_state_def simp del: store_do.simps split: prod.splits sum.splits dest!: answered)

lemma callback_answered [answered]:
  "callback_code now state code st = (x, st1) \<Longrightarrow> st1 = st \<or> st1 = store_do (OStateConsume now state) st"
  by (auto simp: callback_code_def simp del: store_do.simps split: prod.splits sum.splits if_splits dest!: answered)

section \<open>What each request writes\<close>

lemma guard_owner_authority: "guard_owner f now n auth st = None \<Longrightarrow> \<exists>i. auth = Some i \<and> owns n i st"
  by (simp add: guard_owner_None)

lemma member_target_authority:
  "member_target r cr auth network name0 st = Inr (n, name) \<Longrightarrow>
   (\<exists>i. auth = Some i \<and> owns n i st) \<or>
   (\<exists>node. nodeAuthFromRequest cr st = Some node \<and> nr_NetworkID node = n \<and> nr_Name node = name)"
  by (auto simp: member_target_def Let_def split: option.splits if_splits dest!: guard_owner_authority)

lemma members_after_ensure [simp]:
  "NetworkMemberCount n (NetworkEnsure now m st) = NetworkMemberCount n st"
  "NetworkMemberGet n s (NetworkEnsure now m st) = NetworkMemberGet n s st"
  by (simp_all add: NetworkMemberCount_def NetworkMemberGet_def NetworkEnsure_def)

lemma members_after_consume: "NetworkMemberGet n s (store_do (OInviteConsume now t) st) = NetworkMemberGet n s st"
  by (simp add: NetworkMemberGet_def members_frame del: store_do.simps)

lemmas split_answers = option.splits sum.splits prod.splits if_splits

lemma networkCreate_writes: "writes (permitted auth cr st) st (snd (networkCreateHandler r q auth st))"
  by (auto simp: networkCreateHandler_def create_read_def create_claim_def Let_def split: split_answers
      intro!: writing simp del: store_do.simps)

lemma nodeRevoke_writes: "writes (permitted auth cr st) st (snd (nodeRevokeHandler r name network auth st))"
  by (auto simp: nodeRevokeHandler_def split: split_answers intro!: writing dest!: answered guard_owner_authority simp del: store_do.simps)

lemma inviteCreate_writes: "writes (permitted auth cr st) st (snd (inviteCreateHandler pd r q auth st))"
  by (auto simp: inviteCreateHandler_def Let_def split: split_answers intro!: writing dest!: answered guard_owner_authority simp del: store_do.simps)

lemma inviteDelete_writes: "writes (permitted auth cr st) st (snd (inviteDeleteHandler r token network auth st))"
  by (auto simp: inviteDeleteHandler_def split: split_answers intro!: writing dest!: answered guard_owner_authority simp del: store_do.simps)

lemma kvSet_writes: "writes (permitted auth cr st) st (snd (kvSetHandler pd r ns key network ttl body auth st))"
  by (auto simp: kvSetHandler_def split: split_answers intro!: writing dest!: answered guard_member_Inr simp del: store_do.simps)

lemma kvDelete_writes: "writes (permitted auth cr st) st (snd (kvDeleteHandler r ns key network auth st))"
  by (auto simp: kvDeleteHandler_def split: split_answers intro!: writing dest!: answered guard_owner_authority simp del: store_do.simps)

lemma groupsCreate_writes: "writes (permitted auth cr st) st (snd (groupsCreateHandler r q auth st))"
  by (auto simp: groupsCreateHandler_def Let_def split: split_answers intro!: writing dest!: answered guard_owner_authority simp del: store_do.simps)

lemma groupsDelete_writes: "writes (permitted auth cr st) st (snd (groupsDeleteHandler r name network auth st))"
  by (auto simp: groupsDeleteHandler_def Let_def split: split_answers intro!: writing dest!: answered guard_owner_authority simp del: store_do.simps)

lemma groupPolicySet_writes: "writes (permitted auth cr st) st (snd (groupPolicySetHandler r name q auth st))"
  by (auto simp: groupPolicySetHandler_def Let_def split: split_answers intro!: writing dest!: answered guard_owner_authority simp del: store_do.simps)

lemma accessGrantRevoke_writes: "writes (permitted auth cr st) st (snd (accessGrantRevokeHandler r i network auth st))"
  by (auto simp: accessGrantRevokeHandler_def Let_def split: split_answers intro!: writing dest!: answered guard_owner_authority simp del: store_do.simps)

lemma enrollmentCreate_writes:
  "writes (permitted auth cr st) st (snd (nodeEnrollmentCreateHandler sha pd r q auth st))"
  by (auto simp: nodeEnrollmentCreateHandler_def Let_def split: split_answers intro!: writing dest!: answered
      simp del: store_do.simps)

lemma enrollmentRedeem_writes: "writes (permitted auth cr st) st (snd (nodeEnrollmentRedeemHandler sha r q st))"
  by (auto simp: nodeEnrollmentRedeemHandler_def Let_def split: split_answers intro!: writing dest!: answered
      simp del: store_do.simps)

lemma nodeConnect_writes: "writes (permitted auth cr st) st (snd (node_connect r cr url st))"
  by (auto simp: node_connect_def Let_def split: split_answers intro!: writing dest!: answered
      simp del: store_do.simps)

lemma join_writes: "writes (permitted auth cr st) st (snd (joinHandler sha r q st))"
  by (auto simp: joinHandler_def Let_def split: split_answers intro!: writing dest!: answered
      simp del: store_do.simps)

lemma networkJoin_writes: "writes (permitted auth cr st) st (snd (networkJoinHandler r q auth st))"
proof -
  have invite: "iv \<in> set (st_invites st)" if "InviteGet now t st = Some iv" for now t iv
    using that by (auto simp: InviteGet_def find_Some_iff)
  show ?thesis
    by (auto simp: networkJoinHandler_def Let_def members_after_consume split: split_answers intro!: writing
        dest!: answered invite simp del: store_do.simps)
qed

lemma memberAdd_writes: "writes (permitted auth cr st) st (snd (groupMembersAddHandler r cr name q auth st))"
  by (auto simp: groupMembersAddHandler_def Let_def split: split_answers intro!: writing
      dest!: answered member_target_authority simp del: store_do.simps)

lemma memberRemove_writes:
  "writes (permitted auth cr st) st (snd (groupMembersRemoveHandler r cr name node session network auth st))"
  by (auto simp: groupMembersRemoveHandler_def Let_def split: split_answers intro!: writing
      dest!: answered member_target_authority simp del: store_do.simps)

lemma issueRuntime_writes: "writes (permitted auth cr st) st (snd (issue_runtime si r n kind i st))"
  by (auto simp: issue_runtime_def split: split_answers intro!: writing dest!: answered simp del: store_do.simps)

lemma clientCredential_writes:
  "writes (permitted auth cr st) st (snd (clientRuntimeCredentialHandler si r network auth st))"
  by (auto simp: clientRuntimeCredentialHandler_def split: split_answers intro: issueRuntime_writes)

lemma nodeCredential_writes: "writes (permitted auth cr st) st (snd (nodeRuntimeCredentialHandler si r cr st))"
  by (auto simp: nodeRuntimeCredentialHandler_def split: split_answers intro: issueRuntime_writes)

lemma sender_writes: "writes (permitted auth cr st) st (snd (nodeSenderDelegationHandler si r cr q st))"
  by (auto simp: nodeSenderDelegationHandler_def Let_def split: split_answers intro!: writing dest!: answered
      simp del: store_do.simps)

lemma grantCreate_writes: "writes (permitted auth cr st) st (snd (accessGrantCreateHandler si pd r q auth st))"
  by (auto simp: accessGrantCreateHandler_def Let_def split: split_answers intro!: writing
      dest!: answered guard_owner_authority simp del: store_do.simps)

lemma deviceAuthorize_writes: "writes (permitted auth cr st) st (snd (deviceAuthorizeHandler up now t q st))"
  by (auto simp: deviceAuthorizeHandler_def Let_def split: split_answers intro!: writing dest!: answered
      simp del: store_do.simps)

lemma githubLogin_writes: "writes (permitted auth cr st) st (snd (github_LoginHandler li st))"
  by (auto simp: github_LoginHandler_def split: split_answers intro!: writing dest!: answered simp del: store_do.simps)

lemma manifest_writes: "writes (permitted auth cr st) st (snd (ManifestCallbackHandler conv now code st))"
  by (auto simp: ManifestCallbackHandler_def split: split_answers intro!: writing simp del: store_do.simps)

lemma oidcLogin_writes: "writes (permitted auth cr st) st (snd (oidc_LoginHandler li st))"
proof (cases "login_state li st")
  case (Pair x st1)
  then show ?thesis
    by (auto simp: oidc_LoginHandler_def simp del: store_do.simps intro!: writing dest!: answered)
qed

lemma devicePoll_writes: "writes (permitted auth cr st) st (snd (devicePollHandler p sha ui r up q st))"
  by (auto simp: devicePollHandler_def Let_def split: split_answers intro!: writing dest!: answered
      simp del: store_do.simps)

lemma githubCallback_writes:
  "writes (permitted auth cr st) st (snd (github_CallbackHandler ex fe al li state code st))"
  by (auto simp: github_CallbackHandler_def Let_def split: split_answers intro!: writing dest!: answered
      simp del: store_do.simps)

lemma oidcCallback_writes:
  "writes (permitted auth cr st) st (snd (oidc_CallbackHandler p ex ui li state code st))"
  by (auto simp: oidc_CallbackHandler_def Let_def split: split_answers intro!: writing dest!: answered
      simp del: store_do.simps)

lemmas request_writes = networkCreate_writes enrollmentCreate_writes enrollmentRedeem_writes nodeRevoke_writes
  nodeConnect_writes inviteCreate_writes inviteDelete_writes networkJoin_writes join_writes kvSet_writes
  kvDelete_writes groupsCreate_writes groupsDelete_writes memberAdd_writes memberRemove_writes
  groupPolicySet_writes clientCredential_writes nodeCredential_writes sender_writes grantCreate_writes
  accessGrantRevoke_writes deviceAuthorize_writes devicePoll_writes githubLogin_writes githubCallback_writes
  manifest_writes oidcLogin_writes oidcCallback_writes

text \<open>Whatever a request writes, it had the authority for when it came.\<close>

lemma request_permitted: "writes (permitted (re_auth e) (re_cr e) st) st (relay_do e req st)"
  by (cases req) (simp_all add: request_writes writing del: store_do.simps)

text \<open>A request keeps what every operation keeps.\<close>

lemma request_keeps:
  assumes "\<And>op s. I s \<Longrightarrow> I (store_do op s)" "I st"
  shows "I (relay_do e req st)"
  using writes_keep [OF request_permitted [of e st req]] assms by blast

lemma reachable_store_ok: "relay_reachable st \<Longrightarrow> store_ok st"
  by (induction rule: relay_reachable.induct) (simp_all add: store_ok_start request_keeps store_ok_do)

end
