(* ===== verification/RelayFacts.thy ===== *)
theory RelayFacts
  imports RelayRequests
begin

text \<open>
  What the relay's requests keep and what they let happen: who governs a network, how a membership
  comes about, and the interleavings and inputs that the handlers do not expect.
\<close>

section \<open>Tables under the statements\<close>

lemma find_upsert:
  assumes "\<And>x. key (f x) = key x"
  shows "List.find (\<lambda>r. key r = k) (upsert key f r t) =
    (if k = key r then Some (case List.find (\<lambda>r. key r = k) t of None \<Rightarrow> r | Some old \<Rightarrow> f old)
     else List.find (\<lambda>r. key r = k) t)"
proof (cases "has_key key (key r) t")
  case True
  then obtain old where old: "List.find (\<lambda>x. key x = key r) t = Some old"
    by (metis find_None_iff_key not_Some_eq)
  have "List.find (\<lambda>x. key x = k) (update_where (\<lambda>x. key x = key r) f t) =
      (if k = key r then map_option f (List.find (\<lambda>x. key x = k) t) else List.find (\<lambda>x. key x = k) t)"
    by (rule find_update_key) (rule assms)
  then show ?thesis using True old by (simp add: upsert_def update_where_def)
next
  case False
  then have "List.find (\<lambda>x. key x = key r) t = None" by (simp add: find_None_iff_key)
  then show ?thesis using False by (auto simp: upsert_def find_first_append split: option.splits)
qed

lemma filter_upsert:
  assumes "\<not> q r" "\<And>x. key x = key r \<Longrightarrow> \<not> q x \<and> \<not> q (f x)"
  shows "filter q (upsert key f r t) = filter q t"
proof -
  have "filter q (map (\<lambda>x. if key x = key r then f x else x) t) = filter q t"
    by (induction t) (auto simp: assms(2))
  then show ?thesis using assms(1) by (simp add: upsert_def)
qed

lemma filter_insert_row: "insert_row key r t = Some t' \<Longrightarrow> \<not> q r \<Longrightarrow> filter q t' = filter q t"
  by (auto simp: insert_row_def split: if_splits)

lemma filter_insert_or_ignore: "\<not> q r \<Longrightarrow> filter q (insert_or_ignore key r t) = filter q t"
  by (simp add: insert_or_ignore_def)

lemma filter_delete_where: "(\<And>x. p x \<Longrightarrow> \<not> q x) \<Longrightarrow> filter q (delete_where p t) = filter q t"
  by (induction t) (auto simp: delete_where_def)

lemma key_image_update:
  assumes "\<And>x. key (f x) = key x"
  shows "key ` set (update_where p f t) = key ` set t"
proof -
  have "map key (update_where p f t) = map key t" by (simp add: update_where_def assms)
  then show ?thesis by (metis image_set)
qed

lemma key_image_upsert:
  assumes "\<And>x. key (f x) = key x"
  shows "key ` set (upsert key f r t) = insert (key r) (key ` set t)"
proof (cases "has_key key (key r) t")
  case True
  have "key ` set (update_where (\<lambda>x. key x = key r) f t) = key ` set t"
    by (rule key_image_update) (rule assms)
  then show ?thesis using True by (auto simp: upsert_def update_where_def has_key_iff)
qed (simp add: upsert_def)

section \<open>The owners govern a network\<close>

definition groups_of :: "string \<Rightarrow> RelayStore \<Rightarrow> Group list" where
  "groups_of n st = filter (\<lambda>g. gr_NetworkID g = n) (st_groups st)"

definition policies_of :: "string \<Rightarrow> RelayStore \<Rightarrow> GroupPolicy list" where
  "policies_of n st = filter (\<lambda>p. gp_NetworkID p = n) (st_policies st)"

definition invite_key :: "Invite \<Rightarrow> string \<times> string" where
  "invite_key iv = (iv_NetworkID iv, iv_Token iv)"

definition invite_tokens :: "string \<Rightarrow> RelayStore \<Rightarrow> string set" where
  "invite_tokens n st = {t. (n, t) \<in> invite_key ` set (st_invites st)}"

definition node_names :: "string \<Rightarrow> RelayStore \<Rightarrow> string set" where
  "node_names n st = {name. (n, name) \<in> node_key ` set (st_nodes st)}"

definition governed_same :: "string \<Rightarrow> RelayStore \<Rightarrow> RelayStore \<Rightarrow> bool" where
  "governed_same n st st' \<longleftrightarrow> groups_of n st' = groups_of n st \<and> policies_of n st' = policies_of n st \<and>
     invite_tokens n st' \<subseteq> invite_tokens n st \<and> node_names n st \<subseteq> node_names n st'"

lemma groups_of_do:
  assumes "permitted auth cr st0 op" "\<not> (\<exists>i. auth = Some i \<and> owns n i st0)"
  shows "groups_of n (store_do op st) = groups_of n st"
proof (cases op)
  case (OGroupCreate now g)
  then have "gr_NetworkID g \<noteq> n" using assms by auto
  then show ?thesis
    by (auto simp: OGroupCreate groups_of_def GroupCreate_def Let_def NetworkEnsure_def
        dest: filter_insert_row [where q = "\<lambda>g. gr_NetworkID g = n"] split: option.splits)
next
  case (OGroupDelete m name)
  then have "m \<noteq> n" using assms by auto
  then show ?thesis
    by (auto simp: OGroupDelete groups_of_def GroupDelete_def group_key_def intro!: filter_delete_where)
qed (simp_all add: groups_of_def groups_frame del: store_do.simps)

lemma policies_of_do:
  "permitted auth cr st0 op \<Longrightarrow> \<not> (\<exists>i. auth = Some i \<and> owns n i st0) \<Longrightarrow>
   policies_of n (store_do op st) = policies_of n st"
  by (cases "is_OGroupCreate op"; cases "is_OGroupDelete op"; cases "is_OGroupPolicySet op")
    (auto simp: policies_frame policies_of_def is_OGroupCreate_def is_OGroupDelete_def is_OGroupPolicySet_def
      group_defs policy_key_def intro!: filter_insert_or_ignore filter_delete_where filter_upsert
      split: option.splits)

lemma invite_key_consume:
  "invite_key ` set (st_invites (snd (InviteConsume now t st))) \<subseteq> invite_key ` set (st_invites st)"
proof -
  let ?p = "\<lambda>r. iv_Token r = t \<and> 0 < iv_UsesRemaining r \<and> now < iv_ExpiresAt r"
  have "invite_key ` set (update_where ?p (\<lambda>r. r\<lparr>iv_UsesRemaining := iv_UsesRemaining r - 1\<rparr>) (st_invites st)) =
      invite_key ` set (st_invites st)"
    by (rule key_image_update) (simp add: invite_key_def)
  then show ?thesis by (auto simp: InviteConsume_def Let_def)
qed

lemma invite_tokens_do:
  assumes "permitted auth cr st0 op" "\<not> (\<exists>i. auth = Some i \<and> owns n i st0)"
  shows "invite_tokens n (store_do op st) \<subseteq> invite_tokens n st"
proof (cases op)
  case (OInviteCreate now iv)
  then have "iv_NetworkID iv \<noteq> n" using assms by auto
  then show ?thesis
    by (auto simp: OInviteCreate invite_tokens_def InviteCreate_def Let_def NetworkEnsure_def invite_key_def
        dest!: set_insert_row split: option.splits)
next
  case (OInviteConsume now t)
  then show ?thesis using invite_key_consume [of now t st] by (auto simp: invite_tokens_def)
qed (auto simp: invite_tokens_def InviteDelete_def cleanupLoop_def invites_frame
    simp del: store_do.simps(1-16) store_do.simps(18-28))

lemma node_names_do:
  assumes "permitted auth cr st0 op" "\<not> (\<exists>i. auth = Some i \<and> owns n i st0)"
  shows "node_names n st \<subseteq> node_names n (store_do op st)"
proof (cases op)
  case (ONodeRegister now node)
  let ?f = "\<lambda>old. old\<lparr>nr_Token := nr_Token node, nr_PeerURL := nr_PeerURL node, nr_GitHubID := nr_GitHubID node,
              nr_OwnerSubject := nr_OwnerSubject node, nr_AuthorizedBy := nr_AuthorizedBy node,
              nr_EnrollmentID := nr_EnrollmentID node, nr_LastSeenAt := nr_LastSeenAt node\<rparr>"
  have "node_key ` set (upsert node_key ?f node (st_nodes st)) = insert (node_key node) (node_key ` set (st_nodes st))"
    by (rule key_image_upsert) (simp add: node_key_def)
  then show ?thesis by (auto simp: ONodeRegister node_names_def NodeRegister_def Let_def NetworkEnsure_def)
next
  case (ONodeDelete m name)
  then have "m \<noteq> n" using assms by auto
  then show ?thesis by (auto simp: ONodeDelete node_names_def NodeDelete_def node_key_def)
next
  case (ONodeSeen now m name)
  have "node_key ` set (update_where (\<lambda>r. node_key r = (m, name)) (\<lambda>r. r\<lparr>nr_LastSeenAt := now\<rparr>) (st_nodes st)) =
      node_key ` set (st_nodes st)"
    by (rule key_image_update) (simp add: node_key_def)
  then show ?thesis by (simp add: ONodeSeen node_names_def NodeUpdateLastSeen_def)
qed (simp_all add: node_names_def nodes_frame del: store_do.simps)

lemma governed_by_owner:
  assumes "\<not> governed_same n st (relay_do e req st)"
  shows "\<exists>i. re_auth e = Some i \<and> owns n i st"
proof (rule ccontr)
  assume no: "\<nexists>i. re_auth e = Some i \<and> owns n i st"
  have "governed_same n st (relay_do e req st)"
  proof (rule writes_keep [OF request_permitted])
    show "governed_same n st st" by (simp add: governed_same_def)
    show "governed_same n st (store_do op s)"
      if "permitted (re_auth e) (re_cr e) st op" "governed_same n st s" for op s
      using groups_of_do [OF that(1) no] policies_of_do [OF that(1) no] invite_tokens_do [OF that(1) no]
        node_names_do [OF that(1) no] that(2) unfolding governed_same_def by (metis subset_trans)
  qed
  with assms show False by simp
qed

section \<open>How a membership comes about\<close>

lemma member_after_upsert:
  "NetworkMemberGet n u (NetworkMemberUpsert now x st) =
     (if (n, u) = member_key x
      then Some (case NetworkMemberGet n u st of None \<Rightarrow> x | Some old \<Rightarrow> old\<lparr>nm_Role := nm_Role x\<rparr>)
      else NetworkMemberGet n u st)"
  using find_upsert [where key = member_key and f = "\<lambda>old. old\<lparr>nm_Role := nm_Role x\<rparr>" and k = "(n, u)" and r = x
      and t = "st_members st"]
  by (simp add: NetworkMemberGet_def NetworkMemberUpsert_def NetworkEnsure_def Let_def member_key_def)

definition gained :: "AuthIdentity option \<Rightarrow> RelayStore \<Rightarrow> string \<Rightarrow> string \<Rightarrow> string \<Rightarrow> bool" where
  "gained auth st n u role \<longleftrightarrow> membershipSubject auth = Some u \<and>
     (NetworkMemberCount n st = 0 \<or> role = NetworkRoleMember \<and> (\<exists>iv \<in> set (st_invites st). iv_NetworkID iv = n))"

lemma membership_gained:
  assumes "NetworkMemberGet n u (relay_do e req st) = Some m"
  shows "(\<exists>m0. NetworkMemberGet n u st = Some m0 \<and> nm_Role m0 = nm_Role m) \<or> gained (re_auth e) st n u (nm_Role m)"
proof -
  define I where "I s \<longleftrightarrow> (\<forall>n u m. NetworkMemberGet n u s = Some m \<longrightarrow>
      (\<exists>m0. NetworkMemberGet n u st = Some m0 \<and> nm_Role m0 = nm_Role m) \<or> gained (re_auth e) st n u (nm_Role m))" for s
  have "I (relay_do e req st)"
  proof (rule writes_keep [OF request_permitted])
    show "I st" by (simp add: I_def)
    fix op s
    assume op: "permitted (re_auth e) (re_cr e) st op" and s: "I s"
    show "I (store_do op s)"
    proof (cases op)
      case (OMemberUpsert now x)
      have "gained (re_auth e) st (nm_NetworkID x) (nm_Subject x) (nm_Role x) \<or>
          (\<exists>m0. NetworkMemberGet (nm_NetworkID x) (nm_Subject x) st = Some m0 \<and> nm_Role m0 = nm_Role x)"
        using op by (auto simp: OMemberUpsert gained_def)
      then show ?thesis
        using s by (auto simp: I_def OMemberUpsert member_after_upsert member_key_def split: option.splits)
    qed (use s in \<open>simp_all add: I_def NetworkMemberGet_def members_frame del: store_do.simps\<close>)
  qed
  then show ?thesis using assms by (simp add: I_def)
qed

text \<open>No request takes a membership away or changes its role.\<close>

lemma membership_stays:
  assumes "NetworkMemberGet n u st = Some m"
  shows "\<exists>m'. NetworkMemberGet n u (relay_do e req st) = Some m' \<and> nm_Role m' = nm_Role m"
proof -
  define I where "I s \<longleftrightarrow> (\<exists>m'. NetworkMemberGet n u s = Some m' \<and> nm_Role m' = nm_Role m)" for s
  have count: "NetworkMemberCount n st \<noteq> 0"
    using assms by (auto simp: NetworkMemberGet_def NetworkMemberCount_def find_Some_iff filter_empty_conv member_key_def)
  have "I (relay_do e req st)"
  proof (rule writes_keep [OF request_permitted])
    show "I st" by (simp add: I_def assms)
    fix op s
    assume op: "permitted (re_auth e) (re_cr e) st op" and s: "I s"
    show "I (store_do op s)"
    proof (cases op)
      case (OMemberUpsert now x)
      then show ?thesis
        using s op count assms by (auto simp: I_def member_after_upsert member_key_def split: option.splits)
    qed (use s in \<open>simp_all add: I_def NetworkMemberGet_def members_frame del: store_do.simps\<close>)
  qed
  then show ?thesis by (simp add: I_def)
qed

end
