(* ===== verification/HubFacts.thy ===== *)
theory HubFacts
  imports RelayEvents RelayNetworks
begin

text \<open>
  Facts about what the relay keeps in memory: what a resumed stream of revocations replays, how
  many requests the rate limiter admits, and which \<open>pty-req\<close> payloads end the process.
\<close>

section \<open>Revocation streams\<close>

text \<open>A run of the hub, with every event that was ever published.\<close>

inductive hub_run :: "AccessCacheEvent list \<Rightarrow> AccessEventHub \<Rightarrow> bool" where
  start: "hub_run [] NewAccessEventHub"
| publish: "hub_run hist h \<Longrightarrow> publish_locked ev h = ((ev', subs), h') \<Longrightarrow> hub_run (hist @ [ev']) h'"
| send: "hub_run hist h \<Longrightarrow> hub_run hist (publish_send ev i h)"
| subscribe: "hub_run hist h \<Longrightarrow> hub_run hist (snd (AccessSubscribe n lastSeq h))"
| cancel: "hub_run hist h \<Longrightarrow> hub_run hist (access_cancel i h)"

lemma log_frame [simp]:
  "ah_events (publish_send ev i h) = ah_events h" "ah_nextSeq (publish_send ev i h) = ah_nextSeq h"
  "ah_events (access_cancel i h) = ah_events h" "ah_nextSeq (access_cancel i h) = ah_nextSeq h"
  "ah_events (snd (AccessSubscribe n lastSeq h)) = ah_events h"
  "ah_nextSeq (snd (AccessSubscribe n lastSeq h)) = ah_nextSeq h"
  by (simp_all add: publish_send_def access_cancel_def AccessSubscribe_def Let_def split: option.splits)

lemma int64_id [simp]: "- (2 ^ 63) \<le> i \<Longrightarrow> i < 2 ^ 63 \<Longrightarrow> int64 i = i"
  by (simp add: int64_def)

definition numbered :: "AccessCacheEvent list \<Rightarrow> bool" where
  "numbered hist \<longleftrightarrow> (\<forall>k < length hist. ae_Seq (hist ! k) = int k + 1)"

lemma hub_log:
  assumes "hub_run hist h" "int (length hist) < 2 ^ 63"
  shows "ah_nextSeq h = int (length hist) \<and> ah_events h = last_n 256 hist \<and> numbered hist"
  using assms
proof (induction rule: hub_run.induct)
  case (publish hist h ev ev' subs h')
  then have ih: "ah_nextSeq h = int (length hist)" "ah_events h = last_n 256 hist" "numbered hist" by auto
  have seq: "int64 (ah_nextSeq h + 1) = int (length hist) + 1" using publish.prems ih(1) by simp
  have ev': "ev' = ev\<lparr>ae_Seq := int (length hist) + 1\<rparr>" and nextSeq: "ah_nextSeq h' = int (length hist) + 1"
    using publish.hyps(2) seq by (auto simp: publish_locked_def Let_def)
  have "ah_events h' = last_n 256 (last_n 256 hist @ [ev'])"
    using publish.hyps(2) seq ih(2) ev'
    by (auto simp: publish_locked_def Let_def accessEventBufferSize_def last_n_all)
  also have "\<dots> = last_n 256 (hist @ [ev'])"
  proof (cases "256 \<le> length hist")
    case True
    then have "Suc (length hist - 256) = length hist - 255" by arith
    with True show ?thesis by (simp add: last_n_def)
  qed (simp add: last_n_def)
  finally show ?case
    using ih(3) ev' nextSeq by (auto simp: numbered_def nth_append less_Suc_eq)
qed (simp_all add: NewAccessEventHub_def last_n_def numbered_def)

lemma numbered_bound: "numbered hist \<Longrightarrow> ev \<in> set hist \<Longrightarrow> ae_Seq ev \<le> int (length hist)"
  by (auto simp: numbered_def in_set_conv_nth)

lemma numbered_filter:
  assumes "numbered hist" "int k \<le> s"
  shows "filter (\<lambda>ev. q ev \<and> s < ae_Seq ev) (drop k hist) = filter (\<lambda>ev. q ev \<and> s < ae_Seq ev) hist"
proof -
  have "ae_Seq ev \<le> s" if mem: "ev \<in> set (take k hist)" for ev
  proof -
    obtain j where "j < length (take k hist)" and ev: "take k hist ! j = ev"
      using mem unfolding in_set_conv_nth by blast
    then have j: "j < k" "j < length hist" "ev = hist ! j" by auto
    then have "ae_Seq ev = int j + 1" using assms(1) by (simp add: numbered_def)
    then show ?thesis using j(1) assms(2) by linarith
  qed
  then have "filter (\<lambda>ev. q ev \<and> s < ae_Seq ev) (take k hist) = []" by (force simp: filter_empty_conv)
  then show ?thesis
    using filter_append [of "\<lambda>ev. q ev \<and> s < ae_Seq ev" "take k hist" "drop k hist"] by simp
qed

lemma resumed_stream:
  assumes "hub_run hist h" "int (length hist) < 2 ^ 63" "0 \<le> lastSeq" "lastSeq < 2 ^ 63 - 1"
    and "AccessSubscribe n lastSeq h = ((replay, sub, reset), h')" "0 < lastSeq \<and> \<not> reset \<or> length hist \<le> 256"
  shows "replay = filter (\<lambda>ev. ae_NetworkID ev = n \<and> lastSeq < ae_Seq ev) hist"
proof -
  let ?k = "length hist - 256"
  have log: "ah_events h = drop ?k hist" and num: "numbered hist"
    using hub_log [OF assms(1,2)] by (auto simp: last_n_def)
  have replay: "replay = filter (\<lambda>ev. ae_NetworkID ev = n \<and> lastSeq < ae_Seq ev) (drop ?k hist)"
    and reset: "reset = access_reset lastSeq h"
    using assms(5) log by (auto simp: AccessSubscribe_def Let_def)
  have "int ?k \<le> lastSeq"
  proof (cases "length hist \<le> 256")
    case False
    then have "drop ?k hist = hist ! ?k # drop (Suc ?k) hist" by (intro Cons_nth_drop_Suc [symmetric]) auto
    moreover have "ae_Seq (hist ! ?k) = int ?k + 1" using num False by (auto simp: numbered_def)
    ultimately show ?thesis using assms(3,4,6) False reset log by (auto simp: access_reset_def)
  qed (use assms(3) in simp)
  then show ?thesis using numbered_filter [OF num] replay by simp
qed

section \<open>The rate limiter\<close>

text \<open>The requests a run of the limiter admits.\<close>

fun rl_run :: "(nanos \<times> string) list \<Rightarrow> rateLimiter \<Rightarrow> (nanos \<times> string) list \<times> rateLimiter" where
  "rl_run [] rl = ([], rl)"
| "rl_run ((now, ip) # reqs) rl =
     (case rl_allow now ip rl of
        (ok, rl1) \<Rightarrow> (case rl_run reqs rl1 of (admitted, rl2) \<Rightarrow> ((if ok then [(now, ip)] else []) @ admitted, rl2)))"

definition rl_times :: "rateLimiter \<Rightarrow> string \<Rightarrow> nanos list" where
  "rl_times rl ip = (case mget (rl_entries rl) ip of None \<Rightarrow> [] | Some ts \<Rightarrow> ts)"

definition times_of :: "string \<Rightarrow> (nanos \<times> string) list \<Rightarrow> nanos list" where
  "times_of ip reqs = map fst (filter (\<lambda>r. snd r = ip) reqs)"

text \<open>
  What the limiter knows of an address after some admissions: those later than a cutoff that no
  later request looks behind.
\<close>

definition remembers :: "nanos \<Rightarrow> (nanos \<times> string) list \<Rightarrow> rateLimiter \<Rightarrow> bool" where
  "remembers now admitted rl \<longleftrightarrow>
     (\<forall>ip. \<exists>c \<le> now - rl_window rl. rl_times rl ip = filter (\<lambda>u. c < u) (times_of ip admitted))"

definition within :: "rateLimiter \<Rightarrow> (nanos \<times> string) list \<Rightarrow> bool" where
  "within rl admitted \<longleftrightarrow>
     (\<forall>(t, ip) \<in> set admitted. length (filter (\<lambda>u. t - rl_window rl < u \<and> u \<le> t) (times_of ip admitted)) \<le> rl_limit rl)"

lemma rl_allow_frame: "rl_allow now ip rl = (ok, rl1) \<Longrightarrow> rl_limit rl1 = rl_limit rl \<and> rl_window rl1 = rl_window rl"
  by (auto simp: rl_allow_def Let_def split: if_splits)

lemma rl_allow_times:
  "rl_allow now ip rl = (ok, rl1) \<Longrightarrow>
   (ok \<longleftrightarrow> length (filter (\<lambda>t. now - rl_window rl < t) (rl_times rl ip)) < rl_limit rl) \<and>
   rl_times rl1 ip' = (if ip' = ip then filter (\<lambda>t. now - rl_window rl < t) (rl_times rl ip) @ (if ok then [now] else [])
                       else rl_times rl ip')"
  by (auto simp: rl_allow_def Let_def rl_times_def split: if_splits)

lemma times_of_snoc: "times_of ip (admitted @ [(t, ip')]) = times_of ip admitted @ (if ip' = ip then [t] else [])"
  by (simp add: times_of_def)

definition limited :: "nanos \<Rightarrow> (nanos \<times> string) list \<Rightarrow> rateLimiter \<Rightarrow> bool" where
  "limited now admitted rl \<longleftrightarrow> remembers now admitted rl \<and> within rl admitted \<and> (\<forall>r \<in> set admitted. fst r \<le> now)"

lemma limited_step:
  assumes "limited now0 admitted rl" "now0 \<le> now" "rl_allow now ip rl = (ok, rl1)" "0 < rl_window rl"
  shows "limited now (admitted @ (if ok then [(now, ip)] else [])) rl1"
proof -
  let ?w = "rl_window rl" and ?A = "admitted @ (if ok then [(now, ip)] else [])"
  have frame: "rl_limit rl1 = rl_limit rl" "rl_window rl1 = ?w" using rl_allow_frame [OF assms(3)] by auto
  have past: "\<forall>u \<in> set (times_of j admitted). u \<le> now" for j
    using assms(1,2) by (fastforce simp: limited_def times_of_def)
  have known: "\<exists>c \<le> now0 - ?w. rl_times rl j = filter (\<lambda>u. c < u) (times_of j admitted)" for j
    using assms(1) by (simp add: limited_def remembers_def)
  have valid: "filter (\<lambda>u. now - ?w < u) (rl_times rl ip) = filter (\<lambda>u. now - ?w < u) (times_of ip admitted)"
  proof -
    obtain c where c: "c \<le> now0 - ?w" "rl_times rl ip = filter (\<lambda>u. c < u) (times_of ip admitted)"
      using known [of ip] by blast
    then have "(\<lambda>u. now - ?w < u \<and> c < u) = (\<lambda>u. now - ?w < u)" using assms(2) by (auto simp: fun_eq_iff)
    then show ?thesis unfolding c(2) filter_filter by (simp add: conj_commute)
  qed
  have times: "times_of j ?A = times_of j admitted @ (if ok \<and> j = ip then [now] else [])" for j
    by (simp add: times_of_def)
  have "remembers now ?A rl1"
    unfolding remembers_def frame
  proof (intro allI)
    fix j
    show "\<exists>c \<le> now - ?w. rl_times rl1 j = filter (\<lambda>u. c < u) (times_of j ?A)"
    proof (cases "j = ip")
      case True
      then have "rl_times rl1 j = filter (\<lambda>u. now - ?w < u) (times_of j ?A)"
        using rl_allow_times [OF assms(3), of j] valid times [of j] assms(4) by simp
      then show ?thesis by blast
    next
      case False
      then have "rl_times rl1 j = rl_times rl j" "times_of j ?A = times_of j admitted"
        using rl_allow_times [OF assms(3), of j] times [of j] by auto
      then show ?thesis using known [of j] assms(2) by (metis diff_right_mono order_trans)
    qed
  qed
  moreover have "within rl1 ?A"
    unfolding within_def frame
  proof clarify
    fix t j assume mem: "(t, j) \<in> set ?A"
    have t: "t \<le> now" using mem assms(1,2) by (auto simp: limited_def split: if_splits)
    show "length (filter (\<lambda>u. t - ?w < u \<and> u \<le> t) (times_of j ?A)) \<le> rl_limit rl"
    proof (cases "ok \<and> j = ip \<and> t = now")
      case True
      have "filter (\<lambda>u. t - ?w < u \<and> u \<le> t) (times_of j admitted) = filter (\<lambda>u. now - ?w < u) (rl_times rl ip)"
        unfolding valid using True past [of j] by (auto intro!: filter_cong)
      then show ?thesis
        using rl_allow_times [OF assms(3), of j] True times [of j] by simp
    next
      case False
      have old: "(t, j) \<in> set admitted" using mem False by (auto split: if_splits)
      have "filter (\<lambda>u. t - ?w < u \<and> u \<le> t) (times_of j ?A) = filter (\<lambda>u. t - ?w < u \<and> u \<le> t) (times_of j admitted)"
        using times [of j] t False by auto
      then show ?thesis using old assms(1) by (fastforce simp: limited_def within_def)
    qed
  qed
  moreover have "\<forall>r \<in> set ?A. fst r \<le> now" using assms(1,2) by (force simp: limited_def)
  ultimately show ?thesis by (simp add: limited_def)
qed

lemma limited_run:
  "limited now admitted rl \<Longrightarrow> sorted (now # map fst reqs) \<Longrightarrow> 0 < rl_window rl \<Longrightarrow>
   rl_run reqs rl = (later, rl') \<Longrightarrow> within rl (admitted @ later)"
proof (induction reqs arbitrary: now admitted rl later rl')
  case (Cons req reqs)
  obtain t ip where req: "req = (t, ip)" by (cases req)
  obtain ok rl1 where step: "rl_allow t ip rl = (ok, rl1)" by fastforce
  obtain rest rl2 where rest: "rl_run reqs rl1 = (rest, rl2)" by fastforce
  have frame: "rl_limit rl1 = rl_limit rl" "rl_window rl1 = rl_window rl" using rl_allow_frame [OF step] by auto
  have "limited t (admitted @ (if ok then [(t, ip)] else [])) rl1"
    using limited_step [OF Cons.prems(1) _ step Cons.prems(3)] Cons.prems(2) req by simp
  from Cons.IH [OF this _ _ rest]
  have "within rl1 ((admitted @ (if ok then [(t, ip)] else [])) @ rest)"
    using Cons.prems(2,3) req frame by simp
  moreover have "later = (if ok then [(t, ip)] else []) @ rest" using Cons.prems(4) req step rest by simp
  ultimately show ?case by (simp add: within_def frame)
qed (simp add: limited_def)

lemma limited_new: "limited now [] (newRateLimiter limit window)"
  by (auto simp: limited_def remembers_def within_def rl_times_def newRateLimiter_def times_of_def)

section \<open>Sizes of terminals\<close>

text \<open>
  The 32-bit offset wraps: a length from \<open>2^32 - 12\<close> to \<open>2^32 - 5\<close> passes the bounds check and reads
  far outside of the payload.
\<close>

lemma be_uint32_None: "be_uint32 b off = None \<longleftrightarrow> length b < off + 4"
  by (auto simp: be_uint32_def)

lemma pty_size_panics:
  assumes "length payload < 2 ^ 32 - 16"
  shows "pty_size payload sz = None \<longleftrightarrow>
    4 \<le> length payload \<and> 2 ^ 32 - 12 \<le> unat (get_uint32 payload) \<and> unat (get_uint32 payload) \<le> 2 ^ 32 - 5 \<and>
    unat (get_uint32 payload) + 12 - 2 ^ 32 \<le> length payload"
proof (cases "length payload < 4")
  case False
  let ?n = "get_uint32 payload"
  have n: "unat ?n < 2 ^ 32" using unsigned_less [of ?n] by simp
  have off: "unat (4 + ?n) = (4 + unat ?n) mod 2 ^ 32" by (simp add: unat_word_ariths)
  have off8: "unat (4 + ?n + 8) = (12 + unat ?n) mod 2 ^ 32" by (simp add: unat_word_ariths mod_simps)
  have off4: "unat (4 + ?n + 4) = (8 + unat ?n) mod 2 ^ 32" by (simp add: unat_word_ariths mod_simps)
  have read: "pty_size payload sz = None \<longleftrightarrow>
      unat (4 + ?n + 8) \<le> length payload \<and>
      (length payload < unat (4 + ?n) + 4 \<or> length payload < unat (4 + ?n + 4) + 4)"
    using False by (auto simp: pty_size_def be_uint32_def Let_def)
  consider "unat ?n < 2 ^ 32 - 12" | "2 ^ 32 - 12 \<le> unat ?n" "unat ?n < 2 ^ 32 - 4" | "2 ^ 32 - 4 \<le> unat ?n"
    by linarith
  then show ?thesis
  proof cases
    case 1
    then have "unat (4 + ?n) = 4 + unat ?n" "unat (4 + ?n + 8) = 12 + unat ?n" "unat (4 + ?n + 4) = 8 + unat ?n"
      unfolding off off8 off4 by auto
    then show ?thesis using read 1 by auto
  next
    case 2
    then have "unat (4 + ?n) = 4 + unat ?n" "unat (4 + ?n + 8) = 12 + unat ?n - 2 ^ 32"
      unfolding off off8 using n by (auto simp: mod_if)
    then show ?thesis using read 2 assms False by auto
  next
    case 3
    then have "unat (4 + ?n) = 4 + unat ?n - 2 ^ 32" "unat (4 + ?n + 8) = 12 + unat ?n - 2 ^ 32"
      "unat (4 + ?n + 4) = 8 + unat ?n - 2 ^ 32"
      unfolding off off8 off4 using n by (auto simp: mod_if)
    then show ?thesis using read 3 n by auto
  qed
qed (simp add: pty_size_def)

end
