(* ===== verification/RelayDemo.thy ===== *)
theory RelayDemo
  imports RelayFacts HubFacts PeerFacts
begin

text \<open>
  Longer facts about the relay that its properties rest on, and the concrete stores and requests
  of their witnesses.
\<close>

section \<open>Uses as the rows show them\<close>

lemma keyed_filter_single:
  "keyed key t \<Longrightarrow> r \<in> set t \<Longrightarrow> filter (\<lambda>x. key x = key r) t = [r]"
  by (induction t) (auto simp: keyed_def filter_empty_conv image_iff)

lemma invite_left_row: "store_ok st \<Longrightarrow> iv \<in> set (st_invites st) \<Longrightarrow> invite_left (iv_Token iv) st = nat (iv_UsesRemaining iv)"
  by (simp add: invite_left_def store_ok_def keyed_filter_single)

lemma enrollment_left_row:
  assumes "store_ok st" "e \<in> set (st_enrollments st)"
  shows "enrollment_left (ne_TokenHash e) st = nat (ne_UsesRemaining e)"
proof -
  have "NodeEnrollmentGetByTokenHash (ne_TokenHash e) st = Some e"
    using assms find_keyed [of ne_TokenHash "st_enrollments st" "ne_TokenHash e" e]
    by (simp add: NodeEnrollmentGetByTokenHash_def store_ok_def)
  then show ?thesis by (simp add: enrollment_left_def)
qed

section \<open>A node enrolled without an invitation\<close>

lemma find_last: "\<not> list_ex p t \<Longrightarrow> p r \<Longrightarrow> List.find p (t @ [r]) = Some r"
  by (induction t) auto

lemma enrollment_redeemed:
  fixes sha r st net owner name
  defines "token \<equiv> ''cw_enr_'' @ ri_enrollToken r"
  assumes plain: "list_all name_char token" "list_all name_char name" "name \<noteq> []" "list_all name_char net"
    and fresh: "\<forall>e \<in> set (st_enrollments st). ne_ID e \<noteq> ri_enrollID r \<and> ne_TokenHash e \<noteq> sha token"
      "\<forall>x \<in> set (st_nodes st). nr_Token x \<noteq> ri_nodeToken r"
    and create: "createNodeEnrollment sha r net owner owner name 1 (seconds 600) st = (res, st1)"
  shows "\<exists>e. res = Inr (e, token) \<and> (\<exists>st2 node.
    redeemNodeEnrollment sha r token name [] None st1 =
      (Inr \<lparr>rd_NodeToken = ri_nodeToken r, rd_NodeName = name, rd_NetworkID = net, rd_EnrollmentID = ri_enrollID r\<rparr>, st2) \<and>
    NodeGet net name st2 = Some node \<and> nr_Token node = ri_nodeToken r \<and> nr_OwnerSubject node = trim_space owner \<and>
    st_deviceFlows st2 = st_deviceFlows st \<and>
    (\<forall>x \<in> set (st_nodes st2). node_key x = (net, name) \<longrightarrow> nr_Token x = ri_nodeToken r) \<and>
    (\<forall>x \<in> set (st_nodes st2). node_key x = (net, name) \<or> x \<in> set (st_nodes st)))"
proof -
  note trims = trim_space_name [OF plain(1)] trim_space_name [OF plain(2)] trim_space_name [OF plain(4)]
  let ?e = "\<lparr>ne_ID = ri_enrollID r, ne_NetworkID = net, ne_OwnerSubject = trim_space owner, ne_IssuedBy = trim_space owner,
      ne_NodeName = name, ne_TokenHash = sha token, ne_UsesRemaining = 1, ne_ExpiresAt = ri_now r + seconds 600,
      ne_CreatedAt = ri_now r, ne_RedeemedAt = None\<rparr>"
  have none: "\<not> list_ex (\<lambda>x. ne_ID x = ri_enrollID r \<or> ne_TokenHash x = sha token) (st_enrollments st)"
    "\<not> list_ex (\<lambda>x. ne_TokenHash x = sha token) (st_enrollments st)"
    using fresh(1) by (auto simp: list_ex_iff)
  let ?st = "NetworkEnsure (ri_now r) net st"
  have created: "res = Inr (?e, token)" "st1 = ?st\<lparr>st_enrollments := st_enrollments st @ [?e]\<rparr>"
    using create none trims
    by (auto simp: createNodeEnrollment_def NodeEnrollmentCreate_def hashEnrollmentToken_def Let_def token_def
        NetworkEnsure_def)
  have found: "NodeEnrollmentGetByTokenHash (sha token) st1 = Some ?e"
    unfolding NodeEnrollmentGetByTokenHash_def created(2) by (simp add: find_last none(2))
  define st2 where "st2 = snd (NodeEnrollmentConsume (sha token) (ri_now r) st1)"
  have consumed: "NodeEnrollmentConsume (sha token) (ri_now r) st1 =
      (Some (?e\<lparr>ne_RedeemedAt := Some (ri_now r), ne_UsesRemaining := 0\<rparr>), st2)"
    by (simp add: NodeEnrollmentConsume_def found st2_def Let_def)
  have st1: "st_nodes st1 = st_nodes st" "st_deviceFlows st1 = st_deviceFlows st"
    by (simp_all add: created(2) NetworkEnsure_def)
  have st2: "st_nodes st2 = st_nodes st" "st_deviceFlows st2 = st_deviceFlows st"
    by (simp_all add: st2_def NodeEnrollmentConsume_def found Let_def st1)
  let ?node = "\<lparr>nr_NetworkID = net, nr_Name = name, nr_Token = ri_nodeToken r, nr_PeerURL = [], nr_GitHubID = None,
      nr_OwnerSubject = trim_space owner, nr_AuthorizedBy = trim_space owner, nr_EnrollmentID = ri_enrollID r,
      nr_AuthorizedAt = ri_now r, nr_LastSeenAt = ri_now r\<rparr>"
  define st3 where "st3 = snd (NodeRegister (ri_now r) ?node st2)"
  have free: "\<not> list_ex (\<lambda>x. nr_Token x = ri_nodeToken r \<and> node_key x \<noteq> (net, name)) (st_nodes st)"
    using fresh(2) by (auto simp: list_ex_iff)
  then have registered: "NodeRegister (ri_now r) ?node st2 = (Inr (), st3)"
    by (simp add: NodeRegister_def st3_def Let_def NetworkEnsure_def st2 node_key_def)
  have flows: "st_deviceFlows st3 = st_deviceFlows st"
    using free by (simp add: st3_def NodeRegister_def Let_def NetworkEnsure_def st2 node_key_def)
  have "\<exists>node. NodeGet net name st3 = Some node \<and> nr_Token node = ri_nodeToken r \<and> nr_OwnerSubject node = trim_space owner"
    using free find_upsert [where key = node_key and r = ?node and k = "(net, name)" and t = "st_nodes st"
        and f = "\<lambda>old. old\<lparr>nr_Token := ri_nodeToken r, nr_PeerURL := [], nr_GitHubID := None,
          nr_OwnerSubject := trim_space owner, nr_AuthorizedBy := trim_space owner,
          nr_EnrollmentID := ri_enrollID r, nr_LastSeenAt := ri_now r\<rparr>"]
    by (auto simp: st3_def NodeRegister_def Let_def NetworkEnsure_def st2 NodeGet_def node_key_def split: option.splits)
  moreover have "\<forall>x \<in> set (st_nodes st3). node_key x = (net, name) \<longrightarrow> nr_Token x = ri_nodeToken r"
    "\<forall>x \<in> set (st_nodes st3). node_key x = (net, name) \<or> x \<in> set (st_nodes st)"
    using free by (auto simp: st3_def NodeRegister_def Let_def NetworkEnsure_def st2 node_key_def upsert_def has_key_def list_ex_iff)
  moreover have "token \<noteq> []" by (simp add: token_def)
  then have "redeemNodeEnrollment sha r token name [] None st1 =
      (Inr \<lparr>rd_NodeToken = ri_nodeToken r, rd_NodeName = name, rd_NetworkID = net, rd_EnrollmentID = ri_enrollID r\<rparr>, st3)"
    using plain(3) trims registered
    by (simp add: redeemNodeEnrollment_def Let_def hashEnrollmentToken_def found consumed enrolled_name_def)
  ultimately show ?thesis using created(1) flows by blast
qed

section \<open>Concrete requests\<close>

definition demo_relay_inputs :: relay_inputs where
  "demo_relay_inputs =
     \<lparr>ri_now = 1000, ri_later = 1001, ri_enrollToken = ''e1'', ri_enrollID = ''i1'', ri_nodeToken = ''n1'',
      ri_inviteToken = ''v1''\<rparr>"

definition demo_ed25519 :: ed25519 where
  "demo_ed25519 = \<lparr>ed_sign = (\<lambda>k m. k @ m), ed_verify = (\<lambda>k m s. s = k @ m)\<rparr>"

definition demo_signing :: signing_inputs where
  "demo_signing =
     \<lparr>si_crypto = demo_ed25519, si_decState = (\<lambda>b. None), si_encState = (\<lambda>s. None), si_encRuntime = (\<lambda>c. None),
      si_encSender = (\<lambda>c. None), si_encObserver = (\<lambda>c. None), si_publicKey = [], si_privateKey = [],
      si_keyID = [], si_jti = []\<rparr>"

definition demo_github :: "int \<Rightarrow> AuthIdentity" where
  "demo_github i = \<lparr>ai_UserID = i, ai_Sub = [], ai_Username = [], ai_IsAdmin = False\<rparr>"

definition demo_env :: "AuthIdentity option \<Rightarrow> relay_env" where
  "demo_env auth =
     \<lparr>re_in = demo_relay_inputs, re_auth = auth, re_cr = \<lparr>cr_Authorization = [], cr_Cookie = None\<rparr>, re_signing = demo_signing,
      re_sha = (\<lambda>s. s), re_duration = (\<lambda>s. None), re_provider = \<lparr>op_AllowedGroups = []\<rparr>, re_userinfo = (\<lambda>t. None),
      re_code = (\<lambda>c. None), re_device = None, re_poll = (\<lambda>c. None),
      re_login = \<lparr>li_now = 1000, li_state = ''s1'', li_session = []\<rparr>, re_exchange = (\<lambda>i s c. None),
      re_fetch = (\<lambda>t. None), re_allowed = [], re_convert = (\<lambda>c. None)\<rparr>"

text \<open>A network \<open>lab\<close> whose owner is a GitHub user.\<close>

definition demo_relay :: RelayStore where
  "demo_relay = relay_do (demo_env (Some (demo_github 7))) (NetworkCreateReq (Some ''lab'')) NewSQLiteStore"

lemma demo_relay_reachable: "relay_reachable demo_relay"
  unfolding demo_relay_def by (intro relay_reachable.intros)

lemma demo_subject: "membershipSubject (Some (demo_github 7)) = Some ''github:7''"
  by code_simp

lemma demo_relay_member:
  "\<exists>m. NetworkMemberGet ''lab'' ''github:7'' demo_relay = Some m \<and> is_owner_role (nm_Role m)"
proof -
  have "map_option nm_Role (NetworkMemberGet ''lab'' ''github:7'' demo_relay) = Some NetworkRoleOwner" by code_simp
  then show ?thesis by (auto simp: map_option_case split: option.splits)
qed

text \<open>The same network with an invitation and an enrollment.\<close>

definition demo_invited :: RelayStore where
  "demo_invited =
     relay_do (demo_env (Some (demo_github 7)))
       (EnrollmentCreateReq (Some \<lparr>ec_NetworkID = ''lab'', ec_NodeName = ''box'', ec_Uses = 2, ec_TTL = []\<rparr>))
       (relay_do (demo_env (Some (demo_github 7)))
          (InviteCreateReq \<lparr>ic_NetworkID = ''lab'', ic_Uses = 1, ic_TTL = []\<rparr>) demo_relay)"

lemma demo_invited_reachable: "relay_reachable demo_invited"
  unfolding demo_invited_def by (intro relay_reachable.request demo_relay_reachable)

lemma demo_invited_rows:
  "\<exists>iv \<in> set (st_invites demo_invited). iv_Token iv = ''v1'' \<and> iv_UsesRemaining iv = 1"
  "\<exists>e \<in> set (st_enrollments demo_invited). ne_TokenHash e = ''cw_enr_e1'' \<and> ne_UsesRemaining e = 2"
proof -
  have "map (\<lambda>iv. (iv_Token iv, iv_UsesRemaining iv)) (st_invites demo_invited) = [(''v1'', 1)]"
    "map (\<lambda>e. (ne_TokenHash e, ne_UsesRemaining e)) (st_enrollments demo_invited) = [(''cw_enr_e1'', 2)]"
    by code_simp+
  then show "\<exists>iv \<in> set (st_invites demo_invited). iv_Token iv = ''v1'' \<and> iv_UsesRemaining iv = 1"
    "\<exists>e \<in> set (st_enrollments demo_invited). ne_TokenHash e = ''cw_enr_e1'' \<and> ne_UsesRemaining e = 2"
    by auto
qed

section \<open>Guards and keys\<close>

lemma belongs_guard: "belongs n i st \<Longrightarrow> \<exists>m. guard_member failure now n (Some i) st = Inr m"
  by (auto simp: belongs_def guard_member_def requireMembership_Some split: option.splits)

lemma kv_read_back: "KVGet later n ns k (KVSet now n ns k v None st) = Some v"
proof -
  let ?row = "\<lparr>kr_NetworkID = n, kr_Namespace = ns, kr_Key = k, kr_Value = v, kr_ExpiresAt = None\<rparr>"
  let ?f = "\<lambda>old. old\<lparr>kr_Value := v, kr_ExpiresAt := None\<rparr>"
  have "\<exists>r. List.find (\<lambda>r. kv_key r = (n, ns, k) \<and> live later r) (upsert kv_key ?f ?row t) = Some r \<and> kr_Value r = v" for t
  proof (cases "has_key kv_key (n, ns, k) t")
    case True
    then have "\<exists>r. List.find (\<lambda>r. kv_key r = (n, ns, k) \<and> live later r)
        (map (\<lambda>x. if kv_key x = (n, ns, k) then ?f x else x) t) = Some r \<and> kr_Value r = v"
      by (induction t) (auto simp: has_key_def live_def kv_key_def)
    then show ?thesis using True by (simp add: upsert_def kv_key_def)
  next
    case False
    then have "List.find (\<lambda>r. kv_key r = (n, ns, k) \<and> live later r) t = None"
      by (force simp: has_key_iff find_None_iff)
    then show ?thesis using False by (simp add: upsert_def find_first_append) (simp add: kv_key_def live_def)
  qed
  then show ?thesis by (auto simp: KVGet_def KVSet_def Let_def)
qed

section \<open>An enrolled node and a device flow\<close>

definition demo_box :: NodeRecord where
  "demo_box =
     \<lparr>nr_NetworkID = ''lab'', nr_Name = ''box'', nr_Token = ''old'', nr_PeerURL = [], nr_GitHubID = None,
      nr_OwnerSubject = ''github:7'', nr_AuthorizedBy = ''github:7'', nr_EnrollmentID = ''e0'', nr_AuthorizedAt = 1,
      nr_LastSeenAt = 1\<rparr>"

definition demo_flow :: OIDCDeviceFlow where
  "demo_flow =
     \<lparr>df_PollToken = ''p'', df_DeviceCode = ''d'', df_NetworkID = ''lab'', df_NodeName = ''box'', df_NodeToken = [],
      df_ExpiresAt = 2000\<rparr>"

definition demo_oidc :: oidc_claims where
  "demo_oidc = \<lparr>oc_Sub = ''eve'', oc_PreferredUsername = ''eve'', oc_Name = [], oc_Groups = [], oc_Picture = []\<rparr>"

definition demo_enrolled :: RelayStore where
  "demo_enrolled = NewSQLiteStore\<lparr>st_nodes := [demo_box], st_deviceFlows := [demo_flow]\<rparr>"

section \<open>Published revocations\<close>

definition demo_hub :: AccessEventHub where
  "demo_hub = snd (publish_locked (revoked_event ''lab'' ''g1'' 10) NewAccessEventHub)"

lemma demo_hub_run: "\<exists>hist h. hub_run hist h \<and> length hist = 2"
proof -
  obtain ev subs where one: "publish_locked (revoked_event ''lab'' ''g1'' 10) NewAccessEventHub = ((ev, subs), demo_hub)"
    by (metis demo_hub_def prod.collapse)
  obtain ev' subs' h where two: "publish_locked (revoked_event ''lab'' ''g2'' 20) demo_hub = ((ev', subs'), h)"
    by (metis prod.collapse)
  have "hub_run ([] @ [ev] @ [ev']) h"
    using hub_run.publish [OF hub_run.publish [OF hub_run.start one] two] by simp
  then show ?thesis by (metis append.left_neutral append_Cons length_Cons list.size(3) numeral_2_eq_2)
qed

definition demo_subscribed :: AccessEventHub where
  "demo_subscribed = snd (AccessSubscribe ''lab'' 0 NewAccessEventHub)"

end
