(* ===== verification/RelayProperties.thy ===== *)
theory RelayProperties
  imports RelayDemo
begin

text \<open>The properties of the relay: its tables, who governs a network, its tokens and its streams.\<close>

section \<open>The store\<close>

text \<open>
  C7. Whatever requests the relay has served, its tables keep their keys: a node is the only one
  under its name and under its token, an enrollment the only one under its hash, a subject has one
  membership of a network and an invite's token is the only one, so every lookup finds the row that
  was written.
\<close>

theorem relay_tables_keyed:
  assumes "relay_reachable st"
  shows "(\<forall>node \<in> set (st_nodes st).
      NodeGet (nr_NetworkID node) (nr_Name node) st = Some node \<and> NodeGetByToken (nr_Token node) st = Some node) \<and>
    (\<forall>e \<in> set (st_enrollments st). NodeEnrollmentGetByTokenHash (ne_TokenHash e) st = Some e) \<and>
    (\<forall>m \<in> set (st_members st). NetworkMemberGet (nm_NetworkID m) (nm_Subject m) st = Some m) \<and>
    distinct (map iv_Token (st_invites st)) \<and> distinct (map ag_ID (st_grants st))"
proof -
  have ok: "store_ok st" by (rule reachable_store_ok [OF assms])
  note found = find_keyed [where key = node_key and t = "st_nodes st"] find_keyed [where key = nr_Token and t = "st_nodes st"]
    find_keyed [where key = ne_TokenHash and t = "st_enrollments st"] find_keyed [where key = member_key and t = "st_members st"]
  have "NodeGet (nr_NetworkID node) (nr_Name node) st = Some node" "NodeGetByToken (nr_Token node) st = Some node"
    if "node \<in> set (st_nodes st)" for node
    using ok that found(1) [of "node_key node" node] found(2) [of "nr_Token node" node]
    by (simp_all add: store_ok_def NodeGet_def NodeGetByToken_def) (simp add: node_key_def)
  moreover have "NetworkMemberGet (nm_NetworkID m) (nm_Subject m) st = Some m" if "m \<in> set (st_members st)" for m
    using ok that found(4) [of "member_key m" m] by (simp add: store_ok_def NetworkMemberGet_def) (simp add: member_key_def)
  ultimately show ?thesis
    using ok found(3) by (simp add: store_ok_def NodeEnrollmentGetByTokenHash_def) (simp add: keyed_def)
qed

theorem relay_tables_keyed_witness:
  "distinct (map iv_Token (st_invites demo_relay)) \<and>
   (\<exists>m. m \<in> set (st_members demo_relay) \<and> NetworkMemberGet (nm_NetworkID m) (nm_Subject m) demo_relay = Some m)"
proof -
  obtain m where "m \<in> set (st_members demo_relay)"
    using demo_relay_member unfolding NetworkMemberGet_def find_Some_iff by (metis nth_mem)
  then show ?thesis using relay_tables_keyed [OF demo_relay_reachable] by blast
qed

section \<open>Authority\<close>




text \<open>
  C10. An invitation admits, and an enrollment token registers, at most as many times as it has uses
  left, however the operations of concurrent requests on the store are interleaved.
\<close>

theorem bearer_tokens_bounded:
  assumes "store_ok st" "iv \<in> set (st_invites st)" "en \<in> set (st_enrollments st)"
    and "\<And>op. op \<in> set ops \<Longrightarrow> \<not> creates_invite (iv_Token iv) op \<and> \<not> creates_enrollment (ne_TokenHash en) op"
  shows "tally store_do (invite_consumed (iv_Token iv)) ops st \<le> nat (iv_UsesRemaining iv) \<and>
    tally store_do (enrollment_consumed (ne_TokenHash en)) ops st \<le> nat (ne_UsesRemaining en)"
  using invites.spent_run [of ops "iv_Token iv" st] enrollments.spent_run [of ops "ne_TokenHash en" st] assms(4)
    invite_left_row [OF assms(1,2)] enrollment_left_row [OF assms(1,3)] by auto

theorem bearer_tokens_bounded_witness:
  "tally store_do (invite_consumed ''v1'')
     [OInviteConsume 1001 ''v1'', OEnrollmentConsume ''cw_enr_e1'' 1001, OInviteConsume 1002 ''v1''] demo_invited \<le> 1 \<and>
   tally store_do (enrollment_consumed ''cw_enr_e1'')
     [OInviteConsume 1001 ''v1'', OEnrollmentConsume ''cw_enr_e1'' 1001, OInviteConsume 1002 ''v1''] demo_invited \<le> 2"
  (is "tally _ _ ?ops _ \<le> _ \<and> _")
proof -
  obtain iv en where rows: "iv \<in> set (st_invites demo_invited)" "iv_Token iv = ''v1''" "iv_UsesRemaining iv = 1"
    "en \<in> set (st_enrollments demo_invited)" "ne_TokenHash en = ''cw_enr_e1''" "ne_UsesRemaining en = 2"
    using demo_invited_rows by blast
  have "tally store_do (invite_consumed (iv_Token iv)) ?ops demo_invited \<le> nat (iv_UsesRemaining iv) \<and>
      tally store_do (enrollment_consumed (ne_TokenHash en)) ?ops demo_invited \<le> nat (ne_UsesRemaining en)"
    by (rule bearer_tokens_bounded [OF reachable_store_ok [OF demo_invited_reachable] rows(1,4)]) auto
  then show ?thesis by (simp del: tally.simps add: rows)
qed

text \<open>
  Two clients who create the same network at the same time both become its owners: the claim is
  decided by reads made before. One after the other, the second is refused and gets no membership.
\<close>

theorem network_claimed_twice:
  assumes "NetworkMemberCount n st = 0" "u \<noteq> v"
    and "create_read t1 n u st = (seen1, st1)" "create_read t2 n v st1 = (seen2, st2)"
    and "create_claim t3 n u seen1 st2 = (a1, st3)" "create_claim t4 n v seen2 st3 = (a2, st4)"
  shows "a1 = Inr (NetworkCreated n) \<and> a2 = Inr (NetworkCreated n) \<and>
    map_option nm_Role (NetworkMemberGet n u st4) = Some NetworkRoleOwner \<and>
    map_option nm_Role (NetworkMemberGet n v st4) = Some NetworkRoleOwner \<and>
    (\<forall>later. fst (create_claim t4 n v (fst (create_read t2 n v st3)) later) = Inl Conflict)"
proof -
  have none: "NetworkMemberGet n w st = None" for w
    using assms(1) by (auto simp: NetworkMemberGet_def NetworkMemberCount_def find_None_iff filter_empty_conv member_key_def)
  have reads: "seen1 = (0, None)" "seen2 = (0, None)" "st1 = NetworkEnsure t1 n st" "st2 = NetworkEnsure t2 n st1"
    using assms(1,3,4) none by (auto simp: create_read_def Let_def)
  have claims: "a1 = Inr (NetworkCreated n)" "a2 = Inr (NetworkCreated n)"
    "st3 = NetworkMemberUpsert t3 \<lparr>nm_NetworkID = n, nm_Subject = u, nm_Role = NetworkRoleOwner, nm_CreatedAt = t3, nm_CreatedBy = u\<rparr> st2"
    "st4 = NetworkMemberUpsert t4 \<lparr>nm_NetworkID = n, nm_Subject = v, nm_Role = NetworkRoleOwner, nm_CreatedAt = t4, nm_CreatedBy = v\<rparr> st3"
    using assms(5,6) by (auto simp: reads create_claim_def)
  have u: "NetworkMemberGet n u st3 \<noteq> None" "NetworkMemberGet n v st3 = None"
    using assms(2) none by (simp_all add: claims(3) reads(3,4) member_after_upsert member_key_def)
  then have "NetworkMemberCount n st3 \<noteq> 0"
    by (auto simp: NetworkMemberGet_def NetworkMemberCount_def find_None_iff filter_empty_conv member_key_def)
  then show ?thesis
    using assms(2) none u
    by (simp add: claims member_after_upsert member_key_def reads create_read_def create_claim_def Let_def)
qed

theorem network_claimed_twice_witness:
  "\<exists>st4. map_option nm_Role (NetworkMemberGet ''lab'' ''github:7'' st4) = Some NetworkRoleOwner \<and>
     map_option nm_Role (NetworkMemberGet ''lab'' ''github:8'' st4) = Some NetworkRoleOwner"
proof -
  have "NetworkMemberCount ''lab'' NewSQLiteStore = 0" "''github:7'' \<noteq> ''github:8''" by code_simp+
  from network_claimed_twice [OF this surjective_pairing surjective_pairing surjective_pairing surjective_pairing]
  show ?thesis by blast
qed

text \<open>
  C28. The device flow asks for no membership: whoever the provider admits gets a node of any
  network, and when a node of that name exists, the flow replaces its token, so the node that was
  enrolled is locked out.
\<close>

theorem device_flow_takes_over_node:
  fixes sha r
  defines "token \<equiv> ''cw_enr_'' @ ri_enrollToken r"
  assumes ok: "store_ok st"
    and flow: "poll \<noteq> []" "OIDCDeviceFlowGet (ri_now r) poll st = Some flow" "df_NodeToken flow = []"
      "ri_later r < df_ExpiresAt flow" "upstream (df_DeviceCode flow) = Some ([], access)" "access \<noteq> []"
    and user: "userinfo access = Some c" "CheckGroups p (oc_Groups c)"
    and plain: "list_all name_char token" "list_all name_char (df_NodeName flow)" "df_NodeName flow \<noteq> []"
      "list_all name_char (df_NetworkID flow)"
    and fresh: "\<forall>e \<in> set (st_enrollments st). ne_ID e \<noteq> ri_enrollID r \<and> ne_TokenHash e \<noteq> sha token"
      "\<forall>x \<in> set (st_nodes st). nr_Token x \<noteq> ri_nodeToken r"
    and existing: "NodeGet (df_NetworkID flow) (df_NodeName flow) st = Some old"
  shows "\<exists>st'. devicePollHandler p sha userinfo r upstream (Some poll) st =
      (Inr (PollAuthorized (ri_nodeToken r) (df_NodeName flow) (df_NetworkID flow)), st') \<and>
    map_option nr_Token (NodeGet (df_NetworkID flow) (df_NodeName flow) st') = Some (ri_nodeToken r) \<and>
    NodeGetByToken (nr_Token old) st' = None"
proof -
  let ?net = "df_NetworkID flow" and ?name = "df_NodeName flow" and ?owner = "''oidc:'' @ oc_Sub c"
  obtain st1 where admitted: "admit_user p (ri_now r) c st = (Inr (oc_Sub c), st1)"
    and st1: "st_enrollments st1 = st_enrollments st" "st_nodes st1 = st_nodes st" "st_deviceFlows st1 = st_deviceFlows st"
    using user(2) by (simp add: admit_user_def OIDCUserUpsert_def)
  obtain res st2 where create: "createNodeEnrollment sha r ?net ?owner ?owner ?name 1 (seconds 600) st1 = (res, st2)"
    by fastforce
  from enrollment_redeemed [OF plain(1) [unfolded token_def] plain(2,3,4) _ _ create] fresh
  obtain e st3 node where redeemed: "res = Inr (e, token)"
    "redeemNodeEnrollment sha r token ?name [] None st2 =
      (Inr \<lparr>rd_NodeToken = ri_nodeToken r, rd_NodeName = ?name, rd_NetworkID = ?net, rd_EnrollmentID = ri_enrollID r\<rparr>, st3)"
    "NodeGet ?net ?name st3 = Some node" "nr_Token node = ri_nodeToken r" "st_deviceFlows st3 = st_deviceFlows st"
    and rows: "\<forall>x \<in> set (st_nodes st3). node_key x = (?net, ?name) \<longrightarrow> nr_Token x = ri_nodeToken r"
      "\<forall>x \<in> set (st_nodes st3). node_key x = (?net, ?name) \<or> x \<in> set (st_nodes st)"
    unfolding st1 token_def by blast
  have "flow \<in> set (st_deviceFlows st)" "df_PollToken flow = poll"
    using flow(2) by (auto simp: OIDCDeviceFlowGet_def find_Some_iff)
  then have "list_ex (\<lambda>f. df_PollToken f = poll \<and> ri_later r < df_ExpiresAt f) (st_deviceFlows st3)"
    using flow(4) by (auto simp: redeemed(5) list_ex_iff)
  then obtain st4 where complete: "OIDCDeviceFlowComplete (ri_later r) poll (ri_nodeToken r) st3 = (Inr (), st4)"
    "st_nodes st4 = st_nodes st3" by (simp add: OIDCDeviceFlowComplete_def)
  have old: "old \<in> set (st_nodes st)" "node_key old = (?net, ?name)"
    using existing by (auto simp: NodeGet_def find_Some_iff)
  have "nr_Token x \<noteq> nr_Token old" if "x \<in> set (st_nodes st3)" for x
  proof (cases "node_key x = (?net, ?name)")
    case True
    then show ?thesis using rows(1) that fresh(2) old(1) by metis
  next
    case False
    then have "x \<in> set (st_nodes st)" using rows(2) that by blast
    then show ?thesis
      using False ok old by (metis keyed_def distinct_map inj_onD store_ok_def)
  qed
  then have "NodeGetByToken (nr_Token old) st4 = None"
    by (auto simp: NodeGetByToken_def complete(2) find_None_iff)
  then show ?thesis
    using flow user admitted create redeemed(1-4) complete
    by (simp add: devicePollHandler_def Let_def) (simp add: NodeGet_def)
qed

theorem device_flow_takes_over_node_witness:
  "\<exists>st'. devicePollHandler \<lparr>op_AllowedGroups = []\<rparr> (\<lambda>s. s) (\<lambda>t. Some demo_oidc) demo_relay_inputs (\<lambda>d. Some ([], ''a''))
      (Some ''p'') demo_enrolled = (Inr (PollAuthorized ''n1'' ''box'' ''lab''), st') \<and>
    NetworkMemberGet ''lab'' ''oidc:eve'' demo_enrolled = None \<and> NodeGetByToken ''old'' st' = None"
proof -
  have "store_ok demo_enrolled" "OIDCDeviceFlowGet (ri_now demo_relay_inputs) ''p'' demo_enrolled = Some demo_flow"
    "NodeGet (df_NetworkID demo_flow) (df_NodeName demo_flow) demo_enrolled = Some demo_box"
    "NetworkMemberGet ''lab'' ''oidc:eve'' demo_enrolled = None"
    "list_all name_char (''cw_enr_'' @ ri_enrollToken demo_relay_inputs)" "list_all name_char (df_NodeName demo_flow)"
    "list_all name_char (df_NetworkID demo_flow)"
    by code_simp+
  note facts = this
  have "\<exists>st'. devicePollHandler \<lparr>op_AllowedGroups = []\<rparr> (\<lambda>s. s) (\<lambda>t. Some demo_oidc) demo_relay_inputs
      (\<lambda>d. Some ([], ''a'')) (Some ''p'') demo_enrolled =
        (Inr (PollAuthorized (ri_nodeToken demo_relay_inputs) (df_NodeName demo_flow) (df_NetworkID demo_flow)), st') \<and>
      map_option nr_Token (NodeGet (df_NetworkID demo_flow) (df_NodeName demo_flow) st') = Some (ri_nodeToken demo_relay_inputs) \<and>
      NodeGetByToken (nr_Token demo_box) st' = None"
    by (rule device_flow_takes_over_node [where c = demo_oidc and access = "''a''", OF facts(1) _ facts(2)])
      (use facts in \<open>simp_all add: demo_flow_def demo_relay_inputs_def demo_oidc_def CheckGroups_def demo_enrolled_def
        NewSQLiteStore_def demo_box_def\<close>)
  then show ?thesis using facts(4) by (auto simp: demo_relay_inputs_def demo_flow_def demo_box_def)
qed

text \<open>
  C29. Every member of a network can read the relay's signing key for it through the key-value
  interface, and can replace it: from then on the relay signs with what the member wrote.
\<close>

theorem member_holds_issuer_key:
  assumes "requiredNetworkID network = Some n" "belongs n i st"
    and "KVGet (ri_now r) n networkAuthNamespace networkAuthIssuerKey st = Some raw"
  shows "kvGetHandler r networkAuthNamespace networkAuthIssuerKey network (Some i) st = (Inr (KVValue raw), st) \<and>
    (\<exists>st'. kvSetHandler pd r networkAuthNamespace networkAuthIssuerKey network [] forged (Some i) st =
        (Inr NoContent, st') \<and>
      (forged \<noteq> [] \<and> length forged \<le> 2 ^ 20 \<longrightarrow>
         loadOrCreateIssuerState si later network st' = (si_decState si forged, st')))"
proof -
  obtain m where m: "guard_member Unauthorized (ri_now r) n (Some i) st = Inr m"
    using belongs_guard [OF assms(2)] by blast
  let ?st = "KVSet (ri_now r) n networkAuthNamespace networkAuthIssuerKey (take (2 ^ 20) forged) None st"
  have n: "n \<noteq> []" "resolveNetworkID network = n" using assms(1) by (auto simp: requiredNetworkID_def Let_def split: if_splits)
  have "KVGet later n networkAuthNamespace networkAuthIssuerKey ?st = Some (take (2 ^ 20) forged)"
    by (rule kv_read_back)
  then have "stored_issuer later n ?st = take (2 ^ 20) forged" by (simp add: stored_issuer_def)
  then show ?thesis
    using assms(1,3) m n by (auto simp: kvGetHandler_def kvSetHandler_def loadOrCreateIssuerState_def Let_def)
qed

theorem member_holds_issuer_key_witness:
  "\<exists>st st'. kvGetHandler demo_relay_inputs networkAuthNamespace networkAuthIssuerKey ''lab'' (Some (demo_github 7)) st =
      (Inr (KVValue ''secret''), st) \<and>
    kvSetHandler (\<lambda>s. None) demo_relay_inputs networkAuthNamespace networkAuthIssuerKey ''lab'' [] ''forged''
      (Some (demo_github 7)) st = (Inr NoContent, st') \<and>
    loadOrCreateIssuerState demo_signing 5 ''lab'' st' = (si_decState demo_signing ''forged'', st')"
proof -
  let ?st = "KVSet 1 ''lab'' networkAuthNamespace networkAuthIssuerKey ''secret'' None demo_relay"
  have "requiredNetworkID ''lab'' = Some ''lab''" by code_simp
  moreover have "belongs ''lab'' (demo_github 7) ?st"
    using demo_relay_member demo_subject by (auto simp: belongs_def KVSet_def Let_def NetworkMemberGet_def)
  ultimately show ?thesis
    using member_holds_issuer_key [of "''lab''" "''lab''" "demo_github 7" ?st demo_relay_inputs "''secret''" "\<lambda>s. None" "''forged''"
        demo_signing 5] kv_read_back by fastforce
qed

section \<open>Revocation streams\<close>

text \<open>
  C24. A client that resumes its stream of revocations with the last number it saw, and is not told
  to reset, is replayed exactly the revocations of its network that were published after that number.
\<close>

theorem revocation_stream_complete:
  assumes "hub_run hist h" "int (length hist) < 2 ^ 63" "0 \<le> lastSeq" "lastSeq < 2 ^ 63 - 1"
    and "AccessSubscribe n lastSeq h = ((replay, sub, reset), h')" "0 < lastSeq \<and> \<not> reset \<or> length hist \<le> 256"
  shows "replay = filter (\<lambda>ev. ae_NetworkID ev = n \<and> lastSeq < ae_Seq ev) hist"
  by (rule resumed_stream [OF assms])

theorem revocation_stream_complete_witness:
  "\<exists>hist h sub h'. hub_run hist h \<and> length hist = 2 \<and>
     AccessSubscribe ''lab'' 1 h = ((filter (\<lambda>ev. ae_NetworkID ev = ''lab'' \<and> 1 < ae_Seq ev) hist, sub, False), h')"
proof -
  obtain hist h where run: "hub_run hist h" and two: "length hist = 2" using demo_hub_run by blast
  obtain replay sub reset h' where sub: "AccessSubscribe ''lab'' 1 h = ((replay, sub, reset), h')" by (metis surj_pair)
  moreover have "replay = filter (\<lambda>ev. ae_NetworkID ev = ''lab'' \<and> 1 < ae_Seq ev) hist"
    by (rule revocation_stream_complete [OF run _ _ _ sub]) (simp_all add: two)
  moreover have "ae_Seq (hist ! 0) = 1" "ah_events h = hist"
    using hub_log [OF run] two by (auto simp: last_n_def numbered_def)
  then have "\<not> reset"
    using sub two by (auto simp: AccessSubscribe_def Let_def access_reset_def split: list.splits)
  moreover note run two
  ultimately show ?thesis by auto
qed

text \<open>
  Two ways to lose a revocation: when a client disconnects between the numbering of an event and
  the send to it, the publication panics, before the subscribers after it are told; and after a restart
  of the relay, whose numbers start again, a client that resumes with a number of the old run is neither
  replayed the revocations since nor told to reset.
\<close>

theorem revocation_event_lost:
  "(\<forall>ev h sub ev' h'. mget (ah_subscribers h) sub \<noteq> None \<and> mget (ah_chans h) sub \<noteq> None \<and>
      publish_locked ev h = ((ev', [sub]), h') \<longrightarrow> ah_panicked (publish_send ev' sub (access_cancel sub h'))) \<and>
   (\<forall>hist h n lastSeq. hub_run hist h \<and> int (length hist) \<le> lastSeq \<and> lastSeq < 2 ^ 63 - 1 \<longrightarrow>
      (\<exists>sub h'. AccessSubscribe n lastSeq h = (([], sub, False), h')))"
proof (intro conjI allI impI)
  fix ev h sub ev' h'
  assume h: "mget (ah_subscribers h) sub \<noteq> None \<and> mget (ah_chans h) sub \<noteq> None \<and> publish_locked ev h = ((ev', [sub]), h')"
  then have "ah_subscribers h' = ah_subscribers h" "ah_chans h' = ah_chans h" "ah_panicked h' = ah_panicked h"
    by (auto simp: publish_locked_def Let_def)
  with h show "ah_panicked (publish_send ev' sub (access_cancel sub h'))"
    by (auto simp: access_cancel_def publish_send_def try_send_def close_chan_def)
next
  fix hist h and n :: string and lastSeq :: int
  assume run: "hub_run hist h \<and> int (length hist) \<le> lastSeq \<and> lastSeq < 2 ^ 63 - 1"
  then have "ah_events h = last_n 256 hist" "numbered hist" using hub_log [of hist h] by auto
  then have "ae_Seq ev \<le> lastSeq" if "ev \<in> set (ah_events h)" for ev
    using that run numbered_bound [of hist ev] by (auto simp: last_n_def dest: in_set_dropD)
  then have "filter (\<lambda>ev. ae_NetworkID ev = n \<and> lastSeq < ae_Seq ev) (ah_events h) = []" "\<not> access_reset lastSeq h"
    using run by (force simp: filter_empty_conv, auto simp: access_reset_def split: list.splits) (smt)
  then show "\<exists>sub h'. AccessSubscribe n lastSeq h = (([], sub, False), h')" by (simp add: AccessSubscribe_def Let_def)
qed

theorem revocation_event_lost_witness:
  "ah_panicked (publish_send (fst (fst (publish_locked (revoked_event ''lab'' ''g1'' 10) demo_subscribed))) 1
     (access_cancel 1 (snd (publish_locked (revoked_event ''lab'' ''g1'' 10) demo_subscribed)))) \<and>
   (\<exists>hist h sub h'. hub_run hist h \<and> length hist = 2 \<and> AccessSubscribe ''lab'' 2 h = (([], sub, False), h'))"
proof -
  have "mget (ah_subscribers demo_subscribed) 1 \<noteq> None" "mget (ah_chans demo_subscribed) 1 \<noteq> None"
    "snd (fst (publish_locked (revoked_event ''lab'' ''g1'' 10) demo_subscribed)) = [1]"
    by code_simp+
  moreover from this(3) have "publish_locked (revoked_event ''lab'' ''g1'' 10) demo_subscribed =
      ((fst (fst (publish_locked (revoked_event ''lab'' ''g1'' 10) demo_subscribed)), [1]),
       snd (publish_locked (revoked_event ''lab'' ''g1'' 10) demo_subscribed))"
    by (metis prod.collapse)
  moreover obtain hist h where "hub_run hist h" "length hist = 2" using demo_hub_run by blast
  moreover from this have "hub_run hist h \<and> int (length hist) \<le> 2 \<and> (2 :: int) < 2 ^ 63 - 1" by simp
  ultimately show ?thesis using revocation_event_lost by blast
qed

section \<open>Connections of nodes\<close>

text \<open>
  When a node reconnects before the relay has noticed the end of its old connection, the end of
  the old one removes the entry of the new one: nothing more can be sent to the node, and signalling
  it fails although it is connected, until it connects again.
\<close>

theorem reconnected_node_unreachable:
  "(let h1 = connection_open n name old h; h2 = connection_open n name new h1 in
      fst (hub_Send n name msg h2) = Inr () \<and>
      (let h3 = connection_close n name h2 in
         \<not> hub_Has n name h3 \<and> fst (hub_Send n name msg h3) = Inl NodeNotConnected \<and>
         fst (bridge_start n name sid cols rows h3 p) = Inl NodeNotConnected \<and>
         fst (hub_Send n name msg (connection_open n name newer h3)) = Inr ()))"
  by (simp add: Let_def connection_open_def connection_close_def hub_Register_def hub_Unregister_def hub_Has_def
      hub_Send_def bridge_start_def Expect_def make_chan_def)

section \<open>Terminal sizes\<close>

text \<open>
  The payloads of a \<open>pty-req\<close> that crash the relay: exactly those whose declared length of the
  terminal's name makes the 32-bit offset wrap around to a small number while a read goes past the end
  of the payload; every other payload gives a size.
\<close>

theorem pty_request_panics:
  assumes "length payload < 2 ^ 32 - 16"
  shows "ssh_requests sz [(PtyReq payload, want), (Shell, want)] = None \<longleftrightarrow>
    4 \<le> length payload \<and> 2 ^ 32 - 12 \<le> unat (get_uint32 payload) \<and> unat (get_uint32 payload) \<le> 2 ^ 32 - 5 \<and>
    unat (get_uint32 payload) + 12 - 2 ^ 32 \<le> length payload"
  using pty_size_panics [OF assms, of sz] by (cases "pty_size payload sz") auto

theorem pty_request_panics_witness:
  "ssh_requests (80, 24) [(PtyReq (put_uint32 4294967284), True), (Shell, True)] = None"
proof -
  let ?payload = "put_uint32 4294967284"
  have n: "unat (get_uint32 ?payload) = 4294967284" using get_put_uint32 [of 4294967284 "[]"] by simp
  have "4 \<le> length ?payload \<and> 2 ^ 32 - 12 \<le> unat (get_uint32 ?payload) \<and>
      unat (get_uint32 ?payload) \<le> 2 ^ 32 - 5 \<and> unat (get_uint32 ?payload) + 12 - 2 ^ 32 \<le> length ?payload"
    unfolding n by simp
  with pty_request_panics [of ?payload] show ?thesis by simp
qed

section \<open>The rate limiter\<close>

text \<open>
  C27. However requests arrive, every window of time that ends with an admitted request holds at most
  as many admitted requests of its address as the limit allows.
\<close>

theorem rate_limit_window:
  assumes "sorted (map fst reqs)" "0 < window" "rl_run reqs (newRateLimiter limit window) = (passed, rl)"
    and "(t, ip) \<in> set passed"
  shows "length (filter (\<lambda>r. snd r = ip \<and> t - window < fst r \<and> fst r \<le> t) passed) \<le> limit"
proof -
  have "sorted (hd (map fst reqs @ [0]) # map fst reqs)" using assms(1) by (cases reqs) auto
  then have "within (newRateLimiter limit window) ([] @ passed)"
    using limited_run [OF limited_new _ _ assms(3), of "hd (map fst reqs @ [0])"] assms(2)
    by (simp add: newRateLimiter_def)
  then have "length (filter (\<lambda>u. t - window < u \<and> u \<le> t) (times_of ip passed)) \<le> limit"
    using assms(4) by (auto simp: within_def newRateLimiter_def)
  then show ?thesis by (simp add: times_of_def filter_map o_def conj_commute)
qed

theorem rate_limit_window_witness:
  "length (filter (\<lambda>r. snd r = ''a'' \<and> 20 - 15 < fst r \<and> fst r \<le> 20)
     (fst (rl_run [(1, ''a''), (8, ''b''), (10, ''a''), (12, ''a''), (20, ''a'')] (newRateLimiter 2 15)))) \<le> 2"
proof -
  have "(20, ''a'') \<in> set (fst (rl_run [(1, ''a''), (8, ''b''), (10, ''a''), (12, ''a''), (20, ''a'')] (newRateLimiter 2 15)))"
    by code_simp
  from rate_limit_window [OF _ _ surjective_pairing this] show ?thesis by simp
qed

end
