(* ===== verification/PostgresStore.thy ===== *)
theory PostgresStore
  imports RelayOps
begin

text \<open>
  The store of a hosted relay, \<open>internal/store/postgres.go\<close>, over the tables of
  \<open>migrations/001_initial_schema.up.sql\<close>: one definition per method. There is no lock: a method that
  runs several statements outside of a transaction can be interrupted between them, so these are
  also given by themselves.

  The database is taken to work. Texts are UTF-8 without the zero byte and times whole microseconds,
  as its columns hold them. Unlike SQLite it enforces the references between tables and the range of
  its integer columns (\<open>Constraint\<close> stands for every row it refuses), lets several nodes have an empty
  token, tells upper from lower case in \<open>LIKE\<close>, and orders texts by its collation: \<open>coll\<close> is the
  collation's sort key, and texts with the same key are ordered by their bytes.
\<close>

section \<open>Statements\<close>

definition int4 :: "int \<Rightarrow> bool" where
  "int4 i \<longleftrightarrow> - (2 ^ 31) \<le> i \<and> i < 2 ^ 31"

definition collated :: "(string \<Rightarrow> string) \<Rightarrow> string \<Rightarrow> string \<times> string" where
  "collated coll s = (coll s, s)"

text \<open>A backslash takes the next character of the pattern as it is.\<close>

fun pg_like :: "string \<Rightarrow> string \<Rightarrow> bool" where
  "pg_like [] s = (s = [])"
| "pg_like (p # ps) [] =
     (p = CHR ''%'' \<and> pg_like ps [])"
| "pg_like (p # ps) (c # s) =
     (if p = CHR ''%'' then pg_like ps (c # s) \<or> pg_like (p # ps) s
      else if p = CHR 0x5C then (case ps of [] \<Rightarrow> False | q # qs \<Rightarrow> q = c \<and> pg_like qs s)
      else (p = CHR ''_'' \<or> p = c) \<and> pg_like ps s)"

section \<open>Networks and members\<close>

definition pg_NetworkEnsure :: "nanos \<Rightarrow> string \<Rightarrow> RelayStore \<Rightarrow> RelayStore" where
  "pg_NetworkEnsure now networkID st =
     st\<lparr>st_networks := insert_or_ignore nw_ID \<lparr>nw_ID = networkID, nw_CreatedAt = now\<rparr> (st_networks st)\<rparr>"

text \<open>The two joined subqueries: a network that is missing from one counts as 0.\<close>

definition group_count :: "('r \<Rightarrow> string) \<Rightarrow> 'r list \<Rightarrow> string \<Rightarrow> nat option" where
  "group_count network rows n =
     (case filter (\<lambda>r. network r = n) rows of [] \<Rightarrow> None | rs \<Rightarrow> Some (length rs))"

definition pg_network :: "nanos \<Rightarrow> RelayStore \<Rightarrow> NetworkRow \<Rightarrow> Network" where
  "pg_network now st n =
     \<lparr>net_ID = nw_ID n, net_CreatedAt = nw_CreatedAt n,
      net_NodeCount = (case group_count nr_NetworkID (st_nodes st) (nw_ID n) of None \<Rightarrow> 0 | Some c \<Rightarrow> c),
      net_InviteCount =
        (case group_count iv_NetworkID (filter (\<lambda>r. now < iv_ExpiresAt r) (st_invites st)) (nw_ID n) of None \<Rightarrow> 0 | Some c \<Rightarrow> c)\<rparr>"

definition pg_NetworkList :: "(string \<Rightarrow> string) \<Rightarrow> nanos \<Rightarrow> RelayStore \<Rightarrow> Network list" where
  "pg_NetworkList coll now st =
     map (pg_network now st) (sort_key (\<lambda>n. collated coll (nw_ID n)) (st_networks st))"

text \<open>The inner join has a row for every membership of the subject.\<close>

definition pg_NetworkListByMember :: "(string \<Rightarrow> string) \<Rightarrow> nanos \<Rightarrow> string \<Rightarrow> RelayStore \<Rightarrow> Network list" where
  "pg_NetworkListByMember coll now subject st =
     map (pg_network now st)
       (sort_key (\<lambda>n. collated coll (nw_ID n))
         (concat (map (\<lambda>n. map (\<lambda>m. n) (filter (\<lambda>m. nm_NetworkID m = nw_ID n \<and> nm_Subject m = subject) (st_members st)))
            (st_networks st))))"

definition pg_NetworkMemberGet :: "string \<Rightarrow> string \<Rightarrow> RelayStore \<Rightarrow> NetworkMember option" where
  "pg_NetworkMemberGet networkID subject st =
     List.find (\<lambda>r. nm_NetworkID r = networkID \<and> nm_Subject r = subject) (st_members st)"

definition pg_NetworkMemberUpsert :: "nanos \<Rightarrow> NetworkMember \<Rightarrow> RelayStore \<Rightarrow> RelayStore" where
  "pg_NetworkMemberUpsert now member st =
     (let st1 = pg_NetworkEnsure now (nm_NetworkID member) st
      in st1\<lparr>st_members := upsert member_key (\<lambda>old. old\<lparr>nm_Role := nm_Role member\<rparr>) member (st_members st1)\<rparr>)"

definition pg_NetworkMemberCount :: "string \<Rightarrow> RelayStore \<Rightarrow> nat" where
  "pg_NetworkMemberCount networkID st = length (filter (\<lambda>r. nm_NetworkID r = networkID) (st_members st))"

section \<open>Groups\<close>

definition default_policy :: "Group \<Rightarrow> GroupPolicy" where
  "default_policy g =
     \<lparr>gp_NetworkID = gr_NetworkID g, gp_GroupName = gr_Name g, gp_MessagesPolicy = GroupMessagesInternalOnly,
      gp_DebugPolicy = GroupDebugObserveOnly, gp_UpdatedAt = gr_CreatedAt g\<rparr>"

text \<open>In a transaction: the error rolls the network back.\<close>

definition pg_GroupCreate :: "nanos \<Rightarrow> Group \<Rightarrow> RelayStore \<Rightarrow> (store_error + unit) \<times> RelayStore" where
  "pg_GroupCreate now g st =
     (let st1 = pg_NetworkEnsure now (gr_NetworkID g) st;
          groups = insert_or_ignore group_key g (st_groups st1);
          affected = length groups - length (st_groups st1)
      in if affected = 0 then (Inl GroupExists, st)
         else (Inr (), st1\<lparr>st_groups := groups,
                 st_policies := insert_or_ignore policy_key (default_policy g) (st_policies st1)\<rparr>))"

definition pg_GroupList :: "(string \<Rightarrow> string) \<Rightarrow> string \<Rightarrow> RelayStore \<Rightarrow> Group list" where
  "pg_GroupList coll networkID st =
     sort_key (\<lambda>r. collated coll (gr_Name r)) (filter (\<lambda>r. gr_NetworkID r = networkID) (st_groups st))"

definition pg_GroupGet :: "string \<Rightarrow> string \<Rightarrow> RelayStore \<Rightarrow> Group option" where
  "pg_GroupGet networkID groupName st =
     List.find (\<lambda>r. gr_NetworkID r = networkID \<and> gr_Name r = groupName) (st_groups st)"

text \<open>The rows a \<open>DELETE\<close> removes are counted; without a group its members and policy stay too.\<close>

definition pg_GroupDelete :: "string \<Rightarrow> string \<Rightarrow> RelayStore \<Rightarrow> (store_error + unit) \<times> RelayStore" where
  "pg_GroupDelete networkID groupName st =
     (let st1 = st\<lparr>st_groupMembers :=
                  delete_where (\<lambda>r. gm_NetworkID r = networkID \<and> gm_GroupName r = groupName) (st_groupMembers st),
                st_policies :=
                  delete_where (\<lambda>r. gp_NetworkID r = networkID \<and> gp_GroupName r = groupName) (st_policies st)\<rparr>;
          groups = delete_where (\<lambda>r. gr_NetworkID r = networkID \<and> gr_Name r = groupName) (st_groups st1);
          affected = length (st_groups st1) - length groups
      in if affected = 0 then (Inl GroupNotFound, st) else (Inr (), st1\<lparr>st_groups := groups\<rparr>))"

definition pg_group_exists :: "string \<Rightarrow> string \<Rightarrow> RelayStore \<Rightarrow> bool" where
  "pg_group_exists networkID groupName st \<longleftrightarrow>
     length (filter (\<lambda>r. gr_NetworkID r = networkID \<and> gr_Name r = groupName) (st_groups st)) \<noteq> 0"

definition pg_group_member_insert :: "GroupMember \<Rightarrow> RelayStore \<Rightarrow> RelayStore" where
  "pg_group_member_insert member st =
     st\<lparr>st_groupMembers := insert_or_ignore group_member_key member (st_groupMembers st)\<rparr>"

definition pg_GroupMemberAdd :: "GroupMember \<Rightarrow> RelayStore \<Rightarrow> (store_error + unit) \<times> RelayStore" where
  "pg_GroupMemberAdd member st =
     (if \<not> pg_group_exists (gm_NetworkID member) (gm_GroupName member) st then (Inl GroupNotFound, st)
      else (Inr (), pg_group_member_insert member st))"

definition pg_GroupMemberRemove ::
  "string \<Rightarrow> string \<Rightarrow> string \<Rightarrow> string \<Rightarrow> RelayStore \<Rightarrow> (store_error + unit) \<times> RelayStore" where
  "pg_GroupMemberRemove networkID groupName nodeName sessionName st =
     (let rows = delete_where (\<lambda>r. gm_NetworkID r = networkID \<and> gm_GroupName r = groupName \<and>
                   gm_NodeName r = nodeName \<and> gm_SessionName r = sessionName) (st_groupMembers st);
          affected = length (st_groupMembers st) - length rows
      in if affected = 0 then (Inl GroupMemberNotFound, st) else (Inr (), st\<lparr>st_groupMembers := rows\<rparr>))"

definition pg_GroupMemberList :: "(string \<Rightarrow> string) \<Rightarrow> string \<Rightarrow> string \<Rightarrow> RelayStore \<Rightarrow> GroupMember list" where
  "pg_GroupMemberList coll networkID groupName st =
     sort_key (\<lambda>r. (collated coll (gm_NodeName r), collated coll (gm_SessionName r)))
       (filter (\<lambda>r. gm_NetworkID r = networkID \<and> gm_GroupName r = groupName) (st_groupMembers st))"

text \<open>The left join has one row for every policy of the group, or one row without a policy.\<close>

definition pg_policies_of :: "RelayStore \<Rightarrow> GroupMember \<Rightarrow> GroupPolicy option list" where
  "pg_policies_of st m =
     (case filter (\<lambda>p. gp_NetworkID p = gm_NetworkID m \<and> gp_GroupName p = gm_GroupName m) (st_policies st) of
        [] \<Rightarrow> [None]
      | ps \<Rightarrow> map Some ps)"

definition pg_binding :: "GroupMember \<Rightarrow> GroupPolicy option \<Rightarrow> GroupBinding" where
  "pg_binding m p =
     \<lparr>gb_GroupName = gm_GroupName m,
      gb_MessagesPolicy = (case p of None \<Rightarrow> GroupMessagesInternalOnly | Some q \<Rightarrow> gp_MessagesPolicy q),
      gb_DebugPolicy = (case p of None \<Rightarrow> GroupDebugObserveOnly | Some q \<Rightarrow> gp_DebugPolicy q)\<rparr>"

definition pg_GroupBindingsForSession ::
  "(string \<Rightarrow> string) \<Rightarrow> string \<Rightarrow> string \<Rightarrow> string \<Rightarrow> RelayStore \<Rightarrow> GroupBinding list" where
  "pg_GroupBindingsForSession coll networkID nodeName sessionName st =
     sort_key (\<lambda>b. collated coll (gb_GroupName b))
       (concat (map (\<lambda>m. map (pg_binding m) (pg_policies_of st m))
          (filter (\<lambda>m. gm_NetworkID m = networkID \<and> gm_NodeName m = nodeName \<and> gm_SessionName m = sessionName)
             (st_groupMembers st))))"

definition pg_policy_upsert :: "GroupPolicy \<Rightarrow> RelayStore \<Rightarrow> RelayStore" where
  "pg_policy_upsert policy st =
     st\<lparr>st_policies := upsert policy_key
       (\<lambda>old. old\<lparr>gp_MessagesPolicy := gp_MessagesPolicy policy, gp_DebugPolicy := gp_DebugPolicy policy,
                  gp_UpdatedAt := gp_UpdatedAt policy\<rparr>) policy (st_policies st)\<rparr>"

definition pg_GroupPolicySet :: "GroupPolicy \<Rightarrow> RelayStore \<Rightarrow> (store_error + unit) \<times> RelayStore" where
  "pg_GroupPolicySet policy st =
     (if \<not> pg_group_exists (gp_NetworkID policy) (gp_GroupName policy) st then (Inl GroupNotFound, st)
      else (Inr (), pg_policy_upsert policy st))"

definition pg_GroupPolicyGet :: "string \<Rightarrow> string \<Rightarrow> RelayStore \<Rightarrow> GroupPolicy option" where
  "pg_GroupPolicyGet networkID groupName st =
     List.find (\<lambda>r. gp_NetworkID r = networkID \<and> gp_GroupName r = groupName) (st_policies st)"

section \<open>Nodes\<close>

text \<open>The unique index on the token leaves out empty tokens.\<close>

definition pg_NodeRegister :: "nanos \<Rightarrow> NodeRecord \<Rightarrow> RelayStore \<Rightarrow> (store_error + unit) \<times> RelayStore" where
  "pg_NodeRegister now node st =
     (let st1 = pg_NetworkEnsure now (nr_NetworkID node) st in
      if nr_Token node \<noteq> [] \<and> list_ex (\<lambda>r. nr_Token r = nr_Token node \<and> node_key r \<noteq> node_key node) (st_nodes st1)
      then (Inl Constraint, st1)
      else (Inr (), st1\<lparr>st_nodes := upsert node_key
             (\<lambda>old. old\<lparr>nr_Token := nr_Token node, nr_PeerURL := nr_PeerURL node, nr_GitHubID := nr_GitHubID node,
                nr_OwnerSubject := nr_OwnerSubject node, nr_AuthorizedBy := nr_AuthorizedBy node,
                nr_EnrollmentID := nr_EnrollmentID node, nr_LastSeenAt := nr_LastSeenAt node\<rparr>)
             node (st_nodes st1)\<rparr>))"

definition pg_NodeList :: "(string \<Rightarrow> string) \<Rightarrow> string \<Rightarrow> RelayStore \<Rightarrow> NodeRecord list" where
  "pg_NodeList coll networkID st =
     sort_key (\<lambda>r. collated coll (nr_Name r)) (filter (\<lambda>r. nr_NetworkID r = networkID) (st_nodes st))"

definition pg_NodeListAll :: "(string \<Rightarrow> string) \<Rightarrow> RelayStore \<Rightarrow> NodeRecord list" where
  "pg_NodeListAll coll st =
     sort_key (\<lambda>r. (collated coll (nr_NetworkID r), collated coll (nr_Name r))) (st_nodes st)"

definition pg_NodeGet :: "string \<Rightarrow> string \<Rightarrow> RelayStore \<Rightarrow> NodeRecord option" where
  "pg_NodeGet networkID name st =
     List.find (\<lambda>r. nr_NetworkID r = networkID \<and> nr_Name r = name) (st_nodes st)"

definition pg_NodeGetByToken :: "string \<Rightarrow> RelayStore \<Rightarrow> NodeRecord option" where
  "pg_NodeGetByToken token st = List.find (\<lambda>r. nr_Token r = token) (st_nodes st)"

definition pg_NodeDelete :: "string \<Rightarrow> string \<Rightarrow> RelayStore \<Rightarrow> RelayStore" where
  "pg_NodeDelete networkID name st =
     st\<lparr>st_nodes := delete_where (\<lambda>r. nr_NetworkID r = networkID \<and> nr_Name r = name) (st_nodes st)\<rparr>"

definition pg_NodeUpdateLastSeen :: "nanos \<Rightarrow> string \<Rightarrow> string \<Rightarrow> RelayStore \<Rightarrow> RelayStore" where
  "pg_NodeUpdateLastSeen now networkID name st =
     st\<lparr>st_nodes := update_where (\<lambda>r. nr_NetworkID r = networkID \<and> nr_Name r = name)
          (\<lambda>r. r\<lparr>nr_LastSeenAt := now\<rparr>) (st_nodes st)\<rparr>"

definition pg_NodeEnrollmentCreate :: "nanos \<Rightarrow> NodeEnrollment \<Rightarrow> RelayStore \<Rightarrow> (store_error + unit) \<times> RelayStore" where
  "pg_NodeEnrollmentCreate now e st =
     (let st1 = pg_NetworkEnsure now (ne_NetworkID e) st in
      if \<not> int4 (ne_UsesRemaining e) \<or>
         list_ex (\<lambda>r. ne_ID r = ne_ID e \<or> ne_TokenHash r = ne_TokenHash e) (st_enrollments st1)
      then (Inl Constraint, st1)
      else (Inr (), st1\<lparr>st_enrollments := st_enrollments st1 @ [e]\<rparr>))"

definition pg_NodeEnrollmentGetByTokenHash :: "string \<Rightarrow> RelayStore \<Rightarrow> NodeEnrollment option" where
  "pg_NodeEnrollmentGetByTokenHash tokenHash st = List.find (\<lambda>r. ne_TokenHash r = tokenHash) (st_enrollments st)"

text \<open>One statement: an enrollment that has expired is not consumed. \<open>RETURNING\<close> gives the new row.\<close>

definition pg_enrollment_used :: "nanos \<Rightarrow> NodeEnrollment \<Rightarrow> NodeEnrollment" where
  "pg_enrollment_used redeemedAt e =
     e\<lparr>ne_UsesRemaining := ne_UsesRemaining e - 1,
        ne_RedeemedAt := (if ne_UsesRemaining e = 1 then Some redeemedAt else ne_RedeemedAt e)\<rparr>"

definition pg_NodeEnrollmentConsume :: "string \<Rightarrow> nanos \<Rightarrow> RelayStore \<Rightarrow> NodeEnrollment option \<times> RelayStore" where
  "pg_NodeEnrollmentConsume tokenHash redeemedAt st =
     (let p = (\<lambda>r. ne_TokenHash r = tokenHash \<and> 0 < ne_UsesRemaining r \<and> redeemedAt < ne_ExpiresAt r)
      in (map_option (pg_enrollment_used redeemedAt) (List.find p (st_enrollments st)),
          st\<lparr>st_enrollments := update_where p (pg_enrollment_used redeemedAt) (st_enrollments st)\<rparr>))"

section \<open>Keys and values\<close>

definition pg_unexpired :: "nanos \<Rightarrow> KVRow \<Rightarrow> bool" where
  "pg_unexpired now r \<longleftrightarrow> kr_ExpiresAt r = None \<or> (case kr_ExpiresAt r of None \<Rightarrow> False | Some t \<Rightarrow> now < t)"

definition pg_KVSet :: "nanos \<Rightarrow> string \<Rightarrow> string \<Rightarrow> string \<Rightarrow> bytes \<Rightarrow> int option \<Rightarrow> RelayStore \<Rightarrow> RelayStore" where
  "pg_KVSet now networkID namespace key v ttl st =
     (let expiresAt = (case ttl of None \<Rightarrow> None | Some d \<Rightarrow> Some (now + d));
          row = \<lparr>kr_NetworkID = networkID, kr_Namespace = namespace, kr_Key = key, kr_Value = v, kr_ExpiresAt = expiresAt\<rparr>
      in st\<lparr>st_kv := upsert kv_key (\<lambda>old. old\<lparr>kr_Value := v, kr_ExpiresAt := expiresAt\<rparr>) row (st_kv st)\<rparr>)"

definition pg_kv_at :: "string \<Rightarrow> string \<Rightarrow> string \<Rightarrow> KVRow \<Rightarrow> bool" where
  "pg_kv_at networkID namespace key r \<longleftrightarrow> kr_NetworkID r = networkID \<and> kr_Namespace r = namespace \<and> kr_Key r = key"

definition pg_KVGet :: "nanos \<Rightarrow> string \<Rightarrow> string \<Rightarrow> string \<Rightarrow> RelayStore \<Rightarrow> bytes option" where
  "pg_KVGet now networkID namespace key st =
     (case List.find (\<lambda>r. pg_kv_at networkID namespace key r \<and> pg_unexpired now r) (st_kv st) of
        None \<Rightarrow> None
      | Some r \<Rightarrow> Some (kr_Value r))"

definition pg_KVDelete :: "string \<Rightarrow> string \<Rightarrow> string \<Rightarrow> RelayStore \<Rightarrow> RelayStore" where
  "pg_KVDelete networkID namespace key st =
     st\<lparr>st_kv := delete_where (pg_kv_at networkID namespace key) (st_kv st)\<rparr>"

definition pg_KVList ::
  "nanos \<Rightarrow> string \<Rightarrow> string \<Rightarrow> string \<Rightarrow> RelayStore \<Rightarrow> (string \<times> bytes \<times> nanos option) list" where
  "pg_KVList now networkID namespace pre st =
     map (\<lambda>r. (kr_Key r, kr_Value r, kr_ExpiresAt r))
       (filter (\<lambda>r. kr_NetworkID r = networkID \<and> kr_Namespace r = namespace \<and> pg_like (pre @ ''%'') (kr_Key r) \<and>
            pg_unexpired now r) (st_kv st))"

section \<open>Invites and grants\<close>

definition pg_user_exists :: "int \<Rightarrow> RelayStore \<Rightarrow> bool" where
  "pg_user_exists githubID st \<longleftrightarrow> has_key us_GitHubID githubID (st_users st)"

text \<open>\<open>created_by\<close> refers to a user of GitHub, unless it is null.\<close>

definition pg_InviteCreate :: "nanos \<Rightarrow> Invite \<Rightarrow> RelayStore \<Rightarrow> (store_error + unit) \<times> RelayStore" where
  "pg_InviteCreate now invite st =
     (let st1 = pg_NetworkEnsure now (iv_NetworkID invite) st in
      if \<not> int4 (iv_UsesRemaining invite) \<or>
         (case iv_CreatedBy invite of None \<Rightarrow> False | Some u \<Rightarrow> \<not> pg_user_exists u st1)
      then (Inl Constraint, st1)
      else (case insert_row iv_Token invite (st_invites st1) of
              None \<Rightarrow> (Inl Constraint, st1)
            | Some invites \<Rightarrow> (Inr (), st1\<lparr>st_invites := invites\<rparr>)))"

definition pg_InviteGet :: "nanos \<Rightarrow> string \<Rightarrow> RelayStore \<Rightarrow> Invite option" where
  "pg_InviteGet now token st = List.find (\<lambda>r. iv_Token r = token \<and> now < iv_ExpiresAt r) (st_invites st)"

text \<open>The two statements of a consumption: the update, which says how many rows it changed, and the sweep.\<close>

definition pg_invite_use :: "nanos \<Rightarrow> string \<Rightarrow> RelayStore \<Rightarrow> nat \<times> RelayStore" where
  "pg_invite_use now token st =
     (let p = (\<lambda>r. iv_Token r = token \<and> 0 < iv_UsesRemaining r \<and> now < iv_ExpiresAt r)
      in (length (filter p (st_invites st)),
          st\<lparr>st_invites := update_where p (\<lambda>r. r\<lparr>iv_UsesRemaining := iv_UsesRemaining r - 1\<rparr>) (st_invites st)\<rparr>))"

definition pg_invite_sweep :: "string \<Rightarrow> RelayStore \<Rightarrow> RelayStore" where
  "pg_invite_sweep token st =
     st\<lparr>st_invites := delete_where (\<lambda>r. iv_Token r = token \<and> iv_UsesRemaining r \<le> 0) (st_invites st)\<rparr>"

definition pg_InviteConsume :: "nanos \<Rightarrow> string \<Rightarrow> RelayStore \<Rightarrow> (store_error + unit) \<times> RelayStore" where
  "pg_InviteConsume now token st =
     (case pg_invite_use now token st of
        (affected, st1) \<Rightarrow>
          if affected = 0 then (Inl InviteUnavailable, st1) else (Inr (), pg_invite_sweep token st1))"

definition pg_InviteList :: "nanos \<Rightarrow> string \<Rightarrow> RelayStore \<Rightarrow> Invite list" where
  "pg_InviteList now networkID st =
     sort_key iv_CreatedAt (filter (\<lambda>r. iv_NetworkID r = networkID \<and> now < iv_ExpiresAt r) (st_invites st))"

definition pg_InviteDelete :: "string \<Rightarrow> string \<Rightarrow> RelayStore \<Rightarrow> RelayStore" where
  "pg_InviteDelete networkID token st =
     st\<lparr>st_invites := delete_where (\<lambda>r. iv_NetworkID r = networkID \<and> iv_Token r = token) (st_invites st)\<rparr>"

text \<open>The number of a session is stored in a column of 32 signed bits.\<close>

definition pg_AccessGrantCreate :: "AccessGrant \<Rightarrow> RelayStore \<Rightarrow> (store_error + unit) \<times> RelayStore" where
  "pg_AccessGrantCreate grant st =
     (case ag_SessionID grant of
        Some i \<Rightarrow> if int4 (uint i) then
            (case insert_row ag_ID grant (st_grants st) of
               None \<Rightarrow> (Inl Constraint, st) | Some grants \<Rightarrow> (Inr (), st\<lparr>st_grants := grants\<rparr>))
          else (Inl Constraint, st)
      | None \<Rightarrow>
            (case insert_row ag_ID grant (st_grants st) of
               None \<Rightarrow> (Inl Constraint, st) | Some grants \<Rightarrow> (Inr (), st\<lparr>st_grants := grants\<rparr>)))"

definition pg_AccessGrantGet :: "string \<Rightarrow> string \<Rightarrow> RelayStore \<Rightarrow> AccessGrant option" where
  "pg_AccessGrantGet networkID grantID st =
     List.find (\<lambda>r. ag_NetworkID r = networkID \<and> ag_ID r = grantID) (st_grants st)"

text \<open>The conditions of the query, in the order they are added to it.\<close>

definition pg_grant_query :: "nanos \<Rightarrow> string \<Rightarrow> AccessGrantFilter \<Rightarrow> (AccessGrant \<Rightarrow> bool) list" where
  "pg_grant_query now networkID f =
     [\<lambda>r. ag_NetworkID r = networkID] @
     (if trim_space (af_TargetNode f) \<noteq> [] then [\<lambda>r. ag_TargetNode r = trim_space (af_TargetNode f)] else []) @
     (if trim_space (af_AudienceSubjectID f) \<noteq> [] then [\<lambda>r. ag_AudienceSubjectID r = trim_space (af_AudienceSubjectID f)]
      else []) @
     (if af_ActiveOnly f then [\<lambda>r. now < ag_ExpiresAt r \<and> ag_RevokedAt r = None] else [])"

definition pg_AccessGrantList :: "nanos \<Rightarrow> string \<Rightarrow> AccessGrantFilter \<Rightarrow> RelayStore \<Rightarrow> AccessGrant list" where
  "pg_AccessGrantList now networkID f st =
     sort_key (\<lambda>r. - ag_CreatedAt r) (filter (\<lambda>r. list_all (\<lambda>p. p r) (pg_grant_query now networkID f)) (st_grants st))"

definition pg_AccessGrantRevoke :: "string \<Rightarrow> string \<Rightarrow> nanos \<Rightarrow> RelayStore \<Rightarrow> (store_error + unit) \<times> RelayStore" where
  "pg_AccessGrantRevoke networkID grantID revokedAt st =
     (let p = (\<lambda>r. ag_NetworkID r = networkID \<and> ag_ID r = grantID \<and> ag_RevokedAt r = None);
          affected = length (filter p (st_grants st))
      in if affected = 0 then (Inl GrantNotFound, st)
         else (Inr (), st\<lparr>st_grants := update_where p (\<lambda>r. r\<lparr>ag_RevokedAt := Some revokedAt\<rparr>) (st_grants st)\<rparr>))"

section \<open>Users, sessions and device flows\<close>

definition pg_UserUpsert :: "User \<Rightarrow> RelayStore \<Rightarrow> (store_error + unit) \<times> RelayStore" where
  "pg_UserUpsert user st =
     (if list_ex (\<lambda>r. us_Username r = us_Username user \<and> us_GitHubID r \<noteq> us_GitHubID user) (st_users st)
      then (Inl Constraint, st)
      else (Inr (), st\<lparr>st_users := upsert us_GitHubID
             (\<lambda>old. old\<lparr>us_Username := us_Username user, us_AvatarURL := us_AvatarURL user,
                        us_LastLoginAt := us_LastLoginAt user\<rparr>) user (st_users st)\<rparr>))"

definition pg_UserGetByID :: "int \<Rightarrow> RelayStore \<Rightarrow> User option" where
  "pg_UserGetByID githubID st = List.find (\<lambda>r. us_GitHubID r = githubID) (st_users st)"

definition pg_UserGetByUsername :: "string \<Rightarrow> RelayStore \<Rightarrow> User option" where
  "pg_UserGetByUsername username st = List.find (\<lambda>r. us_Username r = username) (st_users st)"

text \<open>A session refers to a user.\<close>

definition pg_SessionCreate :: "AuthSession \<Rightarrow> RelayStore \<Rightarrow> (store_error + unit) \<times> RelayStore" where
  "pg_SessionCreate sess st =
     (if \<not> pg_user_exists (as_GitHubID sess) st then (Inl Constraint, st)
      else (case insert_row as_Token sess (st_sessions st) of
              None \<Rightarrow> (Inl Constraint, st)
            | Some t \<Rightarrow> (Inr (), st\<lparr>st_sessions := t\<rparr>)))"

definition pg_SessionGet :: "nanos \<Rightarrow> string \<Rightarrow> RelayStore \<Rightarrow> AuthSession option" where
  "pg_SessionGet now token st = List.find (\<lambda>r. as_Token r = token \<and> now < as_ExpiresAt r) (st_sessions st)"

definition pg_SessionDelete :: "string \<Rightarrow> RelayStore \<Rightarrow> RelayStore" where
  "pg_SessionDelete token st = st\<lparr>st_sessions := delete_where (\<lambda>r. as_Token r = token) (st_sessions st)\<rparr>"

definition pg_SessionDeleteByUser :: "int \<Rightarrow> RelayStore \<Rightarrow> RelayStore" where
  "pg_SessionDeleteByUser githubID st =
     st\<lparr>st_sessions := delete_where (\<lambda>r. as_GitHubID r = githubID) (st_sessions st)\<rparr>"

definition pg_OAuthStateCreate :: "OAuthState \<Rightarrow> RelayStore \<Rightarrow> (store_error + unit) \<times> RelayStore" where
  "pg_OAuthStateCreate state st =
     (case insert_row oa_State state (st_oauthStates st) of
        None \<Rightarrow> (Inl Constraint, st)
      | Some t \<Rightarrow> (Inr (), st\<lparr>st_oauthStates := t\<rparr>))"

definition pg_OAuthStateConsume :: "nanos \<Rightarrow> string \<Rightarrow> RelayStore \<Rightarrow> (store_error + unit) \<times> RelayStore" where
  "pg_OAuthStateConsume now state st =
     (let rows = delete_where (\<lambda>r. oa_State r = state \<and> now < oa_ExpiresAt r) (st_oauthStates st);
          affected = length (st_oauthStates st) - length rows
      in if affected = 0 then (Inl OAuthStateUnavailable, st) else (Inr (), st\<lparr>st_oauthStates := rows\<rparr>))"

definition pg_OIDCUserUpsert :: "OIDCUser \<Rightarrow> RelayStore \<Rightarrow> RelayStore" where
  "pg_OIDCUserUpsert user st =
     st\<lparr>st_oidcUsers := upsert ou_Sub
       (\<lambda>old. old\<lparr>ou_Username := ou_Username user, ou_AvatarURL := ou_AvatarURL user,
                  ou_LastLoginAt := ou_LastLoginAt user\<rparr>) user (st_oidcUsers st)\<rparr>"

definition pg_OIDCUserGetBySub :: "string \<Rightarrow> RelayStore \<Rightarrow> OIDCUser option" where
  "pg_OIDCUserGetBySub sub st = List.find (\<lambda>r. ou_Sub r = sub) (st_oidcUsers st)"

definition pg_OIDCUserListByUsername :: "(string \<Rightarrow> string) \<Rightarrow> string \<Rightarrow> RelayStore \<Rightarrow> OIDCUser list" where
  "pg_OIDCUserListByUsername coll username st =
     sort_key (\<lambda>r. collated coll (ou_Sub r)) (filter (\<lambda>r. ou_Username r = username) (st_oidcUsers st))"

text \<open>A session of OIDC refers to its user.\<close>

definition pg_OIDCSessionCreate :: "OIDCSession \<Rightarrow> RelayStore \<Rightarrow> (store_error + unit) \<times> RelayStore" where
  "pg_OIDCSessionCreate sess st =
     (if \<not> has_key ou_Sub (os_Sub sess) (st_oidcUsers st) then (Inl Constraint, st)
      else (case insert_row os_Token sess (st_oidcSessions st) of
              None \<Rightarrow> (Inl Constraint, st)
            | Some t \<Rightarrow> (Inr (), st\<lparr>st_oidcSessions := t\<rparr>)))"

definition pg_OIDCSessionGet :: "nanos \<Rightarrow> string \<Rightarrow> RelayStore \<Rightarrow> OIDCSession option" where
  "pg_OIDCSessionGet now token st = List.find (\<lambda>r. os_Token r = token \<and> now < os_ExpiresAt r) (st_oidcSessions st)"

definition pg_OIDCSessionDelete :: "string \<Rightarrow> RelayStore \<Rightarrow> RelayStore" where
  "pg_OIDCSessionDelete token st =
     st\<lparr>st_oidcSessions := delete_where (\<lambda>r. os_Token r = token) (st_oidcSessions st)\<rparr>"

definition pg_OIDCDeviceFlowCreate :: "OIDCDeviceFlow \<Rightarrow> RelayStore \<Rightarrow> (store_error + unit) \<times> RelayStore" where
  "pg_OIDCDeviceFlowCreate flow st =
     (if has_key df_DeviceCode (df_DeviceCode flow) (st_deviceFlows st) then (Inl Constraint, st)
      else (case insert_row df_PollToken flow (st_deviceFlows st) of
              None \<Rightarrow> (Inl Constraint, st)
            | Some t \<Rightarrow> (Inr (), st\<lparr>st_deviceFlows := t\<rparr>)))"

definition pg_OIDCDeviceFlowGet :: "nanos \<Rightarrow> string \<Rightarrow> RelayStore \<Rightarrow> OIDCDeviceFlow option" where
  "pg_OIDCDeviceFlowGet now pollToken st =
     List.find (\<lambda>r. df_PollToken r = pollToken \<and> now < df_ExpiresAt r) (st_deviceFlows st)"

definition pg_OIDCDeviceFlowComplete ::
  "nanos \<Rightarrow> string \<Rightarrow> string \<Rightarrow> RelayStore \<Rightarrow> (store_error + unit) \<times> RelayStore" where
  "pg_OIDCDeviceFlowComplete now pollToken nodeToken st =
     (let p = (\<lambda>r. df_PollToken r = pollToken \<and> now < df_ExpiresAt r);
          affected = length (filter p (st_deviceFlows st))
      in if affected = 0 then (Inl DeviceFlowUnavailable, st)
         else (Inr (), st\<lparr>st_deviceFlows := update_where p (\<lambda>r. r\<lparr>df_NodeToken := nodeToken\<rparr>) (st_deviceFlows st)\<rparr>))"

definition pg_DeviceCodeCreate :: "DeviceCode \<Rightarrow> RelayStore \<Rightarrow> (store_error + unit) \<times> RelayStore" where
  "pg_DeviceCodeCreate dc st =
     (case insert_row dc_Code dc (st_deviceCodes st) of
        None \<Rightarrow> (Inl Constraint, st)
      | Some t \<Rightarrow> (Inr (), st\<lparr>st_deviceCodes := t\<rparr>))"

definition pg_DeviceCodeGet :: "nanos \<Rightarrow> string \<Rightarrow> RelayStore \<Rightarrow> DeviceCode option" where
  "pg_DeviceCodeGet now code st = List.find (\<lambda>r. dc_Code r = code \<and> now < dc_ExpiresAt r) (st_deviceCodes st)"

definition pg_DeviceCodeConfirm :: "nanos \<Rightarrow> string \<Rightarrow> RelayStore \<Rightarrow> (store_error + unit) \<times> RelayStore" where
  "pg_DeviceCodeConfirm now code st =
     (let p = (\<lambda>r. dc_Code r = code \<and> dc_Status r = ''pending'' \<and> now < dc_ExpiresAt r);
          affected = length (filter p (st_deviceCodes st))
      in if affected = 0 then (Inl DeviceCodeUnavailable, st)
         else (Inr (), st\<lparr>st_deviceCodes := update_where p (\<lambda>r. r\<lparr>dc_Status := ''authorized''\<rparr>) (st_deviceCodes st)\<rparr>))"

definition pg_DeviceCodeCleanup :: "nanos \<Rightarrow> RelayStore \<Rightarrow> RelayStore" where
  "pg_DeviceCodeCleanup now st = st\<lparr>st_deviceCodes := delete_where (\<lambda>r. dc_ExpiresAt r < now) (st_deviceCodes st)\<rparr>"

definition pg_RevokedKeyAdd :: "RevokedKey \<Rightarrow> RelayStore \<Rightarrow> RelayStore" where
  "pg_RevokedKeyAdd key st =
     st\<lparr>st_revokedKeys := upsert rk_PublicKey
       (\<lambda>old. old\<lparr>rk_RevokedAt := rk_RevokedAt key, rk_Reason := rk_Reason key\<rparr>) key (st_revokedKeys st)\<rparr>"

definition pg_RevokedKeyCheck :: "string \<Rightarrow> RelayStore \<Rightarrow> bool" where
  "pg_RevokedKeyCheck publicKey st \<longleftrightarrow> 0 < length (filter (\<lambda>r. rk_PublicKey r = publicKey) (st_revokedKeys st))"

definition pg_GitHubAppGet :: "RelayStore \<Rightarrow> GitHubApp option" where
  "pg_GitHubAppGet st = st_githubApp st"

text \<open>An update leaves the time of creation as it was.\<close>

definition pg_GitHubAppSet :: "GitHubApp \<Rightarrow> RelayStore \<Rightarrow> (store_error + unit) \<times> RelayStore" where
  "pg_GitHubAppSet app st =
     (if \<not> int4 (ga_AppID app) then (Inl Constraint, st)
      else (Inr (), st\<lparr>st_githubApp := Some (case st_githubApp st of
              None \<Rightarrow> app
            | Some old \<Rightarrow> old\<lparr>ga_AppID := ga_AppID app, ga_ClientID := ga_ClientID app, ga_ClientSecret := ga_ClientSecret app,
                             ga_PEM := ga_PEM app, ga_WebhookSecret := ga_WebhookSecret app, ga_Owner := ga_Owner app\<rparr>)\<rparr>))"

section \<open>The cleanup loop\<close>

text \<open>A tick deletes from eight tables, one statement each.\<close>

definition pg_cleanup :: "nanos \<Rightarrow> (RelayStore \<Rightarrow> RelayStore) list" where
  "pg_cleanup now =
     [\<lambda>st. st\<lparr>st_kv := delete_where (\<lambda>r. kr_ExpiresAt r \<noteq> None \<and> (case kr_ExpiresAt r of None \<Rightarrow> False | Some t \<Rightarrow> t < now)) (st_kv st)\<rparr>,
      \<lambda>st. st\<lparr>st_deviceCodes := delete_where (\<lambda>r. dc_ExpiresAt r < now) (st_deviceCodes st)\<rparr>,
      \<lambda>st. st\<lparr>st_sessions := delete_where (\<lambda>r. as_ExpiresAt r < now) (st_sessions st)\<rparr>,
      \<lambda>st. st\<lparr>st_oauthStates := delete_where (\<lambda>r. oa_ExpiresAt r < now) (st_oauthStates st)\<rparr>,
      \<lambda>st. st\<lparr>st_invites := delete_where (\<lambda>r. iv_ExpiresAt r < now) (st_invites st)\<rparr>,
      \<lambda>st. st\<lparr>st_grants := delete_where (\<lambda>r. ag_ExpiresAt r < now) (st_grants st)\<rparr>,
      \<lambda>st. st\<lparr>st_oidcSessions := delete_where (\<lambda>r. os_ExpiresAt r < now) (st_oidcSessions st)\<rparr>,
      \<lambda>st. st\<lparr>st_deviceFlows := delete_where (\<lambda>r. df_ExpiresAt r < now) (st_deviceFlows st)\<rparr>]"

definition pg_cleanupLoop :: "nanos \<Rightarrow> RelayStore \<Rightarrow> RelayStore" where
  "pg_cleanupLoop now st = fold (\<lambda>stmt st. stmt st) (pg_cleanup now) st"

end
