(* ===== verification/PostgresFacts.thy ===== *)
theory PostgresFacts
  imports PostgresStore RelayDemo
begin

text \<open>
  The two stores against each other: on the operations both databases can represent they give the
  same answers and the same tables. And what holds on Postgres, where the statements of concurrent
  methods interleave.
\<close>

section \<open>Calls\<close>

type_synonym reply = "store_error + NodeEnrollment option"

definition told :: "(store_error + unit) \<times> RelayStore \<Rightarrow> reply \<times> RelayStore" where
  "told a = (case a of (Inl err, st) \<Rightarrow> (Inl err, st) | (Inr u, st) \<Rightarrow> (Inr None, st))"

fun sqlite_call :: "relay_op \<Rightarrow> RelayStore \<Rightarrow> reply \<times> RelayStore" where
  "sqlite_call (ONetworkEnsure now n) st = (Inr None, NetworkEnsure now n st)"
| "sqlite_call (OMemberUpsert now m) st = (Inr None, NetworkMemberUpsert now m st)"
| "sqlite_call (OGroupCreate now g) st = told (GroupCreate now g st)"
| "sqlite_call (OGroupDelete n g) st = told (GroupDelete n g st)"
| "sqlite_call (OGroupMemberAdd m) st = told (GroupMemberAdd m st)"
| "sqlite_call (OGroupMemberRemove n g nd s) st = told (GroupMemberRemove n g nd s st)"
| "sqlite_call (OGroupPolicySet p) st = told (GroupPolicySet p st)"
| "sqlite_call (ONodeRegister now node) st = told (NodeRegister now node st)"
| "sqlite_call (ONodeDelete n name) st = (Inr None, NodeDelete n name st)"
| "sqlite_call (ONodeSeen now n name) st = (Inr None, NodeUpdateLastSeen now n name st)"
| "sqlite_call (OEnrollmentCreate now e) st = told (NodeEnrollmentCreate now e st)"
| "sqlite_call (OEnrollmentConsume h now) st = (case NodeEnrollmentConsume h now st of (e, st') \<Rightarrow> (Inr e, st'))"
| "sqlite_call (OKVSet now n ns k v ttl) st = (Inr None, KVSet now n ns k v ttl st)"
| "sqlite_call (OKVDelete n ns k) st = (Inr None, KVDelete n ns k st)"
| "sqlite_call (OInviteCreate now iv) st = told (InviteCreate now iv st)"
| "sqlite_call (OInviteConsume now t) st = told (InviteConsume now t st)"
| "sqlite_call (OInviteDelete n t) st = (Inr None, InviteDelete n t st)"
| "sqlite_call (OGrantCreate g) st = told (AccessGrantCreate g st)"
| "sqlite_call (OGrantRevoke n i t) st = told (AccessGrantRevoke n i t st)"
| "sqlite_call (OUserUpsert u) st = told (UserUpsert u st)"
| "sqlite_call (OSessionCreate s) st = told (SessionCreate s st)"
| "sqlite_call (OStateCreate s) st = told (OAuthStateCreate s st)"
| "sqlite_call (OStateConsume now s) st = told (OAuthStateConsume now s st)"
| "sqlite_call (OOIDCUserUpsert u) st = (Inr None, OIDCUserUpsert u st)"
| "sqlite_call (OOIDCSessionCreate s) st = told (OIDCSessionCreate s st)"
| "sqlite_call (OFlowCreate f) st = told (OIDCDeviceFlowCreate f st)"
| "sqlite_call (OFlowComplete now p t) st = told (OIDCDeviceFlowComplete now p t st)"
| "sqlite_call (OGitHubAppSet a) st = (Inr None, GitHubAppSet a st)"
| "sqlite_call (OCleanup now) st = (Inr None, cleanupLoop now st)"

fun pg_call :: "relay_op \<Rightarrow> RelayStore \<Rightarrow> reply \<times> RelayStore" where
  "pg_call (ONetworkEnsure now n) st = (Inr None, pg_NetworkEnsure now n st)"
| "pg_call (OMemberUpsert now m) st = (Inr None, pg_NetworkMemberUpsert now m st)"
| "pg_call (OGroupCreate now g) st = told (pg_GroupCreate now g st)"
| "pg_call (OGroupDelete n g) st = told (pg_GroupDelete n g st)"
| "pg_call (OGroupMemberAdd m) st = told (pg_GroupMemberAdd m st)"
| "pg_call (OGroupMemberRemove n g nd s) st = told (pg_GroupMemberRemove n g nd s st)"
| "pg_call (OGroupPolicySet p) st = told (pg_GroupPolicySet p st)"
| "pg_call (ONodeRegister now node) st = told (pg_NodeRegister now node st)"
| "pg_call (ONodeDelete n name) st = (Inr None, pg_NodeDelete n name st)"
| "pg_call (ONodeSeen now n name) st = (Inr None, pg_NodeUpdateLastSeen now n name st)"
| "pg_call (OEnrollmentCreate now e) st = told (pg_NodeEnrollmentCreate now e st)"
| "pg_call (OEnrollmentConsume h now) st = (case pg_NodeEnrollmentConsume h now st of (e, st') \<Rightarrow> (Inr e, st'))"
| "pg_call (OKVSet now n ns k v ttl) st = (Inr None, pg_KVSet now n ns k v ttl st)"
| "pg_call (OKVDelete n ns k) st = (Inr None, pg_KVDelete n ns k st)"
| "pg_call (OInviteCreate now iv) st = told (pg_InviteCreate now iv st)"
| "pg_call (OInviteConsume now t) st = told (pg_InviteConsume now t st)"
| "pg_call (OInviteDelete n t) st = (Inr None, pg_InviteDelete n t st)"
| "pg_call (OGrantCreate g) st = told (pg_AccessGrantCreate g st)"
| "pg_call (OGrantRevoke n i t) st = told (pg_AccessGrantRevoke n i t st)"
| "pg_call (OUserUpsert u) st = told (pg_UserUpsert u st)"
| "pg_call (OSessionCreate s) st = told (pg_SessionCreate s st)"
| "pg_call (OStateCreate s) st = told (pg_OAuthStateCreate s st)"
| "pg_call (OStateConsume now s) st = told (pg_OAuthStateConsume now s st)"
| "pg_call (OOIDCUserUpsert u) st = (Inr None, pg_OIDCUserUpsert u st)"
| "pg_call (OOIDCSessionCreate s) st = told (pg_OIDCSessionCreate s st)"
| "pg_call (OFlowCreate f) st = told (pg_OIDCDeviceFlowCreate f st)"
| "pg_call (OFlowComplete now p t) st = told (pg_OIDCDeviceFlowComplete now p t st)"
| "pg_call (OGitHubAppSet a) st = told (pg_GitHubAppSet a st)"
| "pg_call (OCleanup now) st = (Inr None, pg_cleanupLoop now st)"

fun call_all :: "(relay_op \<Rightarrow> RelayStore \<Rightarrow> reply \<times> RelayStore) \<Rightarrow> relay_op list \<Rightarrow> RelayStore \<Rightarrow> reply list \<times> RelayStore" where
  "call_all call [] st = ([], st)"
| "call_all call (op # ops) st =
     (case call op st of (reply, st1) \<Rightarrow> (case call_all call ops st1 of (replies, st2) \<Rightarrow> (reply # replies, st2)))"

lemma snd_told [simp]: "snd (told a) = snd a"
  by (auto simp: told_def split: prod.splits sum.splits)

lemma sqlite_call_do: "snd (sqlite_call op st) = store_do op st"
  by (cases op) (simp_all split: prod.splits)

text \<open>
  An operation both databases can represent: integers in range, references to rows that are there, a
  token for a node, and an enrollment that has not expired when it is consumed.
\<close>

fun fits :: "relay_op \<Rightarrow> RelayStore \<Rightarrow> bool" where
  "fits (ONodeRegister now node) st \<longleftrightarrow> nr_Token node \<noteq> []"
| "fits (OEnrollmentCreate now e) st \<longleftrightarrow> int4 (ne_UsesRemaining e)"
| "fits (OEnrollmentConsume h now) st \<longleftrightarrow>
     (case NodeEnrollmentGetByTokenHash h st of None \<Rightarrow> True | Some e \<Rightarrow> now < ne_ExpiresAt e)"
| "fits (OInviteCreate now iv) st \<longleftrightarrow>
     int4 (iv_UsesRemaining iv) \<and> (case iv_CreatedBy iv of None \<Rightarrow> True | Some u \<Rightarrow> UserGetByID u st \<noteq> None)"
| "fits (OGrantCreate g) st \<longleftrightarrow> (case ag_SessionID g of None \<Rightarrow> True | Some i \<Rightarrow> int4 (uint i))"
| "fits (OSessionCreate s) st \<longleftrightarrow> UserGetByID (as_GitHubID s) st \<noteq> None"
| "fits (OOIDCSessionCreate s) st \<longleftrightarrow> OIDCUserGetBySub (os_Sub s) st \<noteq> None"
| "fits (OGitHubAppSet a) st \<longleftrightarrow> int4 (ga_AppID a)"
| "fits op st \<longleftrightarrow> True"

fun all_fit :: "relay_op list \<Rightarrow> RelayStore \<Rightarrow> bool" where
  "all_fit [] st \<longleftrightarrow> True"
| "all_fit (op # ops) st \<longleftrightarrow> fits op st \<and> all_fit ops (store_do op st)"

section \<open>The same answers\<close>

named_theorems same_store

lemma affected_none: "filter p t = [] \<longleftrightarrow> \<not> list_ex p t"
  by (simp add: filter_empty_conv list_ex_iff)

lemma affected_delete: "length t \<le> length (delete_where p t) \<longleftrightarrow> \<not> list_ex p t"
proof -
  have "length (delete_where p t) + length (filter p t) = length t"
    using sum_length_filter_compl [of p t] by (simp add: delete_where_def)
  then have "length t \<le> length (delete_where p t) \<longleftrightarrow> length (filter p t) = 0" by linarith
  then show ?thesis by (simp add: affected_none)
qed

lemma delete_none: "\<not> list_ex p t \<Longrightarrow> delete_where p t = t"
  by (auto simp: delete_where_def list_ex_iff filter_id_conv)

lemma update_none: "\<not> list_ex p t \<Longrightarrow> update_where p f t = t"
  by (auto simp: update_where_def list_ex_iff intro: map_idI)

lemma same_ensure [same_store]: "pg_NetworkEnsure = NetworkEnsure"
  by (simp add: fun_eq_iff pg_NetworkEnsure_def NetworkEnsure_def)

lemma same_member [same_store]: "pg_NetworkMemberUpsert = NetworkMemberUpsert"
  by (simp add: fun_eq_iff pg_NetworkMemberUpsert_def NetworkMemberUpsert_def same_ensure)

lemma same_group_create [same_store]: "pg_GroupCreate = GroupCreate"
proof -
  have "length (insert_or_ignore group_key g t) - length t = 0 \<longleftrightarrow> has_key group_key (group_key g) t" for g t
    by (simp add: insert_or_ignore_def)
  then show ?thesis
    by (simp add: fun_eq_iff pg_GroupCreate_def GroupCreate_def same_ensure default_policy_def insert_row_def
        insert_or_ignore_def Let_def)
qed

lemma same_group_delete [same_store]: "pg_GroupDelete = GroupDelete"
  by (simp add: fun_eq_iff pg_GroupDelete_def GroupDelete_def Let_def affected_delete affected_none has_key_def group_key_def
      policy_key_def)

lemma group_exists: "pg_group_exists n g st \<longleftrightarrow> has_key group_key (n, g) (st_groups st)"
  by (simp add: pg_group_exists_def affected_none has_key_def group_key_def)

lemma same_group_member [same_store]: "pg_GroupMemberAdd = GroupMemberAdd"
  by (simp add: fun_eq_iff pg_GroupMemberAdd_def GroupMemberAdd_def group_exists pg_group_member_insert_def)

lemma same_group_member_remove [same_store]: "pg_GroupMemberRemove = GroupMemberRemove"
  by (simp add: fun_eq_iff pg_GroupMemberRemove_def GroupMemberRemove_def Let_def affected_delete affected_none has_key_def
      group_member_key_def)

lemma same_group_policy [same_store]: "pg_GroupPolicySet = GroupPolicySet"
  by (simp add: fun_eq_iff pg_GroupPolicySet_def GroupPolicySet_def group_exists pg_policy_upsert_def)

lemma same_node_delete [same_store]: "pg_NodeDelete = NodeDelete" "pg_NodeUpdateLastSeen = NodeUpdateLastSeen"
  by (simp_all add: fun_eq_iff pg_NodeDelete_def NodeDelete_def pg_NodeUpdateLastSeen_def NodeUpdateLastSeen_def node_key_def)

lemma same_kv [same_store]: "pg_KVSet = KVSet" "pg_KVDelete = KVDelete"
proof -
  have "(\<lambda>r. kv_key r = (n, ns, k)) = pg_kv_at n ns k" for n ns k by (auto simp: fun_eq_iff kv_key_def pg_kv_at_def)
  then show "pg_KVDelete = KVDelete" by (simp add: fun_eq_iff pg_KVDelete_def KVDelete_def)
qed (simp add: fun_eq_iff pg_KVSet_def KVSet_def Let_def map_option_case)

lemma same_invites [same_store]: "pg_InviteDelete = InviteDelete" "pg_InviteConsume = InviteConsume"
  by (simp_all add: fun_eq_iff pg_InviteDelete_def InviteDelete_def pg_InviteConsume_def pg_invite_use_def pg_invite_sweep_def
      InviteConsume_def Let_def affected_none update_none)

lemma same_revoke [same_store]: "pg_AccessGrantRevoke = AccessGrantRevoke"
  by (simp add: fun_eq_iff pg_AccessGrantRevoke_def AccessGrantRevoke_def Let_def affected_none)

lemma same_users [same_store]: "pg_UserUpsert = UserUpsert" "pg_OIDCUserUpsert = OIDCUserUpsert"
  by (simp_all add: fun_eq_iff pg_UserUpsert_def UserUpsert_def pg_OIDCUserUpsert_def OIDCUserUpsert_def)

lemma same_states [same_store]: "pg_OAuthStateCreate = OAuthStateCreate" "pg_OAuthStateConsume = OAuthStateConsume"
  by (simp_all add: fun_eq_iff pg_OAuthStateCreate_def OAuthStateCreate_def pg_OAuthStateConsume_def OAuthStateConsume_def
      Let_def affected_delete affected_none)

lemma same_flows [same_store]:
  "pg_OIDCDeviceFlowCreate = OIDCDeviceFlowCreate" "pg_OIDCDeviceFlowComplete = OIDCDeviceFlowComplete"
  by (auto simp: fun_eq_iff pg_OIDCDeviceFlowCreate_def OIDCDeviceFlowCreate_def pg_OIDCDeviceFlowComplete_def
      OIDCDeviceFlowComplete_def Let_def affected_none insert_row_def has_key_def list_ex_iff)

lemma expired_at: "(\<exists>y. x = Some y) \<and> (case x of None \<Rightarrow> False | Some t \<Rightarrow> t < now) \<longleftrightarrow> (case x of None \<Rightarrow> False | Some t \<Rightarrow> t < (now :: nanos))"
  by (cases x) simp_all

lemma same_cleanup [same_store]: "pg_cleanupLoop = cleanupLoop"
  by (simp add: fun_eq_iff pg_cleanupLoop_def cleanupLoop_def pg_cleanup_def expired_at)

lemma find_only:
  assumes "x \<in> set t" "p x" "\<And>y. y \<in> set t \<Longrightarrow> p y \<Longrightarrow> y = x"
  shows "List.find p t = Some x"
proof (cases "List.find p t")
  case None
  then show ?thesis using assms(1,2) unfolding find_None_iff by blast
next
  case (Some y)
  then have "y \<in> set t" "p y" unfolding find_Some_iff by (auto simp only: nth_mem)
  then show ?thesis using Some assms(3) by metis
qed

lemma same_enrollment:
  assumes "keyed ne_TokenHash (st_enrollments st)" "fits (OEnrollmentConsume h now) st"
  shows "pg_NodeEnrollmentConsume h now st = NodeEnrollmentConsume h now st"
proof (cases "NodeEnrollmentGetByTokenHash h st")
  case None
  then have "\<not> list_ex (\<lambda>r. ne_TokenHash r = h) (st_enrollments st)"
    by (simp add: NodeEnrollmentGetByTokenHash_def find_None_iff list_ex_iff)
  then have "\<not> list_ex (\<lambda>r. ne_TokenHash r = h \<and> 0 < ne_UsesRemaining r \<and> now < ne_ExpiresAt r) (st_enrollments st)"
    by (auto simp: list_ex_iff)
  then show ?thesis using None
    by (auto simp: pg_NodeEnrollmentConsume_def NodeEnrollmentConsume_def Let_def update_none list_ex_iff find_None_iff)
next
  case (Some e)
  then have e: "e \<in> set (st_enrollments st)" "ne_TokenHash e = h"
    using find_keyed [OF assms(1)] by (auto simp: NodeEnrollmentGetByTokenHash_def)
  have only: "x = e" if "x \<in> set (st_enrollments st)" "ne_TokenHash x = h" for x
    using assms(1) e that by (auto simp: keyed_def distinct_map inj_on_def)
  let ?p = "\<lambda>r. ne_TokenHash r = h \<and> 0 < ne_UsesRemaining r \<and> now < ne_ExpiresAt r"
  have live: "now < ne_ExpiresAt e" using assms(2) Some by simp
  show ?thesis
  proof (cases "0 < ne_UsesRemaining e")
    case True
    have "List.find ?p (st_enrollments st) = Some e"
    proof (rule find_only [OF e(1)])
      show "?p e" using e(2) True live by simp
    qed (use only in blast)
    moreover have same: "(if ?p x then pg_enrollment_used now x else x) =
        (if ne_TokenHash x = h
         then x\<lparr>ne_UsesRemaining := ne_UsesRemaining e - 1,
                ne_RedeemedAt := if ne_UsesRemaining e - 1 = 0 then Some now else ne_RedeemedAt e\<rparr> else x)"
      if "x \<in> set (st_enrollments st)" for x
    proof (cases "ne_TokenHash x = h")
      case t: True
      then have "x = e" by (rule only [OF that])
      then show ?thesis using e(2) True live by (simp add: pg_enrollment_used_def)
    qed simp
    moreover have "update_where ?p (pg_enrollment_used now) (st_enrollments st) =
        update_where (\<lambda>r. ne_TokenHash r = h)
          (\<lambda>r. r\<lparr>ne_UsesRemaining := ne_UsesRemaining e - 1,
                 ne_RedeemedAt := if ne_UsesRemaining e - 1 = 0 then Some now else ne_RedeemedAt e\<rparr>) (st_enrollments st)"
      unfolding update_where_def by (rule map_cong [OF refl]) (use same in simp)
    ultimately show ?thesis using True Some
      by (simp add: pg_NodeEnrollmentConsume_def NodeEnrollmentConsume_def Let_def pg_enrollment_used_def)
  next
    case False
    then have "\<not> list_ex ?p (st_enrollments st)" using only by (auto simp: list_ex_iff)
    then show ?thesis using False Some
      by (auto simp: pg_NodeEnrollmentConsume_def NodeEnrollmentConsume_def Let_def update_none list_ex_iff find_None_iff)
  qed
qed

lemma user_known: "pg_user_exists u st \<longleftrightarrow> UserGetByID u st \<noteq> None"
  by (auto simp: pg_user_exists_def UserGetByID_def has_key_def find_None_iff list_ex_iff)

lemma call_same:
  assumes "store_ok st" "fits op st"
  shows "pg_call op st = sqlite_call op st"
proof (cases op)
  case (OEnrollmentConsume h now)
  then show ?thesis using assms same_enrollment [of st h now] by (simp add: store_ok_def)
next
  case (ONodeRegister now node)
  then show ?thesis using assms(2) by (simp add: pg_NodeRegister_def NodeRegister_def same_ensure)
next
  case (OEnrollmentCreate now e)
  then show ?thesis using assms(2) by (simp add: pg_NodeEnrollmentCreate_def NodeEnrollmentCreate_def same_ensure)
next
  case (OInviteCreate now iv)
  then show ?thesis using assms(2)
    by (auto simp: pg_InviteCreate_def InviteCreate_def same_ensure user_known Let_def UserGetByID_def NetworkEnsure_def
        split: option.splits)
next
  case (OGrantCreate g)
  then show ?thesis using assms(2) by (auto simp: pg_AccessGrantCreate_def AccessGrantCreate_def split: option.splits)
next
  case (OSessionCreate s)
  then show ?thesis using assms(2) by (simp add: pg_SessionCreate_def SessionCreate_def user_known)
next
  case (OOIDCSessionCreate s)
  then have "has_key ou_Sub (os_Sub s) (st_oidcUsers st)"
    using assms(2) by (auto simp: OIDCUserGetBySub_def has_key_def find_None_iff list_ex_iff)
  then show ?thesis using OOIDCSessionCreate by (simp add: pg_OIDCSessionCreate_def OIDCSessionCreate_def)
next
  case (OGitHubAppSet a)
  then show ?thesis using assms(2)
    by (auto simp: pg_GitHubAppSet_def GitHubAppSet_def told_def split: option.splits)
qed (simp_all add: same_store)

lemma all_fit_same:
  "store_ok st \<Longrightarrow> all_fit ops st \<Longrightarrow> call_all pg_call ops st = call_all sqlite_call ops st"
proof (induction ops arbitrary: st)
  case (Cons op ops)
  obtain reply where call: "sqlite_call op st = (reply, store_do op st)"
    using sqlite_call_do [of op st] by (metis prod.collapse)
  moreover have "pg_call op st = sqlite_call op st" using Cons.prems by (intro call_same) simp_all
  moreover have "call_all pg_call ops (store_do op st) = call_all sqlite_call ops (store_do op st)"
    using Cons.prems by (intro Cons.IH store_ok_do) simp_all
  ultimately show ?case by simp
qed simp

section \<open>The same rows\<close>

lemma sort_key_order:
  fixes k :: "'a \<Rightarrow> 'b :: linorder" and f :: "'a \<Rightarrow> 'c :: linorder"
  assumes "\<And>x y. k x \<le> k y \<longleftrightarrow> f x \<le> f y"
  shows "sort_key k xs = sort_key f xs"
proof -
  have "insort_key k x ys = insort_key f x ys" for x ys by (induction ys) (simp_all add: assms)
  then show ?thesis by (induction xs) simp_all
qed

lemma sort_key_map: "sort_key k (map g xs) = map g (sort_key (\<lambda>x. k (g x)) xs)"
proof -
  have "insort_key k (g x) (map g ys) = map g (insort_key (\<lambda>x. k (g x)) x ys)" for x ys by (induction ys) simp_all
  then show ?thesis by (induction xs) simp_all
qed

lemma collated_bytes [simp]: "collated (\<lambda>s. s) x \<le> collated (\<lambda>s. s) y \<longleftrightarrow> x \<le> y"
  by (auto simp: collated_def)

lemma collated_pair [simp]:
  "(collated (\<lambda>s. s) a, collated (\<lambda>s. s) b) \<le> (collated (\<lambda>s. s) c, collated (\<lambda>s. s) d) \<longleftrightarrow> (a, b) \<le> (c, d)"
  by (auto simp: collated_def less_le_not_le)

lemma group_count_length: "(case group_count f rows n of None \<Rightarrow> 0 | Some c \<Rightarrow> c) = length (filter (\<lambda>r. f r = n) rows)"
  by (simp add: group_count_def split: list.splits)

lemma network_same: "pg_network = network_counts"
  by (simp add: fun_eq_iff pg_network_def network_counts_def group_count_length conj_commute)

lemma filter_keyed:
  assumes "keyed key t"
  shows "filter (\<lambda>r. key r = k) t = (case List.find (\<lambda>r. key r = k) t of None \<Rightarrow> [] | Some r \<Rightarrow> [r])"
proof (cases "List.find (\<lambda>r. key r = k) t")
  case (Some r)
  then have "r \<in> set t" "key r = k" using find_keyed [OF assms] by auto
  then show ?thesis using keyed_filter_single [OF assms, of r] Some by simp
next
  case None
  then have "filter (\<lambda>r. key r = k) t = []" by (auto simp: find_None_iff filter_empty_conv)
  then show ?thesis using None by simp
qed

lemma join_same:
  assumes "keyed member_key members"
  shows "concat (map (\<lambda>n. map (\<lambda>m. n) (filter (\<lambda>m. nm_NetworkID m = nw_ID n \<and> nm_Subject m = u) members)) rows) =
    filter (\<lambda>n. has_key member_key (nw_ID n, u) members) rows"
proof -
  have row: "map (\<lambda>m. n) (filter (\<lambda>m. nm_NetworkID m = nw_ID n \<and> nm_Subject m = u) members) =
      (if has_key member_key (nw_ID n, u) members then [n] else [])" for n
  proof (cases "List.find (\<lambda>m. member_key m = (nw_ID n, u)) members")
    case None
    then have "\<not> has_key member_key (nw_ID n, u) members" by (simp add: find_None_iff_key)
    then show ?thesis using None filter_keyed [OF assms, of "(nw_ID n, u)"] by (simp add: member_key_def)
  next
    case (Some m)
    then have "has_key member_key (nw_ID n, u) members" by (metis find_None_iff_key option.distinct(1))
    then show ?thesis using Some filter_keyed [OF assms, of "(nw_ID n, u)"] by (simp add: member_key_def)
  qed
  show ?thesis unfolding row by (induction rows) simp_all
qed

lemma bindings_same:
  assumes "keyed policy_key (st_policies st)"
  shows "pg_GroupBindingsForSession (\<lambda>s. s) n nd s st = GroupBindingsForSession n nd s st"
proof -
  let ?b = "\<lambda>m. pg_binding m (GroupPolicyGet (gm_NetworkID m) (gm_GroupName m) st)"
  have "pg_policies_of st m = [GroupPolicyGet (gm_NetworkID m) (gm_GroupName m) st]" for m
    using filter_keyed [OF assms, of "(gm_NetworkID m, gm_GroupName m)"]
    by (simp add: pg_policies_of_def GroupPolicyGet_def policy_key_def split: option.splits)
  then have "pg_GroupBindingsForSession (\<lambda>s. s) n nd s st = sort_key (\<lambda>b. collated (\<lambda>s. s) (gb_GroupName b))
      (map ?b (filter (\<lambda>m. gm_NetworkID m = n \<and> gm_NodeName m = nd \<and> gm_SessionName m = s) (st_groupMembers st)))"
    by (simp add: pg_GroupBindingsForSession_def)
  also have "\<dots> = map ?b (sort_key gm_GroupName
      (filter (\<lambda>m. gm_NetworkID m = n \<and> gm_NodeName m = nd \<and> gm_SessionName m = s) (st_groupMembers st)))"
    unfolding sort_key_map by (rule arg_cong [where f = "map ?b"], rule sort_key_order) (simp add: pg_binding_def)
  also have "\<dots> = GroupBindingsForSession n nd s st"
    by (auto simp: GroupBindingsForSession_def pg_binding_def split: option.splits)
  finally show ?thesis .
qed

lemma unexpired_live: "pg_unexpired = live"
  by (auto simp: fun_eq_iff pg_unexpired_def live_def split: option.splits)

lemma kv_get_same: "pg_KVGet = KVGet"
proof -
  have "(\<lambda>r. kv_key r = (n, ns, k) \<and> live now r) = (\<lambda>r. pg_kv_at n ns k r \<and> live now r)" for n ns k now
    by (auto simp: fun_eq_iff kv_key_def pg_kv_at_def)
  then show ?thesis by (simp add: fun_eq_iff pg_KVGet_def KVGet_def unexpired_live split: option.splits)
qed

lemma grant_list_same: "pg_AccessGrantList = AccessGrantList"
  by (simp add: fun_eq_iff pg_AccessGrantList_def AccessGrantList_def pg_grant_query_def conj_assoc)

section \<open>Prefixes of keys\<close>

definition plain_prefix :: "string \<Rightarrow> bool" where
  "plain_prefix p \<longleftrightarrow> set p \<inter> {CHR ''%'', CHR ''_'', CHR 0x5C} = {}"

lemma pg_like_percent: "pg_like ''%'' s"
  by (induction s) simp_all

lemma pg_like_prefix: "plain_prefix p \<Longrightarrow> pg_like (p @ ''%'') s \<longleftrightarrow> prefix p s"
proof (induction p arbitrary: s)
  case Nil
  then show ?case using pg_like_percent [of s] by simp
next
  case (Cons c p)
  then show ?case by (cases s) (auto simp: plain_prefix_def)
qed

end
