(* ===== verification/PostgresProperties.thy ===== *)
theory PostgresProperties
  imports PostgresFacts
begin

text \<open>
  The properties of the store of a hosted relay: it agrees with the embedded one, and invitations and
  enrollments are used no more often than they may be, although nothing serialises its methods.
\<close>

section \<open>Interleaved statements\<close>

text \<open>
  What the database sees: statements of concurrent methods in any order. \<open>Whole\<close> is a method whose
  writes are one statement or one transaction, after the \<open>INSERT\<close> of its network, which may also come
  by itself and changes nothing the second time. The checks that precede an \<open>INSERT\<close> are reads.
\<close>

datatype pg_step =
    Whole relay_op
  | InviteUse nanos string
  | InviteSweep string
  | NetworkInsert nanos string
  | MemberInsert GroupMember
  | PolicyUpsert GroupPolicy
  | CleanupStatement nanos nat

fun pg_step_do :: "pg_step \<Rightarrow> RelayStore \<Rightarrow> RelayStore" where
  "pg_step_do (Whole op) st = snd (pg_call op st)"
| "pg_step_do (InviteUse now t) st = snd (pg_invite_use now t st)"
| "pg_step_do (InviteSweep t) st = pg_invite_sweep t st"
| "pg_step_do (NetworkInsert now n) st = pg_NetworkEnsure now n st"
| "pg_step_do (MemberInsert m) st = pg_group_member_insert m st"
| "pg_step_do (PolicyUpsert p) st = pg_policy_upsert p st"
| "pg_step_do (CleanupStatement now i) st = (if i < length (pg_cleanup now) then (pg_cleanup now ! i) st else st)"

text \<open>The uses that succeed: an invitation is used when its update changed a row.\<close>

fun pg_invites_used :: "string \<Rightarrow> pg_step \<Rightarrow> RelayStore \<Rightarrow> nat" where
  "pg_invites_used t (Whole (OInviteConsume now t')) st =
     (if t' = t \<and> fst (pg_InviteConsume now t' st) = Inr () then 1 else 0)"
| "pg_invites_used t (InviteUse now t') st = (if t' = t \<and> fst (pg_invite_use now t' st) \<noteq> 0 then 1 else 0)"
| "pg_invites_used t s st = 0"

fun pg_enrollments_used :: "string \<Rightarrow> pg_step \<Rightarrow> RelayStore \<Rightarrow> nat" where
  "pg_enrollments_used h (Whole (OEnrollmentConsume h' now)) st =
     (if h' = h \<and> fst (pg_NodeEnrollmentConsume h' now st) \<noteq> None then 1 else 0)"
| "pg_enrollments_used h s st = 0"

fun pg_creates_invite :: "string \<Rightarrow> pg_step \<Rightarrow> bool" where
  "pg_creates_invite t (Whole op) = creates_invite t op"
| "pg_creates_invite t s = False"

fun pg_creates_enrollment :: "string \<Rightarrow> pg_step \<Rightarrow> bool" where
  "pg_creates_enrollment h (Whole op) = creates_enrollment h op"
| "pg_creates_enrollment h s = False"

definition enrollment_uses_left :: "string \<Rightarrow> RelayStore \<Rightarrow> nat" where
  "enrollment_uses_left h st = (\<Sum>r\<leftarrow>filter (\<lambda>r. ne_TokenHash r = h) (st_enrollments st). nat (ne_UsesRemaining r))"

section \<open>Which statements touch the tokens\<close>

lemma pg_invites_frame:
  "\<not> is_OInviteCreate op \<Longrightarrow> \<not> is_OInviteConsume op \<Longrightarrow> \<not> is_OInviteDelete op \<Longrightarrow> \<not> is_OCleanup op \<Longrightarrow>
   st_invites (snd (pg_call op st)) = st_invites st"
  by (cases op) (simp_all add: same_store store_defs pg_NodeRegister_def pg_NodeEnrollmentCreate_def pg_NodeEnrollmentConsume_def
      pg_AccessGrantCreate_def pg_SessionCreate_def pg_OIDCSessionCreate_def pg_GitHubAppSet_def split: option.splits prod.splits)

lemma pg_enrollments_frame:
  "\<not> is_OEnrollmentCreate op \<Longrightarrow> \<not> is_OEnrollmentConsume op \<Longrightarrow>
   st_enrollments (snd (pg_call op st)) = st_enrollments st"
  by (cases op) (simp_all add: same_store store_defs pg_NodeRegister_def pg_InviteCreate_def
      pg_AccessGrantCreate_def pg_SessionCreate_def pg_OIDCSessionCreate_def pg_GitHubAppSet_def split: option.splits prod.splits)

lemma cleanup_statement:
  assumes "i < length (pg_cleanup now)"
  shows "st_enrollments ((pg_cleanup now ! i) st) = st_enrollments st"
    and "\<exists>p. st_invites ((pg_cleanup now ! i) st) = delete_where p (st_invites st)"
proof -
  have none: "st_invites st = delete_where (\<lambda>r. False) (st_invites st)" by (simp add: delete_where_def)
  have "pg_cleanup now ! i \<in> set (pg_cleanup now)" using assms by simp
  then show "st_enrollments ((pg_cleanup now ! i) st) = st_enrollments st"
    "\<exists>p. st_invites ((pg_cleanup now ! i) st) = delete_where p (st_invites st)"
    using none by (auto simp: pg_cleanup_def)
qed

lemma invite_use_left: "invite_left t (snd (pg_invite_use now t' st)) +
   (if t' = t \<and> fst (pg_invite_use now t' st) \<noteq> 0 then 1 else 0) \<le> invite_left t st"
proof -
  let ?p = "\<lambda>r. iv_Token r = t' \<and> 0 < iv_UsesRemaining r \<and> now < iv_ExpiresAt r"
  have "(\<Sum>r\<leftarrow>filter (\<lambda>r. iv_Token r = t)
        (update_where ?p (\<lambda>r. r\<lparr>iv_UsesRemaining := iv_UsesRemaining r - 1\<rparr>) (st_invites st)). nat (iv_UsesRemaining r)) +
      (if list_ex (\<lambda>r. ?p r \<and> iv_Token r = t) (st_invites st) then 1 else 0) \<le> invite_left t st"
    unfolding invite_left_def by (rule sum_uses_consume) simp
  moreover have "t' = t \<and> fst (pg_invite_use now t' st) \<noteq> 0 \<Longrightarrow> list_ex (\<lambda>r. ?p r \<and> iv_Token r = t) (st_invites st)"
    by (auto simp: pg_invite_use_def Let_def affected_none list_ex_iff)
  ultimately show ?thesis by (auto simp: invite_left_def pg_invite_use_def Let_def split: if_splits)
qed

lemma sweep_left: "invite_left t (pg_invite_sweep t' st) \<le> invite_left t st"
  by (simp add: invite_left_def pg_invite_sweep_def sum_filter_delete)

lemma pg_invite_left_do:
  assumes "\<not> pg_creates_invite t s"
  shows "invite_left t (pg_step_do s st) + pg_invites_used t s st \<le> invite_left t st"
proof (cases s)
  case (Whole op)
  show ?thesis
  proof (cases op)
    case (OInviteCreate now iv)
    then show ?thesis using assms Whole
      by (simp add: invite_left_def pg_InviteCreate_def insert_row_def pg_NetworkEnsure_def Let_def split: option.splits if_splits)
  next
    case (OInviteConsume now t')
    show ?thesis
      using invite_use_left [of t now t' st] sweep_left [of t t' "snd (pg_invite_use now t' st)"] Whole OInviteConsume
      by (auto simp: pg_InviteConsume_def split: prod.splits if_splits)
  next
    case (OInviteDelete n t')
    then show ?thesis using Whole by (simp add: invite_left_def pg_InviteDelete_def sum_filter_delete)
  next
    case (OCleanup now)
    then show ?thesis using Whole by (simp add: same_cleanup invite_left_def cleanupLoop_def sum_filter_delete)
  qed (use Whole in \<open>simp_all add: invite_left_def pg_invites_frame del: pg_call.simps\<close>)
next
  case (InviteUse now t')
  then show ?thesis using invite_use_left [of t now t' st] by simp
next
  case (InviteSweep t')
  then show ?thesis using sweep_left by simp
next
  case (CleanupStatement now i)
  show ?thesis
  proof (cases "i < length (pg_cleanup now)")
    case True
    then obtain p where "st_invites ((pg_cleanup now ! i) st) = delete_where p (st_invites st)"
      using cleanup_statement(2) by blast
    then show ?thesis using True CleanupStatement by (simp add: invite_left_def sum_filter_delete)
  qed (simp add: CleanupStatement)
qed (simp_all add: invite_left_def pg_NetworkEnsure_def pg_group_member_insert_def pg_policy_upsert_def)

lemma enrollment_use_left: "enrollment_uses_left h (snd (pg_NodeEnrollmentConsume h' now st)) +
   (if h' = h \<and> fst (pg_NodeEnrollmentConsume h' now st) \<noteq> None then 1 else 0) \<le> enrollment_uses_left h st"
proof -
  let ?p = "\<lambda>r. ne_TokenHash r = h' \<and> 0 < ne_UsesRemaining r \<and> now < ne_ExpiresAt r"
  have "(\<Sum>r\<leftarrow>filter (\<lambda>r. ne_TokenHash r = h) (update_where ?p (pg_enrollment_used now) rs). nat (ne_UsesRemaining r)) +
      (if h' = h \<and> list_ex ?p rs then 1 else 0) \<le> (\<Sum>r\<leftarrow>filter (\<lambda>r. ne_TokenHash r = h) rs. nat (ne_UsesRemaining r))" for rs
  proof (induction rs)
    case (Cons r rs)
    let ?f = "\<lambda>rs. \<Sum>r\<leftarrow>filter (\<lambda>r. ne_TokenHash r = h) rs. nat (ne_UsesRemaining r)"
    let ?new = "update_where ?p (pg_enrollment_used now) rs"
    have cons: "?f (r' # rs') = (if ne_TokenHash r' = h then nat (ne_UsesRemaining r') else 0) + ?f rs'" for r' rs'
      by simp
    have rest: "?f ?new + (if h' = h \<and> list_ex ?p rs then 1 else 0) \<le> ?f rs" by (rule Cons.IH)
    show ?case
    proof (cases "?p r")
      case True
      then have upd: "update_where ?p (pg_enrollment_used now) (r # rs) = pg_enrollment_used now r # ?new"
        by (simp add: update_where_def)
      have "ne_TokenHash r = h'" "nat (ne_UsesRemaining r) = Suc (nat (ne_UsesRemaining r - 1))"
        using True by linarith+
      then have "(if ne_TokenHash (pg_enrollment_used now r) = h then nat (ne_UsesRemaining (pg_enrollment_used now r)) else 0) +
          (if h' = h then 1 else 0) \<le> (if ne_TokenHash r = h then nat (ne_UsesRemaining r) else 0)"
        by (simp add: pg_enrollment_used_def)
      moreover have "?f ?new \<le> ?f rs" using rest by linarith
      ultimately show ?thesis unfolding upd cons using True by (auto split: if_split_asm)
    next
      case False
      then have upd: "update_where ?p (pg_enrollment_used now) (r # rs) = r # ?new" "list_ex ?p (r # rs) = list_ex ?p rs"
        by (simp_all only: update_where_def list.map list_ex_iff list.set if_False simp_thms bex_simps)
      show ?thesis unfolding upd cons using rest by simp
    qed
  qed (simp add: update_where_def)
  from this [of "st_enrollments st"] show ?thesis
    by (auto simp: enrollment_uses_left_def pg_NodeEnrollmentConsume_def Let_def find_None_iff list_ex_iff split: if_splits)
qed

lemma pg_enrollment_left_do:
  assumes "\<not> pg_creates_enrollment h s"
  shows "enrollment_uses_left h (pg_step_do s st) + pg_enrollments_used h s st \<le> enrollment_uses_left h st"
proof (cases s)
  case (Whole op)
  show ?thesis
  proof (cases op)
    case (OEnrollmentCreate now e)
    then show ?thesis using assms Whole
      by (simp add: enrollment_uses_left_def pg_NodeEnrollmentCreate_def pg_NetworkEnsure_def Let_def)
  next
    case (OEnrollmentConsume h' now)
    then show ?thesis using Whole enrollment_use_left [of h h' now st]
      by (cases "pg_NodeEnrollmentConsume h' now st") auto
  qed (use Whole in \<open>simp_all add: enrollment_uses_left_def pg_enrollments_frame del: pg_call.simps\<close>)
next
  case (CleanupStatement now i)
  then show ?thesis using cleanup_statement(1) by (simp add: enrollment_uses_left_def)
qed (simp_all add: enrollment_uses_left_def pg_NetworkEnsure_def pg_group_member_insert_def pg_policy_upsert_def
      pg_invite_use_def pg_invite_sweep_def Let_def)

interpretation pg_invites:
  use_counter pg_step_do "pg_invites_used t" "invite_left t" "\<lambda>s. \<not> pg_creates_invite t s" for t
  by unfold_locales (rule pg_invite_left_do)

interpretation pg_enrollments:
  use_counter pg_step_do "pg_enrollments_used h" "enrollment_uses_left h" "\<lambda>s. \<not> pg_creates_enrollment h s" for h
  by unfold_locales (rule pg_enrollment_left_do)

section \<open>The properties\<close>

text \<open>
  C12. The two stores are interchangeable: every sequence of writes whose rows both databases can
  represent (integers in range, references to existing rows, nodes with a token, enrollments consumed
  before they expire) gives the same answers, errors included, and leaves the same tables.
\<close>

theorem postgres_matches_sqlite:
  assumes "store_ok st" "all_fit ops st"
  shows "call_all pg_call ops st = call_all sqlite_call ops st"
  by (rule all_fit_same [OF assms])

definition demo_writes :: "relay_op list" where
  "demo_writes =
     [OUserUpsert \<lparr>us_GitHubID = 7, us_Username = ''ada'', us_AvatarURL = [], us_CreatedAt = 1, us_LastLoginAt = 1\<rparr>,
      OSessionCreate \<lparr>as_Token = ''s'', as_GitHubID = 7, as_CreatedAt = 1, as_ExpiresAt = 9\<rparr>,
      OGroupMemberAdd \<lparr>gm_NetworkID = ''lab'', gm_GroupName = ''ops'', gm_NodeName = ''box'', gm_SessionName = ''build'',
        gm_CreatedAt = 2\<rparr>,
      OInviteCreate 3 \<lparr>iv_NetworkID = ''lab'', iv_Token = ''v'', iv_CreatedBy = Some 7, iv_UsesRemaining = 1,
        iv_ExpiresAt = 9, iv_CreatedAt = 3\<rparr>,
      OInviteConsume 4 ''v'', OInviteConsume 5 ''v'']"

theorem postgres_matches_sqlite_witness:
  "call_all pg_call demo_writes NewSQLiteStore = call_all sqlite_call demo_writes NewSQLiteStore"
proof (rule postgres_matches_sqlite [OF store_ok_start])
  show "all_fit demo_writes NewSQLiteStore"
    by (simp add: demo_writes_def NewSQLiteStore_def int4_def UserUpsert_def UserGetByID_def SessionCreate_def upsert_def
        has_key_def insert_row_def GroupMemberAdd_def)
qed

text \<open>
  C11. On Postgres too an invitation admits, and an enrollment registers, at most as many times as it
  has uses left, in any interleaving of the single statements of concurrent methods.
\<close>

theorem postgres_tokens_bounded:
  assumes "store_ok st" "iv \<in> set (st_invites st)" "en \<in> set (st_enrollments st)"
    and "\<And>s. s \<in> set steps \<Longrightarrow> \<not> pg_creates_invite (iv_Token iv) s \<and> \<not> pg_creates_enrollment (ne_TokenHash en) s"
  shows "tally pg_step_do (pg_invites_used (iv_Token iv)) steps st \<le> nat (iv_UsesRemaining iv) \<and>
    tally pg_step_do (pg_enrollments_used (ne_TokenHash en)) steps st \<le> nat (ne_UsesRemaining en)"
proof -
  have "keyed ne_TokenHash (st_enrollments st)" using assms(1) by (simp add: store_ok_def)
  then have "enrollment_uses_left (ne_TokenHash en) st = nat (ne_UsesRemaining en)"
    using assms(3) by (simp add: enrollment_uses_left_def keyed_filter_single)
  then show ?thesis
    using invite_left_row [OF assms(1,2)] pg_invites.spent_run [of steps "iv_Token iv" st]
      pg_enrollments.spent_run [of steps "ne_TokenHash en" st] assms(4) by fastforce
qed

theorem postgres_tokens_bounded_witness:
  "tally pg_step_do (pg_invites_used ''v1'')
     [InviteUse 1001 ''v1'', InviteUse 1002 ''v1'', InviteSweep ''v1'', Whole (OEnrollmentConsume ''cw_enr_e1'' 1001), InviteSweep ''v1'']
     demo_invited \<le> 1"
  (is "tally _ _ ?steps _ \<le> _")
proof -
  obtain iv en where rows: "iv \<in> set (st_invites demo_invited)" "iv_Token iv = ''v1''" "iv_UsesRemaining iv = 1"
    "en \<in> set (st_enrollments demo_invited)" "ne_TokenHash en = ''cw_enr_e1''" "ne_UsesRemaining en = 2"
    using demo_invited_rows by blast
  have "tally pg_step_do (pg_invites_used (iv_Token iv)) ?steps demo_invited \<le> nat (iv_UsesRemaining iv) \<and>
      tally pg_step_do (pg_enrollments_used (ne_TokenHash en)) ?steps demo_invited \<le> nat (ne_UsesRemaining en)"
    by (rule postgres_tokens_bounded [OF reachable_store_ok [OF demo_invited_reachable] rows(1,4)]) auto
  then show ?thesis by (simp del: tally.simps add: rows)
qed

section \<open>Where they differ\<close>

text \<open>An enrollment that expired between the check of a redemption and its use: only SQLite uses it up.\<close>

lemma enrollment_expired_between:
  assumes "store_ok st" "NodeEnrollmentGetByTokenHash h st = Some e" "0 < ne_UsesRemaining e" "ne_ExpiresAt e \<le> now"
  shows "pg_NodeEnrollmentConsume h now st = (None, st)" "fst (NodeEnrollmentConsume h now st) \<noteq> None"
proof -
  have keyed: "keyed ne_TokenHash (st_enrollments st)" using assms(1) by (simp add: store_ok_def)
  have e: "e \<in> set (st_enrollments st)" "ne_TokenHash e = h"
    using assms(2) find_keyed [OF keyed] by (auto simp: NodeEnrollmentGetByTokenHash_def)
  then have "\<not> list_ex (\<lambda>r. ne_TokenHash r = h \<and> 0 < ne_UsesRemaining r \<and> now < ne_ExpiresAt r) (st_enrollments st)"
    using keyed assms(4) by (auto simp: list_ex_iff keyed_def distinct_map inj_on_def)
  then show "pg_NodeEnrollmentConsume h now st = (None, st)"
    by (auto simp: pg_NodeEnrollmentConsume_def Let_def update_none find_None_iff list_ex_iff)
  show "fst (NodeEnrollmentConsume h now st) \<noteq> None" using assms(2,3) by (simp add: NodeEnrollmentConsume_def Let_def)
qed

text \<open>
  The check and the insertion of \<open>GroupMemberAdd\<close> are two statements on Postgres: when the group is
  deleted between them the membership stays, and binds the session to the next group of that name.
\<close>

lemma member_outlives_group:
  assumes "pg_group_exists (gm_NetworkID m) (gm_GroupName m) st"
    and "pg_GroupDelete (gm_NetworkID m) (gm_GroupName m) st = (Inr (), st1)"
  shows "\<not> pg_group_exists (gm_NetworkID m) (gm_GroupName m) (pg_group_member_insert m st1) \<and>
    gm_GroupName m \<in> gb_GroupName ` set (pg_GroupBindingsForSession coll (gm_NetworkID m) (gm_NodeName m) (gm_SessionName m)
      (pg_group_member_insert m st1))"
proof -
  let ?n = "gm_NetworkID m" and ?g = "gm_GroupName m"
  have groups: "st_groups st1 = delete_where (\<lambda>r. gr_NetworkID r = ?n \<and> gr_Name r = ?g) (st_groups st)"
    and members: "st_groupMembers st1 = delete_where (\<lambda>r. gm_NetworkID r = ?n \<and> gm_GroupName r = ?g) (st_groupMembers st)"
    using assms(2) by (auto simp: pg_GroupDelete_def Let_def split: if_splits)
  have "m \<in> set (st_groupMembers (pg_group_member_insert m st1))"
    by (auto simp: pg_group_member_insert_def insert_or_ignore_def members has_key_iff group_member_key_def image_iff)
  moreover have "?g \<in> gb_GroupName ` set (map (pg_binding m) (pg_policies_of (pg_group_member_insert m st1) m))"
    by (auto simp: pg_policies_of_def pg_binding_def image_iff split: list.splits)
  ultimately show ?thesis
    by (force simp: pg_GroupBindingsForSession_def pg_group_exists_def pg_group_member_insert_def groups filter_empty_conv)
qed

end
