(* ===== verification/ClientGrants.thy ===== *)
theory ClientGrants
  imports RelayEvents EventLog
begin

text \<open>
  The access grants a client has accepted: the file of \<open>internal/client/access_cache.go\<close>, and the
  stream of revocations that keeps it up to date, \<open>internal/client/access_events.go\<close>, with the
  writer of that stream in \<open>internal/relay/access_events.go\<close>.

  Inputs from outside: the JSON of an event (\<open>decode\<close>), what the relay answers about a grant
  (\<open>lookup\<close>), whether the client has the relay's credentials (\<open>relayAuth\<close>), and how a write of a
  file ends. The content of the files is kept as the decoded structs.
\<close>

section \<open>Server-sent events\<close>

text \<open>\<open>writeAccessSSEEvent\<close> for a payload that was encoded, and the comment that keeps a stream open.\<close>

definition writeAccessSSEEvent :: "string \<Rightarrow> string \<Rightarrow> int \<Rightarrow> bytes" where
  "writeAccessSSEEvent payload eventType sq =
     ''id: '' @ show_int sq @ [NEWLINE] @
     (if trim_space eventType \<noteq> [] then ''event: '' @ trim_space eventType @ [NEWLINE] else []) @
     ''data: '' @ payload @ [NEWLINE, NEWLINE]"

definition keepalive :: bytes where "keepalive = '': keepalive'' @ [NEWLINE, NEWLINE]"

text \<open>\<open>bufio.Scanner\<close> with its default limit: the lines, and whether one is too long.\<close>

function scan_lines :: "bytes \<Rightarrow> string list \<times> bool" where
  "scan_lines s =
     (if s = [] then ([], False)
      else
        let line = takeWhile (\<lambda>b. b \<noteq> NEWLINE) s in
        if 64 * 1024 \<le> length line then ([], True)
        else (case scan_lines (drop (Suc (length line)) s) of (ls, err) \<Rightarrow> (drop_cr line # ls, err)))"
  by pat_completeness auto
termination
  by (relation "measure length") (auto simp: Let_def)

declare scan_lines.simps [simp del]

record sse_event =
  ss_id :: string
  ss_type :: string
  ss_data :: "string list"

definition sse_start :: sse_event where
  "sse_start = \<lparr>ss_id = [], ss_type = [], ss_data = []\<rparr>"

text \<open>
  \<open>dispatch\<close>: the event collected so far goes to the handler, unless it has no data or does not
  decode. A handler answers with an error or none.
\<close>

type_synonym ('e, 's) event_handler = "string \<Rightarrow> string \<Rightarrow> AccessCacheEvent \<Rightarrow> 's \<Rightarrow> 'e option \<times> 's"

definition sse_dispatch ::
  "(string \<Rightarrow> AccessCacheEvent option) \<Rightarrow> ('e, 's) event_handler \<Rightarrow> sse_event \<Rightarrow> 's \<Rightarrow> 'e option \<times> 's" where
  "sse_dispatch decode handle e d =
     (if ss_data e = [] then (None, d)
      else (case decode (join_with [NEWLINE] (ss_data e)) of
         None \<Rightarrow> (None, d)
       | Some ev \<Rightarrow>
           handle (trim_space (ss_id e))
             (trim_space (if ss_type e = [] then trim_space (ae_Type ev) else ss_type e)) ev d))"

definition sse_field :: "string \<Rightarrow> sse_event \<Rightarrow> sse_event" where
  "sse_field line e =
     (if has_prefix line '':'' then e
      else if has_prefix line ''id:'' then e\<lparr>ss_id := trim_space (trim_prefix line ''id:'')\<rparr>
      else if has_prefix line ''event:'' then e\<lparr>ss_type := trim_space (trim_prefix line ''event:'')\<rparr>
      else if has_prefix line ''data:'' then e\<lparr>ss_data := ss_data e @ [trim_space (trim_prefix line ''data:'')]\<rparr>
      else e)"

fun sse_run ::
  "(string \<Rightarrow> AccessCacheEvent option) \<Rightarrow> ('e, 's) event_handler \<Rightarrow> string list \<Rightarrow> sse_event \<Rightarrow> 's \<Rightarrow> 'e option \<times> 's" where
  "sse_run decode handle [] e d = sse_dispatch decode handle e d"
| "sse_run decode handle (line # ls) e d =
     (if line = [] then
        (case sse_dispatch decode handle e d of
           (Some err, d1) \<Rightarrow> (Some err, d1)
         | (None, d1) \<Rightarrow> sse_run decode handle ls sse_start d1)
      else sse_run decode handle ls (sse_field line e) d)"

text \<open>
  A stream whose body was read: \<open>broken\<close> says that the read ended with an error, after what was read
  has been handled. \<open>Inl\<close> marks an error of the handler, \<open>Inr ()\<close> one of the stream.
\<close>

definition streamAcceptedAccessEvents ::
  "(string \<Rightarrow> AccessCacheEvent option) \<Rightarrow> ('e, 's) event_handler \<Rightarrow> bytes \<Rightarrow> bool \<Rightarrow> 's \<Rightarrow>
   ('e + unit) option \<times> 's" where
  "streamAcceptedAccessEvents decode handle body broken d =
     (case scan_lines body of
        (ls, too_long) \<Rightarrow>
          (case sse_run decode handle ls sse_start d of
             (Some err, d1) \<Rightarrow> (Some (Inl err), d1)
           | (None, d1) \<Rightarrow> (if too_long \<or> broken then Some (Inr ()) else None, d1)))"

section \<open>The files of a client\<close>

record AcceptedAccessGrant =
  aa_Token :: string
  aa_GrantID :: string
  aa_NetworkID :: string
  aa_TargetNode :: string
  aa_SessionID :: "uint32 option"
  aa_SessionName :: string
  aa_Verbs :: "string list"
  aa_AudienceSubjectKind :: string
  aa_AudienceSubjectID :: string
  aa_AcceptedAt :: nanos
  aa_ExpiresAt :: nanos

datatype 'a stored = Absent | Broken | Stored 'a

text \<open>How a write ends: a torn one leaves a file that does not decode.\<close>

datatype write_fate = Written | Refused | Torn

record grant_dir =
  gd_grants :: "AcceptedAccessGrant list stored"
  gd_state :: "(string, string) gomap stored"
  gd_grantsFate :: write_fate
  gd_stateFate :: write_fate

datatype grant_error =
    GrantsUnreadable | GrantsUnwritable | StateUnreadable | StateUnwritable
  | GrantTokenInvalid auth_error | GrantMissing string | NoAcceptedGrant string

definition loadAcceptedGrantFile :: "grant_dir \<Rightarrow> grant_error + AcceptedAccessGrant list" where
  "loadAcceptedGrantFile d =
     (case gd_grants d of Absent \<Rightarrow> Inr [] | Broken \<Rightarrow> Inl GrantsUnreadable | Stored gs \<Rightarrow> Inr gs)"

definition saveAcceptedGrantFile :: "AcceptedAccessGrant list \<Rightarrow> grant_dir \<Rightarrow> grant_error option \<times> grant_dir" where
  "saveAcceptedGrantFile gs d =
     (case gd_grantsFate d of
        Written \<Rightarrow> (None, d\<lparr>gd_grants := Stored gs\<rparr>)
      | Refused \<Rightarrow> (Some GrantsUnwritable, d)
      | Torn \<Rightarrow> (Some GrantsUnwritable, d\<lparr>gd_grants := Broken\<rparr>))"

definition pruneAcceptedGrants :: "nanos \<Rightarrow> AcceptedAccessGrant list \<Rightarrow> AcceptedAccessGrant list" where
  "pruneAcceptedGrants now gs = filter (\<lambda>g. \<not> aa_ExpiresAt g < now) gs"

text \<open>The first grant of the identifier is replaced; a new one goes to the end.\<close>

fun put_grant :: "AcceptedAccessGrant \<Rightarrow> AcceptedAccessGrant list \<Rightarrow> AcceptedAccessGrant list" where
  "put_grant r [] = [r]"
| "put_grant r (g # gs) = (if aa_GrantID g = aa_GrantID r then r # gs else g # put_grant r gs)"

definition AcceptAccessGrant ::
  "(bytes \<Rightarrow> ObserverDelegationClaims option) \<Rightarrow> nanos \<Rightarrow> nanos \<Rightarrow> string \<Rightarrow> grant_dir \<Rightarrow>
   (grant_error + AcceptedAccessGrant) \<times> grant_dir" where
  "AcceptAccessGrant dec now later token d =
     (case ParseObserverDelegation dec (trim_space token) of
        Inl err \<Rightarrow> (Inl (GrantTokenInvalid err), d)
      | Inr claims \<Rightarrow>
          let r = \<lparr>aa_Token = trim_space token, aa_GrantID = og_JTI claims, aa_NetworkID = og_NetworkID claims,
                   aa_TargetNode = og_TargetNode claims, aa_SessionID = og_SessionID claims,
                   aa_SessionName = og_SessionName claims, aa_Verbs = og_Verbs claims,
                   aa_AudienceSubjectKind = og_AudienceSubjectKind claims,
                   aa_AudienceSubjectID = og_AudienceSubjectID claims, aa_AcceptedAt = now,
                   aa_ExpiresAt = og_ExpiresAt claims\<rparr>
          in (case loadAcceptedGrantFile d of
                Inl err \<Rightarrow> (Inl err, d)
              | Inr gs \<Rightarrow>
                  (case saveAcceptedGrantFile (put_grant r (pruneAcceptedGrants later gs)) d of
                     (Some err, d1) \<Rightarrow> (Inl err, d1)
                   | (None, d1) \<Rightarrow> (Inr r, d1))))"

definition ListAcceptedAccessGrants ::
  "nanos \<Rightarrow> grant_dir \<Rightarrow> (grant_error + AcceptedAccessGrant list) \<times> grant_dir" where
  "ListAcceptedAccessGrants now d =
     (case loadAcceptedGrantFile d of
        Inl err \<Rightarrow> (Inl err, d)
      | Inr gs \<Rightarrow>
          let pruned = pruneAcceptedGrants now gs in
          if length pruned \<noteq> length gs then
            (case saveAcceptedGrantFile pruned d of
               (Some err, d1) \<Rightarrow> (Inl err, d1)
             | (None, d1) \<Rightarrow> (Inr pruned, d1))
          else (Inr pruned, d))"

definition acceptedGrantAllowsVerb :: "string list \<Rightarrow> string \<Rightarrow> bool" where
  "acceptedGrantAllowsVerb verbs verb \<longleftrightarrow> list_ex (\<lambda>v. trim_space v = trim_space verb) verbs"

definition acceptedGrantMatchesSession :: "AcceptedAccessGrant \<Rightarrow> uint32 option \<Rightarrow> string \<Rightarrow> bool" where
  "acceptedGrantMatchesSession g sessionID sessionName =
     (case sessionID of
        Some i \<Rightarrow> aa_SessionID g = Some i
      | None \<Rightarrow>
          if trim_space sessionName = [] then False
          else trim_space (aa_SessionName g) = trim_space sessionName)"

record ListAcceptedAccessGrantOptions =
  lo_NetworkID :: string
  lo_TargetNode :: string
  lo_SessionName :: string
  lo_Verb :: string

definition grant_wanted :: "ListAcceptedAccessGrantOptions \<Rightarrow> AcceptedAccessGrant \<Rightarrow> bool" where
  "grant_wanted opts g =
     (if trim_space (lo_NetworkID opts) \<noteq> [] \<and> ResolveNetworkID (aa_NetworkID g) \<noteq> ResolveNetworkID (lo_NetworkID opts)
      then False
      else if trim_space (lo_TargetNode opts) \<noteq> [] \<and> trim_space (aa_TargetNode g) \<noteq> trim_space (lo_TargetNode opts)
      then False
      else if trim_space (lo_SessionName opts) \<noteq> [] \<and> trim_space (aa_SessionName g) \<noteq> trim_space (lo_SessionName opts)
      then False
      else if trim_space (lo_Verb opts) \<noteq> [] \<and> \<not> acceptedGrantAllowsVerb (aa_Verbs g) (lo_Verb opts) then False
      else True)"

definition ListAcceptedAccessGrantsFiltered ::
  "nanos \<Rightarrow> ListAcceptedAccessGrantOptions \<Rightarrow> grant_dir \<Rightarrow>
   (grant_error + AcceptedAccessGrant list) \<times> grant_dir" where
  "ListAcceptedAccessGrantsFiltered now opts d =
     (case ListAcceptedAccessGrants now d of
        (Inl err, d1) \<Rightarrow> (Inl err, d1)
      | (Inr gs, d1) \<Rightarrow> (Inr (filter (grant_wanted opts) gs), d1))"

definition GetAcceptedAccessGrant ::
  "nanos \<Rightarrow> string \<Rightarrow> grant_dir \<Rightarrow> (grant_error + AcceptedAccessGrant) \<times> grant_dir" where
  "GetAcceptedAccessGrant now grantID d =
     (case ListAcceptedAccessGrants now d of
        (Inl err, d1) \<Rightarrow> (Inl err, d1)
      | (Inr gs, d1) \<Rightarrow>
          (case List.find (\<lambda>g. trim_space (aa_GrantID g) = trim_space grantID) gs of
             None \<Rightarrow> (Inl (GrantMissing (trim_space grantID)), d1)
           | Some g \<Rightarrow> (Inr g, d1)))"

definition RemoveAcceptedAccessGrant :: "string \<Rightarrow> grant_dir \<Rightarrow> grant_error option \<times> grant_dir" where
  "RemoveAcceptedAccessGrant grantID d =
     (case loadAcceptedGrantFile d of
        Inl err \<Rightarrow> (Some err, d)
      | Inr gs \<Rightarrow>
          let keep = filter (\<lambda>g. trim_space (aa_GrantID g) \<noteq> trim_space grantID) gs in
          if length keep = length gs then (Some (GrantMissing (trim_space grantID)), d)
          else saveAcceptedGrantFile keep d)"

section \<open>Using a grant\<close>

text \<open>
  What the relay answers about a grant: a message, or its record. \<open>urls\<close> aside, the message is the
  one \<open>GetAccessGrant\<close> builds from the body of the answer.
\<close>

definition acceptedGrantLookupSaysMissing :: "string \<Rightarrow> bool" where
  "acceptedGrantLookupSaysMissing msg0 \<longleftrightarrow>
     (let msg = to_lower (trim_space msg0)
      in str_contains msg ''access grant not found'' \<or> str_contains msg ''membership required'')"

text \<open>A grant that is gone is removed on the way; an error of that removal is ignored.\<close>

fun first_valid ::
  "(string \<Rightarrow> string + AccessGrant) \<Rightarrow> bool \<Rightarrow> nanos \<Rightarrow> AcceptedAccessGrant list \<Rightarrow> grant_dir \<Rightarrow>
   string option \<times> grant_dir" where
  "first_valid lookup asked now [] d = (None, d)"
| "first_valid lookup asked now (g # gs) d =
     (if \<not> asked then (Some (aa_Token g), d)
      else (case lookup (aa_GrantID g) of
         Inl msg \<Rightarrow>
           if acceptedGrantLookupSaysMissing msg
           then first_valid lookup asked now gs (snd (RemoveAcceptedAccessGrant (aa_GrantID g) d))
           else (Some (aa_Token g), d)
       | Inr current \<Rightarrow>
           if ag_RevokedAt current \<noteq> None \<or> ag_ExpiresAt current < now
           then first_valid lookup asked now gs (snd (RemoveAcceptedAccessGrant (aa_GrantID g) d))
           else (Some (aa_Token g), d)))"

definition sessionLabel :: "uint32 option \<Rightarrow> string \<Rightarrow> string" where
  "sessionLabel sessionID sessionName =
     (case sessionID of None \<Rightarrow> sessionName | Some i \<Rightarrow> show_nat (unat i))"

definition grant_matches ::
  "string \<Rightarrow> string \<Rightarrow> uint32 option \<Rightarrow> string \<Rightarrow> string \<Rightarrow> AcceptedAccessGrant \<Rightarrow> bool" where
  "grant_matches networkID targetNode sessionID sessionName verb g \<longleftrightarrow>
     ResolveNetworkID (aa_NetworkID g) = ResolveNetworkID networkID \<and>
     trim_space (aa_TargetNode g) = trim_space targetNode \<and>
     acceptedGrantMatchesSession g sessionID sessionName \<and> acceptedGrantAllowsVerb (aa_Verbs g) verb"

text \<open>
  The grants that expire last are tried first; \<open>sort.Slice\<close> leaves open the order of grants that
  expire together, which is that of the file here. The relay is asked when the client has its
  credentials and the network was named.
\<close>

definition ResolveAcceptedAccessGrant ::
  "(string \<Rightarrow> string + AccessGrant) \<Rightarrow> bool \<Rightarrow> nanos \<Rightarrow> nanos \<Rightarrow> string \<Rightarrow> string \<Rightarrow> uint32 option \<Rightarrow> string \<Rightarrow>
   string \<Rightarrow> grant_dir \<Rightarrow> (grant_error + string) \<times> grant_dir" where
  "ResolveAcceptedAccessGrant lookup relayAuth now later networkID targetNode sessionID sessionName verb d =
     (case ListAcceptedAccessGrants now d of
        (Inl err, d1) \<Rightarrow> (Inl err, d1)
      | (Inr gs, d1) \<Rightarrow>
          let matching = filter (grant_matches networkID targetNode sessionID sessionName verb) gs;
              missing = NoAcceptedGrant (targetNode @ '':'' @ sessionLabel sessionID sessionName)
          in if matching = [] then (Inl missing, d1)
             else
               (case first_valid lookup (relayAuth \<and> networkID \<noteq> []) later
                       (sort_key (\<lambda>g. - aa_ExpiresAt g) matching) d1 of
                  (None, d2) \<Rightarrow> (Inl missing, d2)
                | (Some token, d2) \<Rightarrow> (Inr token, d2)))"

section \<open>Reconciling with the relay\<close>

record AcceptedGrantPruneResult =
  pr_RemovedExpired :: nat
  pr_RemovedRevoked :: nat
  pr_RemovedMissing :: nat
  pr_Remaining :: nat
  pr_RelayChecked :: bool

datatype grant_verdict = VerdictMissing | VerdictRevoked | VerdictKept

text \<open>\<open>lookup\<close> is asked in the network of the grant.\<close>

definition grant_verdict_of ::
  "(string \<Rightarrow> string \<Rightarrow> string + AccessGrant) \<Rightarrow> nanos \<Rightarrow> AcceptedAccessGrant \<Rightarrow> grant_verdict" where
  "grant_verdict_of lookup now g =
     (case lookup (aa_NetworkID g) (aa_GrantID g) of
        Inl msg \<Rightarrow> if acceptedGrantLookupSaysMissing msg then VerdictMissing else VerdictKept
      | Inr current \<Rightarrow>
          if ag_RevokedAt current \<noteq> None \<or> ag_ExpiresAt current < now then VerdictRevoked else VerdictKept)"

definition PruneAcceptedAccessGrants ::
  "(string \<Rightarrow> string \<Rightarrow> string + AccessGrant) \<Rightarrow> bool \<Rightarrow> nanos \<Rightarrow> grant_dir \<Rightarrow>
   (grant_error + AcceptedGrantPruneResult) \<times> grant_dir" where
  "PruneAcceptedAccessGrants lookup relayAuth now d =
     (case loadAcceptedGrantFile d of
        Inl err \<Rightarrow> (Inl err, d)
      | Inr gs \<Rightarrow>
          let unexpired = filter (\<lambda>g. \<not> aa_ExpiresAt g < now) gs;
              verdict = grant_verdict_of lookup now;
              remaining = (if relayAuth then filter (\<lambda>g. verdict g = VerdictKept) unexpired else unexpired);
              counted = (\<lambda>v. if relayAuth then length (filter (\<lambda>g. verdict g = v) unexpired) else 0)
          in (case saveAcceptedGrantFile remaining d of
                (Some err, d1) \<Rightarrow> (Inl err, d1)
              | (None, d1) \<Rightarrow>
                  (Inr \<lparr>pr_RemovedExpired = length gs - length unexpired, pr_RemovedRevoked = counted VerdictRevoked,
                        pr_RemovedMissing = counted VerdictMissing, pr_Remaining = length remaining,
                        pr_RelayChecked = relayAuth\<rparr>, d1)))"

section \<open>Watching revocations\<close>

definition loadAcceptedGrantState :: "grant_dir \<Rightarrow> grant_error + (string, string) gomap" where
  "loadAcceptedGrantState d =
     (case gd_state d of Absent \<Rightarrow> Inr [] | Broken \<Rightarrow> Inl StateUnreadable | Stored m \<Rightarrow> Inr m)"

definition saveAcceptedGrantState :: "(string, string) gomap \<Rightarrow> grant_dir \<Rightarrow> grant_error option \<times> grant_dir" where
  "saveAcceptedGrantState m d =
     (case gd_stateFate d of
        Written \<Rightarrow> (None, d\<lparr>gd_state := Stored m\<rparr>)
      | Refused \<Rightarrow> (Some StateUnwritable, d)
      | Torn \<Rightarrow> (Some StateUnwritable, d\<lparr>gd_state := Broken\<rparr>))"

definition acceptedGrantLastEventID :: "string \<Rightarrow> grant_dir \<Rightarrow> grant_error + string" where
  "acceptedGrantLastEventID networkID d =
     (case loadAcceptedGrantState d of
        Inl err \<Rightarrow> Inl err
      | Inr m \<Rightarrow> Inr (case mget m (trim_space networkID) of None \<Rightarrow> [] | Some i \<Rightarrow> i))"

definition setAcceptedGrantLastEventID :: "string \<Rightarrow> string \<Rightarrow> grant_dir \<Rightarrow> grant_error option \<times> grant_dir" where
  "setAcceptedGrantLastEventID networkID eventID d =
     (case loadAcceptedGrantState d of
        Inl err \<Rightarrow> (Some err, d)
      | Inr m \<Rightarrow> saveAcceptedGrantState (mput (trim_space networkID) (trim_space eventID) m) d)"

text \<open>The errors of the operating system are taken not to read like a missing grant.\<close>

fun isAcceptedGrantNotFound :: "grant_error \<Rightarrow> bool" where
  "isAcceptedGrantNotFound (GrantMissing i) = True"
| "isAcceptedGrantNotFound err = False"

text \<open>The handler of an event: its number is recorded first, then it is acted on.\<close>

definition grant_event ::
  "(string \<Rightarrow> string \<Rightarrow> string + AccessGrant) \<Rightarrow> bool \<Rightarrow> nanos \<Rightarrow> string \<Rightarrow> (grant_error, grant_dir) event_handler" where
  "grant_event lookup relayAuth now networkID eventID eventType ev d =
     (case (if eventID \<noteq> [] then setAcceptedGrantLastEventID networkID eventID d else (None, d)) of
        (Some err, d1) \<Rightarrow> (Some err, d1)
      | (None, d1) \<Rightarrow>
          if eventType = ''access.grant.revoked'' then
            if trim_space (ae_GrantID ev) = [] then (None, d1)
            else (case RemoveAcceptedAccessGrant (ae_GrantID ev) d1 of
               (Some err, d2) \<Rightarrow> (if isAcceptedGrantNotFound err then None else Some err, d2)
             | (None, d2) \<Rightarrow> (None, d2))
          else if eventType = ''stream.reset'' then
            (case PruneAcceptedAccessGrants lookup relayAuth now d1 of
               (Inl err, d2) \<Rightarrow> (Some err, d2)
             | (Inr pruned, d2) \<Rightarrow> (None, d2))
          else (None, d1))"

text \<open>
  One round of \<open>WatchAcceptedAccessGrants\<close>: \<open>connect\<close> gives the body of the stream for the last
  event's number, \<open>None\<close> when the relay does not answer with a stream. The backoff of the next round
  starts again after a stream that ended well.
\<close>

definition watch_round ::
  "(string \<Rightarrow> AccessCacheEvent option) \<Rightarrow> (string \<Rightarrow> string \<Rightarrow> string + AccessGrant) \<Rightarrow> bool \<Rightarrow> nanos \<Rightarrow> string \<Rightarrow>
   (string \<Rightarrow> (bytes \<times> bool) option) \<Rightarrow> grant_dir \<Rightarrow> (grant_error + bool) \<times> grant_dir" where
  "watch_round decode lookup relayAuth now networkID connect d =
     (case acceptedGrantLastEventID networkID d of
        Inl err \<Rightarrow> (Inl err, d)
      | Inr lastEventID \<Rightarrow>
          (case connect (trim_space lastEventID) of
             None \<Rightarrow> (Inr False, d)
           | Some (body, broken) \<Rightarrow>
               (case streamAcceptedAccessEvents decode (grant_event lookup relayAuth now networkID) body broken d of
                  (Some err, d1) \<Rightarrow> (Inr False, d1)
                | (None, d1) \<Rightarrow> (Inr True, d1))))"

definition next_backoff :: "bool \<Rightarrow> nanos \<Rightarrow> nanos" where
  "next_backoff ended_well backoff0 =
     (let backoff = (if ended_well then seconds 1 else backoff0)
      in if backoff < seconds 5 then 2 * backoff else backoff)"

end
