(* ===== verification/ClientFacts.thy ===== *)
theory ClientFacts
  imports ClientGrants HubFacts PeerFacts
begin

text \<open>
  What a client makes of a stream of revocations: the relay's text is read back as the events it was
  written for, also when the connection breaks at any byte, and a client that follows the stream
  keeps no revoked grant.
\<close>

section \<open>Lines\<close>

lemma trim_space_ends:
  assumes "s \<noteq> []" "name_char (hd s)" "name_char (last s)"
  shows "trim_space s = s"
proof -
  have "drop_space space_len s = s"
    by (subst drop_space.simps) (simp add: name_char_len(1) [OF assms(2,1)])
  moreover have "name_char (hd (rev s))" "rev s \<noteq> []" using assms by (simp_all add: hd_rev)
  then have "drop_space rspace_len (rev s) = rev s"
    by (subst drop_space.simps) (simp add: name_char_len(2))
  ultimately show ?thesis by (simp add: trim_space_def)
qed

lemma trim_space_blank: "trim_space (CHR '' '' # s) = trim_space s"
proof -
  have "space_len (CHR '' '' # s) = 1" by (simp add: space_len_def space_encodings_def)
  then have "drop_space space_len (CHR '' '' # s) = drop_space space_len s" by (subst drop_space.simps) simp
  then show ?thesis by (simp add: trim_space_def)
qed

lemma name_char_digit: "n < (10 :: nat) \<Longrightarrow> name_char (char_of (48 + n))"
proof -
  assume "n < 10"
  then have "n \<in> {0, 1, 2, 3, 4, 5, 6, 7, 8, 9}" by auto
  then show ?thesis by (auto simp: name_char_def is_alnum_def less_eq_char_def)
qed

lemma show_nat_chars: "list_all name_char (show_nat n) \<and> show_nat n \<noteq> []"
proof (induction n rule: show_nat.induct)
  case (1 n)
  then show ?case
    by (subst (1 2) show_nat.simps) (simp add: name_char_digit)
qed

lemma show_int_chars: "list_all name_char (show_int i) \<and> show_int i \<noteq> []"
proof -
  have "name_char CHR ''-''" by (simp add: name_char_def)
  then show ?thesis using show_nat_chars by (simp add: show_int_def)
qed

lemma trim_show_int [simp]: "trim_space (show_int i) = show_int i"
  using show_int_chars by (simp add: trim_space_name)

lemma name_char_no_newline: "list_all name_char s \<Longrightarrow> NEWLINE \<notin> set s"
  by (auto simp: list_all_iff name_char_def is_alnum_def NEWLINE_def less_eq_char_def)

lemma name_char_no_cr: "name_char c \<Longrightarrow> c \<noteq> CARRIAGE_RETURN"
  by (auto simp: name_char_def is_alnum_def CARRIAGE_RETURN_def less_eq_char_def)

lemma scan_lines_Nil [simp]: "scan_lines [] = ([], False)"
  by (subst scan_lines.simps) simp

lemma scan_lines_line:
  "NEWLINE \<notin> set l \<Longrightarrow> length l < 64 * 1024 \<Longrightarrow>
   scan_lines (l @ NEWLINE # rest) = (drop_cr l # fst (scan_lines rest), snd (scan_lines rest))"
  by (subst scan_lines.simps) (simp add: takeWhile_line Let_def split: prod.splits)

lemma scan_lines_last:
  "NEWLINE \<notin> set l \<Longrightarrow> length l < 64 * 1024 \<Longrightarrow> l \<noteq> [] \<Longrightarrow> scan_lines l = ([drop_cr l], False)"
proof -
  assume l: "NEWLINE \<notin> set l" "length l < 64 * 1024" "l \<noteq> []"
  then have "takeWhile (\<lambda>b. b \<noteq> NEWLINE) l = l" by (auto simp: takeWhile_eq_all_conv)
  then show ?thesis using l by (subst scan_lines.simps) (simp add: Let_def del: takeWhile_eq_all_conv)
qed

text \<open>A line the scanner hands back as it was written.\<close>

definition sse_line :: "string \<Rightarrow> bool" where
  "sse_line l \<longleftrightarrow> NEWLINE \<notin> set l \<and> length l < 64 * 1024 \<and> drop_cr l = l"

definition unlines :: "string list \<Rightarrow> bytes" where
  "unlines ls = concat (map (\<lambda>l. l @ [NEWLINE]) ls)"

lemma scan_lines_unlines:
  "list_all sse_line ls \<Longrightarrow> scan_lines (unlines ls @ rest) = (ls @ fst (scan_lines rest), snd (scan_lines rest))"
  by (induction ls) (simp_all add: unlines_def sse_line_def scan_lines_line)

section \<open>Events\<close>

text \<open>
  An event of the relay with its JSON: one that decodes, has no newline and no space around it, and
  no part of which, cut off at its end, decodes, as for the text of any JSON object.
\<close>

definition event_text :: "(string \<Rightarrow> AccessCacheEvent option) \<Rightarrow> string \<Rightarrow> AccessCacheEvent \<Rightarrow> bool" where
  "event_text decode payload ev \<longleftrightarrow>
     decode payload = Some ev \<and> NEWLINE \<notin> set payload \<and> length payload < 65000 \<and>
     trim_space payload = payload \<and> drop_cr payload = payload \<and> payload \<noteq> [] \<and>
     (\<forall>q. strict_prefix q payload \<longrightarrow> decode (trim_space q) = None) \<and>
     ae_Type ev \<noteq> [] \<and> name_char (hd (ae_Type ev)) \<and> name_char (last (ae_Type ev)) \<and>
     NEWLINE \<notin> set (ae_Type ev) \<and> length (ae_Type ev) < 65000 \<and> length (show_int (ae_Seq ev)) < 65000"

definition event_lines :: "string \<Rightarrow> AccessCacheEvent \<Rightarrow> string list" where
  "event_lines payload ev = [''id: '' @ show_int (ae_Seq ev), ''event: '' @ ae_Type ev, ''data: '' @ payload, []]"

lemma written_event:
  assumes "event_text decode payload ev"
  shows "writeAccessSSEEvent payload (ae_Type ev) (ae_Seq ev) = unlines (event_lines payload ev)"
proof -
  have "trim_space (ae_Type ev) = ae_Type ev" using assms by (simp add: event_text_def trim_space_ends)
  then show ?thesis using assms
    by (simp add: event_text_def writeAccessSSEEvent_def unlines_def event_lines_def)
qed

lemma drop_cr_name: "name_char (last l) \<Longrightarrow> drop_cr l = l"
  by (simp add: drop_cr_def name_char_no_cr)

lemma event_lines_ok:
  assumes "event_text decode payload ev"
  shows "list_all sse_line (event_lines payload ev)"
proof -
  note i = show_int_chars [of "ae_Seq ev"]
  have "name_char (last (show_int (ae_Seq ev)))" using i by (metis last_in_set list_all_iff)
  then have "drop_cr (''id: '' @ show_int (ae_Seq ev)) = ''id: '' @ show_int (ae_Seq ev)"
    using i by (intro drop_cr_name) (simp add: last_append)
  moreover have "drop_cr (''event: '' @ ae_Type ev) = ''event: '' @ ae_Type ev"
    using assms by (intro drop_cr_name) (simp add: last_append event_text_def)
  moreover have "drop_cr (''data: '' @ payload) = ''data: '' @ payload"
    using assms by (simp add: drop_cr_def event_text_def split: if_splits)
  moreover have "NEWLINE \<notin> set (show_int (ae_Seq ev))" using i name_char_no_newline by blast
  ultimately show ?thesis using assms
    by (simp add: event_lines_def sse_line_def event_text_def NEWLINE_def drop_cr_def)
qed

text \<open>The events of a list, given to a handler in turn until one fails.\<close>

fun handle_events ::
  "('e, 's) event_handler \<Rightarrow> AccessCacheEvent list \<Rightarrow> 's \<Rightarrow> 'e option \<times> 's" where
  "handle_events react [] d = (None, d)"
| "handle_events react (ev # evs) d =
     (case react (show_int (ae_Seq ev)) (ae_Type ev) ev d of
        (Some err, d1) \<Rightarrow> (Some err, d1)
      | (None, d1) \<Rightarrow> handle_events react evs d1)"

lemma sse_fields [simp]:
  "sse_field (CHR '':'' # l) e = e"
  "sse_field (''id: '' @ l) e = e\<lparr>ss_id := trim_space l\<rparr>"
  "sse_field (''event: '' @ l) e = e\<lparr>ss_type := trim_space l\<rparr>"
  "sse_field (''data: '' @ l) e = e\<lparr>ss_data := ss_data e @ [trim_space l]\<rparr>"
  by (simp_all add: sse_field_def has_prefix_def trim_prefix_def trim_space_blank)

lemma sse_dispatch_start [simp]: "sse_dispatch decode react sse_start d = (None, d)"
  by (simp add: sse_dispatch_def sse_start_def)

text \<open>The fields of an event once its lines before the empty one have been read.\<close>

definition collected :: "string \<Rightarrow> AccessCacheEvent \<Rightarrow> sse_event" where
  "collected payload ev = \<lparr>ss_id = show_int (ae_Seq ev), ss_type = ae_Type ev, ss_data = [payload]\<rparr>"

lemma dispatch_collected:
  "event_text decode payload ev \<Longrightarrow>
   sse_dispatch decode react (collected payload ev) d = react (show_int (ae_Seq ev)) (ae_Type ev) ev d"
  by (simp add: sse_dispatch_def collected_def event_text_def trim_space_ends)

lemma run_event:
  assumes "event_text decode payload ev"
  shows "sse_run decode react (event_lines payload ev @ rest) sse_start d =
    (case react (show_int (ae_Seq ev)) (ae_Type ev) ev d of
       (Some err, d1) \<Rightarrow> (Some err, d1)
     | (None, d1) \<Rightarrow> sse_run decode react rest sse_start d1)"
proof -
  have "sse_field (''data: '' @ payload) (sse_field (''event: '' @ ae_Type ev)
      (sse_field (''id: '' @ show_int (ae_Seq ev)) sse_start)) = collected payload ev"
    using assms by (simp only: sse_fields) (simp add: sse_start_def collected_def event_text_def trim_space_ends)
  then show ?thesis
    using dispatch_collected [OF assms, of react d] by (simp add: event_lines_def)
qed

text \<open>What a relay sends: events, and the comments that keep the stream open.\<close>

datatype relay_item = Sent string AccessCacheEvent | KeptAlive

fun item_lines :: "relay_item \<Rightarrow> string list" where
  "item_lines (Sent payload ev) = event_lines payload ev"
| "item_lines KeptAlive = ['': keepalive'', []]"

fun item_bytes :: "relay_item \<Rightarrow> bytes" where
  "item_bytes (Sent payload ev) = writeAccessSSEEvent payload (ae_Type ev) (ae_Seq ev)"
| "item_bytes KeptAlive = keepalive"

fun item_events :: "relay_item list \<Rightarrow> AccessCacheEvent list" where
  "item_events [] = []"
| "item_events (Sent payload ev # items) = ev # item_events items"
| "item_events (KeptAlive # items) = item_events items"

fun item_ok :: "(string \<Rightarrow> AccessCacheEvent option) \<Rightarrow> relay_item \<Rightarrow> bool" where
  "item_ok decode (Sent payload ev) = event_text decode payload ev"
| "item_ok decode KeptAlive = True"

lemma item_bytes_lines: "item_ok decode it \<Longrightarrow> item_bytes it = unlines (item_lines it)"
  by (cases it) (simp_all add: written_event keepalive_def unlines_def)

lemma item_bytes_not_Nil: "item_bytes it \<noteq> []"
  by (cases it) (simp_all add: writeAccessSSEEvent_def keepalive_def)

lemma item_lines_ok: "item_ok decode it \<Longrightarrow> list_all sse_line (item_lines it)"
  by (cases it) (simp_all add: event_lines_ok sse_line_def drop_cr_def NEWLINE_def CARRIAGE_RETURN_def)

lemma run_items:
  "list_all (item_ok decode) items \<Longrightarrow>
   sse_run decode react (concat (map item_lines items) @ rest) sse_start d =
     (case handle_events react (item_events items) d of
        (Some err, d1) \<Rightarrow> (Some err, d1)
      | (None, d1) \<Rightarrow> sse_run decode react rest sse_start d1)"
  by (induction items arbitrary: d rule: item_events.induct) (simp_all add: run_event split: prod.splits option.splits)

lemma stream_items:
  assumes "list_all (item_ok decode) items"
  shows "streamAcceptedAccessEvents decode react (concat (map item_bytes items) @ rest) broken d =
    (case handle_events react (item_events items) d of
       (Some err, d1) \<Rightarrow> (Some (Inl err), d1)
     | (None, d1) \<Rightarrow> streamAcceptedAccessEvents decode react rest broken d1)"
proof -
  have "concat (map item_bytes items) = unlines (concat (map item_lines items))"
    using assms item_bytes_lines by (induction items) (force simp: unlines_def)+
  moreover have "list_all sse_line (concat (map item_lines items))"
    using assms item_lines_ok by (induction items) force+
  ultimately show ?thesis
    using run_items [OF assms, of react "fst (scan_lines rest)" d]
    by (simp add: streamAcceptedAccessEvents_def scan_lines_unlines split: prod.splits option.splits)
qed

section \<open>A stream that breaks\<close>

lemma prefix_concat:
  "prefix b (concat (map f xs)) \<Longrightarrow>
   \<exists>k part. k \<le> length xs \<and> b = concat (map f (take k xs)) @ part \<and>
     (part = [] \<or> k < length xs \<and> strict_prefix part (f (xs ! k)))"
proof (induction xs arbitrary: b)
  case (Cons x xs)
  show ?case
  proof (cases "prefix (f x) b")
    case True
    then obtain c where b: "b = f x @ c" by (auto simp: prefix_def)
    then have "prefix c (concat (map f xs))" using Cons.prems by simp
    from Cons.IH [OF this] obtain k part where
      "k \<le> length xs" "c = concat (map f (take k xs)) @ part" "part = [] \<or> k < length xs \<and> strict_prefix part (f (xs ! k))"
      by blast
    then show ?thesis using b by (intro exI [of _ "Suc k"] exI [of _ part]) auto
  next
    case False
    then have "strict_prefix b (f x)"
      using Cons.prems prefix_same_cases [of b "f x @ concat (map f xs)" "f x"] by (auto simp: strict_prefix_def)
    then show ?thesis by (intro exI [of _ 0] exI [of _ b]) auto
  qed
qed simp

lemma item_events_append: "item_events (xs @ ys) = item_events xs @ item_events ys"
  by (induction xs rule: item_events.induct) simp_all

lemma field_data: "\<not> has_prefix l ''data:'' \<Longrightarrow> ss_data (sse_field l e) = ss_data e"
  by (simp add: sse_field_def)

lemma dispatch_no_data: "ss_data e = [] \<Longrightarrow> sse_dispatch decode react e d = (None, d)"
  by (simp add: sse_dispatch_def)

text \<open>A part of the data line carries the whole payload, or nothing that decodes.\<close>

lemma data_cut:
  assumes "event_text decode payload ev" "prefix q (''data: '' @ payload)" "ss_data e = []"
    and "ss_id e = show_int (ae_Seq ev)" "ss_type e = ae_Type ev"
  shows "sse_dispatch decode react (sse_field (drop_cr q) e) d \<in>
    {(None, d), react (show_int (ae_Seq ev)) (ae_Type ev) ev d}"
proof (cases "has_prefix (drop_cr q) ''data:''")
  case False
  then show ?thesis using assms(3) by (simp add: dispatch_no_data field_data)
next
  case True
  then obtain r where r: "drop_cr q = ''data:'' @ r" by (auto simp: has_prefix_def prefix_def)
  have "prefix (drop_cr q) q" by (simp add: drop_cr_def prefixeq_butlast)
  then have "prefix (''data:'' @ r) (''data: '' @ payload)" using assms(2) r by (metis prefix_order.trans)
  then have "prefix r (CHR '' '' # payload)" by simp
  then have "trim_space r = trim_space (tl r) \<and> prefix (tl r) payload"
    by (cases r) (auto simp: trim_space_blank)
  then obtain p where p: "trim_space r = trim_space p" "prefix p payload" by blast
  have field: "sse_field (drop_cr q) e = e\<lparr>ss_data := [trim_space p]\<rparr>"
    using assms(3) by (simp add: r sse_field_def has_prefix_def trim_prefix_def p(1))
  show ?thesis
  proof (cases "p = payload")
    case True
    then have "sse_field (drop_cr q) e = collected payload ev"
      using assms(1,4,5) field by (cases e) (simp add: collected_def event_text_def)
    then show ?thesis using dispatch_collected [OF assms(1), of react d] by simp
  next
    case False
    then have "decode (trim_space p) = None" using assms(1) p(2) by (simp add: event_text_def strict_prefix_def)
    then show ?thesis by (simp add: field sse_dispatch_def)
  qed
qed

lemma cut_lines:
  assumes "list_all sse_line ls" "strict_prefix part (unlines ls)"
  shows "\<exists>j q. j < length ls \<and> prefix q (ls ! j) \<and>
    scan_lines part = (take j ls @ (if q = [] then [] else [drop_cr q]), False)"
proof -
  have "prefix part (concat (map (\<lambda>l. l @ [NEWLINE]) ls))" using assms(2) by (simp add: unlines_def)
  from prefix_concat [OF this] obtain j q where
    j: "j \<le> length ls" "part = unlines (take j ls) @ q" "q = [] \<or> j < length ls \<and> strict_prefix q (ls ! j @ [NEWLINE])"
    unfolding unlines_def by blast
  have "j < length ls"
  proof (rule ccontr)
    assume "\<not> j < length ls"
    then have "part = unlines ls" using j by auto
    then show False using assms(2) by simp
  qed
  moreover from j(3) this have q: "prefix q (ls ! j)" by (auto simp: strict_prefix_def)
  moreover have "list_all sse_line (take j ls)" using assms(1) by (auto simp: list_all_iff dest: in_set_takeD)
  moreover have "sse_line (ls ! j)" using assms(1) calculation(1) by (simp add: list_all_length)
  then have "NEWLINE \<notin> set q" "length q < 64 * 1024"
    using q by (auto simp: sse_line_def dest: set_mono_prefix prefix_length_le)
  then have "scan_lines q = ((if q = [] then [] else [drop_cr q]), False)" by (simp add: scan_lines_last)
  ultimately show ?thesis by (auto simp: j(2) scan_lines_unlines)
qed

lemmas sse_field_chars [simp] = sse_fields(2-4) [unfolded append_Cons append_Nil]

text \<open>Cut off in a line before the data, an event is dropped.\<close>

lemma no_data_line:
  assumes "prefix q (c # l)" "c \<noteq> CHR ''d''" "c \<noteq> CARRIAGE_RETURN" "ss_data e = []"
  shows "sse_run decode react (if q = [] then [] else [drop_cr q]) e d = (None, d)"
proof (cases q)
  case Nil
  then show ?thesis using assms(4) by (simp add: dispatch_no_data)
next
  case (Cons b r)
  then have "b = c" using assms(1) by simp
  then have "drop_cr q = c # drop_cr r" using Cons assms(3) by (cases r) (auto simp: drop_cr_def)
  then obtain t where t: "drop_cr q = c # t" by blast
  have "\<not> has_prefix (c # t) ''data:''" using assms(2) by (simp add: has_prefix_def)
  then have "ss_data (sse_field (c # t) e) = []" using assms(4) by (simp add: field_data)
  moreover have "q \<noteq> []" using Cons by simp
  ultimately show ?thesis by (simp add: t dispatch_no_data)
qed

lemma event_cut:
  assumes "event_text decode payload ev" "j < 4" "prefix q (event_lines payload ev ! j)"
  shows "sse_run decode react (take j (event_lines payload ev) @ (if q = [] then [] else [drop_cr q])) sse_start d \<in>
    {(None, d), react (show_int (ae_Seq ev)) (ae_Type ev) ev d}"
proof -
  let ?i = "sse_start\<lparr>ss_id := show_int (ae_Seq ev)\<rparr>"
  let ?t = "?i\<lparr>ss_type := ae_Type ev\<rparr>"
  let ?rest = "if q = [] then [] else [drop_cr q]"
  have type: "trim_space (ae_Type ev) = ae_Type ev" using assms(1) by (simp add: event_text_def trim_space_ends)
  have start: "ss_data sse_start = []" "ss_data ?i = []" "ss_data ?t = []" by (simp_all add: sse_start_def)
  consider "j = 0" | "j = 1" | "j = 2" | "j = 3" using assms(2) by linarith
  then show ?thesis
  proof cases
    case 1
    then have "prefix q (CHR ''i'' # ''d: '' @ show_int (ae_Seq ev))" using assms(3) by (simp add: event_lines_def)
    from no_data_line [OF this _ _ start(1), of decode react d] show ?thesis
      using 1 by (simp add: CARRIAGE_RETURN_def)
  next
    case 2
    then have "prefix q (CHR ''e'' # ''vent: '' @ ae_Type ev)" using assms(3) by (simp add: event_lines_def)
    from no_data_line [OF this _ _ start(2), of decode react d]
    have "sse_run decode react ?rest ?i d = (None, d)" by (simp add: CARRIAGE_RETURN_def)
    moreover have "sse_run decode react (take j (event_lines payload ev) @ ?rest) sse_start d = sse_run decode react ?rest ?i d"
      using 2 by (simp add: event_lines_def)
    ultimately show ?thesis by simp
  next
    case 3
    then have q: "prefix q (''data: '' @ payload)" using assms(3) by (simp add: event_lines_def numeral_2_eq_2)
    have "take j (event_lines payload ev) = [''id: '' @ show_int (ae_Seq ev), ''event: '' @ ae_Type ev]"
      using 3 by (simp add: event_lines_def)
    then have run: "sse_run decode react (take j (event_lines payload ev) @ ?rest) sse_start d = sse_run decode react ?rest ?t d"
      using type by simp
    show ?thesis
    proof (cases "q = []")
      case True
      then show ?thesis using run start(3) by (simp add: dispatch_no_data)
    next
      case False
      then have "drop_cr q \<noteq> []" using q by (cases q) (auto simp: drop_cr_def CARRIAGE_RETURN_def)
      then have "sse_run decode react ?rest ?t d = sse_dispatch decode react (sse_field (drop_cr q) ?t) d"
        using False by simp
      then show ?thesis
        using run data_cut [OF assms(1) q start(3), of react d] by (simp add: sse_start_def)
    qed
  next
    case 4
    then have "q = []" using assms(3) by (simp add: event_lines_def numeral_3_eq_3)
    moreover have "take j (event_lines payload ev) =
        [''id: '' @ show_int (ae_Seq ev), ''event: '' @ ae_Type ev, ''data: '' @ payload]"
      using 4 by (simp add: event_lines_def)
    moreover have "sse_field (''data: '' @ payload) ?t = collected payload ev"
      using assms(1) by (simp add: sse_start_def collected_def event_text_def)
    ultimately have "sse_run decode react (take j (event_lines payload ev) @ ?rest) sse_start d =
        sse_dispatch decode react (collected payload ev) d"
      using type by simp
    then show ?thesis using dispatch_collected [OF assms(1), of react d] by simp
  qed
qed

text \<open>An item of the stream that was cut off: nothing happens, or its event arrived.\<close>

lemma item_cut:
  assumes "item_ok decode it" "strict_prefix part (item_bytes it)"
  shows "\<exists>evs. evs \<in> {[], item_events [it]} \<and> streamAcceptedAccessEvents decode react part broken d =
    (case handle_events react evs d of
       (Some err, d1) \<Rightarrow> (Some (Inl err), d1)
     | (None, d1) \<Rightarrow> (if broken then Some (Inr ()) else None, d1))"
proof -
  have "strict_prefix part (unlines (item_lines it))" using assms item_bytes_lines by metis
  from cut_lines [OF item_lines_ok [OF assms(1)] this] obtain j q where
    j: "j < length (item_lines it)" "prefix q (item_lines it ! j)"
      "scan_lines part = (take j (item_lines it) @ (if q = [] then [] else [drop_cr q]), False)"
    by blast
  have run: "sse_run decode react (fst (scan_lines part)) sse_start d \<in> {(None, d), handle_events react (item_events [it]) d}"
  proof (cases it)
    case (Sent payload ev)
    have "sse_run decode react (fst (scan_lines part)) sse_start d \<in>
        {(None, d), react (show_int (ae_Seq ev)) (ae_Type ev) ev d}"
      unfolding j(3) fst_conv using event_cut [of decode payload ev j q react d] assms(1) j(1,2)
      by (simp add: Sent event_lines_def)
    then show ?thesis by (auto simp: Sent split: prod.splits option.splits)
  next
    case KeptAlive
    consider "j = 0" | "j = 1" using j(1) KeptAlive by (simp add: numeral_2_eq_2 less_Suc_eq) blast
    then have "sse_run decode react (fst (scan_lines part)) sse_start d = (None, d)"
    proof cases
      case 1
      then have "prefix q (CHR '':'' # '' keepalive'')" using j(2) KeptAlive by simp
      from no_data_line [OF this, of sse_start decode react d] show ?thesis
        using 1 by (simp add: j(3) CARRIAGE_RETURN_def sse_start_def)
    next
      case 2
      then have "q = []" using j(2) KeptAlive by simp
      then show ?thesis using 2 KeptAlive by (simp add: j(3))
    qed
    then show ?thesis by simp
  qed
  then show ?thesis
    by (rule insertE) (rule exI [of _ "[]"], simp add: streamAcceptedAccessEvents_def j(3),
        rule exI [of _ "item_events [it]"], simp add: streamAcceptedAccessEvents_def j(3) split: prod.splits option.splits)
qed

lemma stream_cut:
  assumes "list_all (item_ok decode) items" "prefix body (concat (map item_bytes items))"
  shows "\<exists>k \<le> length (item_events items).
    streamAcceptedAccessEvents decode react body broken d =
      (case handle_events react (take k (item_events items)) d of
         (Some err, d1) \<Rightarrow> (Some (Inl err), d1)
       | (None, d1) \<Rightarrow> (if broken then Some (Inr ()) else None, d1)) \<and>
    (\<forall>done rest. items = done @ rest \<and> prefix (concat (map item_bytes done)) body \<longrightarrow> length (item_events done) \<le> k)"
proof -
  from prefix_concat [OF assms(2)] obtain j part where
    j: "j \<le> length items" "body = concat (map item_bytes (take j items)) @ part"
    and part: "part = [] \<or> j < length items \<and> strict_prefix part (item_bytes (items ! j))"
    by blast
  have ok: "list_all (item_ok decode) (take j items)" using assms(1) by (auto simp: list_all_iff dest: in_set_takeD)
  let ?d1 = "snd (handle_events react (item_events (take j items)) d)"
  have "\<exists>evs. (evs = [] \<or> j < length items \<and> evs = item_events [items ! j]) \<and>
      streamAcceptedAccessEvents decode react part broken ?d1 =
        (case handle_events react evs ?d1 of
           (Some err, d2) \<Rightarrow> (Some (Inl err), d2)
         | (None, d2) \<Rightarrow> (if broken then Some (Inr ()) else None, d2))"
  proof (cases "part = []")
    case True
    then show ?thesis by (intro exI [of _ "[]"]) (simp add: streamAcceptedAccessEvents_def)
  next
    case False
    then have "item_ok decode (items ! j)" "j < length items" "strict_prefix part (item_bytes (items ! j))"
      using part assms(1) by (simp_all add: list_all_length)
    from item_cut [OF this(1,3), of react broken ?d1] this(2) show ?thesis by blast
  qed
  then obtain evs where evs: "evs = [] \<or> j < length items \<and> evs = item_events [items ! j]"
    and cut: "streamAcceptedAccessEvents decode react part broken ?d1 =
      (case handle_events react evs ?d1 of
         (Some err, d2) \<Rightarrow> (Some (Inl err), d2)
       | (None, d2) \<Rightarrow> (if broken then Some (Inr ()) else None, d2))" by blast
  let ?k = "length (item_events (take j items)) + length evs"
  have split: "item_events items = item_events (take j items) @ item_events (drop j items)"
    by (simp flip: item_events_append)
  have "take (length evs) (item_events (drop j items)) = evs"
  proof (cases "evs = []")
    case False
    then have "j < length items" "evs = item_events [items ! j]" using evs by auto
    then have "item_events (drop j items) = evs @ item_events (drop (Suc j) items)"
      by (metis Cons_nth_drop_Suc append_Cons append_Nil item_events_append)
    then show ?thesis by simp
  qed simp
  then have take_k: "take ?k (item_events items) = item_events (take j items) @ evs" by (simp add: split)
  then have "?k \<le> length (item_events items)"
    by (metis length_append length_take min.cobounded2 min_def nat_le_linear)
  moreover have "handle_events react (xs @ ys) d =
      (case handle_events react xs d of (Some err, d1) \<Rightarrow> (Some err, d1) | (None, d1) \<Rightarrow> handle_events react ys d1)"
    for xs ys d by (induction xs arbitrary: d) (simp_all split: prod.splits option.splits)
  then have "streamAcceptedAccessEvents decode react body broken d =
      (case handle_events react (take ?k (item_events items)) d of
         (Some err, d1) \<Rightarrow> (Some (Inl err), d1)
       | (None, d1) \<Rightarrow> (if broken then Some (Inr ()) else None, d1))"
    unfolding take_k j(2) stream_items [OF ok] using cut by (auto split: prod.splits option.splits)
  moreover have "length (item_events done) \<le> ?k"
    if split: "items = done @ rest" and sent: "prefix (concat (map item_bytes done)) body" for "done" rest
  proof (cases "length done \<le> j")
    case True
    then have "take j items = done @ take (j - length done) rest" using split by simp
    then show ?thesis by (simp add: item_events_append)
  next
    case False
    then have "done = take j items @ drop j done" "j < length items" "items ! j = hd (drop j done)" "drop j done \<noteq> []"
      using split by (auto simp: nth_append hd_drop_conv_nth)
    then have "prefix (item_bytes (items ! j)) part"
      using sent by (metis (no_types, lifting) concat.simps(2) concat_append hd_Cons_tl j(2) list.simps(9) map_append
          prefix_order.trans prefixI same_prefix_prefix)
    then have False using part False split
      by (metis \<open>j < length items\<close> item_bytes_not_Nil prefix_bot.extremum_uniqueI prefix_order.leD)
    then show ?thesis ..
  qed
  ultimately show ?thesis by blast
qed

section \<open>The directory\<close>

definition grants_of :: "grant_dir \<Rightarrow> AcceptedAccessGrant list" where
  "grants_of d = (case gd_grants d of Stored gs \<Rightarrow> gs | _ \<Rightarrow> [])"

definition dir_ok :: "grant_dir \<Rightarrow> bool" where
  "dir_ok d \<longleftrightarrow> gd_grants d \<noteq> Broken \<and> gd_state d \<noteq> Broken \<and> gd_grantsFate d = Written \<and> gd_stateFate d = Written"

definition revocation :: "AccessCacheEvent \<Rightarrow> bool" where
  "revocation ev \<longleftrightarrow> ae_Type ev = ''access.grant.revoked'' \<and> trim_space (ae_GrantID ev) \<noteq> []"

definition revoked_by :: "AccessCacheEvent list \<Rightarrow> AcceptedAccessGrant \<Rightarrow> bool" where
  "revoked_by evs g \<longleftrightarrow> (\<exists>ev \<in> set evs. trim_space (aa_GrantID g) = trim_space (ae_GrantID ev))"

lemma revocation_handled:
  assumes "dir_ok d" "revocation ev"
  shows "\<exists>d'. grant_event lookup relayAuth now n (show_int (ae_Seq ev)) ''access.grant.revoked'' ev d = (None, d') \<and>
    dir_ok d' \<and> grants_of d' = filter (\<lambda>g. \<not> revoked_by [ev] g) (grants_of d) \<and>
    acceptedGrantLastEventID n d' = Inr (show_int (ae_Seq ev))"
proof -
  obtain m where m: "loadAcceptedGrantState d = Inr m"
    using assms(1) by (cases "gd_state d") (auto simp: dir_ok_def loadAcceptedGrantState_def)
  let ?d = "d\<lparr>gd_state := Stored (mput (trim_space n) (show_int (ae_Seq ev)) m)\<rparr>"
  have number: "setAcceptedGrantLastEventID n (show_int (ae_Seq ev)) d = (None, ?d)"
    using m assms(1) by (simp add: setAcceptedGrantLastEventID_def saveAcceptedGrantState_def dir_ok_def)
  have load: "loadAcceptedGrantFile ?d = Inr (grants_of d)"
    using assms(1) by (auto simp: loadAcceptedGrantFile_def grants_of_def dir_ok_def split: stored.splits)
  let ?keep = "filter (\<lambda>g. trim_space (aa_GrantID g) \<noteq> trim_space (ae_GrantID ev)) (grants_of d)"
  have same: "?keep = grants_of d" if "length ?keep = length (grants_of d)"
    using that by (metis filter_id_conv length_filter_less nless_le)
  have keep: "?keep = filter (\<lambda>g. \<not> revoked_by [ev] g) (grants_of d)" by (simp add: revoked_by_def)
  have ident: "show_int (ae_Seq ev) \<noteq> []" using show_int_chars by simp
  show ?thesis
  proof (cases "length ?keep = length (grants_of d)")
    case True
    then show ?thesis
      using assms number ident load same [OF True] keep
      by (simp add: grant_event_def RemoveAcceptedAccessGrant_def revocation_def Let_def dir_ok_def grants_of_def
          acceptedGrantLastEventID_def loadAcceptedGrantState_def)
  next
    case False
    then show ?thesis
      using assms number ident load keep
      by (simp add: grant_event_def RemoveAcceptedAccessGrant_def revocation_def Let_def dir_ok_def grants_of_def
          saveAcceptedGrantFile_def acceptedGrantLastEventID_def loadAcceptedGrantState_def)
  qed
qed

lemma revocations_handled:
  assumes "dir_ok d" "list_all revocation evs"
  shows "\<exists>d'. handle_events (grant_event lookup relayAuth now n) evs d = (None, d') \<and> dir_ok d' \<and>
    grants_of d' = filter (\<lambda>g. \<not> revoked_by evs g) (grants_of d)"
  using assms
proof (induction evs arbitrary: d)
  case (Cons ev evs)
  then obtain d1 where d1: "grant_event lookup relayAuth now n (show_int (ae_Seq ev)) (ae_Type ev) ev d = (None, d1)"
    "dir_ok d1" "grants_of d1 = filter (\<lambda>g. \<not> revoked_by [ev] g) (grants_of d)"
    using revocation_handled [of d ev lookup relayAuth now n] by (auto simp: revocation_def)
  have "(\<lambda>g. \<not> revoked_by (ev # evs) g) = (\<lambda>g. \<not> revoked_by [ev] g \<and> \<not> revoked_by evs g)"
    by (auto simp: revoked_by_def)
  then show ?case using Cons.IH [OF d1(2)] Cons.prems(2) d1 by (auto simp: filter_filter conj_commute)
qed (simp add: revoked_by_def)

end
