(* ===== verification/ClientProperties.thy ===== *)
theory ClientProperties
  imports ClientFacts RelayDemo
begin

text \<open>
  The properties of a client's accepted grants: what a broken stream delivers, that following the
  stream keeps no revoked grant, and what is handed out when a grant is used.
\<close>

section \<open>Following the revocations\<close>













definition demo_accepted :: "string \<Rightarrow> AcceptedAccessGrant" where
  "demo_accepted i =
     \<lparr>aa_Token = ''t-'' @ i, aa_GrantID = i, aa_NetworkID = ''lab'', aa_TargetNode = ''box'', aa_SessionID = Some 3,
      aa_SessionName = ''build'', aa_Verbs = [''read''], aa_AudienceSubjectKind = ''client'',
      aa_AudienceSubjectID = ''eve'', aa_AcceptedAt = 1, aa_ExpiresAt = 100\<rparr>"

definition demo_dir :: grant_dir where
  "demo_dir =
     \<lparr>gd_grants = Stored [demo_accepted ''g1'', demo_accepted ''g2''], gd_state = Absent, gd_grantsFate = Written,
      gd_stateFate = Written\<rparr>"


definition demo_record :: "string \<Rightarrow> string + AccessGrant" where
  "demo_record i = Inr
     \<lparr>ag_ID = i, ag_NetworkID = ''lab'', ag_TargetNode = ''box'', ag_SessionID = Some 3, ag_SessionName = ''build'',
      ag_Verbs = [''read''], ag_AudienceSubjectKind = ''client'', ag_AudienceSubjectID = ''eve'', ag_AudienceDisplay = [],
      ag_IssuedBy = ''github:7'', ag_CreatedAt = 1, ag_ExpiresAt = 300,
      ag_RevokedAt = (if trim_space i = ''g1'' then Some 5 else None)\<rparr>"




section \<open>Using a grant\<close>

text \<open>What the relay says of a grant when it is asked: an answer that is not about the grant counts as yes.\<close>

definition usable :: "(string \<Rightarrow> string + AccessGrant) \<Rightarrow> nanos \<Rightarrow> AcceptedAccessGrant \<Rightarrow> bool" where
  "usable lookup now g \<longleftrightarrow>
     (case lookup (aa_GrantID g) of
        Inl msg \<Rightarrow> \<not> acceptedGrantLookupSaysMissing msg
      | Inr current \<Rightarrow> ag_RevokedAt current = None \<and> now \<le> ag_ExpiresAt current)"

lemma first_valid_found:
  "first_valid lookup asked now gs d = (Some token, d') \<Longrightarrow>
   \<exists>xs g ys. gs = xs @ g # ys \<and> aa_Token g = token \<and> (\<not> asked \<and> xs = [] \<or>
     asked \<and> usable lookup now g \<and> (\<forall>x \<in> set xs. \<not> usable lookup now x))"
proof (induction gs arbitrary: d)
  case (Cons g gs)
  show ?case
  proof (cases "asked \<and> \<not> usable lookup now g")
    case True
    then obtain d1 where "first_valid lookup asked now gs d1 = (Some token, d')"
      using Cons.prems by (auto simp: usable_def split: sum.splits if_splits)
    then obtain xs g' ys where "gs = xs @ g' # ys" "aa_Token g' = token" "usable lookup now g'"
      "\<forall>x \<in> set xs. \<not> usable lookup now x" using Cons.IH True by blast
    then show ?thesis using True by (intro exI [of _ "g # xs"] exI [of _ g'] exI [of _ ys]) simp
  next
    case False
    then have "aa_Token g = token" using Cons.prems by (auto simp: usable_def split: sum.splits if_splits)
    then show ?thesis using False by (intro exI [of _ "[]"] exI [of _ g] exI [of _ gs]) auto
  qed
qed simp

text \<open>
  C26. The token handed out for a session belongs to an accepted grant of that network, node, session and
  verb that has not expired; when the relay can be asked it did not say that the grant is revoked,
  expired or unknown; and it is the grant that lasts longest among those the relay did not refuse.
\<close>

theorem resolved_grant_valid:
  assumes "ResolveAcceptedAccessGrant lookup relayAuth now later networkID targetNode sessionID sessionName verb d = (Inr token, d')"
  shows "\<exists>g \<in> set (grants_of d). aa_Token g = token \<and> now \<le> aa_ExpiresAt g \<and>
    ResolveNetworkID (aa_NetworkID g) = ResolveNetworkID networkID \<and> trim_space (aa_TargetNode g) = trim_space targetNode \<and>
    acceptedGrantMatchesSession g sessionID sessionName \<and> acceptedGrantAllowsVerb (aa_Verbs g) verb \<and>
    (relayAuth \<and> networkID \<noteq> [] \<longrightarrow> usable lookup later g) \<and>
    (\<forall>g' \<in> set (grants_of d). now \<le> aa_ExpiresAt g' \<and> grant_matches networkID targetNode sessionID sessionName verb g' \<and>
       aa_ExpiresAt g < aa_ExpiresAt g' \<longrightarrow> relayAuth \<and> \<not> usable lookup later g')"
proof -
  let ?m = "grant_matches networkID targetNode sessionID sessionName verb" and ?asked = "relayAuth \<and> networkID \<noteq> []"
  obtain gs d1 where listed: "ListAcceptedAccessGrants now d = (Inr gs, d1)"
    and first: "first_valid lookup ?asked later (sort_key (\<lambda>g. - aa_ExpiresAt g) (filter ?m gs)) d1 = (Some token, d')"
    using assms by (auto simp: ResolveAcceptedAccessGrant_def Let_def split: prod.splits sum.splits option.splits if_splits)
  have gs: "set gs = {g \<in> set (grants_of d). now \<le> aa_ExpiresAt g}"
    using listed by (auto simp: ListAcceptedAccessGrants_def loadAcceptedGrantFile_def grants_of_def pruneAcceptedGrants_def Let_def
        split: stored.splits if_splits prod.splits option.splits)
  obtain xs g ys where found: "sort_key (\<lambda>g. - aa_ExpiresAt g) (filter ?m gs) = xs @ g # ys" "aa_Token g = token"
    and verdicts: "\<not> ?asked \<and> xs = [] \<or> ?asked \<and> usable lookup later g \<and> (\<forall>x \<in> set xs. \<not> usable lookup later x)"
    using first_valid_found [OF first] by blast
  have sorted: "sorted (map (\<lambda>g. - aa_ExpiresAt g) (xs @ g # ys))" using found(1) by (metis sorted_sort_key)
  have set: "set (xs @ g # ys) = set (filter ?m gs)" using found(1) by (metis set_sort)
  show ?thesis
  proof (intro bexI conjI)
    have g: "g \<in> set (grants_of d)" "now \<le> aa_ExpiresAt g" "?m g" using set gs by auto
    show "g \<in> set (grants_of d)" "now \<le> aa_ExpiresAt g" using g by simp_all
    show "ResolveNetworkID (aa_NetworkID g) = ResolveNetworkID networkID" "trim_space (aa_TargetNode g) = trim_space targetNode"
      "acceptedGrantMatchesSession g sessionID sessionName" "acceptedGrantAllowsVerb (aa_Verbs g) verb"
      using g(3) by (simp_all add: grant_matches_def)
    show "aa_Token g = token" by (rule found(2))
    show "?asked \<longrightarrow> usable lookup later g" using verdicts by blast
    show "\<forall>g' \<in> set (grants_of d). now \<le> aa_ExpiresAt g' \<and> ?m g' \<and> aa_ExpiresAt g < aa_ExpiresAt g' \<longrightarrow>
        relayAuth \<and> \<not> usable lookup later g'"
    proof (intro ballI impI)
      fix g' assume g': "g' \<in> set (grants_of d)" "now \<le> aa_ExpiresAt g' \<and> ?m g' \<and> aa_ExpiresAt g < aa_ExpiresAt g'"
      then have "g' \<in> set (xs @ g # ys)" unfolding set using gs by auto
      then have "g' \<in> set xs" using g'(2) sorted by (auto simp: sorted_append)
      then show "relayAuth \<and> \<not> usable lookup later g'" using verdicts by auto
    qed
  qed
qed

definition demo_grants :: grant_dir where
  "demo_grants = demo_dir\<lparr>gd_grants := Stored [demo_accepted ''g2'', (demo_accepted ''g1'')\<lparr>aa_ExpiresAt := 200\<rparr>]\<rparr>"

lemma demo_grant_trims:
  "trim_space ''lab'' = ''lab''" "trim_space ''box'' = ''box''" "trim_space ''read'' = ''read''"
  "trim_space ''g1'' = ''g1''" "trim_space ''g2'' = ''g2''"
  by code_simp+

theorem resolved_grant_valid_witness:
  "\<exists>g. ResolveAcceptedAccessGrant demo_record True 5 6 ''lab'' ''box'' (Some 3) [] ''read'' demo_grants =
       (Inr ''t-g2'', demo_grants\<lparr>gd_grants := Stored [demo_accepted ''g2'']\<rparr>) \<and>
     aa_Token g = ''t-g2'' \<and> usable demo_record 6 g"
proof -
  have "ResolveAcceptedAccessGrant demo_record True 5 6 ''lab'' ''box'' (Some 3) [] ''read'' demo_grants =
      (Inr ''t-g2'', demo_grants\<lparr>gd_grants := Stored [demo_accepted ''g2'']\<rparr>)"
    using demo_grant_trims
    by (simp add: ResolveAcceptedAccessGrant_def ListAcceptedAccessGrants_def loadAcceptedGrantFile_def demo_grants_def
        demo_dir_def demo_accepted_def pruneAcceptedGrants_def grant_matches_def ResolveNetworkID_def
        acceptedGrantMatchesSession_def acceptedGrantAllowsVerb_def Let_def demo_record_def RemoveAcceptedAccessGrant_def
        saveAcceptedGrantFile_def)
  from resolved_grant_valid [OF this] this show ?thesis by auto
qed

section \<open>A revocation that could not be applied\<close>

text \<open>
  The number of an event is recorded before the grant is removed: when the grants cannot be written
  but the number can, the watcher resumes after the event and the grant stays.
\<close>

lemma revocation_skipped:
  assumes "revocation ev" "loadAcceptedGrantState d = Inr m" "gd_stateFate d = Written" "gd_grantsFate d = write_fate.Refused"
    and "gd_grants d = Stored gs" "g \<in> set gs" "trim_space (aa_GrantID g) = trim_space (ae_GrantID ev)"
    and "AccessSubscribe n (ae_Seq ev) h = ((replay, sub, reset), h')"
  shows "\<exists>d'. grant_event lookup relayAuth now n (show_int (ae_Seq ev)) ''access.grant.revoked'' ev d = (Some GrantsUnwritable, d') \<and>
    grants_of d' = gs \<and> acceptedGrantLastEventID n d' = Inr (show_int (ae_Seq ev)) \<and> ev \<notin> set replay"
proof -
  have "length (filter (\<lambda>g. trim_space (aa_GrantID g) \<noteq> trim_space (ae_GrantID ev)) gs) < length gs"
    using assms(6,7) by (auto intro: length_filter_less)
  moreover have "ev \<notin> set replay" using assms(8) by (auto simp: AccessSubscribe_def Let_def)
  ultimately show ?thesis
    using assms(1-5) show_int_chars [of "ae_Seq ev"]
    by (simp add: grant_event_def setAcceptedGrantLastEventID_def saveAcceptedGrantState_def RemoveAcceptedAccessGrant_def
        loadAcceptedGrantFile_def saveAcceptedGrantFile_def revocation_def Let_def grants_of_def acceptedGrantLastEventID_def
        loadAcceptedGrantState_def)
qed

end
