(* ===== verification/AttachClient.thy ===== *)
theory AttachClient
  imports OutputState Detach SessionInfo
begin

text \<open>
  A client attached to a session: the status bar of \<open>internal/statusbar/statusbar.go\<close> and the main loop
  of \<open>AttachConn\<close> in \<open>internal/client/commands.go\<close>, which shares the terminal between the session's output
  and the bar. An iteration of the loop is one step for one event; the clock is read once per step.

  Inputs from outside: the style of the bar (\<open>render\<close>), the size of the terminal, the JSON of a control
  frame, what the detach detector makes of the input (see \<open>Detach\<close>), and whether a write succeeds.
  \<open>elapsed.Seconds()\<close> is taken without the rounding of a float; the text of a status is ASCII.
\<close>

type_synonym uint16 = "16 word"

section \<open>The status bar\<close>

record StatusBar =
  sb_SessionID :: uint32
  sb_Status :: string
  sb_Started :: nanos
  sb_Rows :: uint16
  sb_Cols :: uint16
  sb_Enabled :: bool
  sb_suspended :: bool
  sb_active :: bool


definition PtySize :: "StatusBar \<Rightarrow> uint16 \<times> uint16" where
  "PtySize s = (if sb_Enabled s \<and> \<not> sb_suspended s then (sb_Cols s, sb_Rows s - 1) else (sb_Cols s, sb_Rows s))"

definition canRender :: "StatusBar \<Rightarrow> bool" where
  "canRender s \<longleftrightarrow> sb_Enabled s \<and> \<not> sb_suspended s"

definition scroll_region :: "uint16 \<Rightarrow> bytes" where
  "scroll_region bottom = ESC # ''[1;'' @ show_nat (unat bottom) @ ''r''"

definition full_region :: bytes where "full_region = ESC # ''[r''"

definition move_to_row :: "uint16 \<Rightarrow> bytes" where
  "move_to_row row = ESC # ''['' @ show_nat (unat row) @ '';1H''"

definition activate :: "StatusBar \<Rightarrow> bytes \<times> StatusBar" where
  "activate s =
     (if \<not> canRender s \<or> sb_active s then ([], s)
      else (scroll_region (sb_Rows s - 1), s\<lparr>sb_active := True\<rparr>))"

definition formatDuration :: "nat \<Rightarrow> string" where
  "formatDuration secs =
     (if secs < 60 then show_nat secs @ ''s''
      else if secs < 3600 then show_nat (secs div 60) @ ''m''
      else show_nat (secs div 3600) @ ''h'' @ show_nat ((secs mod 3600) div 60) @ ''m'')"

definition bar_content :: "nanos \<Rightarrow> StatusBar \<Rightarrow> string" where
  "bar_content now s =
     '' [cw] session '' @ show_nat (unat (sb_SessionID s)) @ '' | '' @ sb_Status s @ '' | '' @
     formatDuration (nat ((now - sb_Started s) div seconds 1)) @ '' | Ctrl+B d''"

definition bar_line :: "nanos \<Rightarrow> StatusBar \<Rightarrow> string" where
  "bar_line now s =
     (let content = bar_content now s; cols = unat (sb_Cols s)
      in if cols \<le> length content then take cols content
         else content @ replicate (cols - length content) (CHR '' ''))"

definition StatusBar_Draw :: "(string \<Rightarrow> bytes) \<Rightarrow> nanos \<Rightarrow> StatusBar \<Rightarrow> bytes option \<times> StatusBar" where
  "StatusBar_Draw render now s =
     (if \<not> canRender s then (None, s)
      else (case activate s of
         (region, s1) \<Rightarrow>
           (Some (region @ (ESC # ''7'') @ move_to_row (sb_Rows s) @ render (bar_line now s) @ (ESC # ''8'')), s1)))"




definition StatusBar_Teardown :: "StatusBar \<Rightarrow> bytes option \<times> StatusBar" where
  "StatusBar_Teardown s = (if \<not> sb_active s then (None, s) else (Some full_region, s\<lparr>sb_active := False\<rparr>))"

definition StatusBar_Resize ::
  "(string \<Rightarrow> bytes) \<Rightarrow> nanos \<Rightarrow> uint16 \<Rightarrow> uint16 \<Rightarrow> StatusBar \<Rightarrow> bytes option \<times> StatusBar" where
  "StatusBar_Resize render now cols rows s =
     (let s1 = s\<lparr>sb_Cols := cols, sb_Rows := rows, sb_Enabled := (5 \<le> rows)\<rparr>
      in if \<not> sb_Enabled s1 then (None, s1\<lparr>sb_active := False\<rparr>)
         else if sb_suspended s1 then (None, s1)
         else StatusBar_Draw render now (s1\<lparr>sb_active := False\<rparr>))"

text \<open>The bar is drawn only on a terminal with room for it, and never while it is suspended.\<close>

definition bar_ok :: "StatusBar \<Rightarrow> bool" where
  "bar_ok s \<longleftrightarrow> (sb_Enabled s \<longleftrightarrow> 5 \<le> sb_Rows s) \<and> (sb_active s \<longrightarrow> canRender s)"




lemma bar_line_fits: "length (bar_line now s) = unat (sb_Cols s)"
  by (simp add: bar_line_def Let_def)

text \<open>The program on the terminal has the rows above the bar, at least four, and the size never wraps around.\<close>

lemma PtySize_rows:
  assumes "bar_ok s" "canRender s"
  shows "unat (snd (PtySize s)) = unat (sb_Rows s) - 1 \<and> 4 \<le> unat (snd (PtySize s))"
proof -
  have rows: "5 \<le> sb_Rows s" using assms by (simp add: bar_ok_def canRender_def)
  then have five: "5 \<le> unat (sb_Rows s)" by (simp add: word_le_nat_alt)
  then have "1 \<le> sb_Rows s" by (simp add: word_le_nat_alt)
  then have "unat (sb_Rows s - 1) = unat (sb_Rows s) - 1" by (simp add: unat_sub)
  with five show ?thesis using assms(2) by (simp add: PtySize_def canRender_def)
qed

section \<open>Choosing a session\<close>

text \<open>The oldest running session no client is attached to; \<open>fmt\<close> writes a time as the node does.\<close>

definition attach_candidate :: "(nanos \<Rightarrow> string) \<Rightarrow> SessionInfo list \<Rightarrow> uint32 option" where
  "attach_candidate fmt sessions =
     (case sort_key (\<lambda>i. fmt (si_CreatedAt i)) (filter (\<lambda>i. si_Status i = ''running'' \<and> \<not> si_Attached i) sessions) of
        [] \<Rightarrow> None
      | i # is \<Rightarrow> Some (si_ID i))"

text \<open>The answer to the \<open>Attach\<close> request, decoded: it has to be a control frame that says \<open>Attached\<close>.\<close>

datatype attach_reply = ReplyFailed | ReplyClosed | ReplyData | ReplyUnreadable | ReplyControl string

datatype attach_refusal =
    ReadingReply | ClosedBeforeReply | ExpectedControl | ParsingReply | RefusedByNode | UnexpectedReply string

fun attach_accepted :: "attach_reply \<Rightarrow> attach_refusal option" where
  "attach_accepted ReplyFailed = Some ReadingReply"
| "attach_accepted ReplyClosed = Some ClosedBeforeReply"
| "attach_accepted ReplyData = Some ExpectedControl"
| "attach_accepted ReplyUnreadable = Some ParsingReply"
| "attach_accepted (ReplyControl t) =
     (if t = ''Error'' then Some RefusedByNode else if t \<noteq> ''Attached'' then Some (UnexpectedReply t) else None)"

section \<open>The main loop\<close>


text \<open>Who wrote to the terminal, and on what occasion.\<close>

datatype occasion = Initial | AltScreen | Resized | Redrawn | TornDown

datatype terminal_write = FromSession bytes | FromBar occasion bytes

datatype client_send = SendResize uint16 uint16 | SendDetach | SendInput bytes

datatype attach_exit = ConnectionError | ConnectionLost | BadControlFrame | DetachedFromSession | ErrorFromNode | WriteError

fun exit_code :: "attach_exit \<Rightarrow> nat" where
  "exit_code DetachedFromSession = 0"
| "exit_code ErrorFromNode = 0"
| "exit_code e = 1"

record attach =
  at_bar :: StatusBar
  at_out :: OutputState
  at_lastOutputAt :: "nanos option"   \<comment> \<open>None: the zero time\<close>
  at_lastBarDrawAt :: nanos
  at_pendingBarDraw :: bool
  at_stdout :: "terminal_write list"
  at_sent :: "client_send list"
  at_exit :: "attach_exit option"


definition bar_write :: "occasion \<Rightarrow> bytes option \<times> StatusBar \<Rightarrow> attach \<Rightarrow> attach" where
  "bar_write why r a =
     (case r of
        (None, bar) \<Rightarrow> a\<lparr>at_bar := bar\<rparr>
      | (Some bs, bar) \<Rightarrow> a\<lparr>at_bar := bar, at_stdout := at_stdout a @ [FromBar why bs]\<rparr>)"

definition sendResize :: "attach \<Rightarrow> attach" where
  "sendResize a = (case PtySize (at_bar a) of (cols, rows) \<Rightarrow> a\<lparr>at_sent := at_sent a @ [SendResize cols rows]\<rparr>)"






definition winch_event :: "(string \<Rightarrow> bytes) \<Rightarrow> nanos \<Rightarrow> (uint16 \<times> uint16) option \<Rightarrow> attach \<Rightarrow> attach" where
  "winch_event render now dims a =
     (case dims of
        None \<Rightarrow> a
      | Some (cols, rows) \<Rightarrow>
          (sendResize (bar_write Resized (StatusBar_Resize render now cols rows (at_bar a)) a))\<lparr>at_pendingBarDraw := False\<rparr>)"




section \<open>What the loop keeps\<close>

fun session_bytes :: "terminal_write list \<Rightarrow> bytes" where
  "session_bytes [] = []"
| "session_bytes (FromSession b # ws) = b @ session_bytes ws"
| "session_bytes (FromBar why b # ws) = session_bytes ws"

lemma session_bytes_append [simp]: "session_bytes (xs @ ys) = session_bytes xs @ session_bytes ys"
  by (induction xs rule: session_bytes.induct) simp_all


fun last_size :: "client_send list \<Rightarrow> (uint16 \<times> uint16) option" where
  "last_size [] = None"
| "last_size (s # ss) =
     (case last_size ss of Some d \<Rightarrow> Some d | None \<Rightarrow> (case s of SendResize cols rows \<Rightarrow> Some (cols, rows) | _ \<Rightarrow> None))"

lemma last_size_snoc:
  "last_size (ss @ [s]) = (case s of SendResize cols rows \<Rightarrow> Some (cols, rows) | _ \<Rightarrow> last_size ss)"
  by (induction ss) (auto split: client_send.splits option.splits)




lemma bar_write_fields [simp]:
  "at_out (bar_write why r a) = at_out a" "at_sent (bar_write why r a) = at_sent a"
  "at_exit (bar_write why r a) = at_exit a" "at_bar (bar_write why r a) = snd r"
  "session_bytes (at_stdout (bar_write why r a)) = session_bytes (at_stdout a)"
  by (simp_all add: bar_write_def split: prod.splits option.splits)


lemma sendResize_fields [simp]:
  "at_bar (sendResize a) = at_bar a" "at_out (sendResize a) = at_out a" "at_stdout (sendResize a) = at_stdout a"
  "at_exit (sendResize a) = at_exit a" "last_size (at_sent (sendResize a)) = Some (PtySize (at_bar a))"
  by (simp_all add: sendResize_def last_size_snoc split: prod.splits)














section \<open>The properties\<close>



section \<open>Two ways to disturb the terminal\<close>

text \<open>A new size draws the bar at once, also inside of a control sequence of the program.\<close>

lemma resize_draws_anywhere:
  assumes "5 \<le> rows" "\<not> sb_suspended (at_bar a)"
  shows "\<exists>b. at_stdout (winch_event render now (Some (cols, rows)) a) = at_stdout a @ [FromBar Resized b]"
  using assms by (simp add: winch_event_def StatusBar_Resize_def StatusBar_Draw_def canRender_def activate_def bar_write_def Let_def)

text \<open>When the terminal becomes too small for the bar, its scroll region is never taken back.\<close>

lemma small_terminal_keeps_region:
  assumes "rows < 5"
  shows "\<exists>s'. StatusBar_Resize render now cols rows s = (None, s') \<and> fst (StatusBar_Teardown s') = None"
proof -
  have "\<not> 5 \<le> rows" using assms by (simp add: not_le)
  then show ?thesis by (simp add: StatusBar_Resize_def StatusBar_Teardown_def Let_def)
qed

end
