(* ===== verification/ConfigFile.thy ===== *)
theory ConfigFile
  imports NetworkAuth "HOL-Library.List_Lexorder" "HOL-Library.Char_ord" "HOL-Library.Product_Lexorder"
begin

text \<open>
  The configuration of a client and a node: \<open>internal/config/codewire_yaml.go\<close> (the values of
  \<open>codewire.yaml\<close>: ports, mounts, agents) and \<open>internal/config/config.go\<close> (node names, the layers of
  \<open>config.toml\<close>, the environment and defaults, and which token goes to which relay).

  The decoding of YAML and TOML and the parsing of URLs are inputs. \<open>int\<close> has 64 bits.
\<close>

section \<open>The standard library\<close>

text \<open>\<open>strconv.Atoi\<close>: an optional sign and digits; out of range is an error too.\<close>

definition Atoi :: "string \<Rightarrow> int option" where
  "Atoi s =
     (let neg = has_prefix s ''-'';
          ds = (if has_prefix s ''-'' \<or> has_prefix s ''+'' then tl s else s);
          v = (if neg then - int (digits_val 0 ds) else int (digits_val 0 ds))
      in if ds = [] \<or> \<not> list_all is_digit ds then None
         else if - (2 ^ 63) \<le> v \<and> v < 2 ^ 63 then Some v else None)"

lemma digits_val_append: "digits_val n (xs @ ys) = digits_val (digits_val n xs) ys"
  by (induction xs arbitrary: n) simp_all

lemma digit_of: "n < 10 \<Longrightarrow> digit_val (char_of (48 + n)) = n \<and> is_digit (char_of (48 + n))"
proof -
  assume "n < 10"
  then have "n \<in> {0, 1, 2, 3, 4, 5, 6, 7, 8, 9}" by auto
  then show ?thesis by (auto simp: digit_val_def is_digit_def less_eq_char_def)
qed

lemma show_nat_digits: "digits_val 0 (show_nat n) = n \<and> list_all is_digit (show_nat n) \<and> show_nat n \<noteq> []"
proof (induction n rule: show_nat.induct)
  case (1 n)
  show ?case
  proof (cases "n < 10")
    case True
    then show ?thesis using digit_of [of n] by (subst (1 2 3) show_nat.simps) simp
  next
    case False
    then show ?thesis using 1 digit_of [of "n mod 10"]
      by (subst (1 2 3) show_nat.simps) (simp add: digits_val_append)
  qed
qed

lemma Atoi_show: "n < 2 ^ 63 \<Longrightarrow> Atoi (show_nat n) = Some (int n)"
proof -
  assume n: "n < 2 ^ 63"
  obtain c cs where s: "show_nat n = c # cs" "is_digit c" using show_nat_digits [of n] by (cases "show_nat n") auto
  then have "c \<noteq> CHR ''-''" "c \<noteq> CHR ''+''" by (auto simp: is_digit_def less_eq_char_def)
  then show ?thesis using show_nat_digits [of n] n s by (simp add: Atoi_def has_prefix_def Let_def)
qed

text \<open>\<open>filepath.Clean\<close>: the components of a path, without the ones that lead nowhere.\<close>

definition DOTDOT :: string where "DOTDOT = ''..''"

definition clean_step :: "bool \<Rightarrow> string list \<Rightarrow> string \<Rightarrow> string list" where
  "clean_step rooted done c =
     (if c = [] \<or> c = ''.'' then done
      else if c = DOTDOT then
        (if done \<noteq> [] \<and> last done \<noteq> DOTDOT then butlast done
         else if rooted then done
         else done @ [DOTDOT])
      else done @ [c])"

definition clean_path :: "string \<Rightarrow> string" where
  "clean_path p =
     (let rooted = has_prefix p ''/'';
          body = join_with ''/'' (foldl (clean_step rooted) [] (split_on (CHR ''/'') p))
      in if rooted then CHR ''/'' # body else if body = [] then ''.'' else body)"

text \<open>The components of a clean path: \<open>..\<close> only at the start, and never after the root.\<close>

definition plain_part :: "string \<Rightarrow> bool" where
  "plain_part c \<longleftrightarrow> c \<noteq> [] \<and> c \<noteq> ''.'' \<and> CHR ''/'' \<notin> set c"

definition clean_parts :: "bool \<Rightarrow> string list \<Rightarrow> bool" where
  "clean_parts rooted cs \<longleftrightarrow>
     list_all plain_part cs \<and>
     (\<exists>ups names. cs = replicate ups DOTDOT @ names \<and> DOTDOT \<notin> set names \<and> (rooted \<longrightarrow> ups = 0))"

lemma clean_parts_step:
  assumes "clean_parts rooted cs" "CHR ''/'' \<notin> set c"
  shows "clean_parts rooted (clean_step rooted cs c)"
proof -
  obtain ups names where cs: "cs = replicate ups DOTDOT @ names" "DOTDOT \<notin> set names" "rooted \<longrightarrow> ups = 0"
    and plain: "list_all plain_part cs"
    using assms(1) unfolding clean_parts_def by blast
  have up: "plain_part DOTDOT" by (simp add: plain_part_def DOTDOT_def)
  consider "c = [] \<or> c = ''.''" | "c = DOTDOT" "names \<noteq> []" | "c = DOTDOT" "names = []" | "plain_part c" "c \<noteq> DOTDOT"
    using assms(2) by (auto simp: plain_part_def)
  then show ?thesis
  proof cases
    case 1
    then show ?thesis using assms(1) by (auto simp: clean_step_def)
  next
    case 2
    then have "last names \<noteq> DOTDOT" using cs(2) by (metis last_in_set)
    then have "last cs \<noteq> DOTDOT" "cs \<noteq> []" using 2 cs(1) by auto
    then have "clean_step rooted cs c = replicate ups DOTDOT @ butlast names"
      using 2 cs(1) by (simp add: clean_step_def DOTDOT_def butlast_append)
    moreover have "list_all plain_part (replicate ups DOTDOT @ butlast names)"
      using plain cs(1) by (auto simp: list_all_iff dest: in_set_butlastD)
    moreover have "DOTDOT \<notin> set (butlast names)" using cs(2) by (auto dest: in_set_butlastD)
    ultimately show ?thesis using cs(3) by (auto simp: clean_parts_def)
  next
    case 3
    then have "cs = [] \<or> last cs = DOTDOT" using cs(1) by (cases ups) auto
    then have step: "clean_step rooted cs c = (if rooted then cs else cs @ [DOTDOT])"
      using 3 by (auto simp: clean_step_def DOTDOT_def)
    have "cs @ [DOTDOT] = replicate (Suc ups) DOTDOT @ []" using cs(1) 3 by (simp add: replicate_append_same)
    then have "clean_parts rooted (cs @ [DOTDOT])" if "\<not> rooted"
      using plain up that unfolding clean_parts_def by (metis empty_iff list.set(1) list_all_append list_all_iff list.set_intros(1) set_ConsD)
    then show ?thesis using step assms(1) by (cases rooted) simp_all
  next
    case 4
    then have "clean_step rooted cs c = replicate ups DOTDOT @ (names @ [c])"
      using cs(1) by (auto simp: clean_step_def plain_part_def)
    moreover have "list_all plain_part (replicate ups DOTDOT @ (names @ [c]))" using plain cs(1) 4 by simp
    moreover have "DOTDOT \<notin> set (names @ [c])" using cs(2) 4 by simp
    ultimately show ?thesis using cs(3) unfolding clean_parts_def by metis
  qed
qed

lemma clean_parts_fold:
  "clean_parts rooted cs \<Longrightarrow> (\<And>c. c \<in> set parts \<Longrightarrow> CHR ''/'' \<notin> set c) \<Longrightarrow> clean_parts rooted (foldl (clean_step rooted) cs parts)"
  by (induction parts arbitrary: cs) (simp_all add: clean_parts_step)

lemma fold_clean_parts: "clean_parts rooted cs \<Longrightarrow> foldl (clean_step rooted) [] cs = cs"
proof (induction cs rule: rev_induct)
  case (snoc c cs)
  note IH = snoc.IH
  obtain ups names where all: "cs @ [c] = replicate ups DOTDOT @ names" "DOTDOT \<notin> set names" "rooted \<longrightarrow> ups = 0"
    and plain: "list_all plain_part (cs @ [c])"
    using snoc.prems unfolding clean_parts_def by blast
  show ?case
  proof (cases names rule: rev_cases)
    case Nil
    then obtain u where u: "ups = Suc u" "cs = replicate u DOTDOT" "c = DOTDOT"
      using all(1) by (cases ups) (auto simp: replicate_append_same [symmetric])
    have "cs = replicate u DOTDOT @ []" "DOTDOT \<notin> set []" "rooted \<longrightarrow> u = 0" using u all(3) by simp_all
    then have "clean_parts rooted cs" using plain unfolding clean_parts_def by (metis list_all_append)
    moreover have "cs = [] \<or> last cs = DOTDOT" using u(2) by (cases u) auto
    ultimately have "foldl (clean_step rooted) [] cs = cs" by (intro IH)
    moreover have "clean_step rooted cs DOTDOT = cs @ [DOTDOT]"
      using \<open>cs = [] \<or> last cs = DOTDOT\<close> u(1) all(3) by (auto simp: clean_step_def DOTDOT_def)
    ultimately show ?thesis using u(3) by simp
  next
    case (snoc ns n)
    then have "cs = replicate ups DOTDOT @ ns" "c = n" using all(1) by auto
    moreover from this have "clean_parts rooted cs" using plain all(2,3) snoc by (auto simp: clean_parts_def)
    then have "foldl (clean_step rooted) [] cs = cs" by (rule IH)
    moreover have "clean_step rooted cs c = cs @ [c]"
      using plain all(2) snoc calculation(2) by (auto simp: clean_step_def plain_part_def)
    ultimately show ?thesis by simp
  qed
qed simp

lemma split_on_no_slash: "p \<in> set (split_on c s) \<Longrightarrow> c \<notin> set p"
  by (induction s arbitrary: p) (auto split: list.splits if_splits)

text \<open>Cleaning twice changes nothing more.\<close>

lemma clean_path_idem: "clean_path (clean_path p) = clean_path p"
proof -
  define rooted where "rooted = has_prefix p ''/''"
  define cs where "cs = foldl (clean_step rooted) [] (split_on (CHR ''/'') p)"
  have clean: "clean_parts rooted cs"
    unfolding cs_def using split_on_no_slash by (intro clean_parts_fold) (auto simp: clean_parts_def)
  then have parts: "\<And>c. c \<in> set cs \<Longrightarrow> CHR ''/'' \<notin> set c \<and> c \<noteq> []" by (auto simp: clean_parts_def list_all_iff plain_part_def)
  have folded: "foldl (clean_step rooted) [] cs = cs" by (rule fold_clean_parts [OF clean])
  have path: "clean_path p = (if rooted then CHR ''/'' # join_with ''/'' cs else if join_with ''/'' cs = [] then ''.'' else join_with ''/'' cs)"
    by (simp add: clean_path_def rooted_def cs_def Let_def)
  show ?thesis
  proof (cases "cs = []")
    case True
    then show ?thesis unfolding path by (simp add: clean_path_def has_prefix_def clean_step_def Let_def)
  next
    case False
    have split: "split_on (CHR ''/'') (join_with ''/'' cs) = cs" by (rule split_on_join [OF False]) (use parts in blast)
    obtain c ds where cs: "cs = c # ds" using False by (cases cs) auto
    have start: "join_with ''/'' cs \<noteq> [] \<and> \<not> has_prefix (join_with ''/'' cs) ''/''"
      using parts [of c] cs by (cases ds; cases c) (auto simp: has_prefix_def)
    show ?thesis
    proof (cases rooted)
      case True
      have "clean_step True [] [] = []" by (simp add: clean_step_def)
      then show ?thesis using True split folded path by (simp add: clean_path_def has_prefix_def Let_def)
    next
      case False
      then show ?thesis using start split folded path by (simp add: clean_path_def Let_def)
    qed
  qed
qed

section \<open>Mounts\<close>

text \<open>A YAML value as the decoders see it: a scalar's text, a mapping already decoded, or another node.\<close>

datatype 'a yaml_node = ScalarNode string | MappingNode 'a | OtherNode

record MountConfig =
  mc_Source :: string
  mc_Target :: string
  mc_Readonly :: "bool option"

datatype config_error =
    MountEmpty | MountSourceRequired | MountKind
  | PortEmpty | PortSyntax string | PortHostInvalid string | PortGuestInvalid string
  | PortBothForms | PortNotPositive | PortKind

definition mount_unmarshal :: "MountConfig yaml_node \<Rightarrow> config_error + MountConfig" where
  "mount_unmarshal node =
     (case node of
        ScalarNode v \<Rightarrow>
          if trim_space v = [] then Inl MountEmpty
          else Inr \<lparr>mc_Source = trim_space v, mc_Target = [], mc_Readonly = None\<rparr>
      | MappingNode m \<Rightarrow> if trim_space (mc_Source m) = [] then Inl MountSourceRequired else Inr m
      | OtherNode \<Rightarrow> Inl MountKind)"

definition mount_marshal :: "MountConfig \<Rightarrow> config_error + MountConfig yaml_node" where
  "mount_marshal m =
     (if trim_space (mc_Source m) = [] then Inl MountSourceRequired
      else if trim_space (mc_Target m) = [] \<and> mc_Readonly m = None then Inr (ScalarNode (mc_Source m))
      else Inr (MappingNode m))"

definition EffectiveTarget :: "MountConfig \<Rightarrow> string" where
  "EffectiveTarget m =
     (if trim_space (mc_Target m) \<noteq> [] then clean_path (trim_space (mc_Target m)) else clean_path (trim_space (mc_Source m)))"

definition IsReadOnly :: "MountConfig \<Rightarrow> bool" where
  "IsReadOnly m = (case mc_Readonly m of None \<Rightarrow> True | Some b \<Rightarrow> b)"

text \<open>
  The mounts of a local instance (\<open>limaAdditionalMounts\<close>), of which \<open>discovered\<close> come from the home
  directory: a later mount of the same source and target replaces an earlier one.
\<close>

definition normal_mount :: "MountConfig \<Rightarrow> MountConfig" where
  "normal_mount m =
     \<lparr>mc_Source = clean_path (trim_space (mc_Source m)), mc_Target = EffectiveTarget m, mc_Readonly = Some (IsReadOnly m)\<rparr>"

definition mount_key :: "MountConfig \<Rightarrow> string" where
  "mount_key m = mc_Source m @ CHR 0x00 # mc_Target m"

fun put_mount :: "MountConfig \<Rightarrow> MountConfig list \<Rightarrow> MountConfig list" where
  "put_mount m [] = [m]"
| "put_mount m (x # xs) = (if mount_key x = mount_key m then m # xs else x # put_mount m xs)"

definition limaAdditionalMounts :: "MountConfig list \<Rightarrow> MountConfig list \<Rightarrow> MountConfig list" where
  "limaAdditionalMounts discovered mounts =
     sort_key (\<lambda>m. (EffectiveTarget m, mc_Source m))
       (foldl (\<lambda>ms m. if clean_path (trim_space (mc_Source m)) = [] \<or> EffectiveTarget m = [] then ms
                      else put_mount (normal_mount m) ms) [] (discovered @ mounts))"

section \<open>Ports\<close>

record PortConfig =
  pc_Port :: int
  pc_HostPort :: int
  pc_GuestPort :: int
  pc_Label :: string

record raw_port =
  rp_Port :: int
  rp_HostPort :: int
  rp_GuestPort :: int
  rp_Published :: int
  rp_Target :: int
  rp_Label :: string

definition EffectiveGuestPort :: "PortConfig \<Rightarrow> int" where
  "EffectiveGuestPort p = (if 0 < pc_GuestPort p then pc_GuestPort p else pc_Port p)"

definition EffectiveHostPort :: "PortConfig \<Rightarrow> int" where
  "EffectiveHostPort p = (if 0 < pc_HostPort p then pc_HostPort p else EffectiveGuestPort p)"

definition port_only :: "int \<Rightarrow> string \<Rightarrow> PortConfig" where
  "port_only n label = \<lparr>pc_Port = n, pc_HostPort = 0, pc_GuestPort = 0, pc_Label = label\<rparr>"

definition port_pair :: "int \<Rightarrow> int \<Rightarrow> string \<Rightarrow> PortConfig" where
  "port_pair host guest label = \<lparr>pc_Port = 0, pc_HostPort = host, pc_GuestPort = guest, pc_Label = label\<rparr>"

definition Canonical :: "PortConfig \<Rightarrow> PortConfig" where
  "Canonical p =
     (let host = EffectiveHostPort p; guest = EffectiveGuestPort p in
      if host \<le> 0 \<or> guest \<le> 0 then port_only 0 (pc_Label p)
      else if host = guest then port_only guest (pc_Label p)
      else port_pair host guest (pc_Label p))"

definition canonicalizePortConfig :: "PortConfig \<Rightarrow> config_error + PortConfig" where
  "canonicalizePortConfig p =
     (let label = trim_space (pc_Label p);
          hasPort = (0 < pc_Port p);
          hasHostGuest = (0 < pc_HostPort p \<or> 0 < pc_GuestPort p)
      in if hasPort \<and> hasHostGuest then Inl PortBothForms
         else if hasPort then Inr (port_only (pc_Port p) label)
         else if pc_HostPort p \<le> 0 \<or> pc_GuestPort p \<le> 0 then Inl PortNotPositive
         else Inr (Canonical (port_pair (pc_HostPort p) (pc_GuestPort p) label)))"

definition parsePortConfigScalar :: "string \<Rightarrow> config_error + PortConfig" where
  "parsePortConfigScalar raw0 =
     (let raw = trim_space raw0 in
      if raw = [] then Inl PortEmpty
      else (case Atoi raw of
        Some n \<Rightarrow> canonicalizePortConfig (port_only n [])
      | None \<Rightarrow>
          (case split_on (CHR '':'') raw of
             [h, g] \<Rightarrow>
               (case Atoi (trim_space h) of
                  None \<Rightarrow> Inl (PortHostInvalid raw)
                | Some host \<Rightarrow>
                    (case Atoi (trim_space g) of
                       None \<Rightarrow> Inl (PortGuestInvalid raw)
                     | Some guest \<Rightarrow> canonicalizePortConfig (port_pair host guest [])))
           | _ \<Rightarrow> Inl (PortSyntax raw))))"

definition port_unmarshal :: "raw_port yaml_node \<Rightarrow> config_error + PortConfig" where
  "port_unmarshal node =
     (case node of
        ScalarNode v \<Rightarrow> parsePortConfigScalar v
      | MappingNode raw \<Rightarrow>
          canonicalizePortConfig
            \<lparr>pc_Port = rp_Port raw,
             pc_HostPort = (if 0 < rp_Published raw then rp_Published raw else rp_HostPort raw),
             pc_GuestPort = (if 0 < rp_Target raw then rp_Target raw else rp_GuestPort raw),
             pc_Label = rp_Label raw\<rparr>
      | OtherNode \<Rightarrow> Inl PortKind)"

text \<open>What \<open>MarshalYAML\<close> gives to the encoder: a number, a string or a struct, whose zero fields are left out.\<close>

definition port_marshal :: "PortConfig \<Rightarrow> config_error + raw_port yaml_node" where
  "port_marshal p =
     (case canonicalizePortConfig p of
        Inl err \<Rightarrow> Inl err
      | Inr c \<Rightarrow>
          let host = EffectiveHostPort c; guest = EffectiveGuestPort c in
          if trim_space (pc_Label c) = [] then
            (if host = guest then Inr (ScalarNode (show_int guest))
             else Inr (ScalarNode (show_int host @ '':'' @ show_int guest)))
          else if 0 < pc_Port c then
            Inr (MappingNode \<lparr>rp_Port = pc_Port c, rp_HostPort = 0, rp_GuestPort = 0, rp_Published = 0, rp_Target = 0,
                              rp_Label = pc_Label c\<rparr>)
          else Inr (MappingNode \<lparr>rp_Port = 0, rp_HostPort = pc_HostPort c, rp_GuestPort = pc_GuestPort c,
                                 rp_Published = 0, rp_Target = 0, rp_Label = pc_Label c\<rparr>))"

section \<open>Agents\<close>

definition CanonicalAgentID :: "string \<Rightarrow> string" where
  "CanonicalAgentID raw =
     (let s = trim_space (to_lower raw) in
      if s = ''claude'' \<or> s = ''claude-code'' then ''claude-code''
      else if s = ''codex'' then ''codex''
      else if s = ''gemini'' \<or> s = ''gemini-cli'' then ''gemini-cli''
      else if s = ''aider'' then ''aider''
      else trim_space raw)"

definition DisplayAgentID :: "string \<Rightarrow> string" where
  "DisplayAgentID raw =
     (if CanonicalAgentID raw = ''claude-code'' then ''claude''
      else if CanonicalAgentID raw = ''gemini-cli'' then ''gemini''
      else CanonicalAgentID raw)"

section \<open>The configuration of a node\<close>

definition name_byte :: "byte \<Rightarrow> bool" where
  "name_byte c \<longleftrightarrow>
     CHR ''a'' \<le> c \<and> c \<le> CHR ''z'' \<or> CHR ''A'' \<le> c \<and> c \<le> CHR ''Z'' \<or> CHR ''0'' \<le> c \<and> c \<le> CHR ''9'' \<or>
     c = CHR ''-'' \<or> c = CHR ''_''"

definition ValidateNodeName :: "string \<Rightarrow> bool" where
  "ValidateNodeName name \<longleftrightarrow> name \<noteq> [] \<and> list_all name_byte name"

text \<open>The environment, a variable that is not set being empty.\<close>

type_synonym env = "string \<Rightarrow> string"

definition defaultName :: "env \<Rightarrow> string" where
  "defaultName env =
     (let raw = (if env ''HOSTNAME'' = [] then env ''HOST'' else env ''HOSTNAME'')
      in if raw = [] then ''codewire'' else map (\<lambda>c. if name_byte c then c else CHR ''-'') raw)"

record Config =
  cf_NodeName :: string
  cf_Listen :: "string option"
  cf_ExternalURL :: "string option"
  cf_RelayURL :: "string option"
  cf_RelaySelectedNetwork :: "string option"
  cf_RelayNodeToken :: "string option"
  cf_RelayNodeNetwork :: "string option"
  cf_RelayInviteToken :: "string option"

text \<open>A setting the file does not have is taken from a variable that is set.\<close>

definition env_default :: "env \<Rightarrow> string \<Rightarrow> string option \<Rightarrow> string option" where
  "env_default env var v = (case v of Some x \<Rightarrow> Some x | None \<Rightarrow> if env var \<noteq> [] then Some (env var) else None)"

text \<open>
  \<open>file\<close> is the decoded file over the given default, \<open>Some None\<close> when it does not parse and \<open>None\<close> when
  there is none; \<open>hosted\<close> is the result of \<open>deriveHostedRelayURL\<close>.
\<close>

datatype load_error = ConfigUnparsable | NodeNameInvalid string

definition LoadConfig :: "env \<Rightarrow> (Config \<Rightarrow> Config option) option \<Rightarrow> string \<Rightarrow> load_error + Config" where
  "LoadConfig env file hosted =
     (let c0 = \<lparr>cf_NodeName = defaultName env, cf_Listen = None, cf_ExternalURL = None, cf_RelayURL = None,
                cf_RelaySelectedNetwork = None, cf_RelayNodeToken = None, cf_RelayNodeNetwork = None,
                cf_RelayInviteToken = None\<rparr>;
          decoded = (case file of
            None \<Rightarrow> Some c0
          | Some decode \<Rightarrow>
              map_option (\<lambda>c. if cf_NodeName c = [] then c\<lparr>cf_NodeName := defaultName env\<rparr> else c) (decode c0))
      in (case decoded of
            None \<Rightarrow> Inl ConfigUnparsable
          | Some c \<Rightarrow>
              let name = (if env ''CODEWIRE_NODE_NAME'' \<noteq> [] then env ''CODEWIRE_NODE_NAME'' else cf_NodeName c);
                  relay = env_default env ''CODEWIRE_RELAY_URL'' (cf_RelayURL c);
                  c1 = \<lparr>cf_NodeName = name, cf_Listen = env_default env ''CODEWIRE_LISTEN'' (cf_Listen c),
                        cf_ExternalURL = env_default env ''CODEWIRE_EXTERNAL_URL'' (cf_ExternalURL c),
                        cf_RelayURL = (case relay of Some u \<Rightarrow> Some u | None \<Rightarrow> if hosted \<noteq> [] then Some hosted else None),
                        cf_RelaySelectedNetwork = env_default env ''CODEWIRE_RELAY_NETWORK'' (cf_RelaySelectedNetwork c),
                        cf_RelayNodeToken = env_default env ''CODEWIRE_RELAY_NODE_TOKEN'' (cf_RelayNodeToken c),
                        cf_RelayNodeNetwork = env_default env ''CODEWIRE_RELAY_NODE_NETWORK'' (cf_RelayNodeNetwork c),
                        cf_RelayInviteToken = env_default env ''CODEWIRE_RELAY_INVITE_TOKEN'' (cf_RelayInviteToken c)\<rparr>
              in if ValidateNodeName name then Inr c1 else Inl (NodeNameInvalid name)))"

section \<open>Tokens for a relay\<close>

text \<open>
  The login of the platform: its server and session, \<open>None\<close> when it cannot be read. \<open>url\<close> gives the
  scheme and host name of a URL, \<open>url_text\<close> writes one again without query, fragment and slashes at
  the end of its path; both are \<open>None\<close> for a text that is not a URL.
\<close>

record platform_login =
  pl_ServerURL :: string
  pl_SessionToken :: string

definition hosted_names :: "string list" where
  "hosted_names = [''codewire.sh'', ''www.codewire.sh'', ''app.codewire.sh'', ''api.codewire.sh'']"

definition deriveHostedRelayURL ::
  "(string \<Rightarrow> (string \<times> string) option) \<Rightarrow> platform_login option \<Rightarrow> string" where
  "deriveHostedRelayURL url login =
     (case login of
        None \<Rightarrow> []
      | Some l \<Rightarrow>
          if trim_space (pl_ServerURL l) = [] then []
          else (case url (trim_space (pl_ServerURL l)) of
             None \<Rightarrow> []
           | Some (scheme, host) \<Rightarrow>
               if host = [] then []
               else if host \<in> set hosted_names
               then (if scheme = [] then ''https'' else scheme) @ ''://'' @ ''relay.codewire.sh''
               else []))"

definition trim_slashes :: "string \<Rightarrow> string" where
  "trim_slashes s = rev (dropWhile (\<lambda>c. c = CHR ''/'') (rev s))"

definition normal_relay :: "(string \<Rightarrow> string option) \<Rightarrow> string \<Rightarrow> string" where
  "normal_relay url_text raw0 =
     (let raw = trim_space raw0 in
      if raw = [] then [] else (case url_text raw of None \<Rightarrow> trim_slashes raw | Some t \<Rightarrow> t))"

definition sameRelayURL :: "(string \<Rightarrow> string option) \<Rightarrow> string \<Rightarrow> string \<Rightarrow> bool" where
  "sameRelayURL url_text a b \<longleftrightarrow> normal_relay url_text a \<noteq> [] \<and> normal_relay url_text a = normal_relay url_text b"

definition ResolveRelayUserAuthToken ::
  "(string \<Rightarrow> (string \<times> string) option) \<Rightarrow> (string \<Rightarrow> string option) \<Rightarrow> env \<Rightarrow> platform_login option \<Rightarrow> string \<Rightarrow> string" where
  "ResolveRelayUserAuthToken url url_text env login relayURL =
     (if trim_space (env ''CODEWIRE_RELAY_AUTH_TOKEN'') \<noteq> [] then trim_space (env ''CODEWIRE_RELAY_AUTH_TOKEN'')
      else
        let hosted = deriveHostedRelayURL url login in
        if hosted = [] \<or> \<not> sameRelayURL url_text relayURL hosted then []
        else if trim_space (env ''CODEWIRE_API_KEY'') \<noteq> [] then trim_space (env ''CODEWIRE_API_KEY'')
        else (case login of None \<Rightarrow> [] | Some l \<Rightarrow> trim_space (pl_SessionToken l)))"

end
