(* ===== verification/ConfigFacts.thy ===== *)
theory ConfigFacts
  imports ConfigFile ClientFacts
begin

text \<open>
  What the configuration keeps: values of \<open>codewire.yaml\<close> read back as they were written, mounts that
  are not given twice, node names that are valid, and tokens that stay with the platform's relay.
\<close>

section \<open>Ports\<close>

lemma canonicalize_form:
  assumes "canonicalizePortConfig p = Inr c"
  shows "(\<exists>n. 0 < n \<and> n \<in> {pc_Port p, pc_HostPort p} \<and> c = port_only n (trim_space (pc_Label p))) \<or>
    (0 < pc_HostPort p \<and> 0 < pc_GuestPort p \<and> pc_HostPort p \<noteq> pc_GuestPort p \<and>
     c = port_pair (pc_HostPort p) (pc_GuestPort p) (trim_space (pc_Label p)))"
  using assms
  by (auto simp: canonicalizePortConfig_def Let_def Canonical_def EffectiveHostPort_def EffectiveGuestPort_def port_only_def
      port_pair_def split: if_splits)

lemma canonicalize_only: "0 < n \<Longrightarrow> trim_space l = l \<Longrightarrow> canonicalizePortConfig (port_only n l) = Inr (port_only n l)"
  by (simp add: canonicalizePortConfig_def port_only_def)

lemma canonicalize_pair:
  "0 < h \<Longrightarrow> 0 < g \<Longrightarrow> h \<noteq> g \<Longrightarrow> trim_space l = l \<Longrightarrow> canonicalizePortConfig (port_pair h g l) = Inr (port_pair h g l)"
  by (simp add: canonicalizePortConfig_def port_pair_def Canonical_def EffectiveHostPort_def EffectiveGuestPort_def)

lemma Atoi_show_int: "0 \<le> n \<Longrightarrow> n < 2 ^ 63 \<Longrightarrow> Atoi (show_int n) = Some n"
  using Atoi_show [of "nat n"] by (simp add: show_int_def nat_less_iff)

lemma digit_no_colon: "list_all is_digit s \<Longrightarrow> CHR '':'' \<notin> set s"
  by (auto simp: list_all_iff is_digit_def less_eq_char_def)

lemma show_int_digits: "0 \<le> n \<Longrightarrow> list_all is_digit (show_int n) \<and> show_int n \<noteq> []"
  using show_nat_digits [of "nat n"] by (simp add: show_int_def)

lemma Atoi_other:
  assumes "\<not> list_all is_digit s" "\<not> list_all is_digit (tl s)"
  shows "Atoi s = None"
proof -
  have "\<not> list_all is_digit (if b then tl s else s)" for b using assms by (cases b) simp_all
  then show ?thesis by (simp only: Atoi_def Let_def de_Morgan_disj simp_thms if_True)
qed

lemma digit_name_char: "is_digit c \<Longrightarrow> name_char c"
  by (auto simp: is_digit_def name_char_def is_alnum_def)

lemma parse_pair:
  assumes "0 < h" "0 < g" "h < 2 ^ 63" "g < 2 ^ 63"
  shows "parsePortConfigScalar (show_int h @ '':'' @ show_int g) = canonicalizePortConfig (port_pair h g [])"
proof -
  let ?s = "show_int h @ '':'' @ show_int g"
  have h: "list_all is_digit (show_int h)" "show_int h \<noteq> []" and g: "list_all is_digit (show_int g)" "show_int g \<noteq> []"
    using show_int_digits [of h] show_int_digits [of g] assms by auto
  have ends: "name_char (hd ?s)" "name_char (last ?s)"
    using h g digit_name_char by (auto simp: list_all_iff hd_append last_append intro: hd_in_set last_in_set)
  then have trim: "trim_space ?s = ?s" using h(2) by (intro trim_space_ends) simp_all
  have split: "split_on (CHR '':'') ?s = [show_int h, show_int g]"
    using digit_no_colon [OF h(1)] digit_no_colon [OF g(1)] by (simp add: split_on_append split_on_no_sep)
  have colon: "\<not> is_digit (CHR '':'')" by (simp add: is_digit_def less_eq_char_def)
  then have "\<not> list_all is_digit ?s" unfolding list_all_append by simp
  moreover have "\<not> list_all is_digit (tl ?s)" unfolding tl_append2 [OF h(2)] list_all_append using colon by simp
  ultimately have "Atoi ?s = None" by (rule Atoi_other)
  then show ?thesis
    unfolding parsePortConfigScalar_def trim
    using h(2) split Atoi_show_int [of h] Atoi_show_int [of g] assms by (simp add: Let_def)
qed

section \<open>Mounts\<close>

lemma keys_put_mount: "set (map mount_key (put_mount m ms)) = insert (mount_key m) (set (map mount_key ms))"
  by (induction ms) auto

lemma put_mount_distinct: "distinct (map mount_key ms) \<Longrightarrow> distinct (map mount_key (put_mount m ms))"
proof (induction ms)
  case (Cons x ms)
  then show ?case using keys_put_mount [of m ms] by auto
qed simp

lemma mounts_distinct: "distinct (map mount_key (limaAdditionalMounts discovered mounts))"
proof -
  let ?add = "\<lambda>ms m. if clean_path (trim_space (mc_Source m)) = [] \<or> EffectiveTarget m = [] then ms else put_mount (normal_mount m) ms"
  have "distinct (map mount_key ms) \<Longrightarrow> distinct (map mount_key (foldl ?add ms xs))" for ms xs
    by (induction xs arbitrary: ms) (simp_all add: put_mount_distinct)
  from this [of "[]" "discovered @ mounts"]
  have "distinct (map mount_key (foldl ?add [] (discovered @ mounts)))" by (simp del: foldl_append)
  then show ?thesis unfolding limaAdditionalMounts_def distinct_map by (simp del: foldl_append)
qed

lemma mount_kept:
  assumes "mount_marshal m = Inr node"
  shows "\<exists>m'. mount_unmarshal node = Inr m' \<and> trim_space (mc_Source m') = trim_space (mc_Source m) \<and>
    EffectiveTarget m' = EffectiveTarget m \<and> IsReadOnly m' = IsReadOnly m"
proof (cases "trim_space (mc_Target m) = [] \<and> mc_Readonly m = None")
  case True
  then have "node = ScalarNode (mc_Source m)" "trim_space (mc_Source m) \<noteq> []"
    using assms by (simp_all add: mount_marshal_def split: if_splits)
  then show ?thesis using True
    by (simp add: mount_unmarshal_def EffectiveTarget_def IsReadOnly_def trim_space_idem)
next
  case False
  then have "node = MappingNode m" "trim_space (mc_Source m) \<noteq> []"
    using assms unfolding mount_marshal_def by (metis Inr_inject sum.distinct(1))+
  then show ?thesis by (simp add: mount_unmarshal_def)
qed

section \<open>Names and layers\<close>

lemma default_name_valid: "ValidateNodeName (defaultName env)"
proof -
  have "name_byte CHR ''-''" by (simp add: name_byte_def)
  then show ?thesis
    by (auto simp: ValidateNodeName_def defaultName_def Let_def list_all_iff name_byte_def less_eq_char_def)
qed

text \<open>Without a file and a name in the environment the configuration always loads.\<close>

lemma load_defaults:
  assumes "env ''CODEWIRE_NODE_NAME'' = []"
  shows "\<exists>c. LoadConfig env None hosted = Inr c \<and> cf_NodeName c = defaultName env"
  using assms default_name_valid [of env] by (simp add: LoadConfig_def Let_def)

text \<open>A loaded configuration has a valid name, and what the file says about the relay wins over the environment.\<close>

lemma loaded_config:
  assumes "LoadConfig env (Some decode) hosted = Inr c"
  shows "\<exists>f. decode \<lparr>cf_NodeName = defaultName env, cf_Listen = None, cf_ExternalURL = None, cf_RelayURL = None,
      cf_RelaySelectedNetwork = None, cf_RelayNodeToken = None, cf_RelayNodeNetwork = None, cf_RelayInviteToken = None\<rparr> = Some f \<and>
    ValidateNodeName (cf_NodeName c) \<and> (cf_RelayURL f \<noteq> None \<longrightarrow> cf_RelayURL c = cf_RelayURL f) \<and>
    (cf_RelayNodeToken f \<noteq> None \<longrightarrow> cf_RelayNodeToken c = cf_RelayNodeToken f)"
proof -
  let ?d = "\<lparr>cf_NodeName = defaultName env, cf_Listen = None, cf_ExternalURL = None, cf_RelayURL = None,
      cf_RelaySelectedNetwork = None, cf_RelayNodeToken = None, cf_RelayNodeNetwork = None, cf_RelayInviteToken = None\<rparr>"
  obtain f where f: "decode ?d = Some f"
    using assms by (cases "decode ?d") (simp_all add: LoadConfig_def)
  have keep: "env_default env v (Some x) = Some x" for v x by (simp add: env_default_def)
  have "ValidateNodeName (cf_NodeName c)" using assms f
    by (simp add: LoadConfig_def Let_def split: if_split_asm) (metis Config.select_convs(1))+
  moreover have "cf_RelayURL f \<noteq> None \<Longrightarrow> cf_RelayURL c = cf_RelayURL f" using assms f keep
    by (auto simp: LoadConfig_def Let_def split: if_split_asm)
  moreover have "cf_RelayNodeToken f \<noteq> None \<Longrightarrow> cf_RelayNodeToken c = cf_RelayNodeToken f" using assms f keep
    by (auto simp: LoadConfig_def Let_def split: if_split_asm)
  ultimately show ?thesis using f by blast
qed

section \<open>The properties\<close>

text \<open>
  A port that can be written to \<open>codewire.yaml\<close> is read back in its canonical form, in each of the
  forms it is written in: a number, a pair \<open>HOST:GUEST\<close>, and a mapping with a label.
\<close>

theorem port_config_roundtrip:
  assumes "port_marshal p = Inr node" "pc_Port p < 2 ^ 63" "pc_HostPort p < 2 ^ 63" "pc_GuestPort p < 2 ^ 63"
  shows "\<exists>c. canonicalizePortConfig p = Inr c \<and> port_unmarshal node = Inr c"
proof -
  let ?l = "trim_space (pc_Label p)"
  obtain c where c: "canonicalizePortConfig p = Inr c" using assms(1) by (auto simp: port_marshal_def split: sum.splits)
  have label: "trim_space ?l = ?l" by (rule trim_space_idem)
  consider n where "0 < n" "n < 2 ^ 63" "c = port_only n ?l"
    | "0 < pc_HostPort p" "0 < pc_GuestPort p" "pc_HostPort p \<noteq> pc_GuestPort p" "c = port_pair (pc_HostPort p) (pc_GuestPort p) ?l"
    using canonicalize_form [OF c] assms(2,3) by fastforce
  then have "port_unmarshal node = Inr c"
  proof cases
    case 1
    have scalar: "parsePortConfigScalar (show_int n) = Inr (port_only n [])"
      using 1 Atoi_show_int [of n] show_int_digits [of n] canonicalize_only [of n "[]"]
      by (simp add: parsePortConfigScalar_def Let_def)
    show ?thesis
    proof (cases "?l = []")
      case True
      then have "node = ScalarNode (show_int n)" using assms(1) c 1
        by (simp add: port_marshal_def port_only_def EffectiveHostPort_def EffectiveGuestPort_def Let_def)
      then show ?thesis using scalar True 1 by (simp add: port_unmarshal_def)
    next
      case False
      then have "node = MappingNode \<lparr>rp_Port = n, rp_HostPort = 0, rp_GuestPort = 0, rp_Published = 0, rp_Target = 0, rp_Label = ?l\<rparr>"
        using assms(1) c 1 label by (simp add: port_marshal_def port_only_def Let_def)
      then show ?thesis using canonicalize_only [OF 1(1) label] 1 by (simp add: port_unmarshal_def port_only_def)
    qed
  next
    case 2
    show ?thesis
    proof (cases "?l = []")
      case True
      then have "node = ScalarNode (show_int (pc_HostPort p) @ '':'' @ show_int (pc_GuestPort p))" using assms(1) c 2
        by (simp add: port_marshal_def port_pair_def EffectiveHostPort_def EffectiveGuestPort_def Let_def)
      then show ?thesis
        using parse_pair [OF 2(1,2) assms(3,4)] canonicalize_pair [OF 2(1-3), of "[]"] 2 True by (simp add: port_unmarshal_def)
    next
      case False
      then have "node = MappingNode \<lparr>rp_Port = 0, rp_HostPort = pc_HostPort p, rp_GuestPort = pc_GuestPort p, rp_Published = 0,
          rp_Target = 0, rp_Label = ?l\<rparr>"
        using assms(1) c 2 label by (simp add: port_marshal_def port_pair_def Let_def)
      then show ?thesis using canonicalize_pair [OF 2(1-3) label] 2 by (simp add: port_unmarshal_def port_pair_def)
    qed
  qed
  then show ?thesis using c by blast
qed

theorem port_config_roundtrip_witness:
  "\<exists>node c. port_marshal (port_pair 8080 80 []) = Inr node \<and> port_unmarshal node = Inr c \<and> c = port_pair 8080 80 []"
proof -
  have node: "port_marshal (port_pair 8080 80 []) = Inr (ScalarNode (show_int 8080 @ '':'' @ show_int 80))"
    using canonicalize_pair [of 8080 80 "[]"]
    by (simp add: port_marshal_def port_pair_def EffectiveHostPort_def EffectiveGuestPort_def Let_def)
  moreover have "\<exists>c. canonicalizePortConfig (port_pair 8080 80 []) = Inr c \<and>
      port_unmarshal (ScalarNode (show_int 8080 @ '':'' @ show_int 80)) = Inr c"
    by (rule port_config_roundtrip [OF node]) (simp_all add: port_pair_def)
  ultimately show ?thesis using canonicalize_pair [of 8080 80 "[]"] by auto
qed

text \<open>
  C30. Unless the user gives a token for relays, the credentials of the platform (the API key and the
  session) are sent to a relay only when its URL is the one of the hosted relay, which is derived only
  from a login to a host of the platform; every other relay gets no token.
\<close>

theorem platform_token_stays_home:
  assumes "trim_space (env ''CODEWIRE_RELAY_AUTH_TOKEN'') = []"
    and "ResolveRelayUserAuthToken url url_text env login relayURL = token" "token \<noteq> []"
  shows "\<exists>l scheme host. login = Some l \<and> url (trim_space (pl_ServerURL l)) = Some (scheme, host) \<and> host \<in> set hosted_names \<and>
    normal_relay url_text relayURL =
      normal_relay url_text ((if scheme = [] then ''https'' else scheme) @ ''://relay.codewire.sh'') \<and>
    (token = trim_space (env ''CODEWIRE_API_KEY'') \<or> token = trim_space (pl_SessionToken l))"
proof -
  let ?hosted = "deriveHostedRelayURL url login"
  have hosted: "?hosted \<noteq> []" "sameRelayURL url_text relayURL ?hosted"
    and token: "token = (if trim_space (env ''CODEWIRE_API_KEY'') \<noteq> [] then trim_space (env ''CODEWIRE_API_KEY'')
      else (case login of None \<Rightarrow> [] | Some l \<Rightarrow> trim_space (pl_SessionToken l)))"
    using assms by (auto simp: ResolveRelayUserAuthToken_def Let_def split: if_splits)
  obtain l scheme host where l: "login = Some l" "url (trim_space (pl_ServerURL l)) = Some (scheme, host)" "host \<in> set hosted_names"
    "?hosted = (if scheme = [] then ''https'' else scheme) @ ''://relay.codewire.sh''"
    using hosted(1) by (auto simp: deriveHostedRelayURL_def split: option.splits if_splits)
  moreover have "normal_relay url_text relayURL = normal_relay url_text ?hosted" using hosted(2) by (simp add: sameRelayURL_def)
  moreover have "token = trim_space (env ''CODEWIRE_API_KEY'') \<or> token = trim_space (pl_SessionToken l)" using token l(1) by auto
  ultimately show ?thesis by auto
qed

definition demo_login :: platform_login where
  "demo_login = \<lparr>pl_ServerURL = ''https://codewire.sh'', pl_SessionToken = ''s3''\<rparr>"

definition demo_url :: "string \<Rightarrow> (string \<times> string) option" where
  "demo_url u = (if u = ''https://codewire.sh'' then Some (''https'', ''codewire.sh'') else None)"

theorem platform_token_stays_home_witness:
  "ResolveRelayUserAuthToken demo_url Some (\<lambda>v. []) (Some demo_login) ''https://relay.codewire.sh'' = ''s3'' \<and>
   normal_relay Some ''https://relay.codewire.sh'' = normal_relay Some (''https'' @ ''://relay.codewire.sh'')"
proof -
  have trims: "trim_space ''https://codewire.sh'' = ''https://codewire.sh''" "trim_space ''s3'' = ''s3''"
    "trim_space ''https://relay.codewire.sh'' = ''https://relay.codewire.sh''" by code_simp+
  then have "ResolveRelayUserAuthToken demo_url Some (\<lambda>v. []) (Some demo_login) ''https://relay.codewire.sh'' = ''s3''"
    by (simp add: ResolveRelayUserAuthToken_def deriveHostedRelayURL_def demo_url_def demo_login_def hosted_names_def
        sameRelayURL_def normal_relay_def Let_def)
  then show ?thesis
    using platform_token_stays_home [of "\<lambda>v. []" demo_url Some "Some demo_login" "''https://relay.codewire.sh''" "''s3''"]
    by (auto simp: demo_url_def split: if_splits)
qed

end
