(* ===== verification/DemoPool.thy ===== *)
theory DemoPool
  imports Prelude "HOL-Library.Multiset"
begin

text \<open>
  The broker of the public demo (\<open>demo/broker\<close>): the pool of warm pods, their assignment to visitors,
  the reaper and the admission of a viewer to a pod's terminal.

  The cluster is the list of its pods. The random identifiers of pods and visitors are arguments of the
  steps that draw them. One goroutine fills the pool, so at most one pod is being created at a time; its
  steps (the create call, the polling for an address) interleave with all others, and every section
  under the pool's lock is one step. The reaper deletes each pod in a goroutine of its own.
\<close>

section \<open>The pool\<close>

record podInfo =
  pi_Name :: string
  pi_IP :: string
  pi_Token :: string
  pi_CreatedAt :: nanos

record DemoConfig =
  dc_PoolSize :: int
  dc_PodMaxAge :: int

record Pool =
  pl_warm :: "podInfo list"
  pl_assigned :: "(string, podInfo) gomap"

definition NewPool :: Pool where
  "NewPool = \<lparr>pl_warm = [], pl_assigned = []\<rparr>"

definition Assign :: "string \<Rightarrow> Pool \<Rightarrow> podInfo option \<times> Pool" where
  "Assign token p =
     (case pl_warm p of
        [] \<Rightarrow> (None, p)
      | pod0 # rest \<Rightarrow>
          let pod = pod0\<lparr>pi_Token := token\<rparr>
          in (Some pod, p\<lparr>pl_warm := rest, pl_assigned := mput token pod (pl_assigned p)\<rparr>))"

definition Pool_Lookup :: "string \<Rightarrow> Pool \<Rightarrow> podInfo option" where
  "Pool_Lookup token p = mget (pl_assigned p) token"

definition pod_expired :: "DemoConfig \<Rightarrow> nanos \<Rightarrow> podInfo \<Rightarrow> bool" where
  "pod_expired cfg now pod \<longleftrightarrow> seconds (dc_PodMaxAge cfg) < now - pi_CreatedAt pod"

text \<open>The reaper takes the expired pods out of the table; their names are what it goes on to delete.\<close>

definition reapExpired :: "DemoConfig \<Rightarrow> nanos \<Rightarrow> Pool \<Rightarrow> string list \<times> Pool" where
  "reapExpired cfg now p =
     (map (\<lambda>(token, pod). pi_Name pod) (filter (\<lambda>(token, pod). pod_expired cfg now pod) (pl_assigned p)),
      p\<lparr>pl_assigned := filter (\<lambda>(token, pod). \<not> pod_expired cfg now pod) (pl_assigned p)\<rparr>)"

section \<open>The requests\<close>

text \<open>\<open>HandleHealth\<close>: whether there is a warm pod, and the sizes of the pool.\<close>

definition HandleHealth :: "Pool \<Rightarrow> bool \<times> nat \<times> nat" where
  "HandleHealth p = (pl_warm p \<noteq> [], length (pl_warm p), length (pl_assigned p))"

text \<open>\<open>HandleSession\<close>: the address the visitor's browser opens, or none when the demo is at capacity.\<close>

definition session_url :: "string \<Rightarrow> bool \<Rightarrow> bool \<Rightarrow> podInfo \<Rightarrow> string" where
  "session_url host tls forwarded_https pod =
     (if \<not> tls \<and> \<not> forwarded_https then ''ws'' else ''wss'') @ ''://'' @ host @ ''/ws/'' @ pi_Name pod @
     ''?token='' @ pi_Token pod"

definition HandleSession :: "string \<Rightarrow> bool \<Rightarrow> bool \<Rightarrow> string \<Rightarrow> Pool \<Rightarrow> (string \<times> string) option \<times> Pool" where
  "HandleSession host tls forwarded_https token p =
     (case Assign token p of
        (None, p') \<Rightarrow> (None, p')
      | (Some pod, p') \<Rightarrow> (Some (session_url host tls forwarded_https pod, pi_Name pod), p'))"

datatype ws_reply = WsBadRequest | WsForbidden | WsNotReady | WsDial string

text \<open>\<open>HandleWS\<close> up to the connection to the pod: the path and the token of the request decide.\<close>

definition trim_right_slashes :: "string \<Rightarrow> string" where
  "trim_right_slashes s = rev (dropWhile (\<lambda>c. c = CHR ''/'') (rev s))"

definition HandleWS :: "string \<Rightarrow> string \<Rightarrow> Pool \<Rightarrow> ws_reply" where
  "HandleWS path token p =
     (let podName = trim_right_slashes (trim_prefix path ''/ws/'') in
      if podName = [] \<or> token = [] then WsBadRequest
      else (case Pool_Lookup token p of
              None \<Rightarrow> WsForbidden
            | Some pod \<Rightarrow>
                if pi_Name pod \<noteq> podName then WsForbidden
                else if pi_IP pod = [] then WsNotReady
                else WsDial (''ws://'' @ pi_IP pod @ '':7681/ws'')))"

text \<open>Which origins may read an answer.\<close>

definition corsAllowed :: "string \<Rightarrow> string \<Rightarrow> bool" where
  "corsAllowed allowedOrigin origin \<longleftrightarrow>
     origin \<noteq> [] \<and> (allowedOrigin = ''*'' \<or> list_ex (\<lambda>c. trim_space c = origin) (split_on (CHR '','') allowedOrigin))"

section \<open>The broker and its cluster\<close>

text \<open>
  Where the goroutine that fills the pool is: idle, about to create the next of \<open>left\<close> pods, or waiting
  for a created one to get an address.
\<close>

datatype filler = Idle | Filling nat | Waiting nat string nanos

text \<open>
  \<open>br_served\<close> are the assignments so far, newest first; \<open>br_doomed\<close> the pods some goroutine is deleting
  or has deleted.
\<close>

record broker =
  br_pool :: Pool
  br_filler :: filler
  br_pods :: "string list"
  br_served :: "(string \<times> podInfo) list"
  br_doomed :: "string list"

definition start_broker :: broker where
  "start_broker = \<lparr>br_pool = NewPool, br_filler = Idle, br_pods = [], br_served = [], br_doomed = []\<rparr>"

text \<open>\<open>replenish\<close> reads under the lock how many pods are missing and creates them one after the other.\<close>

definition replenish :: "DemoConfig \<Rightarrow> broker \<Rightarrow> broker" where
  "replenish cfg b =
     (case br_filler b of
        Idle \<Rightarrow> b\<lparr>br_filler := Filling (nat (dc_PoolSize cfg - int (length (pl_warm (br_pool b)))))\<rparr>
      | _ \<Rightarrow> b)"

definition next_pod :: "nat \<Rightarrow> filler" where
  "next_pod left = (if left = 0 then Idle else Filling left)"

text \<open>\<open>createPod\<close>: the create call, which the cluster refuses for a name it has, or for a reason of its own.\<close>

definition create_call :: "string \<Rightarrow> bool \<Rightarrow> nanos \<Rightarrow> broker \<Rightarrow> broker" where
  "create_call ident accepted now b =
     (case br_filler b of
        Filling 0 \<Rightarrow> b\<lparr>br_filler := Idle\<rparr>
      | Filling (Suc left) \<Rightarrow>
          let name = ''demo-'' @ ident in
          if accepted \<and> name \<notin> set (br_pods b)
          then b\<lparr>br_filler := Waiting left name now, br_pods := name # br_pods b\<rparr>
          else b\<lparr>br_filler := Idle\<rparr>
      | _ \<Rightarrow> b)"

text \<open>The end of the polling: an address, with which the pod is warm, or none, and the pod is deleted.\<close>

definition poll_end :: "string \<Rightarrow> broker \<Rightarrow> broker" where
  "poll_end ip b =
     (case br_filler b of
        Waiting left name created \<Rightarrow>
          if ip = [] then b\<lparr>br_filler := Idle, br_doomed := name # br_doomed b\<rparr>
          else let info = \<lparr>pi_Name = name, pi_IP = ip, pi_Token = [], pi_CreatedAt = created\<rparr>
               in b\<lparr>br_filler := next_pod left, br_pool := (br_pool b)\<lparr>pl_warm := pl_warm (br_pool b) @ [info]\<rparr>\<rparr>
      | _ \<Rightarrow> b)"

definition visit :: "string \<Rightarrow> broker \<Rightarrow> broker" where
  "visit token b =
     (case Assign token (br_pool b) of
        (None, p) \<Rightarrow> b\<lparr>br_pool := p\<rparr>
      | (Some pod, p) \<Rightarrow> b\<lparr>br_pool := p, br_served := (token, pod) # br_served b\<rparr>)"

definition reap :: "DemoConfig \<Rightarrow> nanos \<Rightarrow> broker \<Rightarrow> broker" where
  "reap cfg now b =
     (let (names, p) = reapExpired cfg now (br_pool b) in b\<lparr>br_pool := p, br_doomed := names @ br_doomed b\<rparr>)"

text \<open>\<open>deletePod\<close> reaches the cluster, or fails and leaves the pod there.\<close>

definition deletePod :: "string \<Rightarrow> bool \<Rightarrow> broker \<Rightarrow> broker" where
  "deletePod name deleted b =
     (if deleted \<and> name \<in> set (br_doomed b) then b\<lparr>br_pods := removeAll name (br_pods b)\<rparr> else b)"

datatype pool_event =
    Replenish
  | CreateCall string bool nanos
  | PollEnd string
  | Visit string
  | Reap nanos
  | Deleted string bool

fun pool_step :: "DemoConfig \<Rightarrow> pool_event \<Rightarrow> broker \<Rightarrow> broker" where
  "pool_step cfg Replenish b = replenish cfg b"
| "pool_step cfg (CreateCall ident accepted now) b = create_call ident accepted now b"
| "pool_step cfg (PollEnd ip) b = poll_end ip b"
| "pool_step cfg (Visit token) b = visit token b"
| "pool_step cfg (Reap now) b = reap cfg now b"
| "pool_step cfg (Deleted name ok) b = deletePod name ok b"

definition pool_run :: "DemoConfig \<Rightarrow> pool_event list \<Rightarrow> broker \<Rightarrow> broker" where
  "pool_run cfg evs b = fold (pool_step cfg) evs b"

text \<open>The identifiers the broker drew, which random choice keeps apart.\<close>

fun pod_id :: "pool_event \<Rightarrow> string list" where
  "pod_id (CreateCall ident accepted now) = [ident]"
| "pod_id _ = []"

fun visit_token :: "pool_event \<Rightarrow> string list" where
  "visit_token (Visit token) = [token]"
| "visit_token _ = []"

definition ids_fresh :: "pool_event list \<Rightarrow> bool" where
  "ids_fresh evs \<longleftrightarrow> distinct (concat (map pod_id evs)) \<and> distinct (concat (map visit_token evs))"


section \<open>What every run keeps\<close>

fun to_create :: "filler \<Rightarrow> nat" where
  "to_create Idle = 0"
| "to_create (Filling n) = n"
| "to_create (Waiting n name created) = Suc n"

fun pending :: "filler \<Rightarrow> string list" where
  "pending (Waiting n name created) = [name]"
| "pending _ = []"

definition pod_names :: "broker \<Rightarrow> string list" where
  "pod_names b = pending (br_filler b) @ map pi_Name (pl_warm (br_pool b)) @
     map (pi_Name \<circ> snd) (pl_assigned (br_pool b)) @ br_doomed b"

definition room_ok :: "DemoConfig \<Rightarrow> broker \<Rightarrow> bool" where
  "room_ok cfg b \<longleftrightarrow> length (pl_warm (br_pool b)) + to_create (br_filler b) \<le> nat (dc_PoolSize cfg)"

definition pods_distinct :: "string set \<Rightarrow> broker \<Rightarrow> bool" where
  "pods_distinct ids b \<longleftrightarrow> distinct (pod_names b) \<and> set (pod_names b) \<subseteq> (\<lambda>i. ''demo-'' @ i) ` ids"

definition served_ok :: "string set \<Rightarrow> broker \<Rightarrow> bool" where
  "served_ok tokens b \<longleftrightarrow>
     list_all (\<lambda>p. pi_IP p \<noteq> []) (pl_warm (br_pool b)) \<and>
     map_ok (pl_assigned (br_pool b)) \<and> set (pl_assigned (br_pool b)) \<subseteq> set (br_served b) \<and>
     distinct (map fst (br_served b)) \<and> distinct (map (pi_Name \<circ> snd) (br_served b)) \<and>
     list_all (\<lambda>(t, p). pi_Token p = t \<and> t \<in> tokens \<and> pi_IP p \<noteq> [] \<and>
       ((t, p) \<in> set (pl_assigned (br_pool b)) \<or> pi_Name p \<in> set (br_doomed b))) (br_served b)"

lemmas pool_defs = replenish_def create_call_def poll_end_def visit_def reap_def reapExpired_def deletePod_def Assign_def

lemma mput_new: "k \<notin> fst ` set m \<Longrightarrow> mput k v m = m @ [(k, v)]"
  unfolding mput_def by (induction m) auto

lemma mset_split: "mset (map f (filter P xs)) + mset (map f (filter (\<lambda>x. \<not> P x) xs)) = mset (map f xs)"
  by (induction xs) auto

lemma room_step: "room_ok cfg b \<Longrightarrow> room_ok cfg (pool_step cfg ev b)"
  by (cases ev; cases "br_filler b")
    (auto simp: room_ok_def pool_defs next_pod_def Let_def split: list.splits nat.splits)

lemma visit_none: "pl_warm (br_pool b) = [] \<Longrightarrow> visit token b = b"
  by (simp add: visit_def Assign_def)

lemma visit_warm:
  "pl_warm (br_pool b) = pod # rest \<Longrightarrow> token \<notin> fst ` set (pl_assigned (br_pool b)) \<Longrightarrow>
   visit token b =
     b\<lparr>br_pool := (br_pool b)\<lparr>pl_warm := rest, pl_assigned := pl_assigned (br_pool b) @ [(token, pod\<lparr>pi_Token := token\<rparr>)]\<rparr>,
       br_served := (token, pod\<lparr>pi_Token := token\<rparr>) # br_served b\<rparr>"
  by (simp add: visit_def Assign_def Let_def mput_new)

text \<open>Only a create call adds a name, and it is new; every other step moves names between the parts.\<close>

lemma names_step:
  "mset (pod_names (pool_step cfg ev b)) =
     mset (pod_names b) \<or>
   (\<exists>ident accepted now. ev = CreateCall ident accepted now \<and>
     mset (pod_names (pool_step cfg ev b)) = add_mset (''demo-'' @ ident) (mset (pod_names b)))"
  if "\<And>token. ev = Visit token \<Longrightarrow> token \<notin> fst ` set (pl_assigned (br_pool b))"
proof (cases ev)
  case (Visit token)
  then show ?thesis using that visit_none visit_warm
    by (cases "pl_warm (br_pool b)") (simp_all add: pod_names_def)
next
  case (Reap now)
  let ?e = "\<lambda>(token, pod). pod_expired cfg now pod"
  have "mset (map (pi_Name \<circ> snd) (filter ?e (pl_assigned (br_pool b)))) +
      mset (map (pi_Name \<circ> snd) (filter (\<lambda>x. \<not> ?e x) (pl_assigned (br_pool b)))) =
    mset (map (pi_Name \<circ> snd) (pl_assigned (br_pool b)))"
    by (rule mset_split)
  then show ?thesis using Reap
    by (simp add: pool_defs pod_names_def Let_def case_prod_unfold comp_def add.commute)
qed (cases "br_filler b"; auto simp: pool_defs pod_names_def Let_def next_pod_def split: nat.splits)+

lemma pods_distinct_step:
  assumes "pods_distinct ids b" "\<And>token. ev = Visit token \<Longrightarrow> token \<notin> fst ` set (pl_assigned (br_pool b))"
    and "set (pod_id ev) \<inter> ids = {}"
  shows "pods_distinct (ids \<union> set (pod_id ev)) (pool_step cfg ev b)"
proof -
  consider (same) "mset (pod_names (pool_step cfg ev b)) = mset (pod_names b)"
    | (more) ident accepted now where "ev = CreateCall ident accepted now"
      "mset (pod_names (pool_step cfg ev b)) = add_mset (''demo-'' @ ident) (mset (pod_names b))"
    using names_step [of ev b cfg] assms(2) by blast
  then show ?thesis
  proof cases
    case same
    then show ?thesis
      using assms(1) mset_eq_imp_distinct_iff [OF same] mset_eq_setD [OF same] by (auto simp: pods_distinct_def)
  next
    case more
    then have eq: "mset (pod_names (pool_step cfg ev b)) = mset ((''demo-'' @ ident) # pod_names b)" by simp
    have "''demo-'' @ ident \<notin> set (pod_names b)" using assms(1,3) more(1) by (auto simp: pods_distinct_def)
    then show ?thesis
      using assms(1) more(1) mset_eq_imp_distinct_iff [OF eq] mset_eq_setD [OF eq] by (auto simp: pods_distinct_def)
  qed
qed

lemma served_ok_step:
  assumes "served_ok tokens b" "pods_distinct ids b" "set (visit_token ev) \<inter> tokens = {}"
  shows "served_ok (tokens \<union> set (visit_token ev)) (pool_step cfg ev b)"
proof (cases ev)
  case (Visit token)
  show ?thesis
  proof (cases "pl_warm (br_pool b)")
    case Nil
    then show ?thesis using assms(1) Visit by (auto simp: served_ok_def visit_none list_all_iff)
  next
    case (Cons pod rest)
    have new: "token \<notin> tokens" using assms(3) Visit by simp
    then have free: "token \<notin> fst ` set (pl_assigned (br_pool b))" "token \<notin> fst ` set (br_served b)"
      using assms(1) by (fastforce simp: served_ok_def list_all_iff)+
    have "pi_Name pod \<notin> pi_Name ` snd ` set (pl_assigned (br_pool b)) \<union> set (br_doomed b)"
      using assms(2) Cons by (auto simp: pods_distinct_def pod_names_def)
    then have unserved: "pi_Name pod \<notin> (pi_Name \<circ> snd) ` set (br_served b)"
      using assms(1) by (force simp: served_ok_def list_all_iff)
    show ?thesis
      using assms(1) Cons free unserved unfolding Visit pool_step.simps visit_warm [OF Cons free(1)]
      by (auto simp: served_ok_def list_all_iff map_ok_def)
  qed
next
  case (Reap now)
  have "map_ok (filter P m)" if "map_ok m" for P and m :: "(string, podInfo) gomap"
    using that by (simp add: map_ok_def distinct_map_filter)
  then show ?thesis using assms(1) Reap
    by (fastforce simp: served_ok_def pool_defs list_all_iff case_prod_unfold image_iff)
qed (use assms(1) in \<open>cases "br_filler b"; auto simp: served_ok_def pool_defs list_all_iff Let_def split: nat.splits\<close>)+

lemma pool_run_ok:
  "ids_fresh evs \<Longrightarrow> b = pool_run cfg evs start_broker \<Longrightarrow>
   room_ok cfg b \<and> pods_distinct (set (concat (map pod_id evs))) b \<and> served_ok (set (concat (map visit_token evs))) b"
proof (induction evs arbitrary: b rule: rev_induct)
  case Nil
  then show ?case
    by (simp add: pool_run_def start_broker_def NewPool_def room_ok_def pods_distinct_def served_ok_def pod_names_def)
next
  case (snoc ev evs)
  let ?b = "pool_run cfg evs start_broker"
  have fresh: "ids_fresh evs" "set (pod_id ev) \<inter> set (concat (map pod_id evs)) = {}"
    "set (visit_token ev) \<inter> set (concat (map visit_token evs)) = {}"
    using snoc.prems(1) by (auto simp: ids_fresh_def)
  note IH = snoc.IH [OF fresh(1) refl]
  have b: "b = pool_step cfg ev ?b" using snoc.prems(2) by (simp add: pool_run_def)
  have "token \<notin> fst ` set (pl_assigned (br_pool ?b))" if "ev = Visit token" for token
    using IH fresh(3) that by (force simp: served_ok_def list_all_iff)
  then have "pods_distinct (set (concat (map pod_id evs)) \<union> set (pod_id ev)) b"
    unfolding b using IH fresh(2) by (intro pods_distinct_step) auto
  moreover have "served_ok (set (concat (map visit_token evs)) \<union> set (visit_token ev)) b"
    unfolding b using IH fresh(3) by (intro served_ok_step) auto
  moreover have "room_ok cfg b" unfolding b using IH by (intro room_step) simp
  ultimately show ?case by (simp add: Un_commute)
qed


lemma dialled_pod:
  assumes "HandleWS path token p = WsDial addr"
  shows "\<exists>pod. mget (pl_assigned p) token = Some pod \<and> pi_Name pod = trim_right_slashes (trim_prefix path ''/ws/'') \<and>
    addr = ''ws://'' @ pi_IP pod @ '':7681/ws''"
  using assms by (auto simp: HandleWS_def Pool_Lookup_def Let_def split: option.splits if_splits)

text \<open>
  A pod lives at most \<open>PodMaxAge\<close> seconds from its creation, and the reaper only looks at assigned pods:
  a warm pod of any age is still given to a visitor.
\<close>

lemma old_pod_assigned:
  assumes "pl_warm (br_pool b) = pod # rest"
  shows "fst (Assign token (br_pool (reap cfg now b))) = Some (pod\<lparr>pi_Token := token\<rparr>)"
  using assms by (simp add: pool_defs Let_def)

section \<open>The property\<close>

text \<open>
  C35. However its steps interleave, with identifiers that are not drawn twice, the broker never keeps
  more warm pods than the size of the pool, gives every pod to at most one visitor and under one token,
  and connects a viewer only to the pod that was given with the token, which nobody is deleting.
\<close>

theorem demo_pods_not_shared:
  assumes "ids_fresh evs" and "b = pool_run cfg evs start_broker"
  shows "length (pl_warm (br_pool b)) \<le> nat (dc_PoolSize cfg) \<and>
    distinct (map (pi_Name \<circ> snd) (br_served b)) \<and> distinct (map fst (br_served b)) \<and>
    (HandleWS path token (br_pool b) = WsDial addr \<longrightarrow>
      (\<exists>pod. (token, pod) \<in> set (br_served b) \<and> pi_Name pod = trim_right_slashes (trim_prefix path ''/ws/'') \<and>
        addr = ''ws://'' @ pi_IP pod @ '':7681/ws'' \<and> pi_Name pod \<notin> set (br_doomed b)))"
proof -
  note ok = pool_run_ok [OF assms]
  have "\<exists>pod. (token, pod) \<in> set (br_served b) \<and> pi_Name pod = trim_right_slashes (trim_prefix path ''/ws/'') \<and>
      addr = ''ws://'' @ pi_IP pod @ '':7681/ws'' \<and> pi_Name pod \<notin> set (br_doomed b)"
    if dial: "HandleWS path token (br_pool b) = WsDial addr"
  proof -
    obtain pod where pod: "mget (pl_assigned (br_pool b)) token = Some pod"
      "pi_Name pod = trim_right_slashes (trim_prefix path ''/ws/'')" "addr = ''ws://'' @ pi_IP pod @ '':7681/ws''"
      using dialled_pod [OF dial] by blast
    then have "(token, pod) \<in> set (pl_assigned (br_pool b))" by (simp add: mget_def map_of_SomeD)
    moreover have "(pi_Name \<circ> snd) ` set (pl_assigned (br_pool b)) \<inter> set (br_doomed b) = {}"
      using ok by (auto simp: pods_distinct_def pod_names_def)
    ultimately have "pi_Name pod \<notin> set (br_doomed b)" by force
    moreover have "(token, pod) \<in> set (br_served b)" using ok \<open>(token, pod) \<in> _\<close> by (auto simp: served_ok_def)
    ultimately show ?thesis using pod(2,3) by blast
  qed
  then show ?thesis using ok by (auto simp: room_ok_def served_ok_def)
qed

definition demo_events :: "pool_event list" where
  "demo_events = [Replenish, CreateCall ''a1'' True 0, PollEnd ''10.0.0.1'', CreateCall ''b2'' True 5,
     Visit ''t1'', PollEnd ''10.0.0.2'', Visit ''t2'', Reap 301000000000, Deleted ''demo-a1'' True]"

definition demo_pool_config :: DemoConfig where
  "demo_pool_config = \<lparr>dc_PoolSize = 2, dc_PodMaxAge = 301\<rparr>"

theorem demo_pods_not_shared_witness:
  "let b = pool_run demo_pool_config demo_events start_broker in
   map (pi_Name \<circ> snd) (br_served b) = [''demo-b2'', ''demo-a1''] \<and>
   HandleWS ''/ws/demo-b2'' ''t2'' (br_pool b) = WsDial ''ws://10.0.0.2:7681/ws'' \<and>
   distinct (map fst (br_served b))"
proof -
  let ?b = "pool_run demo_pool_config demo_events start_broker"
  have "ids_fresh demo_events" by code_simp
  moreover have "map (pi_Name \<circ> snd) (br_served ?b) = [''demo-b2'', ''demo-a1'']"
    "HandleWS ''/ws/demo-b2'' ''t2'' (br_pool ?b) = WsDial ''ws://10.0.0.2:7681/ws''" by code_simp+
  ultimately show ?thesis
    using demo_pods_not_shared [of demo_events ?b demo_pool_config "''/ws/demo-b2''" "''t2''" "''ws://10.0.0.2:7681/ws''"]
    by (simp add: Let_def)
qed

end
