(* ===== verification/SshConfig.thy ===== *)
theory SshConfig
  imports Prelude
begin

text \<open>
  The section of the user's OpenSSH configuration that the command line manages
  (\<open>cmd/cw/ssh_config.go\<close>), and the search in strings it and other commands use.
\<close>

section \<open>Searching\<close>

text \<open>\<open>strings.Index\<close>: where a string first occurs in another.\<close>

fun str_index :: "string \<Rightarrow> string \<Rightarrow> nat option" where
  "str_index p [] = (if p = [] then Some 0 else None)"
| "str_index p (c # s) = (if prefix p (c # s) then Some 0 else map_option Suc (str_index p s))"










section \<open>The managed section\<close>

definition sshConfigMarkerStart :: string where "sshConfigMarkerStart = ''# ---- START CODEWIRE ----''"
definition sshConfigMarkerEnd :: string where "sshConfigMarkerEnd = ''# ---- END CODEWIRE ----''"

abbreviation NL :: byte where "NL \<equiv> CHR 0x0A"

text \<open>The lines of the section; \<open>known_hosts\<close> is the path of \<open>defaultKnownHostsPath\<close>.\<close>

fun option_lines :: "string list \<Rightarrow> string" where
  "option_lines [] = []"
| "option_lines (opt # opts) =
     (if trim_space opt = [] then option_lines opts
      else ''    '' @ trim_space opt @ [NL] @ option_lines opts)"

definition sshConfigBlock :: "string \<Rightarrow> string list \<Rightarrow> string" where
  "sshConfigBlock known_hosts opts =
     sshConfigMarkerStart @ [NL] @
     ''# This section is managed by Codewire. Re-run `cw config-ssh` to update it.'' @ [NL] @
     ''Host cw-*'' @ [NL] @
     ''    ProxyCommand cw shell --stdio %n'' @ [NL] @
     ''    StrictHostKeyChecking accept-new'' @ [NL] @
     ''    UserKnownHostsFile '' @ known_hosts @ [NL] @
     ''    User codewire'' @ [NL] @
     option_lines opts @
     sshConfigMarkerEnd"

datatype ssh_config_error = SshConfigUnreadable | SshMarkersIncomplete

definition replaceManagedSSHSection :: "string \<Rightarrow> string \<Rightarrow> ssh_config_error + string" where
  "replaceManagedSSHSection existing0 managed =
     (case (str_index sshConfigMarkerStart existing0, str_index sshConfigMarkerEnd existing0) of
        (None, None) \<Rightarrow>
          let existing1 = (if existing0 \<noteq> [] \<and> \<not> has_suffix existing0 [NL] then existing0 @ [NL] else existing0);
              existing = (if existing1 \<noteq> [] then existing1 @ [NL] else existing1)
          in Inr (existing @ managed @ [NL])
      | (Some startIdx, Some endIdx0) \<Rightarrow>
          if endIdx0 < startIdx then Inl SshMarkersIncomplete
          else let endIdx1 = endIdx0 + length sshConfigMarkerEnd;
                   endIdx = (if endIdx1 < length existing0 \<and> existing0 ! endIdx1 = NL then endIdx1 + 1 else endIdx1)
               in Inr (take startIdx existing0 @ managed @ [NL] @ drop endIdx existing0)
      | _ \<Rightarrow> Inl SshMarkersIncomplete)"

text \<open>
  \<open>renderManagedSSHConfig\<close>: \<open>file\<close> is the content of the file, empty when there is none, \<open>None\<close> when it
  cannot be read.
\<close>

definition renderManagedSSHConfig :: "string \<Rightarrow> string option \<Rightarrow> string list \<Rightarrow> ssh_config_error + string \<times> bool" where
  "renderManagedSSHConfig known_hosts file opts =
     (case file of
        None \<Rightarrow> Inl SshConfigUnreadable
      | Some existing \<Rightarrow>
          (case replaceManagedSSHSection existing (sshConfigBlock known_hosts opts) of
             Inl e \<Rightarrow> Inl e
           | Inr content \<Rightarrow> Inr (content, existing \<noteq> content)))"

section \<open>Where the markers are\<close>









section \<open>Writing the section again\<close>










section \<open>The property\<close>



end
