(* ===== verification/LocalFiles.thy ===== *)
theory LocalFiles
  imports SshConfig ConfigFile EventLog
begin

text \<open>
  Files inside a local instance (\<open>cmd/cw/local_files_cmd.go\<close>): the shell command an upload runs, and
  the parser of the listing \<open>ls -la --time-style=full-iso\<close> prints.

  The shell is a parameter: a function from a script to its tokens, of which only the quoting rules of
  POSIX (2.2) are used.
\<close>

section \<open>The upload script\<close>

abbreviation QUOTE :: byte where "QUOTE \<equiv> CHR 0x27"

text \<open>\<open>strings.LastIndex\<close> of one byte, and what precedes it.\<close>

definition before_last :: "byte \<Rightarrow> string \<Rightarrow> string option" where
  "before_last c s = (if c \<in> set s then Some (rev (tl (dropWhile (\<lambda>x. x \<noteq> c) (rev s)))) else None)"

definition parentDir :: "string \<Rightarrow> string" where
  "parentDir remotePath =
     (case before_last (CHR ''/'') remotePath of
        None \<Rightarrow> ''/''
      | Some p \<Rightarrow> if p = [] then ''/'' else p)"

definition shellQuote :: "string \<Rightarrow> string" where
  "shellQuote s = [QUOTE] @ concat (map (\<lambda>c. if c = QUOTE then [QUOTE, BACKSLASH, QUOTE, QUOTE] else [c]) s) @ [QUOTE]"

definition upload_script :: "string \<Rightarrow> string" where
  "upload_script remotePath = ''mkdir -p '' @ shellQuote (parentDir remotePath) @ '' && cat > '' @ shellQuote remotePath"

text \<open>The tokens of a script; the state of the tokenizer is the word read so far and whether a quote is open.\<close>

datatype sh_token = Word string | Op string

type_synonym tokenizer = "string \<Rightarrow> string option \<Rightarrow> bool \<Rightarrow> sh_token list option"

fun sh_emit :: "string option \<Rightarrow> sh_token list option \<Rightarrow> sh_token list option" where
  "sh_emit None ts = ts"
| "sh_emit (Some w) ts = map_option ((#) (Word w)) ts"

definition word_of :: "string option \<Rightarrow> string" where
  "word_of cur = (case cur of None \<Rightarrow> [] | Some w \<Rightarrow> w)"

definition plain_char :: "byte \<Rightarrow> bool" where
  "plain_char c \<longleftrightarrow> CHR ''a'' \<le> c \<and> c \<le> CHR ''z'' \<or> c = CHR ''-''"

text \<open>
  The quoting rules: between single quotes every other byte stands for itself; outside of them a
  backslash takes the next byte as it is, blanks end a word, letters and dashes are part of one, and
  \<open>&&\<close> and \<open>>\<close> are operators.
\<close>

definition posix_quoting :: "tokenizer \<Rightarrow> bool" where
  "posix_quoting sh \<longleftrightarrow>
     sh [] None False = Some [] \<and>
     (\<forall>w. sh [] (Some w) False = Some [Word w]) \<and>
     (\<forall>c s cur. c \<noteq> QUOTE \<longrightarrow> sh (c # s) cur True = sh s (Some (word_of cur @ [c])) True) \<and>
     (\<forall>s cur. sh (QUOTE # s) cur True = sh s (Some (word_of cur)) False) \<and>
     (\<forall>s cur. sh (QUOTE # s) cur False = sh s (Some (word_of cur)) True) \<and>
     (\<forall>c s cur. c \<noteq> CHR 0x0A \<longrightarrow> sh (BACKSLASH # c # s) cur False = sh s (Some (word_of cur @ [c])) False) \<and>
     (\<forall>s cur. sh (CHR '' '' # s) cur False = sh_emit cur (sh s None False)) \<and>
     (\<forall>c s cur. plain_char c \<longrightarrow> sh (c # s) cur False = sh s (Some (word_of cur @ [c])) False) \<and>
     (\<forall>s. sh (''&&'' @ s) None False = map_option ((#) (Op ''&&'')) (sh s None False)) \<and>
     (\<forall>s. sh (''> '' @ s) None False = map_option ((#) (Op ''>'')) (sh s None False))"

text \<open>A tokenizer with these rules; \<open>None\<close> is anything else the shell gives a meaning to.\<close>

fun sh_lex :: tokenizer where
  "sh_lex [] cur True = None"
| "sh_lex [] cur False = sh_emit cur (Some [])"
| "sh_lex (c # s) cur True =
     (if c = QUOTE then sh_lex s (Some (word_of cur)) False else sh_lex s (Some (word_of cur @ [c])) True)"
| "sh_lex (c # s) cur False =
     (if c = QUOTE then sh_lex s (Some (word_of cur)) True
      else if c = CHR '' '' then sh_emit cur (sh_lex s None False)
      else if plain_char c then sh_lex s (Some (word_of cur @ [c])) False
      else if c = BACKSLASH then
        (case s of
           [] \<Rightarrow> None
         | d # s' \<Rightarrow> if d = CHR 0x0A then None else sh_lex s' (Some (word_of cur @ [d])) False)
      else if c = CHR ''&'' \<and> cur = None then
        (case s of
           [] \<Rightarrow> None
         | d # s' \<Rightarrow> if d = CHR ''&'' then map_option ((#) (Op ''&&'')) (sh_lex s' None False) else None)
      else if c = CHR ''>'' \<and> cur = None then
        (case s of
           [] \<Rightarrow> None
         | d # s' \<Rightarrow> if d = CHR '' '' then map_option ((#) (Op ''>'')) (sh_lex s' None False) else None)
      else None)"

lemma sh_lex_posix: "posix_quoting sh_lex"
proof -
  have "plain_char c \<Longrightarrow> c \<noteq> QUOTE \<and> c \<noteq> CHR '' ''" for c by (auto simp: plain_char_def less_eq_char_def)
  then show ?thesis unfolding posix_quoting_def by (auto simp: plain_char_def less_eq_char_def)
qed

lemma quoted_body:
  assumes "posix_quoting sh"
  shows "sh (concat (map (\<lambda>c. if c = QUOTE then [QUOTE, BACKSLASH, QUOTE, QUOTE] else [c]) s) @ rest) (Some w) True =
    sh rest (Some (w @ s)) True"
proof (induction s arbitrary: w)
  case (Cons c s)
  then show ?case using assms by (cases "c = QUOTE") (simp_all add: posix_quoting_def word_of_def)
qed simp

lemma quoted_word:
  assumes "posix_quoting sh"
  shows "sh (shellQuote s @ rest) None False = sh rest (Some s) False"
  using assms quoted_body [OF assms, of s "[QUOTE] @ rest" "[]"]
  by (simp add: shellQuote_def posix_quoting_def word_of_def)

lemma plain_word:
  assumes "posix_quoting sh" "list_all plain_char w" "w \<noteq> []"
  shows "sh (w @ CHR '' '' # rest) None False = map_option ((#) (Word w)) (sh rest None False)"
proof -
  have more: "sh (w @ rest) (Some v) False = sh rest (Some (v @ w)) False" if "list_all plain_char w" for v w rest
    using that
  proof (induction w arbitrary: v)
    case (Cons c w)
    then show ?case using assms(1) by (simp add: posix_quoting_def word_of_def)
  qed simp
  obtain c v where w: "w = c # v" using assms(3) by (cases w) auto
  have "sh (w @ CHR '' '' # rest) None False = sh (v @ CHR '' '' # rest) (Some [c]) False"
    using assms(1,2) w by (simp add: posix_quoting_def word_of_def)
  also have "\<dots> = sh (CHR '' '' # rest) (Some w) False" using more [of v "CHR '' '' # rest" "[c]"] assms(2) w by simp
  also have "\<dots> = map_option ((#) (Word w)) (sh rest None False)" using assms(1) by (simp add: posix_quoting_def)
  finally show ?thesis .
qed

section \<open>The listing\<close>

record localFileEntry =
  fe_Name :: string
  fe_Size :: int
  fe_IsDir :: bool
  fe_Mode :: string
  fe_Mtime :: string

fun trim_blanks :: "string \<Rightarrow> string" where
  "trim_blanks [] = []"
| "trim_blanks (c # s) = (if c = CHR '' '' \<or> c = CHR 0x09 then trim_blanks s else c # s)"

fun extractLsName :: "string \<Rightarrow> string list \<Rightarrow> string" where
  "extractLsName rest [] = trim_blanks rest"
| "extractLsName rest (f # fs) =
     (case str_index f rest of
        None \<Rightarrow> rest
      | Some i \<Rightarrow> extractLsName (drop (i + length f) rest) fs)"

text \<open>The value of \<open>strconv.ParseInt(s, 10, 64)\<close>, whose error is not looked at.\<close>

definition ParseInt_value :: "string \<Rightarrow> int" where
  "ParseInt_value s =
     (let neg = has_prefix s ''-'';
          ds = (if has_prefix s ''-'' \<or> has_prefix s ''+'' then tl s else s);
          v = (if neg then - int (digits_val 0 ds) else int (digits_val 0 ds))
      in if ds = [] \<or> \<not> list_all is_digit ds then 0 else max (- (2 ^ 63)) (min (2 ^ 63 - 1) v))"

text \<open>One line of the listing: an entry, or none for a line that is skipped.\<close>

definition parse_ls_line :: "string \<Rightarrow> localFileEntry option" where
  "parse_ls_line line =
     (if has_prefix line ''total '' \<or> trim_space line = [] then None
      else
        let parts = str_fields line in
        if length parts < 9 then None
        else
          let name0 = extractLsName line (take 8 parts) in
          if name0 = ''.'' \<or> name0 = ''..'' then None
          else Some
            \<lparr>fe_Name = (case str_index '' -> '' name0 of None \<Rightarrow> name0 | Some i \<Rightarrow> take i name0),
             fe_Size = ParseInt_value (parts ! 4),
             fe_IsDir = has_prefix (parts ! 0) ''d'',
             fe_Mode = parts ! 0,
             fe_Mtime = join_with '' '' (take 3 (drop 5 parts))\<rparr>)"

text \<open>\<open>None\<close> is the error of the scanner: a line of a megabyte or more.\<close>

definition parseLsOutput :: "string \<Rightarrow> localFileEntry list option" where
  "parseLsOutput out =
     (let (lines, err) = scan_tokens out in if err then None else Some (List.map_filter parse_ls_line lines))"


section \<open>What the parser reads\<close>

definition visible :: "byte \<Rightarrow> bool" where
  "visible c \<longleftrightarrow> CHR ''!'' \<le> c \<and> c \<le> CHR ''~''"

lemma match_len_other: "(\<And>e. e \<in> set es \<Longrightarrow> c \<notin> set e \<and> e \<noteq> []) \<Longrightarrow> match_len es (c # s) = 0"
proof (induction es)
  case (Cons e es)
  have "c \<notin> set e" "e \<noteq> []" using Cons.prems [of e] by simp_all
  then have "\<not> prefix e (c # s)" by (cases e) auto
  then show ?case using Cons by simp
qed simp

lemma visible_not_space: "visible c \<Longrightarrow> e \<in> set space_encodings \<Longrightarrow> c \<notin> set e \<and> e \<noteq> []"
proof -
  assume c: "visible c" and e: "e \<in> set space_encodings"
  have "list_all (\<lambda>e. e \<noteq> [] \<and> list_all (\<lambda>b. \<not> visible b) e) space_encodings" by code_simp
  then show ?thesis using c e by (auto simp: list_all_iff)
qed

lemma visible_no_space: "visible c \<Longrightarrow> space_len (c # s) = 0"
  unfolding space_len_def using visible_not_space by (intro match_len_other) blast

lemma blank_space_len: "space_len (CHR '' '' # s) = 1"
  by (simp add: space_len_def space_encodings_def)

lemma take_match_len: "take (match_len es s) s = [] \<or> take (match_len es s) s \<in> set es"
  by (induction es) (auto simp: prefix_def)

lemma drop_space_keeps:
  assumes "len = match_len es" "\<And>e. e \<in> set es \<Longrightarrow> x \<notin> set e" "x \<in> set s"
  shows "x \<in> set (drop_space len s)"
  using assms
proof (induction len s rule: drop_space.induct)
  case (1 len s)
  have "x \<notin> set (take (len s) s)" using take_match_len [of es s] "1.prems"(1,2) by (metis empty_iff list.set(1))
  then have "x \<in> set (drop (len s) s)" using "1.prems"(3) by (metis UnE append_take_drop_id set_append)
  then show ?case using 1 by (subst drop_space.simps) auto
qed

lemma visible_kept: "visible c \<Longrightarrow> c \<in> set s \<Longrightarrow> c \<in> set (trim_space s)"
proof -
  assume c: "visible c" and s: "c \<in> set s"
  have len: "space_len = match_len space_encodings" "rspace_len = match_len (map rev space_encodings)"
    by (auto simp: space_len_def rspace_len_def)
  have "c \<in> set (drop_space space_len s)" using visible_not_space [OF c] s by (intro drop_space_keeps [OF len(1)]) auto
  then have "c \<in> set (drop_space rspace_len (rev (drop_space space_len s)))"
    using visible_not_space [OF c] by (intro drop_space_keeps [OF len(2)]) auto
  then show ?thesis by (simp add: trim_space_def)
qed

lemma fields_word: "list_all visible f \<Longrightarrow> fields_from acc (f @ s) = fields_from (acc @ f) s"
proof (induction f arbitrary: acc)
  case (Cons c f)
  then show ?case by (subst fields_from.simps) (simp add: visible_no_space)
qed simp

lemma fields_blank: "fields_from acc (CHR '' '' # s) = (if acc = [] then [] else [acc]) @ fields_from [] s"
  by (subst fields_from.simps) (simp add: blank_space_len)

lemma fields_blanks: "0 < n \<Longrightarrow> fields_from acc (replicate n (CHR '' '') @ s) = (if acc = [] then [] else [acc]) @ fields_from [] s"
proof (induction n arbitrary: acc)
  case (Suc n)
  then show ?case by (cases "n = 0") (simp_all add: fields_blank)
qed simp

lemma fields_some: "acc \<noteq> [] \<or> (s \<noteq> [] \<and> space_len s = 0) \<Longrightarrow> fields_from acc s \<noteq> []"
proof (induction acc s rule: fields_from.induct)
  case (1 acc s)
  then show ?case by (subst fields_from.simps) auto
qed

text \<open>A line of the listing: eight fields, each with the blanks after it, and the name.\<close>

definition ls_line :: "(string \<times> nat) list \<Rightarrow> string \<Rightarrow> string" where
  "ls_line cols name = concat (map (\<lambda>(f, n). f @ replicate n (CHR '' '')) cols) @ name"

definition field_ok :: "string \<times> nat \<Rightarrow> bool" where
  "field_ok p \<longleftrightarrow> list_all visible (fst p) \<and> fst p \<noteq> [] \<and> 0 < snd p"

lemma ls_line_Cons: "ls_line ((f, n) # cols) name = f @ replicate n (CHR '' '') @ ls_line cols name"
  by (simp add: ls_line_def)

lemma fields_ls_line:
  "list_all field_ok cols \<Longrightarrow> str_fields (ls_line cols name) = map fst cols @ str_fields name"
proof (induction cols)
  case (Cons p cols)
  then show ?case
    by (cases p) (simp add: str_fields_def ls_line_Cons field_ok_def fields_word fields_blanks)
qed (simp add: ls_line_def)

lemma index_after_blanks:
  assumes "list_all visible f" "f \<noteq> []"
  shows "str_index f (replicate n (CHR '' '') @ f @ s) = Some n"
proof (induction n)
  case 0
  then show ?case by (cases f) (use assms in auto)
next
  case (Suc n)
  have "hd f \<noteq> CHR '' ''" using assms by (cases f) (auto simp: visible_def less_eq_char_def)
  then have "\<not> prefix f (CHR '' '' # t)" for t using assms(2) by (cases f) auto
  then show ?case using Suc by simp
qed

lemma trim_blanks_replicate: "trim_blanks (replicate n (CHR '' '') @ s) = trim_blanks s"
  by (induction n) auto

lemma extract_ls_name:
  "list_all field_ok cols \<Longrightarrow>
   extractLsName (replicate k (CHR '' '') @ ls_line cols name) (map fst cols) = trim_blanks name"
proof (induction cols arbitrary: k)
  case Nil
  then show ?case by (simp add: ls_line_def trim_blanks_replicate)
next
  case (Cons p cols)
  obtain f n where p: "p = (f, n)" by (cases p)
  have "str_index f (replicate k (CHR '' '') @ f @ replicate n (CHR '' '') @ ls_line cols name) = Some k"
    using Cons.prems p by (intro index_after_blanks) (simp_all add: field_ok_def)
  then show ?case using Cons.IH [of n] Cons.prems p by (simp add: ls_line_Cons)
qed

text \<open>A name the listing can show in one line: it starts with no white space and has no arrow.\<close>

definition plain_name :: "string \<Rightarrow> bool" where
  "plain_name name \<longleftrightarrow>
     name \<noteq> [] \<and> space_len name = 0 \<and> hd name \<noteq> CHR '' '' \<and> hd name \<noteq> CHR 0x09 \<and>
     str_index '' -> '' name = None \<and> name \<noteq> ''.'' \<and> name \<noteq> ''..''"

record ls_meta =
  lm_mode :: string
  lm_links :: string
  lm_owner :: string
  lm_group :: string
  lm_size :: nat
  lm_date :: string
  lm_time :: string
  lm_zone :: string
  lm_gaps :: "nat list"

definition meta_fields :: "ls_meta \<Rightarrow> (string \<times> nat) list" where
  "meta_fields m =
     zip [lm_mode m, lm_links m, lm_owner m, lm_group m, show_nat (lm_size m), lm_date m, lm_time m, lm_zone m] (lm_gaps m)"

definition meta_ok :: "ls_meta \<Rightarrow> bool" where
  "meta_ok m \<longleftrightarrow> length (lm_gaps m) = 8 \<and> list_all field_ok (meta_fields m) \<and> hd (lm_mode m) \<noteq> CHR ''t'' \<and> lm_size m < 2 ^ 63"

definition meta_entry :: "ls_meta \<Rightarrow> string \<Rightarrow> localFileEntry" where
  "meta_entry m name =
     \<lparr>fe_Name = name, fe_Size = int (lm_size m), fe_IsDir = (hd (lm_mode m) = CHR ''d''), fe_Mode = lm_mode m,
      fe_Mtime = join_with '' '' [lm_date m, lm_time m, lm_zone m]\<rparr>"

lemma ParseInt_show: "n < 2 ^ 63 \<Longrightarrow> ParseInt_value (show_nat n) = int n"
proof -
  assume n: "n < 2 ^ 63"
  obtain c cs where s: "show_nat n = c # cs" "is_digit c" using show_nat_digits [of n] by (cases "show_nat n") auto
  then have "c \<noteq> CHR ''-''" "c \<noteq> CHR ''+''" by (auto simp: is_digit_def less_eq_char_def)
  then show ?thesis using show_nat_digits [of n] n s by (simp add: ParseInt_value_def has_prefix_def Let_def)
qed

lemma parse_plain_line:
  assumes "meta_ok m" "plain_name name"
  shows "parse_ls_line (ls_line (meta_fields m) name) = Some (meta_entry m name)"
proof -
  let ?line = "ls_line (meta_fields m) name"
  have ok: "list_all field_ok (meta_fields m)" and len: "length (lm_gaps m) = 8" using assms(1) by (simp_all add: meta_ok_def)
  then obtain a b c d e f g h where gaps: "lm_gaps m = [a, b, c, d, e, f, g, h]"
    by (auto simp: length_Suc_conv eval_nat_numeral)
  have heads: "map fst (meta_fields m) =
      [lm_mode m, lm_links m, lm_owner m, lm_group m, show_nat (lm_size m), lm_date m, lm_time m, lm_zone m]"
    by (simp add: meta_fields_def gaps)
  have fields: "str_fields ?line = map fst (meta_fields m) @ str_fields name" by (rule fields_ls_line [OF ok])
  have last: "str_fields name \<noteq> []" unfolding str_fields_def using assms(2) by (intro fields_some) (simp add: plain_name_def)
  then have nine: "9 \<le> length (str_fields ?line)" "take 8 (str_fields ?line) = map fst (meta_fields m)"
    unfolding fields heads by (simp_all add: Suc_le_eq)
  have name: "extractLsName ?line (map fst (meta_fields m)) = name"
    using extract_ls_name [OF ok, of 0 name] assms(2) by (cases name) (auto simp: plain_name_def)
  obtain x mode where mode: "lm_mode m = x # mode" "visible x" "x \<noteq> CHR ''t''"
    using assms(1) ok by (cases "lm_mode m") (auto simp: meta_ok_def meta_fields_def gaps field_ok_def)
  have start: "?line = x # tl ?line" using mode(1) by (simp add: meta_fields_def gaps ls_line_Cons)
  have "\<not> has_prefix ?line ''total ''" using start mode(3) by (metis has_prefix_def Cons_prefix_Cons)
  moreover have "trim_space ?line \<noteq> []"
    using visible_kept [OF mode(2)] start by (metis empty_iff list.set(1) list.set_intros(1))
  ultimately show ?thesis
    using nine name heads assms(2) mode(1) assms(1) last eq_commute [of "CHR ''d''" x]
    by (simp add: parse_ls_line_def Let_def fields meta_entry_def plain_name_def has_prefix_def ParseInt_show meta_ok_def)
qed

section \<open>What the parser gets wrong\<close>

text \<open>
  A name with an arrow is cut there, whether or not it is the name of a link; and the two numbers
  of a device shift the columns, so that its name begins with the time zone.
\<close>

lemma arrow_name_cut:
  "map_option fe_Name (parse_ls_line ''-rw-r--r-- 1 me me 5 2026-01-02 03:04:05.000000000 +0000 a -> b'') = Some ''a''"
  by code_simp

lemma device_name_wrong:
  "map_option fe_Name (parse_ls_line ''brw-rw---- 1 root disk 8, 0 2026-01-02 03:04:05.000000000 +0000 sda'') = Some ''+0000 sda''"
  by code_simp

text \<open>A relative path of two parts that begins with a dash gives \<open>mkdir\<close> an option instead of a directory.\<close>

lemma dash_parent: "parentDir ''-m0777/x'' = ''-m0777''"
  by code_simp

section \<open>The properties\<close>

text \<open>
  C34. Whatever bytes a path has, a shell with the quoting rules of POSIX reads the upload script as the
  two commands it is meant to be, with the path and its parent as single words: nothing in a path is
  run, expanded or split.
\<close>

theorem upload_path_not_executed:
  assumes "posix_quoting sh"
  shows "sh (upload_script path) None False =
    Some [Word ''mkdir'', Word ''-p'', Word (parentDir path), Op ''&&'', Word ''cat'', Op ''>'', Word path]"
proof -
  let ?cat = "''cat > '' @ shellQuote path"
  have word: "sh (w @ CHR '' '' # rest) None False = map_option ((#) (Word w)) (sh rest None False)"
    if "w \<in> {''mkdir'', ''-p'', ''cat''}" for w rest
    using that by (intro plain_word [OF assms]) (auto simp: plain_char_def less_eq_char_def)
  have blank: "sh (CHR '' '' # s) cur False = sh_emit cur (sh s None False)" for s cur
    using assms by (simp add: posix_quoting_def)
  have ops: "sh (''&&'' @ s) None False = map_option ((#) (Op ''&&'')) (sh s None False)"
    "sh (''> '' @ s) None False = map_option ((#) (Op ''>'')) (sh s None False)" for s
    using assms by (simp_all add: posix_quoting_def)
  have "sh (shellQuote path @ []) None False = Some [Word path]"
    unfolding quoted_word [OF assms] using assms by (simp add: posix_quoting_def)
  then have "sh (''> '' @ shellQuote path) None False = Some [Op ''>'', Word path]" unfolding ops by simp
  then have "sh ?cat None False = Some [Word ''cat'', Op ''>'', Word path]"
    using word [of "''cat''" "''> '' @ shellQuote path"] by simp
  then have "sh (CHR '' '' # ?cat) None False = Some [Word ''cat'', Op ''>'', Word path]" unfolding blank by simp
  then have "sh (''&&'' @ CHR '' '' # ?cat) None False = Some [Op ''&&'', Word ''cat'', Op ''>'', Word path]"
    unfolding ops by simp
  then have "sh (CHR '' '' # ''&&'' @ CHR '' '' # ?cat) (Some (parentDir path)) False =
      Some [Word (parentDir path), Op ''&&'', Word ''cat'', Op ''>'', Word path]" unfolding blank by simp
  then have "sh (shellQuote (parentDir path) @ CHR '' '' # ''&&'' @ CHR '' '' # ?cat) None False =
      Some [Word (parentDir path), Op ''&&'', Word ''cat'', Op ''>'', Word path]" unfolding quoted_word [OF assms] .
  then show ?thesis
    using word [of "''mkdir''" "''-p '' @ shellQuote (parentDir path) @ CHR '' '' # ''&&'' @ CHR '' '' # ?cat"]
      word [of "''-p''" "shellQuote (parentDir path) @ CHR '' '' # ''&&'' @ CHR '' '' # ?cat"]
    by (simp add: upload_script_def)
qed

theorem upload_path_not_executed_witness:
  "sh_lex (upload_script (''/a/$(rm -rf ~)'' @ [QUOTE])) None False =
    Some [Word ''mkdir'', Word ''-p'', Word ''/a'', Op ''&&'', Word ''cat'', Op ''>'', Word (''/a/$(rm -rf ~)'' @ [QUOTE])]"
proof -
  have "parentDir (''/a/$(rm -rf ~)'' @ [QUOTE]) = ''/a''" by code_simp
  then show ?thesis using upload_path_not_executed [OF sh_lex_posix, of "''/a/$(rm -rf ~)'' @ [QUOTE]"] by simp
qed

text \<open>
  C2. A listing of entries whose names do not start with white space and have no arrow and no line
  break is read back as exactly these entries, in their order, with their sizes, modes and times.
\<close>

definition row_ok :: "ls_meta \<times> string \<Rightarrow> bool" where
  "row_ok r \<longleftrightarrow> meta_ok (fst r) \<and> plain_name (snd r) \<and> line_ok (ls_line (meta_fields (fst r)) (snd r))"

theorem listing_read_back:
  assumes "list_all row_ok rows" "line_ok (''total '' @ blocks)"
  shows "parseLsOutput (lines_bytes ((''total '' @ blocks) # map (\<lambda>r. ls_line (meta_fields (fst r)) (snd r)) rows)) =
    Some (map (\<lambda>r. meta_entry (fst r) (snd r)) rows)"
proof -
  let ?lines = "(''total '' @ blocks) # map (\<lambda>r. ls_line (meta_fields (fst r)) (snd r)) rows"
  have "list_all line_ok ?lines" using assms by (simp add: list_all_iff row_ok_def)
  then have "scan_tokens (lines_bytes ?lines) = (?lines, False)" using scan_tokens_lines [of ?lines "[]"]
    by (simp add: scan_tokens.simps)
  moreover have "List.map_filter parse_ls_line (map (\<lambda>r. ls_line (meta_fields (fst r)) (snd r)) rows) =
      map (\<lambda>r. meta_entry (fst r) (snd r)) rows"
    using assms(1) by (induction rows) (simp_all add: row_ok_def parse_plain_line List.map_filter_simps)
  moreover have "parse_ls_line (''total '' @ blocks) = None" by (simp add: parse_ls_line_def has_prefix_def)
  ultimately show ?thesis by (simp add: parseLsOutput_def List.map_filter_simps)
qed

definition demo_meta :: ls_meta where
  "demo_meta = \<lparr>lm_mode = ''drwxr-xr-x'', lm_links = ''2'', lm_owner = ''me'', lm_group = ''me'', lm_size = 4096,
     lm_date = ''2026-01-02'', lm_time = ''03:04:05'', lm_zone = ''+0000'', lm_gaps = [1, 1, 1, 2, 1, 1, 1, 1]\<rparr>"

theorem listing_read_back_witness:
  "parseLsOutput (lines_bytes [''total 8'', ls_line (meta_fields demo_meta) ''my docs'']) =
    Some [meta_entry demo_meta ''my docs'']"
proof -
  have size: "show_nat 4096 = ''4096''" by (simp add: show_nat.simps char_of_def bit_numeral_rec bit_0)
  have line: "ls_line (meta_fields demo_meta) ''my docs'' =
      ''drwxr-xr-x 2 me me  4096 2026-01-02 03:04:05 +0000 my docs''"
    by (simp add: ls_line_def meta_fields_def demo_meta_def size numeral_2_eq_2)
  have "meta_ok demo_meta"
    by (simp add: meta_ok_def meta_fields_def demo_meta_def size field_ok_def visible_def less_eq_char_def)
  moreover have "plain_name ''my docs''" by code_simp
  moreover have "line_ok (ls_line (meta_fields demo_meta) ''my docs'')" "line_ok (''total '' @ ''8'')"
    unfolding line by (simp_all add: line_ok_def NEWLINE_def maxTokenSize_def drop_cr_def CARRIAGE_RETURN_def)
  ultimately show ?thesis using listing_read_back [of "[(demo_meta, ''my docs'')]" "''8''"] by (simp add: row_ok_def)
qed

end
