(* ===== verification/CliRefs.thy ===== *)
theory CliRefs
  imports ConfigFacts
begin

text \<open>
  How the command line reads what the user names: sessions (\<open>cmd/cw/session_locator.go\<close>), environments
  and images (\<open>env_cmd.go\<close>), names derived from directories and presets (\<open>local_cmd.go\<close>,
  \<open>preset_authoring.go\<close>, \<open>platform_helpers.go\<close>), and versions (\<open>internal/update/update.go\<close>).
\<close>

section \<open>Sessions\<close>

record sessionLocator =
  cl_Node :: string
  cl_ID :: "nat option"
  cl_Name :: string

datatype locator_error = LocatorEmpty | LocatorInvalid string

definition isRemote :: "sessionLocator \<Rightarrow> bool" where
  "isRemote l \<longleftrightarrow> cl_Node l \<noteq> []"

definition parseSessionTarget :: "string \<Rightarrow> locator_error + sessionLocator" where
  "parseSessionTarget arg =
     (let name = trim_prefix (trim_space arg) ''@'' in
      if name = [] then Inl (LocatorInvalid arg)
      else (case parse_uint32 name of
              Some n \<Rightarrow> Inr \<lparr>cl_Node = [], cl_ID = Some n, cl_Name = []\<rparr>
            | None \<Rightarrow> Inr \<lparr>cl_Node = [], cl_ID = None, cl_Name = name\<rparr>))"

definition parseSessionLocator :: "string \<Rightarrow> locator_error + sessionLocator" where
  "parseSessionLocator arg0 =
     (let arg = trim_space arg0 in
      if arg = [] then Inl LocatorEmpty
      else if 1 < count_list arg (CHR '':'') then Inl (LocatorInvalid arg)
      else if CHR '':'' \<in> set arg then
        (let node = trim_space (takeWhile (\<lambda>c. c \<noteq> CHR '':'') arg);
             rest = trim_space (tl (dropWhile (\<lambda>c. c \<noteq> CHR '':'') arg))
         in if node = [] \<or> rest = [] then Inl (LocatorInvalid arg)
            else (case parseSessionTarget rest of
                    Inl e \<Rightarrow> Inl e
                  | Inr loc \<Rightarrow> Inr (loc\<lparr>cl_Node := node\<rparr>)))
      else parseSessionTarget arg)"

text \<open>\<open>toPeerSessionLocator\<close> gives a node the identifier or the name; \<open>current\<close> is the name of this node.\<close>

definition toPeerSessionLocator :: "sessionLocator \<Rightarrow> sessionLocator" where
  "toPeerSessionLocator l = (case cl_ID l of None \<Rightarrow> l | Some i \<Rightarrow> l\<lparr>cl_Name := []\<rparr>)"

definition normalizeSessionLocatorForCurrentNode :: "string \<Rightarrow> sessionLocator \<Rightarrow> sessionLocator" where
  "normalizeSessionLocatorForCurrentNode current l =
     (if isRemote l \<and> trim_space (cl_Node l) = trim_space current then l\<lparr>cl_Node := []\<rparr> else l)"

section \<open>Environments\<close>

record Environment =
  pe_ID :: string
  pe_Name :: "string option"

datatype ref_error =
    RefEmpty
  | RefListFailed
  | RefNotFound
  | RefSameName "string list"
  | RefAmbiguous "string list"

definition resolveEnvIDFromList :: "Environment list \<Rightarrow> string \<Rightarrow> ref_error + string" where
  "resolveEnvIDFromList envs ref0 =
     (let ref = trim_space ref0;
          named = filter (\<lambda>e. pe_Name e = Some ref) envs;
          prefixed = filter (\<lambda>e. has_prefix (pe_ID e) ref) envs
      in if ref = [] then Inl RefEmpty
         else if list_ex (\<lambda>e. pe_ID e = ref) envs then Inr ref
         else (case named of
                 [e] \<Rightarrow> Inr (pe_ID e)
               | _ # _ # _ \<Rightarrow> Inl (RefSameName (map pe_ID named))
               | [] \<Rightarrow>
                   (case prefixed of
                      [e] \<Rightarrow> Inr (pe_ID e)
                    | [] \<Rightarrow> Inl RefNotFound
                    | _ # _ # _ \<Rightarrow> Inl (RefAmbiguous (map pe_ID prefixed)))))"

text \<open>
  \<open>resolveEnvID\<close>: \<open>exists\<close> is whether the platform has an environment of this very identifier,
  \<open>listed\<close> the list it gives, \<open>None\<close> when the request fails.
\<close>

definition resolveEnvID :: "(string \<Rightarrow> bool) \<Rightarrow> Environment list option \<Rightarrow> string \<Rightarrow> ref_error + string" where
  "resolveEnvID exists listed ref0 =
     (let ref = trim_space ref0 in
      if ref = [] then Inl RefEmpty
      else if 36 \<le> length ref \<and> CHR ''-'' \<in> set ref \<and> exists ref then Inr ref
      else (case listed of None \<Rightarrow> Inl RefListFailed | Some envs \<Rightarrow> resolveEnvIDFromList envs ref))"

definition shortEnvID :: "string \<Rightarrow> string" where
  "shortEnvID i =
     (if CHR ''-'' \<in> set i \<and> hd i \<noteq> CHR ''-'' then takeWhile (\<lambda>c. c \<noteq> CHR ''-'') i
      else if 8 < length i then take 8 i else i)"

text \<open>\<open>parseRepoSpec\<close>: the branch follows the last \<open>@\<close> after a slash.\<close>

definition parseRepoSpec :: "string \<Rightarrow> string \<times> string" where
  "parseRepoSpec spec =
     (let url = rev (tl (dropWhile (\<lambda>c. c \<noteq> CHR ''@'') (rev spec)));
          branch = rev (takeWhile (\<lambda>c. c \<noteq> CHR ''@'') (rev spec))
      in if CHR ''@'' \<notin> set spec \<or> CHR ''/'' \<notin> set url then (spec, []) else (url, branch))"

section \<open>Images\<close>

definition codewireSlugs :: "string list" where
  "codewireSlugs = [''base'', ''full'']"

definition expandImageRef :: "string \<Rightarrow> string" where
  "expandImageRef img =
     (let name = takeWhile (\<lambda>c. c \<noteq> CHR '':'') img;
          hasTag = (CHR '':'' \<in> set img);
          tag = tl (dropWhile (\<lambda>c. c \<noteq> CHR '':'') img);
          firstSeg = takeWhile (\<lambda>c. c \<noteq> CHR ''/'') name;
          tagged = (\<lambda>ref. if hasTag then ref @ '':'' @ tag else ref @ '':latest'')
      in if CHR ''/'' \<in> set name \<and> firstSeg \<noteq> [] \<and> (CHR ''.'' \<in> set firstSeg \<or> CHR '':'' \<in> set firstSeg) then img
         else if name \<in> set codewireSlugs then tagged (''ghcr.io/codewiresh/'' @ name)
         else if CHR ''/'' \<notin> set name then tagged (''docker.io/library/'' @ name)
         else tagged (''docker.io/'' @ name))"

section \<open>Names made from text\<close>

definition slug_char :: "byte \<Rightarrow> bool" where
  "slug_char c \<longleftrightarrow> CHR ''a'' \<le> c \<and> c \<le> CHR ''z'' \<or> CHR ''0'' \<le> c \<and> c \<le> CHR ''9''"

text \<open>\<open>strings.Trim(s, "-")\<close>, and the loop of \<open>sanitizeLocalName\<close>, with what it wrote last.\<close>

definition trim_dashes :: "string \<Rightarrow> string" where
  "trim_dashes s = rev (dropWhile (\<lambda>c. c = CHR ''-'') (rev (dropWhile (\<lambda>c. c = CHR ''-'') s)))"

fun dash_runs :: "bool \<Rightarrow> string \<Rightarrow> string" where
  "dash_runs lastDash [] = []"
| "dash_runs lastDash (c # cs) =
     (if slug_char c then c # dash_runs False cs
      else if lastDash then dash_runs True cs
      else CHR ''-'' # dash_runs True cs)"

definition sanitizeLocalName :: "string \<Rightarrow> string" where
  "sanitizeLocalName raw0 =
     (let raw = to_lower (trim_space raw0) in if raw = [] then [] else trim_dashes (dash_runs False raw))"

definition slugifyPresetName :: "string \<Rightarrow> string" where
  "slugifyPresetName name0 =
     (let name = to_lower (trim_space name0) in if name = [] then [] else trim_dashes (dash_runs False name))"

text \<open>
  \<open>slugify\<close> replaces the runs by a regular expression, and then collapses dashes as long as two follow
  each other.
\<close>

function replace_runs :: "string \<Rightarrow> string" where
  "replace_runs [] = []"
| "replace_runs (c # cs) =
     (if slug_char c then c # replace_runs cs
      else CHR ''-'' # replace_runs (dropWhile (\<lambda>x. \<not> slug_char x) cs))"
  by pat_completeness auto
termination
  by (relation "measure length") (auto simp: le_imp_less_Suc length_dropWhile_le)

fun replace_double :: "string \<Rightarrow> string" where
  "replace_double (a # b # cs) =
     (if a = CHR ''-'' \<and> b = CHR ''-'' then CHR ''-'' # replace_double cs else a # replace_double (b # cs))"
| "replace_double cs = cs"

lemma length_replace_double: "length (replace_double s) \<le> length s"
  by (induction s rule: replace_double.induct) auto

lemma replace_double_shorter: "sublist ''--'' s \<Longrightarrow> length (replace_double s) < length s"
proof (induction s rule: replace_double.induct)
  case (1 a b cs)
  show ?case
  proof (cases "a = CHR ''-'' \<and> b = CHR ''-''")
    case True
    then show ?thesis using length_replace_double [of cs] by simp
  next
    case False
    then have "sublist ''--'' (b # cs)" using "1.prems" by (auto simp: sublist_Cons_right)
    then show ?thesis using "1.IH"(2) False by auto
  qed
qed (auto simp: sublist_Cons_right)

function collapse_dashes :: "string \<Rightarrow> string" where
  "collapse_dashes s = (if sublist ''--'' s then collapse_dashes (replace_double s) else s)"
  by pat_completeness auto
termination
  by (relation "measure length") (auto simp: replace_double_shorter)

declare collapse_dashes.simps [simp del]

definition slugify :: "string \<Rightarrow> string" where
  "slugify name =
     (let s = collapse_dashes (trim_dashes (replace_runs (to_lower (trim_space name)))) in
      if 48 < length s then rev (dropWhile (\<lambda>c. c = CHR ''-'') (rev (take 48 s))) else s)"

text \<open>\<open>incusOCIImageRef\<close>: the name and URL of the remote an image comes from, and the image on it.\<close>

datatype image_error = ImageRequired | ImageWithoutRegistry | ImageInvalid

definition incusOCIImageRef :: "string \<Rightarrow> image_error + string \<times> string \<times> string" where
  "incusOCIImageRef img =
     (let ref = trim_space img; parts = split_on (CHR ''/'') ref in
      if ref = [] then Inl ImageRequired
      else if length parts < 2 then Inl ImageWithoutRegistry
      else
        let registry = hd parts; remainder = join_with ''/'' (tl parts) in
        if registry = [] \<or> remainder = [] then Inl ImageInvalid
        else
          let remoteName = ''cw-'' @ sanitizeLocalName (map (\<lambda>c. if c = CHR ''.'' then CHR ''-'' else c) registry)
          in Inr (remoteName, ''https://'' @ registry, remoteName @ '':'' @ remainder))"

section \<open>Versions\<close>

definition parseSemver :: "string \<Rightarrow> (int \<times> int \<times> int) option" where
  "parseSemver s0 =
     (let s = takeWhile (\<lambda>c. c \<noteq> CHR ''-'') (trim_prefix s0 ''v'') in
      case split_n 3 (CHR ''.'') s of
        [a, b, c] \<Rightarrow>
          (case (Atoi a, Atoi b, Atoi c) of
             (Some maj, Some mn, Some patch) \<Rightarrow> Some (maj, mn, patch)
           | _ \<Rightarrow> None)
      | _ \<Rightarrow> None)"

definition IsNewer :: "string \<Rightarrow> string \<Rightarrow> bool" where
  "IsNewer current latest =
     (case (parseSemver current, parseSemver latest) of
        (Some (cMaj, cMin, cPatch), Some (lMaj, lMin, lPatch)) \<Rightarrow>
          if lMaj \<noteq> cMaj then cMaj < lMaj else if lMin \<noteq> cMin then cMin < lMin else cPatch < lPatch
      | _ \<Rightarrow> False)"

text \<open>
  The check for a newer version remembers the answer of the server for a day. \<open>fetched\<close> is the tag of
  the newest release, \<open>None\<close> when it cannot be had; the file that cannot be read is no entry.
\<close>

record cacheEntry =
  ce_LatestVersion :: string
  ce_CurrentVersion :: string
  ce_CheckedAt :: nanos

definition cacheTTL :: nanos where "cacheTTL = seconds (24 * 60 * 60)"

definition checkWithCache :: "string \<Rightarrow> nanos \<Rightarrow> string option \<Rightarrow> cacheEntry option \<Rightarrow> (string \<times> bool) \<times> cacheEntry option" where
  "checkWithCache currentVersion now fetched file =
     (let fresh = (case file of
                     Some cached \<Rightarrow> ce_CurrentVersion cached = currentVersion \<and> now - ce_CheckedAt cached < cacheTTL
                   | None \<Rightarrow> False)
      in if fresh then ((ce_LatestVersion (the file), IsNewer currentVersion (ce_LatestVersion (the file))), file)
         else (case fetched of
                 None \<Rightarrow> (([], False), file)
               | Some latest \<Rightarrow>
                   ((latest, IsNewer currentVersion latest),
                    Some \<lparr>ce_LatestVersion = latest, ce_CurrentVersion = currentVersion, ce_CheckedAt = now\<rparr>)))"

section \<open>Slugs\<close>

lemma dash_runs_True: "dash_runs True s = dash_runs False (dropWhile (\<lambda>x. \<not> slug_char x) s)"
  by (induction s) auto

lemma replace_runs_eq: "replace_runs s = dash_runs False s"
  by (induction s rule: replace_runs.induct) (simp_all add: dash_runs_True)

lemma dash_runs_single: "\<not> sublist ''--'' (dash_runs b s) \<and> (b \<longrightarrow> \<not> prefix ''-'' (dash_runs b s))"
  by (induction b s rule: dash_runs.induct) (auto simp: sublist_Cons_right slug_char_def)

lemma dash_runs_chars: "list_all (\<lambda>c. slug_char c \<or> c = CHR ''-'') (dash_runs b s)"
  by (induction b s rule: dash_runs.induct) auto

lemma prefix_rtrim: "prefix (rev (dropWhile P (rev t))) t"
  using suffix_dropWhile [of P "rev t"] by (simp add: suffix_to_prefix)

lemma prefix_trim_dashes: "prefix (trim_dashes s) (dropWhile (\<lambda>c. c = CHR ''-'') s)"
  unfolding trim_dashes_def by (rule prefix_rtrim)

lemma sublist_trim_dashes: "sublist (trim_dashes s) s"
  using prefix_trim_dashes suffix_dropWhile
  by (metis prefix_imp_sublist suffix_imp_sublist sublist_order.order.trans)

lemma hd_of_prefix: "prefix r s \<Longrightarrow> r \<noteq> [] \<Longrightarrow> hd r = hd s \<and> s \<noteq> []"
  by (auto simp: prefix_def)

lemma last_of_rtrim: "rev (dropWhile P (rev t)) \<noteq> [] \<Longrightarrow> \<not> P (last (rev (dropWhile P (rev t))))"
  using hd_dropWhile [of P "rev t"] by (simp add: last_rev)

lemma trim_dashes_ends: "trim_dashes s \<noteq> [] \<Longrightarrow> hd (trim_dashes s) \<noteq> CHR ''-'' \<and> last (trim_dashes s) \<noteq> CHR ''-''"
proof -
  assume ne: "trim_dashes s \<noteq> []"
  let ?P = "\<lambda>c. c = CHR ''-''"
  have "hd (trim_dashes s) \<noteq> CHR ''-''"
    using hd_of_prefix [OF prefix_trim_dashes ne] hd_dropWhile [of ?P s] by simp
  moreover have "last (trim_dashes s) \<noteq> CHR ''-''"
    using last_of_rtrim [of ?P "dropWhile ?P s"] ne unfolding trim_dashes_def by blast
  ultimately show ?thesis by blast
qed

text \<open>A slug: lower-case letters and digits in groups joined by single dashes.\<close>

definition slug :: "string \<Rightarrow> bool" where
  "slug s \<longleftrightarrow> list_all (\<lambda>c. slug_char c \<or> c = CHR ''-'') s \<and> \<not> sublist ''--'' s \<and>
     (s \<noteq> [] \<longrightarrow> hd s \<noteq> CHR ''-'' \<and> last s \<noteq> CHR ''-'')"

lemma slug_trimmed: "slug (trim_dashes (dash_runs b s))"
proof -
  have sub: "sublist (trim_dashes (dash_runs b s)) (dash_runs b s)" by (rule sublist_trim_dashes)
  then have "\<not> sublist ''--'' (trim_dashes (dash_runs b s))" using dash_runs_single sublist_order.order.trans by blast
  moreover have "list_all (\<lambda>c. slug_char c \<or> c = CHR ''-'') (trim_dashes (dash_runs b s))"
    using set_mono_sublist [OF sub] dash_runs_chars [of b s] by (auto simp: list_all_iff)
  ultimately show ?thesis using trim_dashes_ends by (auto simp: slug_def)
qed

lemma slug_sanitized: "slug (sanitizeLocalName raw)"
  by (simp add: sanitizeLocalName_def Let_def slug_trimmed) (simp add: slug_def)

lemma sanitize_eq: "sanitizeLocalName raw = trim_dashes (dash_runs False (to_lower (trim_space raw)))"
  by (simp add: sanitizeLocalName_def Let_def trim_dashes_def)

lemma slug_cut:
  assumes "slug s"
  shows "slug (rev (dropWhile (\<lambda>c. c = CHR ''-'') (rev (take n s))))"
proof -
  let ?P = "\<lambda>c. c = CHR ''-''"
  let ?r = "rev (dropWhile ?P (rev (take n s)))"
  have pre: "prefix ?r s" by (rule prefix_order.trans [OF prefix_rtrim take_is_prefix])
  then have sub: "sublist ?r s" by (rule prefix_imp_sublist)
  have "hd ?r \<noteq> CHR ''-'' \<and> last ?r \<noteq> CHR ''-''" if "?r \<noteq> []"
    using hd_of_prefix [OF pre that] last_of_rtrim [OF that] assms by (metis slug_def)
  moreover have "\<not> sublist ''--'' ?r" using assms sub sublist_order.order.trans unfolding slug_def by blast
  moreover have "set ?r \<subseteq> set s" by (rule set_mono_sublist [OF sub])
  then have "list_all (\<lambda>c. slug_char c \<or> c = CHR ''-'') ?r" using assms by (auto simp: slug_def list_all_iff)
  ultimately show ?thesis unfolding slug_def by blast
qed

section \<open>What the readers get wrong\<close>

text \<open>A registry with a port is taken for a name and a tag, although the first segment has a colon.\<close>

lemma registry_port_lost: "expandImageRef ''localhost:5000/img'' = ''docker.io/library/localhost:5000/img''"
  by code_simp

text \<open>Two registries give the same remote, of which the one added first is used.\<close>

lemma oci_remote_collides:
  "incusOCIImageRef ''ghcr.io/a/b'' = Inr (''cw-ghcr-io'', ''https://ghcr.io'', ''cw-ghcr-io:a/b'') \<and>
   incusOCIImageRef ''ghcr-io/a/b'' = Inr (''cw-ghcr-io'', ''https://ghcr-io'', ''cw-ghcr-io:a/b'')"
proof -
  have "trim_space ''ghcr.io/a/b'' = ''ghcr.io/a/b''" "trim_space ''ghcr-io/a/b'' = ''ghcr-io/a/b''"
    "trim_space ''ghcr-io'' = ''ghcr-io''" by code_simp+
  then show ?thesis
    by (simp add: incusOCIImageRef_def sanitizeLocalName_def Let_def lower_byte_def slug_char_def less_eq_char_def trim_dashes_def)
qed

text \<open>A session may be named by a number, but is then found only by another name: the number is an identifier.\<close>

lemma numeric_name_is_id:
  "namePattern ''7'' \<and> parseSessionLocator ''7'' = Inr \<lparr>cl_Node = [], cl_ID = Some 7, cl_Name = []\<rparr> \<and>
   parseSessionLocator ''@7'' = Inr \<lparr>cl_Node = [], cl_ID = Some 7, cl_Name = []\<rparr>"
proof -
  have "parse_uint32 ''7'' = Some 7" by (simp add: parse_uint32_def is_digit_def digit_val_def less_eq_char_def)
  moreover have "trim_space ''7'' = ''7''" "trim_space ''@7'' = ''@7''" "namePattern ''7''" by code_simp+
  ultimately show ?thesis
    by (simp add: parseSessionLocator_def parseSessionTarget_def trim_prefix_def has_prefix_def Let_def)
qed

text \<open>A release is not newer than its own pre-releases.\<close>

lemma prerelease_not_notified: "\<not> IsNewer ''v1.2.3-rc1'' ''v1.2.3''"
  by code_simp

section \<open>Versions in order\<close>

lemma IsNewer_iff:
  "IsNewer a b \<longleftrightarrow> (\<exists>x y. parseSemver a = Some x \<and> parseSemver b = Some y \<and>
     (fst x < fst y \<or> fst x = fst y \<and> (fst (snd x) < fst (snd y) \<or> fst (snd x) = fst (snd y) \<and> snd (snd x) < snd (snd y))))"
  by (auto simp: IsNewer_def split: option.splits)

lemma IsNewer_irrefl: "\<not> IsNewer v v"
  by (auto simp: IsNewer_iff)

lemma IsNewer_trans: "IsNewer a b \<Longrightarrow> IsNewer b c \<Longrightarrow> IsNewer a c"
  unfolding IsNewer_iff by (elim exE conjE) auto

text \<open>A fresh entry is used without asking again, and an answer makes a fresh entry.\<close>

lemma cached_for_a_day:
  assumes "checkWithCache v now (Some latest) None = (r, file)" "now \<le> later" "later - now < cacheTTL"
  shows "checkWithCache v later fetched file = (r, file)"
  using assms by (auto simp: checkWithCache_def)

section \<open>Sessions by name\<close>

lemma namePattern_trim: "namePattern s \<Longrightarrow> trim_space s = s \<and> s \<noteq> [] \<and> \<not> has_prefix s ''@'' \<and> CHR '':'' \<notin> set s"
proof -
  assume s: "namePattern s"
  then have chars: "list_all name_char s" "s \<noteq> []" "CHR ''@'' \<notin> set s" using namePattern_chars by auto
  moreover have "CHR '':'' \<notin> set s"
    using chars(1) by (auto simp: list_all_iff name_char_def is_alnum_def less_eq_char_def)
  ultimately show ?thesis using trim_space_name by (cases s) (auto simp: has_prefix_def)
qed

lemma parse_target_name:
  assumes "namePattern s" "parse_uint32 s = None"
  shows "parseSessionTarget s = Inr \<lparr>cl_Node = [], cl_ID = None, cl_Name = s\<rparr>"
  using namePattern_trim [OF assms(1)] assms(2)
  by (simp add: parseSessionTarget_def trim_prefix_def has_prefix_def Let_def)

section \<open>The properties\<close>

text \<open>
  A session is found again by the name it was given, on this node or another: of every valid name
  that is not a number, written after the name of a node, the command line reads that node and that name.
\<close>

theorem session_locator_roundtrip:
  assumes "namePattern name" "parse_uint32 name = None" "ValidateNodeName node"
  shows "parseSessionLocator (node @ '':'' @ name) = Inr \<lparr>cl_Node = node, cl_ID = None, cl_Name = name\<rparr> \<and>
    parseSessionLocator name = Inr \<lparr>cl_Node = [], cl_ID = None, cl_Name = name\<rparr>"
proof -
  note n = namePattern_trim [OF assms(1)]
  have node: "list_all name_char node" "node \<noteq> []" "CHR '':'' \<notin> set node"
    using assms(3) by (auto simp: ValidateNodeName_def list_all_iff name_byte_def name_char_def is_alnum_def less_eq_char_def)
  let ?arg = "node @ '':'' @ name"
  have "name_char (hd ?arg)" "name_char (last ?arg)"
    using node n namePattern_chars [OF assms(1)] by (auto simp: list_all_iff)
  then have trim: "trim_space ?arg = ?arg" using node(2) by (intro trim_space_ends) simp_all
  have parts: "takeWhile (\<lambda>c. c \<noteq> CHR '':'') ?arg = node" "tl (dropWhile (\<lambda>c. c \<noteq> CHR '':'') ?arg) = name"
    using node(3) by (auto simp: takeWhile_append dropWhile_append)
  have count: "count_list ?arg (CHR '':'') = 1" "count_list name (CHR '':'') = 0"
    using node(3) n by (simp_all add: count_list_0_iff)
  have "trim_space node = node" using node(1) trim_space_name by blast
  then have "parseSessionLocator ?arg = Inr \<lparr>cl_Node = node, cl_ID = None, cl_Name = name\<rparr>"
    unfolding parseSessionLocator_def trim Let_def parts count
    using n node(2) parse_target_name [OF assms(1,2)] by simp
  moreover have "parseSessionLocator name = Inr \<lparr>cl_Node = [], cl_ID = None, cl_Name = name\<rparr>"
    using n count(2) parse_target_name [OF assms(1,2)] by (simp add: parseSessionLocator_def Let_def)
  ultimately show ?thesis by blast
qed

theorem session_locator_roundtrip_witness:
  "parseSessionLocator ''build-1:web'' = Inr \<lparr>cl_Node = ''build-1'', cl_ID = None, cl_Name = ''web''\<rparr>"
proof -
  have "namePattern ''web''" "ValidateNodeName ''build-1''" by code_simp+
  moreover have "parse_uint32 ''web'' = None" by (simp add: parse_uint32_def is_digit_def less_eq_char_def)
  ultimately show ?thesis using session_locator_roundtrip [of "''web''" "''build-1''"] by simp
qed

text \<open>
  C36. An environment that is stopped, removed or entered by a reference is one the platform has, and
  the only one the reference can mean: the one with this identifier, else the only one of this name,
  else, if none has the name, the only one whose identifier starts so.
\<close>

theorem env_reference_unambiguous:
  assumes "resolveEnvID exists (Some envs) ref0 = Inr i"
  shows "let ref = trim_space ref0 in
    i = ref \<and> exists ref \<or>
    (\<exists>e. e \<in> set envs \<and> pe_ID e = i \<and>
       (i = ref \<or>
        (\<forall>e'. e' \<in> set envs \<and> pe_Name e' = Some ref \<longleftrightarrow> e' = e) \<or>
        (\<forall>e'. \<not> (e' \<in> set envs \<and> pe_Name e' = Some ref)) \<and>
        (\<forall>e'. e' \<in> set envs \<and> has_prefix (pe_ID e') ref \<longleftrightarrow> e' = e)))"
proof -
  let ?r = "trim_space ref0"
  have again: "resolveEnvIDFromList envs ?r = resolveEnvIDFromList envs ref0"
    by (simp add: resolveEnvIDFromList_def trim_space_idem)
  have "?r \<noteq> []" using assms by (auto simp: resolveEnvID_def)
  then consider "i = ?r" "exists ?r" | "resolveEnvIDFromList envs ref0 = Inr i"
    using assms by (cases "36 \<le> length ?r \<and> CHR ''-'' \<in> set ?r \<and> exists ?r") (simp_all add: resolveEnvID_def Let_def again)
  then show ?thesis
  proof cases
    case 2
    let ?named = "filter (\<lambda>e. pe_Name e = Some ?r) envs" and ?prefixed = "filter (\<lambda>e. has_prefix (pe_ID e) ?r) envs"
    have single: "(\<forall>x. x \<in> set envs \<and> P x \<longleftrightarrow> x = e)" if "filter P envs = [e]" for P e
      using arg_cong [OF that, of set] by auto
    consider e where "e \<in> set envs" "pe_ID e = ?r" "i = ?r"
      | e where "?named = [e]" "i = pe_ID e" | e where "?named = []" "?prefixed = [e]" "i = pe_ID e"
    proof (cases "list_ex (\<lambda>e. pe_ID e = ?r) envs")
      case True
      moreover from this have "i = ?r" using 2 by (simp add: resolveEnvIDFromList_def Let_def split: if_splits)
      ultimately show ?thesis using that(1) unfolding list_ex_iff by blast
    next
      case False
      show ?thesis
      proof (cases ?named)
        case Nil
        then obtain e where "?prefixed = [e]" "i = pe_ID e" using 2 False
          by (simp add: resolveEnvIDFromList_def Let_def split: if_splits list.splits)
        then show ?thesis using that(3) Nil by blast
      next
        case (Cons e es)
        then have "?named = [e]" "i = pe_ID e" using 2 False
          by (simp_all add: resolveEnvIDFromList_def Let_def split: if_splits list.splits)
        then show ?thesis by (rule that(2))
      qed
    qed
    then show ?thesis
    proof cases
      case (2 e)
      then show ?thesis using single [OF 2(1)] unfolding Let_def by metis
    next
      case (3 e)
      have "\<not> (e' \<in> set envs \<and> pe_Name e' = Some ?r)" for e' using arg_cong [OF 3(1), of set] by auto
      then show ?thesis using single [OF 3(2)] 3(3) unfolding Let_def by metis
    qed (unfold Let_def, blast)
  qed (simp add: Let_def)
qed

definition demo_envs :: "Environment list" where
  "demo_envs = [\<lparr>pe_ID = ''ab12'', pe_Name = Some ''web''\<rparr>, \<lparr>pe_ID = ''ab34'', pe_Name = None\<rparr>, \<lparr>pe_ID = ''cd56'', pe_Name = None\<rparr>]"

theorem env_reference_unambiguous_witness:
  "resolveEnvID (\<lambda>i. False) (Some demo_envs) ''cd'' = Inr ''cd56'' \<and>
   resolveEnvID (\<lambda>i. False) (Some demo_envs) ''ab'' = Inl (RefAmbiguous [''ab12'', ''ab34'']) \<and>
   (\<exists>e. e \<in> set demo_envs \<and> pe_ID e = ''cd56'')"
proof -
  have "resolveEnvID (\<lambda>i. False) (Some demo_envs) ''cd'' = Inr ''cd56''"
    "resolveEnvID (\<lambda>i. False) (Some demo_envs) ''ab'' = Inl (RefAmbiguous [''ab12'', ''ab34''])" by code_simp+
  then show ?thesis
    using env_reference_unambiguous [of "\<lambda>i. False" demo_envs "''cd''" "''cd56''"] unfolding Let_def by blast
qed

text \<open>
  The three functions that make a name of a text agree: the loop of the local instances, the one of
  the presets, and the regular expression with its loop over double dashes, which always ends and cuts
  after 48 bytes. What they make is a slug: groups of lower-case letters and digits joined by single dashes.
\<close>

theorem slugs_agree:
  "slugifyPresetName text = sanitizeLocalName text \<and>
   slugify text = (let s = sanitizeLocalName text
                   in if 48 < length s then rev (dropWhile (\<lambda>c. c = CHR ''-'') (rev (take 48 s))) else s) \<and>
   slug (sanitizeLocalName text) \<and> slug (slugify text) \<and> length (slugify text) \<le> 48"
proof -
  have "\<not> sublist ''--'' (sanitizeLocalName text)" using slug_sanitized by (simp add: slug_def)
  then have "collapse_dashes (trim_dashes (replace_runs (to_lower (trim_space text)))) = sanitizeLocalName text"
    by (subst collapse_dashes.simps) (simp add: replace_runs_eq sanitize_eq)
  then have eq: "slugify text = (let s = sanitizeLocalName text
      in if 48 < length s then rev (dropWhile (\<lambda>c. c = CHR ''-'') (rev (take 48 s))) else s)"
    by (simp add: slugify_def)
  moreover have "length (rev (dropWhile (\<lambda>c. c = CHR ''-'') (rev (take 48 s)))) \<le> 48" for s :: string
    using length_dropWhile_le [of "\<lambda>c. c = CHR ''-''" "rev (take 48 s)"] by simp
  ultimately have "length (slugify text) \<le> 48" "slug (slugify text)"
    using slug_sanitized slug_cut by (simp_all add: Let_def)
  then show ?thesis using eq slug_sanitized by (simp add: slugifyPresetName_def sanitizeLocalName_def)
qed

end
