(* ===== verification/LocalMounts.thy ===== *)
theory LocalMounts
  imports CliRefs
begin

text \<open>
  Which directories of the host a local instance sees (\<open>cmd/cw/lima_backend.go\<close>): besides the project,
  the places outside of \<open>.codex\<close>, \<open>.config/gh\<close> and \<open>.ssh\<close> that symbolic links in them lead to.

  The file system is an input: what the calls of package \<open>os\<close> answer for each path. Paths are those of
  Unix.
\<close>

section \<open>Paths\<close>

definition path_join :: "string \<Rightarrow> string \<Rightarrow> string" where
  "path_join a b =
     (if a = [] then (if b = [] then [] else clean_path b) else clean_path (a @ CHR ''/'' # b))"

text \<open>\<open>filepath.Dir\<close>: the path up to its last slash.\<close>

definition path_dir :: "string \<Rightarrow> string" where
  "path_dir p = clean_path (rev (dropWhile (\<lambda>c. c \<noteq> CHR ''/'') (rev p)))"

text \<open>\<open>filepath.Rel\<close> compares the components of the two clean paths.\<close>

definition path_comps :: "string \<Rightarrow> string list" where
  "path_comps p = (let body = (if has_prefix p ''/'' then tl p else p) in if body = [] then [] else split_on (CHR ''/'') body)"

fun strip_common :: "string list \<Rightarrow> string list \<Rightarrow> string list \<times> string list" where
  "strip_common (b # bs) (t # ts) = (if b = t then strip_common bs ts else (b # bs, t # ts))"
| "strip_common bs ts = (bs, ts)"

definition path_rel :: "string \<Rightarrow> string \<Rightarrow> string option" where
  "path_rel base targ =
     (let b0 = clean_path base; t = clean_path targ; b = (if b0 = ''.'' then [] else b0) in
      if b0 = t then Some ''.''
      else if has_prefix b ''/'' \<noteq> has_prefix t ''/'' then None
      else
        let (bs, ts) = strip_common (path_comps b) (path_comps t) in
        if bs \<noteq> [] \<and> ts \<noteq> [] \<and> hd bs = DOTDOT then None
        else Some (join_with ''/'' (replicate (length bs) DOTDOT @ ts)))"

definition pathWithinRoot :: "string \<Rightarrow> string \<Rightarrow> bool" where
  "pathWithinRoot root0 candidate0 =
     (let root = clean_path root0; candidate = clean_path candidate0 in
      root = candidate \<or>
      (case path_rel root candidate of
         None \<Rightarrow> False
       | Some rel \<Rightarrow> rel = ''.'' \<or> rel \<noteq> DOTDOT \<and> \<not> has_prefix rel (DOTDOT @ ''/'')))"

section \<open>The links\<close>

datatype entry_kind = EntryLink | EntryDir | EntryOther
datatype stat_kind = StatDir | StatFile | StatOther

record host_fs =
  fs_dir :: "string \<Rightarrow> (string \<times> entry_kind) list option"
  fs_link :: "string \<Rightarrow> string option"
  fs_stat :: "string \<Rightarrow> stat_kind option"

text \<open>What has to be mounted for the link at \<open>path\<close>: its target outside of \<open>root\<close>, or the directory of that file.\<close>

definition link_mount :: "host_fs \<Rightarrow> string \<Rightarrow> string \<Rightarrow> string option" where
  "link_mount fs root path =
     (case fs_link fs path of
        None \<Rightarrow> None
      | Some target0 \<Rightarrow>
          let target = clean_path (if has_prefix target0 ''/'' then target0 else path_join (path_dir path) target0) in
          if pathWithinRoot root target then None
          else (case fs_stat fs target of
                  None \<Rightarrow> None
                | Some StatOther \<Rightarrow> None
                | Some kind \<Rightarrow>
                    let mountPath = (if kind = StatDir then target else path_dir target) in
                    if mountPath = ''/'' \<or> mountPath = ''.'' then None else Some mountPath))"

fun fold_some :: "('a \<Rightarrow> 's \<Rightarrow> 's option) \<Rightarrow> 'a list \<Rightarrow> 's \<Rightarrow> 's option" where
  "fold_some f [] s = Some s"
| "fold_some f (x # xs) s = (case f x s of None \<Rightarrow> None | Some s' \<Rightarrow> fold_some f xs s')"

text \<open>The recursive walk, with \<open>None\<close> when it has not ended within the given depth.\<close>

primrec walk :: "host_fs \<Rightarrow> string \<Rightarrow> nat \<Rightarrow> string \<Rightarrow> string list \<Rightarrow> string list option" where
  "walk fs root 0 = (\<lambda>dir found. None)"
| "walk fs root (Suc depth) = (\<lambda>dir found.
     (case fs_dir fs dir of
        None \<Rightarrow> Some found
      | Some entries \<Rightarrow>
          fold_some (\<lambda>(name, kind) acc.
            (case kind of
               EntryLink \<Rightarrow>
                 (case link_mount fs root (path_join dir name) of
                    None \<Rightarrow> Some acc
                  | Some m \<Rightarrow> Some (List.insert m acc))
             | EntryDir \<Rightarrow> walk fs root depth (path_join dir name) acc
             | EntryOther \<Rightarrow> Some acc)) entries found))"

fun collapse :: "string list \<Rightarrow> string list \<Rightarrow> string list" where
  "collapse kept [] = kept"
| "collapse kept (c # cs) =
     (if list_ex (\<lambda>existing. pathWithinRoot existing c) kept then collapse kept cs else collapse (kept @ [c]) cs)"

definition discoverExternalSymlinkMounts :: "host_fs \<Rightarrow> nat \<Rightarrow> string \<Rightarrow> bool \<Rightarrow> MountConfig list option" where
  "discoverExternalSymlinkMounts fs depth root0 readOnly =
     (let root = clean_path (trim_space root0) in
      if root = [] \<or> fs_stat fs root = None then Some []
      else map_option
        (\<lambda>found. map (\<lambda>c. \<lparr>mc_Source = c, mc_Target = c, mc_Readonly = Some readOnly\<rparr>)
           (collapse [] (sort_key (\<lambda>p. (length p, p)) found)))
        (walk fs root depth root []))"

section \<open>The mounts of an instance\<close>

text \<open>An instance, less the fields that are only copied (preset, scripts, agent, secrets, times) and those of Firecracker.\<close>

record LocalInstance =
  li_Name :: string
  li_Backend :: string
  li_RuntimeName :: string
  li_RepoPath :: string
  li_Workdir :: string
  li_Image :: string
  li_Env :: "(string, string) gomap"
  li_Ports :: "PortConfig list"
  li_Mounts :: "MountConfig list"
  li_CPU :: int
  li_Memory :: int
  li_Disk :: int
  li_LimaInstanceName :: string
  li_LimaMountType :: string
  li_LimaVMType :: string

definition localWorkspacePath :: string where "localWorkspacePath = ''/workspace''"

definition limaInstanceName :: "LocalInstance \<Rightarrow> string" where
  "limaInstanceName i =
     (if trim_space (li_LimaInstanceName i) \<noteq> [] then trim_space (li_LimaInstanceName i)
      else if trim_space (li_RuntimeName i) \<noteq> [] then trim_space (li_RuntimeName i)
      else trim_space (li_Name i))"

definition limaRepoMountPath :: "LocalInstance \<Rightarrow> string" where
  "limaRepoMountPath i =
     (if trim_space (li_Workdir i) \<noteq> [] then clean_path (trim_space (li_Workdir i))
      else if trim_space (li_RepoPath i) \<noteq> [] then clean_path (trim_space (li_RepoPath i))
      else localWorkspacePath)"

text \<open>The links of the three directories in the home directory, if there is one, then the instance's own mounts.\<close>

definition instance_mounts :: "host_fs \<Rightarrow> nat \<Rightarrow> string option \<Rightarrow> LocalInstance \<Rightarrow> MountConfig list option" where
  "instance_mounts fs depth home i =
     (case home of
        None \<Rightarrow> Some (limaAdditionalMounts [] (li_Mounts i))
      | Some h \<Rightarrow>
          (case (discoverExternalSymlinkMounts fs depth (path_join h ''.codex'') False,
                 discoverExternalSymlinkMounts fs depth (path_join (path_join h ''.config'') ''gh'') False,
                 discoverExternalSymlinkMounts fs depth (path_join h ''.ssh'') True) of
             (Some codex, Some gh, Some ssh) \<Rightarrow> Some (limaAdditionalMounts (codex @ gh @ ssh) (li_Mounts i))
           | _ \<Rightarrow> None))"

section \<open>Absolute paths and their components\<close>

definition abs_path :: "string list \<Rightarrow> string" where
  "abs_path cs = CHR ''/'' # join_with ''/'' cs"

definition dir_names :: "string list \<Rightarrow> bool" where
  "dir_names cs \<longleftrightarrow> list_all plain_part cs \<and> DOTDOT \<notin> set cs"

lemma dir_names_simps [simp]:
  "dir_names []" "dir_names (c # cs) \<longleftrightarrow> plain_part c \<and> c \<noteq> DOTDOT \<and> dir_names cs"
  "dir_names (as @ bs) \<longleftrightarrow> dir_names as \<and> dir_names bs"
  by (auto simp: dir_names_def)

lemma names_clean: "dir_names cs \<longleftrightarrow> clean_parts True cs"
  by (auto simp: dir_names_def clean_parts_def)

lemma names_slash: "dir_names cs \<Longrightarrow> c \<in> set cs \<Longrightarrow> CHR ''/'' \<notin> set c \<and> c \<noteq> []"
  by (auto simp: dir_names_def list_all_iff plain_part_def)

lemma clean_rooted: "clean_path (CHR ''/'' # s) = abs_path (foldl (clean_step True) [] (split_on (CHR ''/'') s))"
  by (simp add: clean_path_def abs_path_def has_prefix_def Let_def) (simp add: clean_step_def)

lemma clean_absolute:
  assumes "has_prefix p ''/''"
  obtains cs where "dir_names cs" "clean_path p = abs_path cs"
proof -
  obtain s where p: "p = CHR ''/'' # s" using assms by (auto simp: has_prefix_def prefix_def)
  have "clean_parts True (foldl (clean_step True) [] (split_on (CHR ''/'') s))"
    using split_on_no_slash by (intro clean_parts_fold) (auto simp: clean_parts_def)
  then show ?thesis using that clean_rooted [of s] p by (simp add: names_clean)
qed

lemma split_names: "dir_names cs \<Longrightarrow> cs \<noteq> [] \<Longrightarrow> split_on (CHR ''/'') (join_with ''/'' cs) = cs"
  using names_slash by (intro split_on_join) auto

lemma fold_names: "dir_names cs \<Longrightarrow> foldl (clean_step True) [] cs = cs"
  by (simp add: fold_clean_parts names_clean)

lemma clean_abs_path: "dir_names cs \<Longrightarrow> clean_path (abs_path cs) = abs_path cs"
  unfolding abs_path_def clean_rooted
  by (cases "cs = []") (simp_all add: abs_path_def split_names fold_names clean_step_def)

lemma join_ne: "dir_names cs \<Longrightarrow> cs \<noteq> [] \<Longrightarrow> join_with ''/'' cs \<noteq> []"
  by (cases cs; cases "tl cs") (auto simp: plain_part_def)

lemma comps_abs_path: "dir_names cs \<Longrightarrow> path_comps (abs_path cs) = cs"
  using split_names join_ne by (cases "cs = []") (simp_all add: path_comps_def abs_path_def has_prefix_def Let_def)

lemma abs_path_inject: "dir_names as \<Longrightarrow> dir_names bs \<Longrightarrow> abs_path as = abs_path bs \<longleftrightarrow> as = bs"
  using comps_abs_path by metis

lemma join_snoc: "cs \<noteq> [] \<Longrightarrow> join_with s (cs @ [n]) = join_with s cs @ s @ n"
proof (induction cs)
  case (Cons c cs)
  then show ?case by (cases cs) simp_all
qed simp

lemma join_abs_path: "dir_names cs \<Longrightarrow> plain_part n \<Longrightarrow> n \<noteq> DOTDOT \<Longrightarrow> path_join (abs_path cs) n = abs_path (cs @ [n])"
proof (cases "cs = []")
  case True
  assume n: "plain_part n" "n \<noteq> DOTDOT"
  have "split_on (CHR ''/'') (CHR ''/'' # n) = [[], n]" using n split_on_append [of "CHR ''/''" "[]" n] split_on_no_sep
    by (simp add: plain_part_def)
  then show ?thesis using True n by (simp add: path_join_def abs_path_def clean_rooted clean_step_def plain_part_def)
next
  case False
  assume "dir_names cs" "plain_part n" "n \<noteq> DOTDOT"
  then have "dir_names (cs @ [n])" by simp
  then show ?thesis using False clean_abs_path [of "cs @ [n]"] by (simp add: path_join_def abs_path_def join_snoc)
qed

lemma split_on_snoc: "split_on c (s @ [c]) = split_on c s @ [[]]"
  by (induction s) (auto split: list.splits)

lemma dir_abs_path: "dir_names (cs @ [c]) \<Longrightarrow> path_dir (abs_path (cs @ [c])) = abs_path cs"
proof -
  assume n: "dir_names (cs @ [c])"
  have plain: "x \<noteq> CHR ''/''" if "x \<in> set (rev c)" for x using names_slash [OF n, of c] that by auto
  have cut: "rev (dropWhile (\<lambda>x. x \<noteq> CHR ''/'') (rev (p @ CHR ''/'' # c))) = p @ ''/''" for p
    using dropWhile_append2 [of "rev c" "\<lambda>x. x \<noteq> CHR ''/''" "CHR ''/'' # rev p", OF plain] by simp
  show ?thesis
  proof (cases "cs = []")
    case True
    then show ?thesis using cut [of "[]"] by (simp add: path_dir_def abs_path_def clean_rooted clean_step_def)
  next
    case False
    then have "abs_path (cs @ [c]) = abs_path cs @ CHR ''/'' # c" by (simp add: abs_path_def join_snoc)
    then have "path_dir (abs_path (cs @ [c])) = clean_path (abs_path cs @ ''/'')" using cut by (simp add: path_dir_def)
    also have "\<dots> = abs_path (foldl (clean_step True) [] (cs @ [[]]))"
      using n False by (simp add: abs_path_def clean_rooted split_on_snoc split_names)
    finally show ?thesis using n fold_names by (simp add: clean_step_def)
  qed
qed

lemma dir_absolute:
  assumes "dir_names ts"
  obtains ts' where "dir_names ts'" "path_dir (abs_path ts) = abs_path ts'"
proof (cases ts rule: rev_cases)
  case Nil
  then have "path_dir (abs_path ts) = abs_path []" by (simp add: path_dir_def abs_path_def clean_rooted clean_step_def)
  then show ?thesis by (rule that [rotated]) simp
next
  case (snoc us u)
  then show ?thesis using that [of us] dir_abs_path assms by simp
qed

section \<open>One path within another\<close>

lemma strip_prefix: "strip_common bs (bs @ ts) = ([], ts)"
  by (induction bs) simp_all

lemma strip_not_prefix: "\<not> prefix bs ts \<Longrightarrow> fst (strip_common bs ts) \<noteq> [] \<and> set (fst (strip_common bs ts)) \<subseteq> set bs"
  by (induction bs ts rule: strip_common.induct) auto

lemma up_not_within: "0 < n \<Longrightarrow> let r = join_with ''/'' (replicate n DOTDOT @ ts) in r = DOTDOT \<or> has_prefix r (DOTDOT @ ''/'')"
proof -
  assume "0 < n"
  then obtain k where "n = Suc k" by (cases n) auto
  then obtain us where us: "replicate n DOTDOT @ ts = DOTDOT # us" by simp
  show ?thesis unfolding us Let_def by (cases us) (simp_all add: has_prefix_def)
qed

lemma down_within: "dir_names (t # ts) \<Longrightarrow> let r = join_with ''/'' (t # ts) in r \<noteq> DOTDOT \<and> \<not> has_prefix r (DOTDOT @ ''/'')"
proof -
  assume n: "dir_names (t # ts)"
  have plain: "x \<noteq> CHR ''/''" if "x \<in> set t" for x using names_slash [OF n, of t] that by auto
  have "takeWhile (\<lambda>c. c \<noteq> CHR ''/'') (t @ CHR ''/'' # u) = t" "takeWhile (\<lambda>c. c \<noteq> CHR ''/'') t = t" for u
    using takeWhile_append2 [of t "\<lambda>c. c \<noteq> CHR ''/''" "CHR ''/'' # u", OF plain] plain
    by (simp_all add: takeWhile_eq_all_conv)
  then have "takeWhile (\<lambda>c. c \<noteq> CHR ''/'') (join_with ''/'' (t # ts)) = t" by (cases ts) simp_all
  moreover have "takeWhile (\<lambda>c. c \<noteq> CHR ''/'') DOTDOT = DOTDOT" "takeWhile (\<lambda>c. c \<noteq> CHR ''/'') (DOTDOT @ CHR ''/'' # u) = DOTDOT" for u
    by (simp_all add: DOTDOT_def)
  moreover have "t \<noteq> DOTDOT" using n by simp
  ultimately have "join_with ''/'' (t # ts) \<noteq> DOTDOT" "\<And>u. join_with ''/'' (t # ts) \<noteq> DOTDOT @ CHR ''/'' # u" by metis+
  then show ?thesis unfolding Let_def has_prefix_def prefix_def by simp
qed

lemma within_iff:
  assumes "dir_names rs" "dir_names ts"
  shows "pathWithinRoot (abs_path rs) (abs_path ts) \<longleftrightarrow> prefix rs ts"
proof (cases "rs = ts")
  case True
  then show ?thesis by (simp add: pathWithinRoot_def)
next
  case False
  let ?rel = "path_rel (abs_path rs) (abs_path ts)"
  have ne: "abs_path rs \<noteq> abs_path ts" using False abs_path_inject assms by simp
  have slash: "has_prefix (abs_path cs) ''/''" "abs_path cs \<noteq> ''.''" for cs by (simp_all add: abs_path_def has_prefix_def)
  have rel: "?rel = (let (bs, us) = strip_common rs ts in
      if bs \<noteq> [] \<and> us \<noteq> [] \<and> hd bs = DOTDOT then None
      else Some (join_with ''/'' (replicate (length bs) DOTDOT @ us)))"
    using assms ne slash by (simp add: path_rel_def Let_def clean_abs_path comps_abs_path)
  have within: "pathWithinRoot (abs_path rs) (abs_path ts) \<longleftrightarrow>
      (case ?rel of None \<Rightarrow> False | Some r \<Rightarrow> r = ''.'' \<or> r \<noteq> DOTDOT \<and> \<not> has_prefix r (DOTDOT @ ''/''))"
    using assms ne by (simp add: pathWithinRoot_def Let_def clean_abs_path)
  show ?thesis
  proof (cases "prefix rs ts")
    case True
    then obtain zs where zs: "ts = rs @ zs" "zs \<noteq> []" using False by (auto simp: prefix_def)
    then obtain u us where us: "ts = rs @ u # us" by (cases zs) auto
    then have "?rel = Some (join_with ''/'' (u # us))" using rel by (simp add: strip_prefix)
    then show ?thesis using True within down_within [of u us] us assms(2) by (simp add: Let_def)
  next
    case no: False
    obtain bs us where strip: "strip_common rs ts = (bs, us)" by fastforce
    then have bs: "bs \<noteq> []" "DOTDOT \<notin> set bs"
      using strip_not_prefix [OF no] assms(1) by (auto simp: dir_names_def)
    then have "?rel = Some (join_with ''/'' (replicate (length bs) DOTDOT @ us))"
    proof -
      have "hd bs \<noteq> DOTDOT" using bs hd_in_set by metis
      then show ?thesis using rel strip by simp
    qed
    moreover have "join_with ''/'' (replicate (length bs) DOTDOT @ us) \<noteq> ''.''"
      using up_not_within [of "length bs" us] bs(1) by (auto simp: Let_def has_prefix_def DOTDOT_def prefix_def)
    ultimately show ?thesis using no within up_not_within [of "length bs" us] bs(1) by (auto simp: Let_def)
  qed
qed

lemma prefix_path_length: "prefix as bs \<Longrightarrow> length (abs_path as) \<le> length (abs_path bs)"
proof -
  have "length (join_with ''/'' as) \<le> length (join_with ''/'' (as @ cs))" for cs
  proof (induction cs rule: rev_induct)
    case (snoc c cs)
    then show ?case by (cases "as @ cs = []") (simp_all add: join_snoc [of "as @ cs", simplified])
  qed simp
  then show "prefix as bs \<Longrightarrow> ?thesis" by (auto simp: prefix_def abs_path_def)
qed

section \<open>The walk\<close>

text \<open>
  What the operating system promises: a directory is read only by a path of less than 4096 bytes, and
  its entries have plain names.
\<close>

definition posix_dirs :: "host_fs \<Rightarrow> bool" where
  "posix_dirs fs \<longleftrightarrow>
     (\<forall>p es. fs_dir fs p = Some es \<longrightarrow>
        length p < 4096 \<and> (\<forall>n k. (n, k) \<in> set es \<longrightarrow> plain_part n \<and> n \<noteq> DOTDOT))"

inductive dir_below :: "host_fs \<Rightarrow> string \<Rightarrow> string \<Rightarrow> bool" for fs where
  here: "dir_below fs d d"
| sub: "fs_dir fs d = Some es \<Longrightarrow> (n, EntryDir) \<in> set es \<Longrightarrow> dir_below fs (path_join d n) d' \<Longrightarrow> dir_below fs d d'"

inductive_cases dir_belowE: "dir_below fs d d'"

text \<open>The places the links below a directory lead to.\<close>

definition link_mounts :: "host_fs \<Rightarrow> string \<Rightarrow> string \<Rightarrow> string set" where
  "link_mounts fs root dir =
     {m. \<exists>d es n. dir_below fs dir d \<and> fs_dir fs d = Some es \<and> (n, EntryLink) \<in> set es \<and>
        link_mount fs root (path_join d n) = Some m}"

lemma link_mounts_unfold:
  "link_mounts fs root dir =
     (case fs_dir fs dir of
        None \<Rightarrow> {}
      | Some es \<Rightarrow> {m. \<exists>n. (n, EntryLink) \<in> set es \<and> link_mount fs root (path_join dir n) = Some m} \<union>
          (\<Union>n \<in> {n. (n, EntryDir) \<in> set es}. link_mounts fs root (path_join dir n)))"
proof (cases "fs_dir fs dir")
  case None
  have "d = dir" if "dir_below fs dir d" for d using that None by (auto elim: dir_belowE)
  then have "\<not> (dir_below fs dir d \<and> fs_dir fs d = Some es)" for d es using None by (metis option.distinct(1))
  then have "link_mounts fs root dir = {}" unfolding link_mounts_def by blast
  then show ?thesis using None by simp
next
  case (Some es)
  have "dir_below fs dir d \<longleftrightarrow> d = dir \<or> (\<exists>n. (n, EntryDir) \<in> set es \<and> dir_below fs (path_join dir n) d)" for d
    using Some by (auto elim: dir_belowE intro: dir_below.intros)
  then show ?thesis using Some unfolding link_mounts_def by (auto; blast)
qed

lemma fold_some_total: "(\<And>x acc. x \<in> set xs \<Longrightarrow> f x acc \<noteq> None) \<Longrightarrow> fold_some f xs acc \<noteq> None"
proof (induction xs arbitrary: acc)
  case (Cons x xs)
  then obtain acc' where "f x acc = Some acc'" by fastforce
  then show ?case using Cons by simp
qed simp

lemma fold_some_set:
  "(\<And>x acc acc'. x \<in> set xs \<Longrightarrow> f x acc = Some acc' \<Longrightarrow> set acc' = set acc \<union> G x) \<Longrightarrow>
   fold_some f xs acc = Some acc' \<Longrightarrow> set acc' = set acc \<union> (\<Union>x \<in> set xs. G x)"
proof (induction xs arbitrary: acc)
  case (Cons x xs)
  then obtain acc1 where one: "f x acc = Some acc1" "fold_some f xs acc1 = Some acc'" by (auto split: option.splits)
  have "set acc1 = set acc \<union> G x" using Cons.prems(1) one(1) by simp
  moreover have "set acc' = set acc1 \<union> (\<Union>x \<in> set xs. G x)" using Cons.IH [OF Cons.prems(1) one(2)] by simp
  ultimately show ?case by auto
qed simp

text \<open>Every step down makes the path longer, so the walk ends.\<close>

lemma walk_ends:
  "posix_dirs fs \<Longrightarrow> dir_names cs \<Longrightarrow> 0 < depth \<Longrightarrow> 4096 < depth + length (abs_path cs) \<Longrightarrow>
   walk fs root depth (abs_path cs) found \<noteq> None"
proof (induction depth arbitrary: cs found)
  case (Suc depth)
  show ?case
  proof (cases "fs_dir fs (abs_path cs)")
    case (Some es)
    then have short: "length (abs_path cs) < 4096" using Suc.prems(1) unfolding posix_dirs_def by blast
    have "walk fs root depth (path_join (abs_path cs) n) acc \<noteq> None" if "(n, EntryDir) \<in> set es" for n acc
    proof -
      have n: "plain_part n" "n \<noteq> DOTDOT" using Suc.prems(1) Some that by (auto simp: posix_dirs_def)
      then have join: "path_join (abs_path cs) n = abs_path (cs @ [n])" using Suc.prems(2) by (intro join_abs_path)
      have "length (abs_path cs) < length (abs_path (cs @ [n]))"
        using n by (cases "cs = []") (auto simp: abs_path_def join_snoc plain_part_def)
      then show ?thesis unfolding join using Suc.prems n short by (intro Suc.IH) simp_all
    qed
    then have "(\<lambda>(name, kind) acc. (case kind of
        EntryLink \<Rightarrow>
          (case link_mount fs root (path_join (abs_path cs) name) of None \<Rightarrow> Some acc | Some m \<Rightarrow> Some (List.insert m acc))
      | EntryDir \<Rightarrow> walk fs root depth (path_join (abs_path cs) name) acc
      | EntryOther \<Rightarrow> Some acc)) x acc \<noteq> None" if "x \<in> set es" for x acc
      using that by (cases x; cases "snd x") (auto split: option.split)
    then show ?thesis using Some by (simp add: fold_some_total del: not_None_eq)
  qed simp
qed simp

lemma walk_finds:
  "walk fs root depth dir found = Some found' \<Longrightarrow> set found' = set found \<union> link_mounts fs root dir"
proof (induction depth arbitrary: dir found found')
  case (Suc depth)
  show ?case
  proof (cases "fs_dir fs dir")
    case None
    then show ?thesis using Suc.prems by (subst link_mounts_unfold) simp
  next
    case (Some es)
    let ?G = "\<lambda>(n, kind). (case kind of
      EntryLink \<Rightarrow> {m. link_mount fs root (path_join dir n) = Some m}
    | EntryDir \<Rightarrow> link_mounts fs root (path_join dir n)
    | EntryOther \<Rightarrow> {})"
    let ?f = "\<lambda>(name, kind) acc. (case kind of
        EntryLink \<Rightarrow>
          (case link_mount fs root (path_join dir name) of None \<Rightarrow> Some acc | Some m \<Rightarrow> Some (List.insert m acc))
      | EntryDir \<Rightarrow> walk fs root depth (path_join dir name) acc
      | EntryOther \<Rightarrow> Some acc)"
    have step: "set acc' = set acc \<union> ?G x" if "?f x acc = Some acc'" for x acc acc'
    proof (cases x)
      case (Pair n kind)
      then show ?thesis using that Suc.IH [of "path_join dir n" acc acc']
        by (cases kind) (auto split: option.splits)
    qed
    have "fold_some ?f es found = Some found'" using Suc.prems Some by simp
    then have "set found' = set found \<union> (\<Union>x \<in> set es. ?G x)"
      by (rule fold_some_set [where f = ?f and G = ?G, rotated]) (rule step)
    moreover have "(\<Union>x \<in> set es. ?G x) = link_mounts fs root dir"
      by (subst link_mounts_unfold) (auto simp: Some split: entry_kind.splits)
    ultimately show ?thesis by simp
  qed
qed simp

lemma dir_below_absolute: "dir_below fs d d' \<Longrightarrow> posix_dirs fs \<Longrightarrow> dir_names cs \<Longrightarrow> d = abs_path cs \<Longrightarrow> \<exists>cs'. dir_names cs' \<and> d' = abs_path cs'"
proof (induction arbitrary: cs rule: dir_below.induct)
  case (sub d es n d')
  then have n: "plain_part n" "n \<noteq> DOTDOT" unfolding posix_dirs_def by blast+
  then have "path_join d n = abs_path (cs @ [n])" using sub.prems by (simp add: join_abs_path)
  then show ?case using sub.IH [of "cs @ [n]"] sub.prems n by simp
qed auto

lemma link_mount_absolute:
  assumes "link_mount fs root (abs_path cs) = Some m" "dir_names cs"
  shows "\<exists>ms. dir_names ms \<and> m = abs_path ms \<and> ms \<noteq> []"
proof -
  obtain target0 where "fs_link fs (abs_path cs) = Some target0"
    using assms(1) by (auto simp: link_mount_def split: option.splits)
  let ?p = "if has_prefix target0 ''/'' then target0 else path_join (path_dir (abs_path cs)) target0"
  have "\<exists>ts. dir_names ts \<and> clean_path ?p = abs_path ts"
  proof (cases "has_prefix target0 ''/''")
    case True
    then show ?thesis using clean_absolute by metis
  next
    case False
    obtain ds where ds: "dir_names ds" "path_dir (abs_path cs) = abs_path ds" using dir_absolute [OF assms(2)] by blast
    then have "has_prefix (abs_path ds @ CHR ''/'' # target0) ''/''" by (simp add: abs_path_def has_prefix_def)
    then obtain us where us: "dir_names us" "clean_path (abs_path ds @ CHR ''/'' # target0) = abs_path us"
      using clean_absolute by metis
    then have "path_join (path_dir (abs_path cs)) target0 = abs_path us" using ds by (simp add: path_join_def abs_path_def)
    then show ?thesis using False us(1) clean_abs_path by auto
  qed
  then obtain ts where ts: "dir_names ts" "clean_path ?p = abs_path ts" by blast
  obtain ts' where ts': "dir_names ts'" "path_dir (abs_path ts) = abs_path ts'" using dir_absolute [OF ts(1)] by blast
  have "m \<in> {abs_path ts, abs_path ts'}" "m \<noteq> ''/''"
    using assms(1) ts(2) ts'(2) \<open>fs_link fs (abs_path cs) = Some target0\<close>
    by (auto simp: link_mount_def Let_def split: option.splits stat_kind.splits if_splits)
  then show ?thesis using ts(1) ts'(1) by (auto simp: abs_path_def)
qed

section \<open>The smallest set of places\<close>

lemma within_refl: "pathWithinRoot p p"
  by (simp add: pathWithinRoot_def)

lemma collapse_set: "set (collapse kept cs) \<subseteq> set kept \<union> set cs \<and> set kept \<subseteq> set (collapse kept cs)"
proof (induction kept cs rule: collapse.induct)
  case (2 kept c cs)
  then show ?case by auto
qed simp

lemma collapse_covers: "c \<in> set cs \<Longrightarrow> \<exists>k. k \<in> set (collapse kept cs) \<and> pathWithinRoot k c"
proof (induction kept cs rule: collapse.induct)
  case (2 kept x cs)
  have kept: "set k \<subseteq> set (collapse k cs)" for k using collapse_set by blast
  show ?case
  proof (cases "list_ex (\<lambda>existing. pathWithinRoot existing x) kept")
    case True
    then show ?thesis using 2 kept [of kept] by (auto simp: list_ex_iff)
  next
    case False
    then show ?thesis using 2 kept [of "kept @ [x]"] within_refl by auto
  qed
qed simp

lemma collapse_sorted: "sorted_wrt P (kept @ cs) \<Longrightarrow> sorted_wrt P (collapse kept cs)"
proof (induction kept cs rule: collapse.induct)
  case (2 kept c cs)
  then show ?case by (auto simp: sorted_wrt_append)
qed simp

lemma collapse_apart:
  "sorted_wrt (\<lambda>a b. \<not> pathWithinRoot a b) kept \<Longrightarrow> sorted_wrt (\<lambda>a b. \<not> pathWithinRoot a b) (collapse kept cs)"
proof (induction kept cs rule: collapse.induct)
  case (2 kept c cs)
  then show ?case by (auto simp: sorted_wrt_append list_ex_iff)
qed simp

lemma sorted_wrt_both: "sorted_wrt P xs \<Longrightarrow> sorted_wrt Q xs \<Longrightarrow> sorted_wrt (\<lambda>a b. P a b \<and> Q a b) xs"
  by (induction xs) auto

lemma longer_not_around:
  assumes "dir_names as" "dir_names bs" "\<not> pathWithinRoot (abs_path as) (abs_path bs)" "length (abs_path as) \<le> length (abs_path bs)"
  shows "\<not> pathWithinRoot (abs_path bs) (abs_path as)"
proof
  assume "pathWithinRoot (abs_path bs) (abs_path as)"
  then have "prefix bs as" using within_iff assms by simp
  then obtain cs where cs: "as = bs @ cs" by (auto simp: prefix_def)
  have "cs \<noteq> []" using cs assms(3) within_refl by auto
  then have "bs \<noteq> as" "prefix bs as" using cs by auto
  have "length (join_with ''/'' bs) < length (join_with ''/'' (bs @ cs))" if "dir_names (bs @ cs)" "cs \<noteq> []" for cs
    using that
  proof (induction cs rule: rev_induct)
    case (snoc c cs)
    have c: "0 < length c" using snoc.prems by (simp add: plain_part_def)
    have more: "length (join_with ''/'' (bs @ cs)) < length (join_with ''/'' ((bs @ cs) @ [c]))"
      using c join_snoc [of "bs @ cs" "''/''" c] by (cases "bs @ cs = []") (simp_all del: append_assoc)
    show ?case
    proof (cases "cs = []")
      case False
      then have "length (join_with ''/'' bs) < length (join_with ''/'' (bs @ cs))" using snoc by simp
      then show ?thesis using more by simp
    qed (use more in simp)
  qed simp
  then have "length (abs_path bs) < length (abs_path as)" using \<open>cs \<noteq> []\<close> cs assms(1) by (simp add: abs_path_def)
  then show False using assms(4) by simp
qed

section \<open>The property\<close>

text \<open>
  C31. The search for links that lead out of a directory ends on every file system, also one whose
  directories contain each other, because paths are bounded; and every place a link below the directory
  leads to is mounted, by itself or within a mounted directory, with no mount inside another and nothing else
  mounted.
\<close>

theorem linked_places_mounted:
  assumes "posix_dirs fs" "has_prefix (trim_space root0) ''/''" "fs_stat fs (clean_path (trim_space root0)) \<noteq> None"
  shows "\<exists>ms. discoverExternalSymlinkMounts fs 4096 root0 readOnly = Some ms \<and>
    list_all (\<lambda>m. mc_Target m = mc_Source m \<and> mc_Readonly m = Some readOnly) ms \<and>
    sorted_wrt (\<lambda>a b. \<not> pathWithinRoot (mc_Source a) (mc_Source b) \<and> \<not> pathWithinRoot (mc_Source b) (mc_Source a)) ms \<and>
    mc_Source ` set ms \<subseteq> link_mounts fs (clean_path (trim_space root0)) (clean_path (trim_space root0)) \<and>
    link_mounts fs (clean_path (trim_space root0)) (clean_path (trim_space root0)) \<subseteq>
      {p. \<exists>m. m \<in> set ms \<and> pathWithinRoot (mc_Source m) p}"
proof -
  let ?root = "clean_path (trim_space root0)"
  obtain cs where cs: "dir_names cs" "?root = abs_path cs" using clean_absolute [OF assms(2)] by blast
  have "walk fs ?root 4096 (abs_path cs) [] \<noteq> None"
    by (rule walk_ends [OF assms(1) cs(1)]) (simp_all add: abs_path_def)
  then obtain found where found: "walk fs ?root 4096 ?root [] = Some found" using cs(2) by auto
  have set: "set found = link_mounts fs ?root ?root" using walk_finds [OF found] by simp
  let ?sorted = "sort_key (\<lambda>p. (length p, p)) found"
  let ?ks = "collapse [] ?sorted"
  let ?mount = "\<lambda>c. \<lparr>mc_Source = c, mc_Target = c, mc_Readonly = Some readOnly\<rparr>"
  obtain kind where "fs_stat fs ?root = Some kind" using assms(3) by auto
  then have result: "discoverExternalSymlinkMounts fs 4096 root0 readOnly = Some (map ?mount ?ks)"
    using found cs(2) by (simp add: discoverExternalSymlinkMounts_def Let_def abs_path_def)
  have absolute: "\<exists>ms. dir_names ms \<and> k = abs_path ms" if linked: "k \<in> link_mounts fs ?root ?root" for k
  proof -
    obtain d es n where k: "dir_below fs ?root d" "fs_dir fs d = Some es" "(n, EntryLink) \<in> set es"
      "link_mount fs ?root (path_join d n) = Some k"
      using linked unfolding link_mounts_def by blast
    obtain ds where d: "dir_names ds" "d = abs_path ds"
      using dir_below_absolute [OF k(1) assms(1) cs(1) cs(2)] by blast
    have n: "plain_part n" "n \<noteq> DOTDOT" using assms(1) k(2,3) unfolding posix_dirs_def by blast+
    then have "path_join d n = abs_path (ds @ [n])" "dir_names (ds @ [n])" using d by (simp_all add: join_abs_path)
    then show ?thesis using link_mount_absolute k(4) by metis
  qed
  have ks: "set ?ks \<subseteq> link_mounts fs ?root ?root" using collapse_set [of "[]" ?sorted] set by simp
  have "sorted_wrt (\<lambda>a b. \<not> pathWithinRoot a b) ?ks" by (rule collapse_apart) simp
  moreover have "sorted_wrt (\<lambda>a b. length a \<le> length b) ?ks"
  proof -
    have "sorted (map (\<lambda>p. (length p, p)) ?sorted)" by simp
    then have "sorted_wrt (\<lambda>a b. length a \<le> length b) ?sorted"
      by (simp add: sorted_map) (rule sorted_wrt_mono_rel, auto simp: less_eq_prod_def)
    then show ?thesis by (intro collapse_sorted) simp
  qed
  ultimately have "sorted_wrt (\<lambda>a b. \<not> pathWithinRoot a b \<and> length a \<le> length b) ?ks" by (rule sorted_wrt_both)
  then have "sorted_wrt (\<lambda>a b. \<not> pathWithinRoot a b \<and> \<not> pathWithinRoot b a) ?ks"
    by (rule sorted_wrt_mono_rel [rotated]) (use ks absolute longer_not_around in blast)
  then have apart: "sorted_wrt (\<lambda>a b. \<not> pathWithinRoot (mc_Source a) (mc_Source b) \<and>
      \<not> pathWithinRoot (mc_Source b) (mc_Source a)) (map ?mount ?ks)"
    by (simp add: sorted_wrt_map)
  have covered: "\<exists>m. m \<in> set (map ?mount ?ks) \<and> pathWithinRoot (mc_Source m) p" if "p \<in> link_mounts fs ?root ?root" for p
    using collapse_covers [of p ?sorted "[]"] that set by auto
  show ?thesis using result apart covered ks by (intro exI [of _ "map ?mount ?ks"]) (auto simp: list_all_iff)
qed

definition demo_fs :: host_fs where
  "demo_fs = \<lparr>
     fs_dir = (\<lambda>p. if p = ''/h/.ssh'' then Some [(''config'', EntryLink), (''keys'', EntryDir)] else None),
     fs_link = (\<lambda>p. if p = ''/h/.ssh/config'' then Some ''../dot/ssh'' else None),
     fs_stat = (\<lambda>p. if p = ''/h/.ssh'' then Some StatDir else if p = ''/h/dot/ssh'' then Some StatFile else None)\<rparr>"

theorem linked_places_mounted_witness:
  "\<exists>ms m. discoverExternalSymlinkMounts demo_fs 4096 ''/h/.ssh'' True = Some ms \<and> m \<in> set ms \<and>
     pathWithinRoot (mc_Source m) ''/h/dot''"
proof -
  have root: "clean_path (trim_space ''/h/.ssh'') = ''/h/.ssh''" "has_prefix (trim_space ''/h/.ssh'') ''/''" by code_simp+
  have "posix_dirs demo_fs" by (auto simp: posix_dirs_def demo_fs_def plain_part_def DOTDOT_def)
  moreover have "fs_stat demo_fs (clean_path (trim_space ''/h/.ssh'')) \<noteq> None" unfolding root by (simp add: demo_fs_def)
  moreover have "link_mount demo_fs ''/h/.ssh'' (path_join ''/h/.ssh'' ''config'') = Some ''/h/dot''" by code_simp
  then have "''/h/dot'' \<in> link_mounts demo_fs ''/h/.ssh'' ''/h/.ssh''"
    unfolding link_mounts_def using dir_below.here [of demo_fs "''/h/.ssh''"] by (force simp: demo_fs_def)
  ultimately show ?thesis
    using linked_places_mounted [of demo_fs "''/h/.ssh''" True] root unfolding root by blast
qed

text \<open>
  A link to a file brings in the whole directory of the file: one link to a file of the home directory
  mounts the home directory.
\<close>

definition dotfile_fs :: host_fs where
  "dotfile_fs = \<lparr>
     fs_dir = (\<lambda>p. if p = ''/h/.codex'' then Some [(''AGENTS.md'', EntryLink)] else None),
     fs_link = (\<lambda>p. if p = ''/h/.codex/AGENTS.md'' then Some ''/h/notes.md'' else None),
     fs_stat = (\<lambda>p. if p = ''/h/.codex'' then Some StatDir else if p = ''/h/notes.md'' then Some StatFile else None)\<rparr>"

lemma home_directory_mounted:
  "discoverExternalSymlinkMounts dotfile_fs 3 ''/h/.codex'' False =
     Some [\<lparr>mc_Source = ''/h'', mc_Target = ''/h'', mc_Readonly = Some False\<rparr>]"
  by code_simp

end
