(* ===== verification/LocalInstances.thy ===== *)
theory LocalInstances
  imports LocalMounts
begin

text \<open>
  Local instances (\<open>cmd/cw/local_cmd.go\<close>, \<open>lima_backend.go\<close>): what an instance is made from, the
  arguments its backend is started with, its forwarded ports, the life of a Lima machine and the table
  of instances the command line keeps.

  The answers of the programs that are run (whether a call succeeds, what is installed) are inputs.
\<close>

section \<open>Preparing an instance\<close>

record CodewireConfig =
  cw_Preset :: string
  cw_Image :: string
  cw_Env :: "(string, string) gomap"
  cw_Ports :: "PortConfig list"
  cw_Mounts :: "MountConfig list"
  cw_CPU :: int
  cw_Memory :: int
  cw_Disk :: int

record localCreateOptions =
  lo_Backend :: string
  lo_Name :: string
  lo_Preset :: string
  lo_Image :: string
  lo_EnvVars :: "string list"
  lo_CPU :: int
  lo_Memory :: int
  lo_Disk :: int

datatype local_error =
    NotAProject | EnvFormat string | MissingImage | MountProblem string | NoName
  | BackendRequired | AlreadyExists string | UnsupportedBackend string | RuntimeFailed | SaveFailed
  | NoInstances | InstanceNotFound string | SeveralInstances "string list" | NoInstanceHere
  | PortSpec string | PortConflict int | PortTaken int | PortsNeedRestart | PortsUnsupported

definition parse_env_var :: "string \<Rightarrow> (string \<times> string) option" where
  "parse_env_var ev =
     (if CHR ''='' \<in> set ev
      then Some (takeWhile (\<lambda>c. c \<noteq> CHR ''='') ev, tl (dropWhile (\<lambda>c. c \<noteq> CHR ''='') ev)) else None)"

fun parseEnvVarFlags :: "string list \<Rightarrow> local_error + (string, string) gomap" where
  "parseEnvVarFlags [] = Inr []"
| "parseEnvVarFlags (ev # evs) =
     (case parse_env_var ev of
        None \<Rightarrow> Inl (EnvFormat ev)
      | Some (k, v) \<Rightarrow>
          (case parseEnvVarFlags evs of
             Inl err \<Rightarrow> Inl err
           | Inr later \<Rightarrow> Inr (if mget later k = None then mput k v later else later)))"

text \<open>A mount given in the project: relative sources are in the project, targets are absolute.\<close>

definition resolveLocalMount :: "(string \<Rightarrow> bool) \<Rightarrow> string \<Rightarrow> MountConfig \<Rightarrow> local_error + MountConfig" where
  "resolveLocalMount exists projectDir m =
     (let source0 = trim_space (mc_Source m);
          source = clean_path (if has_prefix source0 ''/'' then source0 else path_join projectDir source0);
          target = (if trim_space (mc_Target m) = [] then source else trim_space (mc_Target m))
      in if source0 = [] then Inl (MountProblem [])
         else if \<not> exists source then Inl (MountProblem source)
         else if \<not> has_prefix target ''/'' then Inl (MountProblem target)
         else Inr \<lparr>mc_Source = source, mc_Target = clean_path target, mc_Readonly = mc_Readonly m\<rparr>)"

fun resolveLocalMounts :: "(string \<Rightarrow> bool) \<Rightarrow> string \<Rightarrow> MountConfig list \<Rightarrow> local_error + MountConfig list" where
  "resolveLocalMounts exists projectDir [] = Inr []"
| "resolveLocalMounts exists projectDir (m # ms) =
     (case resolveLocalMount exists projectDir m of
        Inl e \<Rightarrow> Inl e
      | Inr r \<Rightarrow>
          (case resolveLocalMounts exists projectDir ms of Inl e \<Rightarrow> Inl e | Inr rs \<Rightarrow> Inr (r # rs)))"

text \<open>The last component of an absolute path.\<close>

definition path_base :: "string \<Rightarrow> string" where
  "path_base p = (if path_comps p = [] then ''/'' else last (path_comps p))"

definition local_name :: "string \<Rightarrow> localCreateOptions \<Rightarrow> string" where
  "local_name projectDir opts =
     (if trim_space (lo_Name opts) = [] then sanitizeLocalName (path_base projectDir) else trim_space (lo_Name opts))"

text \<open>
  \<open>prepareLocalInstance\<close>: \<open>project\<close> is the absolute path of the project if it is a directory, \<open>cfg0\<close> its
  configuration.
\<close>

definition prepareLocalInstance ::
  "string option \<Rightarrow> (string \<Rightarrow> bool) \<Rightarrow> CodewireConfig \<Rightarrow> localCreateOptions \<Rightarrow> local_error + LocalInstance" where
  "prepareLocalInstance project exists cfg0 opts =
     (case project of
        None \<Rightarrow> Inl NotAProject
      | Some projectDir \<Rightarrow>
          (case parseEnvVarFlags (lo_EnvVars opts) of
             Inl err \<Rightarrow> Inl err
           | Inr parsed \<Rightarrow>
               let env = fold (\<lambda>(k, v) m. mput k v m) parsed (cw_Env cfg0);
                   preset = (if lo_Preset opts \<noteq> [] then lo_Preset opts else cw_Preset cfg0);
                   img0 = (if lo_Image opts \<noteq> [] then expandImageRef (lo_Image opts) else cw_Image cfg0);
                   img = (if img0 = [] \<and> preset \<noteq> [] then expandImageRef preset else img0)
               in if img = [] then Inl MissingImage
                  else (case resolveLocalMounts exists projectDir (cw_Mounts cfg0) of
                     Inl err \<Rightarrow> Inl err
                   | Inr mounts \<Rightarrow>
                       let name = local_name projectDir opts
                       in if name = [] then Inl NoName
                          else Inr
                            \<lparr>li_Name = name,
                             li_Backend = trim_space (lo_Backend opts),
                             li_RuntimeName = ''cw-'' @ name,
                             li_RepoPath = projectDir,
                             li_Workdir = (if trim_space (lo_Backend opts) = ''lima'' then projectDir else localWorkspacePath),
                             li_Image = expandImageRef img,
                             li_Env = env,
                             li_Ports = cw_Ports cfg0,
                             li_Mounts = mounts,
                             li_CPU = (if 0 < lo_CPU opts then lo_CPU opts else cw_CPU cfg0),
                             li_Memory = (if 0 < lo_Memory opts then lo_Memory opts else cw_Memory cfg0),
                             li_Disk = (if 0 < lo_Disk opts then lo_Disk opts else cw_Disk cfg0),
                             li_LimaInstanceName = [], li_LimaMountType = [], li_LimaVMType = []\<rparr>)))"

section \<open>Starting a backend\<close>

text \<open>What the host has: its home directory, what exists there, and the credentials it finds.\<close>

record host =
  ho_home :: "string option"
  ho_exists :: "string \<Rightarrow> bool"
  ho_gitconfig :: string
  ho_auth_sock :: string
  ho_github :: string
  ho_claude :: string
  ho_anthropic :: string

definition localSSHAuthSockPath :: string where "localSSHAuthSockPath = ''/tmp/codewire-ssh-agent.sock''"

definition formatDockerCPUs :: "int \<Rightarrow> string" where
  "formatDockerCPUs millicores =
     (let whole = millicores div 1000; frac = millicores mod 1000
      in if frac = 0 then show_int whole
         else show_int whole @ ''.'' @ replicate (3 - length (show_int frac)) CHR ''0'' @ show_int frac)"

definition volume :: "bool \<Rightarrow> string \<Rightarrow> string list" where
  "volume wanted spec = (if wanted then [''--volume'', spec] else [])"

definition env_arg :: "string \<Rightarrow> string \<Rightarrow> string \<Rightarrow> string list" where
  "env_arg flag key v = (if v = [] then [] else [flag, key @ ''='' @ v])"

definition home_volumes :: "host \<Rightarrow> string list" where
  "home_volumes h =
     (case ho_home h of
        None \<Rightarrow> []
      | Some home \<Rightarrow>
          let claudeDir = path_join home ''.claude''; claudeJSON = path_join home ''.claude.json'';
              gh = path_join (path_join home ''.config'') ''gh''; ssh = path_join home ''.ssh''; codex = path_join home ''.codex''
          in volume (ho_exists h claudeDir) (claudeDir @ '':/home/codewire/.claude'') @
             volume (ho_exists h claudeJSON) (claudeJSON @ '':/home/codewire/.claude.json'') @
             volume (ho_exists h gh) (gh @ '':/home/codewire/.config/gh'') @
             volume (trim_space (ho_gitconfig h) \<noteq> []) (trim_space (ho_gitconfig h) @ '':/home/codewire/.gitconfig:ro'') @
             volume (trim_space (ho_auth_sock h) \<noteq> []) (trim_space (ho_auth_sock h) @ '':'' @ localSSHAuthSockPath) @
             volume (ho_exists h ssh) (ssh @ '':/home/codewire/.ssh:ro'') @
             volume (ho_exists h codex) (codex @ '':/home/codewire/.codex''))"

definition sorted_env_args :: "(string, string) gomap \<Rightarrow> string list" where
  "sorted_env_args env = concat (map (\<lambda>key. [''--env'', key @ ''='' @ the (mget env key)]) (sort (mkeys env)))"

definition docker_create_args :: "host \<Rightarrow> LocalInstance \<Rightarrow> string list" where
  "docker_create_args h i =
     [''create'', ''--name'', li_RuntimeName i, ''--hostname'', li_RuntimeName i, ''--entrypoint'', ''/bin/sh'',
      ''--workdir'', localWorkspacePath, ''--volume'', li_RepoPath i @ '':'' @ localWorkspacePath] @
     home_volumes h @
     (if 0 < li_CPU i then [''--cpus'', formatDockerCPUs (li_CPU i)] else []) @
     (if 0 < li_Memory i then [''--memory'', show_int (li_Memory i) @ ''m''] else []) @
     env_arg ''--env'' ''GH_TOKEN'' (trim_space (ho_github h)) @
     env_arg ''--env'' ''SSH_AUTH_SOCK'' (if trim_space (ho_auth_sock h) = [] then [] else localSSHAuthSockPath) @
     env_arg ''--env'' ''CLAUDE_CODE_OAUTH_TOKEN'' (trim_space (ho_claude h)) @
     env_arg ''--env'' ''ANTHROPIC_API_KEY'' (ho_anthropic h) @
     sorted_env_args (li_Env i) @
     [li_Image i, ''-lc'', ''trap '' @ [CHR 0x27] @ ''exit 0'' @ [CHR 0x27] @ '' TERM INT; while true; do sleep 3600; done'']"

text \<open>The mounts of a Lima machine and of the container in it; \<open>mounts\<close> is the result of \<open>limaAdditionalMounts\<close>.\<close>

record limaVMMount =
  vm_Location :: string
  vm_MountPoint :: string
  vm_Writable :: bool

record limaContainerMount =
  ct_Source :: string
  ct_Target :: string
  ct_ReadOnly :: bool

definition vm_mount :: "string \<Rightarrow> string \<Rightarrow> bool \<Rightarrow> limaVMMount" where
  "vm_mount l p w = \<lparr>vm_Location = l, vm_MountPoint = p, vm_Writable = w\<rparr>"

definition ct_mount :: "string \<Rightarrow> string \<Rightarrow> bool \<Rightarrow> limaContainerMount" where
  "ct_mount s t r = \<lparr>ct_Source = s, ct_Target = t, ct_ReadOnly = r\<rparr>"

definition limaVMMounts :: "host \<Rightarrow> string \<Rightarrow> bool \<Rightarrow> MountConfig list \<Rightarrow> LocalInstance \<Rightarrow> limaVMMount list" where
  "limaVMMounts h gitState has_gitconfig mounts i =
     (let home = (case ho_home h of None \<Rightarrow> [] | Some p \<Rightarrow> p);
          guest = ''/home/{{.User}}.guest/''
      in [vm_mount (limaRepoMountPath i) (limaRepoMountPath i) True,
          vm_mount (path_join (path_join home ''.config'') ''gh'') (guest @ ''.config/gh'') True] @
         (if has_gitconfig then [vm_mount gitState (guest @ ''.codewire-git'') False] else []) @
         [vm_mount (path_join home ''.ssh'') ''/mnt/host-ssh'' False] @
         (if ho_exists h (path_join home ''.codex'') then [vm_mount (path_join home ''.codex'') (guest @ ''.codex'') True] else []) @
         map (\<lambda>m. vm_mount (mc_Source m) (EffectiveTarget m) (\<not> IsReadOnly m)) mounts)"

definition limaContainerMounts :: "host \<Rightarrow> string \<Rightarrow> bool \<Rightarrow> MountConfig list \<Rightarrow> limaContainerMount list" where
  "limaContainerMounts h user has_gitconfig mounts =
     (let vmHome = path_join ''/home'' (user @ ''.guest'') in
      (if has_gitconfig then [ct_mount (path_join (path_join vmHome ''.codewire-git'') ''.gitconfig'') ''/home/codewire/.gitconfig'' True] else []) @
      (if trim_space (ho_auth_sock h) \<noteq> [] then [ct_mount localSSHAuthSockPath localSSHAuthSockPath False] else []) @
      [ct_mount (path_join (path_join vmHome ''.config'') ''gh'') ''/home/codewire/.config/gh'' False,
       ct_mount ''/mnt/host-ssh'' ''/home/codewire/.ssh'' True,
       ct_mount (path_join vmHome ''.codex'') ''/home/codewire/.codex'' False] @
      map (\<lambda>m. ct_mount (mc_Source m) (EffectiveTarget m) (IsReadOnly m)) mounts)"

definition limaContainerMountArgs :: "limaContainerMount list \<Rightarrow> string list" where
  "limaContainerMountArgs ms =
     concat (map (\<lambda>m. [''-v'', ct_Source m @ '':'' @ ct_Target m @ (if ct_ReadOnly m then '':ro'' else [])]) ms)"

text \<open>The container of a Lima machine, run when there is none.\<close>

definition lima_run_args :: "host \<Rightarrow> string \<Rightarrow> limaContainerMount list \<Rightarrow> LocalInstance \<Rightarrow> string list" where
  "lima_run_args h gid ms i =
     [''sudo'', ''docker'', ''run'', ''-d'', ''--name'', ''cw-workspace'', ''--network'', ''host'', ''--group-add'', gid,
      ''--entrypoint'', ''/bin/sh'', ''-e'', ''DOCKER_HOST=unix:///var/run/docker.sock'',
      ''-v'', ''/var/run/docker.sock:/var/run/docker.sock'', ''-v'', limaRepoMountPath i @ '':'' @ limaRepoMountPath i] @
     env_arg ''-e'' ''GH_TOKEN'' (trim_space (ho_github h)) @
     env_arg ''-e'' ''SSH_AUTH_SOCK'' (if trim_space (ho_auth_sock h) = [] then [] else localSSHAuthSockPath) @
     env_arg ''-e'' ''ANTHROPIC_API_KEY'' (ho_anthropic h) @
     env_arg ''-e'' ''CLAUDE_CODE_OAUTH_TOKEN'' (trim_space (ho_claude h)) @
     limaContainerMountArgs ms @
     [''--workdir'', limaRepoMountPath i, (if li_Image i = [] then ''ubuntu:latest'' else li_Image i), ''-c'', ''sleep infinity'']"

text \<open>The machine: \<open>mount_json\<close> encodes its mounts, \<open>agent_expr\<close> is the forwarding of the SSH agent, if any.\<close>

definition defaultLimaVMType :: "bool \<Rightarrow> string" where
  "defaultLimaVMType darwin = (if darwin then ''vz'' else ''qemu'')"

definition defaultLimaMountType :: "bool \<Rightarrow> string \<Rightarrow> string" where
  "defaultLimaMountType virtiofsd vmType = (if vmType = ''vz'' \<or> virtiofsd then ''virtiofs'' else ''9p'')"

definition limaCreateCommandArgs ::
  "bool \<Rightarrow> bool \<Rightarrow> (limaVMMount list \<Rightarrow> string) \<Rightarrow> string option \<Rightarrow> limaVMMount list \<Rightarrow> LocalInstance \<Rightarrow> string list" where
  "limaCreateCommandArgs darwin virtiofsd mount_json agent_expr ms i =
     (let vmType = (if trim_space (li_LimaVMType i) = [] then defaultLimaVMType darwin else trim_space (li_LimaVMType i));
          mountType = (if trim_space (li_LimaMountType i) = [] then defaultLimaMountType virtiofsd vmType
                       else trim_space (li_LimaMountType i))
      in [''start'', ''--tty=false'', ''--name'', limaInstanceName i, ''--vm-type'', vmType, ''--mount-type'', mountType,
          ''--mount-none'', ''--set'', ''.mounts='' @ mount_json ms] @
         (case agent_expr of None \<Rightarrow> [] | Some e \<Rightarrow> [''--set'', e]) @
         (if 0 < li_CPU i then [''--cpus'', show_int (max 1 ((li_CPU i + 999) div 1000))] else []) @
         (if 0 < li_Memory i then [''--memory'', show_int (max 1 ((li_Memory i + 1023) div 1024))] else []) @
         (if 0 < li_Disk i then [''--disk'', show_int (li_Disk i)] else []) @
         concat (map (\<lambda>p. if EffectiveHostPort p \<le> 0 \<or> EffectiveGuestPort p \<le> 0 then []
                          else [''--port-forward'', show_int (EffectiveHostPort p) @ '':'' @ show_int (EffectiveGuestPort p) @ '',static=true''])
                   (li_Ports i)) @
         [''template:docker''])"

section \<open>Ports\<close>

text \<open>
  \<open>fmt.Sscanf(spec, "%d:%d", ...)\<close>: each number after white space without a line break, with an optional
  sign; what follows the second number is not looked at.
\<close>

definition scan_int :: "string \<Rightarrow> (int \<times> string) option" where
  "scan_int s0 =
     (let s = drop_space (\<lambda>t. if has_prefix t [CHR 0x0A] then 0 else space_len t) s0;
          sign = (if has_prefix s ''-'' \<or> has_prefix s ''+'' then 1 else 0);
          ds = takeWhile is_digit (drop sign s);
          rest = dropWhile is_digit (drop sign s)
      in if ds = [] then None
         else map_option (\<lambda>n. (n, rest)) (Atoi (take sign s @ ds)))"

definition parsePublishedPortSpec :: "string \<Rightarrow> local_error + PortConfig" where
  "parsePublishedPortSpec spec =
     (case scan_int spec of
        None \<Rightarrow> Inl (PortSpec spec)
      | Some (hostPort, rest) \<Rightarrow>
          if \<not> has_prefix rest '':'' then Inl (PortSpec spec)
          else (case scan_int (tl rest) of
                  None \<Rightarrow> Inl (PortSpec spec)
                | Some (guestPort, _) \<Rightarrow>
                    if hostPort \<le> 0 \<or> guestPort \<le> 0 then Inl (PortSpec spec)
                    else Inr (Canonical (port_pair hostPort guestPort []))))"

definition canonicalLocalPorts :: "PortConfig list \<Rightarrow> PortConfig list" where
  "canonicalLocalPorts ports = filter (\<lambda>p. 0 < EffectiveHostPort p \<and> 0 < EffectiveGuestPort p) (map Canonical ports)"

definition localPortDisplay :: "string \<Rightarrow> PortConfig \<Rightarrow> string" where
  "localPortDisplay backend p =
     (let hostPort = EffectiveHostPort p; guestPort = EffectiveGuestPort p; label = trim_space (pc_Label p) in
      if hostPort \<le> 0 \<or> guestPort \<le> 0 then []
      else (if hostPort \<noteq> guestPort \<or> backend = ''lima'' then show_int hostPort @ '' -> '' @ show_int guestPort
            else show_int guestPort) @
           (if label = [] then [] else '' ('' @ label @ '')''))"

definition localPortSummary :: "LocalInstance \<Rightarrow> string" where
  "localPortSummary i =
     join_with '', '' (filter (\<lambda>s. s \<noteq> []) (map (localPortDisplay (li_Backend i)) (li_Ports i)))"

text \<open>
  \<open>addLimaPortForwards\<close>: the ports the instance has, then those that are published; a host port is given
  to one guest port. \<open>edited\<close> is whether Lima accepts the new ones.
\<close>

fun existing_ports :: "(int, PortConfig) gomap \<Rightarrow> PortConfig list \<Rightarrow> PortConfig list \<Rightarrow>
    local_error + (int, PortConfig) gomap \<times> PortConfig list" where
  "existing_ports byHost updated [] = Inr (byHost, updated)"
| "existing_ports byHost updated (port # ports) =
     (let c = Canonical port; h = EffectiveHostPort c; g = EffectiveGuestPort c in
      if h \<le> 0 \<or> g \<le> 0 then existing_ports byHost updated ports
      else (case mget byHost h of
              Some e \<Rightarrow> if EffectiveGuestPort e \<noteq> g then Inl (PortConflict h)
                        else existing_ports (mput h c byHost) (updated @ [c]) ports
            | None \<Rightarrow> existing_ports (mput h c byHost) (updated @ [c]) ports))"

fun publish_ports :: "(int, PortConfig) gomap \<Rightarrow> PortConfig list \<Rightarrow> nat \<Rightarrow> string list \<Rightarrow> local_error + PortConfig list \<times> nat" where
  "publish_ports byHost updated added [] = Inr (updated, added)"
| "publish_ports byHost updated added (spec # specs) =
     (case parsePublishedPortSpec spec of
        Inl err \<Rightarrow> Inl err
      | Inr port \<Rightarrow>
          let h = EffectiveHostPort port; g = EffectiveGuestPort port in
          (case mget byHost h of
             Some e \<Rightarrow> if EffectiveGuestPort e \<noteq> g then Inl (PortTaken h) else publish_ports byHost updated added specs
           | None \<Rightarrow> publish_ports (mput h port byHost) (updated @ [port]) (Suc added) specs))"

definition addLimaPortForwards :: "bool \<Rightarrow> PortConfig list \<Rightarrow> string list \<Rightarrow> local_error + PortConfig list \<times> nat" where
  "addLimaPortForwards edited ports specs =
     (case existing_ports [] [] ports of
        Inl err \<Rightarrow> Inl err
      | Inr (byHost, updated) \<Rightarrow>
          (case publish_ports byHost updated 0 specs of
             Inl err \<Rightarrow> Inl err
           | Inr (updated', added) \<Rightarrow>
               if added = 0 then Inr (updated', 0) else if edited then Inr (updated', added) else Inl RuntimeFailed))"

text \<open>
  \<open>reconcileLocalInstancePortsFromConfig\<close>: on a start the ports of \<open>codewire.yaml\<close> replace the saved ones.
  \<open>status\<close> is that of a Lima machine, \<open>None\<close> when it cannot be had.
\<close>

definition reconcilePorts :: "PortConfig list \<Rightarrow> string option \<Rightarrow> bool \<Rightarrow> LocalInstance \<Rightarrow> local_error + bool \<times> LocalInstance" where
  "reconcilePorts configured status edited i =
     (let desired = canonicalLocalPorts configured in
      if trim_space (li_RepoPath i) = [] \<or> canonicalLocalPorts (li_Ports i) = desired then Inr (False, i)
      else if li_Backend i = ''lima'' \<and> status = None then Inl RuntimeFailed
      else if li_Backend i = ''lima'' \<and> status = Some ''running'' then Inl PortsNeedRestart
      else if li_Backend i = ''lima'' \<and> status \<noteq> Some ''missing'' \<and> \<not> edited then Inl RuntimeFailed
      else Inr (True, i\<lparr>li_Ports := desired\<rparr>))"

section \<open>A Lima machine\<close>

datatype machine_state = VmMissing | VmStopped | VmRunning

text \<open>The machine and the container in it; any status but missing and running counts as stopped.\<close>

record lima =
  lima_vm :: machine_state
  lima_container :: machine_state

text \<open>Which of the calls a command makes succeed.\<close>

record lima_answers =
  la_limactl :: bool
  la_gitconfig :: bool
  la_status :: bool
  la_agent :: bool
  la_vm :: bool
  la_docker :: bool
  la_pull :: bool
  la_inspect :: bool
  la_gid :: bool
  la_container :: bool
  la_group :: bool
  la_bootstrap :: bool
  la_cleanup :: bool


definition delete_vm :: "lima \<Rightarrow> lima" where
  "delete_vm l = l\<lparr>lima_vm := VmMissing, lima_container := VmMissing\<rparr>"



definition startLocalLimaInstance :: "lima_answers \<Rightarrow> lima \<Rightarrow> bool \<times> lima" where
  "startLocalLimaInstance a l =
     (if \<not> la_limactl a \<or> \<not> la_gitconfig a \<or> \<not> la_agent a \<or> \<not> la_vm a \<or> lima_vm l = VmMissing then (False, l)
      else
        let l1 = l\<lparr>lima_vm := VmRunning\<rparr> in
        if \<not> la_container a \<or> lima_container l1 = VmMissing then (False, l1)
        else (la_gid a \<and> la_group a \<and> la_bootstrap a, l1\<lparr>lima_container := VmRunning\<rparr>))"

definition stopLocalLimaInstance :: "lima_answers \<Rightarrow> lima \<Rightarrow> bool \<times> lima" where
  "stopLocalLimaInstance a l =
     (if \<not> la_limactl a then (False, l)
      else
        let l1 = (if lima_vm l = VmRunning \<and> lima_container l = VmRunning then l\<lparr>lima_container := VmStopped\<rparr> else l) in
        if \<not> la_vm a \<or> lima_vm l = VmMissing then (False, l1)
        else (True, l1\<lparr>lima_vm := VmStopped, lima_container := (if lima_container l1 = VmRunning then VmStopped else lima_container l1)\<rparr>))"

definition deleteLocalLimaInstance :: "lima_answers \<Rightarrow> lima \<Rightarrow> bool \<times> lima" where
  "deleteLocalLimaInstance a l =
     (if \<not> la_limactl a then (False, l)
      else if lima_vm l = VmMissing then (True, l)
      else if \<not> la_vm a then (False, l)
      else (True, delete_vm l))"

section \<open>The table of instances\<close>

text \<open>
  The saved table, and the names of the runtimes the backends have. A command loads the table, does its
  work and saves the table it loaded with its change; a save that fails is taken to leave the file as it was.
\<close>

type_synonym instance_table = "(string, LocalInstance) gomap"

record local_state =
  ls_saved :: instance_table
  ls_runtimes :: "string list"

definition backends :: "string list" where
  "backends = [''incus'', ''docker'', ''lima'', ''firecracker'']"

text \<open>
  \<open>resolveLocalInstance\<close>: by key, else by the name of the runtime, else by the directory \<open>cwd\<close>, if it can
  be had.
\<close>

definition resolveLocalInstance :: "string option \<Rightarrow> instance_table \<Rightarrow> string \<Rightarrow> local_error + string \<times> LocalInstance" where
  "resolveLocalInstance cwd table ref0 =
     (let ref = trim_space ref0 in
      if table = [] then Inl NoInstances
      else if ref \<noteq> [] then
        (case mget table ref of
           Some i \<Rightarrow> Inr (ref, i)
         | None \<Rightarrow>
             (case filter (\<lambda>(k, i). li_RuntimeName i = ref) table of
                (k, i) # _ \<Rightarrow> Inr (k, i)
              | [] \<Rightarrow> Inl (InstanceNotFound ref)))
      else (case cwd of
              None \<Rightarrow> Inl NoInstanceHere
            | Some dir \<Rightarrow>
                (case filter (\<lambda>(k, i). clean_path (li_RepoPath i) = clean_path dir) table of
                   [(k, i)] \<Rightarrow> Inr (k, i)
                 | [] \<Rightarrow> Inl NoInstanceHere
                 | ms \<Rightarrow> Inl (SeveralInstances (sort (map fst ms))))))"

definition sortedLocalInstanceNames :: "instance_table \<Rightarrow> string list" where
  "sortedLocalInstanceNames table = sort (mkeys table)"

text \<open>
  \<open>localCreateCmd\<close> for a prepared instance; \<open>made\<close> is the instance as its backend leaves it, \<open>None\<close> when it
  cannot create it.
\<close>

definition local_create :: "string \<Rightarrow> (LocalInstance \<Rightarrow> LocalInstance option) \<Rightarrow> bool \<Rightarrow> local_error + LocalInstance \<Rightarrow>
    instance_table \<Rightarrow> local_state \<Rightarrow> (local_error + LocalInstance) \<times> local_state" where
  "local_create backend made saved prepared loaded st =
     (if trim_space backend = [] then (Inl BackendRequired, st)
      else
        (case prepared of
           Inl err \<Rightarrow> (Inl err, st)
         | Inr i \<Rightarrow>
             if mget loaded (li_Name i) \<noteq> None then (Inl (AlreadyExists (li_Name i)), st)
             else if li_Backend i \<notin> set backends then (Inl (UnsupportedBackend (li_Backend i)), st)
             else (case made i of
                     None \<Rightarrow> (Inl RuntimeFailed, st)
                   | Some i' \<Rightarrow>
                       let st' = st\<lparr>ls_runtimes := li_RuntimeName i # ls_runtimes st\<rparr> in
                       if saved then (Inr i', st'\<lparr>ls_saved := mput (li_Name i) i' loaded\<rparr>) else (Inl SaveFailed, st'))))"

definition local_start :: "string option \<Rightarrow> PortConfig list \<Rightarrow> string option \<Rightarrow> bool \<Rightarrow> bool \<Rightarrow> bool \<Rightarrow> string \<Rightarrow>
    local_state \<Rightarrow> (local_error + LocalInstance) \<times> local_state" where
  "local_start cwd configured status edited saved started ref st =
     (case resolveLocalInstance cwd (ls_saved st) ref of
        Inl err \<Rightarrow> (Inl err, st)
      | Inr (key, i) \<Rightarrow>
          (case reconcilePorts configured status edited i of
             Inl err \<Rightarrow> (Inl err, st)
           | Inr (changed, i') \<Rightarrow>
               if changed \<and> \<not> saved then (Inl SaveFailed, st)
               else let st' = (if changed then st\<lparr>ls_saved := mput key i' (ls_saved st)\<rparr> else st)
                    in (if started then Inr i' else Inl RuntimeFailed, st')))"

definition local_rm :: "string option \<Rightarrow> bool \<Rightarrow> bool \<Rightarrow> string \<Rightarrow> local_state \<Rightarrow> (local_error + LocalInstance) \<times> local_state" where
  "local_rm cwd deleted saved ref st =
     (case resolveLocalInstance cwd (ls_saved st) ref of
        Inl err \<Rightarrow> (Inl err, st)
      | Inr (key, i) \<Rightarrow>
          if \<not> deleted then (Inl RuntimeFailed, st)
          else
            let st' = st\<lparr>ls_runtimes := removeAll (li_RuntimeName i) (ls_runtimes st)\<rparr> in
            if saved then (Inr i, st'\<lparr>ls_saved := mdel key (ls_saved st)\<rparr>) else (Inl SaveFailed, st'))"

definition local_ports :: "string option \<Rightarrow> bool \<Rightarrow> bool \<Rightarrow> string \<Rightarrow> string list \<Rightarrow> local_state \<Rightarrow>
    (local_error + LocalInstance) \<times> local_state" where
  "local_ports cwd edited saved ref specs st =
     (case resolveLocalInstance cwd (ls_saved st) ref of
        Inl err \<Rightarrow> (Inl err, st)
      | Inr (key, i) \<Rightarrow>
          if specs = [] then (Inr i, st)
          else if li_Backend i \<noteq> ''lima'' then (Inl PortsUnsupported, st)
          else (case addLimaPortForwards edited (li_Ports i) specs of
                  Inl err \<Rightarrow> (Inl err, st)
                | Inr (ports, added) \<Rightarrow>
                    if saved then (Inr (i\<lparr>li_Ports := ports\<rparr>), st\<lparr>ls_saved := mput key (i\<lparr>li_Ports := ports\<rparr>) (ls_saved st)\<rparr>)
                    else (Inl SaveFailed, st)))"

datatype local_cmd =
    LocalCreate "string option" "string \<Rightarrow> bool" CodewireConfig localCreateOptions bool bool bool bool
  | LocalStart "string option" "PortConfig list" "string option" bool bool bool string
  | LocalRm "string option" bool bool string
  | LocalPorts "string option" bool bool string "string list"

text \<open>Only Lima changes the instance it creates: it fills in the name and the types of its machine.\<close>

definition created :: "bool \<Rightarrow> bool \<Rightarrow> bool \<Rightarrow> LocalInstance \<Rightarrow> LocalInstance option" where
  "created darwin virtiofsd ok i =
     (if \<not> ok then None
      else if li_Backend i = ''lima''
      then Some (i\<lparr>li_LimaInstanceName := limaInstanceName i, li_LimaVMType := defaultLimaVMType darwin,
                  li_LimaMountType := defaultLimaMountType virtiofsd (defaultLimaVMType darwin)\<rparr>)
      else Some i)"

fun local_step :: "local_cmd \<Rightarrow> local_state \<Rightarrow> local_state" where
  "local_step (LocalCreate project exists cfg opts darwin virtiofsd ok saved) st =
     snd (local_create (lo_Backend opts) (created darwin virtiofsd ok) saved (prepareLocalInstance project exists cfg opts) (ls_saved st) st)"
| "local_step (LocalStart cwd configured status edited saved started ref) st =
     snd (local_start cwd configured status edited saved started ref st)"
| "local_step (LocalRm cwd deleted saved ref) st = snd (local_rm cwd deleted saved ref st)"
| "local_step (LocalPorts cwd edited saved ref specs) st = snd (local_ports cwd edited saved ref specs st)"

definition no_instances :: local_state where
  "no_instances = \<lparr>ls_saved = [], ls_runtimes = []\<rparr>"

section \<open>Facts about the table\<close>

lemma image_expanded_once: "expandImageRef (expandImageRef img) = expandImageRef img"
proof -
  let ?name = "takeWhile (\<lambda>c. c \<noteq> CHR '':'') img"
  have as_is: "expandImageRef (host @ CHR ''/'' # rest) = host @ CHR ''/'' # rest"
    if "host \<in> {''ghcr.io'', ''docker.io''}" for host rest
    using that by (auto simp: expandImageRef_def Let_def)
  have "expandImageRef img = img \<or> (\<exists>rest. expandImageRef img = ''ghcr.io'' @ CHR ''/'' # rest) \<or>
      (\<exists>rest. expandImageRef img = ''docker.io'' @ CHR ''/'' # rest)"
    by (simp add: expandImageRef_def Let_def)
  then consider "expandImageRef img = img" | rest where "expandImageRef img = ''ghcr.io'' @ CHR ''/'' # rest"
    | rest where "expandImageRef img = ''docker.io'' @ CHR ''/'' # rest" by blast
  then show ?thesis using as_is by cases (metis insertCI)+
qed

definition inst_ok :: "string \<Rightarrow> LocalInstance \<Rightarrow> bool" where
  "inst_ok k i \<longleftrightarrow> k \<noteq> [] \<and> trim_space k = k \<and> li_Name i = k \<and> li_RuntimeName i = ''cw-'' @ k \<and> li_Backend i \<in> set backends"

definition table_ok :: "instance_table \<Rightarrow> bool" where
  "table_ok t \<longleftrightarrow> map_ok t \<and> list_all (\<lambda>(k, i). inst_ok k i) t"

lemma table_ok_mput: "table_ok t \<Longrightarrow> inst_ok k i \<Longrightarrow> table_ok (mput k i t)"
  using set_mput_subset [of k i t] by (force simp: table_ok_def list_all_iff)

lemma table_ok_mdel: "table_ok t \<Longrightarrow> table_ok (mdel k t)"
  using set_mdel_subset [of k t] by (auto simp: table_ok_def list_all_iff)

lemma table_ok_get: "table_ok t \<Longrightarrow> mget t k = Some i \<Longrightarrow> inst_ok k i"
  by (auto simp: table_ok_def list_all_iff mget_Some_iff)

lemma only_match:
  "(case l of [] \<Rightarrow> Inl e | [(k, i)] \<Rightarrow> Inr (k, i) | ms \<Rightarrow> Inl (f ms)) = Inr p \<Longrightarrow> l = [p]"
proof (cases l)
  case (Cons q l')
  moreover assume "(case l of [] \<Rightarrow> Inl e | [(k, i)] \<Rightarrow> Inr (k, i) | ms \<Rightarrow> Inl (f ms)) = Inr p"
  ultimately show ?thesis by (cases q; cases l') simp_all
qed simp

lemma first_match:
  assumes "x \<in> set l" "P x" and unique: "\<And>y. y \<in> set l \<Longrightarrow> P y \<Longrightarrow> y = x"
  shows "\<exists>l'. filter P l = x # l'"
proof -
  have "filter P l \<noteq> []" using assms(1,2) by (auto simp: filter_empty_conv)
  then obtain y l' where f: "filter P l = y # l'" by (meson list.exhaust)
  then have "y \<in> set l" "P y" using filter_set [of P l] by (force dest: filter_eq_ConsD)+
  then have "y = x" by (rule unique)
  with f show ?thesis by blast
qed

lemma resolve_in_table:
  assumes "resolveLocalInstance cwd t ref = Inr (k, i)" "map_ok t"
  shows "mget t k = Some i"
proof -
  have in_filter: "(k, i) \<in> set t" if "filter P t = (k, i) # ms" for P ms
    using arg_cong [OF that, of set] by auto
  show ?thesis
  proof (cases "trim_space ref = []")
    case True
    obtain dir where dir: "cwd = Some dir"
      using assms(1) True by (cases cwd) (simp_all add: resolveLocalInstance_def Let_def split: if_splits)
    define here where "here = filter (\<lambda>(k, i). clean_path (li_RepoPath i) = clean_path dir) t"
    have "(case here of [] \<Rightarrow> Inl NoInstanceHere | [(k, i)] \<Rightarrow> Inr (k, i)
        | ms \<Rightarrow> Inl (SeveralInstances (sort (map fst ms)))) = Inr (k, i)"
      using assms(1) True dir by (simp add: resolveLocalInstance_def Let_def here_def split: if_splits)
    then have "here = [(k, i)]" by (rule only_match)
    then have "(k, i) \<in> set t" unfolding here_def by (rule in_filter)
    then show ?thesis using mget_Some_iff [of t k i] assms(2) by simp
  next
    case False
    show ?thesis
    proof (cases "mget t (trim_space ref)")
      case None
      then obtain ms where "filter (\<lambda>(k, i). li_RuntimeName i = trim_space ref) t = (k, i) # ms"
        using assms(1) False by (auto simp: resolveLocalInstance_def Let_def split: if_splits list.splits)
      then have "(k, i) \<in> set t" by (rule in_filter)
      then show ?thesis using mget_Some_iff [of t k i] assms(2) by simp
    next
      case (Some i')
      then show ?thesis using assms(1) False by (auto simp: resolveLocalInstance_def Let_def split: if_splits)
    qed
  qed
qed

lemma local_name_trimmed: "trim_space (local_name projectDir opts) = local_name projectDir opts"
proof -
  have "list_all name_char (sanitizeLocalName raw)" for raw
    using slug_sanitized [of raw] by (auto simp: slug_def list_all_iff slug_char_def name_char_def is_alnum_def)
  then show ?thesis using trim_space_name trim_space_idem unfolding local_name_def by metis
qed

lemma prepared_named:
  assumes "prepareLocalInstance project exists cfg opts = Inr i"
  shows "\<exists>projectDir. li_Name i = local_name projectDir opts \<and> li_Name i \<noteq> [] \<and> li_RuntimeName i = ''cw-'' @ li_Name i"
proof -
  obtain projectDir parsed where "project = Some projectDir" "parseEnvVarFlags (lo_EnvVars opts) = Inr parsed"
    using assms by (simp add: prepareLocalInstance_def split: option.split_asm sum.split_asm)
  then show ?thesis using assms unfolding prepareLocalInstance_def Let_def
    by (simp split: sum.split_asm if_split_asm) auto
qed

lemma created_ok: "created darwin virtiofsd ok i = Some i' \<Longrightarrow> inst_ok k i' = inst_ok k i"
  by (auto simp: created_def inst_ok_def split: if_splits)

lemma create_table_ok:
  assumes "table_ok (ls_saved st)"
  shows "table_ok (ls_saved (snd (local_create (lo_Backend opts) (created d v ok) saved (prepareLocalInstance project exists cfg opts) (ls_saved st) st)))"
proof (cases "prepareLocalInstance project exists cfg opts")
  case (Inr i)
  show ?thesis
  proof (cases "li_Backend i \<in> set backends")
    case True
    then have "inst_ok (li_Name i) i" using prepared_named [OF Inr] local_name_trimmed by (auto simp: inst_ok_def)
    then show ?thesis using assms Inr created_ok
      by (auto simp: local_create_def Let_def table_ok_mput split: option.split)
  qed (use assms Inr in \<open>simp add: local_create_def\<close>)
qed (use assms in \<open>simp add: local_create_def\<close>)

lemma inst_ok_ports: "inst_ok k (i\<lparr>li_Ports := ps\<rparr>) = inst_ok k i"
  by (simp add: inst_ok_def)

lemma reconcile_keeps: "reconcilePorts configured status edited i = Inr (changed, i') \<Longrightarrow> inst_ok k i' = inst_ok k i"
  by (auto simp: reconcilePorts_def Let_def inst_ok_ports split: if_splits)

lemma step_table_ok: "table_ok (ls_saved st) \<Longrightarrow> table_ok (ls_saved (local_step cmd st))"
proof (cases cmd)
  case (LocalCreate project exists cfg opts darwin virtiofsd ok saved)
  then show "table_ok (ls_saved st) \<Longrightarrow> ?thesis" by (simp add: create_table_ok)
next
  case (LocalStart cwd configured status edited saved started ref)
  assume ok: "table_ok (ls_saved st)"
  show ?thesis
  proof (cases "resolveLocalInstance cwd (ls_saved st) ref")
    case (Inr r)
    obtain k i where r: "r = (k, i)" by fastforce
    have i: "inst_ok k i" using ok resolve_in_table Inr r table_ok_get by (metis table_ok_def)
    show ?thesis
    proof (cases "reconcilePorts configured status edited i")
      case (Inr c)
      then show ?thesis using ok i r \<open>resolveLocalInstance cwd (ls_saved st) ref = Inr r\<close> LocalStart reconcile_keeps
        by (cases c) (auto simp: local_start_def Let_def table_ok_mput)
    qed (use ok Inr r LocalStart in \<open>simp add: local_start_def\<close>)
  qed (use ok LocalStart in \<open>simp add: local_start_def\<close>)
next
  case (LocalRm cwd deleted saved ref)
  assume "table_ok (ls_saved st)"
  then show ?thesis using LocalRm by (auto simp: local_rm_def Let_def table_ok_mdel split: sum.split)
next
  case (LocalPorts cwd edited saved ref specs)
  assume ok: "table_ok (ls_saved st)"
  show ?thesis
  proof (cases "resolveLocalInstance cwd (ls_saved st) ref")
    case (Inr r)
    obtain k i where r: "r = (k, i)" by fastforce
    have "inst_ok k i" using ok resolve_in_table Inr r table_ok_get by (metis table_ok_def)
    then show ?thesis using ok Inr r LocalPorts
      by (auto simp: local_ports_def inst_ok_ports table_ok_mput split: sum.split)
  qed (use ok LocalPorts in \<open>simp add: local_ports_def\<close>)
qed

lemma run_table_ok: "table_ok (ls_saved (fold local_step cmds no_instances))"
proof -
  have "table_ok (ls_saved st) \<Longrightarrow> table_ok (ls_saved (fold local_step cmds st))" for st
    by (induction cmds arbitrary: st) (simp_all add: step_table_ok)
  then show ?thesis by (simp add: no_instances_def table_ok_def)
qed

lemma match_len_append:
  "match_len es s = 0 \<Longrightarrow> list_all (\<lambda>e. c \<notin> set e) es \<Longrightarrow> match_len es (s @ c # u) = 0"
proof (induction es)
  case (Cons e es)
  have "\<not> prefix e (s @ c # u)" if "\<not> prefix e s"
  proof
    assume "prefix e (s @ c # u)"
    then have "\<exists>us. e = s @ us \<and> prefix us (c # u)" using that by (simp add: prefix_append)
    then obtain us where us: "e = s @ us" "prefix us (c # u)" by blast
    then have "us \<noteq> []" using that by auto
    then have "c \<in> set e" using us by (cases us) auto
    then show False using Cons(3) by simp
  qed
  with Cons show ?case by (auto split: if_splits)
qed simp

lemma trim_space_runtime:
  assumes "k \<noteq> []" "trim_space k = k"
  shows "trim_space (''cw-'' @ k) = ''cw-'' @ k"
proof -
  let ?u = "drop_space space_len k"
  have "rev k = drop_space rspace_len (rev ?u)" using assms(2) unfolding trim_space_def by (metis rev_rev_ident)
  then have "rspace_len (rev k) = 0" using drop_space_done [of rspace_len "rev ?u"] assms(1) by (metis rev_is_Nil_conv)
  then have "rspace_len (rev k @ CHR ''-'' # ''wc'') = 0"
    unfolding rspace_len_def by (rule match_len_append) (simp add: space_encodings_def)
  then have "drop_space rspace_len (rev (''cw-'' @ k)) = rev (''cw-'' @ k)" by (intro drop_space_stop) simp
  moreover have "drop_space space_len (''cw-'' @ k) = ''cw-'' @ k"
    by (intro drop_space_stop) (simp add: space_len_def space_encodings_def)
  ultimately show ?thesis by (simp add: trim_space_def)
qed

lemma resolve_runtime_name:
  assumes "table_ok t" "mget t k = Some i" "trim_space ref = ''cw-'' @ k" "mget t (''cw-'' @ k) = None"
  shows "resolveLocalInstance cwd t ref = Inr (k, i)"
proof -
  have "(k, i) \<in> set t" using assms(1,2) mget_Some_iff [of t k i] by (simp add: table_ok_def)
  moreover have "(k', i') \<in> set t \<Longrightarrow> li_RuntimeName i' = ''cw-'' @ k \<Longrightarrow> k' = k \<and> i' = i" for k' i'
  proof -
    assume in_t: "(k', i') \<in> set t" and name: "li_RuntimeName i' = ''cw-'' @ k"
    have got: "mget t k' = Some i'" using in_t assms(1) mget_Some_iff [of t k' i'] by (simp add: table_ok_def)
    then have "li_RuntimeName i' = ''cw-'' @ k'" using table_ok_get [OF assms(1)] by (simp add: inst_ok_def)
    then have "k' = k" using name by simp
    then show "k' = k \<and> i' = i" using got assms(2) by simp
  qed
  moreover have "li_RuntimeName i = ''cw-'' @ k" using table_ok_get [OF assms(1,2)] by (simp add: inst_ok_def)
  ultimately obtain ms where "filter (\<lambda>(k', i'). li_RuntimeName i' = ''cw-'' @ k) t = (k, i) # ms"
    using first_match [of "(k, i)" t "\<lambda>(k', i'). li_RuntimeName i' = ''cw-'' @ k"] by blast
  moreover have "t \<noteq> []" using assms(2) by auto
  ultimately show ?thesis using assms(3,4) by (simp add: resolveLocalInstance_def Let_def)
qed


text \<open>
  C32. The commands keep the table in order: an instance is saved under its own name, which is not
  empty and has no white space around it, its runtime has the name with \<open>cw-\<close> before it, its backend is one
  that is known, and both the name and, unless it is the name of another instance, that of the runtime
  find it.
\<close>

theorem local_instances_keyed:
  assumes "mget (ls_saved (fold local_step cmds no_instances)) k = Some i"
  shows "inst_ok k i \<and> resolveLocalInstance cwd (ls_saved (fold local_step cmds no_instances)) k = Inr (k, i) \<and>
    (mget (ls_saved (fold local_step cmds no_instances)) (''cw-'' @ k) \<noteq> None \<or>
     resolveLocalInstance cwd (ls_saved (fold local_step cmds no_instances)) (''cw-'' @ k) = Inr (k, i))"
proof -
  let ?t = "ls_saved (fold local_step cmds no_instances)"
  have ok: "table_ok ?t" by (rule run_table_ok)
  have i: "inst_ok k i" using table_ok_get [OF ok assms] .
  then have k: "k \<noteq> []" "trim_space k = k" by (simp_all add: inst_ok_def)
  have "?t \<noteq> []" using assms by auto
  with k assms have byName: "resolveLocalInstance cwd ?t k = Inr (k, i)"
    by (simp add: resolveLocalInstance_def Let_def)
  have "trim_space (''cw-'' @ k) = ''cw-'' @ k" using k by (rule trim_space_runtime)
  then have "resolveLocalInstance cwd ?t (''cw-'' @ k) = Inr (k, i)" if "mget ?t (''cw-'' @ k) = None"
    using resolve_runtime_name [OF ok assms _ that] by simp
  with i byName show ?thesis by blast
qed

definition demo_instance :: local_cmd where
  "demo_instance =
     LocalCreate (Some ''/src/web'') (\<lambda>_. True)
       \<lparr>cw_Preset = [], cw_Image = ''ghcr.io/acme/web'', cw_Env = [], cw_Ports = [], cw_Mounts = [], cw_CPU = 0, cw_Memory = 0,
        cw_Disk = 0\<rparr>
       \<lparr>lo_Backend = ''docker'', lo_Name = ''web'', lo_Preset = [], lo_Image = [], lo_EnvVars = [], lo_CPU = 0, lo_Memory = 0,
        lo_Disk = 0\<rparr> False False True True"

lemma demo_instance_saved: "\<exists>i. mget (ls_saved (fold local_step [demo_instance] no_instances)) ''web'' = Some i"
proof -
  have trims: "trim_space ''web'' = ''web''" "trim_space ''docker'' = ''docker''" by code_simp+
  have img: "expandImageRef ''ghcr.io/acme/web'' = ''ghcr.io/acme/web''" by code_simp
  show ?thesis
    by (simp add: demo_instance_def no_instances_def local_create_def prepareLocalInstance_def local_name_def trims img
        backends_def created_def Let_def)
qed

theorem local_instances_keyed_witness:
  "\<exists>i. resolveLocalInstance None (ls_saved (fold local_step [demo_instance] no_instances)) ''web'' = Inr (''web'', i)"
  using demo_instance_saved local_instances_keyed by blast

section \<open>Forwarded ports\<close>

text \<open>Every port that is kept is the one its host port is taken by.\<close>

definition ports_inv :: "(int, PortConfig) gomap \<Rightarrow> PortConfig list \<Rightarrow> bool" where
  "ports_inv byHost ps \<longleftrightarrow>
     (\<forall>h e. mget byHost h = Some e \<longrightarrow> e \<in> set ps \<and> EffectiveHostPort e = h) \<and>
     (\<forall>p \<in> set ps. \<exists>e. mget byHost (EffectiveHostPort p) = Some e \<and> EffectiveGuestPort e = EffectiveGuestPort p)"

lemma ports_inv_functional:
  "ports_inv byHost ps \<Longrightarrow> p \<in> set ps \<Longrightarrow> q \<in> set ps \<Longrightarrow> EffectiveHostPort p = EffectiveHostPort q \<Longrightarrow>
    EffectiveGuestPort p = EffectiveGuestPort q"
  unfolding ports_inv_def by (metis option.inject)

lemma ports_inv_add:
  assumes "ports_inv byHost ps" "\<And>e. mget byHost (EffectiveHostPort c) = Some e \<Longrightarrow> EffectiveGuestPort e = EffectiveGuestPort c"
  shows "ports_inv (mput (EffectiveHostPort c) c byHost) (ps @ [c])"
proof -
  have "\<exists>e. ((mget byHost)(EffectiveHostPort c \<mapsto> c)) (EffectiveHostPort p) = Some e \<and> EffectiveGuestPort e = EffectiveGuestPort p"
    if p: "p \<in> set ps" for p
  proof (cases "EffectiveHostPort p = EffectiveHostPort c")
    case True
    obtain e where "mget byHost (EffectiveHostPort p) = Some e" "EffectiveGuestPort e = EffectiveGuestPort p"
      using assms(1) p by (auto simp: ports_inv_def)
    then show ?thesis using True assms(2) by simp
  qed (use assms(1) p in \<open>simp add: ports_inv_def\<close>)
  then show ?thesis using assms(1) by (auto simp: ports_inv_def)
qed

lemma existing_ports_kept:
  "existing_ports byHost ps ports = Inr (byHost', ps') \<Longrightarrow> ports_inv byHost ps \<Longrightarrow>
    ports_inv byHost' ps' \<and> ps' = ps @ canonicalLocalPorts ports"
proof (induction byHost ps ports rule: existing_ports.induct)
  case (1 byHost ps)
  then show ?case by (simp add: canonicalLocalPorts_def)
next
  case (2 byHost ps port ports)
  let ?c = "Canonical port"
  show ?case
  proof (cases "EffectiveHostPort ?c \<le> 0 \<or> EffectiveGuestPort ?c \<le> 0")
    case True
    then show ?thesis using 2 by (auto simp: canonicalLocalPorts_def Let_def)
  next
    case False
    have agree: "mget byHost (EffectiveHostPort ?c) = Some e \<Longrightarrow> EffectiveGuestPort e = EffectiveGuestPort ?c" for e
      using 2(4) False by (auto simp: Let_def split: if_splits)
    then have step: "existing_ports (mput (EffectiveHostPort ?c) ?c byHost) (ps @ [?c]) ports = Inr (byHost', ps')"
      using 2(4) False by (auto simp: Let_def split: option.splits)
    have inv: "ports_inv (mput (EffectiveHostPort ?c) ?c byHost) (ps @ [?c])"
      by (rule ports_inv_add [OF 2(5)]) (rule agree)
    have "ports_inv byHost' ps' \<and> ps' = (ps @ [?c]) @ canonicalLocalPorts ports"
    proof (cases "mget byHost (EffectiveHostPort ?c)")
      case None
      show ?thesis by (rule 2(2) [OF refl refl refl False None step inv])
    next
      case (Some e)
      have "\<not> EffectiveGuestPort e \<noteq> EffectiveGuestPort ?c" using agree [OF Some] by simp
      then show ?thesis by (rule 2(3) [OF refl refl refl False Some _ step inv])
    qed
    moreover have "canonicalLocalPorts (port # ports) = ?c # canonicalLocalPorts ports"
      using False by (simp add: canonicalLocalPorts_def)
    ultimately show ?thesis by auto
  qed
qed

definition forwarded :: "PortConfig list \<Rightarrow> string \<Rightarrow> bool" where
  "forwarded ps spec \<longleftrightarrow>
     (\<exists>port. parsePublishedPortSpec spec = Inr port \<and>
       (\<exists>p \<in> set ps. EffectiveHostPort p = EffectiveHostPort port \<and> EffectiveGuestPort p = EffectiveGuestPort port))"

lemma forwarded_more: "forwarded ps spec \<Longrightarrow> forwarded (ps @ qs) spec"
  by (auto simp: forwarded_def)

lemma publish_ports_kept:
  "publish_ports byHost ps n specs = Inr (ps', n') \<Longrightarrow> ports_inv byHost ps \<Longrightarrow>
    (\<exists>new byHost'. ps' = ps @ new \<and> n' = n + length new \<and> ports_inv byHost' ps') \<and> list_all (forwarded ps') specs"
proof (induction byHost ps n specs rule: publish_ports.induct)
  case (1 byHost ps n)
  then show ?case by auto
next
  case (2 byHost ps n spec specs)
  obtain port where port: "parsePublishedPortSpec spec = Inr port"
    using 2(3) by (auto split: sum.splits)
  let ?h = "EffectiveHostPort port"
  show ?case
  proof (cases "mget byHost ?h")
    case None
    then have step: "publish_ports (mput ?h port byHost) (ps @ [port]) (Suc n) specs = Inr (ps', n')"
      using 2(3) port by (simp add: Let_def)
    have "ports_inv (mput ?h port byHost) (ps @ [port])" using ports_inv_add [OF 2(4), of port] None by simp
    then have kept: "(\<exists>new byHost'. ps' = (ps @ [port]) @ new \<and> n' = Suc n + length new \<and> ports_inv byHost' ps') \<and>
        list_all (forwarded ps') specs"
      using 2(1) [OF port refl refl None step] by blast
    then obtain new byHost' where new: "ps' = (ps @ [port]) @ new" "n' = Suc n + length new" "ports_inv byHost' ps'" by blast
    then have "forwarded ps' spec" using port by (auto simp: forwarded_def)
    moreover have "ps' = ps @ (port # new) \<and> n' = n + length (port # new)" using new by simp
    moreover have "list_all (forwarded ps') (spec # specs)"
      using kept \<open>forwarded ps' spec\<close> by simp
    ultimately show ?thesis using new(3) by blast
  next
    case (Some e)
    then have same: "EffectiveGuestPort e = EffectiveGuestPort port"
      and step: "publish_ports byHost ps n specs = Inr (ps', n')"
      using 2(3) port by (simp_all add: Let_def split: if_splits)
    have kept: "(\<exists>new byHost'. ps' = ps @ new \<and> n' = n + length new \<and> ports_inv byHost' ps') \<and> list_all (forwarded ps') specs"
      using 2(2) [OF port refl refl Some] same step 2(4) by simp
    have "e \<in> set ps" "EffectiveHostPort e = ?h" using 2(4) Some by (auto simp: ports_inv_def)
    then have "forwarded ps spec" using port same by (auto simp: forwarded_def)
    then show ?thesis using kept forwarded_more by fastforce
  qed
qed

text \<open>
  Publishing ports keeps the ports the instance has, adds the new ones after them and counts
  them; every port that was asked for is forwarded, and no host port is forwarded to two ports of the
  guest.
\<close>

theorem published_ports_consistent:
  assumes "addLimaPortForwards edited ports specs = Inr (ports', added)"
  shows "(\<exists>new. ports' = canonicalLocalPorts ports @ new \<and> length new = added) \<and>
    list_all (forwarded ports') specs \<and>
    (\<forall>p \<in> set ports'. \<forall>q \<in> set ports'. EffectiveHostPort p = EffectiveHostPort q \<longrightarrow>
       EffectiveGuestPort p = EffectiveGuestPort q)"
proof -
  obtain byHost ps where ps: "existing_ports [] [] ports = Inr (byHost, ps)"
    using assms by (auto simp: addLimaPortForwards_def split: sum.splits)
  then have inv: "ports_inv byHost ps \<and> ps = canonicalLocalPorts ports"
    using existing_ports_kept [OF ps] by (auto simp: ports_inv_def)
  have "publish_ports byHost ps 0 specs = Inr (ports', added)"
    using assms ps by (auto simp: addLimaPortForwards_def split: sum.split_asm if_split_asm)
  from publish_ports_kept [OF this] inv obtain new byHost' where
    "ports' = canonicalLocalPorts ports @ new" "added = length new" "ports_inv byHost' ports'" "list_all (forwarded ports') specs"
    by auto
  then show ?thesis using ports_inv_functional by blast
qed

theorem published_ports_consistent_witness:
  "\<exists>ports. addLimaPortForwards True [port_only 3000 []] [''8080:80''] = Inr (ports, 1) \<and> forwarded ports ''8080:80''"
proof -
  have run: "addLimaPortForwards True [port_only 3000 []] [''8080:80''] = Inr ([port_only 3000 [], port_pair 8080 80 []], 1)"
    by code_simp
  from published_ports_consistent [OF run] show ?thesis using run by auto
qed

section \<open>Creating a Lima machine\<close>




text \<open>What is created can be stopped and started again, and deleting it leaves nothing.\<close>

lemma lima_restarted:
  assumes "la_limactl a" "la_vm a" "la_gitconfig a" "la_agent a" "la_container a" "la_gid a" "la_group a" "la_bootstrap a"
    and "lima_vm l = VmRunning" "lima_container l = VmRunning"
  shows "startLocalLimaInstance a (snd (stopLocalLimaInstance a l)) = (True, l)"
  using assms by (cases l) (simp add: startLocalLimaInstance_def stopLocalLimaInstance_def Let_def)

lemma lima_deleted: "deleteLocalLimaInstance a l = (True, l') \<Longrightarrow> lima_vm l' = VmMissing"
  by (auto simp: deleteLocalLimaInstance_def delete_vm_def split: if_splits)

section \<open>The environment of an instance\<close>

text \<open>Docker gets the variables of the instance; the container of a Lima machine does not.\<close>

lemma docker_env_given:
  assumes "mget (li_Env i) k = Some v"
  shows "k @ ''='' @ v \<in> set (docker_create_args h i)"
proof -
  have "k \<in> set (mkeys (li_Env i))" using assms by (auto simp: mkeys_def mget_def dest: map_of_SomeD intro: rev_image_eqI)
  then have "k @ ''='' @ v \<in> set (sorted_env_args (li_Env i))"
    using assms by (force simp: sorted_env_args_def)
  then show ?thesis by (simp add: docker_create_args_def)
qed

lemma lima_env_dropped:
  "lima_run_args h gid ms (i\<lparr>li_Env := env\<rparr>) = lima_run_args h gid ms i"
  "limaCreateCommandArgs darwin virtiofsd mount_json agent_expr vms (i\<lparr>li_Env := env\<rparr>) =
     limaCreateCommandArgs darwin virtiofsd mount_json agent_expr vms i"
proof -
  have repo: "limaRepoMountPath (i\<lparr>li_Env := env\<rparr>) = limaRepoMountPath i" by (simp add: limaRepoMountPath_def)
  have name: "limaInstanceName (i\<lparr>li_Env := env\<rparr>) = limaInstanceName i" by (simp add: limaInstanceName_def)
  have machine: "li_LimaVMType (i\<lparr>li_Env := env\<rparr>) = li_LimaVMType i"
    "li_LimaMountType (i\<lparr>li_Env := env\<rparr>) = li_LimaMountType i" "li_CPU (i\<lparr>li_Env := env\<rparr>) = li_CPU i"
    "li_Memory (i\<lparr>li_Env := env\<rparr>) = li_Memory i" "li_Disk (i\<lparr>li_Env := env\<rparr>) = li_Disk i"
    "li_Ports (i\<lparr>li_Env := env\<rparr>) = li_Ports i"
    by simp_all
  have img: "li_Image (i\<lparr>li_Env := env\<rparr>) = li_Image i" by simp
  show "lima_run_args h gid ms (i\<lparr>li_Env := env\<rparr>) = lima_run_args h gid ms i"
    by (simp only: lima_run_args_def repo img)
  show "limaCreateCommandArgs darwin virtiofsd mount_json agent_expr vms (i\<lparr>li_Env := env\<rparr>) =
      limaCreateCommandArgs darwin virtiofsd mount_json agent_expr vms i"
    by (simp only: limaCreateCommandArgs_def name machine)
qed

section \<open>Commands that overlap\<close>

text \<open>
  A create saves the table it loaded before it made its runtime; an instance that was saved in
  between is gone from the table while its runtime runs.
\<close>

lemma overlapping_create_lost:
  assumes "li_Backend i \<in> set backends" "li_Backend j \<in> set backends" "li_Name i \<noteq> li_Name j"
    and "mget t (li_Name i) = None" "mget t (li_Name j) = None"
    and st: "st' = snd (local_create (li_Backend i) Some True (Inr i) t st)"
  shows "mget (ls_saved st') (li_Name i) = Some i \<and>
    (let st'' = snd (local_create (li_Backend j) Some True (Inr j) t st') in
     mget (ls_saved st'') (li_Name i) = None \<and> li_RuntimeName i \<in> set (ls_runtimes st''))"
proof -
  have "trim_space b \<noteq> []" if "b \<in> set backends" for b
  proof -
    have "list_all name_char b" "b \<noteq> []"
      using that by (auto simp: backends_def name_char_def is_alnum_def less_eq_char_def)
    then show ?thesis using trim_space_name by metis
  qed
  then show ?thesis using assms by (simp add: local_create_def Let_def)
qed

text \<open>
  A port published for a Lima instance is not in \<open>codewire.yaml\<close>: the next start refuses while the machine
  runs, and drops the port when it is stopped.
\<close>

lemma published_port_dropped:
  assumes "li_Backend i = ''lima''" "trim_space (li_RepoPath i) \<noteq> []" "li_Ports i = [port_only 3000 [], port_pair 8080 80 []]"
  shows "reconcilePorts [port_only 3000 []] (Some ''running'') edited i = Inl PortsNeedRestart \<and>
    reconcilePorts [port_only 3000 []] (Some ''stopped'') True i = Inr (True, i\<lparr>li_Ports := [port_only 3000 []]\<rparr>)"
  using assms
  by (simp add: reconcilePorts_def Let_def canonicalLocalPorts_def Canonical_def EffectiveHostPort_def EffectiveGuestPort_def
      port_only_def port_pair_def)

end
