(* ===== verification/Spec2Isabelle.thy ===== *)
theory Spec2Isabelle
  imports Frames Ansi Detach OutputState KVStore Subscriptions EventLog SessionFacts PeerFacts NodeDemo RelayProperties PostgresProperties ClientProperties AttachClient ConfigFacts DemoPool LocalFiles LocalInstances
begin

text \<open>
  Codewire keeps terminal sessions alive on a node and lets people and programs reach them: from
  clients on the same machine, from other nodes, and through a relay that knows the members of a
  network and signs what they may do. This development models the logic of the node, the relay, the
  attached client, the cache of access grants a client follows, the configuration, the instances the
  command line runs locally and the broker of the public demo. The Go code is under \<open>src\<close>; every
  definition keeps the name of the function or type it translates where that is possible.

  \<^bold>\<open>Parts and how they interact.\<close>
  A client sends frames (\<open>internal/protocol\<close>) to the node's handler (\<open>internal/node/handler.go\<close>), which
  calls the session manager (\<open>internal/session/session.go\<close>). The manager owns the sessions, their
  names, their output files and the goroutines that read, write and wait for their processes; it
  appends events to a log and hands them to the subscription manager (\<open>events.go\<close>). Peers connect with
  signed credentials (\<open>internal/networkauth\<close>) to the peer server (\<open>internal/peer\<close>), which authorizes
  them by the node (\<open>internal/node/node.go\<close>) and calls the same manager. The relay
  (\<open>internal/relay\<close>, \<open>internal/oauth\<close>) keeps its tables in SQLite or Postgres (\<open>internal/store\<close>), signs
  the credentials that nodes check, and streams revocations to the clients that hold grants
  (\<open>internal/client\<close>).

  \<^bold>\<open>Theories and the code they model.\<close>

  \<^item> \<open>Prelude\<close>: Go strings as lists of bytes, \<open>strings\<close>, \<open>strconv\<close>, maps as association lists, and the
    locale \<open>byte_machine\<close> of machines that may be fed in chunks. The collections \<open>go_defs\<close> and
    \<open>inv_intros\<close> carry the proofs of the components.

  \<^item> \<open>Frames\<close> (\<open>internal/protocol/protocol.go\<close>, \<open>internal/guestagent/protocol.go\<close>): length-prefixed messages;
    the locale \<open>framing\<close> gives the reading of a stream of them, for client frames, guest messages and, in
    \<open>PeerProtocol\<close>, peer messages.

  \<^item> \<open>Ansi\<close>, \<open>Detach\<close>, \<open>OutputState\<close>, \<open>AttachClient\<close> (\<open>internal/terminal\<close>, \<open>internal/statusbar\<close>,
    \<open>internal/client/commands.go\<close>): escape sequences, the detach chord, the state of the output, the
    status bar and the loop of an attached client, one step per event.

  \<^item> \<open>KVStore\<close>, \<open>Events\<close>, \<open>Subscriptions\<close>, \<open>EventLog\<close> (\<open>internal/session/kvstore.go\<close>, \<open>events.go\<close>): the store
    with its timers (locale \<open>namespaced_store\<close>), the two fan-outs (locale \<open>fanout\<close>) and the log of events
    as the bytes of its file.

  \<^item> \<open>SessionEnv\<close>, \<open>SessionText\<close>, \<open>Session\<close>, \<open>Messaging\<close>, \<open>SessionInfo\<close>, \<open>SessionInv\<close>, \<open>SessionFacts\<close>
    (\<open>internal/session/session.go\<close>): the environment of a process, the operations of the manager as
    functions on the record \<open>SessionManager\<close>, messages, requests and replies, and the invariants of every
    state that \<open>mgr_reachable\<close> reaches. A section under the manager's lock, or a goroutine's turn, is one
    step; what happens in between is any sequence of steps.

  \<^item> \<open>Base64\<close>, \<open>NetworkAuth\<close>, \<open>Replay\<close>, \<open>NodeAuth\<close>, \<open>PeerProtocol\<close>, \<open>PeerServer\<close>, \<open>PeerFacts\<close>
    (\<open>internal/networkauth\<close>, \<open>internal/node/node.go\<close>, \<open>internal/peer\<close>): signed credentials of three kinds
    (locale \<open>verifier\<close>, interpreted once per kind), the cache against their second use, and what a peer
    may do with them.

  \<^item> \<open>NodeHandler\<close>, \<open>NodeRun\<close>, \<open>NodeLive\<close>, \<open>NodeDemo\<close> (\<open>internal/node/handler.go\<close>): every request of a local
    client, connections that go on, and the node as a whole: \<open>node_run\<close> interleaves connections,
    goroutines and timers, and each of its steps is a sequence of steps of its parts.

  \<^item> \<open>Tables\<close>, \<open>RelayStore\<close>, \<open>RelayIdentity\<close>, \<open>RelayNetworks\<close>, \<open>RelayGroups\<close>, \<open>RelayAccess\<close>,
    \<open>RelayEvents\<close>, \<open>RelayLogin\<close>, \<open>RelayTasks\<close>, \<open>RelayOps\<close>, \<open>RelayRequests\<close>, \<open>RelayFacts\<close>, \<open>HubFacts\<close>,
    \<open>RelayDemo\<close>, \<open>RelayProperties\<close> (\<open>internal/store/sqlite.go\<close>, \<open>internal/relay\<close>, \<open>internal/oauth\<close>): SQL
    statements on tables as lists of rows, the methods of the store, the handlers, and the relay as the
    requests that change its store; the locale \<open>use_counter\<close> bounds what is used up.

  \<^item> \<open>PostgresStore\<close>, \<open>PostgresFacts\<close>, \<open>PostgresProperties\<close> (\<open>internal/store/postgres.go\<close>): the store of a
    hosted relay, whose statements interleave, against the embedded one.

  \<^item> \<open>ClientGrants\<close>, \<open>ClientFacts\<close>, \<open>ClientProperties\<close> (\<open>internal/client/access_cache.go\<close>, \<open>access_events.go\<close>):
    the grants a client has accepted, and what it does with the relay's stream of revocations.

  \<^item> \<open>ConfigFile\<close>, \<open>ConfigFacts\<close> (\<open>internal/config\<close>): ports, mounts, agents and node names of the
    configuration, its layers, and which relay gets which token.

  \<^item> \<open>CliRefs\<close> (\<open>cmd/cw\<close>, \<open>internal/update\<close>): references to sessions, environments and images, the names
    made from text, and the order of versions.

  \<^item> \<open>SshConfig\<close>, \<open>LocalFiles\<close>, \<open>LocalMounts\<close>, \<open>LocalInstances\<close> (\<open>cmd/cw/ssh_config.go\<close>, \<open>local_files_cmd.go\<close>,
    \<open>lima_backend.go\<close>, \<open>local_cmd.go\<close>): the managed section of the SSH configuration, the upload script and
    the reader of listings, the directories a local instance sees, and the commands on the table of
    instances.

  \<^item> \<open>DemoPool\<close> (\<open>demo/broker\<close>): the pool of demo pods, with its filler, reaper and visitors interleaved.

  \<^bold>\<open>What the lemmas show.\<close>
  The invariants of the manager, the node, the relay's tables and the demo broker hold in every
  reachable state (C1 to C4, C7, C35). \<open>node_refines_parts\<close> (C6) is the simulation that carries the
  manager's and the store's facts over to the node, and \<open>postgres_matches_sqlite\<close> (C12) the agreement of
  the two stores. Credentials are accepted only in their time, for their purpose and, where they are
  meant for one use, once (C13 to C18); who governs a network, how a membership comes about and how
  often a token may be used is bounded by C8 to C11. Streams, logs and frames are read back as they
  were written, also when a connection breaks (C23 to C25, C40). The remaining properties are about
  the terminal of an attached client, the environment of a process, local instances and what the
  command line makes of its arguments. Properties of the session manager, its fan-outs, its log and
  its store, of frames, credentials, peers and the node are in this theory, all others in the theories of
  their components. Some lemmas, and C28 and
  C29, state what the code does that its authors may not expect.

  \<^bold>\<open>Parameters, bounds and fuel.\<close>
  JSON, YAML and TOML coding, signatures, hashes, random identifiers, time, the file system, processes,
  the answers of other services and the shell are arguments; a property that relies on one of them has
  the law it needs as a hypothesis (a decoder that reads back what is encoded, a shell that quotes as
  POSIX says), and its witness instantiates it. Times are integers of nanoseconds. Identifiers of
  sessions, subscribers and frames are words of their width, and where a wrap-around would matter the
  property says so. Channels have the capacity of the code. All functions are total; the only fuel is the
  depth of the search for links in \<open>LocalMounts\<close>, 4096, which is enough because each level lengthens a path
  that the system limits to 4096 bytes (C31).

  \<^bold>\<open>What is not modelled.\<close>
  Sockets, terminals, processes and the libraries for WireGuard, SSH, NATS and HTTP; prompts, tables and
  messages to the user; the client of the hosted platform, one request per method against a service
  that is elsewhere; the MCP tools, which only pass requests on; the experimental Firecracker backend;
  downloads and the replacement of the program. In what is modelled, the resizing of a session's pseudo
  terminal, log messages and the texts of most errors are left out.
\<close>

section \<open>The session manager\<close>

text \<open>
  C1. In every state the node's session manager can reach, every session sits in the table
  under its own identifier, identifiers below the next one to be given out, its input channel
  is open and holds at most 256 buffers, and no operation has sent on a closed channel.
\<close>

theorem sessions_well_formed:
  assumes "mgr_reachable js (start_manager file nameHook exitHook forward) m"
    and "session_of m i = Some s"
  shows "meta_ID (sess_Meta s) = i \<and> i < mgr_nextID m \<and> \<not> ch_closed (sess_inputCh s) \<and>
    length (ch_items (sess_inputCh s)) \<le> 256 \<and> \<not> mgr_panicked m"
proof -
  have ok: "sessions_ok m"
    using mgr_reachable_ok [OF assms(1) mgr_ok_start] by (simp add: mgr_ok_def)
  with sessions_ok_of [OF ok assms(2)] show ?thesis
    by (simp add: sess_ok_def inbox_ok_def sessions_ok_def)
qed

theorem sessions_well_formed_witness:
  "\<exists>s. session_of demo_manager 1 = Some s \<and> meta_ID (sess_Meta s) = 1 \<and> \<not> mgr_panicked demo_manager"
  using sessions_well_formed [OF demo_reachable [unfolded demo_start_def] demo_session] demo_session by blast

text \<open>
  C2. A name that resolves is a valid name, and it is the name of the session it resolves to:
  the index never points to a session that is gone or has been renamed, and no session is
  found under two names.
\<close>

theorem resolved_name_is_current:
  assumes "mgr_reachable js (start_manager file nameHook exitHook forward) m"
    and "ResolveByName name m = Inr i"
  shows "namePattern name \<and> session_of m i \<noteq> None \<and> GetName i m = name"
proof -
  have ok: "names_ok m"
    using mgr_reachable_ok [OF assms(1) mgr_ok_start] by (simp add: mgr_ok_def)
  have "mget (mgr_nameIndex m) name = Some i"
    using assms(2) by (simp add: ResolveByName_def split: option.splits)
  with names_okD [OF ok this] show ?thesis by (auto simp: GetName_def)
qed

theorem resolved_name_is_current_witness:
  "GetName 1 (mgr_do (\<lambda>e. Some ''{}'') (OpSetName 1 ''web'') demo_manager) = ''web''"
proof -
  have "ResolveByName ''web'' (mgr_do (\<lambda>e. Some ''{}'') (OpSetName 1 ''web'') demo_manager) = Inr 1"
    using demo_rename by (simp add: rename_session_def Let_def ResolveByName_def triggerPersist_def mget_mput)
  moreover have "mgr_reachable (\<lambda>e. Some ''{}'') demo_start
      (mgr_do (\<lambda>e. Some ''{}'') (OpSetName 1 ''web'') demo_manager)"
    by (rule mgr_reachable.step [OF demo_reachable]) simp
  ultimately show ?thesis
    using resolved_name_is_current [of "\<lambda>e. Some ''{}''" None None True False] by (simp add: demo_start_def)
qed





text \<open>
  C5. A node restarted from the metadata it persisted gives out identifiers above every
  session in that metadata, and none above the next identifier of the old node.
\<close>

theorem restart_keeps_ids_fresh:
  assumes "mgr_reachable js (start_manager file nameHook exitHook forward) m"
    and "session_of m i = Some s"
  shows "i < mgr_nextID (NewSessionManager (Some (PersistMeta m))) \<and>
    mgr_nextID (NewSessionManager (Some (PersistMeta m))) \<le> mgr_nextID m"
  using mgr_reachable_ok [OF assms(1) mgr_ok_start] restart_next_id [OF _ assms(2)] by (simp add: mgr_ok_def)

theorem restart_keeps_ids_fresh_witness:
  "1 < mgr_nextID (NewSessionManager (Some (PersistMeta demo_manager)))"
  using restart_keeps_ids_fresh [OF demo_reachable [unfolded demo_start_def] demo_session] by simp

text \<open>
  C19. A launch that succeeds starts one process. Its environment has the identifier of the
  new session, the name and the first tag it was given, whatever the caller, the node's
  environment and the environment file say about these keys; the caller's entries win for
  every other key.
\<close>

theorem launched_environment:
  assumes "fst (Launch js os command dir env name tags now m) = Inr i"
  shows "\<exists>e. mgr_effects (snd (Launch js os command dir env name tags now m)) =
      mgr_effects m @ [Spawn i command dir e] \<and>
      env_last e ''CW_SESSION_ID'' = Some (''CW_SESSION_ID='' @ show_nat (unat i)) \<and>
      (name \<noteq> [] \<longrightarrow> env_last e ''CW_SESSION_NAME'' = Some (''CW_SESSION_NAME='' @ name)) \<and>
      (tags \<noteq> [] \<longrightarrow> env_last e ''CW_COHORT_TAG'' = Some (''CW_COHORT_TAG='' @ hd tags)) \<and>
      (\<forall>k v. k \<notin> set cw_keys \<and> env_last env k = Some v \<longrightarrow> env_last e k = Some v)"
proof -
  from assms obtain pid where os: "length command \<noteq> 0" "los_command os" "los_dir os = Some True"
      "los_logDir os" "los_pid os = Some pid" "i = mgr_nextID m"
    by (auto simp: Launch_def Let_def split: if_splits option.splits)
  show ?thesis
    by (intro exI [of _ "launch_env os i env name tags"])
      (simp add: Launch_result(3) [OF os(1-5)] os(6) launch_env_last)
qed

theorem launched_environment_witness:
  "\<exists>e. mgr_effects (snd (Launch (\<lambda>e. None) demo_os [''sh''] ''/tmp'' [''CW_SESSION_ID=9'', ''A=1''] ''web'' [] 0 demo_start))
      = [Spawn 1 [''sh''] ''/tmp'' e] \<and> env_last e ''CW_SESSION_ID'' = Some ''CW_SESSION_ID=1'' \<and>
      env_last e ''A'' = Some ''A=1''"
proof -
  have L: "fst (Launch (\<lambda>e. None) demo_os [''sh''] ''/tmp'' [''CW_SESSION_ID=9'', ''A=1''] ''web'' [] 0 demo_start) = Inr 1"
    by (subst Launch_result(1)) (simp_all add: demo_os_def demo_start_def start_manager_def NewSessionManager_def)
  have eff: "mgr_effects demo_start = []" by (simp add: demo_start_def start_manager_def NewSessionManager_def)
  have A: "''A'' \<notin> set cw_keys" "env_last [''CW_SESSION_ID=9'', ''A=1''] ''A'' = Some ''A=1''"
    and one: "''CW_SESSION_ID='' @ show_nat (unat (1 :: uint32)) = ''CW_SESSION_ID=1''"
    by (simp_all add: cw_keys_def env_last_def env_key_def) (simp add: show_nat.simps char_of_def bit_0)
  from launched_environment [OF L] A show ?thesis unfolding one eff by auto
qed

text \<open>
  C20. While the reader goroutine runs and its log file takes the writes, the log of a session
  is what it was followed by the output, byte for byte; the counters grow by the bytes and by
  the newlines of the output modulo \<open>2^64\<close>; and every attached client receives, in order, the
  non-empty chunks that fit its buffer, the later ones being dropped.
\<close>

theorem output_is_logged_and_broadcast:
  assumes ok: "mgr_ok m" and s: "session_of m i = Some s"
    and run: "sess_reader s" "sess_logOpen s" "sess_log s = Some c"
    and l: "mget (bc_listeners (sess_broadcaster s)) k = Some ch"
  shows "\<exists>s' ch'. session_of (reader_run i cs m) i = Some s' \<and>
      sess_log s' = Some (c @ concat (map fst cs)) \<and>
      sess_outputBytes s' = sess_outputBytes s + of_nat (length (concat (map fst cs))) \<and>
      sess_outputLines s' = sess_outputLines s + of_nat (newlines (concat (map fst cs))) \<and>
      mget (bc_listeners (sess_broadcaster s')) k = Some ch' \<and>
      ch_items ch' = ch_items ch @ take (ch_cap ch - length (ch_items ch)) (filter (\<lambda>d. d \<noteq> []) (map fst cs))"
proof -
  have b: "broadcaster_ok (sess_broadcaster s)" and so: "sessions_ok m"
    using ok sessions_ok_of [of m i s] s by (auto simp: mgr_ok_def sess_ok_def)
  obtain ch' where "mget (bc_listeners (sess_broadcaster (read_chunks cs s))) k = Some ch'"
    and "ch_items ch' = ch_items ch @ take (ch_cap ch - length (ch_items ch)) (filter (\<lambda>d. d \<noteq> []) (map fst cs))"
    using broadcaster.received [OF b l, of "filter (\<lambda>d. d \<noteq> []) (map fst cs)"]
      read_chunks_output(4) [OF b run(2,3), of cs] by auto
  with reader_run_session [OF so s run(1), of cs] read_chunks_output(1-3) [OF b run(2,3), of cs]
  show ?thesis by auto
qed

theorem output_is_logged_and_broadcast_witness:
  "\<exists>s'. session_of (reader_run 1 [(''hello'', 5)] (snd (Attach 1 demo_manager))) 1 = Some s' \<and>
     sess_log s' = Some ''hello''"
proof -
  let ?m = "snd (Attach 1 demo_manager)"
  let ?s0 = "snd (append_event (\<lambda>e. Some ''{}'') (NewSessionCreatedEvent 0 [''sh''] ''/tmp'' [''group:web''])
     (new_session demo_os 1 [''sh''] ''/tmp'' [''group:web''] (Some 42) 0))"
  have run: "is_running ?s0" by (simp add: is_running_def new_session_def NewStatusWatcher_def StatusWatcher_Get_def)
  have "op_enabled (OpAttach 1) demo_manager"
    by (simp add: demo_session new_session_def NewBroadcaster_def)
  then have ok: "mgr_ok ?m" using mgr_ok_do [OF demo_ok] by fastforce
  have s: "session_of ?m 1 = Some (?s0\<lparr>sess_attachedCount := 1,
      sess_broadcaster := snd (Broadcaster_Subscribe 4096 NewBroadcaster)\<rparr>)"
    using run by (simp add: Attach_def demo_session) (simp add: new_session_def append_event_def demo_os_def)
  show ?thesis
    using output_is_logged_and_broadcast [OF ok s, of "[]" 0 "make_chan 4096" "[(''hello'', 5)]"]
    by (auto simp: new_session_def append_event_def demo_os_def Broadcaster_Subscribe_def NewBroadcaster_def
        Let_def mget_mput)
qed

text \<open>
  \<open>SetName\<close> either refuses and changes nothing, or the session is found under its new
  name, any other name but its old one resolves as before, and no other session is renamed.
\<close>

theorem SetName_spec:
  "(case SetName i name m of
      (Inl err, m') \<Rightarrow> m' = m
    | (Inr _, m') \<Rightarrow>
        namePattern name \<and> session_of m i \<noteq> None \<and> mget (mgr_nameIndex m) name \<in> {None, Some i} \<and>
        GetName i m' = name \<and> ResolveByName name m' = Inr i \<and>
        (\<forall>n. n \<notin> {name, GetName i m} \<longrightarrow> ResolveByName n m' = ResolveByName n m) \<and>
        (\<forall>j. j \<noteq> i \<longrightarrow> session_of m' j = session_of m j))"
proof (cases rule: SetName_result [of i name m])
  case (renamed s)
  have get: "session_of (rename_session i name (meta_Name (sess_Meta s)) m) j =
      session_of (upd_session i (\<lambda>s. s\<lparr>sess_Meta := (sess_Meta s)\<lparr>meta_Name := name\<rparr>\<rparr>) m) j" for j
    by (simp add: rename_session_def Let_def session_of_def triggerPersist_def)
  show ?thesis
    unfolding renamed(4) using renamed(1-3) get
    by (auto simp: GetName_def ResolveByName_def rename_session_def Let_def mget_mput mget_mdel)
qed simp

theorem SetName_spec_witness:
  "GetName 1 (snd (SetName 1 ''web'' demo_manager)) = ''web''"
  using SetName_spec [where i = 1 and name = "''web''" and m = demo_manager] by (simp add: demo_rename)

section \<open>Events\<close>

text \<open>
  C22. A subscriber of session events receives, in the order of publication, exactly the events
  its filters accept - its session if it named one, a common tag if it named tags, one of its
  types if it named types - up to the first one its 256-place buffer has no room for; those
  after that are dropped, and so are none before.
\<close>

theorem subscriber_receives:
  assumes "manager_ok m" "mget (sm_subs m) k = Some sub"
  shows "\<exists>sub'. mget (sm_subs (fold (\<lambda>(sid, tags, ev) m. the (Publish sid tags ev m)) es m)) k = Some sub' \<and>
    ch_items (sub_Ch sub') = ch_items (sub_Ch sub) @ take (ch_cap (sub_Ch sub) - length (ch_items (sub_Ch sub)))
      (map (\<lambda>(sid, tags, ev). \<lparr>se_SessionID = sid, se_Event = ev\<rparr>)
        (filter (\<lambda>(sid, tags, ev).
           sub_SessionID sub \<in> {None, Some sid} \<and>
           (sub_Tags sub = [] \<or> set (sub_Tags sub) \<inter> set tags \<noteq> {}) \<and>
           (sub_EventTypes sub = [] \<or> ev_Type ev \<in> set (sub_EventTypes sub))) es))"
  using subscriptions.received [OF assms(1), of k "sub_Ch sub" es] assms(2)
  by (auto simp: sub_matches_iff case_prod_beta)

theorem subscriber_receives_witness:
  "\<exists>sub'. mget (sm_subs (the (Publish 7 [] (NewInputEvent 0 ''cli'' 3)
       (snd (Subscribe (Some 7) [] [] NewSubscriptionManager))))) 0 = Some sub' \<and>
     ch_items (sub_Ch sub') = [\<lparr>se_SessionID = 7, se_Event = NewInputEvent 0 ''cli'' 3\<rparr>]"
proof -
  have "manager_ok (snd (Subscribe (Some 7) [] [] NewSubscriptionManager))"
    by (rule manager_ok_Subscribe [OF manager_ok_New]) (simp add: NewSubscriptionManager_def)
  from subscriber_receives [OF this, of 0 "fst (Subscribe (Some 7) [] [] NewSubscriptionManager)"
      "[(7, [], NewInputEvent 0 ''cli'' 3)]"]
  show ?thesis by (auto simp: Subscribe_def NewSubscriptionManager_def Let_def mget_mput make_chan_def)
qed

text \<open>
  C23. Events appended to a log file are read back, all of them and in order, as long as each
  encodes to one line shorter than the scanner's buffer of one mebibyte.
\<close>

theorem event_log_roundtrip:
  assumes "list_all (\<lambda>e. \<exists>d. marshal e = Some d \<and> line_ok d \<and> unmarshal d = Some e) es"
    and "el_file l = Some []"
  shows "ReadTail unmarshal 0 (append_all marshal es l) = Some es"
  using ReadEventLog_lines [OF assms] by (simp add: ReadTail_def)

theorem event_log_roundtrip_witness:
  "ReadTail (\<lambda>d. Some (NewInputEvent (int (length d)) ''cli'' 3)) 0
     (append_all (\<lambda>e. Some (replicate (nat (ev_Timestamp e)) (CHR ''x'')))
        [NewInputEvent 2 ''cli'' 3] \<lparr>el_file = Some []\<rparr>) = Some [NewInputEvent 2 ''cli'' 3]"
  by (rule event_log_roundtrip) (simp_all add: NewInputEvent_def line_ok_def NEWLINE_def drop_cr_def
      CARRIAGE_RETURN_def maxTokenSize_def numeral_2_eq_2)

text \<open>
  A line of a mebibyte or more makes every later read of the log fail, whatever was
  written before and after it: the messages and events of the session can no longer be read.
\<close>

theorem event_log_poisoned:
  assumes "list_all line_ok ds" "NEWLINE \<notin> set d" "maxTokenSize \<le> length d"
    and "el_file l = Some (lines_bytes ds @ d @ NEWLINE # rest)"
  shows "ReadTail unmarshal n l = None"
  by (rule ReadTail_poisoned [OF assms])

theorem event_log_poisoned_witness:
  "ReadTail (\<lambda>d. None) 0 \<lparr>el_file = Some (replicate maxTokenSize (CHR ''x'') @ [NEWLINE])\<rparr> = None"
proof -
  have "NEWLINE \<notin> set (replicate maxTokenSize (CHR ''x''))" by (simp add: NEWLINE_def)
  from event_log_poisoned [OF _ this, of "[]" "\<lparr>el_file = Some (replicate maxTokenSize (CHR ''x'') @ [NEWLINE])\<rparr>" "[]"]
  show ?thesis by (simp add: lines_bytes_def)
qed

section \<open>The key-value store\<close>

text \<open>
  In every reachable state of the store, a read of a key after any sequence of writes and
  deletes by callers returns the last value written to that key of that namespace, and nothing
  if it was deleted since.
\<close>

theorem kv_last_write_wins:
  assumes "kv_reachable kv"
  shows "map_option kv_value (kv_entry
      (foldl (apply_op (\<lambda>n k (v, ttl, now). KV_Set n k v ttl now) KV_Delete) kv ops) n k) =
    last_write fst n k (map_option kv_value (kv_entry kv n k)) ops"
  using kv.get_after_ops [OF kv_reachable_ok [OF assms], where n = n and k = k and ops = ops] by simp

theorem kv_last_write_wins_witness:
  "map_option kv_value (kv_entry (KV_Set ''ns'' ''a'' (Some ''2'') 0 9 (KV_Set ''ns'' ''a'' (Some ''1'') 5 0 NewKVStore)) ''ns'' ''a'')
     = Some (Some ''2'')"
  using kv_last_write_wins [OF kv_start, where n = "''ns''" and k = "''a''"
    and ops = "[StorePut ''ns'' ''a'' (Some ''1'', 5, 0), StorePut ''ns'' ''a'' (Some ''2'', 0, 9)]"] by simp

text \<open>
  C39. A key written without a time to live stays until a caller writes or deletes it, whatever
  other callers do and however timers fire, provided no expiry callback for that key was
  already waiting for the lock when it was written.
\<close>

theorem kv_untimed_key_survives:
  assumes "kv_reachable kv" "(n, k) \<notin> set (kv_waiting kv)" "ttl \<le> 0"
    and "list_all (\<lambda>x. \<not> touches n k x) xs"
  shows "KV_Get n k (foldl kv_do (KV_Set n k v ttl now kv) xs) = v"
proof -
  let ?e = "\<lparr>kv_value = v, kv_expiresAt = None, kv_timer = None\<rparr>"
  have "kv_settled n k ?e (KV_Set n k v ttl now kv)"
    using assms(1-3) kv_ok_Set [OF kv_reachable_ok [OF assms(1)]]
    by (simp add: kv_settled_def kv_entry_Set)
  from kv_settled_run [OF this assms(4)] show ?thesis
    by (simp add: KV_Get_entry kv_settled_def)
qed

theorem kv_untimed_key_survives_witness:
  "KV_Get ''ns'' ''a'' (foldl kv_do (KV_Set ''ns'' ''a'' (Some ''1'') 0 0 NewKVStore)
     [DoSet ''ns'' ''b'' None 5 0, TimerFires 0 9, CallbackRuns 0, DoDelete ''x'' ''a'']) = Some ''1''"
  by (rule kv_untimed_key_survives [OF kv_start]) (simp_all add: NewKVStore_def)

text \<open>
  The proviso of the last property is needed: a timer that has fired and whose callback
  still waits for the lock deletes the value that a later \<open>Set\<close> of the same key stored.
\<close>

theorem kv_expired_timer_deletes_new_value:
  "KV_Get ''ns'' ''a''
     (KV_Callback 0 (KV_Set ''ns'' ''a'' (Some ''new'') 0 7 (KV_Fire 0 6 (KV_Set ''ns'' ''a'' (Some ''old'') 5 0 NewKVStore)))) = None"
  by (simp add: NewKVStore_def KV_Set_def KV_Fire_def KV_Callback_def KV_Delete_def KV_Get_def timer_stop_def
      Let_def mget_def mput_def mdel_def)

section \<open>Framing\<close>

text \<open>
  C40. Frames written one after another to a connection are read back as they were written, in
  order and with nothing left over, if each has a known type and at most 16 MiB of payload.
\<close>

theorem frames_roundtrip:
  assumes "list_all frame_ok fs"
  shows "read_items read_frame (length fs) (stream_of (sink_written (write_frames open_sink fs))) =
    (Inr (map Some fs), stream_of [])"
  using node_frames.read_items_stream_of [OF assms] write_frames_bytes [of open_sink fs]
  by (simp add: open_sink_def)

theorem frames_roundtrip_witness:
  "fst (read_items read_frame 2 (stream_of (sink_written (write_frames open_sink
     [\<lparr>frame_type = FrameControl, frame_payload = ''{}''\<rparr>, \<lparr>frame_type = FrameData, frame_payload = []\<rparr>])))) =
   Inr [Some \<lparr>frame_type = FrameControl, frame_payload = ''{}''\<rparr>, Some \<lparr>frame_type = FrameData, frame_payload = []\<rparr>]"
proof -
  let ?fs = "[\<lparr>frame_type = FrameControl, frame_payload = ''{}''\<rparr>, \<lparr>frame_type = FrameData, frame_payload = []\<rparr>]"
  have "list_all frame_ok ?fs" "length ?fs = 2" by (simp_all add: frame_ok_def unat_MaxPayload)
  from frames_roundtrip [OF this(1), unfolded this(2)] show ?thesis by simp
qed

text \<open>
  Messages of the guest agent's protocol survive the connection: whatever encodes to at
  most 4 MiB and decodes from its own encoding is read back, in order.
\<close>

theorem guest_messages_roundtrip:
  assumes "marshal msg = Some data" "length data \<le> unat maxMessageSize" "unmarshal data = Some msg"
  shows "fst (write_message marshal open_sink msg) = Inr () \<and>
    read_message unmarshal (stream_of (sink_written (snd (write_message marshal open_sink msg)) @ rest)) =
      (Inr msg, stream_of rest)"
  using read_message_bytes [where data = data and unmarshal = unmarshal and m = msg and r = "stream_of []" and rest = rest]
    assms(2,3) write_message_bytes [of open_sink marshal msg data] assms(1)
  by (simp add: open_sink_def stream_of_def)

theorem guest_messages_roundtrip_witness:
  "read_message Some (stream_of (sink_written (snd (write_message Some open_sink ''hi'')) @ ''x'')) = (Inr ''hi'', stream_of ''x'')"
  using guest_messages_roundtrip [of Some "''hi''" "''hi''" Some "''x''"] by (simp add: maxMessageSize_def)

section \<open>Terminal input\<close>

text \<open>
  On input without escape sequences the detach detector is the two-state scanner one
  expects: Ctrl+B followed by \<open>d\<close> detaches, Ctrl+B followed by another byte forwards both,
  and every other byte is forwarded as it comes.
\<close>

theorem detach_plain_input:
  assumes "ESC \<notin> set bs"
  shows "snd (FeedBuf NewDetachDetector bs) = legacy_scan bs"
  by (rule FeedBuf_legacy [OF _ assms]) (simp add: NewDetachDetector_def)

theorem detach_plain_input_witness:
  "snd (FeedBuf NewDetachDetector [CHR ''a'', CTRL_B, CHR ''x'', CTRL_B, CHR ''d'', CHR ''z'']) = (True, [CHR ''a'', CTRL_B, CHR ''x''])"
  by (subst detach_plain_input) simp_all

text \<open>
  The detach chord is recognised through terminal reports: after Ctrl+B any number of
  complete control sequences other than key events may arrive before \<open>d\<close>; they are forwarded
  and the client detaches.
\<close>

theorem detach_chord_through_reports:
  assumes "list_all terminal_csi ss"
  shows "snd (FeedBuf NewDetachDetector ([CTRL_B] @ concat ss @ CHR ''d'' # rest)) = (True, concat ss)"
proof -
  let ?p = "NewDetachDetector\<lparr>det_state := stateSawPrefix\<rparr>"
  have "Detector_Feed NewDetachDetector CTRL_B = (?p, False, [])"
    by (rule Feed_normal(2)) (simp add: NewDetachDetector_def)
  moreover have "snd (FeedBuf ?p (concat ss @ CHR ''d'' # rest)) = (True, concat ss)"
    by (rule FeedBuf_chord [OF _ _ assms]) (simp_all add: NewDetachDetector_def)
  ultimately show ?thesis using snd_FeedBuf_Cons(1) [of NewDetachDetector CTRL_B ?p "[]"] by simp
qed

theorem detach_chord_through_reports_witness:
  "snd (FeedBuf NewDetachDetector ([CTRL_B] @ concat [ESC # ''[I'', ESC # ''[12;3R''] @ CHR ''d'' # ''rest'')) =
     (True, concat [ESC # ''[I'', ESC # ''[12;3R''])"
proof -
  have "terminal_csi (ESC # ''[I'')" "terminal_csi (ESC # ''[12;3R'')"
    unfolding terminal_csi_def
    by (rule exI [of _ "[]"], rule exI [of _ "CHR ''I''"], simp add: csi_body_def)
      (rule exI [of _ "''12;3''"], rule exI [of _ "CHR ''R''"], simp add: csi_body_def)
  then show ?thesis by (intro detach_chord_through_reports) simp
qed

text \<open>
  The detector loses and invents nothing: as long as it has not detached and saw no Kitty
  encoding of Ctrl+B, the bytes it forwarded and those it still holds back are, as a multiset,
  the bytes it was given.
\<close>

theorem detach_conserves_input:
  assumes "FeedBuf NewDetachDetector bs = (d, False, out)" "kitty_free NewDetachDetector bs"
  shows "mset out + mset (held d) = mset bs"
  using FeedBuf_conserves [OF assms] by (simp add: held_def NewDetachDetector_def)

theorem detach_conserves_input_witness:
  "mset (snd (snd (FeedBuf NewDetachDetector [CTRL_B, CHR ''x'', CTRL_B]))) +
   mset (held (fst (FeedBuf NewDetachDetector [CTRL_B, CHR ''x'', CTRL_B]))) = mset [CTRL_B, CHR ''x'', CTRL_B]"
proof -
  have "FeedBuf NewDetachDetector [CTRL_B, CHR ''x'', CTRL_B] =
      (NewDetachDetector\<lparr>det_state := stateSawPrefix\<rparr>, False, [CTRL_B, CHR ''x''])"
    "kitty_free NewDetachDetector [CTRL_B, CHR ''x'', CTRL_B]"
    by (simp_all add: NewDetachDetector_def Detector_Feed_def kitty_prefix_def)
  from detach_conserves_input [OF this] this(1) show ?thesis by simp
qed

text \<open>
  How the input of an attached client is cut into reads does not matter: fed chunk by
  chunk until it detaches, the client ends in the same state and has sent the same bytes as
  when it is fed everything at once.
\<close>

theorem attached_input_chunks:
  "run_chunks attached_feed (False, NewDetachDetector) cs = attached_feed (False, NewDetachDetector) (concat cs)"
  by (rule attached.run_chunks_concat) (simp add: detector_ok_New)

section \<open>Terminal output\<close>

text \<open>
  \<open>StripANSI\<close> leaves no escape byte, only drops bytes and keeps the order of the others,
  leaves text without escapes alone, and has nothing left to do the second time.
\<close>

theorem StripANSI_spec:
  "ESC \<notin> set (StripANSI s) \<and> subseq (StripANSI s) s \<and> StripANSI (StripANSI s) = StripANSI s"
  by (simp add: StripANSI_no_ESC StripANSI_subseq StripANSI_idem)

text \<open>
  \<open>StripTerminalQueries\<close> removes exactly the complete sequences that are terminal queries:
  the sequences of its result are the other sequences of its input, in order.
\<close>

theorem StripTerminalQueries_spec:
  "sequences (StripTerminalQueries s) = filter (\<lambda>q. \<not> isTerminalQuery q) (sequences s) \<and>
   StripTerminalQueries (StripTerminalQueries s) = StripTerminalQueries s"
  by (simp add: sequences_StripTerminalQueries StripTerminalQueries_idem)

text \<open>
  How a program's output is cut into reads does not change what the query responder
  answers: the answers to the chunks, joined, are the answers to the whole output.
\<close>

theorem responder_chunks:
  "run_chunks Responder_Feed NewQueryAutoResponder cs = Responder_Feed NewQueryAutoResponder (concat cs)"
  by (rule responder.run_chunks_concat) (simp add: responder_ok_def NewQueryAutoResponder_def)

text \<open>
  Outside of a sequence, a complete control sequence changes the screen flag of the output
  tracker just when it sets or resets one of the alternate-screen modes, and leaves the tracker
  where text may be injected if that is the primary screen.
\<close>

theorem output_tracker_csi:
  assumes "os_state s = outputStateGround" "list_all out_param ps" "CHR 0x40 \<le> f" "f \<le> CHR 0x7E"
  shows "altScreen (OutputState_Feed s (ESC # CHR ''['' # ps @ [f])) =
      (if f \<in> {CHR ''h'', CHR ''l''} \<and> ps \<in> {''?1049'', ''?1047'', ''?47''} then f = CHR ''h'' else altScreen s) \<and>
    os_state (OutputState_Feed s (ESC # CHR ''['' # ps @ [f])) = outputStateGround"
  using Feed_csi [OF assms] assms(1) by (simp add: toggles_alt_def)

theorem output_tracker_csi_witness:
  "altScreen (OutputState_Feed NewOutputState (ESC # CHR ''['' # ''?1049'' @ [CHR ''h'']))"
  using output_tracker_csi [of NewOutputState "''?1049''" "CHR ''h''"]
  by (simp add: NewOutputState_def out_param_def)

text \<open>
  The result captured from a session's log, if there is one, has no escape byte, has at
  most the number of lines asked for, and does not end in a blank line.
\<close>

theorem captured_result:
  assumes "captureResult file n = Some r" "0 < n"
  shows "\<exists>ls. ls \<noteq> [] \<and> r = join_with [CHR 0x0A] ls \<and> length ls \<le> n \<and>
    trim_space (last ls) \<noteq> [] \<and> (\<forall>l \<in> set ls. ESC \<notin> set l)"
  using captureResult_lines [OF assms(1)] assms(2) by blast

theorem captured_result_witness:
  "\<exists>ls. ls \<noteq> [] \<and> ''ok'' = join_with [CHR 0x0A] ls \<and> length ls \<le> 5 \<and> trim_space (last ls) \<noteq> []"
proof -
  have "captureResult (Some (''ok'' @ [CHR 0x0A])) 5 = Some ''ok''"
  proof -
    have "StripANSI (last_n (64 * 1024) (''ok'' @ [CHR 0x0A])) = ''ok'' @ [CHR 0x0A]"
      by (simp add: last_n_def)
    moreover have "split_on (CHR 0x0A) (''ok'' @ [CHR 0x0A]) = [''ok'', []]" by simp
    moreover have "trim_space [] = []" "trim_space ''ok'' = ''ok''" by code_simp+
    ultimately show ?thesis by (simp add: captureResult_def Let_def)
  qed
  from captured_result [OF this] show ?thesis by auto
qed

section \<open>Credentials\<close>

text \<open>
  C13. A runtime credential that was signed is for the subject it was asked for, and verifies
  against the issuer's own bundle exactly while the clock is within 30 seconds of its life time
  and the bundle has not expired. Hypotheses: claims decode from their encoding, and the
  issuer's public key verifies what its private key signed.
\<close>

theorem signed_credential_window:
  assumes "SignRuntimeCredential crypto enc jti (Some st) kind subj now ttl = Inr (token, c)"
    and codec: "\<forall>payload. enc c = Some payload \<longrightarrow> dec payload = Some c"
    and pub: "b64_decode (is_PublicKey st) = Some pub" "length pub = 32"
    and keypair: "\<forall>priv payload. b64_decode (is_PrivateKey st) = Some priv \<longrightarrow>
        ed_verify crypto pub payload (ed_sign crypto priv payload)"
  shows "rt_SubjectKind c = kind \<and> rt_SubjectID c = subj \<and>
    (VerifyRuntimeCredential crypto dec token (Some (Bundle st t0 validity)) t = Inr c \<longleftrightarrow>
       t \<le> vb_ExpiresAt (Bundle st t0 validity) + seconds 30 \<and> now - seconds 30 \<le> t \<and>
       t \<le> now + (if ttl \<le> 0 then DefaultRuntimeTTL else ttl) + seconds 30)"
proof -
  let ?b = "Bundle st t0 validity"
  have signed: "sign_claims crypto enc RuntimeTokenPrefix st c = Inr (token, c)"
    and c: "c = \<lparr>rt_Kind = RuntimeKind, rt_NetworkID = ResolveNetworkID (is_NetworkID st),
               rt_SubjectKind = kind, rt_SubjectID = subj, rt_Issuer = is_Issuer st,
               rt_KeyID = is_KeyID st, rt_IssuedAt = now,
               rt_ExpiresAt = now + (if ttl \<le> 0 then DefaultRuntimeTTL else ttl), rt_JTI = jti\<rparr>"
    using assms(1) by (auto simp: SignRuntimeCredential_def Let_def dest: sign_claims_result(1) split: if_splits
        intro: sign_claims_same)
  have key: "find_key (vb_Keys ?b) (is_KeyID st) = Inr pub"
    using pub(1) by (simp add: Bundle_def)
  have "VerifyRuntimeCredential crypto dec token (Some ?b) t =
      (case check_claims RuntimeKind ?b t (rt_Kind c) (rt_NetworkID c) (rt_IssuedAt c) (rt_ExpiresAt c) of
         None \<Rightarrow> Inr c | Some err \<Rightarrow> Inl err)"
    by (rule runtime.verify_signed [OF signed _ key pub(2)]) (use codec keypair in \<open>simp_all add: runtime_view_def c\<close>)
  moreover have "(case x of None \<Rightarrow> Inr c | Some err \<Rightarrow> Inl err) = Inr c \<longleftrightarrow> x = None" for x :: "auth_error option"
    by (cases x) simp_all
  moreover have "ResolveNetworkID (vb_NetworkID ?b) = ResolveNetworkID (is_NetworkID st)"
    by (simp add: Bundle_def ResolveNetworkID_def trim_space_idem)
  ultimately show ?thesis
    by (simp add: check_claims_None maxClockSkew_def) (simp add: c)
qed

theorem signed_credential_window_witness:
  "VerifyRuntimeCredential demo_crypto (\<lambda>_. Some demo_runtime) (demo_token RuntimeTokenPrefix)
     (Some (Bundle demo_issuer 0 0)) 7 = Inr demo_runtime"
proof -
  have p: "b64_decode (is_PublicKey demo_issuer) = Some (replicate 32 (CHR ''p''))" "length (replicate 32 (CHR ''p'')) = 32"
    by (simp_all add: demo_issuer_def NewIssuerState_def b64_roundtrip)
  show ?thesis
    using signed_credential_window [OF demo_signed _ p, of "\<lambda>_. Some demo_runtime" 0 0 7] demo_bundle_fields(2)
    by (simp add: demo_crypto_def DefaultRuntimeTTL_def DefaultBundleValidity_def demo_bundle_def)
qed

text \<open>
  C14. A token is good for one kind of credential only: whatever the bundles, the clocks and
  the encodings of the claims, no token verifies as two of the three kinds.
\<close>

theorem credential_kinds_disjoint:
  "\<not> (VerifyRuntimeCredential crypto dr token b1 t1 = Inr cr \<and> VerifySenderDelegation crypto ds token b2 t2 = Inr cs) \<and>
   \<not> (VerifyRuntimeCredential crypto dr token b1 t1 = Inr cr \<and> VerifyObserverDelegation crypto dob token b2 t2 = Inr co) \<and>
   \<not> (VerifySenderDelegation crypto ds token b1 t1 = Inr cs \<and> VerifyObserverDelegation crypto dob token b2 t2 = Inr co)"
proof -
  have "RuntimeTokenPrefix \<noteq> SenderTokenPrefix" "RuntimeTokenPrefix \<noteq> ObserverTokenPrefix"
    "SenderTokenPrefix \<noteq> ObserverTokenPrefix"
    by (simp_all add: RuntimeTokenPrefix_def SenderTokenPrefix_def ObserverTokenPrefix_def)
  then show ?thesis using accepted_prefixes by metis
qed

text \<open>
  C15. A runtime credential admits one connection: after it was accepted, and whatever other
  credentials the node accepted or refused since then at earlier times, it is refused at every
  instant before its expiry plus the clock skew.
\<close>

theorem runtime_credential_once:
  assumes first: "authorizePeerRuntime crypto dec fetched t0 t1 t2 token n = (Inr p, n1)"
    and seen: "nd_runtimeSeen n = consume_all earlier (Some NewReplayCache)"
    and v: "VerifyRuntimeCredential crypto dec (trim_space token) (Some b) t1 = Inr claims"
    and meanwhile: "nd_runtimeSeen n2 = consume_all calls (nd_runtimeSeen n1)"
      "list_all (\<lambda>(k, n, j, e, now). now < rt_ExpiresAt claims + seconds 30) calls"
    and late: "t2' < rt_ExpiresAt claims + seconds 30"
  shows "\<exists>err. fst (authorizePeerRuntime crypto dec fetched' t0' t1' t2' token n2) = Inl err"
proof -
  obtain c where c: "nd_runtimeSeen n = Some c" "map_ok (rc_seen c)"
    using used_cache [of earlier] seen by metis
  show ?thesis
    by (rule runtime_once [OF first c _ meanwhile(1)])
      (use meanwhile(2) late runtime_claims_unique [OF v] in \<open>auto simp: maxClockSkew_def\<close>)
qed

theorem runtime_credential_once_witness:
  "\<exists>err. fst (authorizePeerRuntime demo_crypto (\<lambda>_. Some demo_runtime) None 0 5 5 (demo_token RuntimeTokenPrefix)
     demo_admitted_node) = Inl err"
  by (rule runtime_credential_once [OF demo_runtime_admitted, of "[]" demo_bundle demo_runtime _ "[]"])
    (simp_all add: demo_token_trim demo_verified consume_all_def demo_node_def demo_expires DefaultRuntimeTTL_def)

text \<open>
  The last instant is left open: exactly at expiry plus skew a credential still verifies
  but the replay cache has let go of it, so an accepted credential is accepted again.
\<close>

theorem runtime_credential_replayed_at_expiry:
  assumes first: "authorizePeerRuntime crypto dec fetched t0 t1 t2 token n = (Inr p, n1)"
    and seen: "nd_runtimeSeen n = consume_all earlier (Some NewReplayCache)"
    and loaded: "load_bundle fetched' t0' n1 = (Inr (Some b), n2)"
    and v: "VerifyRuntimeCredential crypto dec (trim_space token) (Some b) (rt_ExpiresAt claims + seconds 30) = Inr claims"
  shows "fst (authorizePeerRuntime crypto dec fetched' t0' (rt_ExpiresAt claims + seconds 30)
    (rt_ExpiresAt claims + seconds 30) token n1) = Inr p"
proof -
  obtain c where c: "nd_runtimeSeen n = Some c" "map_ok (rc_seen c)"
    using used_cache [of earlier] seen by metis
  from first obtain b1 cl where 1: "VerifyRuntimeCredential crypto dec (trim_space token) (Some b1) t1 = Inr cl"
    and net: "rt_NetworkID cl = relayNetworkID n"
    and p: "p = \<lparr>ap_NetworkID = rt_NetworkID cl, ap_SubjectKind = rt_SubjectKind cl, ap_SubjectID = rt_SubjectID cl\<rparr>"
    and used: "ConsumeRuntime (Some cl) t2 (nd_runtimeSeen n) = (Inr (), nd_runtimeSeen n1)"
    and same: "nd_config n1 = nd_config n"
    by (rule authorizePeerRuntime_result) auto
  have cl: "cl = claims" by (rule runtime_claims_unique [OF v 1])
  note F = load_bundle_frame [OF loaded]
  have "trim_space token \<noteq> []" using first by (auto simp: authorizePeerRuntime_def Let_def)
  moreover have "fst (ConsumeRuntime (Some claims) (rt_ExpiresAt claims + maxClockSkew) (nd_runtimeSeen n2)) = Inr ()"
    using replay_at_last_instant [of c "''runtime''" "rt_NetworkID claims" "rt_JTI claims" "rt_ExpiresAt claims" t2] used c F
    by (simp add: ConsumeRuntime_def cl cache_ok_def)
  moreover have "relayNetworkID n2 = relayNetworkID n"
    by (rule relayNetworkID_config) (use F same in simp)
  ultimately show ?thesis
    using v net by (auto simp: authorizePeerRuntime_def Let_def loaded p cl maxClockSkew_def split: sum.splits prod.splits)
qed

theorem runtime_credential_replayed_at_expiry_witness:
  "fst (authorizePeerRuntime demo_crypto (\<lambda>_. Some demo_runtime) None 0 (DefaultRuntimeTTL + seconds 30)
     (DefaultRuntimeTTL + seconds 30) (demo_token RuntimeTokenPrefix) demo_admitted_node) =
   Inr \<lparr>ap_NetworkID = ''net'', ap_SubjectKind = SubjectKindNode, ap_SubjectID = ''n2''\<rparr>"
proof -
  show ?thesis
    using runtime_credential_replayed_at_expiry [OF demo_runtime_admitted _ demo_load_admitted, of "[]" demo_runtime]
      demo_expiry_verified
    by (simp add: demo_expires demo_token_trim consume_all_def demo_node_def maxClockSkew_def)
qed

section \<open>Remote peers\<close>

text \<open>
  Valid peer requests that encode to at most 16 MiB and decode from their encoding are
  read back from the connection in order; and whatever the bytes on the connection, a request
  that is read is valid.
\<close>

theorem peer_requests_roundtrip:
  assumes "list_all (sendable PeerRequest_Validate enc dec) qs"
  shows "read_items (ReadRequest dec) (length qs) (stream_of (sink_written (write_valids PeerRequest_Validate enc open_sink qs))) =
      (Inr (map Some qs), stream_of []) \<and>
    (\<forall>s q s'. ReadRequest dec s = (Inr (Some q), s') \<longrightarrow> PeerRequest_Validate q = None)"
proof -
  have "sink_written (write_valids PeerRequest_Validate enc open_sink qs) =
      concat (map (\<lambda>v. message_frame (the (enc v))) qs)"
    using write_valids_bytes [OF assms, of open_sink] by (simp add: open_sink_def)
  with peer_messages.read_items_stream_of [OF assms] show ?thesis
    by (auto simp: ReadRequest_def intro: read_valid_sound)
qed

theorem peer_requests_roundtrip_witness:
  "fst (read_items (ReadRequest (\<lambda>_. Some (demo_request_of ''MsgSend'' []))) 1
     (stream_of (sink_written (write_valids PeerRequest_Validate (\<lambda>_. Some ''q'') open_sink [demo_request_of ''MsgSend'' []]))))
   = Inr [Some (demo_request_of ''MsgSend'' [])]"
proof -
  have "PeerRequest_Validate (demo_request_of ''MsgSend'' []) = None"
    by (simp add: PeerRequest_Validate_def demo_request_of_def validate_kind_def require_locator_def
        optional_locator_def Locator_Validate_def)
  then have "list_all (sendable PeerRequest_Validate (\<lambda>_. Some ''q'') (\<lambda>_. Some (demo_request_of ''MsgSend'' [])))
      [demo_request_of ''MsgSend'' []]"
    by (simp add: sendable_def unat_MaxPayload)
  from peer_requests_roundtrip [OF this] show ?thesis by simp
qed

text \<open>
  C16. A connection is served only after its runtime credential was verified for the node's own
  network and used up; its principal is the subject of that credential. Otherwise it is dropped,
  and no session has changed either way.
\<close>

theorem connection_authenticated:
  "case authenticateConn (node_server crypto cc n0) i hello n of ((ack, served), n') \<Rightarrow>
     nd_Manager n' = nd_Manager n \<and>
     (served = None \<or>
      (\<exists>h b claims. hello = Inr (Some h) \<and>
        VerifyRuntimeCredential crypto (cc_runtime cc) (trim_space (ah_RuntimeCredential h)) (Some b) (pi_t1 i) = Inr claims \<and>
        rt_NetworkID claims = relayNetworkID n \<and>
        ConsumeRuntime (Some claims) (pi_t2 i) (nd_runtimeSeen n) = (Inr (), nd_runtimeSeen n') \<and>
        served = Some (Some \<lparr>ap_NetworkID = rt_NetworkID claims, ap_SubjectKind = rt_SubjectKind claims,
          ap_SubjectID = rt_SubjectID claims\<rparr>)))"
proof -
  obtain ack served n' where a: "authenticateConn (node_server crypto cc n0) i hello n = ((ack, served), n')"
    by (metis prod.collapse)
  have "nd_Manager n' = nd_Manager n" using authenticateConn_same [OF a] by simp
  moreover have "served = None \<or> (\<exists>h b claims. hello = Inr (Some h) \<and>
        VerifyRuntimeCredential crypto (cc_runtime cc) (trim_space (ah_RuntimeCredential h)) (Some b) (pi_t1 i) = Inr claims \<and>
        rt_NetworkID claims = relayNetworkID n \<and>
        ConsumeRuntime (Some claims) (pi_t2 i) (nd_runtimeSeen n) = (Inr (), nd_runtimeSeen n') \<and>
        served = Some (Some \<lparr>ap_NetworkID = rt_NetworkID claims, ap_SubjectKind = rt_SubjectKind claims,
          ap_SubjectID = rt_SubjectID claims\<rparr>))"
    using a by (cases served) (auto elim!: authenticateConn_served)
  ultimately show ?thesis by (simp add: a)
qed

text \<open>
  C17. A remote message is delivered only with a sender delegation that was verified, is for
  this network and for this node or any node, and allows the verb; and only if the session that
  receives it has no name, or its groups bind nothing, or one of them is open, or the sender's
  delegation names one of them. Any other request gets an error and no session changes.
\<close>

theorem remote_send_authorized:
  assumes reach: "mgr_reachable js' (start_manager file nameHook exitHook forward) (nd_Manager n)"
    and send: "handleMsgSend js (node_server crypto cc n0) i req n = (r, n')"
  shows "ps_Type r = ''Error'' \<and> nd_Manager n' = nd_Manager n \<or>
    ps_Type r = ''MsgSent'' \<and> (\<exists>toID label claims b. resolveLocal (node_server crypto cc n0) (pq_To req) (nd_Manager n) = Inr toID \<and>
      VerifySenderDelegation crypto (cc_sender cc) (pq_SenderCap req) (Some b) (pi_t1 i) = Inr claims \<and>
      sd_NetworkID claims = relayNetworkID n \<and> sd_AudienceNode claims \<in> {[], nc_NodeName (nd_config n)} \<and>
      (\<exists>v \<in> set (sd_Verbs claims). trim_space v = ''msg'') \<and> sender_label claims = Some label \<and>
      SendRemoteMessage js (pi_messageID i) (pi_now i) label toID (pq_Body req) (nd_Manager n) =
        (Inr (ps_MessageID r), nd_Manager n') \<and>
      (let name = trim_space (GetName toID (nd_Manager n)); bs = fetchGroupBindings (pi_bindings i) name n in
        name = [] \<or> bs = [] \<or> (\<exists>g \<in> set bs. gb_MessagesPolicy g = GroupMessagesOpen) \<or>
        (\<exists>g \<in> set bs. \<exists>sg \<in> set (sd_SourceGroups claims). trim_space sg = trim_space (gb_GroupName g) \<and> trim_space sg \<noteq> [])))"
proof (cases "ps_Type r = ''MsgSent''")
  case True
  have names: "names_ok (nd_Manager n)"
    using mgr_reachable_ok [OF reach mgr_ok_start] by (simp add: mgr_ok_def)
  obtain toID s claims where 1: "resolveLocal (node_server crypto cc n0) (pq_To req) (nd_Manager n) = Inr toID"
    and 2: "admitted crypto cc i ''msg'' req n claims s"
    and 3: "authorizePeerDelivery (pi_bindings i) (Some s) (pq_To req) ''msg'' n = None"
    and 4: "SendRemoteMessage js (pi_messageID i) (pi_now i) (as_DisplayName s) toID (pq_Body req) (nd_Manager n) =
        (Inr (ps_MessageID r), nd_Manager n')"
    by (rule handleMsgSend_sent [OF send True])
  obtain b lo where b: "VerifySenderDelegation crypto (cc_sender cc) (pq_SenderCap req) (Some b) (pi_t1 i) = Inr claims"
    "sender_label claims = Some (as_DisplayName s)" "as_SourceGroups s = sd_SourceGroups claims"
    and c: "check_sender claims ''msg'' lo n = None"
    using 2 by (auto simp: admitted_def)
  have "let name = trim_space (GetName toID (nd_Manager n)); bs = fetchGroupBindings (pi_bindings i) name n in
        name = [] \<or> bs = [] \<or> (\<exists>g \<in> set bs. gb_MessagesPolicy g = GroupMessagesOpen) \<or>
        (\<exists>g \<in> set bs. \<exists>sg \<in> set (sd_SourceGroups claims). trim_space sg = trim_space (gb_GroupName g) \<and> trim_space sg \<noteq> [])"
    using delivery_target [OF names 1 3] by (simp add: enforceGroupBindings_None Let_def b(3))
  with True 1 4 b(1,2) check_sender_None(1,3,4) [OF c, unfolded demo_trims]
  show ?thesis by - (rule disjI2, intro conjI exI; assumption)
qed (use handleMsgSend_refused [OF send] in blast)

theorem remote_send_authorized_witness:
  "ps_Type (fst (handleMsgSend (\<lambda>e. Some ''{}'') demo_server demo_inputs (demo_request_of ''MsgSend'' []) (demo_node demo_named))) = ''MsgSent''"
proof -
  note sent = demo_send
  have n: "nd_Manager (demo_node demo_named) = demo_named" by (simp add: demo_node_def)
  obtain r n' where r: "handleMsgSend (\<lambda>e. Some ''{}'') demo_server demo_inputs (demo_request_of ''MsgSend'' []) (demo_node demo_named) = (r, n')"
    by (metis prod.collapse)
  from remote_send_authorized [of _ None None True False "demo_node demo_named", OF _ r [unfolded demo_server_def]]
    demo_named_reachable sent r n
  show ?thesis by (auto simp: demo_start_def)
qed

text \<open>
  C18. A remote read of messages changes nothing. It is served only with an observer grant that
  was verified, is for this network, this node and the authenticated peer, and allows the verb;
  the session that is read is the session the grant names, by number and by name; and the
  messages returned carry no reply token.
\<close>

theorem remote_read_authorized:
  assumes reach: "mgr_reachable js (start_manager file nameHook exitHook forward) (nd_Manager n)"
    and read: "handleMsgRead un (node_server crypto cc n0) i po req n = (r, n')"
  shows "nd_Manager n' = nd_Manager n \<and> (ps_Type r = ''Error'' \<or>
    ps_Type r = ''MsgReadResult'' \<and> (\<exists>claims b p k.
      VerifyObserverDelegation crypto (cc_observer cc) (pq_ObserverCap req) (Some b) (pi_t1 i) = Inr claims \<and>
      og_NetworkID claims = relayNetworkID n \<and> og_TargetNode claims = nc_NodeName (nd_config n) \<and>
      po = Some p \<and> og_AudienceSubjectKind claims = ap_SubjectKind p \<and> og_AudienceSubjectID claims = ap_SubjectID p \<and>
      (\<exists>v \<in> set (og_Verbs claims). trim_space v = ''msg.read'') \<and>
      resolveLocal (node_server crypto cc n0) (pq_Session req) (nd_Manager n) = Inr k \<and>
      og_SessionID claims \<in> {None, Some k} \<and>
      (og_SessionName claims \<noteq> [] \<longrightarrow>
        GetName k (nd_Manager n) \<in> {og_SessionName claims, trim_prefix (og_SessionName claims) ''@''}) \<and>
      (\<forall>msg \<in> set (ps_Messages r). mr_ReplyToken msg = [])))"
proof (cases "ps_Type r = ''Error''")
  case False
  have names: "names_ok (nd_Manager n)"
    using mgr_reachable_ok [OF reach mgr_ok_start] by (simp add: mgr_ok_def)
  have ty: "ps_Type r = ''MsgReadResult''" using handleMsgRead_type [OF read] False by simp
  obtain claims k events where 1: "observes crypto cc i po ''msg.read'' req n claims"
    and 2: "resolveLocal (node_server crypto cc n0) (pq_Session req) (nd_Manager n) = Inr k"
    and 3: "ps_Messages r = List.map_filter eventToMessageResponse events"
    by (rule handleMsgRead_served [OF read ty])
  have "matchObserverSession (pq_Session req) claims n = None" using 1 by (simp add: observes_def)
  note G = granted_session [OF names 2 this]
  have "\<forall>msg \<in> set (ps_Messages r). mr_ReplyToken msg = []"
    by (auto simp: 3 List.map_filter_def message_hides_token)
  with 1 2 ty G handleMsgRead_same [OF read] show ?thesis unfolding observes_def by blast
qed (use handleMsgRead_same [OF read] in simp)

theorem remote_read_authorized_witness:
  "\<exists>k. resolveLocal demo_server (Some \<lparr>loc_Node = [], loc_ID = None, loc_Name = ''web''\<rparr>) demo_named = Inr k \<and>
     GetName k demo_named = ''web''"
proof -
  let ?q = "demo_request_of ''MsgRead'' []"
  have n: "nd_Manager (demo_node demo_named) = demo_named" by (simp add: demo_node_def)
  have q: "pq_Session ?q = Some \<lparr>loc_Node = [], loc_ID = None, loc_Name = ''web''\<rparr>"
    "pq_ObserverCap ?q = demo_token ObserverTokenPrefix"
    by (simp_all add: demo_request_of_def)
  obtain r n' where r: "handleMsgRead (\<lambda>_. None) demo_server demo_inputs (Some demo_peer) ?q (demo_node demo_named) = (r, n')"
    by (metis prod.collapse)
  have "ps_Type r \<noteq> ''Error''" using demo_read r by simp
  moreover have "mgr_reachable (\<lambda>e. Some ''{}'') (start_manager None None True False) (nd_Manager (demo_node demo_named))"
    using demo_named_reachable by (simp add: n demo_start_def)
  ultimately obtain claims b k where
    v: "VerifyObserverDelegation demo_crypto (cc_observer demo_codec) (pq_ObserverCap ?q) (Some b) (pi_t1 demo_inputs) = Inr claims"
    and k: "resolveLocal demo_server (pq_Session ?q) (nd_Manager (demo_node demo_named)) = Inr k"
    "og_SessionName claims \<noteq> [] \<longrightarrow> GetName k (nd_Manager (demo_node demo_named)) \<in>
       {og_SessionName claims, trim_prefix (og_SessionName claims) ''@''}"
    using remote_read_authorized [OF _ r [unfolded demo_server_def]] unfolding demo_server_def by blast
  have "og_SessionName claims = ''web''"
    using demo_claims [OF v [unfolded q(2)]] by (simp add: demo_observer_def)
  with k show ?thesis by (simp add: n q(1) trim_prefix_def)
qed

text \<open>
  The check of a remote reply leaves the sender's node out: a session of another node,
  with a valid delegation for \<open>reply\<close>, answers a request that was addressed to the session of
  this node that happens to have the same number, and the requester gets that reply as the
  addressed session's.
\<close>

theorem foreign_session_reply_accepted:
  assumes reach: "mgr_reachable js' (start_manager file nameHook exitHook forward) (nd_Manager n)"
    and auth: "authorizeSender (node_server crypto cc n0) i ''reply'' req n = (Inr (Some s), n1)"
    and foreign: "pq_From req = Some sender" "loc_Node sender \<noteq> nc_NodeName (nd_config n)"
    and number: "as_SessionID s = Some k" "k \<noteq> 0"
    and pending: "mget (mgr_pendingRequests (nd_Manager n)) (pq_RequestID req) = Some p" "pr_allowedReplierSessionID p = k"
  shows "\<exists>n'. handleMsgReply js (node_server crypto cc n0) i req n =
      ((empty_response (pq_OpID req) ''MsgReplySent'')\<lparr>ps_RequestID := pq_RequestID req\<rparr>, n') \<and>
    (\<exists>x. ch_items (mgr_replyChs (nd_Manager n') ! pr_replyCh p) = [x] \<and> rp_From x = k \<and> rp_Body x = pq_Body req)"
proof -
  have "replies_ok (nd_Manager n)"
    using mgr_reachable_ok [OF reach mgr_ok_start] by (simp add: mgr_ok_def)
  from reply_commit_effect(3) [OF this pending(1) refl, of js "pi_now i" k "as_DisplayName s" "pq_Body req" False]
    handleMsgReply_accepted [OF auth number pending, of js]
  show ?thesis by auto
qed

theorem foreign_session_reply_accepted_witness:
  "fst (handleMsgReply (\<lambda>e. Some ''{}'') demo_server demo_inputs demo_reply_request (demo_node demo_requested)) =
     (empty_response ''op'' ''MsgReplySent'')\<lparr>ps_RequestID := ''req_1''\<rparr>"
proof -
  obtain n1 where a: "authorizeSender (node_server demo_crypto demo_codec (demo_node demo_manager)) demo_inputs ''reply''
      demo_reply_request (demo_node demo_requested) = (Inr (Some demo_authorized), n1)"
    using demo_reply_authorized by blast
  have "mgr_reachable (\<lambda>e. Some ''{}'') (start_manager None None True False) (nd_Manager (demo_node demo_requested))"
    using demo_requested_reachable by (simp add: demo_start_def demo_node_def)
  from foreign_session_reply_accepted [OF this a, of _ 1 "\<lparr>pr_replyCh = 0, pr_replyToken = ''rpl_1'',
      pr_allowedReplierSessionID = 1, pr_allowedReplierSessionName = []\<rparr>" "\<lambda>e. Some ''{}''"] demo_pending
  show ?thesis
    by (auto simp: demo_server_def demo_reply_request_def demo_request_of_def demo_node_def demo_authorized_def)
qed

section \<open>The node\<close>



text \<open>
  A session's counter of attached clients is the number of open connections attached to it,
  whatever ended the other ones (a failed write, a detach request, a closed connection, the end
  of the session), and the session is listed as attached exactly when there is one.
\<close>

theorem attached_clients_counted:
  assumes "node_run js un pd st0 (st, cs)"
    "st0 = \<lparr>ns_node = n\<lparr>nd_Manager := start_manager file nameHook exitHook forward\<rparr>, ns_kv = kv\<rparr>"
    "session_of (ns_mgr st) i = Some s" "length cs < 2 ^ 31"
  shows "sess_attachedCount s = of_nat (clients_of i cs) \<and>
    (si_Attached (buildSessionInfo now s) \<longleftrightarrow> 0 < clients_of i cs)"
proof -
  have "counted (st, cs)" by (rule node_run_counted [OF assms(1)]) (simp only: assms(2) counted_start)
  then have c: "sess_attachedCount s = of_nat (clients_of i cs)"
    using assms(3) unfolding counted_def attached_count_def fst_conv snd_conv by (metis option.simps(5))
  have "clients_of i cs < 2 ^ 31"
    unfolding clients_of_def by (rule le_less_trans [OF length_filter_le assms(4)])
  then have "sint (sess_attachedCount s) = int (clients_of i cs)"
    unfolding c by (rule sint_count)
  with c show ?thesis by (simp add: buildSessionInfo_def Let_def)
qed

theorem attached_clients_counted_witness:
  "\<exists>s. session_of demo_attached 1 = Some s \<and> sess_attachedCount s = 1 \<and> si_Attached (buildSessionInfo 0 s)"
proof -
  have s0: "demo_ns demo_start = \<lparr>ns_node = (demo_node demo_start)\<lparr>nd_Manager := start_manager None None True False\<rparr>,
      ns_kv = NewKVStore\<rparr>"
    by (simp add: demo_ns_def demo_node_def demo_start_def)
  have "clients_of 1 [Closed, Attached 1 0 0] = 1" by (simp add: clients_of_def)
  with attached_clients_counted [OF demo_run_attached [where un = "\<lambda>b. None" and pd = "\<lambda>s. None"] s0, of 1 _ 0]
  show ?thesis using demo_attached_session by auto
qed



text \<open>
  An attached or watching client can miss the end of its session for good: if it takes a
  chunk of output in the round after the status changed, its next rounds find no status change,
  until the session is killed or its process exits (again).
\<close>

theorem end_missed_by_clients:
  assumes "node_run js un pd st0 (st, cs)" "ns_mgr st0 = start_manager file nameHook exitHook forward"
    "ns_kv st0 = NewKVStore"
    "loop_step now lp (OutputReady True) st = Some (out, lp', st')"
    "runs js (\<lambda>op. \<not> ending op) (ns_mgr st') (ns_mgr st2)"
  shows "loop_step now2 lp' StatusChanged st2 = None"
proof -
  have "sessions_ok (ns_mgr st)" by (rule node_run_parts [OF assms(1-3)])
  from end_unseen [OF assms(4) this assms(5)] show ?thesis .
qed

theorem end_missed_by_clients_witness:
  "\<exists>out lp' st'. loop_step 9 (Attached 1 0 0) StatusChanged (demo_ns demo_exited) \<noteq> None \<and>
     loop_step 9 (Attached 1 0 0) (OutputReady True) (demo_ns demo_exited) = Some (out, lp', st') \<and>
     loop_step 9 lp' StatusChanged st' = None"
proof -
  obtain out lp' st' where o: "loop_step 9 (Attached 1 0 0) (OutputReady True) (demo_ns demo_exited) = Some (out, lp', st')"
    by (simp add: loop_step_def handleAttachSession_def demo_output_next attach_again_def Let_def)
  have start: "ns_mgr (demo_ns demo_start) = start_manager None None True False" by (simp add: demo_start_def)
  from end_missed_by_clients [OF demo_run_exited [where un = "\<lambda>b. None" and pd = "\<lambda>s. None"] start _ o, of st' 9]
  show ?thesis using o demo_exit_ready by auto
qed

text \<open>
  The requests that panic the node, and no others: \<open>Logs\<close>, \<open>Attach\<close> and \<open>WatchSession\<close>
  of a session with a non-empty log, with a number of lines that is negative as a signed 64-bit
  number (and, for the last two, with the history not declined).
\<close>

theorem requests_that_panic:
  "handleClient js un parse_duration h req st = None \<longleftrightarrow>
     (q_Type req = ''Logs'' \<and> (\<exists>i. q_ID req = Some i \<and> logged i (ns_mgr st)) \<and> negative_lines (q_Tail req)) \<or>
     (q_Type req = ''Attach'' \<and>
       (\<exists>i k. q_ID req = Some i \<and> fst (Attach i (ns_mgr st)) = Inr k \<and> logged i (ns_mgr st)) \<and>
       wants_history req \<and> negative_lines (q_HistoryLines req)) \<or>
     (q_Type req = ''WatchSession'' \<and> (\<exists>i. q_ID req = Some i \<and> logged i (ns_mgr st)) \<and>
       wants_history req \<and> negative_lines (q_HistoryLines req))"
  by (simp add: handleClient_None serve_logs_None serve_attach_None serve_watch_None)

end
